(* ===== verification/Prelude.thy ===== *)
theory Prelude imports "HOL-Library.Word" begin

text \<open>
  What every component of the model shares: the machine-integer types of the
  Rust code, little-endian byte splitting and joining, the casts the code
  writes with \<open>as\<close>, and the word lemmas the component proofs rest on.
  Arithmetic on these types wraps, as the code does when it is built with
  \<open>cargo build --release\<close> (the only build the repository documents for running
  the emulator).
\<close>

unbundle bit_operations_syntax

section \<open>Machine integers\<close>

type_synonym u8 = "8 word"
type_synonym u16 = "16 word"
type_synonym u32 = "32 word"
type_synonym u64 = "64 word"
type_synonym u128 = "128 word"
type_synonym usize = "64 word"

named_theorems frame_simps \<open>state components an operation leaves alone\<close>
named_theorems wf_intros \<open>operations that preserve a well-formedness invariant\<close>

text \<open>\<open>b as u8\<close> for a boolean.\<close>

definition bool_to :: "bool \<Rightarrow> 'a::len word" where
  "bool_to b = (if b then 1 else 0)"

lemma bool_to_simps [simp]: "bool_to True = 1" "bool_to False = 0"
  by (simp_all add: bool_to_def)

lemma bit_bool_to [simp]: "bit (bool_to b :: 'a::len word) n \<longleftrightarrow> b \<and> n = 0"
  by (simp add: bool_to_def bit_1_iff)

section \<open>Bits and masks\<close>

text \<open>
  Bit tests of the code have the form \<open>val & MASK != 0\<close>; the lemmas turn the
  one-bit masks into \<open>bit\<close>, and low masks into \<open>take_bit\<close>.
\<close>

lemma and_pow2_nonzero: "n < LENGTH('a) \<Longrightarrow> (v AND 2 ^ n \<noteq> 0) \<longleftrightarrow> bit v n" for v :: "'a::len word"
  by (metis and_exp_eq_0_iff_not_bit)

lemma bit_and_not_pow2:
  "bit (v AND NOT (2 ^ n)) k \<longleftrightarrow> bit v k \<and> k \<noteq> n" for v :: "'a::len word"
  by (auto simp: bit_simps dest: bit_imp_le_length)

lemma and_mask_lt: "n < LENGTH('a) \<Longrightarrow> v AND mask n < 2 ^ n" for v :: "'a::len word"
  by (simp add: and_mask_less_size word_size)

lemma unat_and_mask: "unat (v AND mask n) = unat v mod 2 ^ n" for v :: "'a::len word"
proof -
  have "unat (v AND mask n) = take_bit n (unat v)"
    by (simp add: take_bit_eq_mask [symmetric] unsigned_take_bit_eq)
  then show ?thesis by (simp only: take_bit_eq_mod)
qed

lemma and_mask_numeral_unat:
  "m = mask n \<Longrightarrow> unat (v AND m) = unat v mod 2 ^ n" for v :: "'a::len word"
  by (simp add: unat_and_mask)

lemma unat_lt8: "unat (a :: u8) < 256" and unat_lt16: "unat (b :: u16) < 65536"
  and unat_lt32: "unat (c :: u32) < 4294967296" and unat_lt64: "unat (d :: u64) < 2 ^ 64"
  using unsigned_less [where 'b = 8, of a] unsigned_less [where 'b = 16, of b]
    unsigned_less [where 'b = 32, of c] unsigned_less [where 'b = 64, of d] by simp_all

text \<open>Widening casts keep the value.\<close>

lemma unat_ucast_up:
  "LENGTH('a) \<le> LENGTH('b) \<Longrightarrow> unat (ucast (a :: 'a::len word) :: 'b::len word) = unat a"
proof -
  assume l: "LENGTH('a) \<le> LENGTH('b)"
  have "unat a < 2 ^ LENGTH('a)" by (rule unsigned_less)
  also have "\<dots> \<le> 2 ^ LENGTH('b)" using l by (intro power_increasing) simp_all
  finally show ?thesis by (simp add: unsigned_ucast_eq take_bit_eq_mod)
qed

lemma unat_ucast_wide:
  "unat (ucast (a :: u8) :: u16) = unat a" "unat (ucast (a :: u8) :: u32) = unat a"
  "unat (ucast (a :: u8) :: u64) = unat a" "unat (ucast (b :: u16) :: u32) = unat b"
  "unat (ucast (b :: u16) :: u64) = unat b" "unat (ucast (c :: u32) :: u64) = unat c"
  by (simp_all add: unat_ucast_up)

section \<open>Additions that do not wrap\<close>

lemma unat_add_nowrap:
  "unat a + unat b < 2 ^ LENGTH('a) \<Longrightarrow> unat (a + b) = unat a + unat b" for a b :: "'a::len word"
  by (simp add: unat_word_ariths)

lemma unat_add_of_nat64:
  "unat a + n < 2 ^ 64 \<Longrightarrow> unat (a + of_nat n) = unat a + n" for a :: u64
proof -
  assume a: "unat a + n < 2 ^ 64"
  then have "n < 2 ^ LENGTH(64)" by simp
  then have "unat (of_nat n :: u64) = n"
    by (simp only: unat_of_nat mod_less)
  then show ?thesis using a by (subst unat_add_nowrap) simp_all
qed

lemma unat_add_numeral64:
  "unat a + numeral k < 2 ^ 64 \<Longrightarrow> unat (a + numeral k) = unat a + numeral k" for a :: u64
  using unat_add_of_nat64 [of a "numeral k"] by (simp only: of_nat_numeral)

lemma unat_add_one64:
  "unat a + 1 < 2 ^ 64 \<Longrightarrow> unat (a + 1) = unat a + 1" for a :: u64
  by (simp add: unat_add_nowrap)

lemmas unat_add64 = unat_add_numeral64 unat_add_one64

end
