(* ===== verification/Softfloat.thy ===== *)
theory Softfloat imports Prelude begin

text \<open>
  The host floating point the code uses: Rust's \<open>f32\<close> and \<open>f64\<close> are IEEE 754
  binary32 and binary64 with round-to-nearest-even. A float is its bit pattern;
  an operation unpacks to an integer times a power of two, computes exactly and
  rounds once. Where the standard leaves the bits of a NaN result open, the
  model answers the default quiet NaN.
\<close>

unbundle bit_operations_syntax

section \<open>Values\<close>

datatype fval = NaN | Infinite bool | Finite bool nat int

text \<open>A format: fraction bits and exponent bits.\<close>

type_synonym ffmt = "nat \<times> nat"

definition fmt32 :: ffmt where "fmt32 = (23, 8)"
definition fmt64 :: ffmt where "fmt64 = (52, 11)"

definition fbias :: "nat \<Rightarrow> int" where "fbias w = 2 ^ (w - 1) - 1"

definition unpack :: "ffmt \<Rightarrow> nat \<Rightarrow> fval" where
  "unpack f x =
     (case f of (p, w) \<Rightarrow>
       (let s = odd (x div 2 ^ (p + w)); e = x div 2 ^ p mod 2 ^ w; m = x mod 2 ^ p in
        if e = 2 ^ w - 1 then (if m = 0 then Infinite s else NaN)
        else if e = 0 then Finite s m (1 - fbias w - int p)
        else Finite s (2 ^ p + m) (int e - fbias w - int p)))"

text \<open>The number of bits of a mantissa.\<close>

fun bit_length :: "nat \<Rightarrow> nat" where
  "bit_length n = (if n = 0 then 0 else Suc (bit_length (n div 2)))"

declare bit_length.simps [simp del]

text \<open>\<open>n\<close> divided by \<open>2 ^ k\<close>, to the nearest, ties to even.\<close>

definition round_even :: "nat \<Rightarrow> nat \<Rightarrow> nat" where
  "round_even n k =
     (if k = 0 then n
      else
        (let m = n div 2 ^ k; r = n mod 2 ^ k; half = 2 ^ (k - 1)
         in if r > half \<or> (r = half \<and> odd m) then m + 1 else m))"

definition sign_bit :: "ffmt \<Rightarrow> bool \<Rightarrow> nat" where
  "sign_bit f s = (case f of (p, w) \<Rightarrow> if s then 2 ^ (p + w) else 0)"

text \<open>Round \<open>n * 2 ^ q\<close> into the format.\<close>

definition pack :: "ffmt \<Rightarrow> bool \<Rightarrow> nat \<Rightarrow> int \<Rightarrow> nat" where
  "pack f s n q =
     (case f of (p, w) \<Rightarrow>
       (let qt = max (q + int (bit_length n) - int (p + 1)) (1 - fbias w - int p);
            m = (if qt \<le> q then n * 2 ^ nat (q - qt) else round_even n (nat (qt - q)));
            (m, qt) = (if m = 2 ^ (p + 1) then (2 ^ p, qt + 1) else (m, qt));
            e = (if m < 2 ^ p then 0 else nat (qt + fbias w + int p))
        in sign_bit f s + (if e \<ge> 2 ^ w - 1 then (2 ^ w - 1) * 2 ^ p
                           else e * 2 ^ p + (if e = 0 then m else m - 2 ^ p))))"

definition qnan :: "ffmt \<Rightarrow> nat" where "qnan f = (case f of (p, w) \<Rightarrow> (2 ^ w - 1) * 2 ^ p + 2 ^ (p - 1))"

definition infinity :: "ffmt \<Rightarrow> bool \<Rightarrow> nat" where
  "infinity f s = (case f of (p, w) \<Rightarrow> sign_bit f s + (2 ^ w - 1) * 2 ^ p)"

section \<open>Arithmetic\<close>

definition signed_at :: "bool \<Rightarrow> nat \<Rightarrow> int \<Rightarrow> int \<Rightarrow> int" where
  "signed_at s n q q' = (if s then - 1 else 1) * (int n * 2 ^ nat (q - q'))"

definition float_add :: "ffmt \<Rightarrow> fval \<Rightarrow> fval \<Rightarrow> nat" where
  "float_add f a b =
     (case (a, b) of
        (Finite s m q, Finite s' m' q') \<Rightarrow>
          (let lo = min q q'; v = signed_at s m q lo + signed_at s' m' q' lo
           in if v = 0 then sign_bit f (m = 0 \<and> m' = 0 \<and> s \<and> s') else pack f (v < 0) (nat \<bar>v\<bar>) lo)
      | (Infinite s, Finite _ _ _) \<Rightarrow> infinity f s
      | (Finite _ _ _, Infinite s) \<Rightarrow> infinity f s
      | (Infinite s, Infinite s') \<Rightarrow> if s = s' then infinity f s else qnan f
      | _ \<Rightarrow> qnan f)"

definition float_neg :: "fval \<Rightarrow> fval" where
  "float_neg a = (case a of NaN \<Rightarrow> NaN | Infinite s \<Rightarrow> Infinite (\<not> s) | Finite s m q \<Rightarrow> Finite (\<not> s) m q)"

definition float_mul :: "ffmt \<Rightarrow> fval \<Rightarrow> fval \<Rightarrow> nat" where
  "float_mul f a b =
     (case (a, b) of
        (Finite s m q, Finite s' m' q') \<Rightarrow>
          (if m * m' = 0 then sign_bit f (s \<noteq> s') else pack f (s \<noteq> s') (m * m') (q + q'))
      | (Infinite s, Finite s' m _) \<Rightarrow> if m = 0 then qnan f else infinity f (s \<noteq> s')
      | (Finite s m _, Infinite s') \<Rightarrow> if m = 0 then qnan f else infinity f (s \<noteq> s')
      | (Infinite s, Infinite s') \<Rightarrow> infinity f (s \<noteq> s')
      | _ \<Rightarrow> qnan f)"

text \<open>
  The quotient is computed to \<open>p + 4\<close> bits below the leading one, with the last
  bit set when the division leaves a remainder, so that one rounding is exact.
\<close>

definition float_div :: "ffmt \<Rightarrow> fval \<Rightarrow> fval \<Rightarrow> nat" where
  "float_div f a b =
     (case (a, b) of
        (Finite s m q, Finite s' m' q') \<Rightarrow>
          (if m' = 0 then (if m = 0 then qnan f else infinity f (s \<noteq> s'))
           else if m = 0 then sign_bit f (s \<noteq> s')
           else
             (let k = bit_length m' + fst f + 4; n = m * 2 ^ k; d = n div m'
              in pack f (s \<noteq> s') (2 * d + (if n mod m' = 0 then 0 else 1)) (q - q' - int k - 1)))
      | (Infinite s, Finite s' _ _) \<Rightarrow> infinity f (s \<noteq> s')
      | (Finite s _ _, Infinite s') \<Rightarrow> sign_bit f (s \<noteq> s')
      | _ \<Rightarrow> qnan f)"

section \<open>Conversions\<close>

definition float_convert :: "ffmt \<Rightarrow> fval \<Rightarrow> nat" where
  "float_convert f a =
     (case a of NaN \<Rightarrow> qnan f | Infinite s \<Rightarrow> infinity f s
      | Finite s m q \<Rightarrow> if m = 0 then sign_bit f s else pack f s m q)"

definition float_of_int :: "ffmt \<Rightarrow> int \<Rightarrow> nat" where
  "float_of_int f i = (if i = 0 then 0 else pack f (i < 0) (nat \<bar>i\<bar>) 0)"

text \<open>Truncation toward zero.\<close>

definition trunc_abs :: "nat \<Rightarrow> int \<Rightarrow> nat" where
  "trunc_abs m q = (if q \<ge> 0 then m * 2 ^ nat q else m div 2 ^ nat (- q))"

text \<open>\<open>v as i32\<close>: truncation, saturating at the ends of the range, 0 for a NaN.\<close>

definition to_i32 :: "fval \<Rightarrow> int" where
  "to_i32 a =
     (case a of NaN \<Rightarrow> 0 | Infinite s \<Rightarrow> if s then - (2 ^ 31) else 2 ^ 31 - 1
      | Finite s m q \<Rightarrow>
          (let i = (if s then - 1 else 1) * int (trunc_abs m q) in max (- (2 ^ 31)) (min (2 ^ 31 - 1) i)))"

section \<open>The types of the code\<close>

definition f64_add :: "u64 \<Rightarrow> u64 \<Rightarrow> u64" where
  "f64_add a b = of_nat (float_add fmt64 (unpack fmt64 (unat a)) (unpack fmt64 (unat b)))"
definition f64_sub :: "u64 \<Rightarrow> u64 \<Rightarrow> u64" where
  "f64_sub a b = of_nat (float_add fmt64 (unpack fmt64 (unat a)) (float_neg (unpack fmt64 (unat b))))"
definition f64_mul :: "u64 \<Rightarrow> u64 \<Rightarrow> u64" where
  "f64_mul a b = of_nat (float_mul fmt64 (unpack fmt64 (unat a)) (unpack fmt64 (unat b)))"
definition f64_div :: "u64 \<Rightarrow> u64 \<Rightarrow> u64" where
  "f64_div a b = of_nat (float_div fmt64 (unpack fmt64 (unat a)) (unpack fmt64 (unat b)))"
definition f64_is_zero :: "u64 \<Rightarrow> bool" where "f64_is_zero a \<longleftrightarrow> a = 0 \<or> a = 0x8000000000000000"
definition f64_of_i32 :: "int \<Rightarrow> u64" where "f64_of_i32 i = of_nat (float_of_int fmt64 i)"
definition f64_to_i32 :: "u64 \<Rightarrow> u32" where "f64_to_i32 a = of_int (to_i32 (unpack fmt64 (unat a)))"
definition f32_of_f64 :: "u64 \<Rightarrow> u32" where "f32_of_f64 a = of_nat (float_convert fmt32 (unpack fmt64 (unat a)))"
definition f64_of_f32 :: "u32 \<Rightarrow> u64" where "f64_of_f32 a = of_nat (float_convert fmt64 (unpack fmt32 (unat a)))"

lemmas float_eval = f64_add_def f64_sub_def f64_mul_def f64_div_def f64_of_i32_def f64_to_i32_def f32_of_f64_def
  f64_of_f32_def float_add_def float_neg_def float_mul_def float_div_def float_convert_def float_of_int_def
  unpack_def pack_def fmt64_def fmt32_def fbias_def signed_at_def sign_bit_def qnan_def infinity_def
  to_i32_def trunc_abs_def round_even_def bit_length.simps

end
