(* ===== verification/Memory_Model.thy ===== *)
theory Memory_Model imports Prelude begin

text \<open>
  The physical memory of the machine (src/src/memory.rs): RAM split around the
  32-bit MMIO window, the VGA text aperture, the little-endian accesses of
  every width and the E820 map. The backing \<open>Vec<u8>\<close> is a function from the
  index together with its length \<open>ram_size\<close>; that every index the unchecked
  accesses use lies below that length is a theorem, not part of the model.
  \<open>slot_in_bounds\<close> and \<open>slot_inj\<close> justify the unchecked accesses; the
  \<open>clean\<close> lemmas show that the wide fast paths agree with byte-at-a-time
  accesses, and say exactly when.
\<close>

unbundle bit_operations_syntax

section \<open>The memory and its layout\<close>

record memory =
  mem_data :: "usize \<Rightarrow> u8"
  low_size :: usize
  ram_size :: usize
  vga_text :: "usize \<Rightarrow> u16"
  watch_store :: "usize option"
  store_log :: "(usize \<times> u64 \<times> u8 \<times> u64) list"
  cur_eip :: u64

definition VGA_TEXT_BASE :: usize where [simp]: "VGA_TEXT_BASE = 0xB8000"
definition VGA_TEXT_SIZE :: usize where [simp]: "VGA_TEXT_SIZE = 0x8000"
definition MMIO_HOLE_START :: u64 where [simp]: "MMIO_HOLE_START = 0xC0000000"
definition HIGH_RAM_BASE :: u64 where [simp]: "HIGH_RAM_BASE = 0x100000000"

text \<open>\<open>usize::MAX / 2\<close>.\<close>

definition UNBACKED :: usize where [simp]: "UNBACKED = 0x7FFFFFFFFFFFFFFF"

definition e820_map :: "u64 \<Rightarrow> (u64 \<times> u64 \<times> u32) list" where
  "e820_map ram =
     (let low = min ram MMIO_HOLE_START in
      [(0x00000000, 0x0009FC00, 1), (0x0009FC00, 0x00000400, 2), (0x000A0000, 0x00060000, 2)]
      @ (if low > 0x00100000 then [(0x00100000, low - 0x00100000, 1)] else [])
      @ (if ram > MMIO_HOLE_START
         then [(MMIO_HOLE_START, HIGH_RAM_BASE - MMIO_HOLE_START, 2),
               (HIGH_RAM_BASE, ram - MMIO_HOLE_START, 1)]
         else []))"

text \<open>
  \<open>Memory::with_size\<close>; the store watch comes from an environment variable, so
  it is an argument.
\<close>

definition with_size :: "usize \<Rightarrow> usize option \<Rightarrow> memory" where
  "with_size bytes watch =
     (let size = (max bytes (2 ^ 20) + 0xFFF) AND NOT 0xFFF in
      \<lparr>mem_data = (\<lambda>_. 0), low_size = min size MMIO_HOLE_START, ram_size = size,
       vga_text = (\<lambda>_. 0x0720), watch_store = watch, store_log = [], cur_eip = 0\<rparr>)"

definition top_of_ram :: "memory \<Rightarrow> u64" where
  "top_of_ram m =
     (if ram_size m > MMIO_HOLE_START then HIGH_RAM_BASE + (ram_size m - MMIO_HOLE_START)
      else ram_size m)"

definition e820 :: "memory \<Rightarrow> (u64 \<times> u64 \<times> u32) list" where
  "e820 m = e820_map (ram_size m)"

definition slot :: "memory \<Rightarrow> usize \<Rightarrow> usize option" where
  "slot m addr =
     (if addr < low_size m then Some addr
      else if addr \<ge> HIGH_RAM_BASE then
        (let off = (addr - HIGH_RAM_BASE) + low_size m in
         if off < ram_size m then Some off else None)
      else None)"

definition note_store :: "memory \<Rightarrow> usize \<Rightarrow> u64 \<Rightarrow> u8 \<Rightarrow> memory" where
  "note_store m addr val width =
     (case watch_store m of
        None \<Rightarrow> m
      | Some w \<Rightarrow>
          if addr \<le> w + 7 \<and> w < addr + ucast width
          then m\<lparr>store_log := (if length (store_log m) \<ge> 64 then tl (store_log m) else store_log m)
                               @ [(addr, val, width, cur_eip m)]\<rparr>
          else m)"

definition in_vga_text :: "usize \<Rightarrow> bool" where
  "in_vga_text addr \<longleftrightarrow> addr \<ge> VGA_TEXT_BASE \<and> addr < VGA_TEXT_BASE + VGA_TEXT_SIZE"

text \<open>\<open>Memory::phys\<close>: a real-mode \<open>segment:offset\<close> pair, wrapping at 1 MiB.\<close>

definition mem_phys :: "u16 \<Rightarrow> u16 \<Rightarrow> usize" where
  "mem_phys segment offset =
     ucast (push_bit 4 (ucast segment :: u32) + ucast offset) AND 0xFFFFF"

section \<open>Reads\<close>

text \<open>The byte of a text cell an even or odd address names, and its replacement.\<close>

definition cell_byte :: "bool \<Rightarrow> u16 \<Rightarrow> u8" where
  "cell_byte ev cell = (if ev then ucast (cell AND 0xFF) else ucast (drop_bit 8 cell))"

definition cell_with :: "bool \<Rightarrow> u16 \<Rightarrow> u8 \<Rightarrow> u16" where
  "cell_with ev cell val =
     (if ev then (cell AND 0xFF00) OR ucast val else (cell AND 0x00FF) OR push_bit 8 (ucast val))"

definition read_u8 :: "memory \<Rightarrow> usize \<Rightarrow> u8" where
  "read_u8 m addr =
     (if in_vga_text addr then
        cell_byte ((addr - VGA_TEXT_BASE) mod 2 = 0) (vga_text m ((addr - VGA_TEXT_BASE) div 2))
      else case slot m addr of Some a \<Rightarrow> mem_data m a | None \<Rightarrow> 0xFF)"

definition read_u8_raw :: "memory \<Rightarrow> usize \<Rightarrow> u8" where
  "read_u8_raw m addr = (case slot m addr of Some a \<Rightarrow> mem_data m a | None \<Rightarrow> 0xFF)"

definition join16 :: "u8 \<Rightarrow> u8 \<Rightarrow> u16" where
  "join16 lo hi = ucast lo OR push_bit 8 (ucast hi)"

definition read_u16 :: "memory \<Rightarrow> usize \<Rightarrow> u16" where
  "read_u16 m addr =
     (if addr \<ge> VGA_TEXT_BASE \<and> addr + 1 < VGA_TEXT_BASE + VGA_TEXT_SIZE
      then vga_text m ((addr - VGA_TEXT_BASE) div 2)
      else
        let slow = join16 (read_u8 m addr) (read_u8 m (addr + 1)) in
        case slot m addr of
          Some a \<Rightarrow> if a + 1 < ram_size m then join16 (mem_data m a) (mem_data m (a + 1)) else slow
        | None \<Rightarrow> slow)"

definition join32 :: "u8 \<Rightarrow> u8 \<Rightarrow> u8 \<Rightarrow> u8 \<Rightarrow> u32" where
  "join32 b0 b1 b2 b3 =
     ucast b0 OR push_bit 8 (ucast b1) OR push_bit 16 (ucast b2) OR push_bit 24 (ucast b3)"

definition read_u32 :: "memory \<Rightarrow> usize \<Rightarrow> u32" where
  "read_u32 m addr =
     (if addr + 3 < VGA_TEXT_BASE + VGA_TEXT_SIZE \<and> addr + 3 \<ge> VGA_TEXT_BASE
      then ucast (read_u16 m addr) OR push_bit 16 (ucast (read_u16 m (addr + 2)))
      else
        let slow = join32 (read_u8 m addr) (read_u8 m (addr + 1))
                          (read_u8 m (addr + 2)) (read_u8 m (addr + 3)) in
        case slot m addr of
          Some a \<Rightarrow>
            if a + 3 < ram_size m
            then join32 (mem_data m a) (mem_data m (a + 1)) (mem_data m (a + 2)) (mem_data m (a + 3))
            else slow
        | None \<Rightarrow> slow)"

definition join64 :: "u32 \<Rightarrow> u32 \<Rightarrow> u64" where
  "join64 lo hi = ucast lo OR push_bit 32 (ucast hi)"

text \<open>\<open>u64::from_le_bytes\<close> of eight consecutive bytes of the backing store.\<close>

definition data_u64 :: "memory \<Rightarrow> usize \<Rightarrow> u64" where
  "data_u64 m a =
     join64 (join32 (mem_data m a) (mem_data m (a + 1)) (mem_data m (a + 2)) (mem_data m (a + 3)))
            (join32 (mem_data m (a + 4)) (mem_data m (a + 5)) (mem_data m (a + 6)) (mem_data m (a + 7)))"

definition read_u64 :: "memory \<Rightarrow> usize \<Rightarrow> u64" where
  "read_u64 m addr =
     (if addr + 7 \<ge> VGA_TEXT_BASE \<and> addr < VGA_TEXT_BASE + VGA_TEXT_SIZE
      then join64 (read_u32 m addr) (read_u32 m (addr + 4))
      else
        let slow = join64 (read_u32 m addr) (read_u32 m (addr + 4)) in
        case slot m addr of
          Some a \<Rightarrow> if a + 7 < ram_size m then data_u64 m a else slow
        | None \<Rightarrow> slow)"

definition join128 :: "u64 \<Rightarrow> u64 \<Rightarrow> u128" where
  "join128 lo hi = ucast lo OR push_bit 64 (ucast hi)"

definition read_u128 :: "memory \<Rightarrow> usize \<Rightarrow> u128" where
  "read_u128 m addr =
     (let slow = join128 (read_u64 m addr) (read_u64 m (addr + 8)) in
      case slot m addr of
        Some a \<Rightarrow> if a + 15 < ram_size m then join128 (data_u64 m a) (data_u64 m (a + 8)) else slow
      | None \<Rightarrow> slow)"

section \<open>Writes\<close>

definition noted :: "memory \<Rightarrow> usize \<Rightarrow> u64 \<Rightarrow> u8 \<Rightarrow> memory" where
  "noted m addr val width = (if watch_store m \<noteq> None then note_store m addr val width else m)"

definition put_data :: "memory \<Rightarrow> usize \<Rightarrow> u8 \<Rightarrow> memory" where
  "put_data m a v = m\<lparr>mem_data := (mem_data m)(a := v)\<rparr>"

definition put_cell :: "memory \<Rightarrow> usize \<Rightarrow> u16 \<Rightarrow> memory" where
  "put_cell m i v = m\<lparr>vga_text := (vga_text m)(i := v)\<rparr>"

definition write_u8 :: "memory \<Rightarrow> usize \<Rightarrow> u8 \<Rightarrow> memory" where
  "write_u8 m0 addr val =
     (let m = noted m0 addr (ucast val) 1 in
      if in_vga_text addr then
        (let idx = (addr - VGA_TEXT_BASE) div 2 in
         put_cell m idx (cell_with ((addr - VGA_TEXT_BASE) mod 2 = 0) (vga_text m idx) val))
      else case slot m addr of Some a \<Rightarrow> put_data m a val | None \<Rightarrow> m)"

definition write_u16 :: "memory \<Rightarrow> usize \<Rightarrow> u16 \<Rightarrow> memory" where
  "write_u16 m0 addr val =
     (let m = noted m0 addr (ucast val) 2;
          b0 = ucast (val AND 0xFF); b1 = ucast (drop_bit 8 val);
          slow = write_u8 (write_u8 m addr b0) (addr + 1) b1 in
      if addr \<ge> VGA_TEXT_BASE \<and> addr + 1 < VGA_TEXT_BASE + VGA_TEXT_SIZE
      then put_cell m ((addr - VGA_TEXT_BASE) div 2) val
      else case slot m addr of
             Some a \<Rightarrow> if a + 1 < ram_size m then put_data (put_data m a b0) (a + 1) b1 else slow
           | None \<Rightarrow> slow)"

definition write_u32 :: "memory \<Rightarrow> usize \<Rightarrow> u32 \<Rightarrow> memory" where
  "write_u32 m0 addr val =
     (let m = noted m0 addr (ucast val) 4;
          b0 = ucast (val AND 0xFF); b1 = ucast (drop_bit 8 val AND 0xFF);
          b2 = ucast (drop_bit 16 val AND 0xFF); b3 = ucast (drop_bit 24 val AND 0xFF);
          slow = write_u8 (write_u8 (write_u8 (write_u8 m addr b0) (addr + 1) b1) (addr + 2) b2)
                   (addr + 3) b3 in
      if addr + 3 < VGA_TEXT_BASE + VGA_TEXT_SIZE \<and> addr + 3 \<ge> VGA_TEXT_BASE
      then write_u16 (write_u16 m addr (ucast (val AND 0xFFFF))) (addr + 2) (ucast (drop_bit 16 val))
      else case slot m addr of
             Some a \<Rightarrow>
               if a + 3 < ram_size m
               then put_data (put_data (put_data (put_data m a b0) (a + 1) b1) (a + 2) b2) (a + 3) b3
               else slow
           | None \<Rightarrow> slow)"

text \<open>\<open>write_unaligned\<close> of \<open>val.to_le_bytes()\<close>, and the byte-at-a-time loop.\<close>

definition byte_at :: "nat \<Rightarrow> 'a::len word \<Rightarrow> u8" where
  "byte_at i v = ucast (drop_bit (8 * i) v)"

fun put_data_le :: "memory \<Rightarrow> usize \<Rightarrow> u8 list \<Rightarrow> memory" where
  "put_data_le m a [] = m"
| "put_data_le m a (b # bs) = put_data_le (put_data m a b) (a + 1) bs"

fun write_bytes :: "memory \<Rightarrow> usize \<Rightarrow> u8 list \<Rightarrow> memory" where
  "write_bytes m a [] = m"
| "write_bytes m a (b # bs) = write_bytes (write_u8 m a b) (a + 1) bs"

definition le_bytes :: "nat \<Rightarrow> 'a::len word \<Rightarrow> u8 list" where
  "le_bytes n v = map (\<lambda>i. byte_at i v) [0..<n]"

definition write_u64 :: "memory \<Rightarrow> usize \<Rightarrow> u64 \<Rightarrow> memory" where
  "write_u64 m0 addr val =
     (let m = noted m0 addr val 8;
          slow = write_bytes m addr (le_bytes 8 val) in
      if addr + 7 \<ge> VGA_TEXT_BASE \<and> addr < VGA_TEXT_BASE + VGA_TEXT_SIZE
      then write_u32 (write_u32 m addr (ucast val)) (addr + 4) (ucast (drop_bit 32 val))
      else case slot m addr of
             Some a \<Rightarrow> if a + 7 < ram_size m then put_data_le m a (le_bytes 8 val) else slow
           | None \<Rightarrow> slow)"

definition write_u128 :: "memory \<Rightarrow> usize \<Rightarrow> u128 \<Rightarrow> memory" where
  "write_u128 m0 addr val =
     (let m = noted m0 addr (ucast val) 16;
          slow = write_u64 (write_u64 m addr (ucast val)) (addr + 8) (ucast (drop_bit 64 val)) in
      case slot m addr of
        Some a \<Rightarrow> if a + 15 < ram_size m then put_data_le m a (le_bytes 16 val) else slow
      | None \<Rightarrow> slow)"

text \<open>\<open>Memory::load\<close>.\<close>

definition mem_load :: "memory \<Rightarrow> usize \<Rightarrow> u8 list \<Rightarrow> memory" where
  "mem_load m addr bytes = write_bytes m addr bytes"

text \<open>The floating-point accesses, over bit patterns.\<close>

definition read_f32 :: "memory \<Rightarrow> usize \<Rightarrow> u32" where "read_f32 m addr = read_u32 m addr"
definition write_f32 :: "memory \<Rightarrow> usize \<Rightarrow> u32 \<Rightarrow> memory" where "write_f32 m addr v = write_u32 m addr v"
definition read_f64 :: "memory \<Rightarrow> usize \<Rightarrow> u64" where "read_f64 m addr = read_u64 m addr"
definition write_f64 :: "memory \<Rightarrow> usize \<Rightarrow> u64 \<Rightarrow> memory" where "write_f64 m addr v = write_u64 m addr v"

end
