(* ===== verification/Memory_Laws.thy ===== *)
theory Memory_Laws imports Memory_Model begin

text \<open>
  Facts about the physical memory: its invariant, the safety of the unchecked
  accesses, the byte-level laws of a store, and the agreement of the wide
  accesses with byte-at-a-time ones on \<open>clean\<close> addresses.
\<close>

unbundle bit_operations_syntax

section \<open>The invariant\<close>

text \<open>
  A Rust \<open>Vec\<close> never exceeds \<open>isize::MAX\<close> bytes; \<open>with_size\<close> rounds to whole
  pages and to at least 1 MiB.
\<close>

definition mem_wf :: "memory \<Rightarrow> bool" where
  "mem_wf m \<longleftrightarrow>
     unat (ram_size m) < 2 ^ 63 \<and> 2 ^ 20 \<le> unat (ram_size m) \<and> 4096 dvd unat (ram_size m) \<and>
     low_size m = min (ram_size m) MMIO_HOLE_START"

lemma unat_min64: "unat (min a b :: u64) = min (unat a) (unat b)"
  by (simp add: min_def word_le_nat_alt)

lemma mem_wf_low: "mem_wf m \<Longrightarrow> unat (low_size m) = min (unat (ram_size m)) 0xC0000000"
  by (simp add: mem_wf_def unat_min64)

lemma mem_wf_bounds:
  assumes "mem_wf m"
  shows "unat (low_size m) \<le> unat (ram_size m)" "unat (low_size m) \<le> 0xC0000000"
    "2 ^ 20 \<le> unat (low_size m)" "unat (ram_size m) < 2 ^ 63" "4096 dvd unat (low_size m)"
    "4096 dvd unat (ram_size m)"
    "unat (ram_size m) < 0xC0000000 \<Longrightarrow> unat (low_size m) = unat (ram_size m)"
proof -
  have r: "unat (ram_size m) < 2 ^ 63" "2 ^ 20 \<le> unat (ram_size m)" "4096 dvd unat (ram_size m)"
    using assms by (simp_all add: mem_wf_def)
  have d: "(4096::nat) dvd 0xC0000000" by (simp add: dvd_eq_mod_eq_0)
  note l = mem_wf_low [OF assms]
  show "unat (low_size m) \<le> unat (ram_size m)" "unat (low_size m) \<le> 0xC0000000"
    "2 ^ 20 \<le> unat (low_size m)" "unat (ram_size m) < 2 ^ 63" "4096 dvd unat (ram_size m)"
    "unat (ram_size m) < 0xC0000000 \<Longrightarrow> unat (low_size m) = unat (ram_size m)"
    using r l by auto
  show "4096 dvd unat (low_size m)"
    using r(3) d l by (metis min_def)
qed

lemma and_not_mask_unat:
  "unat (v AND NOT (mask n)) = unat v - unat v mod 2 ^ n" for v :: "'a::len word"
proof -
  have "(v AND mask n) + (v AND NOT (mask n)) = v"
  proof -
    have "(v AND mask n) AND (v AND NOT (mask n)) = 0" "(v AND mask n) OR (v AND NOT (mask n)) = v"
      by (rule bit_word_eqI, auto simp: bit_simps)+
    then show ?thesis using word_plus_and_or [of "v AND mask n" "v AND NOT (mask n)"] by simp
  qed
  then have "v AND NOT (mask n) = v - (v AND mask n)" by (metis add_diff_cancel_left')
  then show ?thesis by (simp add: unat_sub word_and_le2 word_and_le1 unat_and_mask)
qed

lemma with_size_wf:
  assumes "unat bytes \<le> 2 ^ 62"
  shows "mem_wf (with_size bytes w)"
proof -
  define b where "b = max bytes (2 ^ 20)"
  define s where "s = (b + 0xFFF) AND NOT 0xFFF"
  have b: "unat b \<le> 2 ^ 62" "2 ^ 20 \<le> unat b"
    using assms by (auto simp: b_def max_def word_le_nat_alt)
  then have sum: "unat (b + 0xFFF) = unat b + 0xFFF" by (simp add: unat_add64)
  have m: "(0xFFF :: u64) = mask 12" by (simp add: mask_eq_exp_minus_1)
  have s: "unat s = (unat b + 0xFFF) - (unat b + 0xFFF) mod 4096"
    using and_not_mask_unat [of "b + 0xFFF" 12] unfolding s_def m sum [symmetric] by simp
  have "4096 dvd unat s" unfolding s by (rule dvd_minus_mod)
  moreover have "unat s < 2 ^ 63" "2 ^ 20 \<le> unat s"
    using b mod_less_divisor [of 4096 "unat b + 0xFFF"] unfolding s by simp_all
  ultimately show ?thesis
    unfolding mem_wf_def with_size_def Let_def b_def [symmetric] s_def [symmetric] by simp
qed

section \<open>Slots: the unchecked accesses are in bounds, and addresses never alias\<close>

lemma slot_nat:
  assumes "mem_wf m"
  shows "slot m a =
    (if unat a < unat (low_size m) then Some a
     else if 2 ^ 32 \<le> unat a \<and> unat a - 2 ^ 32 + unat (low_size m) < unat (ram_size m)
          then Some (a - HIGH_RAM_BASE + low_size m) else None)"
  and "2 ^ 32 \<le> unat a \<Longrightarrow>
     unat (a - HIGH_RAM_BASE + low_size m) = unat a - 2 ^ 32 + unat (low_size m)"
proof -
  show *: "unat (a - HIGH_RAM_BASE + low_size m) = unat a - 2 ^ 32 + unat (low_size m)"
    if "2 ^ 32 \<le> unat a"
  proof -
    have "unat (a - HIGH_RAM_BASE) = unat a - 2 ^ 32"
      using that by (simp add: unat_sub word_le_nat_alt)
    moreover have "unat a < 2 ^ 64" using unsigned_less [of a] by simp
    ultimately show ?thesis
      using that mem_wf_bounds(2) [OF assms] by (subst unat_add_nowrap) simp_all
  qed
  show "slot m a =
    (if unat a < unat (low_size m) then Some a
     else if 2 ^ 32 \<le> unat a \<and> unat a - 2 ^ 32 + unat (low_size m) < unat (ram_size m)
          then Some (a - HIGH_RAM_BASE + low_size m) else None)"
    using * by (auto simp: slot_def Let_def word_less_nat_alt word_le_nat_alt)
qed

lemma slot_bounded: "mem_wf m \<Longrightarrow> slot m a = Some i \<Longrightarrow> unat i < unat (ram_size m)"
  using slot_nat [of m a] mem_wf_bounds(1) [of m] by (auto split: if_splits)

lemma slot_injective:
  "mem_wf m \<Longrightarrow> slot m a = Some i \<Longrightarrow> slot m b = Some i \<Longrightarrow> a = b"
  using slot_nat [of m a] slot_nat [of m b]
  by (auto split: if_splits simp: word_unat_eq_iff)


section \<open>Byte stores\<close>

text \<open>
  \<open>backed m a\<close>: something answers at \<open>a\<close> (RAM or the VGA window).
  \<open>same_store\<close> ignores the debugging log, which no read consults.
\<close>

definition backed :: "memory \<Rightarrow> usize \<Rightarrow> bool" where
  "backed m a \<longleftrightarrow> in_vga_text a \<or> slot m a \<noteq> None"

definition same_store :: "memory \<Rightarrow> memory \<Rightarrow> bool" where
  "same_store m m' \<longleftrightarrow> mem_data m = mem_data m' \<and> vga_text m = vga_text m' \<and>
     low_size m = low_size m' \<and> ram_size m = ram_size m'"

definition same_layout :: "memory \<Rightarrow> memory \<Rightarrow> bool" where
  "same_layout m m' \<longleftrightarrow> low_size m = low_size m' \<and> ram_size m = ram_size m'"

lemma slot_cong: "same_layout m m' \<Longrightarrow> slot m = slot m'"
  by (auto simp: same_layout_def slot_def fun_eq_iff)

lemma noted_frame [simp]:
  "mem_data (noted m a v w) = mem_data m" "vga_text (noted m a v w) = vga_text m"
  "low_size (noted m a v w) = low_size m" "ram_size (noted m a v w) = ram_size m"
  by (auto simp: noted_def note_store_def split: option.splits)

lemma noted_slot [simp]: "slot (noted m a v w) = slot m"
  by (rule slot_cong) (simp add: same_layout_def)

lemma put_frame [simp]:
  "low_size (put_data m i b) = low_size m" "ram_size (put_data m i b) = ram_size m"
  "vga_text (put_data m i b) = vga_text m"
  "low_size (put_cell m i c) = low_size m" "ram_size (put_cell m i c) = ram_size m"
  "mem_data (put_cell m i c) = mem_data m"
  by (simp_all add: put_data_def put_cell_def)

lemma put_slot [simp]: "slot (put_data m i b) = slot m" "slot (put_cell m i c) = slot m"
  by (rule slot_cong, simp add: same_layout_def)+

lemma mem_data_put_data [simp]: "mem_data (put_data m i b) = (mem_data m)(i := b)"
  by (simp add: put_data_def)

lemma vga_text_put_cell [simp]: "vga_text (put_cell m i c) = (vga_text m)(i := c)"
  by (simp add: put_cell_def)

lemma write_u8_layout [simp]:
  "low_size (write_u8 m a v) = low_size m" "ram_size (write_u8 m a v) = ram_size m"
  by (simp_all add: write_u8_def Let_def split: option.splits)

lemma write_u8_slot [simp]: "slot (write_u8 m a v) = slot m"
  by (rule slot_cong) (simp add: same_layout_def)

lemma write_u8_backed [simp]: "backed (write_u8 m a v) = backed m"
  by (simp add: backed_def fun_eq_iff)

lemma write_u8_wf [wf_intros]: "mem_wf m \<Longrightarrow> mem_wf (write_u8 m a v)"
  by (simp add: mem_wf_def)

lemma in_vga_nat: "in_vga_text a \<longleftrightarrow> 0xB8000 \<le> unat a \<and> unat a < 0xC0000"
  by (simp add: in_vga_text_def word_le_nat_alt word_less_nat_alt)

lemma vga_offset_nat:
  "in_vga_text a \<Longrightarrow> unat (a - VGA_TEXT_BASE) = unat a - 0xB8000"
  by (simp add: in_vga_nat unat_sub word_le_nat_alt)

lemma vga_index_nat:
  assumes "in_vga_text a"
  shows "unat ((a - VGA_TEXT_BASE) div 2) = (unat a - 0xB8000) div 2"
    and "(a - VGA_TEXT_BASE) mod 2 = 0 \<longleftrightarrow> even (unat a)"
proof -
  show "unat ((a - VGA_TEXT_BASE) div 2) = (unat a - 0xB8000) div 2"
    by (simp only: unat_div vga_offset_nat [OF assms]) simp
  have "unat ((a - VGA_TEXT_BASE) mod 2) = (unat a - 0xB8000) mod 2"
    by (simp only: unat_mod vga_offset_nat [OF assms]) simp
  moreover have "(a - VGA_TEXT_BASE) mod 2 = 0 \<longleftrightarrow> unat ((a - VGA_TEXT_BASE) mod 2) = 0"
    by (simp only: unat_eq_0)
  moreover have "(unat a - 0xB8000) mod 2 = 0 \<longleftrightarrow> even (unat a)"
    using assms by (auto simp: in_vga_nat even_iff_mod_2_eq_zero [symmetric])
  ultimately show "(a - VGA_TEXT_BASE) mod 2 = 0 \<longleftrightarrow> even (unat a)" by simp
qed

text \<open>Every index into the VGA cell vector is below \<open>VGA_TEXT_CELLS\<close>.\<close>

lemma vga_index_bounded: "in_vga_text a \<Longrightarrow> unat ((a - VGA_TEXT_BASE) div 2) < 0x4000"
  using vga_index_nat(1) [of a] unfolding in_vga_nat by linarith

lemma half_sub:
  "0xB8000 \<le> (x::nat) \<Longrightarrow> 0xB8000 \<le> y \<Longrightarrow>
   (x - 0xB8000) div 2 = (y - 0xB8000) div 2 \<longleftrightarrow> x div 2 = y div 2"
proof -
  assume "0xB8000 \<le> x" "0xB8000 \<le> y"
  then obtain p q where "x = p + 0xB8000" "y = q + 0xB8000" by (metis le_add_diff_inverse2)
  moreover have "(n + 0xB8000) div 2 = 0x5C000 + n div 2" for n :: nat
    using div_mult_self1 [of 2 n "0x5C000"] by simp
  ultimately show ?thesis by simp
qed

lemma vga_index_eq:
  assumes "in_vga_text a" "in_vga_text b"
  shows "(a - VGA_TEXT_BASE) div 2 = (b - VGA_TEXT_BASE) div 2 \<longleftrightarrow> unat a div 2 = unat b div 2"
proof -
  have "(a - VGA_TEXT_BASE) div 2 = (b - VGA_TEXT_BASE) div 2 \<longleftrightarrow>
      unat ((a - VGA_TEXT_BASE) div 2) = unat ((b - VGA_TEXT_BASE) div 2)"
    by (simp only: word_unat_eq_iff)
  also have "\<dots> \<longleftrightarrow> (unat a - 0xB8000) div 2 = (unat b - 0xB8000) div 2"
    using assms by (simp only: vga_index_nat)
  also have "\<dots> \<longleftrightarrow> unat a div 2 = unat b div 2"
    using assms unfolding in_vga_nat by (intro half_sub) simp_all
  finally show ?thesis .
qed

lemma cell_byte_with:
  "cell_byte e (cell_with f c v) = (if e = f then v else cell_byte e c)"
proof -
  have m: "(0xFF00 :: u16) = push_bit 8 (mask 8)" "(0xFF :: u16) = mask 8"
    by (simp_all add: mask_eq_exp_minus_1)
  show ?thesis
    unfolding cell_byte_def cell_with_def m
    by (cases e; cases f; simp only: if_True if_False simp_thms;
        rule bit_word_eqI; auto simp: bit_simps dest: bit_imp_le_length)
qed

lemma vga_parity_index:
  assumes "in_vga_text a" "in_vga_text x"
  shows "x = a \<longleftrightarrow> (x - VGA_TEXT_BASE) div 2 = (a - VGA_TEXT_BASE) div 2 \<and>
    ((x - VGA_TEXT_BASE) mod 2 = 0 \<longleftrightarrow> (a - VGA_TEXT_BASE) mod 2 = 0)"
proof -
  have "x = a \<longleftrightarrow> unat x = unat a" by (simp only: word_unat_eq_iff)
  also have "\<dots> \<longleftrightarrow> unat x div 2 = unat a div 2 \<and> (even (unat x) \<longleftrightarrow> even (unat a))"
    by presburger
  finally show ?thesis
    by (simp only: vga_index_eq [OF assms(2,1)] vga_index_nat(2) [OF assms(1)]
        vga_index_nat(2) [OF assms(2)])
qed

lemma read_write_u8_vga:
  assumes "in_vga_text a" "in_vga_text x"
  shows "read_u8 (write_u8 m a v) x = (if x = a then v else read_u8 m x)"
  using assms unfolding vga_parity_index [OF assms] read_u8_def write_u8_def Let_def
  by (simp del: VGA_TEXT_BASE_def not_mod_2_eq_0_eq_1 add: cell_byte_with)

lemma read_write_u8:
  assumes wf: "mem_wf m"
  shows "read_u8 (write_u8 m a v) x = (if x = a \<and> backed m a then v else read_u8 m x)"
proof (cases "in_vga_text a")
  case True
  then show ?thesis
  proof (cases "in_vga_text x")
    case x: True
    then show ?thesis using True by (simp add: read_write_u8_vga backed_def)
  next
    case False
    then show ?thesis
      using True by (auto simp: read_u8_def write_u8_def Let_def split: option.splits)
  qed
next
  case False
  then show ?thesis
    using slot_injective [OF wf, of a _ x]
    by (auto simp: read_u8_def write_u8_def Let_def backed_def split: option.splits)
qed

section \<open>Spans of addresses\<close>

text \<open>
  \<open>clean m a n\<close>: the \<open>n\<close> bytes from \<open>a\<close> do not wrap, lie wholly inside the
  VGA window at an even address or wholly outside it, and do not straddle the
  end of low RAM. Every naturally aligned access is clean. On a clean address
  a wide access is the same as byte-at-a-time ones; on the others it need not
  be (see \<open>read_u16_hole_boundary\<close> and \<open>read_u16_odd_vga\<close> below).
\<close>

definition clean :: "memory \<Rightarrow> usize \<Rightarrow> nat \<Rightarrow> bool" where
  "clean m a n \<longleftrightarrow> unat a + n \<le> 2 ^ 64 \<and>
     (0xB8000 \<le> unat a \<and> unat a + n \<le> 0xC0000 \<and> even (unat a) \<or>
      (unat a + n \<le> 0xB8000 \<or> 0xC0000 \<le> unat a) \<and>
      (unat a + n \<le> unat (low_size m) \<or> unat (low_size m) \<le> unat a))"

lemma unat_add_k: "unat a + n \<le> 2 ^ 64 \<Longrightarrow> k < n \<Longrightarrow> unat (a + of_nat k) = unat a + k" for a :: usize
  by (rule unat_add_of_nat64) simp

lemma aligned_clean:
  assumes wf: "mem_wf m" and n: "n \<in> {2, 4, 8, 16}" and al: "n dvd unat a"
  shows "clean m a n"
proof -
  have up: "unat a < B \<Longrightarrow> n dvd B \<Longrightarrow> unat a + n \<le> B" for B
  proof -
    assume "unat a < B" "n dvd B"
    then obtain p q where "unat a = n * p" "B = n * q" using al by (auto elim!: dvdE)
    then have "p < q" using \<open>unat a < B\<close> by simp
    then have "n * (p + 1) \<le> n * q" by (intro mult_le_mono) simp_all
    then show ?thesis using \<open>unat a = n * p\<close> \<open>B = n * q\<close> by simp
  qed
  have d: "n dvd 0xB8000" "n dvd 0xC0000" "n dvd 2 ^ 64" "n dvd 4096" "2 dvd n"
    using n by (auto simp: dvd_eq_mod_eq_0)
  have "n dvd unat (low_size m)" using d(4) mem_wf_bounds(5) [OF wf] by (rule dvd_trans)
  then have "unat a < unat (low_size m) \<Longrightarrow> unat a + n \<le> unat (low_size m)" by (rule up [rotated])
  moreover have "unat a + n \<le> 2 ^ 64" using up [of "2 ^ 64"] d unsigned_less [of a] by simp
  moreover have "even (unat a)" using al d(5) by (rule dvd_trans [rotated])
  ultimately show ?thesis
    using up [of "0xB8000"] up [of "0xC0000"] d unfolding clean_def by linarith
qed

lemma clean_sub: "clean m a n \<Longrightarrow> even j \<Longrightarrow> j + k \<le> n \<Longrightarrow> j < n \<Longrightarrow> clean m (a + of_nat j) k"
proof -
  assume c: "clean m a n" and j: "even j" "j + k \<le> n" "j < n"
  then have "unat (a + of_nat j) = unat a + j"
    by (intro unat_add_k) (simp_all add: clean_def)
  then show ?thesis using c j unfolding clean_def by auto
qed

lemma clean_mono: "clean m a n \<Longrightarrow> k \<le> n \<Longrightarrow> clean m a k"
  unfolding clean_def by auto

lemma clean_vga_all:
  assumes "clean m a n" "k < n"
  shows "in_vga_text (a + of_nat k) \<longleftrightarrow> in_vga_text a"
  using assms unat_add_k [of a n k] unfolding clean_def in_vga_nat by auto

lemma slot_run:
  assumes wf: "mem_wf m" and c: "clean m a n" and v: "\<not> in_vga_text a"
    and s: "slot m a = Some i" and k: "k < n" and r: "unat i + k < unat (ram_size m)"
  shows "slot m (a + of_nat k) = Some (i + of_nat k)"
proof -
  have ak: "unat (a + of_nat k) = unat a + k"
    using c k by (intro unat_add_k) (simp_all add: clean_def)
  have lo: "unat a + n \<le> unat (low_size m) \<or> unat (low_size m) \<le> unat a"
    using c v unfolding clean_def in_vga_nat using k by linarith
  note b = mem_wf_bounds(1,2,4) [OF wf]
  show ?thesis
  proof (cases "unat a < unat (low_size m)")
    case True
    then show ?thesis using s lo k b ak slot_nat(1) [OF wf] by (auto split: if_splits)
  next
    case False
    then have hi: "2 ^ 32 \<le> unat a" "i = a - HIGH_RAM_BASE + low_size m"
      using s slot_nat(1) [OF wf, of a] by (auto split: if_splits)
    then have "unat i = unat a - 2 ^ 32 + unat (low_size m)" using slot_nat(2) [OF wf] by simp
    moreover have "a + of_nat k - HIGH_RAM_BASE + low_size m = i + of_nat k"
      using hi by simp
    ultimately show ?thesis
      using hi False r ak unfolding slot_nat(1) [OF wf, of "a + of_nat k"] by simp
  qed
qed

lemma read_u8_run:
  assumes "mem_wf m" "clean m a n" "\<not> in_vga_text a" "slot m a = Some i" "k < n"
    "unat i + k < unat (ram_size m)"
  shows "read_u8 m (a + of_nat k) = mem_data m (i + of_nat k)"
  using slot_run [OF assms] clean_vga_all [OF assms(2,5)] assms(3)
  by (simp add: read_u8_def)

lemma in_ram_span:
  assumes wf: "mem_wf m" and s: "slot m a = Some i" and n: "n < 64"
  shows "i + of_nat n < ram_size m \<longleftrightarrow> unat i + n < unat (ram_size m)"
proof -
  have "unat i < 2 ^ 63" using slot_bounded [OF wf s] mem_wf_bounds(4) [OF wf] by simp
  then have "unat (i + of_nat n) = unat i + n" using n by (intro unat_add_of_nat64) simp
  then show ?thesis by (simp only: word_less_nat_alt)
qed

section \<open>Wide reads are byte reads\<close>

lemma vga_guard:
  assumes "clean m a n" "0 < k" "k < n"
  shows "VGA_TEXT_BASE \<le> a \<and> a + of_nat k < VGA_TEXT_BASE + VGA_TEXT_SIZE \<longleftrightarrow> in_vga_text a"
    "a + of_nat k < VGA_TEXT_BASE + VGA_TEXT_SIZE \<and> VGA_TEXT_BASE \<le> a + of_nat k \<longleftrightarrow> in_vga_text a"
    "VGA_TEXT_BASE \<le> a + of_nat k \<and> a < VGA_TEXT_BASE + VGA_TEXT_SIZE \<longleftrightarrow> in_vga_text a"
proof -
  have ak: "unat (a + of_nat k) = unat a + k"
    using assms by (intro unat_add_k) (simp_all add: clean_def)
  have c: "0xB8000 \<le> unat a \<and> unat a + n \<le> 0xC0000 \<or> unat a + n \<le> 0xB8000 \<or> 0xC0000 \<le> unat a"
    using assms(1) unfolding clean_def by blast
  have e: "VGA_TEXT_BASE \<le> x \<longleftrightarrow> 0xB8000 \<le> unat x"
      "x < VGA_TEXT_BASE + VGA_TEXT_SIZE \<longleftrightarrow> unat x < 0xC0000" for x
    by (simp_all add: word_le_nat_alt word_less_nat_alt)
  show "VGA_TEXT_BASE \<le> a \<and> a + of_nat k < VGA_TEXT_BASE + VGA_TEXT_SIZE \<longleftrightarrow> in_vga_text a"
    "a + of_nat k < VGA_TEXT_BASE + VGA_TEXT_SIZE \<and> VGA_TEXT_BASE \<le> a + of_nat k \<longleftrightarrow> in_vga_text a"
    "VGA_TEXT_BASE \<le> a + of_nat k \<and> a < VGA_TEXT_BASE + VGA_TEXT_SIZE \<longleftrightarrow> in_vga_text a"
    using c assms(2,3) unfolding in_vga_nat e ak by linarith+
qed

lemmas vga_guards =
  vga_guard [where k = 1, simplified of_nat_1 of_nat_numeral]
  vga_guard [where k = 3, simplified of_nat_1 of_nat_numeral]
  vga_guard [where k = 7, simplified of_nat_1 of_nat_numeral]

lemma vga_even_cell:
  assumes "in_vga_text a" "in_vga_text (a + 1)" "even (unat a)"
  shows "(a + 1 - VGA_TEXT_BASE) div 2 = (a - VGA_TEXT_BASE) div 2"
    "(a - VGA_TEXT_BASE) mod 2 = 0" "(a + 1 - VGA_TEXT_BASE) mod 2 \<noteq> 0"
proof -
  have "unat (a + 1) = unat a + 1"
    using assms(1) by (intro unat_add_one64) (simp add: in_vga_nat)
  then show "(a + 1 - VGA_TEXT_BASE) div 2 = (a - VGA_TEXT_BASE) div 2"
    "(a - VGA_TEXT_BASE) mod 2 = 0" "(a + 1 - VGA_TEXT_BASE) mod 2 \<noteq> 0"
    using assms by (simp_all only: vga_index_eq vga_index_nat) simp_all
qed

lemma join16_cell: "join16 (cell_byte True c) (cell_byte False c) = c"
proof -
  have m: "(0xFF :: u16) = mask 8" by (simp add: mask_eq_exp_minus_1)
  show ?thesis
    unfolding join16_def cell_byte_def if_True if_False m
    by (rule bit_word_eqI) (auto simp: bit_simps dest: bit_imp_le_length)
qed

lemma join32_join16:
  "ucast (join16 b0 b1) OR push_bit 16 (ucast (join16 b2 b3)) = join32 b0 b1 b2 b3"
  unfolding join16_def join32_def
  by (rule bit_word_eqI) (auto simp: bit_simps dest: bit_imp_le_length)

lemma read_u16_clean:
  assumes wf: "mem_wf m" and c: "clean m a 2"
  shows "read_u16 m a = join16 (read_u8 m a) (read_u8 m (a + 1))"
proof (cases "in_vga_text a")
  case True
  have "in_vga_text (a + 1)" "even (unat a)"
    using clean_vga_all [OF c, of 1] c True by (simp_all add: clean_def in_vga_nat)
  note e = vga_even_cell [OF True this]
  show ?thesis
    using True \<open>in_vga_text (a + 1)\<close> vga_guards(1) [OF c]
    by (simp only: read_u16_def read_u8_def e simp_thms if_True if_False join16_cell)
next
  case False
  then have g: "\<not> (VGA_TEXT_BASE \<le> a \<and> a + 1 < VGA_TEXT_BASE + VGA_TEXT_SIZE)"
    using vga_guards(1) [OF c] by simp
  show ?thesis
  proof (cases "slot m a")
    case None
    then show ?thesis unfolding read_u16_def if_not_P [OF g] by simp
  next
    case (Some i)
    note r = read_u8_run [OF wf c False Some]
    note s = in_ram_span [OF wf Some, of 1]
    show ?thesis
      using Some r [of 0] r [of 1] s slot_bounded [OF wf Some]
      unfolding read_u16_def if_not_P [OF g] by simp
  qed
qed

lemma read_u32_clean:
  assumes wf: "mem_wf m" and c: "clean m a 4"
  shows "read_u32 m a =
    join32 (read_u8 m a) (read_u8 m (a + 1)) (read_u8 m (a + 2)) (read_u8 m (a + 3))"
proof (cases "in_vga_text a")
  case True
  have "clean m a 2" "clean m (a + 2) 2"
    using clean_mono [OF c, of 2] clean_sub [OF c, of 2 2] by simp_all
  then show ?thesis
    using True vga_guards(5) [OF c] unfolding read_u32_def
    by (simp add: read_u16_clean [OF wf] join32_join16 add.assoc)
next
  case False
  then have g: "\<not> (a + 3 < VGA_TEXT_BASE + VGA_TEXT_SIZE \<and> VGA_TEXT_BASE \<le> a + 3)"
    using vga_guards(5) [OF c] by simp
  show ?thesis
  proof (cases "slot m a")
    case None
    then show ?thesis unfolding read_u32_def if_not_P [OF g] by simp
  next
    case (Some i)
    note r = read_u8_run [OF wf c False Some]
    note s = in_ram_span [OF wf Some, of 3]
    show ?thesis
      using Some r [of 0] r [of 1] r [of 2] r [of 3] s slot_bounded [OF wf Some]
      unfolding read_u32_def if_not_P [OF g] by simp
  qed
qed

lemma read_u64_clean:
  assumes wf: "mem_wf m" and c: "clean m a 8"
  shows "read_u64 m a =
    join64 (join32 (read_u8 m a) (read_u8 m (a + 1)) (read_u8 m (a + 2)) (read_u8 m (a + 3)))
      (join32 (read_u8 m (a + 4)) (read_u8 m (a + 5)) (read_u8 m (a + 6)) (read_u8 m (a + 7)))"
proof -
  have "clean m a 4" "clean m (a + 4) 4"
    using clean_mono [OF c, of 4] clean_sub [OF c, of 4 4] by simp_all
  then have halves: "join64 (read_u32 m a) (read_u32 m (a + 4)) =
    join64 (join32 (read_u8 m a) (read_u8 m (a + 1)) (read_u8 m (a + 2)) (read_u8 m (a + 3)))
      (join32 (read_u8 m (a + 4)) (read_u8 m (a + 5)) (read_u8 m (a + 6)) (read_u8 m (a + 7)))"
    by (simp add: read_u32_clean [OF wf] add.assoc)
  show ?thesis
  proof (cases "in_vga_text a \<or> slot m a = None")
    case True
    then show ?thesis
      using halves vga_guards(9) [OF c] by (auto simp: read_u64_def simp del: VGA_TEXT_BASE_def VGA_TEXT_SIZE_def)
  next
    case False
    then obtain i where v: "\<not> in_vga_text a" and i: "slot m a = Some i" by blast
    have g: "\<not> (VGA_TEXT_BASE \<le> a + 7 \<and> a < VGA_TEXT_BASE + VGA_TEXT_SIZE)"
      using v vga_guards(9) [OF c] by simp
    note r = read_u8_run [OF wf c v i]
    note s = in_ram_span [OF wf i, of 7]
    show ?thesis
      using i r [of 0] r [of 1] r [of 2] r [of 3] r [of 4] r [of 5] r [of 6] r [of 7] s halves
        slot_bounded [OF wf i]
      unfolding read_u64_def if_not_P [OF g] data_u64_def by simp
  qed
qed

section \<open>Wide writes are byte writes\<close>

lemma same_store_refl [simp]: "same_store m m" by (simp add: same_store_def)

lemma same_store_sym: "same_store m m' \<Longrightarrow> same_store m' m" by (simp add: same_store_def)

lemma same_store_trans: "same_store m m' \<Longrightarrow> same_store m' m'' \<Longrightarrow> same_store m m''"
  by (simp add: same_store_def)

lemma same_store_slot: "same_store m m' \<Longrightarrow> slot m = slot m'"
  by (rule slot_cong) (simp add: same_store_def same_layout_def)

lemma same_store_backed: "same_store m m' \<Longrightarrow> backed m = backed m'"
  by (simp add: backed_def fun_eq_iff same_store_slot)

lemma same_store_wf: "same_store m m' \<Longrightarrow> mem_wf m = mem_wf m'"
  by (simp add: mem_wf_def same_store_def)

lemma same_store_clean: "same_store m m' \<Longrightarrow> clean m = clean m'"
  by (simp add: clean_def fun_eq_iff same_store_def)

lemma same_store_read_u8: "same_store m m' \<Longrightarrow> read_u8 m = read_u8 m'"
  using same_store_slot [of m m'] by (intro ext) (simp add: read_u8_def same_store_def split: option.split)

lemma same_store_read_u16: "same_store m m' \<Longrightarrow> read_u16 m = read_u16 m'"
  using same_store_slot [of m m'] same_store_read_u8 [of m m']
  by (intro ext) (simp add: read_u16_def same_store_def Let_def split: option.split)

lemma same_store_read_u32: "same_store m m' \<Longrightarrow> read_u32 m = read_u32 m'"
  using same_store_slot [of m m'] same_store_read_u8 [of m m'] same_store_read_u16 [of m m']
  by (intro ext) (simp add: read_u32_def same_store_def Let_def split: option.split)

lemma same_store_read_u64: "same_store m m' \<Longrightarrow> read_u64 m = read_u64 m'"
  using same_store_slot [of m m'] same_store_read_u32 [of m m']
  by (intro ext) (simp add: read_u64_def data_u64_def same_store_def Let_def split: option.split)

lemma same_store_noted [simp]: "same_store (noted m a v w) m"
  by (simp add: same_store_def)

lemma same_store_put_data: "same_store m m' \<Longrightarrow> same_store (put_data m i b) (put_data m' i b)"
  by (simp add: same_store_def)

lemma same_store_put_cell: "same_store m m' \<Longrightarrow> same_store (put_cell m i b) (put_cell m' i b)"
  by (simp add: same_store_def)

lemma same_store_write_u8: "same_store m m' \<Longrightarrow> same_store (write_u8 m a v) (write_u8 m' a v)"
  using same_store_slot [of m m']
  by (auto simp: write_u8_def Let_def same_store_def put_data_def put_cell_def split: option.splits)

lemma same_store_write_bytes:
  "same_store m m' \<Longrightarrow> same_store (write_bytes m a bs) (write_bytes m' a bs)"
  by (induction bs arbitrary: a m m') (simp_all add: same_store_write_u8)

lemma write_bytes_append:
  "write_bytes m a (xs @ ys) = write_bytes (write_bytes m a xs) (a + of_nat (length xs)) ys"
  by (induction xs arbitrary: m a) (simp_all add: add.assoc)

lemma write_bytes_layout [simp]:
  "low_size (write_bytes m a bs) = low_size m" "ram_size (write_bytes m a bs) = ram_size m"
  by (induction bs arbitrary: m a) simp_all

lemma write_bytes_slot [simp]: "slot (write_bytes m a bs) = slot m"
  by (rule slot_cong) (simp add: same_layout_def)

lemma write_bytes_backed [simp]: "backed (write_bytes m a bs) = backed m"
  by (simp add: backed_def fun_eq_iff)

lemma write_bytes_wf [wf_intros]: "mem_wf m \<Longrightarrow> mem_wf (write_bytes m a bs)"
  by (simp add: mem_wf_def)

lemma write_bytes_clean [simp]: "clean (write_bytes m a bs) = clean m"
  by (simp add: clean_def fun_eq_iff)

text \<open>The byte-level law of a block store: what every later read sees.\<close>

lemma read_write_bytes:
  assumes "mem_wf m" "length bs \<le> 2 ^ 64"
  shows "read_u8 (write_bytes m a bs) x =
    (if unat (x - a) < length bs \<and> backed m x then bs ! unat (x - a) else read_u8 m x)"
  using assms
proof (induction bs arbitrary: m a)
  case Nil
  then show ?case by simp
next
  case (Cons b bs)
  have IH: "read_u8 (write_bytes (write_u8 m a b) (a + 1) bs) x =
      (if unat (x - (a + 1)) < length bs \<and> backed m x then bs ! unat (x - (a + 1))
       else read_u8 (write_u8 m a b) x)"
    using Cons.IH [OF write_u8_wf [OF Cons.prems(1)]] Cons.prems(2) by simp
  show ?case
  proof (cases "x = a")
    case True
    have "x - (a + 1) = - 1" using True by simp
    then have "unat (x - (a + 1)) = 2 ^ 64 - 1"
      by (simp add: unsigned_minus_1_eq_mask mask_eq_exp_minus_1)
    then show ?thesis
      using True IH Cons.prems by (simp add: read_write_u8)
  next
    case False
    then have "x - a \<noteq> 0" by simp
    then have "unat (x - a) = Suc (unat (x - a - 1))"
      using unat_minus_one [of "x - a"] unat_gt_0 [of "x - a"] by linarith
    moreover have "x - (a + 1) = x - a - 1" by simp
    ultimately show ?thesis
      using False IH [unfolded \<open>x - (a + 1) = x - a - 1\<close>] Cons.prems by (auto simp: read_write_u8)
  qed
qed

lemma put_data_le_write_bytes:
  assumes "same_store m m'"
    and "\<And>k. k < length bs \<Longrightarrow> slot m' (a + of_nat k) = Some (i + of_nat k)"
    and "\<And>k. k < length bs \<Longrightarrow> \<not> in_vga_text (a + of_nat k)"
  shows "same_store (put_data_le m i bs) (write_bytes m' a bs)"
  using assms
proof (induction bs arbitrary: m m' a i)
  case Nil
  then show ?case by simp
next
  case (Cons b bs)
  have "\<not> in_vga_text a" "slot m' a = Some i"
    using Cons.prems(2) [of 0] Cons.prems(3) [of 0] by simp_all
  then have "write_u8 m' a b = put_data (noted m' a (ucast b) 1) i b"
    by (simp add: write_u8_def)
  then have s: "same_store (put_data m i b) (write_u8 m' a b)"
    using Cons.prems(1) by (simp add: same_store_def)
  have "same_store (put_data_le (put_data m i b) (i + 1) bs)
      (write_bytes (write_u8 m' a b) (a + 1) bs)"
    using Cons.prems(2) [of "Suc k" for k] Cons.prems(3) [of "Suc k" for k]
    by (intro Cons.IH [OF s]) (simp_all add: add.assoc)
  then show ?case by simp
qed

lemma le_bytes_length [simp]: "length (le_bytes n v) = n"
  by (simp add: le_bytes_def)

lemma le_bytes_nth [simp]: "k < n \<Longrightarrow> le_bytes n v ! k = byte_at k v"
  by (simp add: le_bytes_def)

lemma le_bytes_2: "le_bytes 2 v = [byte_at 0 v, byte_at 1 v]"
  and le_bytes_4: "le_bytes 4 v = [byte_at 0 v, byte_at 1 v, byte_at 2 v, byte_at 3 v]"
  and le_bytes_8: "le_bytes 8 v = [byte_at 0 v, byte_at 1 v, byte_at 2 v, byte_at 3 v,
      byte_at 4 v, byte_at 5 v, byte_at 6 v, byte_at 7 v]"
  by (simp_all add: le_bytes_def eval_nat_numeral)

lemma byte_at_mask:
  "ucast (v AND 0xFF :: u16) = byte_at 0 v" "ucast (drop_bit 8 v) = byte_at 1 v"
  "ucast (w AND 0xFF :: u32) = byte_at 0 w" "ucast (drop_bit 8 w AND 0xFF) = byte_at 1 w"
  "ucast (drop_bit 16 w AND 0xFF) = byte_at 2 w" "ucast (drop_bit 24 w AND 0xFF) = byte_at 3 w"
proof -
  have m: "(0xFF :: u16) = mask 8" "(0xFF :: u32) = mask 8"
    by (simp_all add: mask_eq_exp_minus_1)
  show "ucast (v AND 0xFF :: u16) = byte_at 0 v" "ucast (drop_bit 8 v) = byte_at 1 v"
    "ucast (w AND 0xFF :: u32) = byte_at 0 w" "ucast (drop_bit 8 w AND 0xFF) = byte_at 1 w"
    "ucast (drop_bit 16 w AND 0xFF) = byte_at 2 w" "ucast (drop_bit 24 w AND 0xFF) = byte_at 3 w"
    unfolding m byte_at_def
    by (rule bit_word_eqI, auto simp: bit_simps dest: bit_imp_le_length)+
qed

lemma byte_at_ucast:
  "byte_at k (ucast (w :: u32) :: u16) = (if k < 2 then byte_at k w else 0)"
  "byte_at k (ucast (v :: u64) :: u32) = (if k < 4 then byte_at k v else 0)"
  unfolding byte_at_def
  by (rule bit_word_eqI, auto simp: bit_simps dest: bit_imp_le_length)+

lemma byte_at_drop:
  "byte_at k (drop_bit 16 w) = byte_at (k + 2) w" "byte_at k (drop_bit 32 w) = byte_at (k + 4) w"
  by (simp_all add: byte_at_def algebra_simps)

lemma ucast_and_mask16: "(ucast (w AND 0xFFFF :: u32) :: u16) = ucast w"
proof -
  have m: "(0xFFFF :: u32) = mask 16" by (simp add: mask_eq_exp_minus_1)
  show ?thesis unfolding m by (rule bit_word_eqI) (auto simp: bit_simps)
qed

lemma le_bytes_split:
  "le_bytes 2 (ucast (w AND 0xFFFF :: u32) :: u16) @ le_bytes 2 (ucast (drop_bit 16 w) :: u16)
     = le_bytes 4 w"
  "le_bytes 4 (ucast (v :: u64) :: u32) @ le_bytes 4 (ucast (drop_bit 32 v) :: u32) = le_bytes 8 v"
  unfolding ucast_and_mask16 le_bytes_2 le_bytes_4 le_bytes_8 byte_at_ucast byte_at_drop append.simps
  by (simp_all add: numeral_2_eq_2 numeral_3_eq_3)

lemma write_bytes_2: "write_bytes m a (le_bytes 2 v) = write_u8 (write_u8 m a (byte_at 0 v)) (a + 1) (byte_at 1 v)"
  by (simp add: le_bytes_2)

lemma fast_store:
  assumes "mem_wf m" "clean m a n" "\<not> in_vga_text a" "slot m a = Some i"
    "unat i + (n - 1) < unat (ram_size m)" "length bs = n"
  shows "same_store (put_data_le (noted m a v w) i bs) (write_bytes m a bs)"
  using assms slot_run [OF assms(1-4)] clean_vga_all [OF assms(2)]
  by (intro put_data_le_write_bytes) simp_all

lemma slow_store: "same_store (write_bytes (noted m a v w) a bs) (write_bytes m a bs)"
  by (rule same_store_write_bytes) simp

lemma write_u16_clean:
  assumes wf: "mem_wf m" and c: "clean m a 2"
  shows "same_store (write_u16 m a v) (write_bytes m a (le_bytes 2 v))"
proof (cases "in_vga_text a")
  case True
  have "in_vga_text (a + 1)" "even (unat a)"
    using clean_vga_all [OF c, of 1] c True by (simp_all add: clean_def in_vga_nat)
  note e = vga_even_cell [OF True this]
  have cell: "cell_with False (cell_with True x (byte_at 0 v)) (byte_at 1 v) = v" for x :: u16
  proof -
    have m: "(0xFF00 :: u16) = push_bit 8 (mask 8)" "(0x00FF :: u16) = mask 8"
      by (simp_all add: mask_eq_exp_minus_1)
    show ?thesis
      unfolding cell_with_def byte_at_def if_True if_False m
      by (rule bit_word_eqI) (auto simp: bit_simps dest: bit_imp_le_length)
  qed
  show ?thesis
    using True \<open>in_vga_text (a + 1)\<close> vga_guards(1) [OF c] e
    by (simp add: write_u16_def write_bytes_2 write_u8_def same_store_def cell Let_def
        del: One_nat_def VGA_TEXT_BASE_def VGA_TEXT_SIZE_def)
next
  case False
  then have g: "\<not> (VGA_TEXT_BASE \<le> a \<and> a + 1 < VGA_TEXT_BASE + VGA_TEXT_SIZE)"
    using vga_guards(1) [OF c] by simp
  note slow = slow_store [of m a "ucast v" 2 "le_bytes 2 v"]
  show ?thesis
  proof (cases "slot m a")
    case None
    then show ?thesis
      using slow unfolding write_u16_def Let_def if_not_P [OF g] byte_at_mask
      by (simp add: le_bytes_2)
  next
    case (Some i)
    note s = in_ram_span [OF wf Some, of 1]
    show ?thesis
      using Some s slow fast_store [OF wf c False Some, of "le_bytes 2 v" "ucast v" 2]
      unfolding write_u16_def Let_def if_not_P [OF g] byte_at_mask
      by (simp add: le_bytes_2)
  qed
qed

lemma write_twice:
  assumes "same_store m1 (write_bytes m a xs)" "same_store m2 (write_bytes m1 (a + of_nat (length xs)) ys)"
  shows "same_store m2 (write_bytes m a (xs @ ys))"
  using assms same_store_write_bytes [OF assms(1)] same_store_trans
  by (metis write_bytes_append)

lemma write_u32_clean:
  assumes wf: "mem_wf m" and c: "clean m a 4"
  shows "same_store (write_u32 m a v) (write_bytes m a (le_bytes 4 v))"
proof (cases "in_vga_text a")
  case True
  let ?m0 = "noted m a (ucast v) 4"
  let ?m1 = "write_u16 ?m0 a (ucast (v AND 0xFFFF))"
  have s0: "same_store ?m0 m" by simp
  have "clean m a 2" "clean m (a + 2) 2"
    using clean_mono [OF c, of 2] clean_sub [OF c, of 2 2] by simp_all
  have wf0: "mem_wf ?m0" "clean ?m0 a 2"
    using wf \<open>clean m a 2\<close> same_store_wf [OF s0] same_store_clean [OF s0] by simp_all
  have s1: "same_store ?m1 (write_bytes m a (le_bytes 2 (ucast (v AND 0xFFFF) :: u16)))"
    using write_u16_clean [OF wf0] same_store_write_bytes [OF s0] same_store_trans by blast
  then have wf1: "mem_wf ?m1" "clean ?m1 (a + 2) 2"
    using wf \<open>clean m (a + 2) 2\<close> same_store_wf [OF s1] same_store_clean [OF s1]
    by (simp_all add: write_bytes_wf)
  have "same_store (write_u16 ?m1 (a + 2) (ucast (drop_bit 16 v)))
      (write_bytes m a (le_bytes 4 v))"
    using write_twice [OF s1, of _ "le_bytes 2 (ucast (drop_bit 16 v) :: u16)"] write_u16_clean [OF wf1]
    by (simp add: le_bytes_split)
  then show ?thesis
    using True vga_guards(5) [OF c] by (simp add: write_u32_def Let_def)
next
  case False
  then have g: "\<not> (a + 3 < VGA_TEXT_BASE + VGA_TEXT_SIZE \<and> VGA_TEXT_BASE \<le> a + 3)"
    using vga_guards(5) [OF c] by simp
  note slow = slow_store [of m a "ucast v" 4 "le_bytes 4 v"]
  show ?thesis
  proof (cases "slot m a")
    case None
    then show ?thesis
      using slow unfolding write_u32_def Let_def if_not_P [OF g] byte_at_mask(4-6)
      unfolding byte_at_mask(3)
      by (simp add: le_bytes_4 add.assoc)
  next
    case (Some i)
    note s = in_ram_span [OF wf Some, of 3]
    show ?thesis
      using Some s slow fast_store [OF wf c False Some, of "le_bytes 4 v" "ucast v" 4]
      unfolding write_u32_def Let_def if_not_P [OF g] byte_at_mask(4-6)
      unfolding byte_at_mask(3)
      by (simp add: le_bytes_4 add.assoc)
  qed
qed

lemma write_u64_clean:
  assumes wf: "mem_wf m" and c: "clean m a 8"
  shows "same_store (write_u64 m a v) (write_bytes m a (le_bytes 8 v))"
proof (cases "in_vga_text a")
  case True
  let ?m0 = "noted m a v 8"
  let ?m1 = "write_u32 ?m0 a (ucast v)"
  have s0: "same_store ?m0 m" by simp
  have "clean m a 4" "clean m (a + 4) 4"
    using clean_mono [OF c, of 4] clean_sub [OF c, of 4 4] by simp_all
  have wf0: "mem_wf ?m0" "clean ?m0 a 4"
    using wf \<open>clean m a 4\<close> same_store_wf [OF s0] same_store_clean [OF s0] by simp_all
  have s1: "same_store ?m1 (write_bytes m a (le_bytes 4 (ucast v :: u32)))"
    using write_u32_clean [OF wf0] same_store_write_bytes [OF s0] same_store_trans by blast
  then have wf1: "mem_wf ?m1" "clean ?m1 (a + 4) 4"
    using wf \<open>clean m (a + 4) 4\<close> same_store_wf [OF s1] same_store_clean [OF s1]
    by (simp_all add: write_bytes_wf)
  have "same_store (write_u32 ?m1 (a + 4) (ucast (drop_bit 32 v)))
      (write_bytes m a (le_bytes 8 v))"
    using write_twice [OF s1, of _ "le_bytes 4 (ucast (drop_bit 32 v) :: u32)"] write_u32_clean [OF wf1]
    by (simp add: le_bytes_split)
  then show ?thesis
    using True vga_guards(9) [OF c]
    by (simp add: write_u64_def Let_def del: VGA_TEXT_BASE_def VGA_TEXT_SIZE_def)
next
  case False
  then have g: "\<not> (VGA_TEXT_BASE \<le> a + 7 \<and> a < VGA_TEXT_BASE + VGA_TEXT_SIZE)"
    using vga_guards(9) [OF c] by simp
  note slow = slow_store [of m a v 8 "le_bytes 8 v"]
  show ?thesis
  proof (cases "slot m a")
    case None
    then show ?thesis
      using slow unfolding write_u64_def Let_def if_not_P [OF g] by simp
  next
    case (Some i)
    note s = in_ram_span [OF wf Some, of 7]
    show ?thesis
      using Some s slow fast_store [OF wf c False Some, of "le_bytes 8 v" v 8]
      unfolding write_u64_def Let_def if_not_P [OF g] by simp
  qed
qed

section \<open>Aligned accesses: what a read sees after a write\<close>

lemma backed_aligned_block:
  assumes wf: "mem_wf m" and n: "n dvd 4096" and al: "n dvd unat a" and k: "k < n"
  shows "backed m (a + of_nat k) = backed m a"
proof -
  have up: "n dvd B \<Longrightarrow> unat a + k < B \<longleftrightarrow> unat a < B" for B
  proof
    show "unat a + k < B" if "n dvd B" "unat a < B"
    proof -
      from that al obtain p q where e: "unat a = n * p" "B = n * q" by (auto elim!: dvdE)
      then have "p < q" using that by simp
      then have "n * (p + 1) \<le> n * q" by (intro mult_le_mono) simp_all
      then show ?thesis using e k by simp
    qed
  qed simp
  have d: "n dvd 0xB8000" "n dvd 0xC0000" "n dvd 2 ^ 64" "n dvd 4096" "n dvd 2 ^ 32"
    by (rule dvd_trans [OF n], simp)+
  note b = mem_wf_bounds [OF wf]
  have dl: "n dvd unat (low_size m)" "n dvd unat (ram_size m)"
    using d(4) b(5,6) dvd_trans by blast+
  have ak: "unat (a + of_nat k) = unat a + k"
    using up [OF d(3)] unsigned_less [of a] by (intro unat_add_of_nat64) simp
  have "n dvd unat (ram_size m) - unat (low_size m) + 2 ^ 32" using dl d(5) b(1) by simp
  note u = up [OF d(1)] up [OF d(2)] up [OF d(5)] up [OF dl(1)] up [OF this]
  have hi: "2 ^ 32 \<le> x \<and> x - 2 ^ 32 + unat (low_size m) < unat (ram_size m) \<longleftrightarrow>
      2 ^ 32 \<le> x \<and> x < unat (ram_size m) - unat (low_size m) + 2 ^ 32" for x :: nat
    using b(1) by auto
  show ?thesis
    using u unfolding backed_def in_vga_nat slot_nat(1) [OF wf] hi ak
    by (auto simp: not_less)
qed

text \<open>Bytes of a joined word, and words of the joined bytes.\<close>

lemma bit_byte_at: "bit (byte_at k v) n \<longleftrightarrow> n < 8 \<and> bit v (8 * k + n)"
  by (auto simp: byte_at_def bit_simps)

lemma bit_join16:
  "bit (join16 b0 b1) n \<longleftrightarrow> (if n < 8 then bit b0 n else bit b1 (n - 8))"
  by (auto simp: join16_def bit_simps dest: bit_imp_le_length)

lemma bit_join32:
  "bit (join32 b0 b1 b2 b3) n \<longleftrightarrow>
    (if n < 8 then bit b0 n else if n < 16 then bit b1 (n - 8)
     else if n < 24 then bit b2 (n - 16) else bit b3 (n - 24))"
  by (auto simp: join32_def bit_simps dest: bit_imp_le_length)

lemma bit_join64:
  "bit (join64 lo hi) n \<longleftrightarrow> (if n < 32 then bit lo n else bit hi (n - 32))"
  by (auto simp: join64_def bit_simps dest: bit_imp_le_length)

lemma join_le_bytes:
  "join16 (byte_at 0 v2) (byte_at 1 v2) = v2"
  "join32 (byte_at 0 v4) (byte_at 1 v4) (byte_at 2 v4) (byte_at 3 v4) = v4"
  "join64 (join32 (byte_at 0 v8) (byte_at 1 v8) (byte_at 2 v8) (byte_at 3 v8))
     (join32 (byte_at 4 v8) (byte_at 5 v8) (byte_at 6 v8) (byte_at 7 v8)) = v8"
  by (rule bit_word_eqI, auto simp: bit_join16 bit_join32 bit_join64 bit_byte_at)+

lemma offset_in_span:
  "unat a + n \<le> 2 ^ 64 \<Longrightarrow> unat (x - a) < n \<longleftrightarrow> unat a \<le> unat x \<and> unat x < unat a + n" for a x :: usize
  using unsigned_less [of a] unsigned_less [of x] by (auto simp: unat_sub_if')

lemma read_u8_after_span:
  assumes wf: "mem_wf m" and n: "n \<in> {2, 4, 8}" and al: "n dvd unat a" and l: "length bs = n"
    and k: "k < n" and b: "n dvd unat b"
  shows "read_u8 (write_bytes m a bs) (b + of_nat k) =
    (if b = a \<and> backed m a then bs ! k else read_u8 m (b + of_nat k))"
proof -
  have up: "n dvd unat x \<Longrightarrow> unat x + n \<le> 2 ^ 64" for x :: usize
    using aligned_clean [OF wf, of n x] n by (auto simp: clean_def)
  have bk: "unat (b + of_nat k) = unat b + k"
    using up [OF b] k by (intro unat_add_k)
  have "unat a \<le> unat b + k \<and> unat b + k < unat a + n \<longleftrightarrow> b = a"
  proof -
    obtain p q where e: "unat a = n * p" "unat b = n * q" using al b by (auto elim!: dvdE)
    have "n * p \<le> n * q + k \<and> n * q + k < n * p + n \<longleftrightarrow> p = q"
    proof -
      have "(n * q + k) div n = q" using k by simp
      then show ?thesis
        using k by (metis add.commute div_mult_self4 div_nat_eqI less_add_same_cancel1 le_add1
            mult.commute mult_Suc_right nat_add_left_cancel_less)
    qed
    then show ?thesis using e k by (auto simp: word_unat_eq_iff)
  qed
  moreover have "unat (b + of_nat k - a) < n \<longleftrightarrow>
      unat a \<le> unat b + k \<and> unat b + k < unat a + n"
    using offset_in_span [OF up [OF al], of "b + of_nat k"] bk by simp
  moreover have "unat (a + of_nat k - a) = k"
  proof -
    have "k < 2 ^ LENGTH(64)" using k n by auto
    then show ?thesis by (simp add: unat_of_nat)
  qed
  moreover have "length bs \<le> 2 ^ 64" using l n by auto
  ultimately show ?thesis
    using read_write_bytes [OF wf, of bs a "b + of_nat k"] l backed_aligned_block [OF wf _ al k] n
    by auto
qed

section \<open>The store interface\<close>

text \<open>
  What the page walker and the segment loader rely on: aligned words of one
  width, read back after a write and otherwise undisturbed. \<open>read_modify_write\<close>
  is the client lemma behind every accessed-bit and dirty-bit update.
\<close>

locale word_store =
  fixes inv :: "'m \<Rightarrow> bool" and aligned :: "'a \<Rightarrow> bool" and present :: "'m \<Rightarrow> 'a \<Rightarrow> bool"
    and rd :: "'m \<Rightarrow> 'a \<Rightarrow> 'v" and wr :: "'m \<Rightarrow> 'a \<Rightarrow> 'v \<Rightarrow> 'm"
  assumes rd_wr: "inv m \<Longrightarrow> aligned a \<Longrightarrow> aligned b \<Longrightarrow>
      rd (wr m a v) b = (if b = a \<and> present m a then v else rd m b)"
    and inv_wr: "inv m \<Longrightarrow> aligned a \<Longrightarrow> inv (wr m a v)"
    and present_wr: "inv m \<Longrightarrow> aligned a \<Longrightarrow> present (wr m a v) = present m"
begin

lemma read_modify_write:
  assumes "inv m" "aligned a" "aligned b" "p (f (rd m a)) = p (rd m a)"
  shows "p (rd (wr m a (f (rd m a))) b) = p (rd m b)"
  using assms by (simp add: rd_wr)

lemma read_modify_write_list:
  assumes "inv m" "\<forall>x \<in> set afs. aligned (fst x) \<and> (\<forall>v. p (snd x v) = p v)" "aligned b"
  shows "p (rd (fold (\<lambda>(a, f) m. wr m a (f (rd m a))) afs m) b) = p (rd m b) \<and>
    inv (fold (\<lambda>(a, f) m. wr m a (f (rd m a))) afs m) \<and>
    present (fold (\<lambda>(a, f) m. wr m a (f (rd m a))) afs m) = present m"
  using assms(1,2)
proof (induction afs arbitrary: m)
  case (Cons af afs)
  obtain a f where af: "af = (a, f)" by (cases af)
  have a: "aligned a" "\<forall>v. p (f v) = p v" using Cons.prems(2) by (simp_all add: af)
  then have "inv (wr m a (f (rd m a)))" "present (wr m a (f (rd m a))) = present m"
    "p (rd (wr m a (f (rd m a))) b) = p (rd m b)"
    using Cons.prems(1) assms(3) read_modify_write [of m a b p f] by (simp_all add: inv_wr present_wr)
  then show ?case using Cons.IH [of "wr m a (f (rd m a))"] Cons.prems(2) by (simp add: af)
qed simp

lemma fold_writes:
  assumes "inv m" "\<forall>i \<in> set is. aligned (loc i)" "inj_on loc (set is)" "distinct is"
  shows "inv (fold (\<lambda>i m. wr m (loc i) (val i)) is m)" (is ?inv)
    and "present (fold (\<lambda>i m. wr m (loc i) (val i)) is m) = present m" (is ?present)
    and "aligned b \<Longrightarrow> rd (fold (\<lambda>i m. wr m (loc i) (val i)) is m) b =
      (case filter (\<lambda>i. loc i = b) is of i # _ \<Rightarrow> if present m b then val i else rd m b | [] \<Rightarrow> rd m b)"
proof -
  have "?inv \<and> ?present \<and> (aligned b \<longrightarrow> rd (fold (\<lambda>i m. wr m (loc i) (val i)) is m) b =
      (case filter (\<lambda>i. loc i = b) is of i # _ \<Rightarrow> if present m b then val i else rd m b | [] \<Rightarrow> rd m b))"
    using assms
  proof (induction "is" arbitrary: m)
    case (Cons i js)
    have e: "filter (\<lambda>j. loc j = loc i) js = []"
      using Cons.prems(3,4) by (auto simp: filter_empty_conv inj_on_def)
    show ?case
      using Cons.IH [of "wr m (loc i) (val i)"] Cons.prems e
      by (cases "loc i = b") (auto simp: inv_wr present_wr rd_wr inj_on_def split: list.split)
  qed simp
  then show ?inv ?present
    "aligned b \<Longrightarrow> rd (fold (\<lambda>i m. wr m (loc i) (val i)) is m) b =
      (case filter (\<lambda>i. loc i = b) is of i # _ \<Rightarrow> if present m b then val i else rd m b | [] \<Rightarrow> rd m b)"
    by blast+
qed

lemma fold_writes_at:
  assumes "inv m" "\<forall>i \<in> set is. aligned (loc i)" "inj_on loc (set is)" "distinct is" "j \<in> set is" "present m (loc j)"
  shows "rd (fold (\<lambda>i m. wr m (loc i) (val i)) is m) (loc j) = val j"
proof -
  have "filter (\<lambda>i. loc i = loc j) is = [j]"
    using assms(3-5)
  proof (induction "is")
    case (Cons i js)
    then show ?case by (auto simp: filter_empty_conv inj_on_def)
  qed simp
  then show ?thesis using fold_writes(3) [OF assms(1-4), of "loc j" val] assms(2,5,6) by simp
qed

lemma write_write_same:
  assumes "inv m" "aligned a" "aligned b"
  shows "rd (wr (wr m a v) a w) b = rd (wr m a w) b"
  using assms by (simp add: rd_wr inv_wr present_wr)

lemma write_write_commute:
  assumes "inv m" "aligned a" "aligned a'" "aligned b" "a \<noteq> a'"
  shows "rd (wr (wr m a v) a' w) b = rd (wr (wr m a' w) a v) b"
  using assms by (auto simp: rd_wr inv_wr present_wr)

end

lemma write_u16_same: "mem_wf m \<Longrightarrow> 2 dvd unat a \<Longrightarrow> same_store (write_u16 m a v) (write_bytes m a (le_bytes 2 v))"
  by (intro write_u16_clean aligned_clean) simp_all

lemma write_u32_same: "mem_wf m \<Longrightarrow> 4 dvd unat a \<Longrightarrow> same_store (write_u32 m a v) (write_bytes m a (le_bytes 4 v))"
  by (intro write_u32_clean aligned_clean) simp_all

lemma write_u64_same: "mem_wf m \<Longrightarrow> 8 dvd unat a \<Longrightarrow> same_store (write_u64 m a v) (write_bytes m a (le_bytes 8 v))"
  by (intro write_u64_clean aligned_clean) simp_all

lemma read_u16_same: "mem_wf m \<Longrightarrow> 2 dvd unat b \<Longrightarrow> read_u16 m b = join16 (read_u8 m b) (read_u8 m (b + 1))"
  by (intro read_u16_clean aligned_clean) simp_all

lemma read_u32_same: "mem_wf m \<Longrightarrow> 4 dvd unat b \<Longrightarrow> read_u32 m b =
    join32 (read_u8 m b) (read_u8 m (b + 1)) (read_u8 m (b + 2)) (read_u8 m (b + 3))"
  by (intro read_u32_clean aligned_clean) simp_all

lemma read_u64_same: "mem_wf m \<Longrightarrow> 8 dvd unat b \<Longrightarrow> read_u64 m b =
    join64 (join32 (read_u8 m b) (read_u8 m (b + 1)) (read_u8 m (b + 2)) (read_u8 m (b + 3)))
      (join32 (read_u8 m (b + 4)) (read_u8 m (b + 5)) (read_u8 m (b + 6)) (read_u8 m (b + 7)))"
  by (intro read_u64_clean aligned_clean) simp_all

lemma read_write_u16:
  assumes "mem_wf m" "2 dvd unat a" "2 dvd unat b"
  shows "read_u16 (write_u16 m a v) b = (if b = a \<and> backed m a then v else read_u16 m b)"
proof -
  let ?w = "write_bytes m a (le_bytes 2 v)"
  note r = read_u8_after_span [OF assms(1) _ assms(2) _ _ assms(3), of "le_bytes 2 v"]
  have "read_u16 (write_u16 m a v) b = read_u16 ?w b"
    using same_store_read_u16 [OF write_u16_same [OF assms(1,2)]] by simp
  also have "\<dots> = (if b = a \<and> backed m a then v else read_u16 m b)"
    using r [of 0] r [of 1] assms by (simp add: read_u16_same write_bytes_wf join_le_bytes [unfolded One_nat_def])
  finally show ?thesis .
qed

lemma read_write_u32:
  assumes "mem_wf m" "4 dvd unat a" "4 dvd unat b"
  shows "read_u32 (write_u32 m a v) b = (if b = a \<and> backed m a then v else read_u32 m b)"
proof -
  let ?w = "write_bytes m a (le_bytes 4 v)"
  note r = read_u8_after_span [OF assms(1) _ assms(2) _ _ assms(3), of "le_bytes 4 v"]
  have "read_u32 (write_u32 m a v) b = read_u32 ?w b"
    using same_store_read_u32 [OF write_u32_same [OF assms(1,2)]] by simp
  also have "\<dots> = (if b = a \<and> backed m a then v else read_u32 m b)"
    using r [of 0] r [of 1] r [of 2] r [of 3] assms
    by (simp add: read_u32_same write_bytes_wf join_le_bytes [unfolded One_nat_def])
  finally show ?thesis .
qed

lemma read_write_u64:
  assumes "mem_wf m" "8 dvd unat a" "8 dvd unat b"
  shows "read_u64 (write_u64 m a v) b = (if b = a \<and> backed m a then v else read_u64 m b)"
proof -
  let ?w = "write_bytes m a (le_bytes 8 v)"
  note r = read_u8_after_span [OF assms(1) _ assms(2) _ _ assms(3), of "le_bytes 8 v"]
  have "read_u64 (write_u64 m a v) b = read_u64 ?w b"
    using same_store_read_u64 [OF write_u64_same [OF assms(1,2)]] by simp
  also have "\<dots> = (if b = a \<and> backed m a then v else read_u64 m b)"
    using r [of 0] r [of 1] r [of 2] r [of 3] r [of 4] r [of 5] r [of 6] r [of 7] assms
    by (simp add: read_u64_same write_bytes_wf join_le_bytes [unfolded One_nat_def])
  finally show ?thesis .
qed

lemma write_u16_wf [wf_intros]: "mem_wf m \<Longrightarrow> 2 dvd unat a \<Longrightarrow> mem_wf (write_u16 m a v)"
  using same_store_wf [OF write_u16_same] write_bytes_wf by blast

lemma write_u32_wf [wf_intros]: "mem_wf m \<Longrightarrow> 4 dvd unat a \<Longrightarrow> mem_wf (write_u32 m a v)"
  using same_store_wf [OF write_u32_same] write_bytes_wf by blast

lemma write_u64_wf [wf_intros]: "mem_wf m \<Longrightarrow> 8 dvd unat a \<Longrightarrow> mem_wf (write_u64 m a v)"
  using same_store_wf [OF write_u64_same] write_bytes_wf by blast

lemma write_u16_backed: "mem_wf m \<Longrightarrow> 2 dvd unat a \<Longrightarrow> backed (write_u16 m a v) = backed m"
  using same_store_backed [OF write_u16_same] by simp

lemma write_u32_backed: "mem_wf m \<Longrightarrow> 4 dvd unat a \<Longrightarrow> backed (write_u32 m a v) = backed m"
  using same_store_backed [OF write_u32_same] by simp

lemma write_u64_backed: "mem_wf m \<Longrightarrow> 8 dvd unat a \<Longrightarrow> backed (write_u64 m a v) = backed m"
  using same_store_backed [OF write_u64_same] by simp

interpretation store8: word_store mem_wf "\<lambda>_. True" backed read_u8 write_u8
  by unfold_locales (simp_all add: read_write_u8 write_u8_wf)

interpretation store16: word_store mem_wf "\<lambda>a. 2 dvd unat a" backed read_u16 write_u16
  by unfold_locales (simp_all add: read_write_u16 write_u16_wf write_u16_backed)

interpretation store32: word_store mem_wf "\<lambda>a. 4 dvd unat a" backed read_u32 write_u32
  by unfold_locales (simp_all add: read_write_u32 write_u32_wf write_u32_backed)

interpretation store64: word_store mem_wf "\<lambda>a. 8 dvd unat a" backed read_u64 write_u64
  by unfold_locales (simp_all add: read_write_u64 write_u64_wf write_u64_backed)

end
