(* ===== verification/Memory_Fields.thy ===== *)
theory Memory_Fields imports Memory_Laws begin

text \<open>
  Structures in guest memory: fields of different widths at disjoint addresses
  do not disturb one another. The virtio rings, the FXSAVE area, descriptor
  tables and the real-mode tables of the loader are read and written through
  these lemmas.
\<close>

definition apart :: "usize \<Rightarrow> nat \<Rightarrow> usize \<Rightarrow> nat \<Rightarrow> bool" where
  "apart a n b k \<longleftrightarrow> unat a + n \<le> unat b \<or> unat b + k \<le> unat a"

lemma read_u8_apart:
  assumes "mem_wf m" "unat a + length bs \<le> 2 ^ 64" "apart a (length bs) x 1"
  shows "read_u8 (write_bytes m a bs) x = read_u8 m x"
proof -
  have "\<not> unat (x - a) < length bs"
    using offset_in_span [OF assms(2), of x] assms(3) by (auto simp: apart_def)
  moreover have "length bs \<le> 2 ^ 64" using assms(2) by simp
  ultimately show ?thesis using read_write_bytes [OF assms(1)] by simp
qed

lemma aligned_top: "n \<in> {2, 4, 8, 16} \<Longrightarrow> n dvd unat b \<Longrightarrow> unat b + n \<le> 2 ^ 64" for b :: usize
proof -
  assume n: "n \<in> {2, 4, 8, 16}" and al: "n dvd unat b"
  then have "n dvd (2 ^ 64 :: nat)" by auto
  then obtain p q where "unat b = n * p" "(2 ^ 64 :: nat) = n * q" using al by (metis dvdE)
  moreover have "unat b < 2 ^ 64" by (rule unat_lt64)
  ultimately have "p < q" by (metis mult_less_cancel1)
  then have "n * (p + 1) \<le> n * q" by (intro mult_le_mono) simp_all
  then show ?thesis using \<open>unat b = n * p\<close> \<open>2 ^ 64 = n * q\<close> by simp
qed

lemma read_u8_apart_run:
  assumes "mem_wf m" "unat a + length bs \<le> 2 ^ 64" "n \<in> {2, 4, 8, 16}" "n dvd unat b"
    "apart a (length bs) b n" "k < n"
  shows "read_u8 (write_bytes m a bs) (b + of_nat k) = read_u8 m (b + of_nat k)"
proof -
  have "unat (b + of_nat k) = unat b + k"
    using aligned_top [OF assms(3,4)] assms(6) by (rule unat_add_k)
  then have "apart a (length bs) (b + of_nat k) 1" using assms(5,6) by (auto simp: apart_def)
  then show ?thesis by (rule read_u8_apart [OF assms(1,2)])
qed

lemma read_apart:
  assumes "mem_wf m" "unat a + length bs \<le> 2 ^ 64"
  shows "2 dvd unat b \<Longrightarrow> apart a (length bs) b 2 \<Longrightarrow> read_u16 (write_bytes m a bs) b = read_u16 m b"
    and "4 dvd unat b \<Longrightarrow> apart a (length bs) b 4 \<Longrightarrow> read_u32 (write_bytes m a bs) b = read_u32 m b"
    and "8 dvd unat b \<Longrightarrow> apart a (length bs) b 8 \<Longrightarrow> read_u64 (write_bytes m a bs) b = read_u64 m b"
proof -
  note r = read_u8_apart_run [OF assms]
  show "2 dvd unat b \<Longrightarrow> apart a (length bs) b 2 \<Longrightarrow> read_u16 (write_bytes m a bs) b = read_u16 m b"
    using r [of 2 b 0] r [of 2 b 1] assms by (simp add: read_u16_same write_bytes_wf)
  show "4 dvd unat b \<Longrightarrow> apart a (length bs) b 4 \<Longrightarrow> read_u32 (write_bytes m a bs) b = read_u32 m b"
    using r [of 4 b 0] r [of 4 b 1] r [of 4 b 2] r [of 4 b 3] assms
    by (simp add: read_u32_same write_bytes_wf)
  show "8 dvd unat b \<Longrightarrow> apart a (length bs) b 8 \<Longrightarrow> read_u64 (write_bytes m a bs) b = read_u64 m b"
    using r [of 8 b 0] r [of 8 b 1] r [of 8 b 2] r [of 8 b 3] r [of 8 b 4] r [of 8 b 5] r [of 8 b 6]
      r [of 8 b 7] assms
    by (simp add: read_u64_same write_bytes_wf)
qed

lemma write_u8_bytes: "write_u8 m a v = write_bytes m a [v]"
  by simp

text \<open>Every aligned store is a span of bytes; a read apart from it is undisturbed.\<close>

definition stores :: "(memory \<Rightarrow> memory) \<Rightarrow> usize \<Rightarrow> nat \<Rightarrow> bool" where
  "stores w a n \<longleftrightarrow> unat a + n \<le> 2 ^ 64 \<and>
     (\<forall>m. mem_wf m \<longrightarrow> (\<exists>bs. length bs = n \<and> same_store (w m) (write_bytes m a bs)))"

lemma stores_write:
  "stores (\<lambda>m. write_u8 m a v8) a 1"
  "2 dvd unat a \<Longrightarrow> stores (\<lambda>m. write_u16 m a v16) a 2"
  "4 dvd unat a \<Longrightarrow> stores (\<lambda>m. write_u32 m a v32) a 4"
  "8 dvd unat a \<Longrightarrow> stores (\<lambda>m. write_u64 m a v64) a 8"
proof -
  have s: "same_store m m" for m by (simp add: same_store_def)
  show "stores (\<lambda>m. write_u8 m a v8) a 1"
    unfolding stores_def using unat_lt64 [of a] s
    by (auto intro!: exI [of _ "[v8]"])
  show "2 dvd unat a \<Longrightarrow> stores (\<lambda>m. write_u16 m a v16) a 2"
    using aligned_top [of 2 a] write_u16_same le_bytes_length unfolding stores_def by blast
  show "4 dvd unat a \<Longrightarrow> stores (\<lambda>m. write_u32 m a v32) a 4"
    using aligned_top [of 4 a] write_u32_same le_bytes_length unfolding stores_def by blast
  show "8 dvd unat a \<Longrightarrow> stores (\<lambda>m. write_u64 m a v64) a 8"
    using aligned_top [of 8 a] write_u64_same le_bytes_length unfolding stores_def by blast
qed

lemma stores_frame:
  assumes "stores w a n" "mem_wf m"
  shows "mem_wf (w m)" "backed (w m) = backed m" "slot (w m) = slot m"
    "apart a n c 1 \<Longrightarrow> read_u8 (w m) c = read_u8 m c"
    "2 dvd unat b \<Longrightarrow> apart a n b 2 \<Longrightarrow> read_u16 (w m) b = read_u16 m b"
    "4 dvd unat b \<Longrightarrow> apart a n b 4 \<Longrightarrow> read_u32 (w m) b = read_u32 m b"
    "8 dvd unat b \<Longrightarrow> apart a n b 8 \<Longrightarrow> read_u64 (w m) b = read_u64 m b"
proof -
  obtain bs where l: "length bs = n" and s: "same_store (w m) (write_bytes m a bs)"
    and t: "unat a + length bs \<le> 2 ^ 64" using assms unfolding stores_def by auto
  note r = read_apart [OF assms(2) t, unfolded l]
  show "mem_wf (w m)" "backed (w m) = backed m" "slot (w m) = slot m"
    using same_store_wf [OF s] same_store_backed [OF s] same_store_slot [OF s] assms(2)
    by (simp_all add: write_bytes_wf)
  show "apart a n c 1 \<Longrightarrow> read_u8 (w m) c = read_u8 m c"
    unfolding same_store_read_u8 [OF s] by (rule read_u8_apart [OF assms(2) t]) (simp add: l)
  show "2 dvd unat b \<Longrightarrow> apart a n b 2 \<Longrightarrow> read_u16 (w m) b = read_u16 m b"
    unfolding same_store_read_u16 [OF s] by (rule r)
  show "4 dvd unat b \<Longrightarrow> apart a n b 4 \<Longrightarrow> read_u32 (w m) b = read_u32 m b"
    unfolding same_store_read_u32 [OF s] by (rule r)
  show "8 dvd unat b \<Longrightarrow> apart a n b 8 \<Longrightarrow> read_u64 (w m) b = read_u64 m b"
    unfolding same_store_read_u64 [OF s] by (rule r)
qed

lemma stores_layout:
  assumes "stores w a n" "mem_wf m"
  shows "low_size (w m) = low_size m" "ram_size (w m) = ram_size m"
proof -
  obtain bs where "same_store (w m) (write_bytes m a bs)" using assms unfolding stores_def by auto
  then show "low_size (w m) = low_size m" "ram_size (w m) = ram_size m" by (simp_all add: same_store_def)
qed

text \<open>Two adjacent stores are one store.\<close>

lemma stores_seq:
  assumes "stores w a n" "stores w' (a + of_nat n) k" "unat a + n + k \<le> 2 ^ 64" "unat a + n < 2 ^ 64"
  shows "stores (\<lambda>m. w' (w m)) a (n + k)"
  unfolding stores_def
proof (intro conjI allI impI)
  show "unat a + (n + k) \<le> 2 ^ 64" using assms(3) by simp
  fix m assume m: "mem_wf m"
  then obtain bs where l: "length bs = n" and s: "same_store (w m) (write_bytes m a bs)"
    using assms(1) unfolding stores_def by auto
  obtain cs where "length cs = k" "same_store (w' (w m)) (write_bytes (w m) (a + of_nat n) cs)"
    using assms(2) stores_frame(1) [OF assms(1) m] unfolding stores_def by auto
  then show "\<exists>bs. length bs = n + k \<and> same_store (w' (w m)) (write_bytes m a bs)"
    using write_twice [OF s, of "w' (w m)" cs] l by (intro exI [of _ "bs @ cs"]) simp
qed

lemma stores_fold:
  assumes "\<forall>i \<in> set is. stores (w i) (loc i) n" "mem_wf m"
  shows "mem_wf (fold w is m) \<and> backed (fold w is m) = backed m"
    and "2 dvd unat b \<Longrightarrow> (\<forall>i \<in> set is. apart (loc i) n b 2) \<Longrightarrow> read_u16 (fold w is m) b = read_u16 m b"
proof -
  show "mem_wf (fold w is m) \<and> backed (fold w is m) = backed m"
    using assms
  proof (induction "is" arbitrary: m)
    case (Cons i js)
    then show ?case using stores_frame(1,2) [of "w i" "loc i" n m] by simp
  qed simp
  show "2 dvd unat b \<Longrightarrow> (\<forall>i \<in> set is. apart (loc i) n b 2) \<Longrightarrow> read_u16 (fold w is m) b = read_u16 m b"
    using assms
  proof (induction "is" arbitrary: m)
    case (Cons i js)
    then show ?case using stores_frame(1,5) [of "w i" "loc i" n m] by simp
  qed simp
qed

end
