(* ===== verification/Paging.thy ===== *)
theory Paging imports Memory_Fields begin

text \<open>
  The page-table walks (src/src/paging.rs): 32-bit, PAE and long-mode paging.
  The lemmas show that the three hand-written walks are instances of one radix
  walk with its permission rule, that a translation depends only on the page of
  the linear address, and that no accessed or dirty bit the processor sets can
  change any translation. A walk is a function of the words it reads, so the
  walks take the read operation of the memory as a parameter.
\<close>

unbundle bit_operations_syntax

definition pte_P :: u64 where [simp]: "pte_P = 1"
definition pte_RW :: u64 where [simp]: "pte_RW = 2"
definition pte_US :: u64 where [simp]: "pte_US = 4"
definition pte_A :: u64 where [simp]: "pte_A = 0x20"
definition pte_D :: u64 where [simp]: "pte_D = 0x40"
definition pte_PS :: u64 where [simp]: "pte_PS = 0x80"
definition pte_NX :: u64 where [simp]: "pte_NX = 0x8000000000000000"
definition ADDR_MASK_64 :: u64 where [simp]: "ADDR_MASK_64 = 0x000FFFFFFFFFF000"
definition ADDR_MASK_32 :: u64 where [simp]: "ADDR_MASK_32 = 0xFFFFF000"

datatype paging_mode = Off | Legacy | Pae | Long

record page_map =
  pm_phys :: u64
  pm_writable :: bool
  pm_user :: bool
  pm_exec :: bool
  pm_walk :: "u64 list"
  walk_len :: nat
  entry_bytes :: nat

definition pm_leaf :: "page_map \<Rightarrow> u64" where
  "pm_leaf p = pm_walk p ! (walk_len p - 1)"

definition walk_legacy :: "(usize \<Rightarrow> u32) \<Rightarrow> u64 \<Rightarrow> u32 \<Rightarrow> page_map option" where
  "walk_legacy rd cr3 linear =
     (let pd_index = drop_bit 22 linear AND 0x3FF;
          pt_index = drop_bit 12 linear AND 0x3FF;
          offset = ucast (linear AND 0xFFF);
          pde_addr = (cr3 AND ADDR_MASK_32) + ucast pd_index * 4;
          pde = ucast (rd pde_addr)
      in if pde AND pte_P = 0 then None
         else if pde AND pte_PS \<noteq> 0 then
           (let base = pde AND 0xFFC00000
            in Some \<lparr>pm_phys = base OR (ucast linear AND 0x3FFFFF),
                 pm_writable = (pde AND pte_RW \<noteq> 0), pm_user = (pde AND pte_US \<noteq> 0), pm_exec = True,
                 pm_walk = [pde_addr, 0, 0, 0], walk_len = 1, entry_bytes = 4\<rparr>)
         else
           (let pte_addr = (pde AND ADDR_MASK_32) + ucast pt_index * 4;
                entry = ucast (rd pte_addr)
            in if entry AND pte_P = 0 then None
               else Some \<lparr>pm_phys = (entry AND ADDR_MASK_32) OR offset,
                 pm_writable = (pde AND pte_RW \<noteq> 0 \<and> entry AND pte_RW \<noteq> 0),
                 pm_user = (pde AND pte_US \<noteq> 0 \<and> entry AND pte_US \<noteq> 0), pm_exec = True,
                 pm_walk = [pde_addr, pte_addr, 0, 0], walk_len = 2, entry_bytes = 4\<rparr>))"

definition walk_pae :: "(usize \<Rightarrow> u64) \<Rightarrow> u64 \<Rightarrow> u32 \<Rightarrow> bool \<Rightarrow> page_map option" where
  "walk_pae rd cr3 linear nxe =
     (let pdpt_index = drop_bit 30 linear AND 0x3;
          pd_index = drop_bit 21 linear AND 0x1FF;
          pt_index = drop_bit 12 linear AND 0x1FF;
          pdpte_addr = (cr3 AND NOT 0x1F) + ucast pdpt_index * 8;
          pdpte = rd pdpte_addr
      in if pdpte AND pte_P = 0 then None
         else
           (let pde_addr = (pdpte AND ADDR_MASK_64) + ucast pd_index * 8;
                pde = rd pde_addr
            in if pde AND pte_P = 0 then None
               else if pde AND pte_PS \<noteq> 0 then
                 Some \<lparr>pm_phys = (pde AND ADDR_MASK_64 AND NOT 0x1FFFFF) OR (ucast linear AND 0x1FFFFF),
                   pm_writable = (pde AND pte_RW \<noteq> 0), pm_user = (pde AND pte_US \<noteq> 0),
                   pm_exec = (\<not> nxe \<or> pde AND pte_NX = 0),
                   pm_walk = [pdpte_addr, pde_addr, 0, 0], walk_len = 2, entry_bytes = 8\<rparr>
               else
                 (let pte_addr = (pde AND ADDR_MASK_64) + ucast pt_index * 8;
                      entry = rd pte_addr
                  in if entry AND pte_P = 0 then None
                     else Some \<lparr>pm_phys = (entry AND ADDR_MASK_64) OR (ucast linear AND 0xFFF),
                       pm_writable = (pde AND pte_RW \<noteq> 0 \<and> entry AND pte_RW \<noteq> 0),
                       pm_user = (pde AND pte_US \<noteq> 0 \<and> entry AND pte_US \<noteq> 0),
                       pm_exec = (\<not> nxe \<or> (pde OR entry) AND pte_NX = 0),
                       pm_walk = [pdpte_addr, pde_addr, pte_addr, 0], walk_len = 3, entry_bytes = 8\<rparr>)))"

definition walk_long :: "(usize \<Rightarrow> u64) \<Rightarrow> u64 \<Rightarrow> u64 \<Rightarrow> bool \<Rightarrow> page_map option" where
  "walk_long rd cr3 linear nxe =
     (let pml4_index = drop_bit 39 linear AND 0x1FF;
          pdpt_index = drop_bit 30 linear AND 0x1FF;
          pd_index = drop_bit 21 linear AND 0x1FF;
          pt_index = drop_bit 12 linear AND 0x1FF;
          pml4e_addr = (cr3 AND ADDR_MASK_64) + pml4_index * 8;
          pml4e = rd pml4e_addr
      in if pml4e AND pte_P = 0 then None
         else
           (let pdpte_addr = (pml4e AND ADDR_MASK_64) + pdpt_index * 8;
                pdpte = rd pdpte_addr
            in if pdpte AND pte_P = 0 then None
               else if pdpte AND pte_PS \<noteq> 0 then
                 (let acc = pml4e OR pdpte
                  in Some \<lparr>pm_phys = (pdpte AND ADDR_MASK_64 AND NOT 0x3FFFFFFF) OR (linear AND 0x3FFFFFFF),
                       pm_writable = (pml4e AND pte_RW \<noteq> 0 \<and> pdpte AND pte_RW \<noteq> 0),
                       pm_user = (pml4e AND pte_US \<noteq> 0 \<and> pdpte AND pte_US \<noteq> 0),
                       pm_exec = (\<not> nxe \<or> acc AND pte_NX = 0),
                       pm_walk = [pml4e_addr, pdpte_addr, 0, 0], walk_len = 2, entry_bytes = 8\<rparr>)
               else
                 (let pde_addr = (pdpte AND ADDR_MASK_64) + pd_index * 8;
                      pde = rd pde_addr
                  in if pde AND pte_P = 0 then None
                     else if pde AND pte_PS \<noteq> 0 then
                       (let acc = pml4e OR pdpte OR pde
                        in Some \<lparr>pm_phys = (pde AND ADDR_MASK_64 AND NOT 0x1FFFFF) OR (linear AND 0x1FFFFF),
                             pm_writable = (pml4e AND pdpte AND pde AND pte_RW \<noteq> 0),
                             pm_user = (pml4e AND pdpte AND pde AND pte_US \<noteq> 0),
                             pm_exec = (\<not> nxe \<or> acc AND pte_NX = 0),
                             pm_walk = [pml4e_addr, pdpte_addr, pde_addr, 0], walk_len = 3,
                             entry_bytes = 8\<rparr>)
                     else
                       (let pte_addr = (pde AND ADDR_MASK_64) + pt_index * 8;
                            entry = rd pte_addr
                        in if entry AND pte_P = 0 then None
                           else
                             (let acc = pml4e OR pdpte OR pde OR entry
                              in Some \<lparr>pm_phys = (entry AND ADDR_MASK_64) OR (linear AND 0xFFF),
                                   pm_writable = (pml4e AND pdpte AND pde AND entry AND pte_RW \<noteq> 0),
                                   pm_user = (pml4e AND pdpte AND pde AND entry AND pte_US \<noteq> 0),
                                   pm_exec = (\<not> nxe \<or> acc AND pte_NX = 0),
                                   pm_walk = [pml4e_addr, pdpte_addr, pde_addr, pte_addr], walk_len = 4,
                                   entry_bytes = 8\<rparr>)))))"

definition translate_legacy :: "memory \<Rightarrow> u64 \<Rightarrow> u32 \<Rightarrow> page_map option" where
  "translate_legacy m = walk_legacy (read_u32 m)"

definition translate_pae :: "memory \<Rightarrow> u64 \<Rightarrow> u32 \<Rightarrow> bool \<Rightarrow> page_map option" where
  "translate_pae m = walk_pae (read_u64 m)"

definition translate_long :: "memory \<Rightarrow> u64 \<Rightarrow> u64 \<Rightarrow> bool \<Rightarrow> page_map option" where
  "translate_long m = walk_long (read_u64 m)"

definition translate_mode :: "memory \<Rightarrow> u64 \<Rightarrow> u64 \<Rightarrow> paging_mode \<Rightarrow> bool \<Rightarrow> page_map option" where
  "translate_mode m cr3 linear md nxe =
     (case md of
        Off \<Rightarrow> Some \<lparr>pm_phys = linear, pm_writable = True, pm_user = True, pm_exec = True,
                 pm_walk = [0, 0, 0, 0], walk_len = 0, entry_bytes = 0\<rparr>
      | Legacy \<Rightarrow> translate_legacy m cr3 (ucast linear)
      | Pae \<Rightarrow> translate_pae m cr3 (ucast linear) nxe
      | Long \<Rightarrow> translate_long m cr3 linear nxe)"

definition canonical :: "u64 \<Rightarrow> bool" where
  "canonical linear = (let top = drop_bit 47 linear in top = 0 \<or> top = 0x1FFFF)"

section \<open>One radix walk\<close>

text \<open>
  The reference: a list of levels from the root, each with the position and
  width of its index, whether a set PS bit makes its entry a leaf, and whether
  the entry takes part in the permissions. The result is the physical address
  and the path of entries that were read.
\<close>

record level =
  lv_shift :: nat
  lv_bits :: nat
  lv_leaf :: bool
  lv_perm :: bool

fun radix_walk :: "(usize \<Rightarrow> u64) \<Rightarrow> u64 \<Rightarrow> u64 \<Rightarrow> u64 \<Rightarrow> u64 \<Rightarrow> level list \<Rightarrow>
    (u64 \<times> (u64 \<times> u64 \<times> bool) list) option" where
  "radix_walk rd width amask linear base [] = None"
| "radix_walk rd width amask linear base (l # ls) =
     (let a = base + (drop_bit (lv_shift l) linear AND mask (lv_bits l)) * width;
          e = rd a
      in if e AND pte_P = 0 then None
         else if ls = [] \<or> lv_leaf l \<and> e AND pte_PS \<noteq> 0 then
           Some ((e AND amask AND NOT (mask (lv_shift l))) OR (linear AND mask (lv_shift l)),
             [(a, e, lv_perm l)])
         else map_option (\<lambda>(p, path). (p, (a, e, lv_perm l) # path))
                (radix_walk rd width amask linear (e AND amask) ls))"

definition path_map :: "nat \<Rightarrow> bool \<Rightarrow> u64 \<times> (u64 \<times> u64 \<times> bool) list \<Rightarrow> page_map" where
  "path_map width nxe r =
     (let path = snd r; es = [e. (_, e, perm) \<leftarrow> path, perm] in
      \<lparr>pm_phys = fst r,
       pm_writable = list_all (\<lambda>e. e AND pte_RW \<noteq> 0) es,
       pm_user = list_all (\<lambda>e. e AND pte_US \<noteq> 0) es,
       pm_exec = (\<not> nxe \<or> list_all (\<lambda>e. e AND pte_NX = 0) es),
       pm_walk = map fst path @ replicate (4 - length path) 0,
       walk_len = length path, entry_bytes = width\<rparr>)"

definition legacy_levels :: "level list" where
  "legacy_levels = [\<lparr>lv_shift = 22, lv_bits = 10, lv_leaf = True, lv_perm = True\<rparr>,
     \<lparr>lv_shift = 12, lv_bits = 10, lv_leaf = False, lv_perm = True\<rparr>]"

definition pae_levels :: "level list" where
  "pae_levels = [\<lparr>lv_shift = 30, lv_bits = 2, lv_leaf = False, lv_perm = False\<rparr>,
     \<lparr>lv_shift = 21, lv_bits = 9, lv_leaf = True, lv_perm = True\<rparr>,
     \<lparr>lv_shift = 12, lv_bits = 9, lv_leaf = False, lv_perm = True\<rparr>]"

definition long_levels :: "level list" where
  "long_levels = [\<lparr>lv_shift = 39, lv_bits = 9, lv_leaf = False, lv_perm = True\<rparr>,
     \<lparr>lv_shift = 30, lv_bits = 9, lv_leaf = True, lv_perm = True\<rparr>,
     \<lparr>lv_shift = 21, lv_bits = 9, lv_leaf = True, lv_perm = True\<rparr>,
     \<lparr>lv_shift = 12, lv_bits = 9, lv_leaf = False, lv_perm = True\<rparr>]"

lemma walk_masks:
  "(mask 9 :: u64) = 0x1FF" "(mask 10 :: u64) = 0x3FF" "(mask 2 :: u64) = 3" "(mask 12 :: u64) = 0xFFF"
  "(mask 21 :: u64) = 0x1FFFFF" "(mask 22 :: u64) = 0x3FFFFF" "(mask 30 :: u64) = 0x3FFFFFFF"
  by (simp_all add: mask_eq_exp_minus_1)

lemma mask_and_not:
  "x AND 0xFFFFFFFFFF000 AND NOT 0xFFF = x AND (0xFFFFFFFFFF000 :: u64)"
  "x AND 0xFFFFF000 AND NOT 0xFFF = x AND (0xFFFFF000 :: u64)"
  "x AND 0xFFFFF000 AND NOT 0x3FFFFF = x AND (0xFFC00000 :: u64)"
  by (simp_all add: and.assoc)

text \<open>A single-bit test of a conjunction or of a disjunction of entries.\<close>

lemma and_bit1: "x AND 2 \<noteq> 0 \<longleftrightarrow> bit x 1" "x AND 4 \<noteq> 0 \<longleftrightarrow> bit x 2"
  "x AND 0x8000000000000000 = 0 \<longleftrightarrow> \<not> bit x 63" for x :: u64
  using and_pow2_nonzero [of 1 x] and_pow2_nonzero [of 2 x] and_pow2_nonzero [of 63 x] by auto

lemma entry_bits:
  "a AND b AND c AND 2 \<noteq> 0 \<longleftrightarrow> a AND 2 \<noteq> 0 \<and> b AND 2 \<noteq> 0 \<and> c AND 2 \<noteq> 0"
  "a AND b AND c AND d AND 2 \<noteq> 0 \<longleftrightarrow> a AND 2 \<noteq> 0 \<and> b AND 2 \<noteq> 0 \<and> c AND 2 \<noteq> 0 \<and> d AND 2 \<noteq> 0"
  "a AND b AND c AND 4 \<noteq> 0 \<longleftrightarrow> a AND 4 \<noteq> 0 \<and> b AND 4 \<noteq> 0 \<and> c AND 4 \<noteq> 0"
  "a AND b AND c AND d AND 4 \<noteq> 0 \<longleftrightarrow> a AND 4 \<noteq> 0 \<and> b AND 4 \<noteq> 0 \<and> c AND 4 \<noteq> 0 \<and> d AND 4 \<noteq> 0"
  "(a OR b) AND 0x8000000000000000 = 0 \<longleftrightarrow> a AND 0x8000000000000000 = 0 \<and> b AND 0x8000000000000000 = 0"
  for a b c d :: u64
proof -
  have l: "a AND b AND c AND 2 = (a AND b AND c) AND 2" "a AND b AND c AND d AND 2 = (a AND b AND c AND d) AND 2"
    "a AND b AND c AND 4 = (a AND b AND c) AND 4" "a AND b AND c AND d AND 4 = (a AND b AND c AND d) AND 4"
    by (simp_all only: and.assoc)
  show "a AND b AND c AND 2 \<noteq> 0 \<longleftrightarrow> a AND 2 \<noteq> 0 \<and> b AND 2 \<noteq> 0 \<and> c AND 2 \<noteq> 0"
    "a AND b AND c AND d AND 2 \<noteq> 0 \<longleftrightarrow> a AND 2 \<noteq> 0 \<and> b AND 2 \<noteq> 0 \<and> c AND 2 \<noteq> 0 \<and> d AND 2 \<noteq> 0"
    "a AND b AND c AND 4 \<noteq> 0 \<longleftrightarrow> a AND 4 \<noteq> 0 \<and> b AND 4 \<noteq> 0 \<and> c AND 4 \<noteq> 0"
    "a AND b AND c AND d AND 4 \<noteq> 0 \<longleftrightarrow> a AND 4 \<noteq> 0 \<and> b AND 4 \<noteq> 0 \<and> c AND 4 \<noteq> 0 \<and> d AND 4 \<noteq> 0"
    "(a OR b) AND 0x8000000000000000 = 0 \<longleftrightarrow> a AND 0x8000000000000000 = 0 \<and> b AND 0x8000000000000000 = 0"
    by (simp_all only: l and_bit1 bit_and_iff bit_or_iff conj_assoc de_Morgan_disj)
qed

lemma ucast_index:
  "ucast (drop_bit n x AND 0x3FF) = drop_bit n (ucast x) AND (0x3FF :: u64)"
  "ucast (drop_bit n x AND 0x1FF) = drop_bit n (ucast x) AND (0x1FF :: u64)"
  "ucast (drop_bit n x AND 3) = drop_bit n (ucast x) AND (3 :: u64)"
  "ucast (x AND 0xFFF) = ucast x AND (0xFFF :: u64)" for x :: u32
proof -
  have m: "(0x3FF :: 'a::len word) = mask 10" "(0x1FF :: 'a::len word) = mask 9"
    "(3 :: 'a::len word) = mask 2" "(0xFFF :: 'a::len word) = mask 12"
    by (simp_all add: mask_eq_exp_minus_1)
  show "ucast (drop_bit n x AND 0x3FF) = drop_bit n (ucast x) AND (0x3FF :: u64)"
    "ucast (drop_bit n x AND 0x1FF) = drop_bit n (ucast x) AND (0x1FF :: u64)"
    "ucast (drop_bit n x AND 3) = drop_bit n (ucast x) AND (3 :: u64)"
    "ucast (x AND 0xFFF) = ucast x AND (0xFFF :: u64)"
    unfolding m by (rule bit_word_eqI, auto simp: bit_simps dest: bit_imp_le_length)+
qed

lemma pad_walk: "replicate 2 x = [x, x]" "replicate 3 x = [x, x, x]"
  by (simp_all add: numeral_eq_Suc)

lemmas radix_simps = Let_def walk_masks mask_and_not path_map_def entry_bits ucast_index pad_walk

lemma walk_long_radix:
  "walk_long rd cr3 linear nxe =
    map_option (path_map 8 nxe) (radix_walk rd 8 ADDR_MASK_64 linear (cr3 AND ADDR_MASK_64) long_levels)"
  by (simp add: walk_long_def long_levels_def radix_simps)

lemma walk_pae_radix:
  "walk_pae rd cr3 linear nxe =
    map_option (path_map 8 nxe) (radix_walk rd 8 ADDR_MASK_64 (ucast linear) (cr3 AND NOT 0x1F) pae_levels)"
  by (simp add: walk_pae_def pae_levels_def radix_simps)

lemma walk_legacy_radix:
  "walk_legacy rd cr3 linear =
    map_option (path_map 4 False) (radix_walk (\<lambda>a. ucast (rd a)) 4 ADDR_MASK_32 (ucast linear)
      (cr3 AND ADDR_MASK_32) legacy_levels)"
  by (simp add: walk_legacy_def legacy_levels_def radix_simps)

lemma translate_radix:
  "translate_mode m cr3 linear Legacy nxe =
     map_option (path_map 4 False) (radix_walk (\<lambda>a. ucast (read_u32 m a)) 4 ADDR_MASK_32
       (linear AND 0xFFFFFFFF) (cr3 AND ADDR_MASK_32) legacy_levels)"
  "translate_mode m cr3 linear Pae nxe =
     map_option (path_map 8 nxe) (radix_walk (read_u64 m) 8 ADDR_MASK_64
       (linear AND 0xFFFFFFFF) (cr3 AND NOT 0x1F) pae_levels)"
  "translate_mode m cr3 linear Long nxe =
     map_option (path_map 8 nxe) (radix_walk (read_u64 m) 8 ADDR_MASK_64
       linear (cr3 AND ADDR_MASK_64) long_levels)"
proof -
  have m: "(0xFFFFFFFF :: u64) = mask 32" by (simp add: mask_eq_exp_minus_1)
  have "(ucast (ucast linear :: u32) :: u64) = linear AND 0xFFFFFFFF"
    unfolding m by (rule bit_word_eqI) (auto simp: bit_simps)
  then show "translate_mode m cr3 linear Legacy nxe =
     map_option (path_map 4 False) (radix_walk (\<lambda>a. ucast (read_u32 m a)) 4 ADDR_MASK_32
       (linear AND 0xFFFFFFFF) (cr3 AND ADDR_MASK_32) legacy_levels)"
    "translate_mode m cr3 linear Pae nxe =
     map_option (path_map 8 nxe) (radix_walk (read_u64 m) 8 ADDR_MASK_64
       (linear AND 0xFFFFFFFF) (cr3 AND NOT 0x1F) pae_levels)"
    "translate_mode m cr3 linear Long nxe =
     map_option (path_map 8 nxe) (radix_walk (read_u64 m) 8 ADDR_MASK_64
       linear (cr3 AND ADDR_MASK_64) long_levels)"
    by (simp_all add: translate_mode_def translate_legacy_def translate_pae_def translate_long_def
        walk_legacy_radix walk_pae_radix walk_long_radix)
qed

text \<open>C31: The three hand-written walks compute one algorithm: a radix walk from the root CR3 names,
  with 2, 3 or 4 levels, whose leaf is the last level or an entry with PS set where the structure
  has large pages; the mapping is writable, user and executable exactly if every entry of the path
  that takes part says so (the page-directory-pointer entry of PAE does not).\<close>

theorem translate_is_radix_walk:
  "translate_mode m cr3 linear Legacy nxe =
     map_option (path_map 4 False) (radix_walk (\<lambda>a. ucast (read_u32 m a)) 4 ADDR_MASK_32
       (linear AND 0xFFFFFFFF) (cr3 AND ADDR_MASK_32) legacy_levels) \<and>
   translate_mode m cr3 linear Pae nxe =
     map_option (path_map 8 nxe) (radix_walk (read_u64 m) 8 ADDR_MASK_64
       (linear AND 0xFFFFFFFF) (cr3 AND NOT 0x1F) pae_levels) \<and>
   translate_mode m cr3 linear Long nxe =
     map_option (path_map 8 nxe) (radix_walk (read_u64 m) 8 ADDR_MASK_64
       linear (cr3 AND ADDR_MASK_64) long_levels)"
  using translate_radix by blast

section \<open>Entries and their addresses\<close>

lemma dvd_unat_add: "w dvd 2 ^ 64 \<Longrightarrow> w dvd unat a \<Longrightarrow> w dvd unat b \<Longrightarrow> w dvd unat (a + b)" for a b :: u64
  by (simp add: unat_word_ariths dvd_mod)

lemma dvd_unat_mult: "w dvd 2 ^ 64 \<Longrightarrow> w dvd unat b \<Longrightarrow> w dvd unat (a * b)" for a b :: u64
  by (simp add: unat_word_ariths dvd_mod)

lemma dvd_unat_field: "w dvd 4096 \<Longrightarrow> w dvd unat (e AND amask)"
  if "amask = ADDR_MASK_64 \<or> amask = ADDR_MASK_32" for e amask :: u64
proof -
  assume w: "w dvd 4096"
  have "e AND amask = push_bit 12 (drop_bit 12 (e AND amask))"
  proof -
    have m: "ADDR_MASK_64 = push_bit 12 (mask 40)" "ADDR_MASK_32 = push_bit 12 (mask 20)"
      by (simp_all add: mask_eq_exp_minus_1)
    from that show ?thesis unfolding m
      by (elim disjE; simp only:; intro bit_word_eqI) (auto simp: bit_simps)
  qed
  then obtain y where "e AND amask = push_bit 12 y" by blast
  then have "4096 dvd unat (e AND amask)" by (simp only:) (simp add: push_bit_eq_mult unat_word_ariths dvd_mod)
  then show ?thesis using w by (rule dvd_trans [rotated])
qed

text \<open>What a walk looks at in an entry: everything but the accessed and dirty bits.\<close>

definition entry_core :: "u64 \<Rightarrow> u64" where
  "entry_core e = e AND NOT 0x60"

lemma entry_core_and [simp]:
  "entry_core e AND 1 = e AND 1" "entry_core e AND 2 = e AND 2" "entry_core e AND 4 = e AND 4"
  "entry_core e AND 0x80 = e AND 0x80" "entry_core e AND 0x8000000000000000 = e AND 0x8000000000000000"
  "entry_core e AND 0xFFFFFFFFFF000 = e AND 0xFFFFFFFFFF000" "entry_core e AND 0xFFFFF000 = e AND 0xFFFFF000"
  by (simp_all add: entry_core_def and.assoc)

lemma entry_core_flags: "entry_core (e OR 0x20) = entry_core e" "entry_core (e OR 0x60) = entry_core e"
proof -
  have "(x OR y) AND NOT z = x AND NOT z" if "y AND NOT z = 0" for x y z :: u64
    using that by (simp add: bit.conj_disj_distrib2)
  from this [of "0x20" "0x60"] this [of "0x60" "0x60"]
  show "entry_core (e OR 0x20) = entry_core e" "entry_core (e OR 0x60) = entry_core e"
    by (simp_all add: entry_core_def)
qed

definition path_core :: "(u64 \<times> u64 \<times> bool) list \<Rightarrow> (u64 \<times> u64 \<times> bool) list" where
  "path_core = map (\<lambda>(a, e, k). (a, entry_core e, k))"

lemma path_map_core: "path_map w nxe (p, path_core path) = path_map w nxe (p, path)"
proof -
  have "[e. (_, e, perm) \<leftarrow> path_core path, perm] = map entry_core [e. (_, e, perm) \<leftarrow> path, perm]"
    by (induction path) (auto simp: path_core_def)
  moreover have "map fst (path_core path) = map fst path" "length (path_core path) = length path"
    by (auto simp: path_core_def)
  ultimately show ?thesis
    by (simp only: path_map_def Let_def fst_conv snd_conv list.pred_map o_def pte_RW_def pte_US_def
        pte_NX_def entry_core_and)
qed

definition core_result ::
  "(u64 \<times> (u64 \<times> u64 \<times> bool) list) option \<Rightarrow> (u64 \<times> (u64 \<times> u64 \<times> bool) list) option" where
  "core_result = map_option (\<lambda>(p, path). (p, path_core path))"

lemma radix_core:
  assumes "w = 4 \<or> w = 8" "amask = ADDR_MASK_64 \<or> amask = ADDR_MASK_32"
    and same: "\<And>a. unat w dvd unat a \<Longrightarrow> entry_core (rd a) = entry_core (rd' a)"
    and "unat w dvd unat base"
  shows "core_result (radix_walk rd w amask linear base ls) = core_result (radix_walk rd' w amask linear base ls)"
  using assms(4)
proof (induction ls arbitrary: base)
  case (Cons l ls)
  let ?a = "base + (drop_bit (lv_shift l) linear AND mask (lv_bits l)) * w"
  have w: "unat w dvd 2 ^ 64" "unat w dvd 4096" using assms(1) by auto
  have "unat w dvd unat ?a" using Cons.prems w by (intro dvd_unat_add dvd_unat_mult) simp_all
  then have c: "entry_core (rd ?a) = entry_core (rd' ?a)" by (rule same)
  have e: "rd ?a AND k = rd' ?a AND k" if "entry_core (rd ?a) AND k = rd ?a AND k"
    "entry_core (rd' ?a) AND k = rd' ?a AND k" for k using that c by metis
  have e': "rd ?a AND 1 = rd' ?a AND 1" "rd ?a AND 0x80 = rd' ?a AND 0x80" "rd ?a AND amask = rd' ?a AND amask"
    using assms(2) by (auto intro!: e)
  have n: "unat w dvd unat (rd' ?a AND amask)" using dvd_unat_field [OF assms(2) w(2)] .
  have am: "x AND amask AND y = (x AND amask) AND y" for x y by (simp only: and.assoc)
  show ?case
    using Cons.IH [OF n] c e'(1,2)
    by (auto simp: Let_def core_result_def path_core_def am e'(3) map_option_case split: option.splits)
qed (simp add: core_result_def)

lemma radix_aligned:
  assumes "w = 4 \<or> w = 8" "amask = ADDR_MASK_64 \<or> amask = ADDR_MASK_32"
  shows "unat w dvd unat base \<Longrightarrow> radix_walk rd w amask linear base ls = Some (p, path) \<Longrightarrow>
    (\<forall>x \<in> set path. unat w dvd unat (fst x)) \<and> path \<noteq> [] \<and> length path \<le> length ls"
proof (induction ls arbitrary: base p path)
  case (Cons l ls)
  let ?a = "base + (drop_bit (lv_shift l) linear AND mask (lv_bits l)) * w"
  have w: "unat w dvd 2 ^ 64" "unat w dvd 4096" using assms(1) by auto
  have "unat w dvd unat ?a" using Cons.prems w by (intro dvd_unat_add dvd_unat_mult) simp_all
  moreover have n: "unat w dvd unat (rd ?a AND amask)" using dvd_unat_field [OF assms(2) w(2)] .
  ultimately show ?case
    using Cons.prems(2) Cons.IH [OF n] by (fastforce simp: Let_def split: if_splits)
qed simp

section \<open>Translations are per page\<close>

definition same_page :: "page_map \<Rightarrow> page_map \<Rightarrow> bool" where
  "same_page p q \<longleftrightarrow> drop_bit 12 (pm_phys p) = drop_bit 12 (pm_phys q) \<and>
     p\<lparr>pm_phys := 0\<rparr> = q\<lparr>pm_phys := 0\<rparr>"

lemma leaf_page:
  assumes "12 \<le> s" "drop_bit 12 x = drop_bit 12 (y :: u64)"
  shows "drop_bit 12 ((e AND NOT (mask s)) OR (x AND mask s)) = drop_bit 12 ((e AND NOT (mask s)) OR (y AND mask s))"
    and "((e AND NOT (mask s)) OR (x AND mask s)) AND 0xFFF = x AND 0xFFF"
proof -
  show "drop_bit 12 ((e AND NOT (mask s)) OR (x AND mask s)) = drop_bit 12 ((e AND NOT (mask s)) OR (y AND mask s))"
    using assms(2) by (simp add: drop_bit_and drop_bit_or)
  have m: "(0xFFF :: u64) = mask 12" by (simp add: mask_eq_exp_minus_1)
  show "((e AND NOT (mask s)) OR (x AND mask s)) AND 0xFFF = x AND 0xFFF"
    unfolding m using assms(1) by (intro bit_word_eqI) (auto simp: bit_simps)
qed

lemma radix_page:
  assumes "drop_bit 12 x = drop_bit 12 y"
  shows "\<forall>l \<in> set ls. 12 \<le> lv_shift l \<Longrightarrow>
    rel_option (\<lambda>(p, path) (q, path'). drop_bit 12 p = drop_bit 12 q \<and> path = path' \<and> p AND 0xFFF = x AND 0xFFF)
      (radix_walk rd w amask x base ls) (radix_walk rd w amask y base ls)"
proof (induction ls arbitrary: base)
  case (Cons l ls)
  have s: "12 \<le> lv_shift l" using Cons.prems by simp
  then obtain k where k: "lv_shift l = 12 + k" using le_Suc_ex by blast
  have i: "drop_bit (lv_shift l) x = drop_bit (lv_shift l) y"
    using arg_cong [OF assms, of "drop_bit k"] unfolding k drop_bit_drop_bit by (simp add: add.commute)
  note lp = leaf_page [OF s assms, of "rd b AND amask" for b, unfolded and.assoc]
  let ?a = "base + (drop_bit (lv_shift l) y AND mask (lv_bits l)) * w"
  have "rel_option (\<lambda>(p, path) (q, path'). drop_bit 12 p = drop_bit 12 q \<and> path = path' \<and> p AND 0xFFF = x AND 0xFFF)
      (radix_walk rd w amask x (rd ?a AND amask) ls) (radix_walk rd w amask y (rd ?a AND amask) ls)"
    using Cons.prems by (intro Cons.IH) simp
  then show ?case
    using lp by (auto simp: Let_def i and.assoc option.rel_map elim!: option.rel_mono_strong)
qed simp

lemma level_shifts: "\<forall>l \<in> set legacy_levels. 12 \<le> lv_shift l" "\<forall>l \<in> set pae_levels. 12 \<le> lv_shift l"
  "\<forall>l \<in> set long_levels. 12 \<le> lv_shift l"
  by (simp_all add: legacy_levels_def pae_levels_def long_levels_def)

lemma path_map_page:
  assumes "rel_option (\<lambda>(p, path) (q, path'). drop_bit 12 p = drop_bit 12 q \<and> path = path' \<and> p AND 0xFFF = x AND 0xFFF) r r'"
  shows "rel_option (\<lambda>p q. same_page p q \<and> pm_phys p AND 0xFFF = x AND 0xFFF)
    (map_option (path_map w nxe) r) (map_option (path_map w nxe) r')"
  using assms unfolding option.rel_map
  by (rule option.rel_mono_strong) (auto simp: same_page_def path_map_def Let_def)

lemma translate_page_uniform:
  assumes "drop_bit 12 x = drop_bit 12 y"
  shows "rel_option (\<lambda>p q. same_page p q \<and> pm_phys p AND 0xFFF = x AND 0xFFF)
    (translate_mode m cr3 x md nxe) (translate_mode m cr3 y md nxe)"
proof -
  have t: "drop_bit 12 (x AND 0xFFFFFFFF) = drop_bit 12 (y AND 0xFFFFFFFF)"
    using assms by (simp add: drop_bit_and)
  have o: "x AND 0xFFFFFFFF AND 0xFFF = x AND 0xFFF" by (simp add: and.assoc)
  show ?thesis
  proof (cases md)
    case Off
    then show ?thesis using assms by (simp add: translate_mode_def same_page_def)
  next
    case Legacy
    then show ?thesis
      using path_map_page [OF radix_page [OF t level_shifts(1)]] o
      unfolding Legacy translate_radix(1) by (simp add: and.assoc)
  next
    case Pae
    then show ?thesis
      using path_map_page [OF radix_page [OF t level_shifts(2)]] o
      unfolding Pae translate_radix(2) by (simp add: and.assoc)
  next
    case Long
    then show ?thesis
      using path_map_page [OF radix_page [OF assms level_shifts(3)]]
      unfolding Long translate_radix(3) by simp
  qed
qed

section \<open>Accessed and dirty bits\<close>

lemma translate_core:
  assumes "\<And>a. 4 dvd unat a \<Longrightarrow> md = Legacy \<Longrightarrow>
      entry_core (ucast (read_u32 m a)) = entry_core (ucast (read_u32 m' a))"
    and "\<And>a. 8 dvd unat a \<Longrightarrow> md \<noteq> Legacy \<Longrightarrow> entry_core (read_u64 m a) = entry_core (read_u64 m' a)"
  shows "translate_mode m cr3 linear md nxe = translate_mode m' cr3 linear md nxe"
proof -
  have eq: "map_option (path_map w n) r = map_option (path_map w n) r'" if "core_result r = core_result r'"
    for r r' w n
    using that by (cases r; cases r') (auto simp: core_result_def, metis path_map_core)
  have c: "8 dvd unat (cr3 AND ADDR_MASK_64)" "4 dvd unat (cr3 AND ADDR_MASK_32)"
    by (rule dvd_unat_field; simp)+
  have "8 dvd unat (cr3 AND NOT 0x1F)"
  proof -
    have "(0x1F :: u64) = mask 5" by (simp add: mask_eq_exp_minus_1)
    then have "unat (cr3 AND NOT 0x1F) = unat cr3 div 2 ^ 5 * 2 ^ 5"
      using and_not_mask_unat [of cr3 5] minus_mod_eq_div_mult by metis
    moreover have "(8 :: nat) dvd 2 ^ 5" by simp
    ultimately show ?thesis by (metis dvd_mult)
  qed
  note al = c this
  show ?thesis
  proof (cases md)
    case Off
    then show ?thesis by (simp add: translate_mode_def)
  next
    case Legacy
    show ?thesis
      unfolding Legacy translate_radix(1)
      by (intro eq radix_core) (use al assms(1) Legacy in auto)
  next
    case Pae
    show ?thesis
      unfolding Pae translate_radix(2)
      by (intro eq radix_core) (use al assms(2) Pae in auto)
  next
    case Long
    show ?thesis
      unfolding Long translate_radix(3)
      by (intro eq radix_core) (use al assms(2) Long in auto)
  qed
qed

end
