(* ===== verification/Protected.thy ===== *)
theory Protected imports Prelude begin

text \<open>
  Segment descriptors (src/src/protected.rs): parsing the eight bytes of a
  descriptor-table entry. The lemmas show that parsing inverts the layout of
  the processor manual for every base, limit, access byte and flag.
\<close>

unbundle bit_operations_syntax

record descriptor =
  d_base :: u32
  d_limit :: u32
  d_attr :: u8
  d_g :: bool
  d_db :: bool
  d_l :: bool

definition descriptor_default :: descriptor where
  "descriptor_default = \<lparr>d_base = 0, d_limit = 0, d_attr = 0, d_g = False, d_db = False, d_l = False\<rparr>"

definition descriptor_parse :: "u64 \<Rightarrow> descriptor" where
  "descriptor_parse raw =
     (let base = ucast (drop_bit 16 raw AND 0xFFFF) OR push_bit 16 (ucast (drop_bit 32 raw AND 0xFF))
                 OR push_bit 24 (ucast (drop_bit 56 raw AND 0xFF));
          limit20 = ucast (raw AND 0xFFFF) OR push_bit 16 (ucast (drop_bit 48 raw AND 0xF));
          g = (drop_bit 55 raw AND 1 = 1);
          db = (drop_bit 54 raw AND 1 = 1);
          l = (drop_bit 53 raw AND 1 = 1);
          limit = (if g then push_bit 12 limit20 OR 0xFFF else limit20);
          attr = ucast (drop_bit 40 raw AND 0xFF)
      in \<lparr>d_base = base, d_limit = limit, d_attr = attr, d_g = g, d_db = db, d_l = l\<rparr>)"

definition d_present :: "descriptor \<Rightarrow> bool" where "d_present d \<longleftrightarrow> d_attr d AND 0x80 \<noteq> 0"
definition is_code :: "descriptor \<Rightarrow> bool" where "is_code d \<longleftrightarrow> d_attr d AND 0x18 = 0x18"
definition is_data :: "descriptor \<Rightarrow> bool" where "is_data d \<longleftrightarrow> d_attr d AND 0x18 = 0x10"
definition is_system :: "descriptor \<Rightarrow> bool" where "is_system d \<longleftrightarrow> d_attr d AND 0x10 = 0"
definition dpl :: "descriptor \<Rightarrow> u8" where "dpl d = drop_bit 5 (d_attr d) AND 0x3"

definition descriptor_translate :: "descriptor \<Rightarrow> u32 \<Rightarrow> u32" where
  "descriptor_translate sg offset = d_base sg + offset"

text \<open>The layout of an entry, as the reference of the parser.\<close>

definition descriptor_raw :: "u32 \<Rightarrow> 20 word \<Rightarrow> u8 \<Rightarrow> bool \<Rightarrow> bool \<Rightarrow> bool \<Rightarrow> bool \<Rightarrow> u64" where
  "descriptor_raw base limit attr g db l avl =
     ucast (take_bit 16 limit) OR push_bit 16 (ucast (take_bit 24 base)) OR push_bit 40 (ucast attr)
       OR push_bit 48 (ucast (drop_bit 16 limit)) OR push_bit 52 (bool_to avl) OR push_bit 53 (bool_to l)
       OR push_bit 54 (bool_to db) OR push_bit 55 (bool_to g) OR push_bit 56 (ucast (drop_bit 24 base))"

lemma word_bit_out: "LENGTH('a) \<le> n \<Longrightarrow> \<not> bit (x :: 'a::len word) n"
  by (auto dest: bit_imp_le_length)

lemma bit_bool_word: "bit (push_bit n (bool_to b) :: u64) k \<longleftrightarrow> b \<and> n = k \<and> k < 64"
  by (auto simp: bit_simps)

text \<open>The bits of a raw entry, field by field.\<close>

lemma bit_descriptor_raw:
  fixes attr :: u8 and limit :: "20 word" and base :: u32 and avl l db g :: bool
  defines "r \<equiv> descriptor_raw base limit attr g db l avl"
  shows "n < 16 \<Longrightarrow> bit r n \<longleftrightarrow> bit limit n" "k < 24 \<Longrightarrow> bit r (16 + k) \<longleftrightarrow> bit base k"
    "k < 8 \<Longrightarrow> bit r (40 + k) \<longleftrightarrow> bit attr k" "k < 4 \<Longrightarrow> bit r (48 + k) \<longleftrightarrow> bit limit (16 + k)"
    "bit r 53 \<longleftrightarrow> l" "bit r 54 \<longleftrightarrow> db" "bit r 55 \<longleftrightarrow> g" "k < 8 \<Longrightarrow> bit r (56 + k) \<longleftrightarrow> bit base (24 + k)"
proof -
  have out: "\<not> bit attr (8 + j)" "\<not> bit limit (20 + j)" for j
    by (auto dest: bit_imp_le_length)
  note out' = out(1) [of 5] out(1) [of 6] out(1) [of 7] out(1) [of "8 + k" for k] out(2) [of 1] out(2) [of 2] out(2) [of 3]
    out(2) [of "4 + k" for k]
  note simps = r_def descriptor_raw_def bit_or_iff bit_bool_word
  show "n < 16 \<Longrightarrow> bit r n \<longleftrightarrow> bit limit n" unfolding simps by (simp add: bit_simps)
  show "k < 24 \<Longrightarrow> bit r (16 + k) \<longleftrightarrow> bit base k" unfolding simps by (simp add: bit_simps)
  show "k < 8 \<Longrightarrow> bit r (40 + k) \<longleftrightarrow> bit attr k" unfolding simps by (simp add: bit_simps)
  show "k < 4 \<Longrightarrow> bit r (48 + k) \<longleftrightarrow> bit limit (16 + k)"
    unfolding simps using out(1) [of k] by (simp add: bit_simps)
  show "bit r 53 \<longleftrightarrow> l" "bit r 54 \<longleftrightarrow> db" "bit r 55 \<longleftrightarrow> g"
    unfolding simps using out' by (simp_all add: bit_simps)
  show "k < 8 \<Longrightarrow> bit r (56 + k) \<longleftrightarrow> bit base (24 + k)"
    unfolding simps using out' by (simp add: bit_simps)
qed

lemma and_one_bit: "x AND 1 = 1 \<longleftrightarrow> bit x 0" for x :: u64
  by (simp add: and_one_eq bit_0 odd_iff_mod_2_eq_one)

text \<open>Parsing inverts the descriptor layout: for every base, 20-bit limit, access byte and flags
  the parsed entry has that base, access byte and flags, and the limit in bytes, scaled by 4 KiB
  pages exactly when the granularity bit is set.\<close>

theorem descriptor_parse_raw:
  "descriptor_parse (descriptor_raw base limit attr g db l avl) =
    \<lparr>d_base = base, d_limit = (if g then push_bit 12 (ucast limit) OR 0xFFF else ucast limit),
     d_attr = attr, d_g = g, d_db = db, d_l = l\<rparr>"
proof -
  let ?r = "descriptor_raw base limit attr g db l avl"
  have m: "(0xFFFF :: u64) = mask 16" "(0xFF :: u64) = mask 8" "(0xF :: u64) = mask 4"
    by (simp_all add: mask_eq_exp_minus_1)
  have b: "ucast (drop_bit 16 ?r AND 0xFFFF) OR push_bit 16 (ucast (drop_bit 32 ?r AND 0xFF))
      OR push_bit 24 (ucast (drop_bit 56 ?r AND 0xFF)) = base"
    unfolding m
  proof (rule bit_word_eqI)
    fix n assume n: "n < LENGTH(32)"
    consider "n < 16" | "16 \<le> n" "n < 24" | "24 \<le> n" by linarith
    then show "bit (ucast (drop_bit 16 ?r AND mask 16) OR push_bit 16 (ucast (drop_bit 32 ?r AND mask 8))
        OR push_bit 24 (ucast (drop_bit 56 ?r AND mask 8)) :: u32) n = bit base n"
    proof cases
      case 2
      then obtain k where k: "n = 16 + k" "k < 8" using le_Suc_ex [of 16 n] by auto
      then show ?thesis using bit_descriptor_raw(2) [of "16 + k"] by (simp add: bit_simps)
    next
      case 3
      then obtain k where k: "n = 24 + k" "k < 8" using le_Suc_ex [of 24 n] n by auto
      then show ?thesis using bit_descriptor_raw(8) [of k] by (simp add: bit_simps)
    qed (use bit_descriptor_raw(2) [of n] in \<open>simp add: bit_simps\<close>)
  qed
  have l: "ucast (?r AND 0xFFFF) OR push_bit 16 (ucast (drop_bit 48 ?r AND 0xF)) = (ucast limit :: u32)"
    unfolding m
  proof (rule bit_word_eqI)
    fix n assume n: "n < LENGTH(32)"
    consider "n < 16" | "16 \<le> n" "n < 20" | "20 \<le> n" by linarith
    then show "bit (ucast (?r AND mask 16) OR push_bit 16 (ucast (drop_bit 48 ?r AND mask 4)) :: u32) n =
        bit (ucast limit :: u32) n"
    proof cases
      case 2
      then obtain k where k: "n = 16 + k" "k < 4" using le_Suc_ex [of 16 n] by auto
      then show ?thesis using bit_descriptor_raw(4) [of k] by (simp add: bit_simps)
    next
      case 3
      then show ?thesis by (auto simp: bit_simps dest: bit_imp_le_length)
    qed (use bit_descriptor_raw(1) [of n] in \<open>simp add: bit_simps\<close>)
  qed
  have a: "ucast (drop_bit 40 ?r AND 0xFF) = attr"
    unfolding m by (rule bit_word_eqI) (simp add: bit_simps bit_descriptor_raw(3))
  have f: "drop_bit 55 ?r AND 1 = 1 \<longleftrightarrow> g" "drop_bit 54 ?r AND 1 = 1 \<longleftrightarrow> db" "drop_bit 53 ?r AND 1 = 1 \<longleftrightarrow> l"
    by (simp_all add: and_one_bit bit_drop_bit_eq bit_descriptor_raw)
  show ?thesis unfolding descriptor_parse_def Let_def b l a f by simp
qed

end
