(* ===== verification/Vmcs.thy ===== *)
theory Vmcs imports Prelude begin

text \<open>
  The state of the VT-x unit (src/src/vmx.rs): the capability registers, the
  encoding of VMCS fields and the working copy of the current VMCS. The
  instructions, VM entry and VM exit need the processor and are elsewhere. The
  lemmas show that the encoding addresses every field's slot once and that
  reads and writes of a field, whole or by halves, behave as on a store.
\<close>

unbundle bit_operations_syntax

section \<open>Capabilities\<close>

definition msr_FEATURE_CONTROL :: u32 where [simp]: "msr_FEATURE_CONTROL = 0x3A"
definition msr_VMX_BASIC :: u32 where [simp]: "msr_VMX_BASIC = 0x480"
definition msr_VMX_PINBASED_CTLS :: u32 where [simp]: "msr_VMX_PINBASED_CTLS = 0x481"
definition msr_VMX_PROCBASED_CTLS :: u32 where [simp]: "msr_VMX_PROCBASED_CTLS = 0x482"
definition msr_VMX_EXIT_CTLS :: u32 where [simp]: "msr_VMX_EXIT_CTLS = 0x483"
definition msr_VMX_ENTRY_CTLS :: u32 where [simp]: "msr_VMX_ENTRY_CTLS = 0x484"
definition msr_VMX_MISC :: u32 where [simp]: "msr_VMX_MISC = 0x485"
definition msr_VMX_CR0_FIXED0 :: u32 where [simp]: "msr_VMX_CR0_FIXED0 = 0x486"
definition msr_VMX_CR0_FIXED1 :: u32 where [simp]: "msr_VMX_CR0_FIXED1 = 0x487"
definition msr_VMX_CR4_FIXED0 :: u32 where [simp]: "msr_VMX_CR4_FIXED0 = 0x488"
definition msr_VMX_CR4_FIXED1 :: u32 where [simp]: "msr_VMX_CR4_FIXED1 = 0x489"
definition msr_VMX_VMCS_ENUM :: u32 where [simp]: "msr_VMX_VMCS_ENUM = 0x48A"
definition msr_VMX_PROCBASED_CTLS2 :: u32 where [simp]: "msr_VMX_PROCBASED_CTLS2 = 0x48B"
definition msr_VMX_EPT_VPID_CAP :: u32 where [simp]: "msr_VMX_EPT_VPID_CAP = 0x48C"
definition msr_VMX_TRUE_PINBASED_CTLS :: u32 where [simp]: "msr_VMX_TRUE_PINBASED_CTLS = 0x48D"
definition msr_VMX_TRUE_PROCBASED_CTLS :: u32 where [simp]: "msr_VMX_TRUE_PROCBASED_CTLS = 0x48E"
definition msr_VMX_TRUE_EXIT_CTLS :: u32 where [simp]: "msr_VMX_TRUE_EXIT_CTLS = 0x48F"
definition msr_VMX_TRUE_ENTRY_CTLS :: u32 where [simp]: "msr_VMX_TRUE_ENTRY_CTLS = 0x490"
definition msr_VMX_VMFUNC :: u32 where [simp]: "msr_VMX_VMFUNC = 0x491"

definition FEAT_LOCKED :: u64 where [simp]: "FEAT_LOCKED = 0x1"
definition FEAT_VMX_OUTSIDE_SMX :: u64 where [simp]: "FEAT_VMX_OUTSIDE_SMX = 0x4"
definition VMCS_REVISION :: u32 where [simp]: "VMCS_REVISION = 0x00012345"
definition PIN_EXT_INT_EXITING :: u32 where [simp]: "PIN_EXT_INT_EXITING = 0x1"
definition PIN_NMI_EXITING :: u32 where [simp]: "PIN_NMI_EXITING = 0x8"
definition PIN_DEFAULT1 :: u32 where [simp]: "PIN_DEFAULT1 = 0x16"
definition PIN_ALLOWED1 :: u32 where [simp]: "PIN_ALLOWED1 = PIN_DEFAULT1 OR PIN_EXT_INT_EXITING OR PIN_NMI_EXITING"
definition CPU_INT_WINDOW_EXITING :: u32 where [simp]: "CPU_INT_WINDOW_EXITING = 0x4"
definition CPU_TSC_OFFSETTING :: u32 where [simp]: "CPU_TSC_OFFSETTING = 0x8"
definition CPU_HLT_EXITING :: u32 where [simp]: "CPU_HLT_EXITING = 0x80"
definition CPU_INVLPG_EXITING :: u32 where [simp]: "CPU_INVLPG_EXITING = 0x200"
definition CPU_MWAIT_EXITING :: u32 where [simp]: "CPU_MWAIT_EXITING = 0x400"
definition CPU_RDPMC_EXITING :: u32 where [simp]: "CPU_RDPMC_EXITING = 0x800"
definition CPU_RDTSC_EXITING :: u32 where [simp]: "CPU_RDTSC_EXITING = 0x1000"
definition CPU_CR3_LOAD_EXITING :: u32 where [simp]: "CPU_CR3_LOAD_EXITING = 0x8000"
definition CPU_CR3_STORE_EXITING :: u32 where [simp]: "CPU_CR3_STORE_EXITING = 0x10000"
definition CPU_CR8_LOAD_EXITING :: u32 where [simp]: "CPU_CR8_LOAD_EXITING = 0x80000"
definition CPU_CR8_STORE_EXITING :: u32 where [simp]: "CPU_CR8_STORE_EXITING = 0x100000"
definition CPU_MOV_DR_EXITING :: u32 where [simp]: "CPU_MOV_DR_EXITING = 0x800000"
definition CPU_UNCOND_IO_EXITING :: u32 where [simp]: "CPU_UNCOND_IO_EXITING = 0x1000000"
definition CPU_USE_IO_BITMAPS :: u32 where [simp]: "CPU_USE_IO_BITMAPS = 0x2000000"
definition CPU_USE_MSR_BITMAPS :: u32 where [simp]: "CPU_USE_MSR_BITMAPS = 0x10000000"
definition CPU_MONITOR_EXITING :: u32 where [simp]: "CPU_MONITOR_EXITING = 0x20000000"
definition CPU_PAUSE_EXITING :: u32 where [simp]: "CPU_PAUSE_EXITING = 0x40000000"
definition CPU_SECONDARY_CONTROLS :: u32 where [simp]: "CPU_SECONDARY_CONTROLS = 0x80000000"
definition CPU_DEFAULT1 :: u32 where [simp]: "CPU_DEFAULT1 = 0x0401E172"
definition CPU_ALLOWED1 :: u32 where [simp]: "CPU_ALLOWED1 = 
  CPU_DEFAULT1 OR CPU_INT_WINDOW_EXITING OR CPU_TSC_OFFSETTING OR
    CPU_HLT_EXITING OR CPU_INVLPG_EXITING OR CPU_MWAIT_EXITING OR
    CPU_RDPMC_EXITING OR CPU_RDTSC_EXITING OR CPU_CR3_LOAD_EXITING OR
    CPU_CR3_STORE_EXITING OR CPU_CR8_LOAD_EXITING OR CPU_CR8_STORE_EXITING OR
    CPU_MOV_DR_EXITING OR CPU_UNCOND_IO_EXITING OR CPU_USE_IO_BITMAPS OR
    CPU_USE_MSR_BITMAPS OR CPU_MONITOR_EXITING OR CPU_PAUSE_EXITING OR
    CPU_SECONDARY_CONTROLS"
definition CPU2_RDTSCP :: u32 where [simp]: "CPU2_RDTSCP = 0x8"
definition CPU2_VPID :: u32 where [simp]: "CPU2_VPID = 0x20"
definition CPU2_WBINVD_EXITING :: u32 where [simp]: "CPU2_WBINVD_EXITING = 0x40"
definition CPU2_ALLOWED1 :: u32 where [simp]: "CPU2_ALLOWED1 = CPU2_RDTSCP OR CPU2_VPID OR CPU2_WBINVD_EXITING"
definition EXIT_HOST_ADDR_SPACE_SIZE :: u32 where [simp]: "EXIT_HOST_ADDR_SPACE_SIZE = 0x200"
definition EXIT_ACK_INT_ON_EXIT :: u32 where [simp]: "EXIT_ACK_INT_ON_EXIT = 0x8000"
definition EXIT_SAVE_PAT :: u32 where [simp]: "EXIT_SAVE_PAT = 0x40000"
definition EXIT_LOAD_PAT :: u32 where [simp]: "EXIT_LOAD_PAT = 0x80000"
definition EXIT_SAVE_EFER :: u32 where [simp]: "EXIT_SAVE_EFER = 0x100000"
definition EXIT_LOAD_EFER :: u32 where [simp]: "EXIT_LOAD_EFER = 0x200000"
definition EXIT_DEFAULT1 :: u32 where [simp]: "EXIT_DEFAULT1 = 0x00036DFF"
definition EXIT_ALLOWED1 :: u32 where [simp]: "EXIT_ALLOWED1 = 
  EXIT_DEFAULT1 OR EXIT_HOST_ADDR_SPACE_SIZE OR EXIT_ACK_INT_ON_EXIT OR
    EXIT_SAVE_PAT OR EXIT_LOAD_PAT OR EXIT_SAVE_EFER OR
    EXIT_LOAD_EFER"
definition ENTRY_IA32E_GUEST :: u32 where [simp]: "ENTRY_IA32E_GUEST = 0x200"
definition ENTRY_LOAD_PAT :: u32 where [simp]: "ENTRY_LOAD_PAT = 0x4000"
definition ENTRY_LOAD_EFER :: u32 where [simp]: "ENTRY_LOAD_EFER = 0x8000"
definition ENTRY_DEFAULT1 :: u32 where [simp]: "ENTRY_DEFAULT1 = 0x000011FF"
definition ENTRY_ALLOWED1 :: u32 where [simp]: "ENTRY_ALLOWED1 = ENTRY_DEFAULT1 OR ENTRY_IA32E_GUEST OR ENTRY_LOAD_PAT OR ENTRY_LOAD_EFER"
definition CR0_FIXED0 :: u64 where [simp]: "CR0_FIXED0 = 0x80000021"
definition CR0_FIXED1 :: u64 where [simp]: "CR0_FIXED1 = 0xFFFFFFFF"
definition CR4_FIXED0 :: u64 where [simp]: "CR4_FIXED0 = 0x2000"
definition CR4_FIXED1 :: u64 where [simp]: "CR4_FIXED1 = 0xFFFFFFFF"

definition HIGHEST_INDEX :: u32 where [simp]: "HIGHEST_INDEX = 0x1A"

definition capability_ctl :: "u32 \<Rightarrow> u32 \<Rightarrow> u64" where
  "capability_ctl allowed0 allowed1 = push_bit 32 (ucast allowed1) OR ucast allowed0"

definition read_capability_msr :: "u32 \<Rightarrow> u64 option" where
  "read_capability_msr index =
     (if index = msr_VMX_BASIC then
        Some (ucast VMCS_REVISION OR push_bit 32 4096 OR push_bit 50 6 OR push_bit 54 1 OR push_bit 55 1)
      else if index = msr_VMX_PINBASED_CTLS then Some (capability_ctl PIN_DEFAULT1 PIN_ALLOWED1)
      else if index = msr_VMX_PROCBASED_CTLS then Some (capability_ctl CPU_DEFAULT1 CPU_ALLOWED1)
      else if index = msr_VMX_EXIT_CTLS then Some (capability_ctl EXIT_DEFAULT1 EXIT_ALLOWED1)
      else if index = msr_VMX_ENTRY_CTLS then Some (capability_ctl ENTRY_DEFAULT1 ENTRY_ALLOWED1)
      else if index = msr_VMX_TRUE_PINBASED_CTLS then Some (capability_ctl 0 PIN_ALLOWED1)
      else if index = msr_VMX_TRUE_PROCBASED_CTLS then Some (capability_ctl 0 CPU_ALLOWED1)
      else if index = msr_VMX_TRUE_EXIT_CTLS then Some (capability_ctl 0 EXIT_ALLOWED1)
      else if index = msr_VMX_TRUE_ENTRY_CTLS then Some (capability_ctl 0 ENTRY_ALLOWED1)
      else if index = msr_VMX_MISC then Some (5 OR push_bit 5 1 OR push_bit 6 1 OR push_bit 16 4)
      else if index = msr_VMX_CR0_FIXED0 then Some CR0_FIXED0
      else if index = msr_VMX_CR0_FIXED1 then Some CR0_FIXED1
      else if index = msr_VMX_CR4_FIXED0 then Some CR4_FIXED0
      else if index = msr_VMX_CR4_FIXED1 then Some CR4_FIXED1
      else if index = msr_VMX_VMCS_ENUM then Some (push_bit 1 (ucast HIGHEST_INDEX))
      else if index = msr_VMX_PROCBASED_CTLS2 then Some (capability_ctl 0 CPU2_ALLOWED1)
      else if index = msr_VMX_EPT_VPID_CAP then Some (push_bit 32 1 OR push_bit 40 0xF)
      else if index = msr_VMX_VMFUNC then Some 0
      else None)"

section \<open>Field encodings\<close>

definition vmcs_slot :: "u32 \<Rightarrow> nat option" where
  "vmcs_slot enc =
     (let index = drop_bit 1 enc AND 0x1FF in
      if index > HIGHEST_INDEX \<or> enc AND NOT 0x7FFF \<noteq> 0 then None
      else
        (let ty = drop_bit 10 enc AND 3; width = drop_bit 13 enc AND 3
         in Some (unat ((width * 4 + ty) * 32 + index))))"

definition width_of :: "u32 \<Rightarrow> nat" where
  "width_of enc =
     (let w = drop_bit 13 enc AND 3 in if w = 0 then 16 else if w = 1 then 64 else if w = 2 then 32 else 64)"

definition is_read_only :: "u32 \<Rightarrow> bool" where
  "is_read_only enc \<longleftrightarrow> drop_bit 10 enc AND 3 = 1"

definition LAUNCH_SLOT :: nat where [simp]: "LAUNCH_SLOT = 31"
definition SLOTS :: nat where [simp]: "SLOTS = 512"

definition mask_w :: "nat \<Rightarrow> u64" where
  "mask_w width = (if width \<ge> 64 then 0xFFFFFFFFFFFFFFFF else push_bit width 1 - 1)"

section \<open>The state\<close>

record vmx =
  feature_control :: u64
  vmx_on :: bool
  vmxon_ptr :: u64
  vmx_current :: "u64 option"
  vmcs :: "u64 list"
  in_guest :: bool
  host_long :: bool

definition vmx_new :: vmx where
  "vmx_new = \<lparr>feature_control = 0, vmx_on = False, vmxon_ptr = 0, vmx_current = None,
     vmcs = replicate SLOTS 0, in_guest = False, host_long = False\<rparr>"

definition vmx_read :: "vmx \<Rightarrow> u32 \<Rightarrow> u64" where
  "vmx_read x enc =
     (case vmcs_slot enc of
        Some s \<Rightarrow> (let v = vmcs x ! s in
          if enc AND 1 = 1 then drop_bit 32 v else v AND mask_w (width_of enc))
      | None \<Rightarrow> 0)"

definition vmx_write :: "vmx \<Rightarrow> u32 \<Rightarrow> u64 \<Rightarrow> vmx" where
  "vmx_write x enc v =
     (case vmcs_slot enc of
        Some s \<Rightarrow>
          if enc AND 1 = 1
          then x\<lparr>vmcs := (vmcs x)[s := (vmcs x ! s AND 0xFFFFFFFF) OR push_bit 32 v]\<rparr>
          else (let w = width_of enc in
            x\<lparr>vmcs := (vmcs x)[s := (vmcs x ! s AND NOT (mask_w w)) OR (v AND mask_w w)]\<rparr>)
      | None \<Rightarrow> x)"

definition launched :: "vmx \<Rightarrow> bool" where "launched x \<longleftrightarrow> vmcs x ! LAUNCH_SLOT \<noteq> 0"

definition set_launched :: "vmx \<Rightarrow> bool \<Rightarrow> vmx" where
  "set_launched x b = x\<lparr>vmcs := (vmcs x)[LAUNCH_SLOT := bool_to b]\<rparr>"

definition vmx_wf :: "vmx \<Rightarrow> bool" where "vmx_wf x \<longleftrightarrow> length (vmcs x) = SLOTS"

lemma vmx_wf_ops [wf_intros]:
  "vmx_wf vmx_new" "vmx_wf x \<Longrightarrow> vmx_wf (vmx_write x enc v)" "vmx_wf x \<Longrightarrow> vmx_wf (set_launched x b)"
  by (auto simp: vmx_wf_def vmx_new_def vmx_write_def set_launched_def Let_def split: option.split)

section \<open>Slots\<close>

lemma small_field: "x AND 3 = mask 2 AND x" "x AND 0x1FF = mask 9 AND x" for x :: u32
  by (simp_all add: mask_eq_exp_minus_1 and.commute)

lemma slot_arith:
  fixes a b c :: u32
  assumes "unat a < 4" "unat b < 4" "unat c < 512"
  shows "unat ((a * 4 + b) * 32 + c) = (unat a * 4 + unat b) * 32 + unat c"
proof -
  define k where "k = (unat a * 4 + unat b) * 32 + unat c"
  have "(a * 4 + b) * 32 + c = of_nat k" by (simp add: k_def)
  moreover have "k < 2 ^ LENGTH(32)" using assms by (simp add: k_def)
  ultimately show ?thesis unfolding k_def [symmetric] by (simp only: unat_of_nat mod_less)
qed

lemma vmcs_slot_nat:
  "vmcs_slot enc =
    (if unat (drop_bit 1 enc) mod 512 > 26 \<or> enc AND NOT 0x7FFF \<noteq> 0 then None
     else Some ((unat (drop_bit 13 enc) mod 4 * 4 + unat (drop_bit 10 enc) mod 4) * 32
       + unat (drop_bit 1 enc) mod 512))"
proof -
  have m: "(3 :: u32) = mask 2" "(0x1FF :: u32) = mask 9" by (simp_all add: mask_eq_exp_minus_1)
  note u = and_mask_numeral_unat [OF m(1)] and_mask_numeral_unat [OF m(2)]
  have g: "(drop_bit 1 enc AND 0x1FF > 0x1A) \<longleftrightarrow> unat (drop_bit 1 enc) mod 512 > 26"
    by (simp add: word_less_nat_alt u)
  have "unat (((drop_bit 13 enc AND 3) * 4 + (drop_bit 10 enc AND 3)) * 32 + (drop_bit 1 enc AND 0x1FF)) =
      (unat (drop_bit 13 enc) mod 4 * 4 + unat (drop_bit 10 enc) mod 4) * 32 + unat (drop_bit 1 enc) mod 512"
    by (subst slot_arith) (simp_all add: u)
  then show ?thesis unfolding vmcs_slot_def Let_def HIGHEST_INDEX_def g by simp
qed

lemma vmcs_slot_bound: "vmcs_slot enc = Some s \<Longrightarrow> s < SLOTS \<and> s \<noteq> LAUNCH_SLOT"
proof -
  assume s: "vmcs_slot enc = Some s"
  let ?w = "unat (drop_bit 13 enc) mod 4" and ?t = "unat (drop_bit 10 enc) mod 4"
  have "?w \<le> 3" "?t \<le> 3" using mod_less_divisor [of 4] by (simp_all add: less_Suc_eq_le [symmetric])
  moreover have "s = (?w * 4 + ?t) * 32 + unat (drop_bit 1 enc) mod 512" "unat (drop_bit 1 enc) mod 512 \<le> 26"
    using s by (auto simp: vmcs_slot_nat split: if_splits)
  ultimately show ?thesis by (cases "?w * 4 + ?t") auto
qed

text \<open>The slot determines the encoding but for the access bit and the reserved bit 12.\<close>

definition enc_key :: "u32 \<Rightarrow> nat \<times> nat \<times> nat" where
  "enc_key enc = (unat (drop_bit 13 enc) mod 4, unat (drop_bit 10 enc) mod 4, unat (drop_bit 1 enc) mod 512)"

lemma vmcs_slot_inj: "vmcs_slot e = Some s \<Longrightarrow> vmcs_slot e' = Some s \<Longrightarrow> enc_key e = enc_key e'"
proof -
  have dec: "(w * 4 + t) * 32 + i = (w' * 4 + t') * 32 + i' \<Longrightarrow> w = w' \<and> t = t' \<and> i = i'"
    if "t < 4" "t' < 4" "i < 32" "i' < 32" for w t i w' t' i' :: nat
  proof -
    assume e: "(w * 4 + t) * 32 + i = (w' * 4 + t') * 32 + i'"
    have d: "(k * 32 + j) div 32 = k" "(k * 32 + j) mod 32 = j" if "j < 32" for k j :: nat using that by simp_all
    have "w * 4 + t = w' * 4 + t'" using d(1) [of i "w * 4 + t"] d(1) [of i' "w' * 4 + t'"] e that by metis
    moreover have "i = i'" using d(2) [of i "w * 4 + t"] d(2) [of i' "w' * 4 + t'"] e that by metis
    moreover have f: "(k * 4 + j) div 4 = k" "(k * 4 + j) mod 4 = j" if "j < 4" for k j :: nat using that by simp_all
    ultimately show ?thesis using f(1) [of t w] f(1) [of t' w'] f(2) [of t w] f(2) [of t' w'] that by metis
  qed
  have key: "s = (unat (drop_bit 13 e) mod 4 * 4 + unat (drop_bit 10 e) mod 4) * 32 + unat (drop_bit 1 e) mod 512 \<and>
      unat (drop_bit 1 e) mod 512 < 32" if "vmcs_slot e = Some s" for e
    using that unfolding vmcs_slot_nat by (auto split: if_splits)
  assume "vmcs_slot e = Some s" "vmcs_slot e' = Some s"
  note k = key [OF this(1)] key [OF this(2)]
  note eq = trans [OF k(1) [THEN conjunct1, symmetric] k(2) [THEN conjunct1]]
  show ?thesis
    unfolding enc_key_def using dec [OF _ _ _ _ eq] k by simp
qed

section \<open>Reading and writing fields\<close>

lemma mask_w_mask: "w \<le> 64 \<Longrightarrow> mask_w w = mask w"
  by (cases "w = 64") (simp_all add: mask_w_def mask_eq_exp_minus_1 push_bit_eq_mult)

lemma width_of_le: "width_of enc \<le> 64"
  by (simp add: width_of_def Let_def)

lemma replace_low: "((old AND NOT (mask w)) OR (v AND mask w)) AND mask w = v AND mask w" for old v :: u64
  by (rule bit_word_eqI) (auto simp: bit_simps)

lemma replace_high:
  "drop_bit 32 ((old AND 0xFFFFFFFF) OR push_bit 32 v) = v AND mask 32"
  "((old AND 0xFFFFFFFF) OR push_bit 32 v) AND mask 32 = old AND mask 32" for old v :: u64
proof -
  have m: "(0xFFFFFFFF :: u64) = mask 32" by (simp add: mask_eq_exp_minus_1)
  show "drop_bit 32 ((old AND 0xFFFFFFFF) OR push_bit 32 v) = v AND mask 32"
    "((old AND 0xFFFFFFFF) OR push_bit 32 v) AND mask 32 = old AND mask 32"
    unfolding m by (rule bit_word_eqI, auto simp: bit_simps)+
qed

lemma drop_push32: "drop_bit 32 (push_bit 32 v) = v AND mask 32" for v :: u64
  by (rule bit_word_eqI) (auto simp: bit_simps)

text \<open>A field of the VMCS reads back what was last written to it, truncated to its width (the
  high half of a 64-bit field to 32 bits), whatever was written to other fields in between: a
  write changes only the encodings that share type, width and index with it, and never the launch
  state.\<close>

theorem vmcs_field_store:
  assumes "vmx_wf x" "vmcs_slot e \<noteq> None"
  shows "vmx_read (vmx_write x e v) e = (if e AND 1 = 1 then v AND mask 32 else v AND mask (width_of e)) \<and>
    (enc_key e' \<noteq> enc_key e \<longrightarrow> vmx_read (vmx_write x e v) e' = vmx_read x e') \<and>
    launched (vmx_write x e v) = launched x"
proof -
  obtain s where s: "vmcs_slot e = Some s" using assms(2) by blast
  have l: "s < length (vmcs x)" "s \<noteq> LAUNCH_SLOT"
    using vmcs_slot_bound [OF s] assms(1) by (simp_all add: vmx_wf_def)
  have "vmx_read (vmx_write x e v) e = (if e AND 1 = 1 then v AND mask 32 else v AND mask (width_of e))"
    using s l by (simp add: vmx_read_def vmx_write_def Let_def mask_w_mask [OF width_of_le] replace_low replace_high drop_push32)
  moreover have "vmx_read (vmx_write x e v) e' = vmx_read x e'" if "enc_key e' \<noteq> enc_key e"
  proof (cases "vmcs_slot e'")
    case (Some s')
    then have "s' \<noteq> s" using vmcs_slot_inj [OF s] that by auto
    then show ?thesis using s Some by (simp add: vmx_read_def vmx_write_def Let_def)
  qed (simp add: vmx_read_def)
  moreover have "launched (vmx_write x e v) = launched x"
    using s l by (simp add: launched_def vmx_write_def Let_def)
  ultimately show ?thesis by blast
qed

theorem vmcs_field_store_witness: "vmx_read (vmx_write vmx_new 0x4000 0x1FFFFFFFF) 0x4000 = 0x1FFFFFFFF AND mask 32"
proof -
  have "width_of 0x4000 = 32" "vmcs_slot 0x4000 = Some 256" by code_simp+
  then show ?thesis
    using vmcs_field_store [OF vmx_wf_ops(1), of "0x4000" "0x1FFFFFFFF"] by simp
qed

text \<open>Reserved bit 12 of an encoding is not looked at: two encodings name one field.\<close>

lemma vmcs_reserved_bit_aliases: "vmcs_slot 0x1800 = vmcs_slot 0x0800" "vmcs_slot 0x0800 \<noteq> None"
  by code_simp+

end
