(* ===== verification/Pic.thy ===== *)
theory Pic imports Prelude begin

text \<open>
  The cascaded pair of 8259 interrupt controllers (src/src/pic.rs): the register
  writes of both ports, the latching of requests, the priority walk with its
  early returns, and the acknowledge cycle. The second half shows that the
  nested loops of \<open>next_irq\<close> implement the fixed priority order, that an
  acknowledge neither loses nor invents a request, and that a handler is only
  re-entered by a line of higher priority until it signals end of interrupt.
\<close>

unbundle bit_operations_syntax

section \<open>State and register writes\<close>

record pic =
  master_base :: u8
  master_imr :: u8
  master_irr :: u8
  master_isr :: u8
  master_auto_eoi :: bool
  slave_base :: u8
  slave_imr :: u8
  slave_irr :: u8
  slave_isr :: u8
  slave_auto_eoi :: bool
  cascade_irq :: u8
  pic_initialized :: bool
  icw2_pending :: bool
  icw2_for_slave :: bool
  master_read_isr :: bool
  slave_read_isr :: bool

definition pic_new :: pic where
  "pic_new = \<lparr>master_base = 0x08, master_imr = 0, master_irr = 0, master_isr = 0,
     master_auto_eoi = False, slave_base = 0x70, slave_imr = 0, slave_irr = 0, slave_isr = 0,
     slave_auto_eoi = False, cascade_irq = 2, pic_initialized = False, icw2_pending = False,
     icw2_for_slave = False, master_read_isr = False, slave_read_isr = False\<rparr>"

text \<open>\<open>1u8 << n\<close>: the release build masks the shift count to the width.\<close>

definition bit8 :: "u8 \<Rightarrow> u8" where
  "bit8 n = push_bit (unat (n AND 7)) 1"

fun lowest_bit_in :: "u8 \<Rightarrow> u8 list \<Rightarrow> u8" where
  "lowest_bit_in v [] = 0"
| "lowest_bit_in v (i # is) = (if v AND bit8 i \<noteq> 0 then i else lowest_bit_in v is)"

definition lowest_bit :: "u8 \<Rightarrow> u8" where
  "lowest_bit v = lowest_bit_in v [0, 1, 2, 3, 4, 5, 6, 7]"

text \<open>OCW2: what an end-of-interrupt command does to an in-service register.\<close>

definition pic_ocw2_isr :: "u8 \<Rightarrow> u8 \<Rightarrow> u8" where
  "pic_ocw2_isr val isr =
     (let c = drop_bit 5 val in
      if c = 1 \<or> c = 5 then (if isr \<noteq> 0 then isr AND NOT (bit8 (lowest_bit isr)) else isr)
      else if c = 3 \<or> c = 7 then isr AND NOT (bit8 (val AND 7))
      else isr)"

definition pic_write_command :: "pic \<Rightarrow> u8 \<Rightarrow> u8 \<Rightarrow> pic" where
  "pic_write_command p port val =
     (let slave = (port = 0xA0) in
      if val AND 0x10 \<noteq> 0 then
        (let p = p\<lparr>icw2_pending := True, icw2_for_slave := slave\<rparr> in
         if slave then p\<lparr>slave_irr := 0, slave_isr := 0\<rparr>
         else p\<lparr>master_irr := 0, master_isr := 0\<rparr>)
      else if val AND 0x18 = 0x00 then
        (let p = (if slave then p\<lparr>slave_isr := pic_ocw2_isr val (slave_isr p)\<rparr>
                  else p\<lparr>master_isr := pic_ocw2_isr val (master_isr p)\<rparr>) in
         if slave \<and> slave_isr p = 0
         then p\<lparr>master_isr := master_isr p AND NOT (bit8 (cascade_irq p))\<rparr> else p)
      else if val AND 0x18 = 0x08 then
        (if val AND 3 = 3 \<or> val AND 3 = 2 then
           (let read_isr = (val AND 3 = 3) in
            if slave then p\<lparr>slave_read_isr := read_isr\<rparr> else p\<lparr>master_read_isr := read_isr\<rparr>)
         else p)
      else p)"

definition pic_write_data :: "pic \<Rightarrow> u8 \<Rightarrow> u8 \<Rightarrow> pic" where
  "pic_write_data p port val =
     (let slave = (port = 0xA1) in
      if icw2_pending p then
        (let p = (if slave then p\<lparr>slave_base := val AND 0xF8\<rparr> else p\<lparr>master_base := val AND 0xF8\<rparr>)
         in p\<lparr>icw2_pending := False, pic_initialized := True\<rparr>)
      else if slave then p\<lparr>slave_imr := val\<rparr> else p\<lparr>master_imr := val\<rparr>)"

definition pic_read_command :: "pic \<Rightarrow> u8 \<Rightarrow> u8" where
  "pic_read_command p port =
     (if port = 0xA0 then (if slave_read_isr p then slave_isr p else slave_irr p)
      else if master_read_isr p then master_isr p else master_irr p)"

definition pic_read_data :: "pic \<Rightarrow> u8 \<Rightarrow> u8" where
  "pic_read_data p port = (if port = 0xA1 then slave_imr p else master_imr p)"

definition raise_irq :: "pic \<Rightarrow> u8 \<Rightarrow> pic" where
  "raise_irq p irq =
     (if irq < 8 then p\<lparr>master_irr := master_irr p OR bit8 irq\<rparr>
      else p\<lparr>slave_irr := slave_irr p OR bit8 (irq - 8)\<rparr>)"

definition clear_irq :: "pic \<Rightarrow> u8 \<Rightarrow> pic" where
  "clear_irq p irq =
     (if irq < 8 then p\<lparr>master_irr := master_irr p AND NOT (bit8 irq)\<rparr>
      else p\<lparr>slave_irr := slave_irr p AND NOT (bit8 (irq - 8))\<rparr>)"

section \<open>The priority walk\<close>

text \<open>
  \<open>None\<close> is falling out of the loop, \<open>Some r\<close> an early \<open>return r\<close>.
\<close>

primrec slave_scan :: "pic \<Rightarrow> u8 \<Rightarrow> u8 list \<Rightarrow> u8 option option" where
  "slave_scan p spending [] = None"
| "slave_scan p spending (j # js) =
     (if slave_isr p AND bit8 j \<noteq> 0 then Some None
      else if spending AND bit8 j \<noteq> 0 then Some (Some (8 + j))
      else slave_scan p spending js)"

primrec master_scan :: "pic \<Rightarrow> u8 \<Rightarrow> u8 list \<Rightarrow> u8 option" where
  "master_scan p pending [] = None"
| "master_scan p pending (i # js) =
     (let cascade = bit8 (cascade_irq p); b = bit8 i in
      if master_isr p AND b \<noteq> 0 \<and> b \<noteq> cascade then None
      else if b = cascade then
        (case (if master_imr p AND cascade = 0
               then slave_scan p (slave_irr p AND NOT (slave_imr p)) [0, 1, 2, 3, 4, 5, 6, 7]
               else None) of
           Some r \<Rightarrow> r
         | None \<Rightarrow> if master_isr p AND b \<noteq> 0 then None else master_scan p pending js)
      else if pending AND b \<noteq> 0 then Some i
      else master_scan p pending js)"

definition next_irq :: "pic \<Rightarrow> u8 option" where
  "next_irq p = master_scan p (master_irr p AND NOT (master_imr p)) [0, 1, 2, 3, 4, 5, 6, 7]"

definition acknowledge :: "pic \<Rightarrow> u8 option \<times> pic" where
  "acknowledge p =
     (case next_irq p of
        None \<Rightarrow> (None, p)
      | Some irq \<Rightarrow>
          if irq \<ge> 8 then
            (let b = irq - 8 in
             (Some (slave_base p + b),
              p\<lparr>slave_irr := slave_irr p AND NOT (bit8 b), slave_isr := slave_isr p OR bit8 b,
                master_isr := master_isr p OR bit8 (cascade_irq p)\<rparr>))
          else
            (Some (master_base p + irq),
             p\<lparr>master_irr := master_irr p AND NOT (bit8 irq), master_isr := master_isr p OR bit8 irq\<rparr>))"

definition has_pending :: "pic \<Rightarrow> bool" where
  "has_pending p \<longleftrightarrow> next_irq p \<noteq> None"

definition in_service :: "pic \<Rightarrow> bool" where
  "in_service p \<longleftrightarrow> master_isr p \<noteq> 0 \<or> slave_isr p \<noteq> 0"

section \<open>The invariant\<close>

definition pic_wf :: "pic \<Rightarrow> bool" where
  "pic_wf p \<longleftrightarrow> master_base p AND 7 = 0 \<and> slave_base p AND 7 = 0 \<and> cascade_irq p = 2"

lemma and_F8_7 [simp]: "(v AND 0xF8) AND 7 = (0 :: u8)"
  by (simp add: and.assoc)

lemma pic_new_wf: "pic_wf pic_new" by (simp add: pic_wf_def pic_new_def)

lemma pic_write_command_wf [wf_intros]: "pic_wf p \<Longrightarrow> pic_wf (pic_write_command p port val)"
  by (simp add: pic_wf_def pic_write_command_def Let_def)

lemma pic_write_data_wf [wf_intros]: "pic_wf p \<Longrightarrow> pic_wf (pic_write_data p port val)"
  by (simp add: pic_wf_def pic_write_data_def Let_def)

lemma raise_irq_wf [wf_intros]: "pic_wf p \<Longrightarrow> pic_wf (raise_irq p irq)"
  by (simp add: pic_wf_def raise_irq_def)

lemma clear_irq_wf [wf_intros]: "pic_wf p \<Longrightarrow> pic_wf (clear_irq p irq)"
  by (simp add: pic_wf_def clear_irq_def)

lemma acknowledge_wf [wf_intros]: "pic_wf p \<Longrightarrow> pic_wf (snd (acknowledge p))"
  by (simp add: pic_wf_def acknowledge_def Let_def split: option.splits)

section \<open>Bits of the request and in-service registers\<close>

lemma unat_and_7: "unat (n AND 7 :: u8) = unat n mod 8"
  using and_mask_numeral_unat [of 7 3 n] by (simp add: mask_eq_exp_minus_1)

lemma bit_bit8: "bit (bit8 n) k \<longleftrightarrow> k = unat n mod 8"
  using mod_less_divisor [of 8 "unat n"] by (auto simp: bit8_def bit_simps unat_and_7)

lemma and_bit8: "v AND bit8 n \<noteq> 0 \<longleftrightarrow> bit v (unat n mod 8)"
  using and_pow2_nonzero [of "unat n mod 8" v] mod_less_divisor [of 8 "unat n"]
  by (simp add: bit8_def unat_and_7 push_bit_eq_mult)

section \<open>The fixed priority order\<close>

text \<open>
  The specification: the lines in priority order, the slave's eight at the
  master's cascade input; a line is requested when its request is latched and
  no mask in its path is set; the cascade line itself (2) never requests, it
  only blocks.
\<close>

definition irq_order :: "u8 list" where
  "irq_order = [0, 1, 8, 9, 10, 11, 12, 13, 14, 15, 2, 3, 4, 5, 6, 7]"

definition irq_requested :: "pic \<Rightarrow> u8 \<Rightarrow> bool" where
  "irq_requested p q \<longleftrightarrow>
     (if q < 8 then q \<noteq> 2 \<and> bit (master_irr p) (unat q) \<and> \<not> bit (master_imr p) (unat q)
      else bit (slave_irr p) (unat q - 8) \<and> \<not> bit (slave_imr p) (unat q - 8) \<and> \<not> bit (master_imr p) 2)"

definition irq_in_service :: "pic \<Rightarrow> u8 \<Rightarrow> bool" where
  "irq_in_service p q \<longleftrightarrow>
     (if q < 8 then bit (master_isr p) (unat q)
      else bit (slave_isr p) (unat q - 8) \<and> \<not> bit (master_imr p) 2)"

primrec pick :: "pic \<Rightarrow> u8 list \<Rightarrow> u8 option" where
  "pick p [] = None"
| "pick p (q # qs) =
     (if irq_in_service p q then None else if irq_requested p q then Some q else pick p qs)"

lemma bit8_values:
  "bit8 0 = 1" "bit8 1 = 2" "bit8 2 = 4" "bit8 3 = 8" "bit8 4 = 16" "bit8 5 = 32" "bit8 6 = 64" "bit8 7 = 128"
  by (simp_all add: bit8_def)

lemma and_bit8_zero: "v AND bit8 n = 0 \<longleftrightarrow> \<not> bit v (unat n mod 8)"
  using and_bit8 by blast

lemmas and_byte_bits =
  and_bit8_zero [where n = 0, unfolded bit8_values, simplified] and_bit8_zero [where n = 1, unfolded bit8_values, simplified]
  and_bit8_zero [where n = 2, unfolded bit8_values, simplified] and_bit8_zero [where n = 3, unfolded bit8_values, simplified]
  and_bit8_zero [where n = 4, unfolded bit8_values, simplified] and_bit8_zero [where n = 5, unfolded bit8_values, simplified]
  and_bit8_zero [where n = 6, unfolded bit8_values, simplified] and_bit8_zero [where n = 7, unfolded bit8_values, simplified]

lemma next_irq_pick: "cascade_irq p = 2 \<Longrightarrow> next_irq p = pick p irq_order"
  unfolding next_irq_def irq_order_def
  by (simp add: bit8_values and_byte_bits irq_requested_def irq_in_service_def bit_and_iff bit_not_iff Let_def)

lemma split_first:
  "(\<exists>pre post. a # qs = pre @ q # post \<and> P pre) \<longleftrightarrow>
    q = a \<and> P [] \<or> (\<exists>pre post. qs = pre @ q # post \<and> P (a # pre))"
  by (auto simp: Cons_eq_append_conv)

lemma pick_Some:
  "pick p qs = Some q \<longleftrightarrow>
    (\<exists>pre post. qs = pre @ q # post \<and> irq_requested p q \<and> \<not> irq_in_service p q \<and>
      (\<forall>r \<in> set pre. \<not> irq_requested p r \<and> \<not> irq_in_service p r))"
proof (induction qs)
  case (Cons a qs)
  have "pick p (a # qs) = Some q \<longleftrightarrow> q = a \<and> irq_requested p q \<and> \<not> irq_in_service p q \<or>
      pick p qs = Some q \<and> \<not> irq_requested p a \<and> \<not> irq_in_service p a"
    by auto
  then show ?case unfolding split_first Cons.IH by auto
qed simp

lemma pick_None_served:
  "distinct qs \<Longrightarrow> q \<in> set qs \<Longrightarrow> irq_in_service p q \<Longrightarrow> pick p qs = Some r \<Longrightarrow>
    r \<in> set (takeWhile (\<lambda>x. x \<noteq> q) qs)"
  by (induction qs) (auto split: if_splits)

lemma irq_order_distinct: "distinct irq_order" by (simp add: irq_order_def)

lemma next_irq_in_order: "cascade_irq p = 2 \<Longrightarrow> next_irq p = Some q \<Longrightarrow> q \<in> set irq_order \<and> irq_requested p q"
  unfolding next_irq_pick pick_Some by (metis in_set_conv_decomp)

text \<open>C19: The interrupt the controllers deliver is the requested line of highest priority in the
  fixed order (0, 1, the slave's 8-15 at the cascade, 3-7), and it is delivered exactly when no
  line of equal or higher priority is in service or requested before it; the nested loops with
  their early returns implement that order.\<close>

theorem next_irq_priority:
  assumes "pic_wf p"
  shows "next_irq p = Some q \<longleftrightarrow>
    (\<exists>pre post. irq_order = pre @ q # post \<and> irq_requested p q \<and> \<not> irq_in_service p q \<and>
      (\<forall>r \<in> set pre. \<not> irq_requested p r \<and> \<not> irq_in_service p r))"
  using assms by (simp add: pic_wf_def next_irq_pick pick_Some)

theorem next_irq_priority_witness:
  "\<exists>pre post. irq_order = pre @ 12 # post \<and>
     irq_requested (raise_irq (raise_irq pic_new 4) 12) 12 \<and>
     \<not> irq_in_service (raise_irq (raise_irq pic_new 4) 12) 12"
proof -
  have "pic_wf (raise_irq (raise_irq pic_new 4) 12)"
    by (intro raise_irq_wf pic_new_wf)
  moreover have "next_irq (raise_irq (raise_irq pic_new 4) 12) = Some 12"
    by (simp add: next_irq_def raise_irq_def pic_new_def bit8_values)
  ultimately show ?thesis using next_irq_priority by blast
qed

definition irq_latched :: "pic \<Rightarrow> u8 \<Rightarrow> bool" where
  "irq_latched p q = (if q < 8 then bit (master_irr p) (unat q) else bit (slave_irr p) (unat q - 8))"

lemma unat_mod8: "q < 8 \<Longrightarrow> unat q mod 8 = unat q" for q :: u8
  by (simp add: word_less_nat_alt)

lemma mod8_sub: "\<not> n < 8 \<Longrightarrow> n < 16 \<Longrightarrow> n mod 8 = n - (8 :: nat)"
  by (simp add: le_mod_geq)

lemma unat_slave_line: "8 \<le> q \<Longrightarrow> q < 16 \<Longrightarrow> unat (q - 8) mod 8 = unat q - 8" for q :: u8
  by (simp add: word_less_nat_alt word_le_nat_alt unat_sub)

lemma bit_clear8: "bit (v AND NOT (bit8 n)) k \<longleftrightarrow> bit v k \<and> k \<noteq> unat n mod 8"
  by (auto simp: bit_simps bit_bit8 dest: bit_imp_le_length)

lemma bit_set8: "bit (v OR bit8 n) k \<longleftrightarrow> bit v k \<or> k = unat n mod 8"
  by (auto simp: bit_simps bit_bit8)

lemma irq_order_lt16: "q \<in> set irq_order \<Longrightarrow> q < 16" by (auto simp: irq_order_def)

lemma acknowledge_cases:
  assumes "pic_wf p" "next_irq p = Some q" "q \<ge> 8"
  shows "acknowledge p = (Some (slave_base p + (q - 8)),
      p\<lparr>slave_irr := slave_irr p AND NOT (bit8 (q - 8)), slave_isr := slave_isr p OR bit8 (q - 8),
        master_isr := master_isr p OR bit8 2\<rparr>)"
  using assms by (simp add: acknowledge_def pic_wf_def Let_def)

lemma vector_no_overflow:
  "b AND 7 = 0 \<Longrightarrow> n < 8 \<Longrightarrow> unat (b + n) = unat b + unat n \<and> unat b mod 8 = 0" for b n :: u8
proof -
  assume b: "b AND 7 = 0" and n: "n < 8"
  have "unat b mod 8 = 0" using unat_and_7 [of b] b by simp
  moreover have "unat b < 256" using unsigned_less [of b] by simp
  ultimately have "unat b \<le> 248" by presburger
  then show ?thesis
    using n \<open>unat b mod 8 = 0\<close> by (simp add: word_less_nat_alt unat_add_nowrap)
qed

text \<open>C20: Acknowledging returns the base vector of the line's controller plus its line number
  with no overflow of the byte, moves exactly that line from requested to in service, leaves
  every other latched request alone, and afterwards only a line of strictly higher priority can
  be delivered until an end of interrupt.\<close>

theorem acknowledge_correct:
  assumes wf: "pic_wf p" and q: "next_irq p = Some q" and ack: "acknowledge p = (v, p')"
  shows "v = Some ((if q < 8 then master_base p else slave_base p) + (q AND 7)) \<and>
    unat (the v) = unat (if q < 8 then master_base p else slave_base p) + unat q mod 8 \<and>
    irq_in_service p' q \<and>
    (\<forall>r < 16. irq_latched p' r \<longleftrightarrow> irq_latched p r \<and> r \<noteq> q) \<and>
    (\<forall>r. next_irq p' = Some r \<longrightarrow> r \<in> set (takeWhile (\<lambda>x. x \<noteq> q) irq_order))"
proof -
  have c: "cascade_irq p = 2" "master_base p AND 7 = 0" "slave_base p AND 7 = 0"
    using wf by (simp_all add: pic_wf_def)
  have qo: "q \<in> set irq_order" "irq_requested p q" "q < 16"
    using next_irq_in_order [OF c(1) q] irq_order_lt16 by auto
  have q7: "unat (q AND 7) = unat q mod 8" "q AND 7 < 8"
    using unat_and_7 [of q] by (simp_all add: word_less_nat_alt)
  have v: "v = Some ((if q < 8 then master_base p else slave_base p) + (q AND 7))"
  proof (cases "q < 8")
    case True
    then have "q AND 7 = q" using q7 unat_mod8 [OF True] by (simp add: word_unat_eq_iff)
    moreover have "\<not> 8 \<le> q" using True by simp
    ultimately show ?thesis using True ack q by (auto simp: acknowledge_def)
  next
    case False
    then have "q AND 7 = q - 8"
      using qo(3) q7 by (simp add: word_unat_eq_iff unat_sub word_less_nat_alt word_le_nat_alt mod8_sub)
    moreover have "8 \<le> q" using False by simp
    ultimately show ?thesis using False ack q by (auto simp: acknowledge_def Let_def)
  qed
  have serv: "irq_in_service p' q"
    using ack q qo c unat_mod8 [of q] unat_slave_line [of q]
    by (auto simp: acknowledge_def Let_def irq_in_service_def irq_requested_def bit_set8 not_le
        split: if_splits)
  have lat: "irq_latched p' r \<longleftrightarrow> irq_latched p r \<and> r \<noteq> q" if "r < 16" for r
    using ack q qo c that unat_mod8 [of q] unat_slave_line [of q]
    by (auto simp: acknowledge_def Let_def irq_latched_def bit_clear8 not_le word_unat_eq_iff
        word_less_nat_alt word_le_nat_alt split: if_splits)
  have wf': "pic_wf p'" using acknowledge_wf [OF wf] ack by simp
  have nest: "next_irq p' = Some r \<Longrightarrow> r \<in> set (takeWhile (\<lambda>x. x \<noteq> q) irq_order)" for r
    using pick_None_served [OF irq_order_distinct qo(1) serv] wf' by (simp add: next_irq_pick pic_wf_def)
  have "unat (the v) = unat (if q < 8 then master_base p else slave_base p) + unat q mod 8"
    using vector_no_overflow [OF c(2) q7(2)] vector_no_overflow [OF c(3) q7(2)] q7(1)
    by (simp add: v)
  then show ?thesis using v serv lat nest by blast
qed

theorem acknowledge_correct_witness:
  "unat (the (fst (acknowledge (raise_irq pic_new 12)))) = 0x74"
proof -
  have "pic_wf (raise_irq pic_new 12)" by (intro raise_irq_wf pic_new_wf)
  moreover have "next_irq (raise_irq pic_new 12) = Some 12"
    by (simp add: next_irq_def raise_irq_def pic_new_def bit8_values)
  ultimately have "unat (the (fst (acknowledge (raise_irq pic_new 12)))) =
      unat (if (12 :: u8) < 8 then master_base (raise_irq pic_new 12) else slave_base (raise_irq pic_new 12))
        + unat (12 :: u8) mod 8"
    using acknowledge_correct [of _ 12] surjective_pairing by blast
  then show ?thesis by (simp add: raise_irq_def pic_new_def)
qed

text \<open>The end-of-interrupt sequence a handler sends (specific EOI, as Linux does).\<close>

definition send_eoi :: "pic \<Rightarrow> u8 \<Rightarrow> pic" where
  "send_eoi p q =
     (if q < 8 then pic_write_command p 0x20 (0x60 OR q)
      else pic_write_command (pic_write_command p 0xA0 (0x60 OR (q AND 7))) 0x20 0x62)"

lemma eoi_byte:
  assumes "n < (8 :: u8)"
  shows "(0x60 OR n) AND 0x10 = 0 \<and> (0x60 OR n) AND 0x18 = 0 \<and> drop_bit 5 (0x60 OR n) = 3 \<and>
    (0x60 OR n) AND 7 = n"
proof -
  have "unat n < 8" using assms by (simp add: word_less_nat_alt)
  then have "unat n \<in> {0, 1, 2, 3, 4, 5, 6, 7}" by auto
  then have "n \<in> {0, 1, 2, 3, 4, 5, 6, 7}" by (auto simp: word_unat_eq_iff)
  then show ?thesis by auto
qed

lemma specific_eoi_master:
  "n < 8 \<Longrightarrow> pic_write_command p 0x20 (0x60 OR n) =
    p\<lparr>master_isr := master_isr p AND NOT (bit8 n)\<rparr>"
  using eoi_byte [of n] by (simp add: pic_write_command_def pic_ocw2_isr_def)

lemma specific_eoi_slave:
  "n < 8 \<Longrightarrow> slave_isr (pic_write_command p 0xA0 (0x60 OR n)) = slave_isr p AND NOT (bit8 n) \<and>
    master_imr (pic_write_command p 0xA0 (0x60 OR n)) = master_imr p \<and>
    (cascade_irq p = 2 \<longrightarrow> (\<forall>k. k \<noteq> 2 \<longrightarrow>
      bit (master_isr (pic_write_command p 0xA0 (0x60 OR n))) k = bit (master_isr p) k))"
  using eoi_byte [of n] by (simp add: pic_write_command_def pic_ocw2_isr_def bit_clear8 Let_def)

text \<open>C21: The specific end-of-interrupt sequence undoes the in-service effect of the
  acknowledge: every line other than the cascade is in service again exactly when it was before,
  so the next interrupt of the same line can be delivered.\<close>

theorem eoi_undoes_acknowledge:
  assumes wf: "pic_wf p" and q: "next_irq p = Some q" and r: "r \<in> set irq_order" "r \<noteq> 2"
  shows "irq_in_service (send_eoi (snd (acknowledge p)) q) r = irq_in_service p r"
proof -
  have c: "cascade_irq p = 2" using wf by (simp add: pic_wf_def)
  have qo: "q \<in> set irq_order" "irq_requested p q" using next_irq_in_order [OF c q] by auto
  have ns: "\<not> irq_in_service p q" using q c by (auto simp: next_irq_pick pick_Some)
  have lt: "q < 16" "r < 16" using qo(1) r(1) irq_order_lt16 by auto
  show ?thesis
  proof (cases "q < 8")
    case True
    then have ack: "snd (acknowledge p) =
        p\<lparr>master_irr := master_irr p AND NOT (bit8 q), master_isr := master_isr p OR bit8 q\<rparr>"
      using q by (auto simp: acknowledge_def)
    show ?thesis
      using True ns r unat_mod8 [OF True]
      by (auto simp: send_eoi_def ack specific_eoi_master irq_in_service_def bit_clear8 bit_set8)
  next
    case False
    have q8: "q AND 7 < 8" "unat (q AND 7) mod 8 = unat q - 8"
      using lt(1) False by (simp_all add: unat_and_7 word_less_nat_alt mod8_sub)
    have e2: "pic_write_command x 0x20 0x62 = x\<lparr>master_isr := master_isr x AND NOT (bit8 2)\<rparr>" for x
      using specific_eoi_master [of 2 x] by simp
    have "8 \<le> q" using False by simp
    note ack = acknowledge_cases [OF wf q this]
    have r2: "r < 8 \<Longrightarrow> unat r \<noteq> 2" using r(2) by (simp add: word_unat_eq_iff)
    show ?thesis
      using False ns r2 qo(2) c unat_slave_line [of q] lt
        specific_eoi_slave [OF q8(1), of "snd (acknowledge p)"] q8(2)
        \<open>8 \<le> q\<close>
      by (auto simp: send_eoi_def e2 ack irq_in_service_def irq_requested_def bit_clear8 bit_set8)
  qed
qed

theorem eoi_undoes_acknowledge_witness:
  "irq_in_service (send_eoi (snd (acknowledge (raise_irq pic_new 12))) 12) 12 =
   irq_in_service (raise_irq pic_new 12) 12"
proof -
  have "pic_wf (raise_irq pic_new 12)" by (intro raise_irq_wf pic_new_wf)
  moreover have "next_irq (raise_irq pic_new 12) = Some 12"
    by (simp add: next_irq_def raise_irq_def pic_new_def bit8_values)
  ultimately show ?thesis
    using eoi_undoes_acknowledge [of "raise_irq pic_new 12" 12 12] by (simp add: irq_order_def)
qed

section \<open>Interleaved initialization\<close>

text \<open>
  One \<open>icw2_pending\<close> flag serves both controllers and \<open>icw2_for_slave\<close> is never
  read: the common order "ICW1 to both, then ICW2 to both" sets the master's
  base and puts the slave's vector base into its mask register.
\<close>

lemma interleaved_icw_loses_slave_base:
  defines "p \<equiv> pic_write_data (pic_write_data (pic_write_command (pic_write_command pic_new
                 0x20 0x11) 0xA0 0x11) 0x21 0x20) 0xA1 0x28"
  shows "master_base p = 0x20" "slave_base p = 0x70" "slave_imr p = 0x28"
  by (simp_all add: p_def pic_write_data_def pic_write_command_def pic_new_def Let_def)

end
