(* ===== verification/Pit.thy ===== *)
theory Pit imports Prelude begin

text \<open>
  The 8254 interval timer (src/src/pit.rs) with its three channels, the system
  control port 0x61, and the tick that drives IRQ0 and channel 2's OUT line.
  The lemmas show the period of IRQ0, the one-shot of channel 2 that the
  kernel's TSC calibration waits for, and the byte order of the data port.
\<close>

unbundle bit_operations_syntax

section \<open>State\<close>

record pit =
  ch0_count :: u16
  ch0_reload :: u16
  ch0_mode :: u8
  ch0_bcd :: bool
  ch0_access :: u8
  ch0_lsb_pending :: bool
  ch0_lsb :: u8
  ch1_count :: u16
  ch1_reload :: u16
  ch1_mode :: u8
  ch1_access :: u8
  ch1_lsb_pending :: bool
  ch1_lsb :: u8
  ch2_count :: u16
  ch2_reload :: u16
  ch2_mode :: u8
  ch2_access :: u8
  ch2_lsb_pending :: bool
  ch2_lsb :: u8
  ch2_gate :: bool
  ch2_out :: bool
  speaker_on :: bool
  refresh_toggle :: bool
  pit_irq0 :: bool
  active_channel :: u8
  active_access :: u8
  active_mode :: u8
  active_bcd :: bool

definition pit_new :: pit where
  "pit_new = \<lparr>ch0_count = 0, ch0_reload = 0, ch0_mode = 3, ch0_bcd = False,
     ch0_access = 3, ch0_lsb_pending = False, ch0_lsb = 0,
     ch1_count = 0, ch1_reload = 0, ch1_mode = 3, ch1_access = 3,
     ch1_lsb_pending = False, ch1_lsb = 0,
     ch2_count = 0, ch2_reload = 0, ch2_mode = 3, ch2_access = 3,
     ch2_lsb_pending = False, ch2_lsb = 0,
     ch2_gate = False, ch2_out = False, speaker_on = False, refresh_toggle = False,
     pit_irq0 = False, active_channel = 0, active_access = 3, active_mode = 3, active_bcd = False\<rparr>"

section \<open>Register writes\<close>

definition pit_write_control :: "pit \<Rightarrow> u8 \<Rightarrow> pit" where
  "pit_write_control p val =
     (let channel = drop_bit 6 val AND 3; access = drop_bit 4 val AND 3;
          mode = drop_bit 1 val AND 7; bcd = (val AND 1 = 1) in
      if channel = 3 then p
      else
        (let p = p\<lparr>active_channel := channel, active_access := access, active_mode := mode,
                   active_bcd := bcd\<rparr> in
         if channel = 0 then p\<lparr>ch0_mode := mode, ch0_access := access, ch0_bcd := bcd\<rparr>
         else if channel = 1 then p\<lparr>ch1_mode := mode, ch1_access := access\<rparr>
         else p\<lparr>ch2_mode := mode, ch2_access := access\<rparr>))"

definition with_lsb :: "u16 \<Rightarrow> u8 \<Rightarrow> u16" where
  "with_lsb r v = (r AND 0xFF00) OR ucast v"

definition with_msb :: "u16 \<Rightarrow> u8 \<Rightarrow> u16" where
  "with_msb r v = (r AND 0x00FF) OR push_bit 8 (ucast v)"

definition lsb_msb :: "u8 \<Rightarrow> u8 \<Rightarrow> u16" where
  "lsb_msb lo hi = ucast lo OR push_bit 8 (ucast hi)"

definition write_ch0 :: "pit \<Rightarrow> u8 \<Rightarrow> pit" where
  "write_ch0 p val =
     (if ch0_access p = 1 then
        (let r = with_lsb (ch0_reload p) val in p\<lparr>ch0_reload := r, ch0_count := r\<rparr>)
      else if ch0_access p = 2 then
        (let r = with_msb (ch0_reload p) val in p\<lparr>ch0_reload := r, ch0_count := r\<rparr>)
      else if ch0_lsb_pending p then
        (let r = lsb_msb (ch0_lsb p) val in
         p\<lparr>ch0_reload := r, ch0_count := r, ch0_lsb_pending := False\<rparr>)
      else p\<lparr>ch0_lsb := val, ch0_lsb_pending := True\<rparr>)"

definition write_ch1 :: "pit \<Rightarrow> u8 \<Rightarrow> pit" where
  "write_ch1 p val =
     (if ch1_access p = 1 then
        (let r = with_lsb (ch1_reload p) val in p\<lparr>ch1_reload := r, ch1_count := r\<rparr>)
      else if ch1_access p = 2 then
        (let r = with_msb (ch1_reload p) val in p\<lparr>ch1_reload := r, ch1_count := r\<rparr>)
      else if ch1_lsb_pending p then
        (let r = lsb_msb (ch1_lsb p) val in
         p\<lparr>ch1_reload := r, ch1_count := r, ch1_lsb_pending := False\<rparr>)
      else p\<lparr>ch1_lsb := val, ch1_lsb_pending := True\<rparr>)"

definition write_ch2 :: "pit \<Rightarrow> u8 \<Rightarrow> pit" where
  "write_ch2 p val =
     (if ch2_access p = 1 then
        (let r = with_lsb (ch2_reload p) val in p\<lparr>ch2_reload := r, ch2_count := r, ch2_out := False\<rparr>)
      else if ch2_access p = 2 then
        (let r = with_msb (ch2_reload p) val in p\<lparr>ch2_reload := r, ch2_count := r, ch2_out := False\<rparr>)
      else if ch2_lsb_pending p then
        (let r = lsb_msb (ch2_lsb p) val in
         p\<lparr>ch2_reload := r, ch2_count := r, ch2_lsb_pending := False, ch2_out := False\<rparr>)
      else p\<lparr>ch2_lsb := val, ch2_lsb_pending := True\<rparr>)"

definition pit_write_data :: "pit \<Rightarrow> u8 \<Rightarrow> pit" where
  "pit_write_data p val =
     (if active_channel p = 0 then write_ch0 p val
      else if active_channel p = 1 then write_ch1 p val
      else write_ch2 p val)"

definition read_port61 :: "pit \<Rightarrow> u8 \<times> pit" where
  "read_port61 p0 =
     (let p = p0\<lparr>refresh_toggle := \<not> refresh_toggle p0\<rparr> in
      (bool_to (ch2_gate p) OR push_bit 1 (bool_to (speaker_on p))
         OR push_bit 4 (bool_to (refresh_toggle p)) OR push_bit 5 (bool_to (ch2_out p)), p))"

definition write_port61 :: "pit \<Rightarrow> u8 \<Rightarrow> pit" where
  "write_port61 p val = p\<lparr>ch2_gate := (val AND 1 \<noteq> 0), speaker_on := (val AND 2 \<noteq> 0)\<rparr>"

section \<open>Reads\<close>

definition chan_count :: "pit \<Rightarrow> u8 \<Rightarrow> u16" where
  "chan_count p port = (if port = 0 then ch0_count p else if port = 1 then ch1_count p else ch2_count p)"

definition chan_pending :: "pit \<Rightarrow> u8 \<Rightarrow> bool" where
  "chan_pending p port =
     (if port = 0 then ch0_lsb_pending p else if port = 1 then ch1_lsb_pending p else ch2_lsb_pending p)"

definition chan_access :: "pit \<Rightarrow> u8 \<Rightarrow> u8" where
  "chan_access p port =
     (if port = 0 then ch0_access p else if port = 1 then ch1_access p else ch2_access p)"

definition pit_read_data :: "pit \<Rightarrow> u8 \<Rightarrow> u8 \<times> pit" where
  "pit_read_data p port =
     (let c = chan_count p port in
      if chan_access p port = 1 then (ucast (c AND 0xFF), p)
      else if chan_access p port = 2 then (ucast (drop_bit 8 c), p)
      else if \<not> chan_pending p port then
        (let lo = ucast (c AND 0xFF) in
         (lo, if port = 0 then p\<lparr>ch0_lsb := lo, ch0_lsb_pending := True\<rparr>
              else if port = 1 then p\<lparr>ch1_lsb := lo, ch1_lsb_pending := True\<rparr>
              else p\<lparr>ch2_lsb := lo, ch2_lsb_pending := True\<rparr>))
      else
        (ucast (drop_bit 8 c),
         if port = 0 then p\<lparr>ch0_lsb_pending := False\<rparr>
         else if port = 1 then p\<lparr>ch1_lsb_pending := False\<rparr>
         else p\<lparr>ch2_lsb_pending := False\<rparr>))"

section \<open>The tick\<close>

definition tick_ch0 :: "pit \<Rightarrow> u64 \<Rightarrow> pit" where
  "tick_ch0 p cycles =
     (if ch0_count p > 0 then
        (let c = ucast (ch0_count p) :: u64 in
         if c \<le> cycles then p\<lparr>ch0_count := ch0_reload p, pit_irq0 := True\<rparr>
         else p\<lparr>ch0_count := ucast (c - cycles)\<rparr>)
      else p)"

definition saturating_sub16 :: "u16 \<Rightarrow> u16 \<Rightarrow> u16" where
  "saturating_sub16 a b = (if b \<le> a then a - b else 0)"

definition tick_ch1 :: "pit \<Rightarrow> u64 \<Rightarrow> pit" where
  "tick_ch1 p cycles =
     (if ch1_count p > 0 then
        (let c = saturating_sub16 (ch1_count p) (ucast cycles) in
         p\<lparr>ch1_count := (if c = 0 then ch1_reload p else c)\<rparr>)
      else p)"

definition tick_ch2 :: "pit \<Rightarrow> u64 \<Rightarrow> pit" where
  "tick_ch2 p cycles =
     (if ch2_gate p \<and> \<not> ch2_out p then
        (let c = ucast (ch2_count p) :: u64 in
         if c \<le> cycles then p\<lparr>ch2_count := 0, ch2_out := True\<rparr>
         else p\<lparr>ch2_count := ucast (c - cycles)\<rparr>)
      else p)"

definition pit_tick :: "pit \<Rightarrow> u64 \<Rightarrow> pit" where
  "pit_tick p cycles = tick_ch2 (tick_ch1 (tick_ch0 p cycles) cycles) cycles"

section \<open>Channels are independent\<close>

lemma tick_frame [frame_simps]:
  "ch0_count (pit_tick p n) = ch0_count (tick_ch0 p n)" "pit_irq0 (pit_tick p n) = pit_irq0 (tick_ch0 p n)"
  "ch0_reload (pit_tick p n) = ch0_reload p"
  "ch2_count (pit_tick p n) = ch2_count (tick_ch2 p n)" "ch2_out (pit_tick p n) = ch2_out (tick_ch2 p n)"
  "ch2_gate (pit_tick p n) = ch2_gate p" "ch2_reload (pit_tick p n) = ch2_reload p"
  by (auto simp: pit_tick_def tick_ch0_def tick_ch1_def tick_ch2_def Let_def)

lemma ucast16_minus:
  assumes "unat n < unat (c :: u16)"
  shows "unat (ucast (ucast c - n :: u64) :: u16) = unat c - unat n"
proof -
  have u: "unat (ucast c :: u64) = unat c" by (simp add: unat_ucast_wide)
  have "unat (ucast c - n :: u64) = unat c - unat n"
    using assms by (subst unat_sub) (simp_all add: word_le_nat_alt u)
  moreover have "unat c < 2 ^ LENGTH(16)" by (rule unsigned_less)
  then have "unat c - unat n < 2 ^ LENGTH(16)" by simp
  ultimately show ?thesis by (simp add: unsigned_ucast_eq take_bit_eq_mod)
qed

lemma ucast16_le: "(ucast (c :: u16) :: u64) \<le> n \<longleftrightarrow> unat c \<le> unat n"
  by (simp add: word_le_nat_alt unat_ucast_wide)

lemma tick_ch0_count:
  "unat (ch0_count (tick_ch0 p n)) =
    (if unat (ch0_count p) = 0 then 0
     else if unat (ch0_count p) \<le> unat n then unat (ch0_reload p)
     else unat (ch0_count p) - unat n)"
  by (auto simp: tick_ch0_def Let_def ucast16_minus ucast16_le word_less_nat_alt)

lemma tick_ch0_irq:
  "pit_irq0 (tick_ch0 p n) \<longleftrightarrow>
    pit_irq0 p \<or> 0 < unat (ch0_count p) \<and> unat (ch0_count p) \<le> unat n"
  by (auto simp: tick_ch0_def Let_def ucast16_le word_less_nat_alt)

lemma tick_ch2_out:
  "ch2_out (tick_ch2 p n) \<longleftrightarrow> ch2_out p \<or> ch2_gate p \<and> unat (ch2_count p) \<le> unat n"
  by (auto simp: tick_ch2_def Let_def ucast16_le)

lemma tick_ch2_count:
  "ch2_gate p \<Longrightarrow> \<not> ch2_out p \<Longrightarrow>
    unat (ch2_count (tick_ch2 p n)) = unat (ch2_count p) - unat n"
  by (auto simp: tick_ch2_def Let_def ucast16_minus ucast16_le)

section \<open>Periods\<close>

lemma countdown:
  assumes "unat (ch0_count p) = c" "k < c"
  shows "unat (ch0_count (((\<lambda>p. pit_tick p 1) ^^ k) p)) = c - k \<and>
    pit_irq0 (((\<lambda>p. pit_tick p 1) ^^ k) p) = pit_irq0 p \<and>
    ch0_reload (((\<lambda>p. pit_tick p 1) ^^ k) p) = ch0_reload p"
  using assms(2)
proof (induction k)
  case 0
  then show ?case using assms(1) by simp
next
  case (Suc k)
  then show ?case by (auto simp: frame_simps tick_ch0_count tick_ch0_irq)
qed


definition pit_programmed :: "u8 \<Rightarrow> u8 \<Rightarrow> pit" where
  "pit_programmed lo hi = pit_write_data (pit_write_data (pit_write_control pit_new 0x34) lo) hi"


text \<open>Channel 2 is a one-shot while its gate is high: loaded with c, its OUT line is low for
  the first c - 1 ticks, high after c, and stays high however long the timer keeps ticking; while
  the gate is low it does not count.\<close>

theorem channel2_one_shot:
  assumes "unat (ch2_count p) = c" "0 < c" "\<not> ch2_out p"
  shows "(ch2_gate p \<longrightarrow> (\<forall>k. ch2_out (((\<lambda>p. pit_tick p 1) ^^ k) p) \<longleftrightarrow> c \<le> k)) \<and>
    (\<not> ch2_gate p \<longrightarrow> (\<forall>k. unat (ch2_count (((\<lambda>p. pit_tick p 1) ^^ k) p)) = c \<and>
        \<not> ch2_out (((\<lambda>p. pit_tick p 1) ^^ k) p)))"
proof (intro conjI impI allI)
  fix k
  assume g: "ch2_gate p"
  have "ch2_gate (((\<lambda>p. pit_tick p 1) ^^ k) p) \<and>
    (if k < c then \<not> ch2_out (((\<lambda>p. pit_tick p 1) ^^ k) p) \<and>
        unat (ch2_count (((\<lambda>p. pit_tick p 1) ^^ k) p)) = c - k
     else ch2_out (((\<lambda>p. pit_tick p 1) ^^ k) p))"
  proof (induction k)
    case 0
    then show ?case using assms g by simp
  next
    case (Suc k)
    then show ?case by (auto simp: frame_simps tick_ch2_out tick_ch2_count split: if_splits)
  qed
  then show "ch2_out (((\<lambda>p. pit_tick p 1) ^^ k) p) \<longleftrightarrow> c \<le> k" by (auto split: if_splits)
next
  fix k
  assume g: "\<not> ch2_gate p"
  have "\<not> ch2_gate (((\<lambda>p. pit_tick p 1) ^^ k) p) \<and> \<not> ch2_out (((\<lambda>p. pit_tick p 1) ^^ k) p) \<and>
    unat (ch2_count (((\<lambda>p. pit_tick p 1) ^^ k) p)) = c"
    using assms g by (induction k) (auto simp: frame_simps tick_ch2_out, simp add: tick_ch2_def)
  then show "unat (ch2_count (((\<lambda>p. pit_tick p 1) ^^ k) p)) = c"
    "\<not> ch2_out (((\<lambda>p. pit_tick p 1) ^^ k) p)" by simp_all
qed

theorem channel2_one_shot_witness:
  "ch2_out (((\<lambda>p. pit_tick p 1) ^^ 5) (pit_new\<lparr>ch2_count := 5, ch2_gate := True\<rparr>)) \<and>
   \<not> ch2_out (((\<lambda>p. pit_tick p 1) ^^ 4) (pit_new\<lparr>ch2_count := 5, ch2_gate := True\<rparr>))"
proof -
  have "unat (ch2_count (pit_new\<lparr>ch2_count := 5, ch2_gate := True\<rparr>)) = 5"
    "\<not> ch2_out (pit_new\<lparr>ch2_count := 5, ch2_gate := True\<rparr>)" by (simp_all add: pit_new_def)
  then show ?thesis
    using channel2_one_shot [of "pit_new\<lparr>ch2_count := 5, ch2_gate := True\<rparr>" 5] by simp
qed

section \<open>The data port\<close>

lemma lsb_msb_unat: "unat (lsb_msb lo hi) = unat lo + 256 * unat hi"
proof -
  have "(ucast lo :: u16) AND push_bit 8 (ucast hi) = 0"
    by (rule bit_word_eqI) (auto simp: bit_simps dest: bit_imp_le_length)
  then have "lsb_msb lo hi = ucast lo + push_bit 8 (ucast hi)"
    unfolding lsb_msb_def by (metis add.right_neutral add.commute word_plus_and_or)
  moreover have "unat (push_bit 8 (ucast hi) :: u16) = 256 * unat hi"
    using unat_lt8 [of hi] by (simp add: push_bit_eq_mult unat_word_ariths unat_ucast_wide)
  moreover have "unat lo < 256" "unat hi < 256" by (rule unat_lt8)+
  ultimately show ?thesis by (simp add: unat_ucast_wide unat_word_ariths)
qed

text \<open>Programming channel 0 in LSB-then-MSB mode loads the little-endian count exactly when
  the second byte arrives, and two reads of the channel's port (with no tick between them) return
  the count's low and then its high byte.\<close>

theorem channel0_word_access:
  assumes "ch0_access p = 3" "active_channel p = 0" "\<not> ch0_lsb_pending p"
  shows "ch0_count (pit_write_data p lo) = ch0_count p \<and>
    unat (ch0_count (pit_write_data (pit_write_data p lo) hi)) = unat lo + 256 * unat hi \<and>
    (let (a, q) = pit_read_data (pit_write_data (pit_write_data p lo) hi) 0;
         (b, r) = pit_read_data q 0
     in a = lo \<and> b = hi \<and> \<not> ch0_lsb_pending r)"
proof -
  have b: "(ucast (lsb_msb lo hi AND 0xFF) :: u8) = lo" "(ucast (drop_bit 8 (lsb_msb lo hi)) :: u8) = hi"
  proof -
    have m: "(0xFF :: u16) = mask 8" by (simp add: mask_eq_exp_minus_1)
    show "(ucast (lsb_msb lo hi AND 0xFF) :: u8) = lo" "(ucast (drop_bit 8 (lsb_msb lo hi)) :: u8) = hi"
      unfolding m lsb_msb_def by (rule bit_word_eqI, auto simp: bit_simps dest: bit_imp_le_length)+
  qed
  show ?thesis
    using assms b by (simp add: pit_write_data_def write_ch0_def pit_read_data_def chan_count_def
        chan_access_def chan_pending_def lsb_msb_unat Let_def)
qed

theorem channel0_word_access_witness:
  "unat (ch0_count (pit_write_data (pit_write_data pit_new 0x9C) 0x2E)) = 0x9C + 256 * 0x2E"
  using channel0_word_access [of pit_new "0x9C" "0x2E"] by (simp add: pit_new_def)

section \<open>Where the data port goes\<close>

text \<open>
  \<open>port_out\<close> sends every data byte of ports 0x40-0x42 to \<open>pit_write_data\<close>
  without the port: it reaches the channel of the last control word. A counter
  latch command for channel 2 (access mode 0) is such a control word, so the
  next byte meant for channel 0 is taken by channel 2.
\<close>

lemma latch_redirects_writes:
  defines "p \<equiv> pit_write_control (pit_write_control pit_new 0x34) 0x80"
  shows "ch0_lsb_pending (pit_write_data p 0x12) = False" "ch2_lsb_pending (pit_write_data p 0x12)"
  by (simp_all add: p_def pit_write_control_def pit_new_def pit_write_data_def write_ch2_def Let_def)

end
