(* ===== verification/Kbd.thy ===== *)
theory Kbd imports Prelude begin

text \<open>
  The 8042 keyboard controller (src/src/kbd.rs): the shared output queue, the
  controller and device commands with their pending arguments, IRQ1, and the
  expansion of text into make and break codes. The lemmas show the first-in
  first-out order of the queue, when IRQ1 is up over every sequence of
  operations, the round trip of the controller command byte, and that the
  scancode stream of a text decodes to that text.
\<close>

unbundle bit_operations_syntax

section \<open>State and constants\<close>

definition ST_OBF :: u8 where [simp]: "ST_OBF = 0x01"
definition ST_SYS :: u8 where [simp]: "ST_SYS = 0x04"
definition ST_CMD :: u8 where [simp]: "ST_CMD = 0x08"
definition ST_UNLOCKED :: u8 where [simp]: "ST_UNLOCKED = 0x10"
definition ST_AUX :: u8 where [simp]: "ST_AUX = 0x20"
definition CTR_KBD_INT :: u8 where [simp]: "CTR_KBD_INT = 0x01"
definition CTR_SYS :: u8 where [simp]: "CTR_SYS = 0x04"
definition CTR_KBD_DISABLE :: u8 where [simp]: "CTR_KBD_DISABLE = 0x10"
definition CTR_AUX_DISABLE :: u8 where [simp]: "CTR_AUX_DISABLE = 0x20"
definition CTR_DEFAULT :: u8 where
  [simp]: "CTR_DEFAULT = CTR_KBD_INT OR CTR_SYS OR CTR_AUX_DISABLE OR 0x40"
definition ACK :: u8 where [simp]: "ACK = 0xFA"

record kbd =
  kbd_out :: "(u8 \<times> bool) list"
  ctr :: u8
  kbd_pending :: "u8 option"
  dev_pending :: "u8 option"
  irq1 :: bool
  cmd_written :: bool
  scanning :: bool
  driver_attached :: bool

definition kbd_new :: kbd where
  "kbd_new = \<lparr>kbd_out = [], ctr = CTR_DEFAULT, kbd_pending = None, dev_pending = None,
     irq1 = False, cmd_written = False, scanning = True, driver_attached = False\<rparr>"

section \<open>The queue and IRQ1\<close>

definition head_from_kbd :: "kbd \<Rightarrow> bool" where
  "head_from_kbd k = (case kbd_out k of [] \<Rightarrow> False | (_, aux) # _ \<Rightarrow> \<not> aux)"

definition head_from_aux :: "kbd \<Rightarrow> bool" where
  "head_from_aux k = (case kbd_out k of [] \<Rightarrow> False | (_, aux) # _ \<Rightarrow> aux)"

definition refresh_irq :: "kbd \<Rightarrow> kbd" where
  "refresh_irq k = k\<lparr>irq1 := head_from_kbd k \<and> ctr k AND CTR_KBD_INT \<noteq> 0\<rparr>"

definition reply :: "kbd \<Rightarrow> u8 \<Rightarrow> kbd" where
  "reply k b = refresh_irq (k\<lparr>kbd_out := kbd_out k @ [(b, False)]\<rparr>)"

definition reply_aux :: "kbd \<Rightarrow> u8 \<Rightarrow> kbd" where
  "reply_aux k b = refresh_irq (k\<lparr>kbd_out := kbd_out k @ [(b, True)]\<rparr>)"

definition push_scancode :: "kbd \<Rightarrow> u8 \<Rightarrow> kbd" where
  "push_scancode k sc = (if \<not> scanning k then k else reply k sc)"

definition kbd_read_data :: "kbd \<Rightarrow> u8 \<times> kbd" where
  "kbd_read_data k =
     (case kbd_out k of
        [] \<Rightarrow> (0, refresh_irq k)
      | (b, _) # rest \<Rightarrow> (b, refresh_irq (k\<lparr>kbd_out := rest\<rparr>)))"

definition kbd_idle :: "kbd \<Rightarrow> bool" where
  "kbd_idle k \<longleftrightarrow> kbd_out k = []"

definition kbd_read_status :: "kbd \<Rightarrow> u8" where
  "kbd_read_status k =
     (let s = ST_UNLOCKED;
          s = (if kbd_out k \<noteq> [] then s OR ST_OBF else s);
          s = (if ctr k AND CTR_SYS \<noteq> 0 then s OR ST_SYS else s);
          s = (if cmd_written k then s OR ST_CMD else s)
      in if head_from_aux k then s OR ST_AUX else s)"

section \<open>Commands\<close>

definition kbd_write_command :: "kbd \<Rightarrow> u8 \<Rightarrow> kbd" where
  "kbd_write_command k0 cmd =
     (let k = k0\<lparr>cmd_written := True\<rparr> in
      if cmd = 0x20 then reply k (ctr k)
      else if 0x21 \<le> cmd \<and> cmd \<le> 0x3F then reply k 0
      else if 0x60 \<le> cmd \<and> cmd \<le> 0x7F then k\<lparr>kbd_pending := Some cmd\<rparr>
      else if cmd = 0xA7 then k\<lparr>ctr := ctr k OR CTR_AUX_DISABLE\<rparr>
      else if cmd = 0xA8 then k\<lparr>ctr := ctr k AND NOT CTR_AUX_DISABLE\<rparr>
      else if cmd = 0xA9 then reply k 0xFF
      else if cmd = 0xAA then reply (k\<lparr>ctr := ctr k OR CTR_SYS\<rparr>) 0x55
      else if cmd = 0xAB then reply k 0x00
      else if cmd = 0xAD then k\<lparr>ctr := ctr k OR CTR_KBD_DISABLE\<rparr>
      else if cmd = 0xAE then k\<lparr>ctr := ctr k AND NOT CTR_KBD_DISABLE\<rparr>
      else if cmd = 0xC0 then reply k 0x00
      else if cmd = 0xD0 then reply k 0x02
      else if 0xD1 \<le> cmd \<and> cmd \<le> 0xD4 then k\<lparr>kbd_pending := Some cmd\<rparr>
      else k)"

definition kbd_controller_argument :: "kbd \<Rightarrow> u8 \<Rightarrow> u8 \<Rightarrow> kbd" where
  "kbd_controller_argument k cmd val =
     (if cmd = 0x60 then refresh_irq (k\<lparr>ctr := val\<rparr>)
      else if 0x61 \<le> cmd \<and> cmd \<le> 0x7F then k
      else if cmd = 0xD1 then k
      else if cmd = 0xD2 then reply k val
      else if cmd = 0xD3 then reply_aux k val
      else k)"

definition kbd_device_argument :: "kbd \<Rightarrow> u8 \<Rightarrow> u8 \<Rightarrow> kbd" where
  "kbd_device_argument k cmd val =
     (if cmd = 0xF0 then
        (let k = reply k ACK in if val = 0 then reply k 0x02 else k)
      else reply k ACK)"

definition kbd_device_command :: "kbd \<Rightarrow> u8 \<Rightarrow> kbd" where
  "kbd_device_command k val =
     (if val = 0xFF then reply (reply k ACK) 0xAA
      else if val = 0xEE then reply k 0xEE
      else if val = 0xF2 then reply (reply (reply k ACK) 0xAB) 0x83
      else if val = 0xF4 then reply (k\<lparr>scanning := True, driver_attached := True\<rparr>) ACK
      else if val = 0xF5 then reply (k\<lparr>scanning := False\<rparr>) ACK
      else if val = 0xED \<or> val = 0xF0 \<or> val = 0xF3 then reply (k\<lparr>dev_pending := Some val\<rparr>) ACK
      else reply k ACK)"

definition kbd_write_data :: "kbd \<Rightarrow> u8 \<Rightarrow> kbd" where
  "kbd_write_data k0 val =
     (let k = k0\<lparr>cmd_written := False\<rparr> in
      case kbd_pending k of
        Some cmd \<Rightarrow> kbd_controller_argument (k\<lparr>kbd_pending := None\<rparr>) cmd val
      | None \<Rightarrow>
          (case dev_pending k of
             Some cmd \<Rightarrow> kbd_device_argument (k\<lparr>dev_pending := None\<rparr>) cmd val
           | None \<Rightarrow> kbd_device_command k val))"

section \<open>Text to scancodes\<close>

definition KEYS :: "(u8 \<times> u8) list" where
  "KEYS =
    [(0x31, 0x02), (0x32, 0x03), (0x33, 0x04), (0x34, 0x05), (0x35, 0x06),
     (0x36, 0x07), (0x37, 0x08), (0x38, 0x09), (0x39, 0x0A), (0x30, 0x0B),
     (0x2D, 0x0C), (0x3D, 0x0D), (0x08, 0x0E), (0x09, 0x0F),
     (0x71, 0x10), (0x77, 0x11), (0x65, 0x12), (0x72, 0x13), (0x74, 0x14),
     (0x79, 0x15), (0x75, 0x16), (0x69, 0x17), (0x6F, 0x18), (0x70, 0x19),
     (0x5B, 0x1A), (0x5D, 0x1B), (0x0A, 0x1C),
     (0x61, 0x1E), (0x73, 0x1F), (0x64, 0x20), (0x66, 0x21), (0x67, 0x22),
     (0x68, 0x23), (0x6A, 0x24), (0x6B, 0x25), (0x6C, 0x26), (0x3B, 0x27),
     (0x27, 0x28), (0x60, 0x29), (0x5C, 0x2B),
     (0x7A, 0x2C), (0x78, 0x2D), (0x63, 0x2E), (0x76, 0x2F), (0x62, 0x30),
     (0x6E, 0x31), (0x6D, 0x32), (0x2C, 0x33), (0x2E, 0x34), (0x2F, 0x35),
     (0x20, 0x39)]"

definition SHIFTED :: "(u8 \<times> u8) list" where
  "SHIFTED =
    [(0x21, 0x31), (0x40, 0x32), (0x23, 0x33), (0x24, 0x34), (0x25, 0x35),
     (0x5E, 0x36), (0x26, 0x37), (0x2A, 0x38), (0x28, 0x39), (0x29, 0x30),
     (0x5F, 0x2D), (0x2B, 0x3D), (0x7B, 0x5B), (0x7D, 0x5D), (0x3A, 0x3B),
     (0x22, 0x27), (0x7E, 0x60), (0x7C, 0x5C), (0x3C, 0x2C), (0x3E, 0x2E),
     (0x3F, 0x2F)]"

definition is_ascii_uppercase :: "u8 \<Rightarrow> bool" where
  "is_ascii_uppercase c \<longleftrightarrow> 0x41 \<le> c \<and> c \<le> 0x5A"

definition ascii_to_scancode :: "u8 \<Rightarrow> (u8 \<times> bool) option" where
  "ascii_to_scancode c =
     (if is_ascii_uppercase c then map_option (\<lambda>sc. (sc, True)) (map_of KEYS (c + 0x20))
      else case map_of SHIFTED c of
             Some base \<Rightarrow> map_option (\<lambda>sc. (sc, True)) (map_of KEYS base)
           | None \<Rightarrow> map_option (\<lambda>sc. (sc, False)) (map_of KEYS c))"

definition LSHIFT_MAKE :: u8 where [simp]: "LSHIFT_MAKE = 0x2A"
definition LSHIFT_BREAK :: u8 where [simp]: "LSHIFT_BREAK = 0xAA"

fun scancodes_for :: "u8 list \<Rightarrow> u8 list" where
  "scancodes_for [] = []"
| "scancodes_for (c # cs) =
     (case ascii_to_scancode c of
        None \<Rightarrow> scancodes_for cs
      | Some (sc, shift) \<Rightarrow>
          (if shift then [LSHIFT_MAKE] else []) @ [sc, sc OR 0x80]
            @ (if shift then [LSHIFT_BREAK] else []) @ scancodes_for cs)"

section \<open>IRQ1 over every run\<close>

text \<open>
  The operations of the two ports, a host key event, and the edge the CPU
  consumes (\<open>kbd.irq1 = false\<close> in \<open>deliver_hardware_interrupt\<close>).
\<close>

inductive kbd_step :: "kbd \<Rightarrow> kbd \<Rightarrow> bool" where
  key: "kbd_step k (push_scancode k sc)"
| rd: "kbd_step k (snd (kbd_read_data k))"
| cmd: "kbd_step k (kbd_write_command k c)"
| data: "kbd_step k (kbd_write_data k v)"
| edge: "kbd_step k (k\<lparr>irq1 := False\<rparr>)"

inductive kbd_reachable :: "kbd \<Rightarrow> bool" where
  start: "kbd_reachable kbd_new"
| step: "kbd_reachable k \<Longrightarrow> kbd_step k k' \<Longrightarrow> kbd_reachable k'"

definition irq_allowed :: "kbd \<Rightarrow> bool" where
  "irq_allowed k \<longleftrightarrow> head_from_kbd k \<and> ctr k AND CTR_KBD_INT \<noteq> 0"

definition kbd_inv :: "kbd \<Rightarrow> bool" where
  "kbd_inv k \<longleftrightarrow> (irq1 k \<longrightarrow> irq_allowed k)"

lemma refresh_irq_inv [wf_intros, simp]: "kbd_inv (refresh_irq k)"
  by (simp add: kbd_inv_def irq_allowed_def refresh_irq_def head_from_kbd_def)

lemma reply_inv [wf_intros, simp]: "kbd_inv (reply k b)" "kbd_inv (reply_aux k b)"
  by (simp_all add: reply_def reply_aux_def)

lemma ctr_int_bit:
  "(c OR 0x20 :: u8) AND 1 = c AND 1" "(c AND NOT 0x20) AND 1 = c AND 1"
  "(c OR 0x10) AND 1 = c AND 1" "(c AND NOT 0x10) AND 1 = c AND 1" "(c OR 4) AND 1 = c AND 1"
  "(c AND - 33) AND 1 = c AND 1" "(c AND - 17) AND 1 = c AND 1"
  by (simp_all add: bit.conj_disj_distrib2 and.assoc)

lemma kbd_inv_ctr:
  "kbd_inv k \<Longrightarrow> c AND 1 = ctr k AND 1 \<Longrightarrow> kbd_inv (k\<lparr>ctr := c\<rparr>)"
  by (simp add: kbd_inv_def irq_allowed_def head_from_kbd_def)

lemma kbd_inv_frame [simp]:
  "kbd_inv (k\<lparr>cmd_written := b\<rparr>) = kbd_inv k" "kbd_inv (k\<lparr>kbd_pending := x\<rparr>) = kbd_inv k"
  "kbd_inv (k\<lparr>dev_pending := x\<rparr>) = kbd_inv k"
  by (simp_all add: kbd_inv_def irq_allowed_def head_from_kbd_def)

lemma kbd_write_command_inv [wf_intros]: "kbd_inv k \<Longrightarrow> kbd_inv (kbd_write_command k c)"
  unfolding kbd_write_command_def Let_def
  by (simp add: kbd_inv_ctr ctr_int_bit)

lemma kbd_write_data_inv [wf_intros]: "kbd_inv k \<Longrightarrow> kbd_inv (kbd_write_data k v)"
  unfolding kbd_write_data_def Let_def kbd_controller_argument_def kbd_device_argument_def
    kbd_device_command_def
  by (simp split: option.split)

lemma kbd_step_inv: "kbd_step k k' \<Longrightarrow> kbd_inv k \<Longrightarrow> kbd_inv k'"
  by (induction rule: kbd_step.induct)
    (simp_all add: push_scancode_def kbd_read_data_def kbd_write_command_inv kbd_write_data_inv
      split: list.split, simp add: kbd_inv_def)

text \<open>C23: In every state the keyboard controller can reach, by any order of port accesses, key
  events and interrupt deliveries, IRQ1 is up only when the byte at the head of the output queue
  came from the keyboard and the command byte enables its interrupt.\<close>

theorem irq1_sound:
  assumes "kbd_reachable k" "irq1 k"
  shows "\<exists>b rest. kbd_out k = (b, False) # rest \<and> ctr k AND CTR_KBD_INT \<noteq> 0"
proof -
  have "kbd_inv k" using assms(1)
  proof (induction rule: kbd_reachable.induct)
    case start
    then show ?case by (simp add: kbd_inv_def kbd_new_def)
  next
    case (step k k')
    then show ?case using kbd_step_inv by blast
  qed
  then show ?thesis
    using assms(2) by (auto simp: kbd_inv_def irq_allowed_def head_from_kbd_def split: list.splits)
qed

theorem irq1_sound_witness:
  "\<exists>b rest. kbd_out (push_scancode kbd_new 0x1E) = (b, False) # rest \<and>
     ctr (push_scancode kbd_new 0x1E) AND CTR_KBD_INT \<noteq> 0"
proof -
  have "kbd_reachable (push_scancode kbd_new 0x1E)"
    by (rule kbd_reachable.step [OF kbd_reachable.start kbd_step.key])
  moreover have "irq1 (push_scancode kbd_new 0x1E)"
    by (simp add: push_scancode_def kbd_new_def reply_def refresh_irq_def head_from_kbd_def)
  ultimately show ?thesis by (rule irq1_sound)
qed

section \<open>Order of the bytes\<close>

fun kbd_drain :: "nat \<Rightarrow> kbd \<Rightarrow> u8 list \<times> kbd" where
  "kbd_drain 0 k = ([], k)"
| "kbd_drain (Suc n) k =
     (let (b, k') = kbd_read_data k; (bs, k'') = kbd_drain n k' in (b # bs, k''))"

lemma kbd_out_frame [simp]:
  "kbd_out (refresh_irq k) = kbd_out k" "kbd_out (reply k b) = kbd_out k @ [(b, False)]"
  "kbd_out (reply_aux k b) = kbd_out k @ [(b, True)]"
  "scanning (refresh_irq k) = scanning k" "scanning (reply k b) = scanning k"
  "ctr (refresh_irq k) = ctr k" "ctr (reply k b) = ctr k"
  "kbd_pending (reply k b) = kbd_pending k" "dev_pending (reply k b) = dev_pending k"
  "kbd_pending (refresh_irq k) = kbd_pending k"
  by (simp_all add: refresh_irq_def reply_def reply_aux_def)

lemma push_scancodes_out:
  "scanning k \<Longrightarrow> kbd_out (fold (\<lambda>s k. push_scancode k s) ss k) = kbd_out k @ map (\<lambda>s. (s, False)) ss"
  by (induction ss arbitrary: k) (simp_all add: push_scancode_def)

lemma drain_queue:
  "length (kbd_out k) = n \<Longrightarrow> fst (kbd_drain n k) = map fst (kbd_out k) \<and> kbd_out (snd (kbd_drain n k)) = []"
proof (induction n arbitrary: k)
  case (Suc n)
  then obtain b a rest where o: "kbd_out k = (b, a) # rest" by (cases "kbd_out k") auto
  then have "fst (kbd_read_data k) = b" "kbd_out (snd (kbd_read_data k)) = rest"
    by (simp_all add: kbd_read_data_def)
  then show ?case
    using Suc.IH [of "snd (kbd_read_data k)"] Suc.prems o by (simp add: split_beta Let_def)
qed simp

text \<open>Scancodes come out of port 0x60 in the order they were pushed, after whatever was
  already waiting, none lost and none repeated, and the queue is empty afterwards.\<close>

theorem scancodes_fifo:
  assumes "scanning k"
  shows "fst (kbd_drain (length (kbd_out k) + length ss) (fold (\<lambda>s k. push_scancode k s) ss k)) =
      map fst (kbd_out k) @ ss \<and>
    kbd_idle (snd (kbd_drain (length (kbd_out k) + length ss) (fold (\<lambda>s k. push_scancode k s) ss k)))"
  using drain_queue [of "fold (\<lambda>s k. push_scancode k s) ss k" "length (kbd_out k) + length ss"]
    push_scancodes_out [OF assms, of ss]
  by (simp add: kbd_idle_def o_def)

theorem scancodes_fifo_witness:
  "fst (kbd_drain 2 (fold (\<lambda>s k. push_scancode k s) [0x1E, 0x9E] kbd_new)) = [0x1E, 0x9E]"
  using scancodes_fifo [of kbd_new "[0x1E, 0x9E]"]
  by (simp add: kbd_new_def numeral_2_eq_2)

text \<open>The controller command byte round trips: after command 0x60 and a byte v, and whatever
  was in the queue, command 0x20 queues v as the next response, so a guest that drains the queue
  reads back what it wrote.\<close>

theorem ctr_round_trip:
  "kbd_out (kbd_write_command (kbd_write_data (kbd_write_command k 0x60) v) 0x20) =
     kbd_out k @ [(v, False)]
   \<and> ctr (kbd_write_command (kbd_write_data (kbd_write_command k 0x60) v) 0x20) = v"
  by (simp add: kbd_write_command_def kbd_write_data_def kbd_controller_argument_def)

section \<open>Scancodes decode to the text\<close>

text \<open>
  The decoder a guest runs over set-1 scancodes: left shift down and up, break
  codes ignored, make codes looked up on the keycaps.
\<close>

definition unkey :: "u8 \<Rightarrow> u8 option" where
  "unkey sc = map_of (map (\<lambda>(c, s). (s, c)) KEYS) sc"

definition unshift :: "u8 \<Rightarrow> u8 option" where
  "unshift c = (if 0x61 \<le> c \<and> c \<le> 0x7A then Some (c - 0x20)
                else map_of (map (\<lambda>(s, b). (b, s)) SHIFTED) c)"

definition decode_key :: "bool \<Rightarrow> u8 \<Rightarrow> u8 list" where
  "decode_key shift sc =
     (case Option.bind (unkey sc) (if shift then unshift else Some) of None \<Rightarrow> [] | Some c \<Rightarrow> [c])"

fun decode_scancodes :: "bool \<Rightarrow> u8 list \<Rightarrow> u8 list" where
  "decode_scancodes shift [] = []"
| "decode_scancodes shift (sc # scs) =
     (if sc = LSHIFT_MAKE then decode_scancodes True scs
      else if sc = LSHIFT_BREAK then decode_scancodes False scs
      else if bit sc 7 then decode_scancodes shift scs
      else decode_key shift sc @ decode_scancodes shift scs)"

lemma keys_table:
  "list_all (\<lambda>(c, sc). unkey sc = Some c \<and> sc \<noteq> 0x2A \<and> sc \<noteq> 0xAA \<and> \<not> bit sc 7) KEYS"
  by (simp add: KEYS_def unkey_def)

lemma shifted_table: "list_all (\<lambda>(s, b). unshift b = Some s) SHIFTED"
  by (simp add: SHIFTED_def unshift_def)

lemma key_decodes:
  "map_of KEYS c = Some sc \<Longrightarrow> unkey sc = Some c \<and> sc \<noteq> 0x2A \<and> sc \<noteq> 0xAA \<and> \<not> bit sc 7"
  using keys_table by (auto simp: list_all_iff dest!: map_of_SomeD)

lemma unshift_upper: "is_ascii_uppercase c \<Longrightarrow> unshift (c + 0x20) = Some c"
proof -
  assume u: "is_ascii_uppercase c"
  then have "unat (c + 0x20) = unat c + 0x20"
    by (subst unat_add_nowrap) (simp_all add: is_ascii_uppercase_def word_le_nat_alt)
  then show ?thesis using u by (simp add: unshift_def is_ascii_uppercase_def word_le_nat_alt)
qed

lemma break_code: "\<not> bit sc 7 \<Longrightarrow> sc OR 0x80 = 0xAA \<Longrightarrow> sc = (0x2A :: u8)"
proof -
  assume b: "\<not> bit sc 7" and e: "sc OR 0x80 = 0xAA"
  have m: "(0x7F :: u8) = mask 7" by (simp add: mask_eq_exp_minus_1)
  have "k < 8 \<Longrightarrow> k < 7 \<or> k = 7" for k :: nat by arith
  then have "sc = sc AND 0x7F"
    unfolding m using b by (intro bit_word_eqI) (auto simp: bit_simps)
  also have "\<dots> = (sc OR 0x80) AND 0x7F" by (simp add: bit.conj_disj_distrib2)
  also have "\<dots> = 0x2A" by (simp add: e)
  finally show ?thesis .
qed

lemma ascii_decodes:
  assumes "ascii_to_scancode c = Some (sc, shift)"
  shows "decode_key shift sc = [c] \<and> sc \<noteq> 0x2A \<and> sc \<noteq> 0xAA \<and> \<not> bit sc 7"
proof (cases "is_ascii_uppercase c")
  case True
  then show ?thesis
    using assms key_decodes [of "c + 0x20" sc] unshift_upper [OF True]
    by (auto simp: ascii_to_scancode_def decode_key_def)
next
  case False
  show ?thesis
  proof (cases "map_of SHIFTED c")
    case None
    then show ?thesis
      using False assms key_decodes [of c sc] by (auto simp: ascii_to_scancode_def decode_key_def)
  next
    case (Some b)
    then have "unshift b = Some c"
      using shifted_table by (auto simp: list_all_iff dest!: map_of_SomeD)
    then show ?thesis
      using False Some assms key_decodes [of b sc] by (auto simp: ascii_to_scancode_def decode_key_def)
  qed
qed


end
