(* ===== verification/Cmos.thy ===== *)
theory Cmos imports Prelude begin

text \<open>
  The MC146818 real-time clock and its configuration RAM (src/src/cmos.rs). The
  host clock and the \<open>X86EMU_EPOCH\<close> variable are arguments. The lemmas show
  that the closed-form calendar conversion is the Gregorian calendar counted
  day by day from 1970-01-01, that what the guest reads in the default format
  is the packed decimal of the current time, and that the update-in-progress
  bit the kernel spins on is never set.
\<close>

unbundle bit_operations_syntax

section \<open>Calendar\<close>

text \<open>Division of Rust's \<open>i64\<close>: it truncates towards zero.\<close>

definition tdiv :: "int \<Rightarrow> int \<Rightarrow> int" where
  "tdiv a b = (if 0 \<le> a then a div b else - ((- a) div b))"

text \<open>
  \<open>civil_from_days\<close>: Rust parses the initializer of \<open>era\<close> as the quotient of
  the whole conditional. The day counts of a \<open>u64\<close> of seconds stay below
  2^48, so no operation overflows an \<open>i64\<close> and the integers are unbounded here.
\<close>

definition civil_from_days :: "int \<Rightarrow> int \<times> int \<times> int" where
  "civil_from_days z0 =
     (let z = z0 + 719468;
          era = tdiv (if 0 \<le> z then z else z - 146096) 146097;
          doe = z - era * 146097;
          yoe = (doe - doe div 1460 + doe div 36524 - doe div 146096) div 365;
          y = yoe + era * 400;
          doy = doe - (365 * yoe + yoe div 4 - yoe div 100);
          mp = (5 * doy + 2) div 153;
          d = doy - (153 * mp + 2) div 5 + 1;
          m = (if mp < 10 then mp + 3 else mp - 9)
      in (if m \<le> 2 then y + 1 else y, m, d))"

definition to_bcd :: "u32 \<Rightarrow> u8" where
  "to_bcd v = ucast (push_bit 4 (v div 10) OR v mod 10)"

section \<open>The device\<close>

definition REG_SECONDS :: u8 where [simp]: "REG_SECONDS = 0x00"
definition REG_MINUTES :: u8 where [simp]: "REG_MINUTES = 0x02"
definition REG_HOURS :: u8 where [simp]: "REG_HOURS = 0x04"
definition REG_WEEKDAY :: u8 where [simp]: "REG_WEEKDAY = 0x06"
definition REG_DAY :: u8 where [simp]: "REG_DAY = 0x07"
definition REG_MONTH :: u8 where [simp]: "REG_MONTH = 0x08"
definition REG_YEAR :: u8 where [simp]: "REG_YEAR = 0x09"
definition REG_STATUS_A :: u8 where [simp]: "REG_STATUS_A = 0x0A"
definition REG_STATUS_B :: u8 where [simp]: "REG_STATUS_B = 0x0B"
definition REG_STATUS_C :: u8 where [simp]: "REG_STATUS_C = 0x0C"
definition REG_STATUS_D :: u8 where [simp]: "REG_STATUS_D = 0x0D"
definition REG_CENTURY :: u8 where [simp]: "REG_CENTURY = 0x32"
definition SB_24HOUR :: u8 where [simp]: "SB_24HOUR = 0x02"
definition SB_BINARY :: u8 where [simp]: "SB_BINARY = 0x04"

record cmos =
  cmos_index :: u8
  cmos_ram :: "u8 \<Rightarrow> u8"
  epoch_secs :: u64
  elapsed_secs :: u64
  nmi_disabled :: bool

definition cmos_defaults :: "u8 \<Rightarrow> u8" where
  "cmos_defaults = (\<lambda>_. 0)(REG_STATUS_B := SB_24HOUR, REG_STATUS_D := 0x80, 0x14 := 0x21)"

definition cmos_blank :: cmos where
  "cmos_blank = \<lparr>cmos_index = 0, cmos_ram = cmos_defaults, epoch_secs = 0, elapsed_secs = 0,
     nmi_disabled = False\<rparr>"

definition cmos_new :: "u64 option \<Rightarrow> u64 option \<Rightarrow> cmos" where
  "cmos_new fixed host =
     (case fixed of
        Some t \<Rightarrow> cmos_blank\<lparr>epoch_secs := t\<rparr>
      | None \<Rightarrow> \<lparr>cmos_index = 0, cmos_ram = cmos_defaults,
           epoch_secs = (case host of Some t \<Rightarrow> t | None \<Rightarrow> 0), elapsed_secs = 0,
           nmi_disabled = False\<rparr>)"

definition tick_second :: "cmos \<Rightarrow> cmos" where
  "tick_second c = c\<lparr>elapsed_secs := elapsed_secs c + 1\<rparr>"

definition cmos_write_index :: "cmos \<Rightarrow> u8 \<Rightarrow> cmos" where
  "cmos_write_index c val = c\<lparr>nmi_disabled := (val AND 0x80 \<noteq> 0), cmos_index := val AND 0x7F\<rparr>"

definition civil_time :: "cmos \<Rightarrow> u32 \<times> u32 \<times> u32 \<times> u32 \<times> u32 \<times> u32 \<times> u32" where
  "civil_time c =
     (let t = epoch_secs c + elapsed_secs c;
          days = int (unat t div 86400);
          rem = of_nat (unat t mod 86400) :: u32;
          (y, mo, d) = civil_from_days days;
          wd = of_int ((days + 4) mod 7)
      in (of_int y, of_int mo, of_int d, rem div 3600, (rem mod 3600) div 60, rem mod 60, wd))"

definition cmos_read_data :: "cmos \<Rightarrow> u8 \<times> cmos" where
  "cmos_read_data c =
     (let (y, mo, d, h, mi, s, wd) = civil_time c;
          bcd = (cmos_ram c REG_STATUS_B AND SB_BINARY = 0);
          enc = (\<lambda>v. if bcd then to_bcd v else ucast v);
          i = cmos_index c
      in if i = REG_SECONDS then (enc s, c)
         else if i = REG_MINUTES then (enc mi, c)
         else if i = REG_HOURS then (enc h, c)
         else if i = REG_WEEKDAY then (enc (wd + 1), c)
         else if i = REG_DAY then (enc d, c)
         else if i = REG_MONTH then (enc mo, c)
         else if i = REG_YEAR then (enc (y mod 100), c)
         else if i = REG_CENTURY then (enc (y div 100), c)
         else if i = REG_STATUS_A then (cmos_ram c REG_STATUS_A AND 0x7F, c)
         else if i = REG_STATUS_C then
           (cmos_ram c REG_STATUS_C, c\<lparr>cmos_ram := (cmos_ram c)(REG_STATUS_C := 0)\<rparr>)
         else (cmos_ram c (i AND 0x7F), c))"

definition cmos_clock_register :: "u8 \<Rightarrow> bool" where
  "cmos_clock_register i \<longleftrightarrow> i = REG_SECONDS \<or> i = REG_MINUTES \<or> i = REG_HOURS \<or> i = REG_WEEKDAY \<or>
     i = REG_DAY \<or> i = REG_MONTH \<or> i = REG_YEAR \<or> i = REG_CENTURY"

definition cmos_write_data :: "cmos \<Rightarrow> u8 \<Rightarrow> cmos" where
  "cmos_write_data c val =
     (if cmos_clock_register (cmos_index c) then c
      else c\<lparr>cmos_ram := (cmos_ram c)(cmos_index c AND 0x7F := val)\<rparr>)"

section \<open>The Gregorian calendar, day by day\<close>

definition leap :: "int \<Rightarrow> bool" where
  "leap y \<longleftrightarrow> 4 dvd y \<and> (\<not> 100 dvd y \<or> 400 dvd y)"

definition month_length :: "int \<Rightarrow> int \<Rightarrow> int" where
  "month_length y m = (if m = 2 then (if leap y then 29 else 28)
     else if m = 4 \<or> m = 6 \<or> m = 9 \<or> m = 11 then 30 else 31)"

fun next_day :: "int \<times> int \<times> int \<Rightarrow> int \<times> int \<times> int" where
  "next_day (y, m, d) =
     (if d < month_length y m then (y, m, d + 1)
      else if m < 12 then (y, m + 1, 1) else (y + 1, 1, 1))"

text \<open>Years that start on 1 March, counted within a 400-year era.\<close>

definition year_start :: "int \<Rightarrow> int" where
  "year_start y = 365 * y + y div 4 - y div 100 + y div 400"

definition year_estimate :: "int \<Rightarrow> int" where
  "year_estimate n = n - n div 1460 + n div 36524 - n div 146096"

lemma div_eqI: "0 < k \<Longrightarrow> k * a \<le> n \<Longrightarrow> n < k * (a + 1) \<Longrightarrow> n div k = (a :: int)"
  by (rule int_div_pos_eq [where r = "n - k * a"]) (simp_all add: algebra_simps)

lemma div_step:
  assumes "0 < (k :: int)"
  shows "(n + 1) div k = n div k + (if (n + 1) mod k = 0 then 1 else 0)"
proof -
  obtain q r where n: "n = k * q + r" "0 \<le> r" "r < k"
    using assms that [of "n div k" "n mod k"] by simp
  have d: "n div k = q" using n assms by (intro div_eqI) (simp_all add: distrib_left)
  show ?thesis
  proof (cases "r + 1 = k")
    case True
    then have e: "n + 1 = k * (q + 1)" using n(1) by (simp add: distrib_left)
    then have "(n + 1) div k = q + 1" "(n + 1) mod k = 0" using assms by simp_all
    then show ?thesis using d by simp
  next
    case False
    then have "(n + 1) div k = q"
      using n assms by (intro div_eqI) (simp_all add: distrib_left)
    moreover have "(n + 1) mod k = r + 1"
      using n False by (simp add: add.assoc)
    ultimately show ?thesis using d n(2) by simp
  qed
qed

lemma year_estimate_step: "year_estimate n \<le> year_estimate (n + 1)"
proof -
  have s: "(n + 1) div k = n div k + (if (n + 1) mod k = 0 then 1 else 0)" if "0 < k" for k
    using that by (rule div_step)
  have d: "(n + 1) mod 36524 = 0" if "(n + 1) mod 146096 = 0"
  proof -
    from that obtain j where "n + 1 = 146096 * j" by auto
    then have "n + 1 = 36524 * (4 * j)" by simp
    then show ?thesis by (metis mod_mult_self1_is_0)
  qed
  have g: "n - a + b - c \<le> n + 1 - a' + b' - c'"
    if "a' = a + (if p then 1 else 0)" "b' = b + (if q then 1 else 0)"
      "c' = c + (if r then 1 else 0)" "r \<Longrightarrow> q" for a a' b b' c c' :: int and p q r
    using that by (cases p; cases q; cases r) auto
  show ?thesis
    unfolding year_estimate_def by (rule g [OF s s s d]) simp_all
qed

lemma year_estimate_mono: "a \<le> b \<Longrightarrow> year_estimate a \<le> year_estimate b"
proof (induction b rule: int_ge_induct)
  case base
  then show ?case by simp
next
  case (step b)
  then show ?case using year_estimate_step [of b] by simp
qed

definition year_check :: "int \<Rightarrow> bool" where
  "year_check y \<longleftrightarrow> 365 * y \<le> year_estimate (year_start y) \<and>
     year_estimate (year_start (y + 1) - 1) < 365 * (y + 1)"

lemma year_checked:
  assumes "0 \<le> y" "y < 400" shows "year_check y"
proof -
  define c q r where "c = y div 100" and "q = y mod 100 div 4" and "r = y mod 4"
  have m: "y mod 100 mod 4 = r" unfolding r_def by (rule mod_mod_cancel) simp
  have "y = 100 * c + (4 * q + r)"
    using mult_div_mod_eq [of 100 y] mult_div_mod_eq [of 4 "y mod 100"] unfolding c_def q_def m by simp
  moreover have "y = 100 * c + y mod 100" "y mod 100 = 4 * q + r"
    using mult_div_mod_eq [of 100 y] mult_div_mod_eq [of 4 "y mod 100"] unfolding c_def q_def m by simp_all
  moreover have "0 \<le> y mod 100" "y mod 100 < 100" "0 \<le> r" "r < 4" unfolding r_def by simp_all
  ultimately have y: "y = 100 * c + 4 * q + r" "0 \<le> q" "q \<le> 24" 
    "0 \<le> c" "c \<le> 3" "0 \<le> r" "r \<le> 3"
    using assms by linarith+
  have s: "year_start y = 36524 * c + 1461 * q + 365 * r"
  proof -
    have "y div 4 = 25 * c + q" "y div 100 = c" "y div 400 = 0"
      by (rule div_eqI; use y assms in \<open>simp add: distrib_left; linarith?\<close>)+
    then show ?thesis using y(1) by (simp add: year_start_def)
  qed
  have e1: "year_start (y + 1) = year_start y + 365" if "r < 3"
  proof -
    have "(y + 1) div 4 = 25 * c + q" "(y + 1) div 100 = c" "(y + 1) div 400 = 0"
      by (rule div_eqI; use y assms that in \<open>simp add: distrib_left; linarith?\<close>)+
    then show ?thesis using y(1) unfolding s by (simp add: year_start_def)
  qed
  have e2: "year_start (y + 1) = year_start y + 366" if "r = 3" "q < 24"
  proof -
    have "(y + 1) div 4 = 25 * c + q + 1" "(y + 1) div 100 = c" "(y + 1) div 400 = 0"
      by (rule div_eqI; use y assms that in \<open>simp add: distrib_left; linarith?\<close>)+
    then show ?thesis using y(1) that unfolding s by (simp add: year_start_def)
  qed
  have f1: "year_estimate (year_start y) = 365 * y"
  proof -
    have "year_start y div 1460 = 25 * c + q" "year_start y div 36524 = c" "year_start y div 146096 = 0"
      unfolding s by (rule div_eqI; use y in \<open>simp add: distrib_left; linarith?\<close>)+
    then show ?thesis using y(1) s by (simp add: year_estimate_def)
  qed
  have f2: "year_estimate (year_start (y + 1) - 1) \<le> 365 * y + 364"
  proof (cases "r < 3")
    case True
    have n: "year_start (y + 1) - 1 = year_start y + 364" using e1 True by simp
    have d: "(year_start y + 364) div 1460 = 25 * c + q" "(year_start y + 364) div 36524 = c"
      "(year_start y + 364) div 146096 = 0"
      unfolding s by (rule div_eqI; use y True in \<open>simp add: distrib_left; linarith?\<close>)+
    show ?thesis unfolding year_estimate_def n d unfolding s using y(1) by simp
  next
    case False
    then have r: "r = 3" using y by linarith
    show ?thesis
    proof (cases "q < 24")
      case True
      have n: "year_start (y + 1) - 1 = year_start y + 365" using e2 True r by simp
      have d: "(year_start y + 365) div 1460 = 25 * c + q + 1" "(year_start y + 365) div 36524 = c"
        "(year_start y + 365) div 146096 = 0"
        unfolding s by (rule div_eqI; use y True r in \<open>simp add: distrib_left; linarith?\<close>)+
      show ?thesis unfolding year_estimate_def n d unfolding s using y(1) r by simp
    next
      case False
      then have q: "q = 24" using y by linarith
      have "c = 0 \<or> c = 1 \<or> c = 2 \<or> c = 3" using y by linarith
      then show ?thesis using y(1) unfolding r q
        by (elim disjE; simp add: year_estimate_def year_start_def)
    qed
  qed
  show ?thesis using f1 f2 unfolding year_check_def by simp
qed

lemma year_of_day:
  assumes "0 \<le> y" "y < 400" "year_start y \<le> n" "n < year_start (y + 1)"
  shows "year_estimate n div 365 = y"
proof -
  have t: "365 * y \<le> year_estimate (year_start y)"
    "year_estimate (year_start (y + 1) - 1) < 365 * (y + 1)"
    using year_checked [OF assms(1,2)] unfolding year_check_def by blast+
  have "year_estimate (year_start y) \<le> year_estimate n"
    "year_estimate n \<le> year_estimate (year_start (y + 1) - 1)"
    using assms(3,4) by (auto intro: year_estimate_mono)
  then have "365 * y \<le> year_estimate n" "year_estimate n < 365 * (y + 1)" using t by linarith+
  then show ?thesis by (intro div_eqI) simp_all
qed

lemma year_exists:
  assumes "0 \<le> n" "n < 146097"
  shows "\<exists>y \<ge> 0. y < 400 \<and> year_start y \<le> n \<and> n < year_start (y + 1)"
proof -
  have e: "n < year_start (int 400)" using assms by (simp add: year_start_def)
  define k where "k = (LEAST k. n < year_start (int k))"
  have k: "n < year_start (int k)" "k \<le> 400" "\<And>j. j < k \<Longrightarrow> \<not> n < year_start (int j)"
    unfolding k_def
      apply (rule LeastI [of "\<lambda>k. n < year_start (int k)", OF e])
     apply (rule Least_le [of "\<lambda>k. n < year_start (int k)", OF e])
    apply (erule not_less_Least)
    done
  then have "k \<noteq> 0" using assms(1) by (intro notI) (simp add: year_start_def)
  then obtain y where y: "k = Suc y" by (cases k) auto
  then have "\<not> n < year_start (int y)" "n < year_start (int y + 1)" "int y < 400"
    using k(1,2) k(3) [of y] by (simp_all add: add.commute)
  then show ?thesis by (intro exI [of _ "int y"]) (simp add: not_less)
qed

text \<open>Days within a March year: month and day of month.\<close>

definition march_md :: "int \<Rightarrow> int \<times> int" where
  "march_md doy =
     (let mp = (5 * doy + 2) div 153 in
      (if mp < 10 then mp + 3 else mp - 9, doy - (153 * mp + 2) div 5 + 1))"

definition march_date :: "int \<Rightarrow> int \<Rightarrow> int \<times> int \<times> int" where
  "march_date y doy = (let (m, d) = march_md doy in (if m \<le> 2 then y + 1 else y, m, d))"

definition common_length :: "int \<Rightarrow> int" where
  "common_length m = (if m = 2 then 29 else if m = 4 \<or> m = 6 \<or> m = 9 \<or> m = 11 then 30 else 31)"

definition march_check :: "int \<Rightarrow> bool" where
  "march_check doy \<longleftrightarrow> (let (m, d) = march_md doy in
      march_md (doy + 1) = (if d < common_length m then (m, d + 1)
        else if m < 12 then (m + 1, 1) else (1, 1)) \<and>
      (m = 2 \<longrightarrow> (d < 28 \<longleftrightarrow> doy < 364)) \<and> (d < common_length m \<or> m \<noteq> 2))"

lemma march_md_month:
  assumes "153 * mp \<le> 5 * doy + 2" "5 * doy + 2 < 153 * mp + 153"
  shows "march_md doy = (if mp < 10 then mp + 3 else mp - 9, doy - (153 * mp + 2) div 5 + 1)"
proof -
  have "(5 * doy + 2) div 153 = mp" using assms by (intro div_eqI) simp_all
  then show ?thesis by (simp add: march_md_def)
qed

lemma march_checked:
  assumes "0 \<le> doy" "doy \<le> 364"
  shows "march_check doy"
proof -
  define mp where "mp = (5 * doy + 2) div 153"
  have b: "153 * mp \<le> 5 * doy + 2" "5 * doy + 2 < 153 * mp + 153"
    using mult_div_mod_eq [of 153 "5 * doy + 2"] pos_mod_bound [of 153 "5 * doy + 2"]
      pos_mod_sign [of 153 "5 * doy + 2"] unfolding mp_def by linarith+
  have "mp = 0 \<or> mp = 1 \<or> mp = 2 \<or> mp = 3 \<or> mp = 4 \<or> mp = 5 \<or> mp = 6 \<or> mp = 7 \<or> mp = 8 \<or>
      mp = 9 \<or> mp = 10 \<or> mp = 11"
  proof -
    have "0 \<le> mp" "mp \<le> 11" using b assms by simp_all
    then show ?thesis by presburger
  qed
  note months = this
  show ?thesis
  proof (cases "5 * doy + 7 < 153 * mp + 153")
    case True
    then have "153 * mp \<le> 5 * (doy + 1) + 2" "5 * (doy + 1) + 2 < 153 * mp + 153" using b by simp_all
    note m = march_md_month [OF b] march_md_month [OF this]
    show ?thesis
      using months True b assms unfolding march_check_def m common_length_def
      by (elim disjE; simp; arith)
  next
    case False
    then have "153 * (mp + 1) \<le> 5 * (doy + 1) + 2" "5 * (doy + 1) + 2 < 153 * (mp + 1) + 153"
      using b by simp_all
    note m = march_md_month [OF b] march_md_month [OF this]
    show ?thesis
      using months False b assms unfolding march_check_def m common_length_def
      by (elim disjE; simp; arith)
  qed
qed

lemma civil_from_days_march:
  assumes y: "0 \<le> y" "y < 400" and d: "year_start y \<le> doe" "doe < year_start (y + 1)"
    and pos: "0 \<le> 146097 * era + doe"
  shows "civil_from_days (146097 * era + doe - 719468) = march_date (400 * era + y) (doe - year_start y)"
proof -
  have b: "0 \<le> doe" "doe < 146097"
  proof -
    have "0 \<le> year_start y" using y(1) by (simp add: year_start_def)
    then show "0 \<le> doe" using d(1) by simp
    have "year_start (y + 1) \<le> 146097"
    proof (cases "y = 399")
      case True
      then show ?thesis by (simp add: year_start_def)
    next
      case False
      then have "(y + 1) div 400 = 0" "(y + 1) div 4 \<le> 99" "0 \<le> (y + 1) div 100" using y by simp_all
      moreover have "365 * (y + 1) + a - b + c \<le> 146097" if "c = 0" "a \<le> 99" "0 \<le> b" for a b c
        using that y False by simp
      ultimately show ?thesis unfolding year_start_def by blast
    qed
    then show "doe < 146097" using d(2) by simp
  qed
  have z: "146097 * era + doe - 719468 + 719468 = 146097 * era + doe" by simp
  have e: "(146097 * era + doe) div 146097 = era" using b by (intro div_eqI) simp_all
  have o: "146097 * era + doe - era * 146097 = doe" by simp
  have ye: "(doe - doe div 1460 + doe div 36524 - doe div 146096) div 365 = y"
    using year_of_day [OF y d] by (simp add: year_estimate_def)
  have s: "365 * y + y div 4 - y div 100 = year_start y"
    using y by (simp add: year_start_def)
  have c: "y + era * 400 = 400 * era + y" by simp
  show ?thesis
    unfolding civil_from_days_def z Let_def tdiv_def if_P [OF pos] e o ye s c
      march_date_def march_md_def split
    by (rule refl)
qed

lemma march_step:
  assumes "0 \<le> doy" "doy < 364 \<or> doy = 364 \<and> leap (y + 1)"
  shows "march_date y (doy + 1) = next_day (march_date y doy)"
proof -
  have "march_check doy" using assms by (intro march_checked) auto
  moreover obtain m d where md: "march_md doy = (m, d)" by (cases "march_md doy")
  ultimately have c: "march_md (doy + 1) = (if d < common_length m then (m, d + 1)
      else if m < 12 then (m + 1, 1) else (1, 1))"
    "m = 2 \<longrightarrow> (d < 28 \<longleftrightarrow> doy < 364)" "d < common_length m \<or> m \<noteq> 2"
    unfolding march_check_def Let_def by simp_all
  have m3: "3 \<le> m \<or> m = 1 \<or> m = 2"
  proof -
    have "0 \<le> (5 * doy + 2) div 153" using assms by (simp add: pos_imp_zdiv_nonneg_iff)
    moreover have "(5 * doy + 2) div 153 \<le> 1822 div 153" using assms by (intro zdiv_mono1) auto
    ultimately have "0 \<le> (5 * doy + 2) div 153" "(5 * doy + 2) div 153 \<le> 11" by simp_all
    then show ?thesis using md by (auto simp: march_md_def Let_def split: if_splits)
  qed
  have len: "d < month_length (if m \<le> 2 then y + 1 else y) m \<longleftrightarrow> d < common_length m"
    using c(2,3) assms by (auto simp: month_length_def common_length_def)
  show ?thesis
    using c m3 len by (auto simp: march_date_def md)
qed

lemma year_length:
  assumes "0 \<le> y" "y < 400"
  shows "year_start (y + 1) = year_start y + (if leap (400 * era + y + 1) then 366 else 365)"
proof -
  have s: "(y + 1) div k = y div k + (if (y + 1) mod k = 0 then 1 else 0)" if "0 < k" for k
    using that by (rule div_step)
  have m: "(k dvd 400 * era + y + 1) = ((y + 1) mod k = 0)" if "k dvd 400" for k :: int
  proof -
    have "k dvd 400 * era" using that by (rule dvd_mult2)
    then have "k dvd 400 * era + (y + 1) \<longleftrightarrow> k dvd y + 1" by (rule dvd_add_right_iff)
    then show ?thesis by (simp only: add.assoc dvd_eq_mod_eq_0)
  qed
  have l: "leap (400 * era + y + 1) \<longleftrightarrow>
      (y + 1) mod 4 = 0 \<and> ((y + 1) mod 100 \<noteq> 0 \<or> (y + 1) mod 400 = 0)"
  proof -
    have k: "(4 :: int) dvd 400" "(100 :: int) dvd 400" "(400 :: int) dvd 400" by simp_all
    show ?thesis unfolding leap_def m [OF k(1)] m [OF k(2)] m [OF k(3)] by blast
  qed
  have d: "(y + 1) mod 100 = 0 \<Longrightarrow> (y + 1) mod 4 = 0" "(y + 1) mod 400 = 0 \<Longrightarrow> (y + 1) mod 100 = 0"
  proof -
    have k: "(4 :: int) dvd 100" "(100 :: int) dvd 400" by simp_all
    show "(y + 1) mod 100 = 0 \<Longrightarrow> (y + 1) mod 4 = 0" "(y + 1) mod 400 = 0 \<Longrightarrow> (y + 1) mod 100 = 0"
      unfolding dvd_eq_mod_eq_0 [symmetric] using dvd_trans [OF k(1)] dvd_trans [OF k(2)] by blast+
  qed
  have g: "365 * (y + 1) + (a + (if p then 1 else 0)) - (b + (if q then 1 else 0)) +
      (c + (if r then 1 else 0)) = 365 * y + a - b + c + (if p \<and> (\<not> q \<or> r) then 366 else 365)"
    if "q \<Longrightarrow> p" "r \<Longrightarrow> q" for a b c :: int and p q r
    using that by (cases p; cases q; cases r) simp_all
  show ?thesis
    unfolding year_start_def l s [OF zero_less_numeral] by (rule g [OF d])
qed

lemma civil_step:
  assumes "0 \<le> z + 719468"
  shows "civil_from_days (z + 1) = next_day (civil_from_days z)"
proof -
  define era doe where "era = (z + 719468) div 146097" and "doe = (z + 719468) mod 146097"
  have z: "z = 146097 * era + doe - 719468" "0 \<le> doe" "doe < 146097" "0 \<le> era"
    using assms by (simp_all add: era_def doe_def pos_imp_zdiv_nonneg_iff)
  obtain y where y: "0 \<le> y" "y < 400" "year_start y \<le> doe" "doe < year_start (y + 1)"
    using year_exists [OF z(2,3)] by blast
  have here: "civil_from_days z = march_date (400 * era + y) (doe - year_start y)"
    unfolding z(1) using z by (intro civil_from_days_march y) simp
  show ?thesis
  proof (cases "doe + 1 < year_start (y + 1)")
    case True
    have "civil_from_days (146097 * era + (doe + 1) - 719468) =
        march_date (400 * era + y) (doe + 1 - year_start y)"
      using y z True by (intro civil_from_days_march) simp_all
    moreover have "march_date (400 * era + y) (doe - year_start y + 1) =
        next_day (march_date (400 * era + y) (doe - year_start y))"
      using y True year_length [OF y(1,2), of era] by (intro march_step) (auto split: if_splits)
    moreover have "z + 1 = 146097 * era + (doe + 1) - 719468" using z(1) by simp
    moreover have "doe + 1 - year_start y = doe - year_start y + 1" by simp
    ultimately show ?thesis unfolding here by metis
  next
    case False
    then have last: "doe + 1 = year_start (y + 1)" using y by simp
    have first: "march_date Y 0 = (Y, 3, 1)" for Y
      by (simp add: march_date_def march_md_def)
    have eoy: "next_day (march_date (400 * era + y) (doe - year_start y)) = (400 * era + y + 1, 3, 1)"
    proof (cases "leap (400 * era + y + 1)")
      case True
      then have "doe - year_start y = 365" using last year_length [OF y(1,2), of era] by simp
      then show ?thesis using True by (simp add: march_date_def march_md_def month_length_def)
    next
      case False
      then have "doe - year_start y = 364" using last year_length [OF y(1,2), of era] by simp
      then show ?thesis using False by (simp add: march_date_def march_md_def month_length_def)
    qed
    have "civil_from_days (z + 1) = march_date (400 * era + y + 1) 0"
    proof (cases "y = 399")
      case True
      then have "doe + 1 = 146097" using last by (simp add: year_start_def)
      then have n: "z + 1 = 146097 * (era + 1) + 0 - 719468" using z(1) by simp
      have "civil_from_days (z + 1) = march_date (400 * (era + 1) + 0) (0 - year_start 0)"
        unfolding n using z(4) by (intro civil_from_days_march) (simp_all add: year_start_def)
      moreover have "400 * (era + 1) + 0 = 400 * era + y + 1" "0 - year_start 0 = 0"
        using True by (simp_all add: year_start_def)
      ultimately show ?thesis by metis
    next
      case False
      then have "year_start (y + 1) < year_start (y + 1 + 1)"
        using y year_length [of "y + 1" 0] by (auto split: if_splits)
      then have "civil_from_days (146097 * era + (doe + 1) - 719468) =
          march_date (400 * era + (y + 1)) (doe + 1 - year_start (y + 1))"
        using y z False last by (intro civil_from_days_march) simp_all
      moreover have "z + 1 = 146097 * era + (doe + 1) - 719468" using z(1) by simp
      moreover have "400 * era + (y + 1) = 400 * era + y + 1" by simp
      moreover have "doe + 1 - year_start (y + 1) = 0" using last by simp
      ultimately show ?thesis by metis
    qed
    then show ?thesis using eoy here first by simp
  qed
qed

text \<open>C25: The closed-form conversion of a day number to a date is the proleptic Gregorian calendar
  counted day by day: day n after 1970-01-01 is the n-fold successor of that date under the month
  lengths and the 4/100/400 leap-year rule.\<close>

theorem civil_from_days_gregorian:
  "civil_from_days (int n) = (next_day ^^ n) (1970, 1, 1)"
proof (induction n)
  case 0
  have "civil_from_days 0 = (1970, 1, 1)" using civil_from_days_march [of 369 135080 4]
    by (simp add: year_start_def march_date_def march_md_def)
  then show ?case by simp
next
  case (Suc n)
  have "int (Suc n) = int n + 1" by simp
  then show ?case using civil_step [of "int n"] Suc.IH
    by (simp only: funpow.simps o_apply)
qed

section \<open>What the guest reads\<close>

definition from_bcd :: "u8 \<Rightarrow> nat" where
  "from_bcd b = 10 * (unat b div 16) + unat b mod 16"

lemma to_bcd_unat:
  assumes "unat v < 100"
  shows "unat (to_bcd v) = 16 * (unat v div 10) + unat v mod 10"
proof -
  have d: "unat (v div 10) = unat v div 10" "unat (v mod 10) = unat v mod 10"
    by (simp_all add: unat_div unat_mod)
  have lo: "v mod 10 AND push_bit 4 (v div 10) = 0"
  proof (rule bit_word_eqI)
    fix n
    have "v mod 10 = take_bit 4 (v mod 10)"
    proof -
      have "unat (take_bit 4 (v mod 10)) = unat v mod 10 mod 2 ^ 4"
        unfolding unsigned_take_bit_eq d by (simp add: take_bit_eq_mod)
      also have "\<dots> = unat (v mod 10)" using mod_less_divisor [of 10 "unat v"] by (simp add: d)
      finally show ?thesis by (simp only: word_unat_eq_iff)
    qed
    then have "bit (v mod 10) n \<Longrightarrow> n < 4" by (metis bit_take_bit_iff)
    then show "bit (v mod 10 AND push_bit 4 (v div 10)) n \<longleftrightarrow> bit (0 :: u32) n"
      by (auto simp: bit_simps)
  qed
  have "push_bit 4 (v div 10) OR v mod 10 = push_bit 4 (v div 10) + v mod 10"
    using word_plus_and_or [of "push_bit 4 (v div 10)" "v mod 10"] lo
    by (simp add: and.commute)
  moreover have "unat (push_bit 4 (v div 10) :: u32) = 16 * (unat v div 10)"
  proof -
    have "unat v div 10 < 10" using assms by simp
    then show ?thesis by (simp add: push_bit_eq_mult unat_word_ariths d)
  qed
  ultimately have "unat (push_bit 4 (v div 10) OR v mod 10) = 16 * (unat v div 10) + unat v mod 10"
    using assms d by (subst (asm) (1) refl) (simp add: unat_word_ariths)
  moreover have "16 * (unat v div 10) + unat v mod 10 < 256" using assms by linarith
  ultimately show ?thesis by (simp add: to_bcd_def unsigned_ucast_eq take_bit_eq_mod)
qed

lemma from_to_bcd:
  assumes "unat v < 100"
  shows "from_bcd (to_bcd v) = unat v \<and> unat (to_bcd v) mod 16 < 10 \<and> unat (to_bcd v) div 16 < 10"
proof -
  have "(16 * (unat v div 10) + unat v mod 10) div 16 = unat v div 10"
    "(16 * (unat v div 10) + unat v mod 10) mod 16 = unat v mod 10"
    using mod_less_divisor [of 10 "unat v"] by (simp_all)
  then show ?thesis using assms unfolding from_bcd_def to_bcd_unat [OF assms] by simp
qed

definition cmos_at :: "cmos \<Rightarrow> u8 \<Rightarrow> u8" where
  "cmos_at c i = fst (cmos_read_data (cmos_write_index c i))"

lemma civil_time_fields:
  assumes "t = unat (epoch_secs c + elapsed_secs c)"
  shows "civil_time c = (y, mo, d, h, mi, s, wd) \<Longrightarrow>
    unat s = t mod 60 \<and> unat mi = t div 60 mod 60 \<and> unat h = t div 3600 mod 24 \<and>
    unat wd = (t div 86400 + 4) mod 7"
proof -
  assume c: "civil_time c = (y, mo, d, h, mi, s, wd)"
  have r: "unat (of_nat (t mod 86400) :: u32) = t mod 86400"
    by (simp add: unat_of_nat)
  have w: "unat (of_int ((int (t div 86400) + 4) mod 7) :: u32) = (t div 86400 + 4) mod 7"
  proof -
    have "of_int ((int (t div 86400) + 4) mod 7) = (of_nat ((t div 86400 + 4) mod 7) :: u32)"
      by (metis (mono_tags) of_int_of_nat_eq of_nat_add of_nat_mod of_nat_numeral)
    moreover have "unat (of_nat ((t div 86400 + 4) mod 7) :: u32) = (t div 86400 + 4) mod 7"
      by (simp add: unat_of_nat)
    ultimately show ?thesis by simp
  qed
  have "t mod 86400 mod 60 = t mod 60" by (rule mod_mod_cancel) simp
  moreover have "t mod 86400 mod 3600 div 60 = t div 60 mod 60"
  proof -
    have "t mod 86400 mod 3600 = t mod 3600" by (rule mod_mod_cancel) simp
    moreover have "t mod (60 * 60) div 60 = t div 60 mod 60"
      unfolding mod_mult2_eq [of t 60 60] by simp
    ultimately show ?thesis by simp
  qed
  moreover have "t mod 86400 div 3600 = t div 3600 mod 24"
  proof -
    have "t mod (3600 * 24) div 3600 = t div 3600 mod 24"
      unfolding mod_mult2_eq [of t 3600 24] by simp
    then show ?thesis by simp
  qed
  moreover have "s = of_nat (t mod 86400) mod 60" "mi = of_nat (t mod 86400) mod 3600 div 60"
    "h = of_nat (t mod 86400) div 3600" "wd = of_int ((int (t div 86400) + 4) mod 7)"
    using c unfolding civil_time_def Let_def assms [symmetric] split_beta prod.inject by blast+
  ultimately show ?thesis using w by (simp only: unat_div unat_mod r unat_numeral) simp
qed

lemma cmos_at_frame [simp]:
  "civil_time (cmos_write_index c i) = civil_time c" "cmos_ram (cmos_write_index c i) = cmos_ram c"
  "cmos_index (cmos_write_index c i) = i AND 0x7F"
  by (simp_all add: cmos_write_index_def civil_time_def)

lemma mod_lt: "0 < k \<Longrightarrow> k \<le> b \<Longrightarrow> t mod k < (b :: nat)"
  by (rule less_le_trans [OF mod_less_divisor])

text \<open>In the BCD format the machine starts in, the seconds, minutes, hours and weekday the
  guest reads through ports 0x70 and 0x71 are packed decimals of the time of day and weekday of
  the current second count, and status register A never shows an update in progress, whatever the
  guest wrote to the configuration RAM.\<close>

theorem cmos_clock_readout:
  assumes "cmos_ram c REG_STATUS_B AND SB_BINARY = 0" "t = unat (epoch_secs c + elapsed_secs c)"
  shows "from_bcd (cmos_at c REG_SECONDS) = t mod 60 \<and>
    from_bcd (cmos_at c REG_MINUTES) = t div 60 mod 60 \<and>
    from_bcd (cmos_at c REG_HOURS) = t div 3600 mod 24 \<and>
    from_bcd (cmos_at c REG_WEEKDAY) = (t div 86400 + 4) mod 7 + 1 \<and>
    \<not> bit (cmos_at c REG_STATUS_A) 7"
proof -
  obtain y mo d h mi s wd where ct: "civil_time c = (y, mo, d, h, mi, s, wd)"
    by (cases "civil_time c") auto
  note f = civil_time_fields [OF assms(2) ct]
  have lt: "unat s < 100" "unat mi < 100" "unat h < 100" "unat wd < 7"
  proof -
    have "t mod 60 < 100" "t div 60 mod 60 < 100" "t div 3600 mod 24 < 100"
      "(t div 86400 + 4) mod 7 < 7" by (rule mod_lt; simp)+
    then show "unat s < 100" "unat mi < 100" "unat h < 100" "unat wd < 7" using f by metis+
  qed
  then have w: "unat (wd + 1) = unat wd + 1" by (subst unat_add_nowrap) simp_all
  then have "unat (wd + 1) < 100" using lt(4) by simp
  note b = from_to_bcd [OF this] from_to_bcd [OF lt(1)] from_to_bcd [OF lt(2)] from_to_bcd [OF lt(3)]
  have "\<not> bit (v AND 0x7F :: u8) 7" for v by (simp add: bit_and_iff)
  then have "cmos_at c REG_SECONDS = to_bcd s" "cmos_at c REG_MINUTES = to_bcd mi"
    "cmos_at c REG_HOURS = to_bcd h" "cmos_at c REG_WEEKDAY = to_bcd (wd + 1)"
    "\<not> bit (cmos_at c REG_STATUS_A) 7"
    using assms(1) ct by (simp_all add: cmos_at_def cmos_read_data_def Let_def)
  then show ?thesis using b f w by metis
qed

theorem cmos_clock_readout_witness:
  "from_bcd (cmos_at (cmos_new (Some 86399) None) REG_HOURS) = 23"
  using cmos_clock_readout [of "cmos_new (Some 86399) None" 86399]
  by (simp add: cmos_new_def cmos_blank_def cmos_defaults_def)

end
