(* ===== verification/Dma.thy ===== *)
theory Dma imports Memory_Laws begin

text \<open>
  The 8237 DMA controller (src/src/dma.rs): channel, page, mask and command
  registers, and the transfer loop over the physical memory. The main lemma
  describes the memory after a transfer address by address.
\<close>

unbundle bit_operations_syntax

record dma_channel =
  dch_base :: u16
  dch_count :: u16
  dch_page :: u8
  dch_enabled :: bool
  dch_auto_init :: bool
  dch_write :: bool

definition dma_channel_default :: dma_channel where
  "dma_channel_default = \<lparr>dch_base = 0, dch_count = 0, dch_page = 0, dch_enabled = False,
     dch_auto_init = False, dch_write = False\<rparr>"

record dma =
  dma_channels :: "nat \<Rightarrow> dma_channel"
  dma_command :: u8
  dma_status :: u8
  dma_mask :: u8
  dma_selected :: u8
  dma_high_byte :: bool

definition dma_new :: dma where
  "dma_new = \<lparr>dma_channels = (\<lambda>_. dma_channel_default), dma_command = 0, dma_status = 0,
     dma_mask = 0, dma_selected = 0, dma_high_byte = False\<rparr>"

definition dma_address :: "dma \<Rightarrow> nat \<Rightarrow> usize" where
  "dma_address d ch =
     (let c = dma_channels d (ch mod 4) in push_bit 16 (ucast (dch_page c)) OR ucast (dch_base c))"

definition dma_put :: "dma \<Rightarrow> nat \<Rightarrow> dma_channel \<Rightarrow> dma" where
  "dma_put d ch c = d\<lparr>dma_channels := (dma_channels d)(ch := c)\<rparr>"

definition dma_write_channel :: "dma \<Rightarrow> u8 \<Rightarrow> u8 \<Rightarrow> dma" where
  "dma_write_channel d port val =
     (let ch = unat (drop_bit 1 port AND 3); is_count = (port AND 1 = 1); c = dma_channels d ch in
      if dma_high_byte d then
        (dma_put d ch
          (if is_count then c\<lparr>dch_count := (dch_count c AND 0x00FF) OR push_bit 8 (ucast val)\<rparr>
           else c\<lparr>dch_base := (dch_base c AND 0x00FF) OR push_bit 8 (ucast val)\<rparr>))
        \<lparr>dma_high_byte := False\<rparr>
      else
        (dma_put d ch
          (if is_count then c\<lparr>dch_count := (dch_count c AND 0xFF00) OR ucast val\<rparr>
           else c\<lparr>dch_base := (dch_base c AND 0xFF00) OR ucast val\<rparr>))
        \<lparr>dma_high_byte := True\<rparr>)"

definition dma_write_page :: "dma \<Rightarrow> u8 \<Rightarrow> u8 \<Rightarrow> dma" where
  "dma_write_page d port val =
     (case (if port = 0x87 then Some (0 :: nat) else if port = 0x83 then Some 1
            else if port = 0x81 then Some 2 else if port = 0x82 then Some 3 else None) of
        None \<Rightarrow> d
      | Some ch \<Rightarrow> dma_put d ch ((dma_channels d ch)\<lparr>dch_page := val\<rparr>))"

definition dma_write_command :: "dma \<Rightarrow> u8 \<Rightarrow> u8 \<Rightarrow> dma" where
  "dma_write_command d port val =
     (if port = 0x08 then d\<lparr>dma_command := val\<rparr>
      else if port = 0x0A then
        (let ch = unat (val AND 3) in
         (dma_put d ch ((dma_channels d ch)\<lparr>dch_enabled := (val AND 4 = 0)\<rparr>))\<lparr>dma_mask := val\<rparr>)
      else d)"

definition dma_read_status :: "dma \<Rightarrow> u8" where
  "dma_read_status d = dma_status d"

text \<open>The copy loop of \<open>transfer\<close>, one byte per iteration.\<close>

fun dma_copy :: "memory \<Rightarrow> usize \<Rightarrow> usize \<Rightarrow> nat \<Rightarrow> nat \<Rightarrow> memory" where
  "dma_copy m src dst i 0 = m"
| "dma_copy m src dst i (Suc n) =
     dma_copy (write_u8 m (dst + of_nat i) (read_u8 m (src + of_nat i))) src dst (Suc i) n"

definition dma_transfer :: "dma \<Rightarrow> memory \<Rightarrow> nat \<Rightarrow> nat \<times> dma \<times> memory" where
  "dma_transfer d m ch0 =
     (let ch = ch0 mod 4; c = dma_channels d ch in
      if \<not> dch_enabled c then (0, d, m)
      else
        (let base = dma_address d ch; words = unat (dch_count c) + 1; n = words * 2;
             m' = dma_copy m base (base + of_nat n) 0 n;
             d' = d\<lparr>dma_status := dma_status d OR push_bit ch 1\<rparr>;
             d'' = (if dch_auto_init c then d' else dma_put d' ch (c\<lparr>dch_enabled := False\<rparr>))
         in (n, d'', m')))"

lemma dma_put_frame [simp]: "dma_status (dma_put d ch c) = dma_status d"
  by (simp add: dma_put_def)

section \<open>The transfer\<close>

lemma dma_copy_spec:
  assumes "mem_wf m" "unat src + i + k \<le> unat dst" "unat dst + i + k \<le> 2 ^ 64" "i + k \<le> n"
    and "unat src + n \<le> unat dst" "unat dst + n \<le> 2 ^ 64"
  shows "read_u8 (dma_copy m src dst i k) x =
    (if unat dst + i \<le> unat x \<and> unat x < unat dst + i + k \<and> backed m x
     then read_u8 m (x - dst + src) else read_u8 m x)"
  using assms
proof (induction k arbitrary: m i)
  case 0
  have "\<not> (unat dst + i \<le> unat x \<and> unat x < unat dst + i + 0)" by simp
  then show ?case by (metis dma_copy.simps(1))
next
  case (Suc k)
  let ?w = "write_u8 m (dst + of_nat i) (read_u8 m (src + of_nat i))"
  have ui: "unat (dst + of_nat i) = unat dst + i" "unat (src + of_nat i) = unat src + i"
    using Suc.prems by (auto intro!: unat_add_of_nat64)
  have IH: "read_u8 (dma_copy ?w src dst (Suc i) k) x =
    (if unat dst + Suc i \<le> unat x \<and> unat x < unat dst + Suc i + k \<and> backed m x
     then read_u8 ?w (x - dst + src) else read_u8 ?w x)"
    using Suc.IH [of ?w "Suc i"] Suc.prems by (simp add: write_u8_wf)
  have w: "read_u8 ?w y = (if y = dst + of_nat i \<and> backed m (dst + of_nat i)
      then read_u8 m (src + of_nat i) else read_u8 m y)" for y
    by (rule read_write_u8 [OF Suc.prems(1)])
  show ?case
  proof (cases "x = dst + of_nat i")
    case True
    then show ?thesis using IH w ui by (simp add: add.commute)
  next
    case False
    then have ne: "unat x \<noteq> unat dst + i" using ui by (auto simp: word_unat_eq_iff)
    show ?thesis
    proof (cases "unat dst + Suc i \<le> unat x \<and> unat x < unat dst + Suc i + k \<and> backed m x")
      case True
      have "unat (x - dst) = unat x - unat dst"
        using True by (subst unat_sub) (simp_all add: word_le_nat_alt)
      moreover have "unat x - unat dst < n" using True Suc.prems by linarith
      then have "unat x - unat dst + unat src < 2 ^ 64" using Suc.prems unat_lt64 [of dst] by linarith
      ultimately have "unat (x - dst + src) = unat x - unat dst + unat src"
        by (subst unat_add_nowrap) simp_all
      then have "unat (x - dst + src) < unat dst" using True Suc.prems by linarith
      then have "unat (x - dst + src) \<noteq> unat (dst + of_nat i)" using ui(1) by linarith
      then have "x - dst + src \<noteq> dst + of_nat i" by metis
      then show ?thesis using True IH w by simp
    next
      case no: False
      then have r: "read_u8 (dma_copy ?w src dst (Suc i) k) x = read_u8 m x"
        using IH w False by auto
      have "\<not> (unat dst + i \<le> unat x \<and> unat x < unat dst + i + Suc k \<and> backed m x)"
        using no ne by auto
      then show ?thesis unfolding dma_copy.simps(2) using r by (simp only: if_False)
    qed
  qed
qed

lemma dma_copy_wf: "mem_wf m \<Longrightarrow> mem_wf (dma_copy m src dst i n)"
  by (induction m src dst i n rule: dma_copy.induct) (simp_all add: write_u8_wf)

lemma dma_address_unat:
  "unat (dma_address d ch) = 65536 * unat (dch_page (dma_channels d (ch mod 4)))
     + unat (dch_base (dma_channels d (ch mod 4)))"
proof -
  define p b where "p = dch_page (dma_channels d (ch mod 4))" and "b = dch_base (dma_channels d (ch mod 4))"
  have "push_bit 16 (ucast p) AND ucast b = (0 :: usize)"
    by (rule bit_word_eqI) (auto simp: bit_simps dest: bit_imp_le_length)
  then have "push_bit 16 (ucast p) OR ucast b = push_bit 16 (ucast p) + (ucast b :: usize)"
    using word_plus_and_or [of "push_bit 16 (ucast p)" "ucast b :: usize"] by simp
  moreover have "unat (push_bit 16 (ucast p) :: usize) = 65536 * unat p"
    using unat_lt8 [of p] by (simp add: push_bit_eq_mult unat_word_ariths unat_ucast_wide)
  ultimately show ?thesis
    using unat_lt8 [of p] unat_lt16 [of b]
    by (simp add: dma_address_def Let_def p_def [symmetric] b_def [symmetric] unat_ucast_wide unat_add_nowrap)
qed

text \<open>C40: A DMA transfer on an enabled channel moves 2(count + 1) bytes: every backed address of
  the destination block ends up with the byte that was at the matching address of the source
  block before the transfer, every other address keeps its byte, and no address computation
  wraps; the channel raises its status bit and is disabled unless it auto-initializes.\<close>

theorem dma_transfer_copies:
  assumes "mem_wf m" "ch < 4" "dch_enabled (dma_channels d ch)"
    "dma_transfer d m ch = (n, d', m')"
  shows "n = 2 * (unat (dch_count (dma_channels d ch)) + 1) \<and>
    (\<forall>x. read_u8 m' x =
      (if unat (dma_address d ch) + n \<le> unat x \<and> unat x < unat (dma_address d ch) + 2 * n \<and> backed m x
       then read_u8 m (x - of_nat n) else read_u8 m x)) \<and>
    bit (dma_status d') ch \<and>
    dch_enabled (dma_channels d' ch) = dch_auto_init (dma_channels d ch)"
proof -
  let ?c = "dma_channels d ch" and ?a = "dma_address d ch"
  have n: "n = 2 * (unat (dch_count ?c) + 1)"
    "m' = dma_copy m ?a (?a + of_nat n) 0 n"
    "dma_status d' = dma_status d OR push_bit ch 1"
    "dch_enabled (dma_channels d' ch) = dch_auto_init ?c"
    using assms by (auto simp: dma_transfer_def Let_def dma_put_def split: if_splits)
  have a: "unat ?a < 2 ^ 24" "n \<le> 2 ^ 17"
    using dma_address_unat [of d ch] unat_lt8 [of "dch_page ?c"] unat_lt16 [of "dch_base ?c"]
      unat_lt16 [of "dch_count ?c"] assms(2) n(1) by simp_all
  have dst: "unat (?a + of_nat n) = unat ?a + n"
    using a by (intro unat_add_of_nat64) simp
  have "read_u8 m' x =
      (if unat ?a + n \<le> unat x \<and> unat x < unat ?a + 2 * n \<and> backed m x
       then read_u8 m (x - of_nat n) else read_u8 m x)" for x
    using dma_copy_spec [OF assms(1), of ?a 0 n "?a + of_nat n" n x] a dst
    by (simp add: n(2) mult_2 add.assoc [symmetric])
  moreover have "bit (dma_status d') ch"
    using assms(2) by (simp add: n(3) bit_simps)
  ultimately show ?thesis using n by blast
qed

theorem dma_transfer_copies_witness:
  "read_u8 (snd (snd (dma_transfer (dma_put dma_new 1 (dma_channel_default\<lparr>dch_base := 0x1000,
       dch_enabled := True\<rparr>)) (write_u8 (with_size 0x400000 None) 0x1001 0x5A) 1))) 0x1003 = 0x5A"
proof -
  define d where "d = dma_put dma_new 1 (dma_channel_default\<lparr>dch_base := 0x1000, dch_enabled := True\<rparr>)"
  define mem where "mem = with_size 0x400000 None"
  have w: "mem_wf mem" unfolding mem_def by (rule with_size_wf) simp
  have b: "backed mem 0x1003" "backed mem 0x1001"
    by (simp_all add: mem_def backed_def with_size_def Let_def slot_def)
  have c: "dch_enabled (dma_channels d 1)" "unat (dch_count (dma_channels d 1)) = 0"
    "unat (dma_address d 1) = 0x1000"
    by (simp_all add: d_def dma_put_def dma_channel_default_def dma_address_def)
  obtain n d' m' where t: "dma_transfer d (write_u8 mem 0x1001 0x5A) 1 = (n, d', m')"
    by (cases "dma_transfer d (write_u8 mem 0x1001 0x5A) 1") auto
  note r = dma_transfer_copies [OF write_u8_wf [OF w] _ c(1) t, unfolded c(2,3)]
  have n: "n = 2" using r by simp
  have "read_u8 m' 0x1003 = read_u8 (write_u8 mem 0x1001 0x5A) (0x1003 - of_nat 2)"
    using r b unfolding n by simp
  then have "read_u8 m' 0x1003 = 0x5A" using b by (simp add: read_write_u8 [OF w])
  then show ?thesis using t by (simp add: d_def mem_def)
qed

end
