(* ===== verification/Ide.thy ===== *)
theory Ide imports Prelude begin

text \<open>
  The ATA disk controller in PIO mode (src/src/ide.rs): the command block, the
  read and write commands and the data register. The disk and the transfer
  buffer are lists of bytes. The lemmas show that a read command streams
  exactly the requested sectors in order, that a write command followed by its
  data and a flush stores them, and that the BUSY flag is never up between two
  operations.
\<close>

unbundle bit_operations_syntax

definition SECTOR_SIZE :: nat where [simp]: "SECTOR_SIZE = 512"

record ide =
  ide_disk :: "u8 list"
  ide_present :: bool
  ide_error :: u8
  sector_count :: u8
  lba_low :: u8
  lba_mid :: u8
  lba_high :: u8
  drive_head :: u8
  ide_status :: u8
  data_buffer :: "u8 list"
  data_index :: nat
  pending_command :: u8
  ide_busy :: bool

definition ide_new :: ide where
  "ide_new = \<lparr>ide_disk = [], ide_present = False, ide_error = 0, sector_count = 0,
     lba_low = 0, lba_mid = 0, lba_high = 0, drive_head = 0, ide_status = 0x40,
     data_buffer = [], data_index = 0, pending_command = 0, ide_busy = False\<rparr>"

definition load_disk :: "ide \<Rightarrow> u8 list \<Rightarrow> ide" where
  "load_disk i img = i\<lparr>ide_disk := img, ide_present := True, ide_status := 0x40\<rparr>"

definition lba :: "ide \<Rightarrow> u32" where
  "lba i = ucast (lba_low i) OR push_bit 8 (ucast (lba_mid i)) OR push_bit 16 (ucast (lba_high i))
     OR push_bit 24 (ucast (drive_head i AND 0x0F))"

definition ide_write_reg :: "ide \<Rightarrow> u16 \<Rightarrow> u8 \<Rightarrow> ide" where
  "ide_write_reg i port val =
     (if port = 0x1F1 then i\<lparr>ide_error := val\<rparr>
      else if port = 0x1F2 then i\<lparr>sector_count := val\<rparr>
      else if port = 0x1F3 then i\<lparr>lba_low := val\<rparr>
      else if port = 0x1F4 then i\<lparr>lba_mid := val\<rparr>
      else if port = 0x1F5 then i\<lparr>lba_high := val\<rparr>
      else if port = 0x1F6 then i\<lparr>drive_head := val\<rparr>
      else i)"

definition ide_write_command :: "ide \<Rightarrow> u8 \<Rightarrow> ide" where
  "ide_write_command i0 cmd =
     (let i = i0\<lparr>pending_command := cmd, ide_busy := True, ide_status := 0x80\<rparr>;
          count = unat (max (sector_count i) 1);
          start = unat (lba i) * SECTOR_SIZE;
          i = (if cmd = 0x20 \<or> cmd = 0x21 then
                 (let i = i\<lparr>data_buffer := []\<rparr> in
                  if ide_present i \<and> start + count * SECTOR_SIZE \<le> length (ide_disk i)
                  then i\<lparr>data_buffer := take (count * SECTOR_SIZE) (drop start (ide_disk i)), ide_error := 0\<rparr>
                  else i\<lparr>ide_error := 0x04\<rparr>)
               else if cmd = 0x30 \<or> cmd = 0x31 then
                 i\<lparr>data_buffer := replicate (count * SECTOR_SIZE) 0, data_index := 0, ide_error := 0\<rparr>
               else i\<lparr>ide_error := 0x04\<rparr>)
      in i\<lparr>data_index := 0, ide_busy := False, ide_status := 0x40\<rparr>)"

definition ide_read_data :: "ide \<Rightarrow> u16 \<times> ide" where
  "ide_read_data i =
     (if data_index i + 1 < length (data_buffer i) then
        (ucast (data_buffer i ! data_index i) OR push_bit 8 (ucast (data_buffer i ! (data_index i + 1))),
         i\<lparr>data_index := data_index i + 2\<rparr>)
      else if data_index i < length (data_buffer i) then
        (ucast (data_buffer i ! data_index i), i\<lparr>data_index := data_index i + 1\<rparr>)
      else (0, i))"

definition ide_write_data :: "ide \<Rightarrow> u16 \<Rightarrow> ide" where
  "ide_write_data i val =
     (if data_index i + 1 < length (data_buffer i) then
        i\<lparr>data_buffer := (data_buffer i)[data_index i := ucast (val AND 0xFF),
                                       data_index i + 1 := ucast (drop_bit 8 val)],
          data_index := data_index i + 2\<rparr>
      else if data_index i < length (data_buffer i) then
        i\<lparr>data_buffer := (data_buffer i)[data_index i := ucast (val AND 0xFF)],
          data_index := data_index i + 1\<rparr>
      else i)"

definition ide_read_status :: "ide \<Rightarrow> u8" where
  "ide_read_status i = ide_status i"

text \<open>\<open>self.disk[start..start + n].copy_from_slice(buf)\<close>.\<close>

definition splice :: "'a list \<Rightarrow> nat \<Rightarrow> 'a list \<Rightarrow> 'a list" where
  "splice xs start buf = take start xs @ buf @ drop (start + length buf) xs"

definition flush_write :: "ide \<Rightarrow> ide" where
  "flush_write i =
     (if pending_command i = 0x30 \<or> pending_command i = 0x31 then
        (let start = unat (lba i) * SECTOR_SIZE;
             i' = (if ide_present i \<and> start + length (data_buffer i) \<le> length (ide_disk i)
                   then i\<lparr>ide_disk := splice (ide_disk i) start (data_buffer i)\<rparr> else i)
         in i'\<lparr>pending_command := 0\<rparr>)
      else i)"

section \<open>Reading and writing sectors\<close>

fun ide_read_words :: "nat \<Rightarrow> ide \<Rightarrow> u16 list \<times> ide" where
  "ide_read_words 0 i = ([], i)"
| "ide_read_words (Suc n) i =
     (let (w, i') = ide_read_data i; (ws, i'') = ide_read_words n i' in (w # ws, i''))"

fun word_bytes :: "u16 list \<Rightarrow> u8 list" where
  "word_bytes [] = []"
| "word_bytes (w # ws) = ucast (w AND 0xFF) # ucast (drop_bit 8 w) # word_bytes ws"

lemma split16:
  "(ucast ((ucast (lo :: u8) OR push_bit 8 (ucast (hi :: u8)) :: u16) AND 0xFF) :: u8) = lo"
  "(ucast (drop_bit 8 (ucast (lo :: u8) OR push_bit 8 (ucast (hi :: u8)) :: u16)) :: u8) = hi"
proof -
  have m: "(0xFF :: u16) = mask 8" by (simp add: mask_eq_exp_minus_1)
  show "(ucast ((ucast (lo :: u8) OR push_bit 8 (ucast (hi :: u8)) :: u16) AND 0xFF) :: u8) = lo"
    "(ucast (drop_bit 8 (ucast (lo :: u8) OR push_bit 8 (ucast (hi :: u8)) :: u16)) :: u8) = hi"
    unfolding m by (rule bit_word_eqI, auto simp: bit_simps dest: bit_imp_le_length)+
qed

lemma read_words_stream:
  "data_index i + 2 * n \<le> length (data_buffer i) \<Longrightarrow>
    word_bytes (fst (ide_read_words n i)) = take (2 * n) (drop (data_index i) (data_buffer i)) \<and>
    snd (ide_read_words n i) = i\<lparr>data_index := data_index i + 2 * n\<rparr>"
proof (induction n arbitrary: i)
  case 0
  then show ?case by simp
next
  case (Suc n)
  have d: "drop (data_index i) (data_buffer i) = data_buffer i ! data_index i #
      data_buffer i ! (data_index i + 1) # drop (data_index i + 2) (data_buffer i)"
    using Suc.prems by (simp add: Cons_nth_drop_Suc)
  define w :: u16 where "w = ucast (data_buffer i ! data_index i) OR
      push_bit 8 (ucast (data_buffer i ! (data_index i + 1)))"
  have r: "ide_read_data i = (w, i\<lparr>data_index := data_index i + 2\<rparr>)"
    using Suc.prems by (simp add: ide_read_data_def w_def)
  have w: "ucast (w AND 0xFF) = data_buffer i ! data_index i"
    "ucast (drop_bit 8 w) = data_buffer i ! (data_index i + 1)"
    unfolding w_def by (fact split16)+
  show ?case
    using Suc.IH [of "i\<lparr>data_index := data_index i + 2\<rparr>"] Suc.prems
    by (simp add: r d w Let_def split_beta)
qed

lemma splice_length: "start + length buf \<le> length xs \<Longrightarrow> length (splice xs start buf) = length xs"
  by (simp add: splice_def)

lemma splice_step:
  assumes "k + 1 < length xs"
  shows "splice (xs[k := a, k + 1 := b]) (k + 2) ys = splice xs k (a # b # ys)"
proof -
  have "take (k + 2) (xs[k := a, k + 1 := b]) = take k xs @ [a, b]"
    using assms by (simp add: take_Suc_conv_app_nth)
  then show ?thesis using assms by (simp add: splice_def)
qed

lemma word_bytes_length [simp]: "length (word_bytes ws) = 2 * length ws"
  by (induction ws) simp_all

lemma write_words_buffer:
  "data_index i + 2 * length ws \<le> length (data_buffer i) \<Longrightarrow>
    foldl ide_write_data i ws = i\<lparr>data_buffer := splice (data_buffer i) (data_index i) (word_bytes ws),
      data_index := data_index i + 2 * length ws\<rparr>"
proof (induction ws arbitrary: i)
  case Nil
  then show ?case by (simp add: splice_def)
next
  case (Cons w ws)
  let ?buf = "(data_buffer i)[data_index i := ucast (w AND 0xFF), data_index i + 1 := ucast (drop_bit 8 w)]"
  have w: "ide_write_data i w = i\<lparr>data_buffer := ?buf, data_index := data_index i + 2\<rparr>"
    using Cons.prems by (simp add: ide_write_data_def)
  have "foldl ide_write_data i (w # ws) =
      i\<lparr>data_buffer := splice ?buf (data_index i + 2) (word_bytes ws),
        data_index := data_index i + 2 + 2 * length ws\<rparr>"
    using Cons.IH [of "i\<lparr>data_buffer := ?buf, data_index := data_index i + 2\<rparr>"] Cons.prems
    by (simp add: w)
  moreover have "splice ?buf (data_index i + 2) (word_bytes ws) =
      splice (data_buffer i) (data_index i) (word_bytes (w # ws))"
    using Cons.prems by (subst splice_step) simp_all
  ultimately show ?case by simp
qed

definition transfer_count :: "ide \<Rightarrow> nat" where
  "transfer_count i = unat (max (sector_count i) 1)"

definition sectors :: "u8 list \<Rightarrow> nat \<Rightarrow> nat \<Rightarrow> u8 list" where
  "sectors disk start count = take (count * SECTOR_SIZE) (drop (start * SECTOR_SIZE) disk)"

lemma read_command_buffer:
  assumes "ide_present i" "(unat (lba i) + transfer_count i) * SECTOR_SIZE \<le> length (ide_disk i)"
  shows "data_buffer (ide_write_command i 0x20) = sectors (ide_disk i) (unat (lba i)) (transfer_count i)"
    "data_index (ide_write_command i 0x20) = 0"
  using assms by (simp_all add: ide_write_command_def Let_def sectors_def transfer_count_def lba_def
      algebra_simps)

text \<open>A READ SECTORS command whose range lies on the disk makes the data register stream
  exactly the requested sectors, low byte first, in disk order, for the whole sector count
  (a count of 0 is taken as 1).\<close>

theorem ide_read_streams_sectors:
  assumes "ide_present i" "(unat (lba i) + transfer_count i) * SECTOR_SIZE \<le> length (ide_disk i)"
  shows "word_bytes (fst (ide_read_words (256 * transfer_count i) (ide_write_command i 0x20))) =
    sectors (ide_disk i) (unat (lba i)) (transfer_count i)"
proof -
  note b = read_command_buffer [OF assms]
  have l: "length (sectors (ide_disk i) (unat (lba i)) (transfer_count i)) = 512 * transfer_count i"
    using assms(2) by (auto simp: sectors_def min_def algebra_simps)
  show ?thesis
    using read_words_stream [of "ide_write_command i 0x20" "256 * transfer_count i"] l
    unfolding b by simp
qed

theorem ide_read_streams_sectors_witness:
  "word_bytes (fst (ide_read_words 256 (ide_write_command (load_disk ide_new (replicate 512 0x5A)) 0x20))) =
   replicate 512 0x5A"
  using ide_read_streams_sectors [of "load_disk ide_new (replicate 512 0x5A)"]
  by (simp add: load_disk_def ide_new_def lba_def transfer_count_def sectors_def)

text \<open>C28: A WRITE SECTORS command, its data words and a flush replace exactly the addressed
  sectors of the disk and nothing else, and a READ SECTORS command of the same registers then
  streams back the words that were written.\<close>

theorem ide_write_read_round_trip:
  assumes "ide_present i" "(unat (lba i) + transfer_count i) * SECTOR_SIZE \<le> length (ide_disk i)"
    "length ws = 256 * transfer_count i"
  defines "j \<equiv> flush_write (foldl ide_write_data (ide_write_command i 0x30) ws)"
  shows "ide_disk j = splice (ide_disk i) (unat (lba i) * SECTOR_SIZE) (word_bytes ws) \<and>
    word_bytes (fst (ide_read_words (256 * transfer_count i) (ide_write_command j 0x20))) = word_bytes ws"
proof -
  let ?c = "ide_write_command i 0x30"
  have c: "data_buffer ?c = replicate (512 * transfer_count i) 0" "data_index ?c = 0"
    "lba ?c = lba i" "ide_disk ?c = ide_disk i" "ide_present ?c" "pending_command ?c = 0x30"
    "transfer_count ?c = transfer_count i"
    using assms(1) by (simp_all add: ide_write_command_def Let_def lba_def transfer_count_def mult.commute)
  have f: "foldl ide_write_data ?c ws = ?c\<lparr>data_buffer := word_bytes ws, data_index := 2 * length ws\<rparr>"
    using write_words_buffer [of ?c ws] assms(3) c by (simp add: splice_def)
  have fit: "unat (lba i) * 512 + length (word_bytes ws) \<le> length (ide_disk i)"
    using assms(2,3) by (simp add: algebra_simps)
  have j: "j = ?c\<lparr>data_buffer := word_bytes ws, data_index := 2 * length ws, pending_command := 0,
      ide_disk := splice (ide_disk i) (unat (lba i) * SECTOR_SIZE) (word_bytes ws)\<rparr>"
    using fit c unfolding j_def flush_write_def f by (simp add: Let_def lba_def)
  have jj: "ide_present j" "lba j = lba i" "transfer_count j = transfer_count i"
    "ide_disk j = splice (ide_disk i) (unat (lba i) * SECTOR_SIZE) (word_bytes ws)"
    using c by (simp_all add: j lba_def transfer_count_def)
  have l: "length (ide_disk j) = length (ide_disk i)"
    using fit unfolding jj by (subst splice_length) simp_all
  have "sectors (ide_disk j) (unat (lba i)) (transfer_count i) = word_bytes ws"
    using fit assms(3) by (simp add: sectors_def jj splice_def min_def)
  moreover have "word_bytes (fst (ide_read_words (256 * transfer_count j) (ide_write_command j 0x20))) =
      sectors (ide_disk j) (unat (lba j)) (transfer_count j)"
    by (rule ide_read_streams_sectors) (use jj l assms(2) in simp_all)
  ultimately show ?thesis using jj by simp
qed

theorem ide_write_read_round_trip_witness:
  "ide_disk (flush_write (foldl ide_write_data
      (ide_write_command (load_disk ide_new (replicate 512 0)) 0x30) (replicate 256 0x5A5A))) =
   word_bytes (replicate 256 0x5A5A)"
  using ide_write_read_round_trip [of "load_disk ide_new (replicate 512 0)" "replicate 256 0x5A5A"]
  by (simp add: load_disk_def ide_new_def lba_def transfer_count_def splice_def)

section \<open>The busy flag\<close>

inductive ide_step :: "ide \<Rightarrow> ide \<Rightarrow> bool" where
  load: "ide_step i (load_disk i img)"
| reg: "ide_step i (ide_write_reg i port v)"
| cmd: "ide_step i (ide_write_command i c)"
| rd: "ide_step i (snd (ide_read_data i))"
| wr: "ide_step i (ide_write_data i w)"
| flush: "ide_step i (flush_write i)"

text \<open>
  A command completes within the port write that starts it, so the interrupt poll of the CPU, which
  raises IRQ14 only while the busy flag is set, never does.
\<close>

definition ide_idle :: "ide \<Rightarrow> bool" where "ide_idle i \<longleftrightarrow> \<not> ide_busy i \<and> ide_status i = 0x40"

lemma ide_new_idle: "ide_idle ide_new"
  by (simp add: ide_idle_def ide_new_def)

lemma ide_step_idle: "ide_step i j \<Longrightarrow> ide_idle i \<Longrightarrow> ide_idle j"
  by (induction rule: ide_step.induct)
    (auto simp: ide_idle_def load_disk_def ide_write_reg_def ide_write_command_def ide_read_data_def
      ide_write_data_def flush_write_def Let_def)

end
