(* ===== verification/Vga.thy ===== *)
theory Vga imports Prelude begin

text \<open>
  The VGA device (src/src/vga.rs): text cells, the two graphics framebuffers,
  and the CRTC register file. \<open>vga_wf\<close> ties the vector lengths to the mode,
  which is what keeps every indexed access of the code inside its vector.
\<close>

unbundle bit_operations_syntax

definition TEXT_COLS :: nat where [simp]: "TEXT_COLS = 80"
definition TEXT_ROWS :: nat where [simp]: "TEXT_ROWS = 25"
definition MODE13_W :: nat where [simp]: "MODE13_W = 320"
definition MODE13_H :: nat where [simp]: "MODE13_H = 200"
definition MODE12_W :: nat where [simp]: "MODE12_W = 640"
definition MODE12_H :: nat where [simp]: "MODE12_H = 480"

record vga =
  crtc_index :: u8
  crtc :: "u8 list"
  vga_mode :: u8
  text_cells :: "u16 list"
  framebuffer :: "u8 list"
  fb_w :: nat
  fb_h :: nat
  cursor_row :: u8
  cursor_col :: u8

definition vga_new :: vga where
  "vga_new = \<lparr>crtc_index = 0, crtc = replicate 32 0, vga_mode = 0x03,
     text_cells = replicate (TEXT_COLS * TEXT_ROWS) 0x0720, framebuffer = [], fb_w = 0, fb_h = 0,
     cursor_row = 0, cursor_col = 0\<rparr>"

definition set_mode :: "vga \<Rightarrow> u8 \<Rightarrow> u8 \<times> vga" where
  "set_mode v0 mode =
     (let v = v0\<lparr>vga_mode := mode\<rparr>;
          v = (if mode = 0x12 then
                 v\<lparr>fb_w := MODE12_W, fb_h := MODE12_H, framebuffer := replicate (MODE12_W * MODE12_H) 0\<rparr>
               else if mode = 0x13 then
                 v\<lparr>fb_w := MODE13_W, fb_h := MODE13_H, framebuffer := replicate (MODE13_W * MODE13_H) 0\<rparr>
               else
                 v\<lparr>text_cells := replicate (TEXT_COLS * TEXT_ROWS) 0x0720, fb_w := 0, fb_h := 0,
                   framebuffer := [], cursor_row := 0, cursor_col := 0\<rparr>)
      in (vga_mode v, v))"

definition is_graphics :: "vga \<Rightarrow> bool" where
  "is_graphics v \<longleftrightarrow> vga_mode v = 0x12 \<or> vga_mode v = 0x13"

definition put_char_at :: "vga \<Rightarrow> nat \<Rightarrow> nat \<Rightarrow> u8 \<Rightarrow> u16 \<Rightarrow> vga" where
  "put_char_at v row col ch attr =
     (if row < TEXT_ROWS \<and> col < TEXT_COLS
      then v\<lparr>text_cells := (text_cells v)[row * TEXT_COLS + col := push_bit 8 attr OR ucast ch]\<rparr>
      else v)"

definition put_pixel :: "vga \<Rightarrow> nat \<Rightarrow> nat \<Rightarrow> u8 \<Rightarrow> vga" where
  "put_pixel v x y color =
     (if is_graphics v \<and> x < fb_w v \<and> y < fb_h v
      then v\<lparr>framebuffer := (framebuffer v)[y * fb_w v + x := color]\<rparr> else v)"

definition get_pixel :: "vga \<Rightarrow> nat \<Rightarrow> nat \<Rightarrow> u8" where
  "get_pixel v x y =
     (if is_graphics v \<and> x < fb_w v \<and> y < fb_h v then framebuffer v ! (y * fb_w v + x) else 0)"

text \<open>\<open>copy_within\<close> of all rows but the first, then the last row is blanked.\<close>

fun blank_from :: "u16 list \<Rightarrow> nat \<Rightarrow> nat \<Rightarrow> u16 list" where
  "blank_from xs i 0 = xs"
| "blank_from xs i (Suc n) = blank_from (xs[i := 0x0720]) (Suc i) n"

definition vga_scroll :: "vga \<Rightarrow> vga" where
  "vga_scroll v =
     (let t = text_cells v; moved = drop TEXT_COLS t;
          t' = moved @ drop (length moved) t;
          last = TEXT_COLS * (TEXT_ROWS - 1)
      in v\<lparr>text_cells := blank_from t' last (TEXT_COLS * TEXT_ROWS - last)\<rparr>)"

definition write_crtc_index :: "vga \<Rightarrow> u8 \<Rightarrow> vga" where
  "write_crtc_index v val = v\<lparr>crtc_index := val AND 0x1F\<rparr>"

definition write_crtc_data :: "vga \<Rightarrow> u8 \<Rightarrow> vga" where
  "write_crtc_data v val = v\<lparr>crtc := (crtc v)[unat (crtc_index v) := val]\<rparr>"

definition read_crtc_data :: "vga \<Rightarrow> u8" where
  "read_crtc_data v = crtc v ! unat (crtc_index v)"

definition start_cell :: "vga \<Rightarrow> usize" where
  "start_cell v = push_bit 8 (ucast (crtc v ! 0x0C)) OR ucast (crtc v ! 0x0D)"

definition cursor_cell :: "vga \<Rightarrow> usize" where
  "cursor_cell v = push_bit 8 (ucast (crtc v ! 0x0E)) OR ucast (crtc v ! 0x0F)"

section \<open>The invariant: every index the code uses is inside its vector\<close>

definition vga_wf :: "vga \<Rightarrow> bool" where
  "vga_wf v \<longleftrightarrow> length (crtc v) = 32 \<and> unat (crtc_index v) < 32 \<and>
     length (text_cells v) = TEXT_COLS * TEXT_ROWS \<and>
     length (framebuffer v) = fb_w v * fb_h v \<and>
     (vga_mode v = 0x12 \<longrightarrow> fb_w v = MODE12_W \<and> fb_h v = MODE12_H) \<and>
     (vga_mode v = 0x13 \<longrightarrow> fb_w v = MODE13_W \<and> fb_h v = MODE13_H)"

lemma vga_new_wf: "vga_wf vga_new" by (simp add: vga_wf_def vga_new_def)

lemma set_mode_wf [wf_intros]: "vga_wf v \<Longrightarrow> vga_wf (snd (set_mode v m))"
  by (simp add: vga_wf_def set_mode_def Let_def)

lemma put_char_wf [wf_intros]: "vga_wf v \<Longrightarrow> vga_wf (put_char_at v r c ch a)"
  by (simp add: vga_wf_def put_char_at_def)

lemma put_pixel_wf [wf_intros]: "vga_wf v \<Longrightarrow> vga_wf (put_pixel v x y c)"
  by (simp add: vga_wf_def put_pixel_def)

lemma blank_from_length [simp]: "length (blank_from xs i n) = length xs"
  by (induction xs i n rule: blank_from.induct) simp_all

lemma vga_scroll_wf [wf_intros]: "vga_wf v \<Longrightarrow> vga_wf (vga_scroll v)"
  by (simp add: vga_wf_def vga_scroll_def Let_def)

lemma write_crtc_wf [wf_intros]:
  "vga_wf v \<Longrightarrow> vga_wf (write_crtc_index v val)" "vga_wf v \<Longrightarrow> vga_wf (write_crtc_data v val)"
proof -
  have "unat (val AND 0x1F) < 32"
    using and_mask_numeral_unat [of "0x1F" 5 val] by (simp add: mask_eq_exp_minus_1)
  then show "vga_wf v \<Longrightarrow> vga_wf (write_crtc_index v val)" "vga_wf v \<Longrightarrow> vga_wf (write_crtc_data v val)"
    by (simp_all add: vga_wf_def write_crtc_index_def write_crtc_data_def)
qed

lemma pixel_index: "x < w \<Longrightarrow> y < h \<Longrightarrow> y * w + x < w * (h :: nat)"
proof -
  assume "x < w" "y < h"
  then have "y * w + x < (y + 1) * w" by simp
  also have "\<dots> \<le> h * w" using \<open>y < h\<close> by (intro mult_le_mono1) simp
  finally show ?thesis by (simp add: mult.commute)
qed

lemma pixel_index_inj:
  "x < w \<Longrightarrow> x' < w \<Longrightarrow> y * w + x = y' * w + x' \<longleftrightarrow> x = x' \<and> y = (y' :: nat)"
  by (metis div_mult_self3 div_less mod_less mod_mult_self3 add.right_neutral add.commute
      less_nat_zero_code)

text \<open>In a graphics mode, with the vectors the mode sets up, a pixel written inside the screen
  is read back, no other pixel changes, and a write outside the screen changes nothing; every
  framebuffer index computed is inside the vector.\<close>

theorem pixel_read_write:
  assumes wf: "vga_wf v" and g: "is_graphics v"
  shows "get_pixel (put_pixel v x y c) x' y' =
      (if x' = x \<and> y' = y \<and> x < fb_w v \<and> y < fb_h v then c else get_pixel v x' y')
    \<and> (x < fb_w v \<and> y < fb_h v \<longrightarrow> y * fb_w v + x < length (framebuffer v))"
proof -
  have len: "length (framebuffer v) = fb_w v * fb_h v" using wf by (simp add: vga_wf_def)
  have b: "x < fb_w v \<Longrightarrow> y < fb_h v \<Longrightarrow> y * fb_w v + x < length (framebuffer v)" for x y
    unfolding len by (rule pixel_index)
  show ?thesis
    using g b [of x y] b [of x' y'] pixel_index_inj [of x "fb_w v" x' y y']
    by (auto simp: get_pixel_def put_pixel_def is_graphics_def nth_list_update)
qed

theorem pixel_read_write_witness:
  "get_pixel (put_pixel (snd (set_mode vga_new 0x13)) 319 199 7) 319 199 = 7"
proof -
  have "vga_wf (snd (set_mode vga_new 0x13))" by (intro set_mode_wf vga_new_wf)
  then show ?thesis
    using pixel_read_write [of "snd (set_mode vga_new 0x13)" 319 199 7 319 199]
    by (simp add: set_mode_def Let_def is_graphics_def)
qed

section \<open>Scrolling\<close>

lemma blank_from_nth:
  "i + n \<le> length xs \<Longrightarrow> k < length xs \<Longrightarrow>
    blank_from xs i n ! k = (if i \<le> k \<and> k < i + n then 0x0720 else xs ! k)"
  by (induction xs i n rule: blank_from.induct) (auto simp: nth_list_update)

text \<open>Scrolling moves every row up by one and blanks the last one.\<close>

theorem scroll_rows:
  assumes "vga_wf v" "row < TEXT_ROWS" "col < TEXT_COLS"
  shows "text_cells (vga_scroll v) ! (row * TEXT_COLS + col) =
    (if row = TEXT_ROWS - 1 then 0x0720 else text_cells v ! ((row + 1) * TEXT_COLS + col))"
proof -
  have len: "length (text_cells v) = 2000" using assms(1) by (simp add: vga_wf_def)
  have k: "row * 80 + col < 2000" using pixel_index [of col 80 row 25] assms by simp
  have m: "row \<noteq> 24 \<Longrightarrow> row * 80 + col < 1920"
    using assms pixel_index [of col 80 row 24] by simp
  have m2: "row = 24 \<Longrightarrow> 1920 \<le> row * 80 + col" by simp
  show ?thesis
    using len k m m2 by (auto simp: vga_scroll_def Let_def blank_from_nth nth_append algebra_simps)
qed

theorem scroll_rows_witness:
  "text_cells (vga_scroll (put_char_at vga_new 1 5 0x41 7)) ! (0 * TEXT_COLS + 5) = 0x0741"
proof -
  have "vga_wf (put_char_at vga_new 1 5 0x41 7)" by (intro put_char_wf vga_new_wf)
  then show ?thesis
    using scroll_rows [of "put_char_at vga_new 1 5 0x41 7" 0 5]
    by (simp add: put_char_at_def vga_new_def)
qed

end
