(* ===== verification/Pci.thy ===== *)
theory Pci imports Prelude begin

text \<open>
  The PCI configuration mechanism (src/src/pci.rs): the address latch, the
  configuration spaces of the host bridge and of the virtio block device, and
  the base address registers. The lemmas show that no sequence of
  configuration writes changes a device's identity, that an empty slot reads
  as all ones, and the size-probe protocol of a base address register.
\<close>

unbundle bit_operations_syntax

section \<open>Functions\<close>

record pci_function =
  config :: "nat \<Rightarrow> u8"
  bar_size :: "nat \<Rightarrow> u32"

definition function_new :: pci_function where
  "function_new = \<lparr>config = (\<lambda>_. 0), bar_size = (\<lambda>_. 0)\<rparr>"

definition put8 :: "pci_function \<Rightarrow> nat \<Rightarrow> u8 \<Rightarrow> pci_function" where
  "put8 f off v = f\<lparr>config := (config f)(off := v)\<rparr>"

definition put16 :: "pci_function \<Rightarrow> nat \<Rightarrow> u16 \<Rightarrow> pci_function" where
  "put16 f off v = put8 (put8 f off (ucast v)) (off + 1) (ucast (drop_bit 8 v))"

definition put32 :: "pci_function \<Rightarrow> nat \<Rightarrow> u32 \<Rightarrow> pci_function" where
  "put32 f off v =
     put8 (put8 (put8 (put8 f off (ucast v)) (off + 1) (ucast (drop_bit 8 v)))
       (off + 2) (ucast (drop_bit 16 v))) (off + 3) (ucast (drop_bit 24 v))"

definition pci_read32 :: "pci_function \<Rightarrow> nat \<Rightarrow> u32" where
  "pci_read32 f off =
     ucast (config f off) OR push_bit 8 (ucast (config f (off + 1)))
       OR push_bit 16 (ucast (config f (off + 2))) OR push_bit 24 (ucast (config f (off + 3)))"

definition io_base :: "pci_function \<Rightarrow> nat \<Rightarrow> u16" where
  "io_base f bar = ucast (pci_read32 f (0x10 + bar * 4) AND NOT 0x3)"

section \<open>The bus\<close>

record pci =
  pci_address :: u32
  pci_slots :: "nat \<Rightarrow> pci_function option"

definition VIRTIO_BLK_IO_BASE :: u16 where [simp]: "VIRTIO_BLK_IO_BASE = 0xC000"
definition VIRTIO_BLK_SLOT :: nat where [simp]: "VIRTIO_BLK_SLOT = 1"
definition VIRTIO_IRQ :: u8 where [simp]: "VIRTIO_IRQ = 11"

definition host_bridge :: pci_function where
  "host_bridge =
     (let f = put16 function_new 0x00 0x8086; f = put16 f 0x02 0x1237; f = put16 f 0x04 0x0006;
          f = put16 f 0x06 0x0200; f = put8 f 0x08 0x02; f = put8 f 0x0A 0x00; f = put8 f 0x0B 0x06
      in put8 f 0x0E 0x00)"

definition virtio_function :: pci_function where
  "virtio_function =
     (let f = put16 function_new 0x00 0x1AF4; f = put16 f 0x02 0x1001; f = put16 f 0x04 0x0001;
          f = put16 f 0x06 0x0000; f = put8 f 0x08 0x00; f = put8 f 0x09 0x00; f = put8 f 0x0A 0x00;
          f = put8 f 0x0B 0x01; f = put8 f 0x0E 0x00; f = put16 f 0x2C 0x1AF4;
          f = put16 f 0x2E 0x0002; f = put8 f 0x3C VIRTIO_IRQ; f = put8 f 0x3D 0x01;
          f = put32 f 0x10 (ucast VIRTIO_BLK_IO_BASE OR 1)
      in f\<lparr>bar_size := (bar_size f)(0 := 64)\<rparr>)"

definition pci_new :: pci where
  "pci_new = \<lparr>pci_address = 0,
     pci_slots = (\<lambda>_. None)(0 := Some host_bridge, VIRTIO_BLK_SLOT := Some virtio_function)\<rparr>"

definition pci_target :: "pci \<Rightarrow> (nat \<times> nat) option" where
  "pci_target p =
     (let a = pci_address p in
      if a AND 0x80000000 = 0 then None
      else if drop_bit 16 a AND 0xFF \<noteq> 0 \<or> drop_bit 8 a AND 0x07 \<noteq> 0 then None
      else Some (unat (drop_bit 11 a AND 0x1F), unat (a AND 0xFC)))"

text \<open>\<open>config.get(i).unwrap_or(0xFF)\<close> and the little-endian assembly loop.\<close>

definition config_get :: "pci_function \<Rightarrow> nat \<Rightarrow> u8" where
  "config_get f i = (if i < 256 then config f i else 0xFF)"

fun pci_gather :: "pci_function \<Rightarrow> nat \<Rightarrow> nat \<Rightarrow> nat \<Rightarrow> u32" where
  "pci_gather f off i 0 = 0"
| "pci_gather f off i (Suc n) =
     push_bit (i * 8) (ucast (config_get f (off + i))) OR pci_gather f off (Suc i) n"

definition pci_read_data :: "pci \<Rightarrow> nat \<Rightarrow> nat \<Rightarrow> u32" where
  "pci_read_data p lane sz =
     (case pci_target p of
        None \<Rightarrow> 0xFFFFFFFF
      | Some (sl, reg) \<Rightarrow>
          (case pci_slots p sl of
             None \<Rightarrow> 0xFFFFFFFF
           | Some f \<Rightarrow> pci_gather f (reg + lane) 0 sz))"

definition pci_read_only :: "nat \<Rightarrow> bool" where
  "pci_read_only off \<longleftrightarrow> off \<le> 0x03 \<or> 0x08 \<le> off \<and> off \<le> 0x0B \<or> off = 0x0E \<or>
     0x2C \<le> off \<and> off \<le> 0x2F \<or> off = 0x3D"

fun pci_scatter :: "pci_function \<Rightarrow> nat \<Rightarrow> u32 \<Rightarrow> nat \<Rightarrow> nat \<Rightarrow> pci_function" where
  "pci_scatter f off v i 0 = f"
| "pci_scatter f off v i (Suc n) =
     pci_scatter
       (if off + i \<ge> 256 \<or> pci_read_only (off + i) then f
        else put8 f (off + i) (ucast (drop_bit (i * 8) v AND 0xFF)))
       off v (Suc i) n"

definition pci_write_function :: "pci_function \<Rightarrow> nat \<Rightarrow> nat \<Rightarrow> nat \<Rightarrow> u32 \<Rightarrow> pci_function" where
  "pci_write_function f reg lane sz v =
     (if 0x10 \<le> reg \<and> reg < 0x28 \<and> sz = 4 \<and> lane = 0 then
        (let bar = (reg - 0x10) div 4; size_bytes = bar_size f bar in
         if size_bytes = 0 then f
         else
           (let is_io = (config f (0x10 + bar * 4) AND 1 \<noteq> 0);
                type_bits = (if is_io then 1 else 0);
                m = NOT (size_bytes - 1);
                stored = (if v = 0xFFFFFFFF then m OR type_bits else (v AND m) OR type_bits)
            in put32 f reg stored))
      else pci_scatter f (reg + lane) v 0 sz)"

definition pci_write_data :: "pci \<Rightarrow> nat \<Rightarrow> nat \<Rightarrow> u32 \<Rightarrow> pci" where
  "pci_write_data p lane sz v =
     (case pci_target p of
        None \<Rightarrow> p
      | Some (sl, reg) \<Rightarrow>
          (case pci_slots p sl of
             None \<Rightarrow> p
           | Some f \<Rightarrow> p\<lparr>pci_slots := (pci_slots p)(sl := Some (pci_write_function f reg lane sz v))\<rparr>))"

definition virtio_io_base :: "pci \<Rightarrow> u16 option" where
  "virtio_io_base p =
     (case pci_slots p VIRTIO_BLK_SLOT of
        None \<Rightarrow> None
      | Some f \<Rightarrow>
          if config f 0x04 AND 0x01 = 0 then None
          else (let base = io_base f 0 in if base = 0 then None else Some base))"

section \<open>Identity\<close>

lemma pci_scatter_read_only:
  "pci_read_only o' \<Longrightarrow> config (pci_scatter f off v i n) o' = config f o'"
  by (induction f off v i n rule: pci_scatter.induct) (auto simp: put8_def)

lemma pci_write_function_read_only:
  assumes "pci_read_only o'" "4 dvd reg"
  shows "config (pci_write_function f reg lane sz v) o' = config f o'"
proof (cases "0x10 \<le> reg \<and> reg < 0x28 \<and> sz = 4 \<and> lane = 0")
  case True
  then have "o' \<notin> {reg, reg + 1, reg + 2, reg + 3}" using assms(1) by (auto simp: pci_read_only_def)
  then show ?thesis using True by (simp add: pci_write_function_def Let_def put32_def put8_def)
next
  case False
  show ?thesis unfolding pci_write_function_def if_not_P [OF False]
    by (rule pci_scatter_read_only [OF assms(1)])
qed

lemma and_FC: "(a :: u32) AND 0xFC = push_bit 2 (take_bit 6 (drop_bit 2 a))"
proof -
  have m: "(0xFC :: u32) = push_bit 2 (mask 6)" by (simp add: mask_eq_exp_minus_1)
  show ?thesis unfolding m by (rule bit_word_eqI) (auto simp: bit_simps le_add_diff_inverse simp del: add_2_eq_Suc add_2_eq_Suc')
qed

lemma unat_and_FC: "unat ((a :: u32) AND 0xFC) = 4 * (unat a div 4 mod 64)"
  unfolding and_FC
  by (simp add: push_bit_eq_mult unat_word_ariths unsigned_take_bit_eq take_bit_eq_mod unat_drop_bit_eq drop_bit_eq_div mod_mod_cancel)

lemma pci_target_aligned: "pci_target p = Some (sl, reg) \<Longrightarrow> 4 dvd reg \<and> reg \<le> 252 \<and> sl < 32"
proof -
  assume t: "pci_target p = Some (sl, reg)"
  have m: "(0x1F :: u32) = mask 5" by (simp add: mask_eq_exp_minus_1)
  have s: "unat (drop_bit 11 (pci_address p) AND 0x1F) < 32"
    using and_mask_numeral_unat [OF m, of "drop_bit 11 (pci_address p)"] by simp
  have r: "4 * (unat (pci_address p) div 4 mod 64) \<le> 4 * 63"
    by (rule mult_le_mono2) (rule less_Suc_eq_le [THEN iffD1], simp)
  show ?thesis using t s r by (auto simp: pci_target_def Let_def unat_and_FC split: if_splits)
qed

inductive pci_step :: "pci \<Rightarrow> pci \<Rightarrow> bool" where
  latch: "pci_step p (p\<lparr>pci_address := a\<rparr>)"
| data: "pci_step p (pci_write_data p lane sz v)"

inductive pci_reachable :: "pci \<Rightarrow> bool" where
  start: "pci_reachable pci_new"
| step: "pci_reachable p \<Longrightarrow> pci_step p p' \<Longrightarrow> pci_reachable p'"

definition same_function :: "pci_function \<Rightarrow> pci_function \<Rightarrow> bool" where
  "same_function f g \<longleftrightarrow> bar_size f = bar_size g \<and> (\<forall>o'. pci_read_only o' \<longrightarrow> config f o' = config g o')"

definition same_identity :: "pci \<Rightarrow> pci \<Rightarrow> bool" where
  "same_identity p q \<longleftrightarrow> (\<forall>sl. rel_option same_function (pci_slots p sl) (pci_slots q sl))"

lemma same_function_trans: "same_function f g \<Longrightarrow> same_function g h \<Longrightarrow> same_function f h"
  by (simp add: same_function_def)

lemma same_identity_refl: "same_identity p p"
  unfolding same_identity_def by (auto intro!: option.rel_refl_strong simp: same_function_def)

lemma bar_size_put [simp]: "bar_size (put8 f i v) = bar_size f" "bar_size (put32 f i w) = bar_size f"
  by (simp_all add: put8_def put32_def)

lemma bar_size_scatter: "bar_size (pci_scatter f off v i n) = bar_size f"
  by (induction f off v i n rule: pci_scatter.induct) simp_all

lemma bar_size_write [simp]: "bar_size (pci_write_function f reg lane sz v) = bar_size f"
  by (simp add: pci_write_function_def Let_def bar_size_scatter)

lemma pci_step_identity: "pci_step p q \<Longrightarrow> same_identity r p \<Longrightarrow> same_identity r q"
proof (induction rule: pci_step.induct)
  case (latch p a)
  then show ?case by (simp add: same_identity_def)
next
  case (data p lane sz v)
  show ?case
  proof (cases "pci_target p")
    case None
    then show ?thesis using data by (simp add: pci_write_data_def)
  next
    case (Some x)
    obtain sl reg where x: "x = (sl, reg)" by (cases x)
    note al = pci_target_aligned [OF Some [unfolded x]]
    show ?thesis
    proof (cases "pci_slots p sl")
      case None
      then show ?thesis using data Some x by (simp add: pci_write_data_def)
    next
      case (Some f)
      let ?g = "pci_write_function f reg lane sz v"
      have q: "pci_write_data p lane sz v = p\<lparr>pci_slots := (pci_slots p)(sl := Some ?g)\<rparr>"
        using \<open>pci_target p = Some x\<close> x Some by (simp add: pci_write_data_def)
      have g: "same_function f ?g"
        using al pci_write_function_read_only [of _ reg f lane sz v]
        by (simp add: same_function_def)
      have "rel_option same_function (pci_slots r sl) (Some f)"
        using data Some unfolding same_identity_def by metis
      then obtain h where "pci_slots r sl = Some h" "same_function h f"
        by (auto simp: option_rel_Some2)
      then show ?thesis
        using data same_function_trans [OF _ g] unfolding same_identity_def q by simp
    qed
  qed
qed

text \<open>Whatever a guest writes through the configuration ports, in any order and of any size,
  the identity registers (vendor, device, revision, class, header type, subsystem, interrupt pin)
  and the set of present slots stay as the machine was built with.\<close>

theorem pci_identity_immutable:
  assumes "pci_reachable p"
  shows "same_identity pci_new p"
  using assms
  by (induction rule: pci_reachable.induct) (auto intro: same_identity_refl pci_step_identity)

theorem pci_identity_immutable_witness:
  "same_identity pci_new (pci_write_data (pci_new\<lparr>pci_address := 0x80000800\<rparr>) 0 4 0xDEADBEEF)"
  by (rule pci_identity_immutable)
    (rule pci_reachable.step [OF pci_reachable.step [OF pci_reachable.start pci_step.latch] pci_step.data])

section \<open>Base address registers\<close>

lemma bytes32_join:
  "ucast (ucast (v :: u32) :: u8) OR (push_bit 8 (ucast (ucast (drop_bit 8 v) :: u8)) OR
   (push_bit 16 (ucast (ucast (drop_bit 16 v) :: u8)) OR push_bit 24 (ucast (ucast (drop_bit 24 v) :: u8)))) = v"
  (is "?l = v")
proof (rule bit_word_eqI)
  fix n assume n: "n < LENGTH(32)"
  show "bit ?l n = bit v n"
  proof (cases "n < 24")
    case True
    then show ?thesis by (cases "n < 8"; cases "n < 16") (simp_all add: bit_simps, auto simp: bit_simps)
  next
    case False
    then obtain k where "n = 24 + k" using le_Suc_ex not_less by blast
    then show ?thesis using n by (simp add: bit_simps)
  qed
qed

lemma put32_gather:
  assumes "off + 3 < 256"
  shows "pci_gather (put32 f off v) off 0 4 = v"
proof -
  have "pci_gather (put32 f off v) off 0 4 =
      ucast (ucast v :: u8) OR (push_bit 8 (ucast (ucast (drop_bit 8 v) :: u8)) OR
      (push_bit 16 (ucast (ucast (drop_bit 16 v) :: u8)) OR
       push_bit 24 (ucast (ucast (drop_bit 24 v) :: u8))))"
    using assms by (simp add: numeral_eq_Suc put32_def put8_def config_get_def)
  then show ?thesis by (simp only: bytes32_join)
qed

lemma ones32_and: "(0xFFFFFFFF :: u32) AND x = x"
proof -
  have "(0xFFFFFFFF :: u32) = - 1" by simp
  then show ?thesis by (simp only: and.left_neutral)
qed

text \<open>The register an aligned dword write leaves in a base address register.\<close>

lemma bar_write_read:
  assumes "pci_target p = Some (sl, reg)" "0x10 \<le> reg" "reg < 0x28" "pci_slots p sl = Some f"
    "bar_size f ((reg - 0x10) div 4) = 2 ^ k" "k < 32"
  defines "t \<equiv> (if config f reg AND 1 \<noteq> 0 then 1 else 0 :: u32)"
  shows "pci_read_data (pci_write_data p 0 4 v) 0 4 = (v AND NOT (mask k)) OR t"
    "pci_target (pci_write_data p 0 4 v) = Some (sl, reg)"
    "pci_slots (pci_write_data p 0 4 v) sl = Some (put32 f reg ((v AND NOT (mask k)) OR t))"
proof -
  have al: "4 dvd reg" using pci_target_aligned [OF assms(1)] by simp
  then have b: "0x10 + (reg - 0x10) div 4 * 4 = reg" using assms(2) by (auto elim!: dvdE)
  have nz: "(2 ^ k :: u32) \<noteq> 0" using assms(6) by (simp add: exp_eq_zero_iff)
  have m: "(2 ^ k - 1 :: u32) = mask k" by (simp add: mask_eq_exp_minus_1)
  have st: "pci_write_function f reg 0 4 v = put32 f reg ((v AND NOT (mask k)) OR t)"
    using assms(2,3,5) b nz by (simp add: pci_write_function_def Let_def m t_def ones32_and flip: mask_eq_exp_minus_1)
  then show q: "pci_slots (pci_write_data p 0 4 v) sl = Some (put32 f reg ((v AND NOT (mask k)) OR t))"
    and tg: "pci_target (pci_write_data p 0 4 v) = Some (sl, reg)"
    using assms(1,4) by (simp_all add: pci_write_data_def pci_target_def)
  show "pci_read_data (pci_write_data p 0 4 v) 0 4 = (v AND NOT (mask k)) OR t"
    using assms(3) put32_gather [of reg f] tg q by (simp add: pci_read_data_def)
qed

lemma config_put32_low: "config (put32 f off v) off = ucast v"
  by (simp add: put32_def put8_def)


lemma virtio_slot: "pci_slots pci_new 1 = Some virtio_function" "bar_size virtio_function 0 = 64"
  by (simp_all add: pci_new_def virtio_function_def Let_def)


text \<open>A configuration read that names a slot without a device answers all ones in every state
  a guest can reach, whatever the register, lane and size, so a scan ends there; a disabled cycle
  does the same.\<close>

theorem empty_slot_reads_ones:
  assumes "pci_reachable p" "\<And>sl reg. pci_target p = Some (sl, reg) \<Longrightarrow> sl \<noteq> 0 \<and> sl \<noteq> 1"
  shows "pci_read_data p lane sz = 0xFFFFFFFF"
proof (cases "pci_target p")
  case (Some x)
  obtain sl reg where x: "x = (sl, reg)" by (cases x)
  have "same_identity pci_new p"
    using assms(1) by (induction rule: pci_reachable.induct) (auto intro: same_identity_refl pci_step_identity)
  then have "rel_option same_function (pci_slots pci_new sl) (pci_slots p sl)"
    by (simp add: same_identity_def)
  then have "pci_slots p sl = None"
    using assms(2) [OF Some [unfolded x]] by (simp add: pci_new_def)
  then show ?thesis using Some x by (simp add: pci_read_data_def)
qed (simp add: pci_read_data_def)

theorem empty_slot_reads_ones_witness:
  "pci_read_data (pci_new\<lparr>pci_address := 0x80001000\<rparr>) 0 4 = 0xFFFFFFFF"
  by (rule empty_slot_reads_ones)
    (auto intro: pci_reachable.intros pci_step.intros simp: pci_target_def)

text \<open>
  Only an aligned dword write goes through the mask: a byte write to the low
  byte of a base address register stores what it is given, type bit included.
\<close>

lemma bar_byte_write_unmasked:
  "pci_read_data (pci_write_data (pci_new\<lparr>pci_address := 0x80000810\<rparr>) 0 1 0x3E) 0 4 = 0xC03E"
  by code_simp

end
