(* ===== verification/Fpu.thy ===== *)
theory Fpu imports Memory_Fields begin

text \<open>
  The x87 state (src/src/fpu.rs): the register stack and the FXSAVE image. The
  code keeps each register as an \<open>f64\<close> and only ever moves it or takes it apart
  with \<open>to_bits\<close>, so a register is its 64-bit pattern. The lemmas show that the
  stack operations behave as a rotating stack of eight, and that FXRSTOR
  recovers from the image FXSAVE wrote every register whose value is finite
  and not negative zero.
\<close>

unbundle bit_operations_syntax

record fpu =
  fpu_control :: u16
  fpu_status :: u16
  fpu_tag :: u16
  fpu_st :: "u64 list"
  fpu_top :: nat

definition fpu_new :: fpu where
  "fpu_new = \<lparr>fpu_control = 0x037F, fpu_status = 0, fpu_tag = 0xFFFF, fpu_st = replicate 8 0, fpu_top = 0\<rparr>"

definition finit :: "fpu \<Rightarrow> fpu" where
  "finit f = f\<lparr>fpu_control := 0x037F, fpu_status := 0, fpu_tag := 0xFFFF, fpu_st := replicate 8 0, fpu_top := 0\<rparr>"

definition st_i :: "fpu \<Rightarrow> nat \<Rightarrow> u64" where
  "st_i f i = fpu_st f ! ((fpu_top f + i) mod 8)"

definition set_st_i :: "fpu \<Rightarrow> nat \<Rightarrow> u64 \<Rightarrow> fpu" where
  "set_st_i f i v =
     (let idx = (fpu_top f + i) mod 8 in
      f\<lparr>fpu_st := (fpu_st f)[idx := v], fpu_tag := fpu_tag f AND NOT (push_bit idx 1)\<rparr>)"

definition fpu_push :: "fpu \<Rightarrow> u64 \<Rightarrow> fpu" where
  "fpu_push f v =
     (let t = (fpu_top f + 7) mod 8 in
      f\<lparr>fpu_top := t, fpu_st := (fpu_st f)[t := v], fpu_tag := fpu_tag f AND NOT (push_bit t 1)\<rparr>)"

definition fpu_pop :: "fpu \<Rightarrow> fpu" where
  "fpu_pop f =
     f\<lparr>fpu_tag := fpu_tag f OR push_bit (fpu_top f) 1, fpu_top := (fpu_top f + 1) mod 8\<rparr>"

definition fstsw :: "fpu \<Rightarrow> u16" where "fstsw f = fpu_status f"

text \<open>One register of the image: \<open>(mant64, exp16, sign word)\<close>. The \<open>i32\<close> arithmetic is on words.\<close>

definition fxsave_encode :: "u64 \<Rightarrow> u64 \<times> u16 \<times> u16" where
  "fxsave_encode bits =
     (let sgn = drop_bit 63 bits AND 1;
          e = ucast (drop_bit 52 bits AND 0x7FF) :: u32;
          mant = bits AND 0xFFFFFFFFFFFFF;
          (exp16, mant64) =
            (if e = 0 \<and> mant = 0 then (0, 0)
             else if e = 0x7FF then (0x7FFF, push_bit 11 mant OR 0x8000000000000000)
             else (ucast (e - 1023 + 16383), push_bit 11 mant OR 0x8000000000000000))
      in (mant64, exp16, push_bit 15 (ucast sgn)))"

definition write_image :: "memory \<Rightarrow> usize \<Rightarrow> u64 \<times> u16 \<times> u16 \<Rightarrow> memory" where
  "write_image m base r =
     write_u16 (write_u16 (write_u64 m base (fst r)) (base + 8) (fst (snd r))) (base + 10) (snd (snd r))"

definition fxsave_reg :: "memory \<Rightarrow> usize \<Rightarrow> u64 \<Rightarrow> memory" where
  "fxsave_reg m base bits = write_image m base (fxsave_encode bits)"

definition fxsave :: "fpu \<Rightarrow> memory \<Rightarrow> usize \<Rightarrow> memory" where
  "fxsave f m addr =
     (let m = write_u16 m addr (fpu_control f);
          m = write_u16 m (addr + 2) (fpu_status f);
          m = write_u16 m (addr + 4) (fpu_tag f)
      in fold (\<lambda>i m. fxsave_reg m (addr + 32 + of_nat i * 16) (fpu_st f ! i)) [0..<8] m)"

definition fxrstor_decode :: "u64 \<Rightarrow> u16 \<Rightarrow> u16 \<Rightarrow> u64" where
  "fxrstor_decode mant e16 sw =
     (let sgn = ucast (drop_bit 15 sw);
          mantissa = drop_bit 11 (mant AND 0x7FFFFFFFFFFFFFFF);
          e = ucast e16 :: u32
      in if e = 0 \<or> e = 0x7FF then 0
         else (let e64 = scast (e - 16383 + 1023)
               in push_bit 63 sgn OR push_bit 52 e64 OR mantissa))"

definition read_image :: "memory \<Rightarrow> usize \<Rightarrow> u64 \<times> u16 \<times> u16" where
  "read_image m base = (read_u64 m base, read_u16 m (base + 8), read_u16 m (base + 10))"

definition fxrstor_reg :: "memory \<Rightarrow> usize \<Rightarrow> u64" where
  "fxrstor_reg m base = (case read_image m base of (mant, e16, sw) \<Rightarrow> fxrstor_decode mant e16 sw)"

definition fxrstor :: "fpu \<Rightarrow> memory \<Rightarrow> usize \<Rightarrow> fpu" where
  "fxrstor f m addr =
     fold (\<lambda>i f. f\<lparr>fpu_st := (fpu_st f)[i := fxrstor_reg m (addr + 32 + of_nat i * 16)]\<rparr>) [0..<8]
       (f\<lparr>fpu_control := read_u16 m addr, fpu_status := read_u16 m (addr + 2),
          fpu_tag := read_u16 m (addr + 4)\<rparr>)"

section \<open>The register stack\<close>

definition fpu_wf :: "fpu \<Rightarrow> bool" where
  "fpu_wf f \<longleftrightarrow> length (fpu_st f) = 8 \<and> fpu_top f < 8"

lemma fpu_wf_ops [wf_intros]:
  "fpu_wf fpu_new" "fpu_wf (finit f)" "fpu_wf f \<Longrightarrow> fpu_wf (set_st_i f i v)"
  "fpu_wf f \<Longrightarrow> fpu_wf (fpu_push f v)" "fpu_wf f \<Longrightarrow> fpu_wf (fpu_pop f)"
  by (simp_all add: fpu_wf_def fpu_new_def finit_def set_st_i_def fpu_push_def fpu_pop_def Let_def)

lemma mod8_shift: "t < 8 \<Longrightarrow> ((t + 7) mod 8 + Suc i) mod 8 = (t + i) mod (8 :: nat)"
proof -
  have "((t + 7) mod 8 + Suc i) mod 8 = (t + 7 + Suc i) mod 8" by (rule mod_add_left_eq)
  also have "\<dots> = (t + i + 8) mod 8" by (rule arg_cong [where f = "\<lambda>n. n mod 8"]) simp
  finally show ?thesis by simp
qed

lemma mod8_inj:
  "t < 8 \<Longrightarrow> i < 8 \<Longrightarrow> j < 8 \<Longrightarrow> (t + i) mod 8 = (t + j) mod 8 \<longleftrightarrow> i = (j :: nat)"
  by (auto simp: mod_if)

text \<open>The register stack: after a push ST(0) is the value pushed and ST(i+1) is what ST(i)
  was, for all seven registers that stay; popping gives the old registers back under their old
  numbers, and the tag word marks exactly the popped register empty.\<close>

theorem fpu_push_pop:
  assumes "fpu_wf f"
  shows "st_i (fpu_push f v) 0 = v \<and>
    (i < 7 \<longrightarrow> st_i (fpu_push f v) (Suc i) = st_i f i \<and> st_i (fpu_pop (fpu_push f v)) i = st_i f i) \<and>
    fpu_top (fpu_pop (fpu_push f v)) = fpu_top f \<and>
    fpu_tag (fpu_pop (fpu_push f v)) = (fpu_tag f OR push_bit ((fpu_top f + 7) mod 8) 1)"
proof -
  let ?t = "(fpu_top f + 7) mod 8"
  have l: "length (fpu_st f) = 8" and t: "fpu_top f < 8" using assms by (simp_all add: fpu_wf_def)
  have ret: "(?t + 1) mod 8 = fpu_top f" using mod8_shift [OF t, of 0] t by simp
  have ne: "(fpu_top f + i) mod 8 \<noteq> ?t" if "i < 7"
    using mod8_inj [OF t, of i 7] that by simp
  have tag: "(fpu_tag f AND NOT (push_bit ?t 1)) OR push_bit ?t 1 = (fpu_tag f OR push_bit ?t 1)"
    by (rule bit_word_eqI) (auto simp: bit_simps)
  show ?thesis
    using l ret ne tag mod8_shift [OF t, of i]
    by (auto simp: st_i_def fpu_push_def fpu_pop_def Let_def)
qed

theorem fpu_push_pop_witness: "st_i (fpu_push fpu_new 5) 0 = 5"
  using fpu_push_pop [OF fpu_wf_ops(1)] by blast

section \<open>The register format\<close>

definition f64_exp :: "u64 \<Rightarrow> nat" where "f64_exp b = unat (drop_bit 52 b AND 0x7FF)"

definition f64_recoverable :: "u64 \<Rightarrow> bool" where
  "f64_recoverable b \<longleftrightarrow> f64_exp b < 0x7FF \<and> b \<noteq> push_bit 63 1"

lemma f64_parts:
  "(b :: u64) = (push_bit 63 (drop_bit 63 b AND 1) OR push_bit 52 (drop_bit 52 b AND 0x7FF) OR
     (b AND 0xFFFFFFFFFFFFF))"
proof -
  have m: "(0x7FF :: u64) = mask 11" "(0xFFFFFFFFFFFFF :: u64) = mask 52" "(1 :: u64) = mask 1"
    by (simp_all add: mask_eq_exp_minus_1)
  show ?thesis unfolding m
  proof (rule bit_word_eqI)
    fix n assume n: "n < LENGTH(64)"
    consider "n < 52" | "52 \<le> n" "n < 63" | "n = 63" using n by fastforce
    then show "bit b n = bit (push_bit 63 (drop_bit 63 b AND mask 1) OR
        push_bit 52 (drop_bit 52 b AND mask 11) OR (b AND mask 52)) n"
      by cases (auto simp: bit_simps)
  qed
qed

lemma mantissa_back:
  "drop_bit 11 ((push_bit 11 (b AND 0xFFFFFFFFFFFFF) OR 0x8000000000000000) AND 0x7FFFFFFFFFFFFFFF) =
    ((b :: u64) AND 0xFFFFFFFFFFFFF)"
proof -
  have m: "(0x7FFFFFFFFFFFFFFF :: u64) = mask 63" "(0xFFFFFFFFFFFFF :: u64) = mask 52"
    "(0x8000000000000000 :: u64) = push_bit 63 1"
    by (simp_all add: mask_eq_exp_minus_1)
  define c :: u64 where "c = push_bit 63 1"
  have c: "bit c n \<longleftrightarrow> n = 63" for n
    unfolding c_def bit_push_bit_iff bit_1_iff by auto
  show ?thesis unfolding m c_def [symmetric] by (rule bit_word_eqI) (auto simp: bit_simps c)
qed

lemma exponent_back:
  assumes "unat (x :: u64) < 0x7FF"
  defines "e16 \<equiv> (ucast (ucast x - 1023 + 16383 :: u32) :: u16)"
  shows "(ucast e16 :: u32) \<noteq> 0" "(ucast e16 :: u32) \<noteq> 0x7FF"
    "scast ((ucast e16 :: u32) - 16383 + 1023) = x"
proof -
  define n where "n = unat x"
  have x: "x = of_nat n" and n: "n < 2047" using assms by (simp_all add: n_def)
  define k where "k = n + 15360"
  have k: "k < 17407" "15360 \<le> k" using n by (simp_all add: k_def)
  have u: "(ucast x :: u32) - 1023 + 16383 = of_nat k"
    using n by (simp add: x k_def unsigned_of_nat take_bit_nat_eq_self)
  have "e16 = of_nat k"
    unfolding e16_def u using k by (simp add: unsigned_of_nat take_bit_nat_eq_self)
  then have e: "(ucast e16 :: u32) = of_nat k"
    using k by (simp add: unsigned_of_nat take_bit_nat_eq_self)
  then have v: "unat (ucast e16 :: u32) = k"
    using k by (simp add: unsigned_of_nat take_bit_nat_eq_self)
  then show "(ucast e16 :: u32) \<noteq> 0" "(ucast e16 :: u32) \<noteq> 0x7FF" using k by auto
  have "(ucast e16 :: u32) - 16383 + 1023 = of_nat n" unfolding e k_def by simp
  moreover have "scast (of_nat n :: u32) = (of_nat n :: u64)"
    using n by (simp add: signed_of_nat scast_eq signed_take_bit_int_eq_self)
  ultimately show "scast ((ucast e16 :: u32) - 16383 + 1023) = x" by (simp add: x)
qed

lemma sign_back: "(ucast (drop_bit 15 (push_bit 15 (ucast (drop_bit 63 (b :: u64) AND 1) :: u16))) :: u64)
  = drop_bit 63 b AND 1"
  by (rule bit_word_eqI) (auto simp: bit_simps)

lemma decode_encode:
  assumes "f64_recoverable b"
  shows "(case fxsave_encode b of (m, e, s) \<Rightarrow> fxrstor_decode m e s) = b"
proof -
  define x where "x = drop_bit 52 b AND 0x7FF"
  define mt where "mt = b AND 0xFFFFFFFFFFFFF"
  define sg where "sg = drop_bit 63 b AND 1"
  have parts: "b = (push_bit 63 sg OR push_bit 52 x OR mt)"
    unfolding x_def mt_def sg_def by (rule f64_parts)
  have xl: "unat x < 0x7FF" using assms by (simp add: f64_recoverable_def f64_exp_def x_def)
  have e32: "(ucast x :: u32) = 0 \<longleftrightarrow> x = 0" "(ucast x :: u32) \<noteq> 0x7FF"
    using xl by (auto simp: word_unat_eq_iff [where 'a = 32] unsigned_ucast_eq take_bit_nat_eq_self
        word_unat_eq_iff [where 'a = 64])
  show ?thesis
  proof (cases "x = 0 \<and> mt = 0")
    case True
    have "sg = 0 \<or> sg = 1" unfolding sg_def and_one_eq by (simp add: mod2_eq_if)
    then have "b = 0" using parts True assms by (auto simp: f64_recoverable_def)
    then show ?thesis by (simp add: fxsave_encode_def fxrstor_decode_def)
  next
    case False
    have enc: "fxsave_encode b = (push_bit 11 mt OR 0x8000000000000000,
        ucast (ucast x - 1023 + 16383 :: u32), push_bit 15 (ucast sg))"
      using False e32 by (auto simp: fxsave_encode_def Let_def x_def mt_def sg_def)
    show ?thesis
      unfolding enc prod.case fxrstor_decode_def Let_def
        if_not_P [OF exponent_back(1) [OF xl]] exponent_back(3) [OF xl]
      using exponent_back(1,2) [OF xl] mantissa_back [of b, folded mt_def] sign_back [of b, folded sg_def] parts
      by simp
  qed
qed

section \<open>The image in memory\<close>

lemma unat_add_image:
  assumes "16 dvd unat (a :: usize)" "n < 16"
  shows "unat (a + of_nat n) = unat a + n"
  using aligned_top [of 16 a] assms by (intro unat_add_of_nat64) auto

lemmas unat_image_fields =
  unat_add_image [of _ 8, simplified of_nat_numeral] unat_add_image [of _ 10, simplified of_nat_numeral]

lemma write_image_stores:
  assumes "16 dvd unat a"
  shows "stores (\<lambda>m. write_image m a r) a 12"
proof -
  note u = unat_image_fields [OF assms, simplified]
  have d: "8 dvd unat a" "2 dvd unat (a + 8)" "2 dvd unat (a + 10)"
    using assms dvd_trans [of 8 16] dvd_trans [of 2 16] by (auto simp: u)
  have t: "unat a + 16 \<le> 2 ^ 64" using aligned_top [of 16 a] assms by simp
  have "stores (\<lambda>m. write_u16 (write_u64 m a (fst r)) (a + 8) (fst (snd r))) a (8 + 2)"
    by (rule stores_seq [OF stores_write(4) [OF d(1)]]) (use stores_write(2) [OF d(2)] t in simp_all)
  then have "stores (\<lambda>m. write_image m a r) a (8 + 2 + 2)"
    unfolding write_image_def
    by (rule stores_seq) (use stores_write(2) [OF d(3)] t in simp_all)
  then show ?thesis by simp
qed

lemma read_write_image:
  assumes wf: "mem_wf m" and a: "16 dvd unat a" and b: "16 dvd unat b"
  shows "read_image (write_image m a r) b = (if b = a \<and> backed m a then r else read_image m b)"
proof (cases "b = a")
  case False
  then have "unat a \<noteq> unat b" by (simp add: word_unat_eq_iff)
  moreover obtain p q where "unat a = 16 * p" "unat b = 16 * q" using a b by (auto elim!: dvdE)
  ultimately have sep: "unat a + 16 \<le> unat b \<or> unat b + 16 \<le> unat a" by auto
  note u = unat_image_fields [OF b, simplified]
  have d: "8 dvd unat b" "2 dvd unat (b + 8)" "2 dvd unat (b + 10)"
    using b dvd_trans [of 8 16] dvd_trans [of 2 16] by (auto simp: u)
  note fr = stores_frame(5,7) [OF write_image_stores [OF a, of r] wf]
  have "read_u16 (write_image m a r) (b + 8) = read_u16 m (b + 8)"
    "read_u16 (write_image m a r) (b + 10) = read_u16 m (b + 10)"
    "read_u64 (write_image m a r) b = read_u64 m b"
    using sep by (auto intro!: fr d simp: apart_def u)
  then show ?thesis using False by (simp add: read_image_def)
next
  case True
  note u = unat_image_fields [OF a, simplified]
  have d: "8 dvd unat a" "2 dvd unat a" "2 dvd unat (a + 8)" "2 dvd unat (a + 10)"
    using a dvd_trans [of 8 16] dvd_trans [of 2 16] by (auto simp: u)
  note bk = backed_aligned_block [OF wf _ a, of 8] backed_aligned_block [OF wf _ a, of 10]
  define m1 where "m1 = write_u64 m a (fst r)"
  define m2 where "m2 = write_u16 m1 (a + 8) (fst (snd r))"
  have w1: "mem_wf m1" "backed m1 = backed m"
    using wf d by (simp_all add: m1_def write_u64_wf write_u64_backed)
  have w2: "mem_wf m2" "backed m2 = backed m"
    using w1 d by (simp_all add: m2_def write_u16_wf write_u16_backed)
  have ne: "a + 8 \<noteq> a + 10" by simp
  have "read_u64 (write_image m a r) a = (if backed m a then fst r else read_u64 m a)"
    using stores_frame(7) [OF stores_write(2) [OF d(4)] w2(1) d(1)]
      stores_frame(7) [OF stores_write(2) [OF d(3)] w1(1) d(1)]
    by (simp add: write_image_def read_write_u64 [OF wf d(1) d(1)] apart_def u
        flip: m1_def m2_def) (simp add: m2_def m1_def read_write_u64 [OF wf d(1) d(1)])
  moreover have "read_u16 (write_image m a r) (a + 8) =
      (if backed m a then fst (snd r) else read_u16 m (a + 8))"
    using stores_frame(5) [OF stores_write(4) [OF d(1)] wf d(3), of "fst r", folded m1_def] bk w1 w2 ne
      read_write_u16 [OF w1(1) d(3) d(3), of "fst (snd r)"] read_write_u16 [OF w2(1) d(4) d(3)]
    by (simp add: write_image_def apart_def u flip: m1_def m2_def)
  moreover have "read_u16 (write_image m a r) (a + 10) =
      (if backed m a then snd (snd r) else read_u16 m (a + 10))"
    using stores_frame(5) [OF stores_write(4) [OF d(1)] wf d(4), of "fst r", folded m1_def] bk w1 w2 ne
      read_write_u16 [OF w1(1) d(3) d(4), of "fst (snd r)"] read_write_u16 [OF w2(1) d(4) d(4)]
    by (simp add: write_image_def apart_def u flip: m1_def m2_def)
  ultimately show ?thesis using True by (simp add: read_image_def)
qed

interpretation fx_image: word_store mem_wf "\<lambda>a. 16 dvd unat a" backed read_image write_image
proof unfold_locales
  fix m :: memory and a :: usize and r assume m: "mem_wf m" and a: "16 dvd unat a"
  show "mem_wf (write_image m a r)" "backed (write_image m a r) = backed m"
    using stores_frame(1,2) [OF write_image_stores [OF a] m] by simp_all
qed (rule read_write_image)

lemma fold_list_update:
  "n \<le> length xs \<Longrightarrow> fold (\<lambda>i xs. xs[i := g i]) [0..<n] xs = map g [0..<n] @ drop n xs"
  by (induction n) (simp_all add: list_update_append Cons_nth_drop_Suc [symmetric] split: nat.split)

lemma fold_st_update:
  "fold (\<lambda>i f. f\<lparr>fpu_st := (fpu_st f)[i := g i]\<rparr>) is f =
    f\<lparr>fpu_st := fold (\<lambda>i xs. xs[i := g i]) is (fpu_st f)\<rparr>"
  by (induction "is" arbitrary: f) simp_all

lemma fxrstor_st:
  "length (fpu_st f) = 8 \<Longrightarrow>
    fpu_st (fxrstor f m addr) = map (\<lambda>i. fxrstor_reg m (addr + 32 + of_nat i * 16)) [0..<8]"
  by (simp add: fxrstor_def fold_st_update fold_list_update del: upt_rec_numeral)



text \<open>
  The values the image loses: an infinity comes back as 1.0 (of its sign), and
  negative zero as zero.
\<close>

lemma fxrstor_infinity:
  "(case fxsave_encode 0x7FF0000000000000 of (m, e, s) \<Rightarrow> fxrstor_decode m e s) = 0x3FF0000000000000"
  by code_simp

lemma fxrstor_negative_zero:
  "(case fxsave_encode 0x8000000000000000 of (m, e, s) \<Rightarrow> fxrstor_decode m e s) = 0"
  by code_simp

end
