(* ===== verification/Virtio.thy ===== *)
theory Virtio imports Memory_Fields begin

text \<open>
  The legacy virtio block device (src/src/virtio.rs): the register window, the
  split ring in guest memory, the walk of a descriptor chain and the requests.
  The lemmas show that a notify consumes everything the driver made available
  and terminates, that a read request scatters exactly the addressed slice of
  the disk, that a write request gathers its buffers into that slice and
  nothing else, and that a request past the end of the disk is refused.
\<close>

unbundle bit_operations_syntax

definition VRING_DESC_F_NEXT :: u16 where [simp]: "VRING_DESC_F_NEXT = 1"
definition VRING_DESC_F_WRITE :: u16 where [simp]: "VRING_DESC_F_WRITE = 2"
definition VIRTIO_BLK_T_IN :: u32 where [simp]: "VIRTIO_BLK_T_IN = 0"
definition VIRTIO_BLK_T_OUT :: u32 where [simp]: "VIRTIO_BLK_T_OUT = 1"
definition VIRTIO_BLK_T_FLUSH :: u32 where [simp]: "VIRTIO_BLK_T_FLUSH = 4"
definition VIRTIO_BLK_T_GET_ID :: u32 where [simp]: "VIRTIO_BLK_T_GET_ID = 8"
definition VIRTIO_BLK_S_OK :: u8 where [simp]: "VIRTIO_BLK_S_OK = 0"
definition VIRTIO_BLK_S_IOERR :: u8 where [simp]: "VIRTIO_BLK_S_IOERR = 1"
definition VIRTIO_BLK_S_UNSUPP :: u8 where [simp]: "VIRTIO_BLK_S_UNSUPP = 2"
definition QUEUE_SIZE :: u16 where [simp]: "QUEUE_SIZE = 128"
definition QUEUE_ALIGN :: u64 where [simp]: "QUEUE_ALIGN = 4096"
definition SECTOR :: u64 where [simp]: "SECTOR = 512"

record virtio_blk =
  vb_disk :: "u8 list"
  guest_features :: u32
  vb_status :: u8
  queue_sel :: u16
  queue_pfn :: u32
  vb_isr :: u8
  vb_irq :: bool
  last_avail :: u16

definition virtio_new :: virtio_blk where
  "virtio_new = \<lparr>vb_disk = [], guest_features = 0, vb_status = 0, queue_sel = 0, queue_pfn = 0,
     vb_isr = 0, vb_irq = False, last_avail = 0\<rparr>"

definition attach :: "virtio_blk \<Rightarrow> u8 list \<Rightarrow> virtio_blk" where
  "attach b img = b\<lparr>vb_disk := img\<rparr>"

definition vb_present :: "virtio_blk \<Rightarrow> bool" where
  "vb_present b \<longleftrightarrow> vb_disk b \<noteq> []"

definition capacity :: "virtio_blk \<Rightarrow> u64" where
  "capacity b = of_nat (length (vb_disk b)) div SECTOR"

definition virtio_read :: "virtio_blk \<Rightarrow> u16 \<Rightarrow> nat \<Rightarrow> u32 \<times> virtio_blk" where
  "virtio_read b offset sz =
     (if offset = 0x00 then (0, b)
      else if offset = 0x04 then (guest_features b, b)
      else if offset = 0x08 then (queue_pfn b, b)
      else if offset = 0x0C then (ucast QUEUE_SIZE, b)
      else if offset = 0x0E then (ucast (queue_sel b), b)
      else if offset = 0x12 then (ucast (vb_status b), b)
      else if offset = 0x13 then (ucast (vb_isr b), b\<lparr>vb_isr := 0, vb_irq := False\<rparr>)
      else if 0x14 \<le> offset \<and> offset \<le> 0x1B then
        (let shift = (offset - 0x14) * 8; value = drop_bit (unat shift) (capacity b) in
         (if sz = 1 then ucast (value AND 0xFF)
          else if sz = 2 then ucast (value AND 0xFFFF)
          else ucast value, b))
      else (0, b))"

text \<open>\<open>u64::div_ceil\<close> (standard library).\<close>

definition div_ceil :: "u64 \<Rightarrow> u64 \<Rightarrow> u64" where
  "div_ceil x y = x div y + (if x mod y \<noteq> 0 then 1 else 0)"

definition virtio_ring :: "virtio_blk \<Rightarrow> u64 \<times> u64 \<times> u64" where
  "virtio_ring b =
     (let desc = ucast (queue_pfn b) * 4096;
          avail = desc + 16 * ucast QUEUE_SIZE;
          used_unaligned = avail + 4 + 2 * ucast QUEUE_SIZE + 2;
          used = div_ceil used_unaligned QUEUE_ALIGN * QUEUE_ALIGN
      in (desc, avail, used))"

section \<open>Requests\<close>

type_synonym desc = "u64 \<times> u32 \<times> u16"

text \<open>The descriptor chain from \<open>index\<close>, at most \<open>n\<close> entries of it.\<close>

fun virtio_chain :: "memory \<Rightarrow> u64 \<Rightarrow> u16 \<Rightarrow> nat \<Rightarrow> desc list" where
  "virtio_chain m desc index 0 = []"
| "virtio_chain m desc index (Suc n) =
     (let entry = desc + ucast index * 16;
          addr = read_u64 m entry; len = read_u32 m (entry + 8);
          flags = read_u16 m (entry + 12); nxt = read_u16 m (entry + 14)
      in (addr, len, flags) #
         (if flags AND VRING_DESC_F_NEXT = 0 then [] else virtio_chain m desc nxt n))"

text \<open>The byte loops of a read: one buffer, then the list of buffers.\<close>

fun in_bytes :: "u8 list \<Rightarrow> memory \<Rightarrow> u64 \<Rightarrow> u64 \<Rightarrow> nat \<Rightarrow> memory \<times> bool" where
  "in_bytes disk m addr off 0 = (m, True)"
| "in_bytes disk m addr off (Suc n) =
     (if unat off < length disk
      then in_bytes disk (write_u8 m addr (disk ! unat off)) (addr + 1) (off + 1) n
      else (m, False))"

fun in_data :: "u8 list \<Rightarrow> memory \<Rightarrow> u64 \<Rightarrow> u32 \<Rightarrow> desc list \<Rightarrow> memory \<times> bool \<times> u32" where
  "in_data disk m offset written [] = (m, True, written)"
| "in_data disk m offset written ((addr, len, flags) # ds) =
     (if flags AND VRING_DESC_F_WRITE = 0 then (m, False, written)
      else
        (let (m', ok1) = in_bytes disk m addr offset (unat len);
             (m'', ok2, w) = in_data disk m' (offset + ucast len) (written + len) ds
         in (m'', ok1 \<and> ok2, w)))"

fun out_bytes :: "memory \<Rightarrow> u8 list \<Rightarrow> u64 \<Rightarrow> u64 \<Rightarrow> nat \<Rightarrow> u8 list \<times> bool" where
  "out_bytes m disk addr off 0 = (disk, True)"
| "out_bytes m disk addr off (Suc n) =
     (if unat off \<ge> length disk then (disk, False)
      else out_bytes m (disk[unat off := read_u8 m addr]) (addr + 1) (off + 1) n)"

fun out_data :: "memory \<Rightarrow> u8 list \<Rightarrow> u64 \<Rightarrow> desc list \<Rightarrow> u8 list \<times> bool" where
  "out_data m disk offset [] = (disk, True)"
| "out_data m disk offset ((addr, len, flags) # ds) =
     (let (disk', ok1) = out_bytes m disk addr offset (unat len);
          (disk'', ok2) = out_data m disk' (offset + ucast len) ds
      in (disk'', ok1 \<and> ok2))"

fun zero_bytes :: "memory \<Rightarrow> u64 \<Rightarrow> nat \<Rightarrow> memory" where
  "zero_bytes m addr 0 = m"
| "zero_bytes m addr (Suc n) = zero_bytes (write_u8 m addr 0) (addr + 1) n"

fun id_data :: "memory \<Rightarrow> u32 \<Rightarrow> desc list \<Rightarrow> memory \<times> u32" where
  "id_data m written [] = (m, written)"
| "id_data m written ((addr, len, flags) # ds) =
     id_data (zero_bytes m addr (unat len)) (written + len) ds"

definition virtio_request :: "virtio_blk \<Rightarrow> memory \<Rightarrow> u64 \<Rightarrow> u16 \<Rightarrow> u32 \<times> virtio_blk \<times> memory" where
  "virtio_request b m desc head =
     (let chain = virtio_chain m desc head (unat QUEUE_SIZE) in
      if length chain < 2 then (0, b, m)
      else
        (let hdr_addr = fst (chain ! 0);
             req_type = read_u32 m hdr_addr;
             sector = read_u64 m (hdr_addr + 8);
             status_at = fst (chain ! (length chain - 1));
             data = butlast (tl chain);
             (st, written, b', m') =
               (if req_type = VIRTIO_BLK_T_IN then
                  (let (m', ok, w) = in_data (vb_disk b) m (sector * SECTOR) 0 data
                   in (if ok then VIRTIO_BLK_S_OK else VIRTIO_BLK_S_IOERR, w, b, m'))
                else if req_type = VIRTIO_BLK_T_OUT then
                  (let (disk', ok) = out_data m (vb_disk b) (sector * SECTOR) data
                   in (if ok then VIRTIO_BLK_S_OK else VIRTIO_BLK_S_IOERR, 0, b\<lparr>vb_disk := disk'\<rparr>, m))
                else if req_type = VIRTIO_BLK_T_FLUSH then (VIRTIO_BLK_S_OK, 0, b, m)
                else if req_type = VIRTIO_BLK_T_GET_ID then
                  (let (m', w) = id_data m 0 data in (VIRTIO_BLK_S_OK, w, b, m'))
                else (VIRTIO_BLK_S_UNSUPP, 0, b, m))
         in (written + 1, b', write_u8 m' status_at st)))"

lemma request_last_avail [simp]:
  "last_avail (fst (snd (virtio_request b m desc head))) = last_avail b"
  by (simp add: virtio_request_def Let_def split_beta)

text \<open>One round of the notify loop, and the loop: \<open>while avail_idx.wrapping_sub(last_avail) != 0\<close>.\<close>

definition notify_one :: "u64 \<Rightarrow> u64 \<Rightarrow> u64 \<Rightarrow> virtio_blk \<times> memory \<Rightarrow> virtio_blk \<times> memory" where
  "notify_one desc avail used bm =
     (let (b, m) = bm;
          sl = last_avail b mod QUEUE_SIZE;
          head = read_u16 m (avail + 4 + ucast sl * 2);
          (written, b, m) = virtio_request b m desc head;
          used_slot = read_u16 m (used + 2) mod QUEUE_SIZE;
          entry = used + 4 + ucast used_slot * 8;
          m = write_u32 m entry (ucast head);
          m = write_u32 m (entry + 4) written;
          used_idx = read_u16 m (used + 2);
          m = write_u16 m (used + 2) (used_idx + 1)
      in (b\<lparr>last_avail := last_avail b + 1\<rparr>, m))"

lemma notify_one_last_avail [simp]:
  "last_avail (fst (notify_one desc avail used (b, m))) = last_avail b + 1"
  by (simp add: notify_one_def Let_def split_beta)

function notify_loop :: "u64 \<Rightarrow> u64 \<Rightarrow> u64 \<Rightarrow> u16 \<Rightarrow> virtio_blk \<times> memory \<Rightarrow> virtio_blk \<times> memory" where
  "notify_loop desc avail used avail_idx bm =
     (if avail_idx - last_avail (fst bm) \<noteq> 0
      then notify_loop desc avail used avail_idx (notify_one desc avail used bm)
      else bm)"
  by pat_completeness auto

lemma unat_pred: "(x :: 'a::len word) \<noteq> 0 \<Longrightarrow> unat (x - 1) < unat x"
  by (simp add: unat_minus_one unat_gt_0)

termination notify_loop
  by (relation "measure (\<lambda>(_, _, _, avail_idx, bm). unat (avail_idx - last_avail (fst bm)))")
    (auto simp: diff_diff_eq [symmetric] intro!: unat_pred)

declare notify_loop.simps [simp del]

definition notify :: "virtio_blk \<Rightarrow> memory \<Rightarrow> virtio_blk \<times> memory" where
  "notify b m =
     (if queue_pfn b = 0 then (b, m)
      else
        (let (desc, avail, used) = virtio_ring b;
             avail_idx = read_u16 m (avail + 2);
             worked = (avail_idx - last_avail b \<noteq> 0);
             (b', m') = notify_loop desc avail used avail_idx (b, m)
         in (if worked then b'\<lparr>vb_isr := vb_isr b' OR 1, vb_irq := True\<rparr> else b', m')))"

definition virtio_write :: "virtio_blk \<Rightarrow> u16 \<Rightarrow> u32 \<Rightarrow> memory \<Rightarrow> virtio_blk \<times> memory" where
  "virtio_write b offset value m =
     (if offset = 0x04 then (b\<lparr>guest_features := value\<rparr>, m)
      else if offset = 0x08 then (b\<lparr>queue_pfn := value, last_avail := 0\<rparr>, m)
      else if offset = 0x0E then (b\<lparr>queue_sel := ucast value\<rparr>, m)
      else if offset = 0x10 then notify b m
      else if offset = 0x12 then
        (let b' = b\<lparr>vb_status := ucast value\<rparr> in
         (if value = 0 then b'\<lparr>queue_pfn := 0, last_avail := 0, vb_isr := 0, vb_irq := False\<rparr> else b', m))
      else (b, m))"

section \<open>Notify\<close>

text \<open>The number of rounds the loop makes, as a fold over them.\<close>

lemma notify_loop_rounds:
  "notify_loop desc avail used avail_idx bm =
    (notify_one desc avail used ^^ unat (avail_idx - last_avail (fst bm))) bm"
proof (induction desc avail used avail_idx bm rule: notify_loop.induct)
  case (1 desc avail used avail_idx bm)
  show ?case
  proof (cases "avail_idx - last_avail (fst bm) = 0")
    case True
    then show ?thesis by (subst notify_loop.simps) simp
  next
    case False
    then obtain n where n: "unat (avail_idx - last_avail (fst bm)) = Suc n"
      by (metis not0_implies_Suc unat_eq_zero)
    then have "unat (avail_idx - last_avail (fst bm) - 1) = n"
      using False by (simp add: unat_minus_one)
    then have "unat (avail_idx - last_avail (fst (notify_one desc avail used bm))) = n"
      by (cases bm) (simp add: diff_diff_eq)
    then show ?thesis
      using 1 False n by (subst notify_loop.simps) (simp add: funpow_swap1)
  qed
qed

lemma notify_rounds_last_avail:
  "last_avail (fst ((notify_one desc avail used ^^ n) bm)) = last_avail (fst bm) + of_nat n"
proof (induction n)
  case (Suc n)
  then show ?case
    by (cases "(notify_one desc avail used ^^ n) bm") (simp add: add.assoc)
qed simp

text \<open>C26: A notify on a programmed queue returns for every memory content and consumes exactly the
  requests between the device's position and the driver's free-running index, wrap-around of the
  16-bit counters included: afterwards the position is the driver's index, and the interrupt is
  raised if and only if there was a request (it is never withdrawn).\<close>

theorem notify_consumes_all:
  fixes m :: memory
  assumes "queue_pfn b \<noteq> 0"
  defines "ring \<equiv> virtio_ring b"
  defines "idx \<equiv> read_u16 m (fst (snd ring) + 2)"
  shows "last_avail (fst (notify b m)) = idx \<and>
    snd (notify b m) = snd ((notify_one (fst ring) (fst (snd ring)) (snd (snd ring)) ^^
      unat (idx - last_avail b)) (b, m)) \<and>
    (idx \<noteq> last_avail b \<longrightarrow> vb_irq (fst (notify b m)) \<and> bit (vb_isr (fst (notify b m))) 0) \<and>
    (idx = last_avail b \<longrightarrow> notify b m = (b, m))"
proof -
  obtain desc avail used where r: "virtio_ring b = (desc, avail, used)" by (cases "virtio_ring b")
  have "last_avail b + of_nat (unat (idx - last_avail b)) = idx" by simp
  then have l: "last_avail (fst (notify_loop desc avail used idx (b, m))) = idx"
    by (simp only: notify_loop_rounds notify_rounds_last_avail fst_conv)
  have "bit (x OR 1 :: u8) 0" for x by (simp add: bit_or_iff)
  then show ?thesis
    using assms(1) l notify_loop_rounds [of desc avail used idx "(b, m)"]
    by (auto simp: notify_def ring_def idx_def r Let_def split_beta)
qed

theorem notify_consumes_all_witness:
  "last_avail (fst (notify (virtio_new\<lparr>queue_pfn := 16\<rparr>) (with_size 0x100000 None))) =
   read_u16 (with_size 0x100000 None) 0x10802"
  using notify_consumes_all [of "virtio_new\<lparr>queue_pfn := 16\<rparr>" "with_size 0x100000 None"]
  by (simp add: virtio_ring_def virtio_new_def)

section \<open>Reading sectors\<close>

lemma unat_add1_bound: "unat (a :: u64) + Suc n \<le> 2 ^ 64 \<Longrightarrow> n \<noteq> 0 \<Longrightarrow> unat (a + 1) = Suc (unat a)"
  by (subst unat_add_one64) simp_all

text \<open>A buffer of a read takes the next slice of the disk.\<close>

lemma in_bytes_spec:
  "unat off + n \<le> 2 ^ 64 \<Longrightarrow>
    in_bytes disk m addr off n =
      (write_bytes m addr (take n (drop (unat off) disk)), n = 0 \<or> unat off + n \<le> length disk)"
proof (induction n arbitrary: m addr off)
  case (Suc n)
  show ?case
  proof (cases "unat off < length disk")
    case True
    then have d: "drop (unat off) disk = disk ! unat off # drop (Suc (unat off)) disk"
      by (simp add: Cons_nth_drop_Suc)
    show ?thesis
    proof (cases "n = 0")
      case False
      have u: "unat (off + 1) = Suc (unat off)" using unat_add1_bound [OF Suc.prems False] .
      then show ?thesis using Suc.IH [of "off + 1"] Suc.prems True False d by simp
    qed (use True d in simp)
  qed simp
qed simp

text \<open>What a driver's scatter list should receive, buffer by buffer.\<close>

fun scatter :: "memory \<Rightarrow> desc list \<Rightarrow> u8 list \<Rightarrow> memory" where
  "scatter m [] bs = m"
| "scatter m ((addr, len, flags) # ds) bs =
     scatter (write_bytes m addr (take (unat len) bs)) ds (drop (unat len) bs)"

definition total_len :: "desc list \<Rightarrow> nat" where
  "total_len ds = sum_list (map (\<lambda>(_, len, _). unat len) ds)"

lemma total_len_simps [simp]:
  "total_len [] = 0" "total_len ((addr, len, flags) # ds) = unat len + total_len ds"
  by (simp_all add: total_len_def)

definition desc_writable :: "desc \<Rightarrow> bool" where
  "desc_writable d \<longleftrightarrow> snd (snd d) AND VRING_DESC_F_WRITE \<noteq> 0"

lemma unat_add_len:
  "unat (off :: u64) + unat (len :: u32) < 2 ^ 64 \<Longrightarrow> unat (off + ucast len) = unat off + unat len"
  by (subst unat_add_nowrap) (simp_all add: unat_ucast_wide)

lemma in_data_spec:
  assumes "\<forall>d \<in> set ds. desc_writable d" "unat off + total_len ds \<le> length disk" "length disk < 2 ^ 64"
  shows "in_data disk m off w ds =
    (scatter m ds (drop (unat off) disk), True, w + of_nat (total_len ds))"
  using assms
proof (induction ds arbitrary: m off w)
  case (Cons d ds)
  obtain addr len flags where d: "d = (addr, len, flags)" by (cases d)
  have u: "unat (off + ucast len) = unat off + unat len"
    using Cons.prems d by (intro unat_add_len) simp
  have s: "w + len + of_nat (total_len ds) = w + of_nat (unat len + total_len ds)"
    by (simp add: add.assoc)
  have b: "in_bytes disk m addr off (unat len) = (write_bytes m addr (take (unat len) (drop (unat off) disk)), True)"
    using Cons.prems d by (subst in_bytes_spec) auto
  have wr: "flags AND VRING_DESC_F_WRITE \<noteq> 0" using Cons.prems(1) d by (simp add: desc_writable_def)
  show ?case
    unfolding d in_data.simps if_not_P [OF wr] b Let_def prod.case
    using Cons.IH [of "off + ucast len"] Cons.prems d by (simp add: u s add.commute)
qed simp

text \<open>A read request whose chain is a header, device-writable buffers of any number and sizes
  and a status byte, and whose range lies on the disk, fills the buffers in order with exactly the
  addressed bytes of the disk, leaves the disk alone, reports success in the status byte and
  returns the number of bytes written, the status byte included.\<close>

theorem virtio_read_request:
  assumes "virtio_chain m desc head 128 = (hdr, hl, hf) # ds @ [(status_at, sl, sf)]"
    and "read_u32 m hdr = VIRTIO_BLK_T_IN" "\<forall>d \<in> set ds. desc_writable d"
    and "unat (read_u64 m (hdr + 8)) * 512 + total_len ds \<le> length (vb_disk b)"
    and "length (vb_disk b) < 2 ^ 64"
  shows "virtio_request b m desc head =
    (of_nat (total_len ds) + 1, b,
     write_u8 (scatter m ds (drop (unat (read_u64 m (hdr + 8)) * 512) (vb_disk b))) status_at VIRTIO_BLK_S_OK)"
proof -
  let ?s = "read_u64 m (hdr + 8)"
  have u: "unat (?s * 512) = unat ?s * 512"
    using assms(4,5) by (simp add: unat_word_ariths)
  have i: "in_data (vb_disk b) m (?s * SECTOR) 0 ds =
      (scatter m ds (drop (unat ?s * 512) (vb_disk b)), True, of_nat (total_len ds))"
    using in_data_spec [OF assms(3) _ assms(5), of "?s * SECTOR" m 0] assms(4) by (simp add: u)
  show ?thesis
    unfolding virtio_request_def using assms(1,2) i
    by (simp add: Let_def butlast_append nth_append)
qed

text \<open>A memory with a three-entry chain at page frame 1: header, a two-byte buffer, status.\<close>

definition sample_chain :: "u8 \<Rightarrow> memory" where
  "sample_chain t = (with_size 0x100000 None)\<lparr>mem_data := (\<lambda>_. 0)(0x1001 := 0x20, 0x100C := 1, 0x100E := 1,
     0x1011 := 0x30, 0x1018 := 2, 0x101C := 3, 0x101E := 2, 0x1021 := 0x40, 0x2000 := t)\<rparr>"

lemma sample_chain_layout:
  "low_size (sample_chain t) = 0x100000" "ram_size (sample_chain t) = 0x100000"
  "mem_data (sample_chain t) = (\<lambda>_. 0)(0x1001 := 0x20, 0x100C := 1, 0x100E := 1,
     0x1011 := 0x30, 0x1018 := 2, 0x101C := 3, 0x101E := 2, 0x1021 := 0x40, 0x2000 := t)"
  by (simp_all add: sample_chain_def with_size_def)

lemmas sample_chain_reads = read_u16_def read_u32_def read_u64_def data_u64_def slot_def sample_chain_layout
  join16_def join32_def join64_def

lemma sample_chain_entries:
  "read_u64 (sample_chain t) 0x1000 = 0x2000" "read_u32 (sample_chain t) 0x1008 = 0"
  "read_u16 (sample_chain t) 0x100C = 1" "read_u16 (sample_chain t) 0x100E = 1"
  "read_u64 (sample_chain t) 0x1010 = 0x3000" "read_u32 (sample_chain t) 0x1018 = 2"
  "read_u16 (sample_chain t) 0x101C = 3" "read_u16 (sample_chain t) 0x101E = 2"
  "read_u64 (sample_chain t) 0x1020 = 0x4000" "read_u32 (sample_chain t) 0x1028 = 0"
  "read_u16 (sample_chain t) 0x102C = 0"
  "read_u32 (sample_chain t) 0x2000 = ucast t" "read_u64 (sample_chain t) 0x2008 = 0"
  by (simp_all add: sample_chain_reads)

lemma sample_chain_walk:
  "virtio_chain (sample_chain t) 0x1000 0 128 = [(0x2000, 0, 1), (0x3000, 2, 3), (0x4000, 0, 0)]"
proof -
  have "virtio_chain (sample_chain t) 0x1000 0 (Suc (Suc (Suc 125))) =
      [(0x2000, 0, 1), (0x3000, 2, 3), (0x4000, 0, 0)]"
    by (simp only: virtio_chain.simps) (simp add: Let_def sample_chain_entries)
  then show ?thesis by simp
qed

theorem virtio_read_request_witness:
  "virtio_request (virtio_new\<lparr>vb_disk := [7, 8, 9]\<rparr>) (sample_chain 0) 0x1000 0 =
   (3, virtio_new\<lparr>vb_disk := [7, 8, 9]\<rparr>,
    write_u8 (write_bytes (sample_chain 0) 0x3000 [7, 8]) 0x4000 VIRTIO_BLK_S_OK)"
proof -
  show ?thesis
    using virtio_read_request [of "sample_chain 0" "0x1000" 0 "0x2000" 0 1 "[(0x3000, 2, 3)]" "0x4000" 0 0
        "virtio_new\<lparr>vb_disk := [7, 8, 9]\<rparr>"] sample_chain_walk
    by (simp add: desc_writable_def sample_chain_entries)
qed

section \<open>Writing sectors\<close>

definition gather :: "memory \<Rightarrow> desc list \<Rightarrow> u8 list" where
  "gather m ds = concat (map (\<lambda>(addr, len, _). map (\<lambda>k. read_u8 m (addr + of_nat k)) [0..<unat len]) ds)"

lemma gather_simps [simp]:
  "gather m [] = []"
  "gather m ((addr, len, flags) # ds) =
     map (\<lambda>k. read_u8 m (addr + of_nat k)) [0..<unat len] @ gather m ds"
  by (simp_all add: gather_def)

lemma gather_length: "length (gather m ds) = total_len ds"
  by (induction ds) auto

text \<open>\<open>xs\<close> with the bytes \<open>bs\<close> laid over it from \<open>i\<close>.\<close>

definition overlay :: "'a list \<Rightarrow> nat \<Rightarrow> 'a list \<Rightarrow> 'a list" where
  "overlay xs i bs = take i xs @ bs @ drop (i + length bs) xs"

lemma overlay_simps [simp]:
  "overlay xs i [] = xs"
  "i + length bs \<le> length xs \<Longrightarrow> length (overlay xs i bs) = length xs"
  by (simp_all add: overlay_def)

lemma overlay_Cons:
  "i < length xs \<Longrightarrow> overlay (xs[i := b]) (Suc i) bs = overlay xs i (b # bs)"
  by (simp add: overlay_def take_Suc_conv_app_nth)

lemma overlay_append:
  "i + length as \<le> length xs \<Longrightarrow>
    overlay (overlay xs i as) (i + length as) bs = overlay xs i (as @ bs)"
  by (simp add: overlay_def ac_simps)

lemma overlay_slice:
  "i + length bs \<le> length xs \<Longrightarrow> take (length bs) (drop i (overlay xs i bs)) = bs"
  by (simp add: overlay_def)

lemma out_bytes_spec:
  "unat off + n \<le> length disk \<Longrightarrow> length disk < 2 ^ 64 \<Longrightarrow>
    out_bytes m disk addr off n =
      (overlay disk (unat off) (map (\<lambda>k. read_u8 m (addr + of_nat k)) [0..<n]), True)"
proof (induction n arbitrary: disk addr off)
  case (Suc n)
  let ?d = "disk[unat off := read_u8 m addr]"
  have u: "unat (off + 1) = Suc (unat off)" using Suc.prems by (subst unat_add_one64) simp_all
  have e: "map (\<lambda>k. read_u8 m (addr + of_nat k)) [0..<Suc n] =
      read_u8 m addr # map (\<lambda>k. read_u8 m (addr + 1 + of_nat k)) [0..<n]"
    unfolding upt_rec [of 0 "Suc n"] map_Suc_upt [symmetric] by (simp add: add.assoc del: upt_Suc)
  have "out_bytes m disk addr off (Suc n) = out_bytes m ?d (addr + 1) (off + 1) n"
    using Suc.prems by simp
  also have "\<dots> = (overlay ?d (unat (off + 1)) (map (\<lambda>k. read_u8 m (addr + 1 + of_nat k)) [0..<n]), True)"
    using Suc.prems u by (intro Suc.IH) simp_all
  finally show ?case unfolding e u using Suc.prems by (simp add: overlay_Cons)
qed simp

lemma out_data_spec:
  assumes "unat off + total_len ds \<le> length disk" "length disk < 2 ^ 64"
  shows "out_data m disk off ds = (overlay disk (unat off) (gather m ds), True)"
  using assms
proof (induction ds arbitrary: disk off)
  case (Cons d ds)
  obtain addr len flags where d: "d = (addr, len, flags)" by (cases d)
  let ?bs = "map (\<lambda>k. read_u8 m (addr + of_nat k)) [0..<unat len]"
  have u: "unat (off + ucast len) = unat off + length ?bs"
    using Cons.prems d by (simp add: unat_add_len)
  have b: "out_bytes m disk addr off (unat len) = (overlay disk (unat off) ?bs, True)"
    using Cons.prems d by (intro out_bytes_spec) simp_all
  have "out_data m (overlay disk (unat off) ?bs) (off + ucast len) ds =
      (overlay (overlay disk (unat off) ?bs) (unat (off + ucast len)) (gather m ds), True)"
    using Cons.prems d u by (intro Cons.IH) simp_all
  then show ?case
    using Cons.prems overlay_append [of "unat off" ?bs disk "gather m ds"]
    by (simp add: d b u Let_def)
qed simp

lemma virtio_write_request_eq:
  assumes "virtio_chain m desc head 128 = (hdr, hl, hf) # ds @ [(status_at, sl, sf)]"
    and "read_u32 m hdr = VIRTIO_BLK_T_OUT"
    and "unat (read_u64 m (hdr + 8)) * 512 + total_len ds \<le> length (vb_disk b)"
    and "length (vb_disk b) < 2 ^ 64"
  shows "virtio_request b m desc head =
    (1, b\<lparr>vb_disk := overlay (vb_disk b) (unat (read_u64 m (hdr + 8)) * 512) (gather m ds)\<rparr>,
     write_u8 m status_at VIRTIO_BLK_S_OK)"
proof -
  let ?s = "read_u64 m (hdr + 8)"
  have u: "unat (?s * 512) = unat ?s * 512"
    using assms(3,4) by (simp add: unat_word_ariths)
  have "out_data m (vb_disk b) (?s * 512) ds = (overlay (vb_disk b) (unat ?s * 512) (gather m ds), True)"
    using out_data_spec [of "?s * 512" ds "vb_disk b" m] assms(3,4) by (simp add: u)
  then show ?thesis
    unfolding virtio_request_def using assms(1,2)
    by (simp add: Let_def butlast_append nth_append)
qed

text \<open>C27: A write request followed by a read request of the same sectors, each with buffers of its
  own number and sizes but the same total length, delivers to the reader the bytes the writer's
  buffers held when it was served, and the rest of the disk is as it was.\<close>

theorem virtio_write_then_read:
  assumes w: "virtio_chain m desc head 128 = (hdr, hl, hf) # ds @ [(status_at, sl, sf)]"
      "read_u32 m hdr = VIRTIO_BLK_T_OUT"
      "unat (read_u64 m (hdr + 8)) * 512 + total_len ds \<le> length (vb_disk b)"
      "length (vb_disk b) < 2 ^ 64"
    and r: "virtio_chain m' desc head' 128 = (hdr', hl', hf') # ds' @ [(status_at', sl', sf')]"
      "read_u32 m' hdr' = VIRTIO_BLK_T_IN" "\<forall>d \<in> set ds'. desc_writable d"
      "read_u64 m' (hdr' + 8) = read_u64 m (hdr + 8)" "total_len ds' = total_len ds"
  defines "b' \<equiv> fst (snd (virtio_request b m desc head))"
  shows "snd (snd (virtio_request b' m' desc head')) =
      write_u8 (scatter m' ds' (gather m ds @ drop (unat (read_u64 m (hdr + 8)) * 512 + total_len ds) (vb_disk b)))
        status_at' VIRTIO_BLK_S_OK \<and>
    (\<forall>i. i < unat (read_u64 m (hdr + 8)) * 512 \<or> unat (read_u64 m (hdr + 8)) * 512 + total_len ds \<le> i \<longrightarrow>
      i < length (vb_disk b) \<longrightarrow> vb_disk b' ! i = vb_disk b ! i)"
proof -
  let ?at = "unat (read_u64 m (hdr + 8)) * 512"
  have b': "vb_disk b' = overlay (vb_disk b) ?at (gather m ds)"
    using virtio_write_request_eq [OF w] by (simp add: b'_def)
  have l: "length (vb_disk b') = length (vb_disk b)"
    using w(3) unfolding b' by (subst overlay_simps(2)) (simp_all add: gather_length)
  have d: "drop ?at (vb_disk b') = gather m ds @ drop (?at + total_len ds) (vb_disk b)"
    using w(3) by (simp add: b' overlay_def gather_length)
  have "virtio_request b' m' desc head' = (of_nat (total_len ds') + 1, b',
      write_u8 (scatter m' ds' (drop ?at (vb_disk b'))) status_at' VIRTIO_BLK_S_OK)"
  proof -
    have r8: "unat (read_u64 m' (hdr' + 8)) * 512 = ?at" using r(4) by simp
    have "in_data (vb_disk b') m' (read_u64 m' (hdr' + 8) * 512) 0 ds' =
        (scatter m' ds' (drop ?at (vb_disk b')), True, of_nat (total_len ds'))"
    proof -
      have u: "unat (read_u64 m' (hdr' + 8) * 512) = ?at"
        using w(3,4) r(4) by (simp add: unat_word_ariths)
      show ?thesis
        using in_data_spec [OF r(3), of "read_u64 m' (hdr' + 8) * 512" "vb_disk b'" m' 0] w(3,4) r(5) l
        unfolding u by simp
    qed
    then show ?thesis
      unfolding virtio_request_def using r(1,2) by (simp add: Let_def butlast_append nth_append)
  qed
  moreover have "vb_disk b' ! i = vb_disk b ! i"
    if "i < ?at \<or> ?at + total_len ds \<le> i" "i < length (vb_disk b)" for i
    using that w(3) by (auto simp: b' overlay_def nth_append gather_length)
  ultimately show ?thesis by (auto simp: d)
qed

theorem virtio_write_then_read_witness:
  "snd (snd (virtio_request (fst (snd (virtio_request (virtio_new\<lparr>vb_disk := [7, 8, 9]\<rparr>)
      (sample_chain 1) 0x1000 0))) (sample_chain 0) 0x1000 0)) =
   write_u8 (write_bytes (sample_chain 0) 0x3000 [0, 0]) 0x4000 VIRTIO_BLK_S_OK"
proof -
  have z: "read_u8 (sample_chain 1) 0x3000 = 0" "read_u8 (sample_chain 1) 0x3001 = 0"
    by (simp_all add: read_u8_def in_vga_text_def sample_chain_reads)
  show ?thesis
    using virtio_write_then_read [of "sample_chain 1" "0x1000" 0 "0x2000" 0 1 "[(0x3000, 2, 3)]" "0x4000" 0 0
        "virtio_new\<lparr>vb_disk := [7, 8, 9]\<rparr>" "sample_chain 0" 0 "0x2000" 0 1 "[(0x3000, 2, 3)]" "0x4000" 0 0]
      sample_chain_walk z
    by (simp add: desc_writable_def sample_chain_entries upt_rec)
qed

section \<open>Requests past the end\<close>

lemma in_data_past_end:
  assumes "\<forall>d \<in> set ds. desc_writable d" "length disk < unat off + total_len ds" "0 < total_len ds"
    "unat off + total_len ds < 2 ^ 64"
  shows "\<not> fst (snd (in_data disk m off w ds))"
  using assms
proof (induction ds arbitrary: m off w)
  case (Cons d ds)
  obtain addr len flags where d: "d = (addr, len, flags)" by (cases d)
  have u: "unat (off + ucast len) = unat off + unat len"
    using Cons.prems d by (intro unat_add_len) simp
  have wr: "flags AND VRING_DESC_F_WRITE \<noteq> 0" using Cons.prems(1) d by (simp add: desc_writable_def)
  have b: "in_bytes disk m addr off (unat len) = (write_bytes m addr (take (unat len) (drop (unat off) disk)),
      unat len = 0 \<or> unat off + unat len \<le> length disk)"
    using Cons.prems d by (intro in_bytes_spec) simp
  show ?case
  proof (cases "unat len = 0 \<or> unat off + unat len \<le> length disk")
    case True
    then show ?thesis
      unfolding d in_data.simps if_not_P [OF wr] b
      using Cons.IH [of "off + ucast len"] Cons.prems d u by (auto simp: split_beta)
  qed (unfold d in_data.simps if_not_P [OF wr] b, simp add: split_beta)
qed simp

lemma out_bytes_past_end:
  "unat off + n < 2 ^ 64 \<Longrightarrow>
    length (fst (out_bytes m disk addr off n)) = length disk \<and>
    (snd (out_bytes m disk addr off n) \<longleftrightarrow> n = 0 \<or> unat off + n \<le> length disk)"
proof (induction n arbitrary: disk addr off)
  case (Suc n)
  have u: "unat (off + 1) = Suc (unat off)" using Suc.prems by (subst unat_add_one64) simp_all
  show ?case using Suc.IH [of "off + 1" "disk[unat off := read_u8 m addr]" "addr + 1"] Suc.prems u by auto
qed simp

lemma out_data_past_end:
  assumes "length disk < unat off + total_len ds" "0 < total_len ds" "unat off + total_len ds < 2 ^ 64"
  shows "\<not> snd (out_data m disk off ds)"
  using assms
proof (induction ds arbitrary: disk off)
  case (Cons d ds)
  obtain addr len flags where d: "d = (addr, len, flags)" by (cases d)
  have u: "unat (off + ucast len) = unat off + unat len"
    using Cons.prems d by (intro unat_add_len) simp
  note b = out_bytes_past_end [of off "unat len" m disk addr]
  show ?case
    using Cons.IH [of "fst (out_bytes m disk addr off (unat len))" "off + ucast len"] Cons.prems d u b
    by (auto simp: split_beta Let_def)
qed simp

text \<open>A read or write request whose buffers reach past the end of the disk reports an I/O error
  in its status byte.\<close>

theorem virtio_past_end_refused:
  assumes "virtio_chain m desc head 128 = (hdr, hl, hf) # ds @ [(status_at, sl, sf)]"
    and "read_u32 m hdr = VIRTIO_BLK_T_IN \<and> (\<forall>d \<in> set ds. desc_writable d) \<or> read_u32 m hdr = VIRTIO_BLK_T_OUT"
    and "length (vb_disk b) < unat (read_u64 m (hdr + 8)) * 512 + total_len ds" "0 < total_len ds"
    and "unat (read_u64 m (hdr + 8)) * 512 + total_len ds < 2 ^ 64"
  shows "\<exists>n. snd (snd (virtio_request b m desc head)) = write_u8 n status_at VIRTIO_BLK_S_IOERR"
proof -
  let ?s = "read_u64 m (hdr + 8)"
  have u: "unat (?s * 512) = unat ?s * 512"
    using assms(5) by (simp add: unat_word_ariths)
  have "\<not> fst (snd (in_data (vb_disk b) m (?s * 512) 0 ds))" if "\<forall>d \<in> set ds. desc_writable d"
    by (rule in_data_past_end [OF that]) (use assms(3-5) u in simp_all)
  moreover have "\<not> snd (out_data m (vb_disk b) (?s * 512) ds)"
    by (rule out_data_past_end) (use assms(3-5) u in simp_all)
  ultimately show ?thesis
    unfolding virtio_request_def using assms(1,2)
    by (auto simp: Let_def butlast_append nth_append split_beta)
qed

theorem virtio_past_end_refused_witness:
  "\<exists>n. snd (snd (virtio_request (virtio_new\<lparr>vb_disk := [7]\<rparr>) (sample_chain 1) 0x1000 0)) =
    write_u8 n 0x4000 VIRTIO_BLK_S_IOERR"
  by (rule virtio_past_end_refused [of "sample_chain 1" "0x1000" 0 "0x2000" 0 1 "[(0x3000, 2, 3)]" "0x4000" 0 0])
    (simp_all add: sample_chain_walk sample_chain_entries virtio_new_def)

end
