(* ===== verification/Cpu_Regs.thy ===== *)
theory Cpu_Regs imports Cpu_State begin

text \<open>
  The register file and the mode of the processor (src/src/cpu.rs): accessors
  for the general registers at every width, the segment selectors, the flags,
  the sizes of an instruction and the paging structure in force. Every general
  register is stored once; the lemmas say what each narrower view shows after
  a write through any other.
\<close>

unbundle bit_operations_syntax

section \<open>General registers\<close>

definition ridx :: "u8 \<Rightarrow> nat" where "ridx i = unat (i AND 15)"

text \<open>Replacing the low word, the low byte or the second byte of a register.\<close>

definition reg_put16 :: "u64 \<Rightarrow> u64 \<Rightarrow> u64" where "reg_put16 r v = (r AND NOT 0xFFFF) OR (v AND 0xFFFF)"
definition reg_put8 :: "u64 \<Rightarrow> u64 \<Rightarrow> u64" where "reg_put8 r v = (r AND NOT 0xFF) OR (v AND 0xFF)"
definition reg_put_high :: "u64 \<Rightarrow> u8 \<Rightarrow> u64" where "reg_put_high r v = (r AND NOT 0xFF00) OR push_bit 8 (ucast v)"

definition reg64 :: "cpu \<Rightarrow> u8 \<Rightarrow> u64" where "reg64 c i = regs c (ridx i)"

definition set_reg64_raw :: "cpu \<Rightarrow> u8 \<Rightarrow> u64 \<Rightarrow> cpu" where
  "set_reg64_raw c i v = c\<lparr>regs := (regs c)(ridx i := v)\<rparr>"

definition set_reg64 :: "cpu \<Rightarrow> u8 \<Rightarrow> u64 \<Rightarrow> cpu" where
  "set_reg64 c i v = (if pending_exception c \<noteq> None then c else set_reg64_raw c i v)"

definition reg_w :: "cpu \<Rightarrow> u8 \<Rightarrow> nat \<Rightarrow> u64" where
  "reg_w c i width =
     (let v = regs c (ridx i) in
      if width = 64 then v else if width = 32 then v AND 0xFFFFFFFF
      else if width = 16 then v AND 0xFFFF else v AND 0xFF)"

definition set_reg_w_raw :: "cpu \<Rightarrow> u8 \<Rightarrow> nat \<Rightarrow> u64 \<Rightarrow> cpu" where
  "set_reg_w_raw c i width v =
     (let r = regs c (ridx i);
          r' = (if width = 64 then v else if width = 32 then v AND 0xFFFFFFFF
                else if width = 16 then reg_put16 r v else reg_put8 r v)
      in c\<lparr>regs := (regs c)(ridx i := r')\<rparr>)"

definition set_reg_w :: "cpu \<Rightarrow> u8 \<Rightarrow> nat \<Rightarrow> u64 \<Rightarrow> cpu" where
  "set_reg_w c i width v = (if pending_exception c \<noteq> None then c else set_reg_w_raw c i width v)"

definition reg16_idx :: "cpu \<Rightarrow> u8 \<Rightarrow> u16" where "reg16_idx c i = ucast (regs c (ridx i))"
definition set_reg16_idx :: "cpu \<Rightarrow> u8 \<Rightarrow> u16 \<Rightarrow> cpu" where "set_reg16_idx c i v = set_reg_w c i 16 (ucast v)"
definition reg32_idx :: "cpu \<Rightarrow> u8 \<Rightarrow> u32" where "reg32_idx c i = ucast (regs c (ridx i))"
definition set_reg32_idx :: "cpu \<Rightarrow> u8 \<Rightarrow> u32 \<Rightarrow> cpu" where "set_reg32_idx c i v = set_reg_w c i 32 (ucast v)"

text \<open>The 16-bit views by name, and the full stack pointer.\<close>

definition c_ax :: "cpu \<Rightarrow> u16" where "c_ax c = ucast (regs c 0)"
definition set_ax :: "cpu \<Rightarrow> u16 \<Rightarrow> cpu" where "set_ax c v = set_reg_w_raw c 0 16 (ucast v)"
definition c_cx :: "cpu \<Rightarrow> u16" where "c_cx c = ucast (regs c 1)"
definition set_cx :: "cpu \<Rightarrow> u16 \<Rightarrow> cpu" where "set_cx c v = set_reg_w_raw c 1 16 (ucast v)"
definition c_dx :: "cpu \<Rightarrow> u16" where "c_dx c = ucast (regs c 2)"
definition set_dx :: "cpu \<Rightarrow> u16 \<Rightarrow> cpu" where "set_dx c v = set_reg_w_raw c 2 16 (ucast v)"
definition c_bx :: "cpu \<Rightarrow> u16" where "c_bx c = ucast (regs c 3)"
definition set_bx :: "cpu \<Rightarrow> u16 \<Rightarrow> cpu" where "set_bx c v = set_reg_w_raw c 3 16 (ucast v)"
definition c_sp :: "cpu \<Rightarrow> u16" where "c_sp c = ucast (regs c 4)"
definition set_sp :: "cpu \<Rightarrow> u16 \<Rightarrow> cpu" where "set_sp c v = set_reg_w_raw c 4 16 (ucast v)"
definition c_bp :: "cpu \<Rightarrow> u16" where "c_bp c = ucast (regs c 5)"
definition set_bp :: "cpu \<Rightarrow> u16 \<Rightarrow> cpu" where "set_bp c v = set_reg_w_raw c 5 16 (ucast v)"
definition c_si :: "cpu \<Rightarrow> u16" where "c_si c = ucast (regs c 6)"
definition set_si :: "cpu \<Rightarrow> u16 \<Rightarrow> cpu" where "set_si c v = set_reg_w_raw c 6 16 (ucast v)"
definition c_di :: "cpu \<Rightarrow> u16" where "c_di c = ucast (regs c 7)"
definition set_di :: "cpu \<Rightarrow> u16 \<Rightarrow> cpu" where "set_di c v = set_reg_w_raw c 7 16 (ucast v)"

definition c_eax :: "cpu \<Rightarrow> u32" where "c_eax c = ucast (regs c 0)"
definition c_ecx :: "cpu \<Rightarrow> u32" where "c_ecx c = ucast (regs c 1)"
definition c_edx :: "cpu \<Rightarrow> u32" where "c_edx c = ucast (regs c 2)"
definition c_ebx :: "cpu \<Rightarrow> u32" where "c_ebx c = ucast (regs c 3)"
definition c_esp :: "cpu \<Rightarrow> u32" where "c_esp c = ucast (regs c 4)"
definition set_eax :: "cpu \<Rightarrow> u32 \<Rightarrow> cpu" where "set_eax c v = c\<lparr>regs := (regs c)(0 := ucast v)\<rparr>"
definition set_ecx :: "cpu \<Rightarrow> u32 \<Rightarrow> cpu" where "set_ecx c v = c\<lparr>regs := (regs c)(1 := ucast v)\<rparr>"
definition set_edx :: "cpu \<Rightarrow> u32 \<Rightarrow> cpu" where "set_edx c v = c\<lparr>regs := (regs c)(2 := ucast v)\<rparr>"
definition set_ebx :: "cpu \<Rightarrow> u32 \<Rightarrow> cpu" where "set_ebx c v = c\<lparr>regs := (regs c)(3 := ucast v)\<rparr>"
definition set_esp :: "cpu \<Rightarrow> u32 \<Rightarrow> cpu" where "set_esp c v = c\<lparr>regs := (regs c)(4 := ucast v)\<rparr>"
definition c_rsp :: "cpu \<Rightarrow> u64" where "c_rsp c = regs c 4"
definition set_rsp :: "cpu \<Rightarrow> u64 \<Rightarrow> cpu" where "set_rsp c v = c\<lparr>regs := (regs c)(4 := v)\<rparr>"
definition c_eip :: "cpu \<Rightarrow> u32" where "c_eip c = ucast (c_rip c)"
definition set_eip :: "cpu \<Rightarrow> u32 \<Rightarrow> cpu" where "set_eip c v = c\<lparr>c_rip := ucast v\<rparr>"

text \<open>Byte registers: indices 4 to 7 are the high bytes unless a REX prefix is present.\<close>

definition reg8_idx :: "cpu \<Rightarrow> u8 \<Rightarrow> u8" where
  "reg8_idx c i =
     (if \<not> rex_present c \<and> 4 \<le> i \<and> i < 8 then ucast (drop_bit 8 (regs c (unat (i - 4))))
      else ucast (regs c (ridx i)))"

definition set_reg8_idx :: "cpu \<Rightarrow> u8 \<Rightarrow> u8 \<Rightarrow> cpu" where
  "set_reg8_idx c i v =
     (if pending_exception c \<noteq> None then c
      else if \<not> rex_present c \<and> 4 \<le> i \<and> i < 8 then
        (let k = unat (i - 4); r = regs c k in
         c\<lparr>regs := (regs c)(k := reg_put_high r v)\<rparr>)
      else set_reg_w_raw c i 8 (ucast v))"

definition reg8_code :: "reg8n \<Rightarrow> u8" where
  "reg8_code r = (case r of Al \<Rightarrow> 0 | Cl \<Rightarrow> 1 | Dl \<Rightarrow> 2 | Bl \<Rightarrow> 3 | Ah \<Rightarrow> 4 | Ch \<Rightarrow> 5 | Dh \<Rightarrow> 6 | Bh \<Rightarrow> 7)"

definition reg8 :: "cpu \<Rightarrow> reg8n \<Rightarrow> u8" where
  "reg8 c r =
     (let i = reg8_code r in
      if i \<ge> 4 then ucast (drop_bit 8 (regs c (unat (i - 4)))) else ucast (regs c (unat i)))"

definition set_reg8 :: "cpu \<Rightarrow> reg8n \<Rightarrow> u8 \<Rightarrow> cpu" where
  "set_reg8 c r v =
     (if pending_exception c \<noteq> None then c
      else
        (let i = reg8_code r in
         if i \<ge> 4 then
           (let k = unat (i - 4); old = regs c k in
            c\<lparr>regs := (regs c)(k := reg_put_high old v)\<rparr>)
         else set_reg_w_raw c i 8 (ucast v)))"

section \<open>Segments, flags and modes\<close>

definition seg :: "cpu \<Rightarrow> segreg \<Rightarrow> u16" where
  "seg c s = (case s of Es \<Rightarrow> c_es c | Cs \<Rightarrow> c_cs c | Ss \<Rightarrow> c_ss c | Ds \<Rightarrow> c_ds c | Fs \<Rightarrow> c_fs c | Gs \<Rightarrow> c_gs c)"

definition set_seg :: "cpu \<Rightarrow> segreg \<Rightarrow> u16 \<Rightarrow> cpu" where
  "set_seg c s v =
     (case s of Es \<Rightarrow> c\<lparr>c_es := v\<rparr> | Cs \<Rightarrow> c\<lparr>c_cs := v\<rparr> | Ss \<Rightarrow> c\<lparr>c_ss := v\<rparr>
      | Ds \<Rightarrow> c\<lparr>c_ds := v\<rparr> | Fs \<Rightarrow> c\<lparr>c_fs := v\<rparr> | Gs \<Rightarrow> c\<lparr>c_gs := v\<rparr>)"

definition invalidate_phys_ip :: "cpu \<Rightarrow> cpu" where
  "invalidate_phys_ip c = c\<lparr>phys_ip_valid := False\<rparr>"

definition set_flag :: "cpu \<Rightarrow> u32 \<Rightarrow> bool \<Rightarrow> cpu" where
  "set_flag c f b = c\<lparr>c_flags := (if b then c_flags c OR f else c_flags c AND NOT f)\<rparr>"

definition get_flag :: "cpu \<Rightarrow> u32 \<Rightarrow> bool" where
  "get_flag c f \<longleftrightarrow> c_flags c AND f \<noteq> 0"

definition rdtsc :: "cpu \<Rightarrow> u64" where "rdtsc c = tsc c"

definition long_mode :: "cpu \<Rightarrow> bool" where "long_mode c \<longleftrightarrow> efer c AND efer_LMA \<noteq> 0"

definition long64 :: "cpu \<Rightarrow> bool" where "long64 c \<longleftrightarrow> long_mode c \<and> d_l (seg_desc c Cs)"

definition mode :: "cpu \<Rightarrow> cpu_mode" where
  "mode c =
     (if \<not> pe c then Real_Mode else if \<not> long_mode c then Protected_Mode
      else if d_l (seg_desc c Cs) then Long_Mode else Compat_Mode)"

definition osize :: "cpu \<Rightarrow> nat" where
  "osize c = (if rex_w c then 64 else if opsize c then 32 else 16)"

definition asize :: "cpu \<Rightarrow> nat" where
  "asize c = (if addr64 c then 64 else if addrsize c then 32 else 16)"

definition stack_width :: "cpu \<Rightarrow> nat" where
  "stack_width c = (if long64 c then 64 else if opsize c then 32 else 16)"

definition cpu_paging_mode :: "cpu \<Rightarrow> paging_mode" where
  "cpu_paging_mode c =
     (if cr0 c AND CR0_PG = 0 then Off else if long_mode c then Long
      else if cr4 c AND CR4_PAE \<noteq> 0 then Pae else Legacy)"

definition cpl :: "cpu \<Rightarrow> u8" where
  "cpl c = (if pe c then ucast (c_cs c AND 3) else 0)"

definition ip_linear :: "cpu \<Rightarrow> u64" where
  "ip_linear c =
     (if long64 c then c_rip c
      else if pe c then (ucast (d_base (seg_desc c Cs)) + (c_rip c AND 0xFFFFFFFF)) AND 0xFFFFFFFF
      else (push_bit 4 (ucast (c_cs c)) + ucast (c_ip c)) AND 0xFFFFFFFF)"

definition linear_addr :: "cpu \<Rightarrow> segreg \<Rightarrow> u64 \<Rightarrow> u64" where
  "linear_addr c s offset =
     (if long64 c then
        (case s of Fs \<Rightarrow> fs_base c + offset | Gs \<Rightarrow> gs_base c + offset | _ \<Rightarrow> offset)
      else if pe c then (ucast (d_base (seg_desc c s)) + offset) AND 0xFFFFFFFF
      else (push_bit 4 (ucast (seg c s)) + offset) AND 0xFFFFFFFF)"

section \<open>Views\<close>

lemma view_masks: "(0xFFFFFFFF :: u64) = mask 32" "(0xFFFF :: u64) = mask 16" "(0xFF :: u64) = mask 8"
  "(0xFF00 :: u64) = push_bit 8 (mask 8)"
  by (simp_all add: mask_eq_exp_minus_1)

lemma reg_put16:
  "reg_put16 r v AND 0xFFFF = v AND 0xFFFF" "drop_bit 16 (reg_put16 r v) = drop_bit 16 r"
  unfolding reg_put16_def view_masks by (rule bit_word_eqI, auto simp: bit_simps dest: bit_imp_le_length)+

lemma reg_put8:
  "reg_put8 r v AND 0xFF = v AND 0xFF" "drop_bit 8 (reg_put8 r v) = drop_bit 8 r"
  "ucast (reg_put8 r (ucast b)) = (b :: u8)" "ucast (drop_bit 8 (reg_put8 r v)) = (ucast (drop_bit 8 r) :: u8)"
  unfolding reg_put8_def view_masks by (rule bit_word_eqI, auto simp: bit_simps dest: bit_imp_le_length)+

lemma reg_put_high:
  "ucast (reg_put_high r b) = (ucast r :: u8)" "ucast (drop_bit 8 (reg_put_high r b)) = (b :: u8)"
  unfolding reg_put_high_def view_masks by (rule bit_word_eqI, auto simp: bit_simps dest: bit_imp_le_length)+

lemma low32: "v AND 0xFFFFFFFF AND 0xFFFFFFFF = (v :: u64) AND 0xFFFFFFFF" "drop_bit 32 ((v :: u64) AND 0xFFFFFFFF) = 0"
  "v AND mask 64 = v" "drop_bit 64 v = 0"
  unfolding view_masks by (rule bit_word_eqI, auto simp: bit_simps)+

text \<open>The width rules of the register file: a write of 8, 16, 32 or 64 bits is read back at its
  width; the bits above it stay as they were, except that a 32-bit write clears the upper half;
  and no other register changes.\<close>

theorem register_width_rules:
  assumes "width \<in> {8, 16, 32, 64}"
  shows "reg_w (set_reg_w_raw c i width v) i width = v AND mask width \<and>
    drop_bit width (reg64 (set_reg_w_raw c i width v) i) = (if width = 32 then 0 else drop_bit width (reg64 c i)) \<and>
    (ridx j \<noteq> ridx i \<longrightarrow> reg64 (set_reg_w_raw c i width v) j = reg64 c j)"
proof -
  have m: "mask 8 = (0xFF :: u64)" "mask 16 = (0xFFFF :: u64)" "mask 32 = (0xFFFFFFFF :: u64)"
    by (simp_all add: mask_eq_exp_minus_1)
  from assms consider "width = 8" | "width = 16" | "width = 32" | "width = 64" by auto
  then show ?thesis
    by cases (simp_all add: reg_w_def set_reg_w_raw_def reg64_def Let_def m reg_put8 reg_put16 low32)
qed

theorem register_width_rules_witness:
  "reg64 (set_reg_w_raw small_machine 0 32 0xFFFFFFFF00000001) 0 AND NOT (mask 32) = 0"
proof -
  have "drop_bit 32 (reg64 (set_reg_w_raw small_machine 0 32 0xFFFFFFFF00000001) 0) = 0"
    using register_width_rules [of 32 small_machine 0] by auto
  moreover have "v AND NOT (mask 32) = push_bit 32 (drop_bit 32 v)" for v :: u64
    by (rule bit_word_eqI) (auto simp: bit_simps)
  ultimately show ?thesis by simp
qed

definition byte_loc :: "cpu \<Rightarrow> u8 \<Rightarrow> nat \<times> bool" where
  "byte_loc c i = (if \<not> rex_present c \<and> 4 \<le> i \<and> i < 8 then (unat (i - 4), True) else (ridx i, False))"

definition loc_get :: "(nat \<Rightarrow> u64) \<Rightarrow> nat \<times> bool \<Rightarrow> u8" where
  "loc_get r l = (if snd l then ucast (drop_bit 8 (r (fst l))) else ucast (r (fst l)))"

definition loc_put :: "(nat \<Rightarrow> u64) \<Rightarrow> nat \<times> bool \<Rightarrow> u8 \<Rightarrow> nat \<Rightarrow> u64" where
  "loc_put r l v = r(fst l := (if snd l then reg_put_high (r (fst l)) v else reg_put8 (r (fst l)) (ucast v)))"

lemma loc_get_put: "loc_get (loc_put r l v) k = (if k = l then v else loc_get r k)"
  by (cases k; cases l) (auto simp: loc_get_def loc_put_def reg_put8 reg_put_high)

lemma reg8_idx_loc:
  "reg8_idx c i = loc_get (regs c) (byte_loc c i)"
  "pending_exception c = None \<Longrightarrow> set_reg8_idx c i v = c\<lparr>regs := loc_put (regs c) (byte_loc c i) v\<rparr>"
  by (simp_all add: reg8_idx_def set_reg8_idx_def byte_loc_def loc_get_def loc_put_def set_reg_w_raw_def Let_def)

text \<open>The twenty byte registers are twenty distinct bytes: outside a fault, reading a byte
  register after a write of another gives its old value, and of the same gives the value written,
  where indices 4 to 7 name the high bytes AH to BH exactly when no REX prefix is present.\<close>

theorem byte_registers:
  assumes "pending_exception c = None"
  shows "reg8_idx (set_reg8_idx c i v) j = (if byte_loc c j = byte_loc c i then v else reg8_idx c j)"
proof -
  have "byte_loc (c\<lparr>regs := r\<rparr>) j = byte_loc c j" for r by (simp add: byte_loc_def)
  then show ?thesis using assms by (simp add: reg8_idx_loc loc_get_put)
qed

theorem byte_registers_witness: "reg8_idx (set_reg8_idx small_machine 7 5) 7 = 5"
  using byte_registers [of small_machine 7 5 7] by (simp add: small_machine_def cpu_with_ram_def)

end
