(* ===== verification/Mmu_Laws.thy ===== *)
theory Mmu_Laws imports Mmu begin

text \<open>
  What address translation guarantees: setting accessed and dirty bits changes
  no translation, the TLB agrees with the page tables, and with such a TLB a
  translation has the outcome it would have without one.
\<close>

unbundle bit_operations_syntax

section \<open>Accessed and dirty bits\<close>

definition mode_width :: "paging_mode \<Rightarrow> nat" where
  "mode_width md = (case md of Off \<Rightarrow> 0 | Legacy \<Rightarrow> 4 | Pae \<Rightarrow> 8 | Long \<Rightarrow> 8)"

lemma path_map_walk:
  assumes "map_option (path_map n nxe) (radix_walk rd w amask linear base ls) = Some p" "n = unat w"
    "w = 4 \<or> w = 8" "amask = ADDR_MASK_64 \<or> amask = ADDR_MASK_32" "unat w dvd unat base" "length ls \<le> 4"
  shows "entry_bytes p = unat w \<and> walk_len p \<le> 4 \<and> (\<forall>i < walk_len p. unat w dvd unat (pm_walk p ! i))"
proof -
  obtain q path where r: "radix_walk rd w amask linear base ls = Some (q, path)"
    and p: "p = path_map (unat w) nxe (q, path)"
    using assms(1,2) by (auto simp del: radix_walk.simps)
  note al = radix_aligned [OF assms(3-5) r]
  then have "walk_len p = length path" "entry_bytes p = unat w"
    "pm_walk p = map fst path @ replicate (4 - length path) 0"
    by (simp_all add: p path_map_def Let_def)
  then show ?thesis using al assms(6) by (auto simp: nth_append)
qed

lemma roots_aligned: "8 dvd unat (rt AND ADDR_MASK_64)" "4 dvd unat (rt AND ADDR_MASK_32)"
  "8 dvd unat (rt AND NOT 0x1F)" for rt :: u64
proof -
  show "8 dvd unat (rt AND ADDR_MASK_64)" "4 dvd unat (rt AND ADDR_MASK_32)"
    by (rule dvd_unat_field; simp)+
  have "(0x1F :: u64) = mask 5" by (simp add: mask_eq_exp_minus_1)
  then have "unat (rt AND NOT 0x1F) = unat rt div 2 ^ 5 * 2 ^ 5"
    using and_not_mask_unat [of rt 5] minus_mod_eq_div_mult by metis
  moreover have "(8 :: nat) dvd 2 ^ 5" by simp
  ultimately show "8 dvd unat (rt AND NOT 0x1F)" by (metis dvd_mult)
qed

lemma translate_walk_aligned:
  assumes "translate_mode m rt linear md nxe = Some p"
  shows "entry_bytes p = mode_width md \<and> walk_len p \<le> 4 \<and>
    (\<forall>i < walk_len p. entry_bytes p dvd unat (pm_walk p ! i))"
proof (cases md)
  case Off
  then show ?thesis using assms by (auto simp: translate_mode_def mode_width_def)
next
  case Legacy
  show ?thesis
    using path_map_walk [OF assms [unfolded Legacy translate_radix(1)]] roots_aligned(2)
    by (simp add: Legacy mode_width_def legacy_levels_def)
next
  case Pae
  show ?thesis
    using path_map_walk [OF assms [unfolded Pae translate_radix(2)]] roots_aligned(3)
    by (simp add: Pae mode_width_def pae_levels_def)
next
  case Long
  show ?thesis
    using path_map_walk [OF assms [unfolded Long translate_radix(3)]] roots_aligned(1)
    by (simp add: Long mode_width_def long_levels_def)
qed

lemma accessed_core: "entry_core (e OR accessed_bits n w i) = entry_core e"
  using entry_core_flags [of e] by (simp add: accessed_bits_def)

lemma accessed_core32: "entry_core (ucast ((e :: u32) OR ucast (accessed_bits n w i))) = entry_core (ucast e)"
proof -
  have "(ucast (e OR ucast b) :: u64) = ucast e OR ucast (ucast b :: u32)" for b :: u64
    by (rule bit_word_eqI) (auto simp: bit_simps)
  moreover have "(ucast (ucast (accessed_bits n w i) :: u32) :: u64) = accessed_bits n w i"
    by (simp add: accessed_bits_def)
  ultimately show ?thesis by (simp add: accessed_core)
qed

lemma mem_set_accessed_stores:
  "entry_bytes p = 8 \<Longrightarrow> mem_set_accessed m p w =
    fold (\<lambda>(a, f) m. write_u64 m a (f (read_u64 m a)))
      (map (\<lambda>i. (pm_walk p ! i, \<lambda>v. v OR accessed_bits (walk_len p) w i)) [0..<walk_len p]) m"
  "entry_bytes p = 4 \<Longrightarrow> mem_set_accessed m p w =
    fold (\<lambda>(a, f) m. write_u32 m a (f (read_u32 m a)))
      (map (\<lambda>i. (pm_walk p ! i, \<lambda>v. v OR ucast (accessed_bits (walk_len p) w i))) [0..<walk_len p]) m"
  by (simp_all add: mem_set_accessed_def fold_map comp_def Let_def)

lemma set_accessed_core:
  assumes "mem_wf m" "translate_mode m rt linear md nxe = Some p"
  shows "mem_wf (mem_set_accessed m p w)" "backed (mem_set_accessed m p w) = backed m"
    and "md = Legacy \<Longrightarrow> 4 dvd unat b \<Longrightarrow>
      entry_core (ucast (read_u32 (mem_set_accessed m p w) b)) = entry_core (ucast (read_u32 m b))"
    and "md \<noteq> Legacy \<Longrightarrow> 8 dvd unat b \<Longrightarrow>
      entry_core (read_u64 (mem_set_accessed m p w) b) = entry_core (read_u64 m b)"
proof -
  note al = translate_walk_aligned [OF assms(2)]
  let ?l4 = "map (\<lambda>i. (pm_walk p ! i, \<lambda>v. v OR ucast (accessed_bits (walk_len p) w i))) [0..<walk_len p]"
  let ?l8 = "map (\<lambda>i. (pm_walk p ! i, \<lambda>v. v OR accessed_bits (walk_len p) w i)) [0..<walk_len p]"
  have s4: "entry_core (ucast (read_u32 (mem_set_accessed m p w) b)) = entry_core (ucast (read_u32 m b)) \<and>
      mem_wf (mem_set_accessed m p w) \<and> backed (mem_set_accessed m p w) = backed m"
    if "entry_bytes p = 4" "4 dvd unat b" for b
    unfolding mem_set_accessed_stores(2) [OF that(1)]
    by (rule store32.read_modify_write_list [where p = "\<lambda>v. entry_core (ucast v)"])
      (use assms(1) al that in \<open>auto simp: accessed_core32\<close>)
  have s8: "entry_core (read_u64 (mem_set_accessed m p w) b) = entry_core (read_u64 m b) \<and>
      mem_wf (mem_set_accessed m p w) \<and> backed (mem_set_accessed m p w) = backed m"
    if "entry_bytes p = 8" "8 dvd unat b" for b
    unfolding mem_set_accessed_stores(1) [OF that(1)]
    by (rule store64.read_modify_write_list [where p = entry_core])
      (use assms(1) al that in \<open>auto simp: accessed_core\<close>)
  have off: "mem_set_accessed m p w = m" if "md = Off"
    using assms(2) that by (auto simp: translate_mode_def mem_set_accessed_def)
  show "mem_wf (mem_set_accessed m p w)" "backed (mem_set_accessed m p w) = backed m"
    using al s4 [of 0] s8 [of 0] off assms(1) by (cases md; simp add: mode_width_def)+
  show "md = Legacy \<Longrightarrow> 4 dvd unat b \<Longrightarrow>
      entry_core (ucast (read_u32 (mem_set_accessed m p w) b)) = entry_core (ucast (read_u32 m b))"
    using al s4 [of b] by (simp add: mode_width_def)
  show "md \<noteq> Legacy \<Longrightarrow> 8 dvd unat b \<Longrightarrow>
      entry_core (read_u64 (mem_set_accessed m p w) b) = entry_core (read_u64 m b)"
    using al s8 [of b] off by (cases md) (simp_all add: mode_width_def)
qed

lemma set_accessed_translate:
  assumes "mem_wf m" "translate_mode m rt linear md nxe = Some p"
  shows "translate_mode (mem_set_accessed m p w) rt linear' md nxe = translate_mode m rt linear' md nxe"
  by (rule translate_core) (use set_accessed_core(3,4) [OF assms] in auto)

section \<open>A sound TLB\<close>

definition entry_sound :: "(u64 \<Rightarrow> page_map option) \<Rightarrow> tlb_entry \<Rightarrow> bool" where
  "entry_sound walk e \<longleftrightarrow>
     (case walk (push_bit 12 (tlb_vpage e)) of
        Some p \<Rightarrow> drop_bit 12 (pm_phys p) = tlb_ppage e \<and> pm_writable p = tlb_writable e \<and>
          pm_user p = tlb_user e \<and> pm_exec p = tlb_exec e
      | None \<Rightarrow> False)"

definition tlb_sound :: "cpu \<Rightarrow> bool" where
  "tlb_sound c \<longleftrightarrow> (\<forall>i. tlb_valid (tlb c i) \<longrightarrow> entry_sound (cpu_walk c) (tlb c i))"

lemma tlb_sound_flush: "tlb_sound (flush_tlb c)"
  by (simp add: tlb_sound_def flush_tlb_def invalidate_phys_ip_def)

lemma walk_context [simp]:
  "cpu_paging_mode (c\<lparr>tlb := t\<rparr>) = cpu_paging_mode c" "cpu_nxe (c\<lparr>tlb := t\<rparr>) = cpu_nxe c"
  "cpu_paging_mode (c\<lparr>c_mem := m\<rparr>) = cpu_paging_mode c" "cpu_nxe (c\<lparr>c_mem := m\<rparr>) = cpu_nxe c"
  "cpu_walk (c\<lparr>tlb := t\<rparr>) = cpu_walk c"
  by (simp_all add: cpu_walk_def cpu_paging_mode_def long_mode_def cpu_nxe_def fun_eq_iff)

lemma tlb_sound_invlpg: "tlb_sound c \<Longrightarrow> tlb_sound (invlpg c linear)"
  by (auto simp: tlb_sound_def invlpg_def Let_def)

lemma page_base: "drop_bit 12 (push_bit 12 (drop_bit 12 x)) = drop_bit 12 (x :: u64)"
  by (rule bit_word_eqI) (auto simp: bit_simps dest: bit_imp_le_length)

lemma page_join: "push_bit 12 (drop_bit 12 p) OR (x AND 0xFFF) = p" if "p AND 0xFFF = x AND 0xFFF" for p x :: u64
proof -
  have m: "(0xFFF :: u64) = mask 12" by (simp add: mask_eq_exp_minus_1)
  have "push_bit 12 (drop_bit 12 p) OR (p AND 0xFFF) = p"
    unfolding m by (rule bit_word_eqI) (auto simp: bit_simps)
  then show ?thesis using that by simp
qed

lemma cpu_walk_page:
  "drop_bit 12 x = drop_bit 12 y \<Longrightarrow>
    rel_option (\<lambda>p q. same_page p q \<and> pm_phys p AND 0xFFF = x AND 0xFFF) (cpu_walk c x) (cpu_walk c y)"
  unfolding cpu_walk_def by (rule translate_page_uniform)

lemma same_page_perms:
  assumes "same_page p q"
  shows "pm_writable p = pm_writable q" "pm_user p = pm_user q" "pm_exec p = pm_exec q"
    "drop_bit 12 (pm_phys p) = drop_bit 12 (pm_phys q)"
proof -
  have eq: "p\<lparr>pm_phys := 0\<rparr> = q\<lparr>pm_phys := 0\<rparr>" using assms by (simp add: same_page_def)
  show "pm_writable p = pm_writable q" "pm_user p = pm_user q" "pm_exec p = pm_exec q"
    using arg_cong [OF eq, of pm_writable] arg_cong [OF eq, of pm_user]
      arg_cong [OF eq, of pm_exec] by simp_all
  show "drop_bit 12 (pm_phys p) = drop_bit 12 (pm_phys q)" using assms by (simp add: same_page_def)
qed

text \<open>A hit of a sound TLB answers what the walk answers.\<close>

lemma sound_hit:
  assumes "entry_sound (cpu_walk c) e" "tlb_vpage e = drop_bit 12 linear"
  shows "\<exists>p. cpu_walk c linear = Some p \<and> pm_phys p = (push_bit 12 (tlb_ppage e) OR (linear AND 0xFFF)) \<and>
    pm_writable p = tlb_writable e \<and> pm_user p = tlb_user e \<and> pm_exec p = tlb_exec e"
proof -
  obtain q where q: "cpu_walk c (push_bit 12 (tlb_vpage e)) = Some q" "drop_bit 12 (pm_phys q) = tlb_ppage e"
    "pm_writable q = tlb_writable e" "pm_user q = tlb_user e" "pm_exec q = tlb_exec e"
    using assms(1) by (auto simp: entry_sound_def split: option.splits)
  have "rel_option (\<lambda>p q. same_page p q \<and> pm_phys p AND 0xFFF = linear AND 0xFFF)
      (cpu_walk c linear) (Some q)"
    using cpu_walk_page [of linear "push_bit 12 (tlb_vpage e)" c] q(1) by (simp add: assms(2) page_base)
  then obtain p where p: "cpu_walk c linear = Some p" "same_page p q" "pm_phys p AND 0xFFF = linear AND 0xFFF"
    by (auto simp: option_rel_Some2)
  note eq = same_page_perms [OF p(2)]
  have "pm_phys p = (push_bit 12 (tlb_ppage e) OR (linear AND 0xFFF))"
    using page_join [OF p(3)] eq(4) q(2) by simp
  then show ?thesis using p(1) q(3-5) eq(1-3) by auto
qed

lemma walk_set_accessed:
  assumes "mem_wf (c_mem c)" "cpu_walk c linear = Some p"
  shows "cpu_walk (set_accessed_bits c p w) = cpu_walk c"
  using set_accessed_translate [OF assms(1) assms(2) [unfolded cpu_walk_def]]
  by (auto simp: cpu_walk_def set_accessed_bits_def fun_eq_iff)

lemma entry_sound_new:
  assumes "cpu_walk c linear = Some p"
  shows "entry_sound (cpu_walk c) \<lparr>tlb_valid = True, tlb_vpage = drop_bit 12 linear,
    tlb_ppage = drop_bit 12 (pm_phys p), tlb_writable = pm_writable p, tlb_user = pm_user p,
    tlb_exec = pm_exec p, tlb_dirtied = d\<rparr>"
proof -
  have "rel_option (\<lambda>p q. same_page p q \<and> pm_phys p AND 0xFFF = linear AND 0xFFF)
      (Some p) (cpu_walk c (push_bit 12 (drop_bit 12 linear)))"
    using cpu_walk_page [of linear "push_bit 12 (drop_bit 12 linear)" c] assms by (simp add: page_base)
  then obtain q where q: "cpu_walk c (push_bit 12 (drop_bit 12 linear)) = Some q" "same_page p q"
    by (auto simp: option_rel_Some1)
  then show ?thesis using same_page_perms [OF q(2)] by (simp add: entry_sound_def)
qed

text \<open>The state parts a translation may change: memory, TLB, CR2 and the pending fault.\<close>

lemma apply_paging_inner_fault_frame:
  "cpu_walk (raise_page_fault c l a b d e) = cpu_walk c" "tlb (raise_page_fault c l a b d e) = tlb c"
  "c_mem (raise_page_fault c l a b d e) = c_mem c"
  "cpu_walk (raise_gp c k) = cpu_walk c" "tlb (raise_gp c k) = tlb c" "c_mem (raise_gp c k) = c_mem c"
  by (auto simp: raise_page_fault_def raise_gp_def cpu_walk_def cpu_paging_mode_def long_mode_def
      cpu_nxe_def Let_def fun_eq_iff)

lemma mark_accessed_walk:
  "mem_wf (c_mem c) \<Longrightarrow> cpu_walk (mark_accessed c linear w) = cpu_walk c"
  by (auto simp: mark_accessed_def walk_set_accessed split: option.split)

lemma mark_accessed_frame [simp]: "tlb (mark_accessed c linear w) = tlb c"
  by (simp add: mark_accessed_def set_accessed_bits_def split: option.split)

lemma mark_accessed_wf: "mem_wf (c_mem c) \<Longrightarrow> mem_wf (c_mem (mark_accessed c linear w))"
  by (auto simp: mark_accessed_def set_accessed_bits_def cpu_walk_def set_accessed_core split: option.split)

lemma entry_sound_dirtied [simp]: "entry_sound walk (e\<lparr>tlb_dirtied := d\<rparr>) = entry_sound walk e"
  by (simp add: entry_sound_def split: option.split)

lemma tlb_sound_upd:
  "tlb_sound c \<Longrightarrow> (tlb_valid e \<Longrightarrow> entry_sound (cpu_walk c) e) \<Longrightarrow> tlb_sound (c\<lparr>tlb := (tlb c)(i := e)\<rparr>)"
  by (auto simp: tlb_sound_def)

lemma tlb_sound_cong: "tlb c' = tlb c \<Longrightarrow> cpu_walk c' = cpu_walk c \<Longrightarrow> tlb_sound c' = tlb_sound c"
  by (simp add: tlb_sound_def)

lemma apply_paging_inner_sound:
  assumes "mem_wf (c_mem c)" "tlb_sound c"
  shows "tlb_sound (snd (apply_paging_inner c linear write fetch)) \<and>
    mem_wf (c_mem (snd (apply_paging_inner c linear write fetch))) \<and>
    cpu_walk (snd (apply_paging_inner c linear write fetch)) = cpu_walk c"
proof -
  let ?v = "drop_bit 12 linear" and ?i = "tlb_index (drop_bit 12 linear)"
  let ?m = "mark_accessed c linear True"
  have m: "tlb_sound ?m" "mem_wf (c_mem ?m)" "cpu_walk ?m = cpu_walk c"
    using assms tlb_sound_cong [of ?m c] by (simp_all add: mark_accessed_walk mark_accessed_wf)
  have hit: "tlb_sound (?m\<lparr>tlb := (tlb ?m)(?i := tlb ?m ?i\<lparr>tlb_dirtied := True\<rparr>)\<rparr>)"
    using m(1) by (intro tlb_sound_upd) (auto simp: tlb_sound_def)
  have miss: "tlb_sound (set_accessed_bits (c\<lparr>tlb := (tlb c)(?i := e)\<rparr>) p write)"
    "mem_wf (c_mem (set_accessed_bits (c\<lparr>tlb := (tlb c)(?i := e)\<rparr>) p write))"
    "cpu_walk (set_accessed_bits (c\<lparr>tlb := (tlb c)(?i := e)\<rparr>) p write) = cpu_walk c"
    if "cpu_walk c linear = Some p" "entry_sound (cpu_walk c) e" for p e
  proof -
    let ?c = "c\<lparr>tlb := (tlb c)(?i := e)\<rparr>"
    have w: "cpu_walk ?c linear = Some p" "mem_wf (c_mem ?c)" using that assms by simp_all
    show "cpu_walk (set_accessed_bits ?c p write) = cpu_walk c" using walk_set_accessed [OF w(2,1)] by simp
    then show "tlb_sound (set_accessed_bits ?c p write)"
      using tlb_sound_upd [OF assms(2), of e ?i] that(2) tlb_sound_cong [of "set_accessed_bits ?c p write" ?c]
      by (simp add: set_accessed_bits_def)
    show "mem_wf (c_mem (set_accessed_bits ?c p write))"
      using set_accessed_core(1) [OF assms(1) that(1) [unfolded cpu_walk_def]] by (simp add: set_accessed_bits_def)
  qed
  have fault: "tlb_sound (raise_page_fault c l a b d e)" "tlb_sound (raise_gp c k)" for l a b d e k
    using assms(2) tlb_sound_cong [of "raise_page_fault c l a b d e" c] tlb_sound_cong [of "raise_gp c k" c]
    by (simp_all add: apply_paging_inner_fault_frame)
  show ?thesis
    unfolding apply_paging_inner_def
    using assms m hit miss fault entry_sound_new [of c linear]
    by (auto simp: Let_def apply_paging_inner_fault_frame split: option.split)
qed

text \<open>C32: Translating keeps the TLB sound: from a state whose TLB agrees with the page tables, any
  translation, of any address, for any access, faulting or not, leads to such a state again, and
  the page tables it updates translate every address as before.\<close>

theorem paging_keeps_tlb_sound:
  assumes "mem_wf (c_mem c)" "tlb_sound c"
  shows "tlb_sound (snd (apply_paging_inner c linear write fetch)) \<and>
    cpu_walk (snd (apply_paging_inner c linear write fetch)) = cpu_walk c"
  using apply_paging_inner_sound [OF assms] by blast

lemma small_machine_wf: "mem_wf (c_mem small_machine)" "tlb_sound small_machine"
  using with_size_wf [of "0x100000" None]
  by (simp_all add: small_machine_def cpu_with_ram_def tlb_sound_def tlb_default_def)

theorem paging_keeps_tlb_sound_witness:
  "tlb_sound (snd (apply_paging_inner (small_machine\<lparr>cr0 := 0x80000001\<rparr>) 0x1000 True False))"
proof -
  have "tlb_sound (small_machine\<lparr>cr0 := 0x80000001\<rparr>)" "mem_wf (c_mem (small_machine\<lparr>cr0 := 0x80000001\<rparr>))"
    using small_machine_wf by (simp_all add: tlb_sound_def small_machine_def cpu_with_ram_def tlb_default_def)
  then show ?thesis using paging_keeps_tlb_sound by blast
qed

text \<open>C33: The TLB is transparent: with a sound TLB, every translation gives the physical address, the
  pending fault and the faulting address that walking the page tables on every access gives.\<close>

theorem tlb_transparent:
  assumes "tlb_sound c"
  shows "let (a, c') = apply_paging_inner c linear write fetch;
             (a', c'') = apply_paging_inner (c\<lparr>no_tlb := True\<rparr>) linear write fetch
         in a = a' \<and> pending_exception c' = pending_exception c'' \<and> cr2 c' = cr2 c''"
proof -
  let ?e = "tlb c (tlb_index (drop_bit 12 linear))"
  have w: "cpu_walk (c\<lparr>no_tlb := True\<rparr>) linear = cpu_walk c linear"
    by (simp add: cpu_walk_def cpu_paging_mode_def long_mode_def cpu_nxe_def)
  have f: "long_mode (c\<lparr>no_tlb := True\<rparr>) = long_mode c" "cpl (c\<lparr>no_tlb := True\<rparr>) = cpl c"
    "access_allowed (c\<lparr>no_tlb := True\<rparr>) = access_allowed c"
    by (simp_all add: long_mode_def cpl_def access_allowed_def fun_eq_iff)
  have g: "pending_exception (raise_gp (c\<lparr>no_tlb := b\<rparr>) k) = pending_exception (raise_gp c k)"
    "cr2 (raise_gp c k) = cr2 c"
    "pending_exception (raise_page_fault (c\<lparr>no_tlb := b\<rparr>) l x y z t) = pending_exception (raise_page_fault c l x y z t)"
    "cr2 (raise_page_fault (c\<lparr>no_tlb := b\<rparr>) l x y z t) = cr2 (raise_page_fault c l x y z t)" for b k l x y z t
    by (simp_all add: raise_gp_def raise_page_fault_def Let_def)
  have g': "cr2 (raise_gp (c\<lparr>no_tlb := b\<rparr>) k) = cr2 c" for b k by (simp add: raise_gp_def)
  have s: "pending_exception (set_accessed_bits d p b) = pending_exception d" "cr2 (set_accessed_bits d p b) = cr2 d"
    "pending_exception (mark_accessed d l b) = pending_exception d" "cr2 (mark_accessed d l b) = cr2 d" for d p b l
    by (simp_all add: set_accessed_bits_def mark_accessed_def split: option.split)
  show ?thesis
  proof (cases "tlb_valid ?e \<and> tlb_vpage ?e = drop_bit 12 linear \<and> \<not> no_tlb c")
    case True
    then obtain p where p: "cpu_walk c linear = Some p" "pm_phys p = (push_bit 12 (tlb_ppage ?e) OR (linear AND 0xFFF))"
      "pm_writable p = tlb_writable ?e" "pm_user p = tlb_user ?e" "pm_exec p = tlb_exec ?e"
      using sound_hit [of c ?e linear] assms by (auto simp: tlb_sound_def)
    show ?thesis
      using True p by (auto simp: apply_paging_inner_def Let_def w f g g' s)
  next
    case False
    then show ?thesis
      by (cases "cpu_walk c linear")
        (auto simp: apply_paging_inner_def Let_def w f g g' s)
  qed
qed

theorem tlb_transparent_witness:
  "fst (apply_paging_inner (small_machine\<lparr>cr0 := 0x80000001\<rparr>) 0x1000 True False) =
   fst (apply_paging_inner (small_machine\<lparr>cr0 := 0x80000001, no_tlb := True\<rparr>) 0x1000 True False)"
proof -
  have "tlb_sound (small_machine\<lparr>cr0 := 0x80000001\<rparr>)"
    by (simp add: tlb_sound_def small_machine_def cpu_with_ram_def tlb_default_def)
  from tlb_transparent [OF this, of "0x1000" True False] show ?thesis by (simp add: Let_def split_beta)
qed

end
