(* ===== verification/Cpu_Fetch.thy ===== *)
theory Cpu_Fetch imports Mmu_Laws begin

text \<open>
  Instruction fetch (src/src/cpu.rs) and the ModR/M byte (src/src/modrm.rs).
  The fetch cache keeps the physical address of the next byte; the wide
  fetches have a fast path within a page. The lemmas show that every wide
  fetch is the little-endian value of single-byte fetches, state included, and
  how many bytes a ModR/M operand takes.
\<close>

unbundle bit_operations_syntax

section \<open>The fetch cache\<close>

definition ensure_phys_ip :: "cpu \<Rightarrow> cpu" where
  "ensure_phys_ip c =
     (if phys_ip_valid c then c
      else
        (let linear = ip_linear c; c = c\<lparr>phys_ip_linear := linear\<rparr>;
             (a, c) = apply_paging_fetch c linear
         in c\<lparr>phys_ip_cache := a, phys_ip_valid := True\<rparr>))"

definition advance_ip :: "cpu \<Rightarrow> u64 \<Rightarrow> cpu" where
  "advance_ip c n =
     (if pe c then c\<lparr>c_rip := (c_rip c + n) AND rip_mask c\<rparr> else c\<lparr>c_ip := c_ip c + ucast n\<rparr>)"

definition peek_u8 :: "cpu \<Rightarrow> u8 \<times> cpu" where
  "peek_u8 c = (let c = ensure_phys_ip c in (read_u8_raw (c_mem c) (phys_ip_cache c), c))"

definition fetch_u8 :: "cpu \<Rightarrow> u8 \<times> cpu" where
  "fetch_u8 c =
     (let c = ensure_phys_ip c;
          b = read_u8_raw (c_mem c) (phys_ip_cache c);
          c = advance_ip c 1;
          c = c\<lparr>phys_ip_cache := phys_ip_cache c + 1\<rparr>;
          crossed = (phys_ip_linear c AND 0xFFF = 0xFFF);
          c = c\<lparr>phys_ip_linear := phys_ip_linear c + 1\<rparr>;
          c = (if crossed then c\<lparr>phys_ip_valid := False\<rparr> else c)
      in (b, c))"

definition fetch_u16 :: "cpu \<Rightarrow> u16 \<times> cpu" where
  "fetch_u16 c =
     (let c = ensure_phys_ip c; addr = phys_ip_cache c; offset = phys_ip_linear c AND 0xFFF in
      if offset \<le> 0xFFE then
        (let lo = read_u8_raw (c_mem c) addr; hi = read_u8_raw (c_mem c) (addr + 1);
             c = advance_ip c 2;
             c = c\<lparr>phys_ip_cache := phys_ip_cache c + 2\<rparr>;
             c = c\<lparr>phys_ip_linear := phys_ip_linear c + 2\<rparr>;
             c = (if offset = 0xFFE then c\<lparr>phys_ip_valid := False\<rparr> else c)
         in (join16 lo hi, c))
      else
        (let (lo, c) = fetch_u8 c; (hi, c) = fetch_u8 c in (join16 lo hi, c)))"

definition fetch_u32 :: "cpu \<Rightarrow> u32 \<times> cpu" where
  "fetch_u32 c =
     (let (lo, c) = fetch_u16 c; (hi, c) = fetch_u16 c in (ucast lo OR push_bit 16 (ucast hi), c))"

definition fetch_u64 :: "cpu \<Rightarrow> u64 \<times> cpu" where
  "fetch_u64 c =
     (let (lo, c) = fetch_u32 c; (hi, c) = fetch_u32 c in (ucast lo OR push_bit 32 (ucast hi), c))"

section \<open>ModR/M\<close>

record modrm =
  mod_field :: u8
  m_reg :: u8
  m_rm :: u8
  rm_raw :: u8
  m_rex_b :: bool
  m_rex_x :: bool
  rip_rel :: bool
  sib :: "u8 option"
  disp8 :: "u16 option"
  disp16 :: "u16 option"
  disp32 :: "u32 option"

definition modrm_from_byte :: "u8 \<Rightarrow> modrm" where
  "modrm_from_byte b =
     \<lparr>mod_field = drop_bit 6 b AND 3, m_reg = drop_bit 3 b AND 7, m_rm = b AND 7, rm_raw = b AND 7,
      m_rex_b = False, m_rex_x = False, rip_rel = False, sib = None, disp8 = None, disp16 = None,
      disp32 = None\<rparr>"

definition is_reg :: "modrm \<Rightarrow> bool" where "is_reg m \<longleftrightarrow> mod_field m = 3"

text \<open>
  \<open>fetch_modrm\<close> in the three parts the function has: the REX extension of the
  byte, and the displacement bytes of the 32-bit and of the 16-bit form.
\<close>

definition modrm_rex :: "cpu \<Rightarrow> u8 \<Rightarrow> modrm" where
  "modrm_rex c byte =
     (let m = modrm_from_byte byte;
          m = m\<lparr>rm_raw := m_rm m, m_rex_b := rex_b c, m_rex_x := rex_x c,
                m_reg := m_reg m OR push_bit 3 (bool_to (rex_r c))\<rparr>
      in if mod_field m = 3 then m\<lparr>m_rm := m_rm m OR push_bit 3 (bool_to (rex_b c))\<rparr> else m)"

definition fetch_disp32 :: "modrm \<Rightarrow> cpu \<Rightarrow> modrm \<times> cpu" where
  "fetch_disp32 m c =
     (let (m, c) = (if mod_field m \<noteq> 3 \<and> rm_raw m = 4
                    then (let (s, c) = fetch_u8 c in (m\<lparr>sib := Some s\<rparr>, c)) else (m, c))
      in if mod_field m = 0 then
           (let sib_disp32 = (case sib m of Some s \<Rightarrow> s AND 7 = 5 | None \<Rightarrow> False) in
            if rm_raw m = 5 \<or> sib_disp32 then
              (let m = (if rm_raw m = 5 \<and> addr64 c then m\<lparr>rip_rel := True\<rparr> else m);
                   (d, c) = fetch_u32 c
               in (m\<lparr>disp32 := Some d\<rparr>, c))
            else (m, c))
         else if mod_field m = 1 then
           (let (d, c) = fetch_u8 c in (m\<lparr>disp32 := Some (scast d)\<rparr>, c))
         else if mod_field m = 2 then
           (let (d, c) = fetch_u32 c in (m\<lparr>disp32 := Some d\<rparr>, c))
         else (m, c))"

definition fetch_disp16 :: "modrm \<Rightarrow> cpu \<Rightarrow> modrm \<times> cpu" where
  "fetch_disp16 m c =
     (if mod_field m = 0 then
        (if rm_raw m = 6 then (let (d, c) = fetch_u16 c in (m\<lparr>disp16 := Some d\<rparr>, c)) else (m, c))
      else if mod_field m = 1 then
        (let (d, c) = fetch_u8 c in (m\<lparr>disp8 := Some (scast d)\<rparr>, c))
      else if mod_field m = 2 then
        (let (d, c) = fetch_u16 c in (m\<lparr>disp16 := Some d\<rparr>, c))
      else (m, c))"

definition fetch_modrm :: "cpu \<Rightarrow> modrm \<times> cpu" where
  "fetch_modrm c =
     (let (byte, c) = fetch_u8 c; m = modrm_rex c byte in
      if addrsize c then fetch_disp32 m c else fetch_disp16 m c)"

section \<open>Wide fetches are byte fetches\<close>

fun fetch_bytes :: "nat \<Rightarrow> cpu \<Rightarrow> u8 list \<times> cpu" where
  "fetch_bytes 0 c = ([], c)"
| "fetch_bytes (Suc n) c = (let (b, c) = fetch_u8 c; (bs, c) = fetch_bytes n c in (b # bs, c))"

text \<open>The two values the code gives \<open>rip_mask\<close>: 32-bit modes wrap RIP, 64-bit mode does not.\<close>

definition rip_mask_ok :: "cpu \<Rightarrow> bool" where
  "rip_mask_ok c \<longleftrightarrow> rip_mask c = 0xFFFFFFFF \<or> rip_mask c = 0xFFFFFFFFFFFFFFFF"

text \<open>What a translation for a fetch leaves alone.\<close>

lemma apply_paging_frame [simp]:
  "rip_mask (snd (apply_paging_inner c l w f)) = rip_mask c"
  "pe (snd (apply_paging_inner c l w f)) = pe c"
  "c_rip (snd (apply_paging_inner c l w f)) = c_rip c"
  "c_ip (snd (apply_paging_inner c l w f)) = c_ip c"
  "phys_ip_linear (snd (apply_paging_inner c l w f)) = phys_ip_linear c"
  "phys_ip_cache (snd (apply_paging_inner c l w f)) = phys_ip_cache c"
  "phys_ip_valid (snd (apply_paging_inner c l w f)) = phys_ip_valid c"
  "c_cs (snd (apply_paging_inner c l w f)) = c_cs c"
  "seg_desc (snd (apply_paging_inner c l w f)) = seg_desc c"
  "efer (snd (apply_paging_inner c l w f)) = efer c"
  "cr0 (snd (apply_paging_inner c l w f)) = cr0 c"
  "cr3 (snd (apply_paging_inner c l w f)) = cr3 c"
  "cr4 (snd (apply_paging_inner c l w f)) = cr4 c"
  "no_tlb (snd (apply_paging_inner c l w f)) = no_tlb c"
  by (auto simp: apply_paging_inner_def raise_gp_def raise_page_fault_def set_accessed_bits_def
      mark_accessed_def Let_def split: option.splits)

lemma ensure_phys_ip_frame [simp]:
  "rip_mask (ensure_phys_ip c) = rip_mask c" "pe (ensure_phys_ip c) = pe c"
  "c_rip (ensure_phys_ip c) = c_rip c" "c_ip (ensure_phys_ip c) = c_ip c"
  "phys_ip_valid (ensure_phys_ip c)"
  by (auto simp: ensure_phys_ip_def apply_paging_fetch_def Let_def split_beta)

lemma ensure_phys_ip_idem: "phys_ip_valid c \<Longrightarrow> ensure_phys_ip c = c"
  by (simp add: ensure_phys_ip_def)

lemma rip_mask_masks: "(0xFFFFFFFF :: u64) = mask 32" "(0xFFFFFFFFFFFFFFFF :: u64) = mask 64"
  by (simp_all add: mask_eq_exp_minus_1)

lemma all_ones: "r AND 0xFFFFFFFFFFFFFFFF = (r :: u64)"
  unfolding rip_mask_masks by (rule low32)

lemma take_bit_add_left: "m \<le> n \<Longrightarrow> take_bit m (take_bit n r + k) = take_bit m (r + k)" for r k :: int
  by (metis take_bit_add take_bit_take_bit min.absorb1)

lemma masked_step: "((r AND mask n) + k) AND mask n = (r + k) AND mask n" for r :: u64
  unfolding take_bit_eq_mask [symmetric]
  by transfer (simp add: take_bit_take_bit take_bit_add_left)

lemma advance_twice:
  assumes "rip_mask_ok c"
  shows "advance_ip (advance_ip c 1) 1 = advance_ip c 2"
  using assms masked_step [of "c_rip c + 1" 32 1]
  by (auto simp: advance_ip_def rip_mask_ok_def rip_mask_masks(1) all_ones add.assoc)

lemma offset_step:
  fixes x :: u64
  assumes "x AND 0xFFF \<noteq> 0xFFF"
  shows "(x + 1) AND 0xFFF = (x AND 0xFFF) + 1"
proof -
  have m: "(0xFFF :: u64) = mask 12" by (simp add: mask_eq_exp_minus_1)
  define y where "y = x AND mask 12"
  have "unat y < 4096" using and_mask_lt [of 12 x] by (simp add: y_def word_less_nat_alt)
  moreover have "unat y \<noteq> 4095" using assms unfolding m by (simp add: y_def word_unat_eq_iff mask_eq_exp_minus_1)
  ultimately have "unat (y + 1) < 2 ^ 12" by (simp add: unat_add_one64)
  then have "(y + 1) AND mask 12 = y + 1" by (intro less_mask_eq) (simp add: word_less_nat_alt)
  then show ?thesis unfolding m using masked_step [of x 12 1] by (simp add: y_def)
qed

text \<open>The fast path of the two-byte fetch.\<close>

lemma offset_cases: "x AND 0xFFF \<le> 0xFFE \<longleftrightarrow> x AND 0xFFF \<noteq> 0xFFF" for x :: u64
proof -
  have "(0xFFF :: u64) = mask 12" by (simp add: mask_eq_exp_minus_1)
  then have "unat (x AND 0xFFF) < 4096" using and_mask_lt [of 12 x] by (simp add: word_less_nat_alt)
  then show ?thesis by (auto simp: word_le_nat_alt word_unat_eq_iff)
qed

lemma advance_ip_update [simp]:
  "advance_ip (c\<lparr>phys_ip_cache := a\<rparr>) n = advance_ip c n\<lparr>phys_ip_cache := a\<rparr>"
  "advance_ip (c\<lparr>phys_ip_linear := l\<rparr>) n = advance_ip c n\<lparr>phys_ip_linear := l\<rparr>"
  "advance_ip (c\<lparr>phys_ip_valid := v\<rparr>) n = advance_ip c n\<lparr>phys_ip_valid := v\<rparr>"
  "phys_ip_linear (advance_ip c n) = phys_ip_linear c" "phys_ip_cache (advance_ip c n) = phys_ip_cache c"
  "phys_ip_valid (advance_ip c n) = phys_ip_valid c" "c_mem (advance_ip c n) = c_mem c"
  "rip_mask (advance_ip c n) = rip_mask c"
  by (simp_all add: advance_ip_def)

lemma fetch_u8_valid:
  assumes "phys_ip_valid c"
  shows "fetch_u8 c =
    (read_u8_raw (c_mem c) (phys_ip_cache c),
     (advance_ip c 1)\<lparr>phys_ip_cache := phys_ip_cache c + 1, phys_ip_linear := phys_ip_linear c + 1,
       phys_ip_valid := (phys_ip_linear c AND 0xFFF \<noteq> 0xFFF)\<rparr>)"
  using assms by (simp add: fetch_u8_def Let_def ensure_phys_ip_idem)

lemma fetch_u16_bytes:
  assumes "rip_mask_ok c"
  shows "fetch_u16 c = (let (lo, c) = fetch_u8 c; (hi, c) = fetch_u8 c in (join16 lo hi, c))"
proof -
  define d where "d = ensure_phys_ip c"
  have v: "phys_ip_valid d" and r: "rip_mask_ok d" using assms by (simp_all add: d_def rip_mask_ok_def)
  have e: "fetch_u8 c = fetch_u8 d" "fetch_u16 c = fetch_u16 d"
    by (simp_all add: fetch_u8_def fetch_u16_def ensure_phys_ip_idem v d_def Let_def)
  show ?thesis
  proof (cases "phys_ip_linear d AND 0xFFF = 0xFFF")
    case True
    then show ?thesis unfolding e by (simp add: fetch_u16_def ensure_phys_ip_idem v offset_cases)
  next
    case False
    have "(phys_ip_linear d AND 0xFFF) + 1 = 0xFFF \<longleftrightarrow> phys_ip_linear d AND 0xFFF = 0xFFE"
      by (auto simp: eq_diff_eq [symmetric])
    with False show ?thesis unfolding e
      by (simp add: fetch_u8_valid v fetch_u16_def ensure_phys_ip_idem offset_cases offset_step
          advance_twice r Let_def add.assoc cong: if_cong)
  qed
qed

lemma fetch_u8_mask [simp]: "rip_mask (snd (fetch_u8 c)) = rip_mask c"
  by (simp add: fetch_u8_def Let_def)

lemma fetch_bytes_mask [simp]: "rip_mask (snd (fetch_bytes n c)) = rip_mask c"
  by (induction n arbitrary: c) (simp_all add: split_beta)

lemma fetch_bytes_length [simp]: "length (fst (fetch_bytes n c)) = n"
  by (induction n arbitrary: c) (simp_all add: split_beta)

lemma fetch_bytes_add:
  "fetch_bytes (m + n) c = (let (xs, c) = fetch_bytes m c; (ys, c) = fetch_bytes n c in (xs @ ys, c))"
  by (induction m arbitrary: c) (simp_all add: Let_def split_beta)

lemma rip_mask_ok_cong: "rip_mask c' = rip_mask c \<Longrightarrow> rip_mask_ok c' = rip_mask_ok c"
  by (simp add: rip_mask_ok_def)

lemma fetch_u16_split:
  assumes "rip_mask_ok c"
  shows "fetch_u16 c =
    (join16 (fst (fetch_bytes 2 c) ! 0) (fst (fetch_bytes 2 c) ! 1), snd (fetch_bytes 2 c))"
  by (simp add: fetch_u16_bytes [OF assms] Let_def split_beta numeral_2_eq_2)

lemma join32_halves: "ucast (join16 a b) OR push_bit 16 (ucast (join16 x y)) = join32 a b x y"
  by (rule bit_word_eqI) (auto simp: bit_join16 bit_join32 bit_simps dest: bit_imp_le_length)

lemma fetch_u32_split:
  assumes "rip_mask_ok c"
  shows "fetch_u32 c =
    (let bs = fst (fetch_bytes 4 c) in join32 (bs ! 0) (bs ! 1) (bs ! 2) (bs ! 3), snd (fetch_bytes 4 c))"
proof -
  have "fetch_bytes 4 c = fetch_bytes (2 + 2) c" by simp
  moreover have "rip_mask_ok (snd (fetch_bytes 2 c))" using assms by (simp add: rip_mask_ok_def)
  ultimately show ?thesis
    unfolding fetch_u32_def fetch_bytes_add
    by (simp add: fetch_u16_split assms Let_def split_beta nth_append join32_halves)
qed

lemma fetch_u64_split:
  assumes "rip_mask_ok c"
  shows "fetch_u64 c =
    (let bs = fst (fetch_bytes 8 c)
     in join64 (join32 (bs ! 0) (bs ! 1) (bs ! 2) (bs ! 3)) (join32 (bs ! 4) (bs ! 5) (bs ! 6) (bs ! 7)),
     snd (fetch_bytes 8 c))"
proof -
  have "fetch_bytes 8 c = fetch_bytes (4 + 4) c" by simp
  moreover have "rip_mask_ok (snd (fetch_bytes 4 c))" using assms by (simp add: rip_mask_ok_def)
  ultimately show ?thesis
    unfolding fetch_u64_def fetch_bytes_add
    by (simp add: fetch_u32_split assms Let_def split_beta nth_append join64_def)
qed

text \<open>Every wide fetch is the little-endian value of single-byte fetches and leaves the machine in the
  state they leave it in, across page boundaries, faults and the wrap of the instruction pointer:
  the in-page fast path of the two-byte fetch is an optimisation only.\<close>

theorem wide_fetch_is_byte_fetches:
  assumes "rip_mask_ok c"
  shows "fetch_u16 c = (let (bs, c') = fetch_bytes 2 c in (join16 (bs ! 0) (bs ! 1), c')) \<and>
    fetch_u32 c = (let (bs, c') = fetch_bytes 4 c in (join32 (bs ! 0) (bs ! 1) (bs ! 2) (bs ! 3), c')) \<and>
    fetch_u64 c = (let (bs, c') = fetch_bytes 8 c
      in (join64 (join32 (bs ! 0) (bs ! 1) (bs ! 2) (bs ! 3)) (join32 (bs ! 4) (bs ! 5) (bs ! 6) (bs ! 7)), c'))"
  using assms by (simp add: fetch_u16_split fetch_u32_split fetch_u64_split Let_def split_beta)

theorem wide_fetch_is_byte_fetches_witness:
  "fetch_u16 small_machine = (let (bs, c') = fetch_bytes 2 small_machine in (join16 (bs ! 0) (bs ! 1), c'))"
proof -
  have "rip_mask_ok small_machine" by (simp add: rip_mask_ok_def small_machine_def cpu_with_ram_def)
  then show ?thesis using wide_fetch_is_byte_fetches by blast
qed

section \<open>A fetch reads the code the page tables map\<close>

text \<open>The fetch cache agrees with CS:RIP and with the page tables, unless a fault is pending.\<close>

definition fetch_sound :: "cpu \<Rightarrow> bool" where
  "fetch_sound c \<longleftrightarrow> (phys_ip_valid c \<and> pending_exception c = None \<longrightarrow>
     phys_ip_linear c = ip_linear c \<and> phys_ip_cache c = linear_to_phys_ro c (ip_linear c) \<and>
     (cr0 c AND CR0_PG = 0 \<or> cpu_walk c (ip_linear c) \<noteq> None))"

text \<open>\<open>step\<close> sets the mask of the instruction pointer to this before it fetches.\<close>

definition rip_mask_mode :: "cpu \<Rightarrow> bool" where
  "rip_mask_mode c \<longleftrightarrow> rip_mask c = (if long64 c then 0xFFFFFFFFFFFFFFFF else 0xFFFFFFFF)"

lemma paging_phys:
  assumes "tlb_sound c" "pending_exception (snd (apply_paging_inner c l w f)) = None"
  shows "fst (apply_paging_inner c l w f) = linear_to_phys_ro c l \<and>
    (cr0 c AND CR0_PG = 0 \<or> cpu_walk c l \<noteq> None)"
proof -
  let ?e = "tlb c (tlb_index (drop_bit 12 l))"
  have g: "(pending_exception (raise_gp c k) = None) = False"
    "(pending_exception (raise_page_fault c a x y z t) = None) = False"
    for k a x y z t by (auto simp: raise_gp_def raise_page_fault_def Let_def)
  show ?thesis
  proof (cases "tlb_valid ?e \<and> tlb_vpage ?e = drop_bit 12 l \<and> \<not> no_tlb c")
    case True
    then obtain p where "cpu_walk c l = Some p" "pm_phys p = (push_bit 12 (tlb_ppage ?e) OR (l AND 0xFFF))"
      using sound_hit [of c ?e l] assms(1) by (auto simp: tlb_sound_def)
    then show ?thesis using True assms(2)
      by (auto simp: g apply_paging_inner_def Let_def linear_to_phys_ro_def split: if_splits)
  next
    case False
    then show ?thesis using assms(2)
      by (auto simp: g apply_paging_inner_def Let_def linear_to_phys_ro_def split: if_splits option.splits)
  qed
qed

lemma same_page_next:
  fixes x :: u64
  assumes "x AND 0xFFF \<noteq> 0xFFF"
  shows "drop_bit 12 (x + 1) = drop_bit 12 x" "unat (x + 1) = unat x + 1"
proof -
  have m: "(0xFFF :: u64) = mask 12" by (simp add: mask_eq_exp_minus_1)
  have "unat x < 2 ^ LENGTH(64)" by (rule unsigned_less)
  then have "unat x < 2 ^ 64" by simp
  have n: "unat x mod 4096 \<noteq> 4095"
    using assms unfolding m word_unat_eq_iff unat_and_mask by (simp add: mask_eq_exp_minus_1)
  moreover have "(2 ^ 64 - 1 :: nat) mod 4096 = 4095" by simp
  ultimately have "unat x \<noteq> 2 ^ 64 - 1" by metis
  then have "unat x + 1 < 2 ^ 64" using \<open>unat x < 2 ^ 64\<close> by simp
  then show u: "unat (x + 1) = unat x + 1" by (rule unat_add_one64)
  have "Suc (unat x) div 4096 = unat x div 4096" using n by (simp add: div_Suc mod_Suc split: if_splits)
  then show "drop_bit 12 (x + 1) = drop_bit 12 x"
    by (simp add: word_unat_eq_iff drop_bit_eq_div unat_div u)
qed

lemma phys_next:
  assumes "l AND 0xFFF \<noteq> 0xFFF" "cr0 c AND CR0_PG = 0 \<or> cpu_walk c l \<noteq> None"
  shows "linear_to_phys_ro c (l + 1) = linear_to_phys_ro c l + 1 \<and>
    (cr0 c AND CR0_PG = 0 \<or> cpu_walk c (l + 1) \<noteq> None)"
proof (cases "cr0 c AND CR0_PG = 0")
  case True
  then show ?thesis by (simp add: linear_to_phys_ro_def)
next
  case False
  then obtain p where p: "cpu_walk c l = Some p" using assms(2) by auto
  have "rel_option (\<lambda>p q. same_page p q \<and> pm_phys p AND 0xFFF = (l + 1) AND 0xFFF) (cpu_walk c (l + 1)) (Some p)"
    using cpu_walk_page [OF same_page_next(1) [OF assms(1)], of c] p by simp
  then obtain q where q: "cpu_walk c (l + 1) = Some q" "same_page q p" "pm_phys q AND 0xFFF = (l + 1) AND 0xFFF"
    by (auto simp: option_rel_Some2)
  have r: "pm_phys p AND 0xFFF = l AND 0xFFF"
    using cpu_walk_page [of l l c] p by simp
  have "pm_phys q = push_bit 12 (drop_bit 12 (pm_phys p)) OR ((l + 1) AND 0xFFF)"
    using page_join [OF q(3)] same_page_perms(4) [OF q(2)] by simp
  also have "\<dots> = push_bit 12 (drop_bit 12 (pm_phys p + 1)) OR ((pm_phys p + 1) AND 0xFFF)"
    using same_page_next(1) [of "pm_phys p"] offset_step [of "pm_phys p"] offset_step [of l] r assms(1) by simp
  also have "\<dots> = pm_phys p + 1" by (rule page_join) simp
  finally show ?thesis using False p q(1) by (simp add: linear_to_phys_ro_def)
qed

lemma low_word_next:
  fixes x :: u64
  assumes "(x AND 0xFFFFFFFF) AND 0xFFF \<noteq> 0xFFF"
  shows "(x + 1) AND 0xFFFFFFFF = (x AND 0xFFFFFFFF) + 1"
proof -
  define y where "y = x AND mask 32"
  have m: "(0xFFFFFFFF :: u64) = mask 32" "(0xFFF :: u64) = mask 12" by (simp_all add: mask_eq_exp_minus_1)
  have "unat y < 2 ^ 32" using and_mask_lt [of 32 x] by (simp add: y_def word_less_nat_alt)
  moreover have "unat y \<noteq> 2 ^ 32 - 1"
  proof
    assume "unat y = 2 ^ 32 - 1"
    then have "y = mask 32" by (simp add: word_unat_eq_iff mask_eq_exp_minus_1)
    then show False using assms by (simp add: m y_def [symmetric]) (simp add: mask_eq_exp_minus_1)
  qed
  ultimately have "unat (y + 1) < 2 ^ 32" by (simp add: unat_add_one64)
  then have "(y + 1) AND mask 32 = y + 1" by (intro less_mask_eq) (simp add: word_less_nat_alt)
  then show ?thesis unfolding m using masked_step [of x 32 1] by (simp add: y_def)
qed

lemma ip_linear_next:
  assumes "pe c" "rip_mask_mode c" "ip_linear c AND 0xFFF \<noteq> 0xFFF"
  shows "ip_linear (advance_ip c 1) = ip_linear c + 1"
proof -
  have l: "long64 (advance_ip c 1) = long64 c" "d_base (seg_desc (advance_ip c 1) s) = d_base (seg_desc c s)" for s
    by (simp_all add: advance_ip_def long64_def long_mode_def)
  have a: "(b + (((r + 1) AND 0xFFFFFFFF) AND 0xFFFFFFFF)) AND 0xFFFFFFFF = (b + (r AND 0xFFFFFFFF) + 1) AND 0xFFFFFFFF"
    for b r :: u64
    using masked_step [of "r + 1" 32 b] masked_step [of r 32 "b + 1"]
    by (simp add: rip_mask_masks(1) ac_simps)
  show ?thesis
  proof (cases "long64 c")
    case True
    then show ?thesis using assms l by (simp add: ip_linear_def rip_mask_mode_def advance_ip_def all_ones)
  next
    case False
    then show ?thesis using assms l a low_word_next [of "ucast (d_base (seg_desc c Cs)) + (c_rip c AND 0xFFFFFFFF)"]
      by (simp add: ip_linear_def rip_mask_mode_def advance_ip_def)
  qed
qed

lemma fetch_frame [simp]:
  "linear_to_phys_ro (c\<lparr>phys_ip_cache := a, phys_ip_linear := b, phys_ip_valid := v\<rparr>) = linear_to_phys_ro c"
  "linear_to_phys_ro (c\<lparr>phys_ip_linear := b\<rparr>) = linear_to_phys_ro c"
  "cpu_walk (c\<lparr>phys_ip_linear := b\<rparr>) = cpu_walk c"
  "cpu_walk (c\<lparr>phys_ip_cache := a, phys_ip_valid := v\<rparr>) = cpu_walk c"
  "cpu_walk (c\<lparr>phys_ip_cache := a, phys_ip_linear := b, phys_ip_valid := v\<rparr>) = cpu_walk c"
  "linear_to_phys_ro (advance_ip c n) = linear_to_phys_ro c" "cpu_walk (advance_ip c n) = cpu_walk c"
  "ip_linear (c\<lparr>phys_ip_cache := a, phys_ip_linear := b, phys_ip_valid := v\<rparr>) = ip_linear c"
  "tlb (advance_ip c n) = tlb c" "pending_exception (advance_ip c n) = pending_exception c"
  "cr0 (advance_ip c n) = cr0 c"
  by (simp_all add: linear_to_phys_ro_def cpu_walk_def cpu_paging_mode_def long_mode_def cpu_nxe_def
      advance_ip_def ip_linear_def long64_def fun_eq_iff cong: if_cong)

lemma walk_phys_cong: "cpu_walk c' = cpu_walk c \<Longrightarrow> cr0 c' = cr0 c \<Longrightarrow> linear_to_phys_ro c' = linear_to_phys_ro c"
  by (simp add: linear_to_phys_ro_def fun_eq_iff)

lemma ip_linear_cong:
  "long64 c' = long64 c \<Longrightarrow> c_rip c' = c_rip c \<Longrightarrow> pe c' = pe c \<Longrightarrow> seg_desc c' = seg_desc c \<Longrightarrow>
    c_cs c' = c_cs c \<Longrightarrow> c_ip c' = c_ip c \<Longrightarrow> ip_linear c' = ip_linear c"
  by (simp add: ip_linear_def)

text \<open>Filling the cache establishes its invariant.\<close>

lemma ensure_fetch_sound:
  assumes "mem_wf (c_mem c)" "tlb_sound c" "fetch_sound c"
  shows "fetch_sound (ensure_phys_ip c) \<and> tlb_sound (ensure_phys_ip c) \<and> mem_wf (c_mem (ensure_phys_ip c)) \<and>
    cpu_walk (ensure_phys_ip c) = cpu_walk c \<and> cr0 (ensure_phys_ip c) = cr0 c \<and>
    ip_linear (ensure_phys_ip c) = ip_linear c \<and> long64 (ensure_phys_ip c) = long64 c"
proof (cases "phys_ip_valid c")
  case True
  then show ?thesis using assms by (simp add: ensure_phys_ip_idem)
next
  case False
  let ?c = "c\<lparr>phys_ip_linear := ip_linear c\<rparr>"
  let ?d = "snd (apply_paging_fetch ?c (ip_linear c))"
  have s: "tlb_sound ?c" "mem_wf (c_mem ?c)" "cpu_walk ?c = cpu_walk c"
    using assms tlb_sound_cong [of ?c c] by simp_all
  note t = apply_paging_inner_sound [OF s(2,1), of "ip_linear c" False True, folded apply_paging_fetch_def]
  have e: "ensure_phys_ip c = ?d\<lparr>phys_ip_cache := fst (apply_paging_fetch ?c (ip_linear c)), phys_ip_valid := True\<rparr>"
    using False by (simp add: ensure_phys_ip_def Let_def split_beta)
  have w: "cpu_walk (ensure_phys_ip c) = cpu_walk c" unfolding e using t s(3) by simp
  have f: "long64 (ensure_phys_ip c) = long64 c" "cr0 (ensure_phys_ip c) = cr0 c"
    "phys_ip_linear (ensure_phys_ip c) = ip_linear c"
    unfolding e by (simp_all add: apply_paging_fetch_def long64_def long_mode_def)
  have i: "ip_linear (ensure_phys_ip c) = ip_linear c"
    by (rule ip_linear_cong [OF f(1)]) (simp_all add: e apply_paging_fetch_def)
  have p: "linear_to_phys_ro (ensure_phys_ip c) = linear_to_phys_ro c" by (rule walk_phys_cong [OF w f(2)])
  have "tlb_sound (ensure_phys_ip c)" "mem_wf (c_mem (ensure_phys_ip c))"
    using t w s(3) tlb_sound_cong [of "ensure_phys_ip c" ?d] by (simp_all add: e)
  moreover have "fetch_sound (ensure_phys_ip c)"
    using paging_phys [OF s(1), of "ip_linear c" False True, folded apply_paging_fetch_def] s(3) w f
    unfolding fetch_sound_def i p by (simp add: e)
  ultimately show ?thesis using w f i by blast
qed

lemma fetch_u8_reads_mapped:
  assumes "mem_wf (c_mem c)" "tlb_sound c" "fetch_sound c" "pe c" "rip_mask_mode c"
    "pending_exception (snd (fetch_u8 c)) = None"
  shows "fst (fetch_u8 c) = read_u8_raw (c_mem (snd (fetch_u8 c))) (linear_to_phys_ro c (ip_linear c)) \<and>
    c_rip (snd (fetch_u8 c)) = (c_rip c + 1) AND rip_mask c \<and>
    cpu_walk (snd (fetch_u8 c)) = cpu_walk c \<and>
    fetch_sound (snd (fetch_u8 c)) \<and> tlb_sound (snd (fetch_u8 c)) \<and> mem_wf (c_mem (snd (fetch_u8 c)))"
proof -
  define d where "d = ensure_phys_ip c"
  note s = ensure_fetch_sound [OF assms(1,2,3), folded d_def]
  have v: "phys_ip_valid d" by (simp add: d_def)
  have r: "rip_mask_mode d" "pe d" "c_rip d = c_rip c" "rip_mask d = rip_mask c"
    using assms(4,5) s by (simp_all add: d_def rip_mask_mode_def)
  have e: "fetch_u8 c = fetch_u8 d" by (simp add: fetch_u8_def ensure_phys_ip_idem v d_def Let_def)
  note f = fetch_u8_valid [OF v]
  have n: "pending_exception d = None" using assms(6) unfolding e f by simp
  have l: "phys_ip_linear d = ip_linear c" "phys_ip_cache d = linear_to_phys_ro c (ip_linear c)"
    and m: "cr0 d AND CR0_PG = 0 \<or> cpu_walk d (ip_linear d) \<noteq> None"
    using s v n walk_phys_cong [of d c] by (auto simp: fetch_sound_def)
  have "fetch_sound (snd (fetch_u8 d))"
  proof (cases "ip_linear c AND 0xFFF = 0xFFF")
    case True
    then show ?thesis unfolding f by (simp add: fetch_sound_def l)
  next
    case False
    then have "ip_linear (advance_ip d 1) = ip_linear c + 1"
      using ip_linear_next [OF r(2,1)] s by simp
    then show ?thesis unfolding f using phys_next [of "ip_linear c" d] False m s walk_phys_cong [of d c]
      by (simp add: fetch_sound_def l)
  qed
  moreover have "tlb_sound (snd (fetch_u8 d))"
    using s tlb_sound_cong [of "snd (fetch_u8 d)" d] by (simp add: f)
  ultimately show ?thesis using s r l unfolding e by (simp add: f) (simp add: advance_ip_def)
qed

text \<open>C34: Outside real mode a fetch reads code through the page tables: with a sound TLB and fetch cache, a
  byte fetched without a fault is the byte at the physical address the page tables give for
  CS:RIP, RIP moves by one, and the TLB, the fetch cache and the tables stay consistent, so the
  same holds of every later byte, also over a page boundary.\<close>

theorem fetch_reads_mapped_code:
  assumes "mem_wf (c_mem c)" "tlb_sound c" "fetch_sound c" "pe c" "rip_mask_mode c"
    "fetch_u8 c = (b, c')" "pending_exception c' = None"
  shows "b = read_u8_raw (c_mem c') (linear_to_phys_ro c (ip_linear c)) \<and>
    c_rip c' = (c_rip c + 1) AND rip_mask c \<and> cpu_walk c' = cpu_walk c \<and>
    fetch_sound c' \<and> tlb_sound c' \<and> mem_wf (c_mem c')"
  using fetch_u8_reads_mapped [OF assms(1-5)] assms(6,7) by simp

lemma flat_machine: "mem_wf (c_mem (small_machine\<lparr>pe := True\<rparr>))" "tlb_sound (small_machine\<lparr>pe := True\<rparr>)"
    "fetch_sound (small_machine\<lparr>pe := True\<rparr>)" "rip_mask_mode (small_machine\<lparr>pe := True\<rparr>)"
  using small_machine_wf
  by (simp_all add: small_machine_def tlb_sound_def fetch_sound_def rip_mask_mode_def
      cpu_with_ram_def tlb_default_def long64_def long_mode_def)

theorem fetch_reads_mapped_code_witness:
  "let (b, c') = fetch_u8 (small_machine\<lparr>pe := True\<rparr>) in b = read_u8_raw (c_mem c') 0 \<and> c_rip c' = 1"
proof -
  let ?c = "small_machine\<lparr>pe := True\<rparr>"
  obtain b c' where f: "fetch_u8 ?c = (b, c')" by fastforce
  have z: "ip_linear ?c = 0" "long_mode ?c = False" "cr0 ?c = 0" "pending_exception ?c = None" "phys_ip_valid ?c = False"
    by (simp_all add: ip_linear_def long64_def long_mode_def small_machine_def cpu_with_ram_def descriptor_default_def)
  have "pending_exception (snd (fetch_u8 ?c)) = None"
    by (simp add: fetch_u8_def ensure_phys_ip_def apply_paging_fetch_def apply_paging_inner_def Let_def z)
       (simp add: long_mode_def small_machine_def cpu_with_ram_def)
  then have "pending_exception c' = None" by (simp add: f)
  from fetch_reads_mapped_code [OF flat_machine(1-3) _ flat_machine(4) f this] show ?thesis
    by (simp add: f z linear_to_phys_ro_def) (simp add: small_machine_def cpu_with_ram_def)
qed

text \<open>
  In real mode IP wraps at 64 KiB but the cached address does not, so the byte
  fetched after offset 0xFFFF is the one above the segment, unless the segment
  ends on a page boundary.
\<close>

lemma real_mode_fetch_past_segment:
  "phys_ip_valid (snd (fetch_u8 (small_machine\<lparr>c_cs := 1, c_ip := 0xFFFF\<rparr>))) \<and>
   c_ip (snd (fetch_u8 (small_machine\<lparr>c_cs := 1, c_ip := 0xFFFF\<rparr>))) = 0 \<and>
   phys_ip_cache (snd (fetch_u8 (small_machine\<lparr>c_cs := 1, c_ip := 0xFFFF\<rparr>))) = 0x10010 \<and>
   ip_linear (snd (fetch_u8 (small_machine\<lparr>c_cs := 1, c_ip := 0xFFFF\<rparr>))) = 0x10"
  by (simp add: fetch_u8_def ensure_phys_ip_def apply_paging_fetch_def apply_paging_inner_def Let_def
      ip_linear_def long64_def long_mode_def advance_ip_def small_machine_def cpu_with_ram_def)

end
