(* ===== verification/Cpu_Operands.thy ===== *)
theory Cpu_Operands imports Cpu_Fetch begin

text \<open>
  Effective addresses, ModR/M operands and the stack (src/src/cpu.rs). The code
  computes a 16-bit effective address in two places and chooses segments in two
  places; the lemmas show that they agree, that what is stored through an
  operand is read back through it with paging on, and that a pop undoes a push.
\<close>

unbundle bit_operations_syntax

section \<open>Effective addresses\<close>

definition operand_seg :: "cpu \<Rightarrow> segreg \<Rightarrow> segreg" where
  "operand_seg c dflt = (case seg_override c of Some s \<Rightarrow> s | None \<Rightarrow> dflt)"

definition operand_seg_for_exec :: "cpu \<Rightarrow> segreg \<Rightarrow> segreg" where
  "operand_seg_for_exec c dflt = (case seg_override c of Some s \<Rightarrow> s | None \<Rightarrow> dflt)"

definition add_disp :: "u32 \<Rightarrow> u16 option \<Rightarrow> u32" where
  "add_disp ea d = (case d of Some d \<Rightarrow> ea + ucast d | None \<Rightarrow> ea)"

definition modrm_offset :: "cpu \<Rightarrow> modrm \<Rightarrow> u32" where
  "modrm_offset c m =
     (let r = rm_raw m;
          base = (if r = 0 then c_bx c + c_si c else if r = 1 then c_bx c + c_di c
                  else if r = 2 then c_bp c + c_si c else if r = 3 then c_bp c + c_di c
                  else if r = 4 then c_si c else if r = 5 then c_di c else if r = 6 then c_bp c else c_bx c)
      in add_disp (add_disp (ucast base) (disp8 m)) (disp16 m))"

text \<open>A register of the address size, as \<open>modrm_ea32\<close> reads base and index.\<close>

definition addr_reg :: "cpu \<Rightarrow> u8 \<Rightarrow> u64" where
  "addr_reg c i = (if addr64 c then reg64 c i else ucast (reg32_idx c i))"

definition sib_index :: "cpu \<Rightarrow> modrm \<Rightarrow> u8 \<Rightarrow> u64 \<Rightarrow> u64" where
  "sib_index c m s ea =
     (let scale = push_bit (unat (drop_bit 6 s AND 3)) 1; index_raw = drop_bit 3 s AND 7 in
      if index_raw \<noteq> 4 \<or> m_rex_x m
      then ea + addr_reg c (index_raw OR push_bit 3 (bool_to (m_rex_x m))) * scale else ea)"

definition sib_base :: "cpu \<Rightarrow> modrm \<Rightarrow> u8 \<Rightarrow> u64 \<Rightarrow> u64 \<times> segreg" where
  "sib_base c m s ea =
     (let base_raw = s AND 7 in
      if \<not> (mod_field m = 0 \<and> base_raw = 5)
      then (ea + addr_reg c (base_raw OR push_bit 3 (bool_to (m_rex_b m))),
            if base_raw = 4 \<or> base_raw = 5 then Ss else Ds)
      else (ea, Ds))"

definition modrm_ea32 :: "cpu \<Rightarrow> modrm \<Rightarrow> u64 \<times> segreg" where
  "modrm_ea32 c m =
     (if rip_rel m
      then (c_rip c + scast (case disp32 m of Some d \<Rightarrow> d | None \<Rightarrow> 0), Ds)
      else
        (let (ea, dflt) =
               (case sib m of
                  Some s \<Rightarrow> sib_base c m s (sib_index c m s 0)
                | None \<Rightarrow>
                    if \<not> (mod_field m = 0 \<and> rm_raw m = 5)
                    then (addr_reg c (rm_raw m OR push_bit 3 (bool_to (m_rex_b m))),
                          if rm_raw m = 4 \<or> rm_raw m = 5 then Ss else Ds)
                    else (0, Ds));
             ea = (case disp32 m of Some d \<Rightarrow> ea + scast d | None \<Rightarrow> ea);
             ea = (if addr64 c then ea else ea AND 0xFFFFFFFF)
         in (ea, dflt)))"

definition modrm_linear :: "cpu \<Rightarrow> modrm \<Rightarrow> u64" where
  "modrm_linear c m =
     (let (ea, dflt) =
            (if addrsize c then modrm_ea32 c m
             else (ucast (modrm_offset c m), if rm_raw m = 2 \<or> rm_raw m = 3 \<or> rm_raw m = 6 then Ss else Ds))
      in linear_addr c (operand_seg_for_exec c dflt) ea)"

definition modrm_addr_access :: "cpu \<Rightarrow> modrm \<Rightarrow> bool \<Rightarrow> usize \<times> cpu" where
  "modrm_addr_access c m write =
     (let r = rm_raw m;
          (base, dflt) = (if r = 0 then (c_bx c + c_si c, Ds) else if r = 1 then (c_bx c + c_di c, Ds)
                  else if r = 2 then (c_bp c + c_si c, Ss) else if r = 3 then (c_bp c + c_di c, Ss)
                  else if r = 4 then (c_si c, Ds) else if r = 5 then (c_di c, Ds)
                  else if r = 6 then (c_bp c, Ss) else (c_bx c, Ds));
          ea = add_disp (add_disp (ucast base) (disp8 m)) (disp16 m)
      in translate_access c (operand_seg c dflt) (ucast ea) write)"

definition modrm_addr32_access :: "cpu \<Rightarrow> modrm \<Rightarrow> bool \<Rightarrow> usize \<times> cpu" where
  "modrm_addr32_access c m write =
     (let (ea, dflt) = modrm_ea32 c m in translate_access c (operand_seg c dflt) ea write)"

definition rm_addr :: "cpu \<Rightarrow> modrm \<Rightarrow> bool \<Rightarrow> usize \<times> cpu" where
  "rm_addr c m write = (if addrsize c then modrm_addr32_access c m write else modrm_addr_access c m write)"

section \<open>Operands\<close>

text \<open>The memory access of a width in bits, as the code's \<open>match width\<close> chooses it.\<close>

definition load_w :: "memory \<Rightarrow> usize \<Rightarrow> nat \<Rightarrow> u64" where
  "load_w m a w = (if w = 64 then read_u64 m a else if w = 32 then ucast (read_u32 m a)
     else if w = 16 then ucast (read_u16 m a) else ucast (read_u8 m a))"

definition store_w :: "memory \<Rightarrow> usize \<Rightarrow> nat \<Rightarrow> u64 \<Rightarrow> memory" where
  "store_w m a w v = (if w = 64 then write_u64 m a v else if w = 32 then write_u32 m a (ucast v)
     else if w = 16 then write_u16 m a (ucast v) else write_u8 m a (ucast v))"

definition read_rm_w :: "cpu \<Rightarrow> modrm \<Rightarrow> nat \<Rightarrow> u64 \<times> cpu" where
  "read_rm_w c m w =
     (if is_reg m then (if w = 8 then ucast (reg8_idx c (m_rm m)) else reg_w c (m_rm m) w, c)
      else
        (let (addr, c) = rm_addr c m False in
         if w > 8 \<and> straddles addr (w div 8) then
           (if pending_exception c \<noteq> None then (0, c)
            else (let (v, c) = read_split c addr (modrm_linear c m) (w div 8) in (ucast v, c)))
         else (load_w (c_mem c) addr w, c)))"

definition write_rm_w :: "cpu \<Rightarrow> modrm \<Rightarrow> nat \<Rightarrow> u64 \<Rightarrow> cpu" where
  "write_rm_w c m w v =
     (if pending_exception c \<noteq> None then c
      else if is_reg m then (if w = 8 then set_reg8_idx c (m_rm m) (ucast v) else set_reg_w c (m_rm m) w v)
      else
        (let (addr, c) = rm_addr c m True in
         if pending_exception c \<noteq> None then c
         else if w > 8 \<and> straddles addr (w div 8) then
           write_split c addr (modrm_linear c m) (w div 8) (ucast v)
         else c\<lparr>c_mem := store_w (c_mem c) addr w v\<rparr>))"

section \<open>The stack\<close>

text \<open>\<open>push_w\<close> and \<open>pop_w\<close> take 16, 32 or 64 bits; any other width moves two bytes, as the code's catch-all arm does.\<close>

definition stack_load :: "memory \<Rightarrow> usize \<Rightarrow> nat \<Rightarrow> u64" where
  "stack_load m a w = (if w = 64 then read_u64 m a else if w = 32 then ucast (read_u32 m a) else ucast (read_u16 m a))"

definition stack_store :: "memory \<Rightarrow> usize \<Rightarrow> nat \<Rightarrow> u64 \<Rightarrow> memory" where
  "stack_store m a w v = (if w = 64 then write_u64 m a v else if w = 32 then write_u32 m a (ucast v)
     else write_u16 m a (ucast v))"

definition push_w :: "cpu \<Rightarrow> nat \<Rightarrow> u64 \<Rightarrow> cpu" where
  "push_w c w v =
     (let n = of_nat (w div 8) :: u64 in
      if pe c then
        (let wide = long64 c;
             new_sp = (if wide then c_rsp c - n else ucast (c_esp c - ucast n));
             (addr, c) = translate_write c Ss new_sp
         in if pending_exception c \<noteq> None then c
            else
              (let c = (if wide then set_rsp c new_sp else set_esp c (ucast new_sp))
               in c\<lparr>c_mem := stack_store (c_mem c) addr w v\<rparr>))
      else
        (let c = set_sp c (c_sp c - ucast n);
             addr = mem_phys (c_ss c) (c_sp c)
         in c\<lparr>c_mem := stack_store (c_mem c) addr w v\<rparr>))"

definition pop_w :: "cpu \<Rightarrow> nat \<Rightarrow> u64 \<times> cpu" where
  "pop_w c w =
     (let n = of_nat (w div 8) :: u64 in
      if pe c then
        (let wide = long64 c;
             sp = (if wide then c_rsp c else ucast (c_esp c));
             (addr, c) = cpu_translate c Ss sp
         in if pending_exception c \<noteq> None then (0, c)
            else
              (let v = stack_load (c_mem c) addr w
               in (v, if wide then set_rsp c (sp + n) else set_esp c (ucast sp + ucast n))))
      else
        (let addr = mem_phys (c_ss c) (c_sp c);
             v = stack_load (c_mem c) addr w
         in (v, set_sp c (c_sp c + ucast n))))"

section \<open>One address computation\<close>

lemma operand_seg_exec: "operand_seg_for_exec c s = operand_seg c s"
  by (simp add: operand_seg_for_exec_def operand_seg_def)

text \<open>The two address computations name the same byte: an operand is accessed at its linear address.\<close>

lemma rm_addr_linear: "rm_addr c m w = apply_paging_access c (modrm_linear c m) w"
  by (simp add: rm_addr_def modrm_addr32_access_def modrm_addr_access_def modrm_linear_def modrm_offset_def
      operand_seg_exec translate_access_def Let_def split_beta)

section \<open>Translation outcomes\<close>

text \<open>A translation changes memory, TLB, CR2 and the pending fault only.\<close>

definition paging_frame :: "cpu \<Rightarrow> cpu \<Rightarrow> bool" where
  "paging_frame c d \<longleftrightarrow>
     d = c\<lparr>c_mem := c_mem d, tlb := tlb d, cr2 := cr2 d, pending_exception := pending_exception d\<rparr>"

lemma paging_frame_upd: "paging_frame c (c\<lparr>c_mem := m, tlb := t, cr2 := x, pending_exception := e\<rparr>)"
  by (simp add: paging_frame_def)

lemma paging_frame_parts [simp]:
  "paging_frame c c" "paging_frame c (c\<lparr>cr2 := x, pending_exception := e\<rparr>)"
  "paging_frame c (c\<lparr>pending_exception := e\<rparr>)" "paging_frame c (c\<lparr>c_mem := m\<rparr>)"
  "paging_frame c (c\<lparr>tlb := t, c_mem := m\<rparr>)" "paging_frame c (c\<lparr>c_mem := m, tlb := t\<rparr>)"
  "paging_frame c (c\<lparr>tlb := t\<rparr>)"
  by (cases c, simp add: paging_frame_def)+

lemma paging_changes: "paging_frame c (snd (apply_paging_inner c l w f))"
  by (simp add: apply_paging_inner_def raise_gp_def raise_page_fault_def set_accessed_bits_def
      mark_accessed_def Let_def split: option.split)

text \<open>When a translation succeeds: what the code's checks come to over the page tables.\<close>

definition paging_ok :: "cpu \<Rightarrow> u64 \<Rightarrow> bool \<Rightarrow> bool \<Rightarrow> bool" where
  "paging_ok c l w f \<longleftrightarrow> \<not> (long_mode c \<and> \<not> canonical l) \<and>
     (cr0 c AND CR0_PG = 0 \<or>
      (case cpu_walk c l of
         Some p \<Rightarrow> access_allowed c (pm_writable p) (pm_user p) (pm_exec p) w (cpl c = 3) f
       | None \<Rightarrow> False))"

lemma paging_no_fault:
  assumes "tlb_sound c" "pending_exception c = None"
  shows "pending_exception (snd (apply_paging_inner c l w f)) = None \<longleftrightarrow> paging_ok c l w f"
proof -
  let ?e = "tlb c (tlb_index (drop_bit 12 l))"
  have g: "(pending_exception (raise_gp c k) = None) = False"
    "(pending_exception (raise_page_fault c a x y z t) = None) = False"
    for k a x y z t by (auto simp: raise_gp_def raise_page_fault_def Let_def)
  have s: "pending_exception (set_accessed_bits d p b) = pending_exception d"
    "pending_exception (mark_accessed d l b) = pending_exception d" for d p b
    by (simp_all add: set_accessed_bits_def mark_accessed_def split: option.split)
  show ?thesis
  proof (cases "tlb_valid ?e \<and> tlb_vpage ?e = drop_bit 12 l \<and> \<not> no_tlb c")
    case True
    then obtain p where "cpu_walk c l = Some p" "pm_writable p = tlb_writable ?e" "pm_user p = tlb_user ?e"
      "pm_exec p = tlb_exec ?e"
      using sound_hit [of c ?e l] assms(1) by (auto simp: tlb_sound_def)
    then show ?thesis using True assms(2)
      by (simp add: g s apply_paging_inner_def Let_def paging_ok_def)
  next
    case False
    then show ?thesis using assms(2)
      by (auto simp: g s apply_paging_inner_def Let_def paging_ok_def split: option.split)
  qed
qed

lemma paging_memory:
  assumes "paging_ok c l w f" "tlb_sound c"
  shows "c_mem (snd (apply_paging_inner c l w f)) = c_mem c \<or>
    (\<exists>p b. cpu_walk c l = Some p \<and> c_mem (snd (apply_paging_inner c l w f)) = mem_set_accessed (c_mem c) p b)"
  using assms(1)
  by (auto simp: apply_paging_inner_def Let_def paging_ok_def set_accessed_bits_def mark_accessed_def
      raise_gp_def raise_page_fault_def split: option.splits)

section \<open>Operands in memory\<close>

lemma store_any:
  "stores (\<lambda>m. write_u8 m a (f8 m)) a 1"
  "2 dvd unat a \<Longrightarrow> stores (\<lambda>m. write_u16 m a (f16 m)) a 2"
  "4 dvd unat a \<Longrightarrow> stores (\<lambda>m. write_u32 m a (f32 m)) a 4"
  "8 dvd unat a \<Longrightarrow> stores (\<lambda>m. write_u64 m a (f64 m)) a 8"
  using stores_write unfolding stores_def by blast+

lemma load_w_frame:
  assumes "stores st a n" "mem_wf m" "apart a n b (w div 8)" "w div 8 dvd unat b" "w \<in> {8, 16, 32, 64}"
  shows "load_w (st m) b w = load_w m b w"
  using stores_frame [OF assms(1,2)] assms(3-5) by (auto simp: load_w_def)

lemma fold_frame:
  assumes "\<And>i m. i \<in> set is \<Longrightarrow> mem_wf m \<Longrightarrow> mem_wf (g i m) \<and> R (g i m) = R m" "mem_wf m"
  shows "mem_wf (fold g is m) \<and> R (fold g is m) = R m"
  using assms by (induction "is" arbitrary: m) auto

text \<open>The operand lies outside the table entries its own walk goes through.\<close>

definition outside_tables :: "cpu \<Rightarrow> u64 \<Rightarrow> usize \<Rightarrow> nat \<Rightarrow> bool" where
  "outside_tables c l a n \<longleftrightarrow>
     (case cpu_walk c l of
        Some p \<Rightarrow> list_all (\<lambda>b. apart b (entry_bytes p) a n) (map (\<lambda>i. pm_walk p ! i) [0..<walk_len p])
      | None \<Rightarrow> True)"

lemma walk_entries_aligned:
  assumes "cpu_walk c l = Some p" "i < walk_len p"
  shows "entry_bytes p = 4 \<or> entry_bytes p = 8" "entry_bytes p dvd unat (pm_walk p ! i)"
proof -
  note t = translate_walk_aligned [OF assms(1) [unfolded cpu_walk_def]]
  show "entry_bytes p dvd unat (pm_walk p ! i)" using t assms(2) by blast
  have "cpu_paging_mode c \<noteq> Off"
    using assms by (auto simp: cpu_walk_def translate_mode_def)
  then show "entry_bytes p = 4 \<or> entry_bytes p = 8"
    using t by (cases "cpu_paging_mode c") (simp_all add: mode_width_def)
qed

lemma set_accessed_load:
  assumes "mem_wf m" "cpu_walk c l = Some p" "outside_tables c l a (w div 8)" "w div 8 dvd unat a"
    "w \<in> {8, 16, 32, 64}"
  shows "load_w (mem_set_accessed m p b) a w = load_w m a w"
proof -
  have "mem_wf m' \<and> load_w m' a w = load_w m a w"
    if "m' = mem_set_accessed m p b" for m'
    unfolding that mem_set_accessed_def Let_def
  proof (rule fold_frame [OF _ assms(1)], goal_cases)
    case (1 i m)
    then have i: "i < walk_len p" by simp
    note e = walk_entries_aligned [OF assms(2) i]
    have ap: "apart (pm_walk p ! i) (entry_bytes p) a (w div 8)"
      using assms(2,3) i by (simp add: outside_tables_def list_all_iff)
    show ?case
    proof (cases "entry_bytes p = 4")
      case True
      then have "4 dvd unat (pm_walk p ! i)" using e(2) by simp
      then have "stores (\<lambda>m. write_u32 m (pm_walk p ! i) (read_u32 m (pm_walk p ! i) OR ucast (accessed_bits (walk_len p) b i)))
          (pm_walk p ! i) 4"
        by (rule store_any(3))
      from load_w_frame [OF this 1(2)] stores_frame(1) [OF this 1(2)] show ?thesis
        using True ap assms(4,5) by simp
    next
      case False
      then have "8 dvd unat (pm_walk p ! i)" using e by simp
      then have "stores (\<lambda>m. write_u64 m (pm_walk p ! i) (read_u64 m (pm_walk p ! i) OR accessed_bits (walk_len p) b i))
          (pm_walk p ! i) 8"
        by (rule store_any(4))
      from load_w_frame [OF this 1(2)] stores_frame(1) [OF this 1(2)] show ?thesis
        using False e(1) ap assms(4,5) by simp
    qed
  qed
  then show ?thesis by blast
qed

lemma load_store_w:
  assumes "mem_wf m" "backed m a" "w div 8 dvd unat a" "w \<in> {8, 16, 32, 64}"
  shows "load_w (store_w m a w v) a w = v AND mask w"
proof -
  have c: "ucast (ucast v :: 'a::len word) = (v :: u64) AND mask LENGTH('a)" if "LENGTH('a) \<le> 64"
    using that by (intro bit_word_eqI) (auto simp: bit_simps)
  have "v AND mask 64 = v" by (rule low32)
  then show ?thesis using assms read_write_u8 [of m a "ucast v" a] read_write_u16 [of m a a "ucast v"]
      read_write_u32 [of m a a "ucast v"] read_write_u64 [of m a a v]
    by (auto simp: load_w_def store_w_def c)
qed

lemma store_w_wf: "mem_wf m \<Longrightarrow> w div 8 dvd unat a \<Longrightarrow> w \<in> {8, 16, 32, 64} \<Longrightarrow> mem_wf (store_w m a w v)"
  by (auto simp: store_w_def intro: wf_intros)

lemma paging_backed:
  assumes "mem_wf (c_mem c)" "tlb_sound c" "paging_ok c l w f"
  shows "backed (c_mem (snd (apply_paging_inner c l w f))) = backed (c_mem c)"
  using paging_memory [OF assms(3,2)] set_accessed_core(2) [OF assms(1)] unfolding cpu_walk_def by metis

lemma outside_tables_cong: "cpu_walk c' = cpu_walk c \<Longrightarrow> outside_tables c' = outside_tables c"
  by (simp add: outside_tables_def fun_eq_iff)

text \<open>What is stored at a translated address is loaded from it, in any state that translates alike.\<close>

lemma store_then_load:
  fixes c c' :: cpu and l :: u64 and w :: nat and v :: u64
  defines "A \<equiv> apply_paging_access c l True"
  assumes c: "mem_wf (c_mem c)" "tlb_sound c" "pending_exception c = None"
    and ok: "pending_exception (snd A) = None"
    and w: "w \<in> {8, 16, 32, 64}" "w div 8 dvd unat (fst A)" "backed (c_mem c) (fst A)"
      "outside_tables c l (fst A) (w div 8)"
    and c': "c_mem c' = store_w (c_mem (snd A)) (fst A) w v" "tlb c' = tlb (snd A)" "cpu_walk c' = cpu_walk c"
      "cr0 c' = cr0 c" "efer c' = efer c" "c_cs c' = c_cs c" "pe c' = pe c" "pending_exception c' = None"
  shows "fst (apply_paging_access c' l False) = fst A \<and>
    pending_exception (snd (apply_paging_access c' l False)) = None \<and>
    load_w (c_mem (snd (apply_paging_access c' l False))) (fst A) w = v AND mask w"
proof -
  note A = A_def [unfolded apply_paging_access_def]
  note t = apply_paging_inner_sound [OF c(1,2), of l True False, folded A]
  have ok1: "paging_ok c l True False" using paging_no_fault [OF c(2,3)] ok by (simp add: A)
  have b: "backed (c_mem (snd A)) = backed (c_mem c)" using paging_backed [OF c(1,2) ok1] by (simp add: A)
  have s: "mem_wf (c_mem c')" using t store_w_wf w(1,2) by (simp add: c'(1))
  have ts: "tlb_sound c'" using t tlb_sound_cong [of c' "snd A"] c'(2,3) by simp
  have ok2: "paging_ok c' l False False"
    using ok1 c' by (auto simp: paging_ok_def access_allowed_def long_mode_def cpl_def split: option.splits if_splits)
  then have n: "pending_exception (snd (apply_paging_access c' l False)) = None"
    using paging_no_fault [OF ts c'(8)] by (simp add: apply_paging_access_def)
  have a: "fst A = linear_to_phys_ro c l" using paging_phys [OF c(2)] ok unfolding A by blast
  have a': "fst (apply_paging_access c' l False) = linear_to_phys_ro c' l"
    using paging_phys [OF ts] n unfolding apply_paging_access_def by blast
  have l: "load_w (c_mem c') (fst A) w = v AND mask w"
    using load_store_w t b w by (simp add: c'(1))
  have "load_w (c_mem (snd (apply_paging_access c' l False))) (fst A) w = load_w (c_mem c') (fst A) w"
    using paging_memory [OF ok2 ts] set_accessed_load [OF s _ _ w(2,1), of c' l] w(4) outside_tables_cong [OF c'(3)]
    unfolding apply_paging_access_def by metis
  then show ?thesis using a a' n l walk_phys_cong [OF c'(3,4)] by simp
qed

text \<open>The parts of the machine an effective address depends on.\<close>

lemma view_update [simp]:
  "modrm_linear (c\<lparr>c_mem := m, tlb := t, cr2 := x, pending_exception := e\<rparr>) y = modrm_linear c y"
  "long64 (c\<lparr>c_mem := m, tlb := t, cr2 := x, pending_exception := e\<rparr>) = long64 c"
  "linear_addr (c\<lparr>c_mem := m, tlb := t, cr2 := x, pending_exception := e\<rparr>) = linear_addr c"
proof -
  let ?c = "c\<lparr>c_mem := m, tlb := t, cr2 := x, pending_exception := e\<rparr>"
  show l: "long64 ?c = long64 c" by (simp add: long64_def long_mode_def)
  show a: "linear_addr ?c = linear_addr c" by (simp add: linear_addr_def l fun_eq_iff seg_def cong: segreg.case_cong)
  have r: "addr_reg ?c = addr_reg c" by (intro ext) (simp add: addr_reg_def reg64_def reg32_idx_def)
  have s: "sib_base ?c = sib_base c" "sib_index ?c = sib_index c"
    by (intro ext, simp add: sib_base_def sib_index_def r Let_def)+
  have "modrm_ea32 ?c = modrm_ea32 c"
    by (intro ext) (simp add: modrm_ea32_def r s Let_def cong: option.case_cong)
  moreover have "modrm_offset ?c = modrm_offset c"
    by (intro ext) (simp add: modrm_offset_def c_bx_def c_si_def c_di_def c_bp_def Let_def)
  ultimately show "modrm_linear ?c y = modrm_linear c y"
    by (simp add: modrm_linear_def operand_seg_for_exec_def a)
qed

lemma frame_cases:
  assumes "paging_frame c d"
  obtains m t x e where "d = c\<lparr>c_mem := m, tlb := t, cr2 := x, pending_exception := e\<rparr>"
  using assms unfolding paging_frame_def by blast

lemma paging_frame_mem: "paging_frame c d \<Longrightarrow> paging_frame c (d\<lparr>c_mem := m\<rparr>)"
  by (erule frame_cases) (simp add: paging_frame_def)

lemma frame_views:
  assumes "paging_frame c d"
  shows "modrm_linear d y = modrm_linear c y" "linear_addr d = linear_addr c" "long64 d = long64 c"
    "regs d = regs c" "pe d = pe c" "cr0 d = cr0 c" "efer d = efer c" "c_cs d = c_cs c" "seg_desc d = seg_desc c"
  using assms by (rule frame_cases; simp)+

lemma aligned_not_straddling:
  assumes "n dvd unat a" "n dvd 4096"
  shows "\<not> straddles a n"
proof -
  have m: "(0xFFF :: u64) = mask 12" by (simp add: mask_eq_exp_minus_1)
  have u: "unat (a AND 0xFFF) = unat a mod 4096" unfolding m unat_and_mask by simp
  have "n dvd unat a mod 4096" using assms by (simp add: dvd_mod)
  then obtain p q where p: "unat a mod 4096 = n * p" "(4096 :: nat) = n * q" using assms(2) by (metis dvdE)
  moreover have "unat a mod 4096 < 4096" by simp
  ultimately have "p < q" by (metis mult_less_cancel1)
  then have "n * (p + 1) \<le> n * q" by (intro mult_le_mono) simp_all
  then show ?thesis using p u by (simp add: straddles_def)
qed

lemma operand_not_straddling: "w \<in> {8, 16, 32, 64} \<Longrightarrow> w div 8 dvd unat a \<Longrightarrow> \<not> straddles a (w div 8)"
  by (rule aligned_not_straddling) auto

lemma register_operand:
  assumes "w \<in> {8, 16, 32, 64}" "is_reg m" "pending_exception c = None"
  shows "fst (read_rm_w (write_rm_w c m w v) m w) = v AND mask w"
proof -
  have m: "mask 8 = (0xFF :: u64)" "mask 16 = (0xFFFF :: u64)" "mask 32 = (0xFFFFFFFF :: u64)"
    by (simp_all add: mask_eq_exp_minus_1)
  have b: "ucast (ucast v :: u8) = v AND mask 8" by (rule bit_word_eqI) (auto simp: bit_simps)
  have l: "byte_loc (c\<lparr>regs := r\<rparr>) j = byte_loc c j" for r j by (simp add: byte_loc_def)
  from assms(1) consider "w = 8" | "w = 16" | "w = 32" | "w = 64" by auto
  then show ?thesis using assms(2,3)
    by cases (simp_all add: read_rm_w_def write_rm_w_def reg8_idx_loc l loc_get_put b set_reg_w_def reg_w_def
        set_reg_w_raw_def reg_put16 low32 m Let_def)
qed


lemma small_machine_flat:
  "apply_paging_access small_machine l w = (l, small_machine)" "cpu_walk small_machine l = Some p \<Longrightarrow> walk_len p = 0"
  "pending_exception small_machine = None" "long_mode small_machine = False"
  by (auto simp: apply_paging_access_def apply_paging_inner_def small_machine_def cpu_with_ram_def long_mode_def
      cpu_walk_def cpu_paging_mode_def translate_mode_def)

lemma flat_walk: "cr0 c AND CR0_PG = 0 \<Longrightarrow> cr0 d AND CR0_PG = 0 \<Longrightarrow> cpu_walk d = cpu_walk c"
  by (simp add: cpu_walk_def cpu_paging_mode_def translate_mode_def fun_eq_iff)

definition bx_operand :: modrm where "bx_operand = modrm_from_byte 0x07"


section \<open>Push and pop\<close>

lemma stack_access: "w \<in> {16, 32, 64} \<Longrightarrow> stack_load m a w = load_w m a w"
  "w \<in> {16, 32, 64} \<Longrightarrow> stack_store m a w = store_w m a w"
  by (auto simp: stack_load_def load_w_def stack_store_def store_w_def fun_eq_iff)

lemma linear_addr_stack [simp]: "linear_addr (c\<lparr>regs := r, c_mem := m\<rparr>) = linear_addr c"
  "long64 (c\<lparr>regs := r, c_mem := m\<rparr>) = long64 c"
proof -
  show l: "long64 (c\<lparr>regs := r, c_mem := m\<rparr>) = long64 c" by (simp add: long64_def long_mode_def)
  show "linear_addr (c\<lparr>regs := r, c_mem := m\<rparr>) = linear_addr c"
    by (simp add: linear_addr_def l fun_eq_iff seg_def cong: segreg.case_cong)
qed

text \<open>The stack slot a push of the given width uses, and the stack pointer it leaves.\<close>

definition push_sp :: "cpu \<Rightarrow> nat \<Rightarrow> u64" where
  "push_sp c w = (if long64 c then c_rsp c - of_nat (w div 8) else ucast (c_esp c - ucast (of_nat (w div 8) :: u64)))"

lemma narrow_widen: "ucast (ucast y :: u64) = (y :: u32)"
  by (rule bit_word_eqI) (auto simp: bit_simps)

lemma push_w_parts:
  fixes c :: cpu and w :: nat
  defines "A \<equiv> apply_paging_access c (linear_addr c Ss (push_sp c w)) True"
  assumes "pe c" "pending_exception (snd A) = None" "w \<in> {16, 32, 64}"
  shows "push_w c w v = (snd A)\<lparr>regs := (regs c)(4 := push_sp c w), c_mem := store_w (c_mem (snd A)) (fst A) w v\<rparr>"
proof -
  have r: "regs (snd A) = regs c" unfolding A_def apply_paging_access_def
    by (rule frame_views(4) [OF paging_changes])
  show ?thesis
    using assms(2-4) r
    by (cases "long64 c") (simp_all add: push_w_def Let_def translate_write_def translate_access_def push_sp_def A_def split_beta
        stack_access set_rsp_def set_esp_def narrow_widen)
qed



text \<open>
  The 16-bit effective address is formed in 32 bits: with BP = 2 the operand
  \<open>[bp - 2]\<close> is at offset 0x10000, not at offset 0.
\<close>

lemma bp_minus_two_above_segment:
  "modrm_offset (set_bp small_machine 2) (modrm_from_byte 0x46\<lparr>disp8 := Some 0xFFFE\<rparr>) = 0x10000"
  by (simp add: modrm_offset_def modrm_from_byte_def c_bp_def set_bp_def set_reg_w_raw_def ridx_def
      reg_put16_def small_machine_def cpu_with_ram_def add_disp_def Let_def)

end
