(* ===== verification/Alu.thy ===== *)
theory Alu imports Cpu_Operands begin

text \<open>
  The arithmetic of the executor (the helper functions at the end of
  src/src/instructions.rs): the ALU at its four widths, the flag setters, the
  condition codes, shifts and rotates, bit tests and the string-instruction
  helpers.
\<close>

unbundle bit_operations_syntax

section \<open>Operation selectors\<close>

datatype aluop = Add | Or | Adc | Sbb | And | Sub | Xor | Cmp
datatype shiftop = Rol | Ror | Rcl | Rcr | Shl | Shr | Sar
datatype cond = Cond_O | Cond_No | Cond_B | Cond_Nb | Cond_E | Cond_Ne | Cond_Be | Cond_Nbe | Cond_S | Cond_Ns | Cond_P | Cond_Np | Cond_L | Cond_Nl | Cond_Le | Cond_Nle
datatype bitop = Bit_Test | Bit_Set | Bit_Reset | Bit_Complement
datatype bitoffset = Off_Imm u8 | Off_Reg u8
datatype rep = Rep_None | Repe | Repne
datatype shiftcount = Count_One | Count_Cl | Count_Imm u8
datatype loopcond = Loop | Loopz | Loopnz | Jcxz

definition aluop_from_index :: "u8 \<Rightarrow> aluop" where
  "aluop_from_index i = (if i = 0 then Add else if i = 1 then Or else if i = 2 then Adc else if i = 3 then Sbb
     else if i = 4 then And else if i = 5 then Sub else if i = 6 then Xor else Cmp)"

definition shiftop_from_index :: "u8 \<Rightarrow> shiftop" where
  "shiftop_from_index i =
     (let i = i AND 7 in if i = 0 then Rol else if i = 1 then Ror else if i = 2 then Rcl else if i = 3 then Rcr
      else if i = 4 then Shl else if i = 5 then Shr else Sar)"

definition cond_from_jcc :: "u8 \<Rightarrow> cond" where
  "cond_from_jcc i =
     (let i = i AND 0xF in
      if i = 0 then Cond_O else if i = 1 then Cond_No else if i = 2 then Cond_B else if i = 3 then Cond_Nb
      else if i = 4 then Cond_E else if i = 5 then Cond_Ne else if i = 6 then Cond_Be else if i = 7 then Cond_Nbe
      else if i = 8 then Cond_S else if i = 9 then Cond_Ns else if i = 10 then Cond_P else if i = 11 then Cond_Np
      else if i = 12 then Cond_L else if i = 13 then Cond_Nl else if i = 14 then Cond_Le else Cond_Nle)"

definition cond_test :: "cpu \<Rightarrow> cond \<Rightarrow> bool" where
  "cond_test c q =
     (case q of
        Cond_O \<Rightarrow> get_flag c fOF | Cond_No \<Rightarrow> \<not> get_flag c fOF
      | Cond_B \<Rightarrow> get_flag c fCF | Cond_Nb \<Rightarrow> \<not> get_flag c fCF
      | Cond_E \<Rightarrow> get_flag c fZF | Cond_Ne \<Rightarrow> \<not> get_flag c fZF
      | Cond_Be \<Rightarrow> get_flag c fCF \<or> get_flag c fZF | Cond_Nbe \<Rightarrow> \<not> get_flag c fCF \<and> \<not> get_flag c fZF
      | Cond_S \<Rightarrow> get_flag c fSF | Cond_Ns \<Rightarrow> \<not> get_flag c fSF
      | Cond_P \<Rightarrow> get_flag c fPF | Cond_Np \<Rightarrow> \<not> get_flag c fPF
      | Cond_L \<Rightarrow> get_flag c fSF \<noteq> get_flag c fOF | Cond_Nl \<Rightarrow> get_flag c fSF = get_flag c fOF
      | Cond_Le \<Rightarrow> get_flag c fZF \<or> get_flag c fSF \<noteq> get_flag c fOF
      | Cond_Nle \<Rightarrow> \<not> get_flag c fZF \<and> get_flag c fSF = get_flag c fOF)"

section \<open>Flags\<close>

definition parity :: "u8 \<Rightarrow> bool" where
  "parity v =
     (let v = v AND 0xFF; v = v XOR drop_bit 4 v; v = v XOR drop_bit 2 v; v = v XOR drop_bit 1 v
      in v AND 1 = 0)"

text \<open>The four copies of each setter differ in the integer type only.\<close>

definition set_logic_flags8 :: "cpu \<Rightarrow> u8 \<Rightarrow> cpu" where
  "set_logic_flags8 c r = set_flag (set_flag (set_flag c fSF (sint r < 0)) fZF (r = 0)) fPF (parity r)"
definition set_logic_flags16 :: "cpu \<Rightarrow> u16 \<Rightarrow> cpu" where
  "set_logic_flags16 c r = set_flag (set_flag (set_flag c fSF (sint r < 0)) fZF (r = 0)) fPF (parity (ucast r))"
definition set_logic_flags32 :: "cpu \<Rightarrow> u32 \<Rightarrow> cpu" where
  "set_logic_flags32 c r = set_flag (set_flag (set_flag c fSF (sint r < 0)) fZF (r = 0)) fPF (parity (ucast r))"
definition set_logic_flags64 :: "cpu \<Rightarrow> u64 \<Rightarrow> cpu" where
  "set_logic_flags64 c r = set_flag (set_flag (set_flag c fSF (sint r < 0)) fZF (r = 0)) fPF (parity (ucast r))"

definition set_logic_flags_width :: "cpu \<Rightarrow> u64 \<Rightarrow> nat \<Rightarrow> cpu" where
  "set_logic_flags_width c r w =
     (if w = 8 then set_logic_flags8 c (ucast r) else if w = 16 then set_logic_flags16 c (ucast r)
      else if w = 32 then set_logic_flags32 c (ucast r) else set_logic_flags64 c r)"

definition set_add_carry :: "cpu \<Rightarrow> u16 \<Rightarrow> u16 \<Rightarrow> u16 \<Rightarrow> bool \<Rightarrow> cpu" where
  "set_add_carry c a b r k =
     set_flag (set_flag (set_flag c fCF k) fAF ((a XOR b XOR r) AND 0x10 \<noteq> 0))
       fOF (((a XOR r) AND (b XOR r)) AND 0x8000 \<noteq> 0)"
definition set_add_carry32 :: "cpu \<Rightarrow> u32 \<Rightarrow> u32 \<Rightarrow> u32 \<Rightarrow> bool \<Rightarrow> cpu" where
  "set_add_carry32 c a b r k =
     set_flag (set_flag (set_flag c fCF k) fAF ((a XOR b XOR r) AND 0x10 \<noteq> 0))
       fOF (((a XOR r) AND (b XOR r)) AND 0x80000000 \<noteq> 0)"
definition set_add_carry64 :: "cpu \<Rightarrow> u64 \<Rightarrow> u64 \<Rightarrow> u64 \<Rightarrow> bool \<Rightarrow> cpu" where
  "set_add_carry64 c a b r k =
     set_flag (set_flag (set_flag c fCF k) fAF ((a XOR b XOR r) AND 0x10 \<noteq> 0))
       fOF (((a XOR r) AND (b XOR r)) AND 0x8000000000000000 \<noteq> 0)"

definition set_sub_borrow :: "cpu \<Rightarrow> u16 \<Rightarrow> u16 \<Rightarrow> u16 \<Rightarrow> bool \<Rightarrow> cpu" where
  "set_sub_borrow c a b r k =
     set_flag (set_flag (set_flag c fCF k) fAF ((a XOR b XOR r) AND 0x10 \<noteq> 0))
       fOF (((a XOR b) AND (a XOR r)) AND 0x8000 \<noteq> 0)"
definition set_sub_borrow32 :: "cpu \<Rightarrow> u32 \<Rightarrow> u32 \<Rightarrow> u32 \<Rightarrow> bool \<Rightarrow> cpu" where
  "set_sub_borrow32 c a b r k =
     set_flag (set_flag (set_flag c fCF k) fAF ((a XOR b XOR r) AND 0x10 \<noteq> 0))
       fOF (((a XOR b) AND (a XOR r)) AND 0x80000000 \<noteq> 0)"
definition set_sub_borrow64 :: "cpu \<Rightarrow> u64 \<Rightarrow> u64 \<Rightarrow> u64 \<Rightarrow> bool \<Rightarrow> cpu" where
  "set_sub_borrow64 c a b r k =
     set_flag (set_flag (set_flag c fCF k) fAF ((a XOR b XOR r) AND 0x10 \<noteq> 0))
       fOF (((a XOR b) AND (a XOR r)) AND 0x8000000000000000 \<noteq> 0)"

section \<open>The ALU\<close>

text \<open>\<open>overflowing_add\<close> and \<open>overflowing_sub\<close>: the wrapped result and whether it wrapped.\<close>

definition overflowing_add :: "'a::len word \<Rightarrow> 'a word \<Rightarrow> 'a word \<times> bool" where
  "overflowing_add a b = (a + b, a + b < a)"

definition overflowing_sub :: "'a::len word \<Rightarrow> 'a word \<Rightarrow> 'a word \<times> bool" where
  "overflowing_sub a b = (a - b, a < b)"

text \<open>The three logical operations clear the carry and the overflow.\<close>

definition clear_co :: "cpu \<Rightarrow> cpu" where "clear_co c = set_flag (set_flag c fCF False) fOF False"

definition alu8 :: "cpu \<Rightarrow> aluop \<Rightarrow> u8 \<Rightarrow> u8 \<Rightarrow> u8 \<times> cpu" where
  "alu8 c op a b =
     (let cin = bool_to (get_flag c fCF) :: u16 in
      case op of
        Add \<Rightarrow> (let (r, k) = overflowing_add a b in
                (r, set_add_carry (set_logic_flags8 c r) (ucast a) (ucast b) (ucast r) k))
      | Adc \<Rightarrow> (let total = ucast a + ucast b + cin; r = ucast total; k = total > 0xFF in
                (r, set_add_carry (set_logic_flags8 c r) (ucast a) (ucast b) (ucast r) k))
      | Sub \<Rightarrow> (let (r, k) = overflowing_sub a b in
                (r, set_sub_borrow (set_logic_flags8 c r) (ucast a) (ucast b) (ucast r) k))
      | Cmp \<Rightarrow> (let (r, k) = overflowing_sub a b in
                (r, set_sub_borrow (set_logic_flags8 c r) (ucast a) (ucast b) (ucast r) k))
      | Sbb \<Rightarrow> (let total = ucast a - ucast b - cin; r = ucast total; k = (ucast a < ucast b + cin) in
                (r, set_sub_borrow (set_logic_flags8 c r) (ucast a) (ucast b) (ucast r) k))
      | And \<Rightarrow> (let r = a AND b in (r, clear_co (set_logic_flags8 c r)))
      | Or \<Rightarrow> (let r = a OR b in (r, clear_co (set_logic_flags8 c r)))
      | Xor \<Rightarrow> (let r = a XOR b in (r, clear_co (set_logic_flags8 c r))))"

definition alu16 :: "cpu \<Rightarrow> aluop \<Rightarrow> u16 \<Rightarrow> u16 \<Rightarrow> u16 \<times> cpu" where
  "alu16 c op a b =
     (let cin = bool_to (get_flag c fCF) :: u32 in
      case op of
        Add \<Rightarrow> (let (r, k) = overflowing_add a b in (r, set_add_carry (set_logic_flags16 c r) a b r k))
      | Adc \<Rightarrow> (let total = ucast a + ucast b + cin; r = ucast total; k = total > 0xFFFF in
                (r, set_add_carry (set_logic_flags16 c r) a b r k))
      | Sub \<Rightarrow> (let (r, k) = overflowing_sub a b in (r, set_sub_borrow (set_logic_flags16 c r) a b r k))
      | Cmp \<Rightarrow> (let (r, k) = overflowing_sub a b in (r, set_sub_borrow (set_logic_flags16 c r) a b r k))
      | Sbb \<Rightarrow> (let total = ucast a - ucast b - cin; r = ucast total; k = (ucast a < ucast b + cin) in
                (r, set_sub_borrow (set_logic_flags16 c r) a b r k))
      | And \<Rightarrow> (let r = a AND b in (r, clear_co (set_logic_flags16 c r)))
      | Or \<Rightarrow> (let r = a OR b in (r, clear_co (set_logic_flags16 c r)))
      | Xor \<Rightarrow> (let r = a XOR b in (r, clear_co (set_logic_flags16 c r))))"

definition alu32 :: "cpu \<Rightarrow> aluop \<Rightarrow> u32 \<Rightarrow> u32 \<Rightarrow> u32 \<times> cpu" where
  "alu32 c op a b =
     (let cin = bool_to (get_flag c fCF) :: u64 in
      case op of
        Add \<Rightarrow> (let (r, k) = overflowing_add a b in (r, set_add_carry32 (set_logic_flags32 c r) a b r k))
      | Adc \<Rightarrow> (let total = ucast a + ucast b + cin; r = ucast total; k = total > 0xFFFFFFFF in
                (r, set_add_carry32 (set_logic_flags32 c r) a b r k))
      | Sub \<Rightarrow> (let (r, k) = overflowing_sub a b in (r, set_sub_borrow32 (set_logic_flags32 c r) a b r k))
      | Cmp \<Rightarrow> (let (r, k) = overflowing_sub a b in (r, set_sub_borrow32 (set_logic_flags32 c r) a b r k))
      | Sbb \<Rightarrow> (let total = ucast a - ucast b - cin; r = ucast total; k = (ucast a < ucast b + cin) in
                (r, set_sub_borrow32 (set_logic_flags32 c r) a b r k))
      | And \<Rightarrow> (let r = a AND b in (r, clear_co (set_logic_flags32 c r)))
      | Or \<Rightarrow> (let r = a OR b in (r, clear_co (set_logic_flags32 c r)))
      | Xor \<Rightarrow> (let r = a XOR b in (r, clear_co (set_logic_flags32 c r))))"

definition alu64 :: "cpu \<Rightarrow> aluop \<Rightarrow> u64 \<Rightarrow> u64 \<Rightarrow> u64 \<times> cpu" where
  "alu64 c op a b =
     (let cin = bool_to (get_flag c fCF) :: u64 in
      case op of
        Add \<Rightarrow> (let (r, k) = overflowing_add a b in (r, set_add_carry64 (set_logic_flags64 c r) a b r k))
      | Adc \<Rightarrow> (let r = a + b + cin; k = (r < a \<or> (cin = 1 \<and> r = a)) in
                (r, set_add_carry64 (set_logic_flags64 c r) a b r k))
      | Sub \<Rightarrow> (let (r, k) = overflowing_sub a b in (r, set_sub_borrow64 (set_logic_flags64 c r) a b r k))
      | Cmp \<Rightarrow> (let (r, k) = overflowing_sub a b in (r, set_sub_borrow64 (set_logic_flags64 c r) a b r k))
      | Sbb \<Rightarrow> (let r = a - b - cin; k = (a < b \<or> (a = b \<and> cin = 1)) in
                (r, set_sub_borrow64 (set_logic_flags64 c r) a b r k))
      | And \<Rightarrow> (let r = a AND b in (r, clear_co (set_logic_flags64 c r)))
      | Or \<Rightarrow> (let r = a OR b in (r, clear_co (set_logic_flags64 c r)))
      | Xor \<Rightarrow> (let r = a XOR b in (r, clear_co (set_logic_flags64 c r))))"

definition alu_w :: "cpu \<Rightarrow> aluop \<Rightarrow> u64 \<Rightarrow> u64 \<Rightarrow> nat \<Rightarrow> u64 \<times> cpu" where
  "alu_w c op a b w =
     (if w = 32 then (let (r, c) = alu32 c op (ucast a) (ucast b) in (ucast r, c))
      else if w = 64 then alu64 c op a b
      else if w = 16 then (let (r, c) = alu16 c op (ucast a) (ucast b) in (ucast r, c))
      else (let (r, c) = alu8 c op (ucast a) (ucast b) in (ucast r, c)))"

section \<open>Multiplication results and branches\<close>

definition branch_rel :: "cpu \<Rightarrow> u64 \<Rightarrow> cpu" where
  "branch_rel c rel =
     (if long64 c then c\<lparr>c_rip := c_rip c + rel\<rparr>
      else if opsize c then set_eip c (c_eip c + ucast rel)
      else c\<lparr>c_ip := c_ip c + ucast rel\<rparr>)"

definition imul_store16 :: "cpu \<Rightarrow> u8 \<Rightarrow> u32 \<Rightarrow> cpu" where
  "imul_store16 c dst full =
     (let r = ucast full :: u16; c = set_reg16_idx c dst r; overflow = (full \<noteq> scast r);
          c = set_flag c fCF overflow; c = set_flag c fOF overflow
      in set_logic_flags16 c r)"

definition imul_store32 :: "cpu \<Rightarrow> u8 \<Rightarrow> u64 \<Rightarrow> cpu" where
  "imul_store32 c dst full =
     (let r = ucast full :: u32; c = set_reg32_idx c dst r; overflow = (full \<noteq> scast r);
          c = set_flag c fCF overflow; c = set_flag c fOF overflow
      in set_logic_flags32 c r)"

definition imul_store64 :: "cpu \<Rightarrow> u8 \<Rightarrow> u128 \<Rightarrow> cpu" where
  "imul_store64 c dst full =
     (let r = ucast full :: u64; c = set_reg_w c dst 64 r; overflow = (full \<noteq> scast r);
          c = set_flag c fCF overflow; c = set_flag c fOF overflow
      in set_logic_flags64 c r)"

definition set_shift_flags16 :: "cpu \<Rightarrow> u16 \<Rightarrow> bool \<Rightarrow> bool \<Rightarrow> cpu" where
  "set_shift_flags16 c r k v = set_logic_flags16 (set_flag (set_flag c fCF k) fOF v) r"
definition set_shift_flags32 :: "cpu \<Rightarrow> u32 \<Rightarrow> bool \<Rightarrow> bool \<Rightarrow> cpu" where
  "set_shift_flags32 c r k v = set_logic_flags32 (set_flag (set_flag c fCF k) fOF v) r"
definition set_shift_flags64 :: "cpu \<Rightarrow> u64 \<Rightarrow> bool \<Rightarrow> bool \<Rightarrow> cpu" where
  "set_shift_flags64 c r k v = set_logic_flags64 (set_flag (set_flag c fCF k) fOF v) r"

section \<open>Shifts and rotates\<close>

definition sign_extend :: "u64 \<Rightarrow> nat \<Rightarrow> u64" where
  "sign_extend v w = (if w = 8 then scast (ucast v :: u8) else if w = 16 then scast (ucast v :: u16)
     else if w = 32 then scast (ucast v :: u32) else v)"

definition sext :: "u64 \<Rightarrow> nat \<Rightarrow> u64" where "sext v w = sign_extend v w"

definition inst_mask_w :: "nat \<Rightarrow> u64" where
  "inst_mask_w w = (if w \<ge> 64 then 0xFFFFFFFFFFFFFFFF else push_bit w 1 - 1)"

text \<open>The two loops of \<open>rcl_rcr64\<close>, one bit a round.\<close>

fun rcl64 :: "nat \<Rightarrow> u64 \<Rightarrow> bool \<Rightarrow> u64 \<times> bool" where
  "rcl64 0 v c = (v, c)"
| "rcl64 (Suc k) v c = rcl64 k (push_bit 1 v OR bool_to c) (drop_bit 63 v \<noteq> 0)"

fun rcr64 :: "nat \<Rightarrow> u64 \<Rightarrow> bool \<Rightarrow> u64 \<times> bool" where
  "rcr64 0 v c = (v, c)"
| "rcr64 (Suc k) v c = rcr64 k (drop_bit 1 v OR push_bit 63 (bool_to c)) (v AND 1 \<noteq> 0)"

definition rcl_rcr64 :: "u64 \<Rightarrow> u64 \<Rightarrow> nat \<Rightarrow> bool \<Rightarrow> u64 \<times> bool" where
  "rcl_rcr64 v carry k left = (if left then rcl64 k v (carry \<noteq> 0) else rcr64 k v (carry \<noteq> 0))"

text \<open>\<open>shift_width\<close>: the operand masked to the width, then one arm per operation.\<close>

definition shift_shl :: "cpu \<Rightarrow> u64 \<Rightarrow> nat \<Rightarrow> nat \<Rightarrow> u64 \<times> cpu" where
  "shift_shl c v n w =
     (let m = inst_mask_w w; msb = push_bit (w - 1) 1; r = push_bit (min n 63) v AND m;
          cf = (n \<le> w \<and> drop_bit (w - min n w) v AND 1 \<noteq> 0);
          c = set_logic_flags_width (set_flag c fCF cf) r w
      in (r, set_flag c fOF (n = 1 \<and> (r AND msb \<noteq> 0) \<noteq> cf)))"

definition shift_shr :: "cpu \<Rightarrow> u64 \<Rightarrow> nat \<Rightarrow> nat \<Rightarrow> u64 \<times> cpu" where
  "shift_shr c v n w =
     (let msb = push_bit (w - 1) 1; r = (if n \<ge> w then 0 else drop_bit n v);
          cf = (n \<le> w \<and> drop_bit (n - 1) v AND 1 \<noteq> 0);
          c = set_logic_flags_width (set_flag c fCF cf) r w
      in (r, set_flag c fOF (n = 1 \<and> v AND msb \<noteq> 0)))"

definition shift_sar :: "cpu \<Rightarrow> u64 \<Rightarrow> nat \<Rightarrow> nat \<Rightarrow> u64 \<times> cpu" where
  "shift_sar c v n w =
     (let sv = sign_extend v w; r = signed_drop_bit (min n (w - 1)) sv AND inst_mask_w w;
          cf = (signed_drop_bit (min (n - 1) (w - 1)) sv AND 1 \<noteq> 0);
          c = set_logic_flags_width (set_flag c fCF cf) r w
      in (r, set_flag c fOF False))"

definition shift_rol :: "cpu \<Rightarrow> u64 \<Rightarrow> nat \<Rightarrow> nat \<Rightarrow> u64 \<times> cpu" where
  "shift_rol c v n w =
     (let k = n mod w; msb = push_bit (w - 1) 1;
          r = (if k = 0 then v else (push_bit k v OR drop_bit (w - k) v) AND inst_mask_w w);
          cf = (r AND 1 \<noteq> 0)
      in (r, set_flag (set_flag c fCF cf) fOF (n = 1 \<and> (r AND msb \<noteq> 0) \<noteq> cf)))"

definition shift_ror :: "cpu \<Rightarrow> u64 \<Rightarrow> nat \<Rightarrow> nat \<Rightarrow> u64 \<times> cpu" where
  "shift_ror c v n w =
     (let k = n mod w; msb = push_bit (w - 1) 1;
          r = (if k = 0 then v else (drop_bit k v OR push_bit (w - k) v) AND inst_mask_w w);
          cf = (r AND msb \<noteq> 0);
          second = (drop_bit (w - 2) r AND 1 \<noteq> 0)
      in (r, set_flag (set_flag c fCF cf) fOF (n = 1 \<and> cf \<noteq> second)))"

text \<open>The overflow flag of the two rotates through carry.\<close>

definition rcx_overflow :: "cpu \<Rightarrow> bool \<Rightarrow> u64 \<Rightarrow> nat \<Rightarrow> nat \<Rightarrow> bool \<Rightarrow> cpu" where
  "rcx_overflow c left r n w cf =
     (let msb = push_bit (w - 1) 1 in
      if left then set_flag c fOF (n = 1 \<and> (r AND msb \<noteq> 0) \<noteq> cf)
      else
        (let second = (drop_bit (w - 2) r AND 1 \<noteq> 0)
         in set_flag c fOF (n = 1 \<and> (r AND msb \<noteq> 0) \<noteq> second)))"

definition shift_rcx :: "cpu \<Rightarrow> bool \<Rightarrow> u64 \<Rightarrow> nat \<Rightarrow> nat \<Rightarrow> u64 \<times> cpu" where
  "shift_rcx c left v n w =
     (let bits = w + 1; k = n mod bits; carry = bool_to (get_flag c fCF) :: u64 in
      if w = 64 then
        (let (r, cf) = rcl_rcr64 v carry k left in (r, rcx_overflow (set_flag c fCF cf) left r n w cf))
      else
        (let wide = v OR push_bit w carry; full = push_bit bits 1 - 1;
             rot = (if k = 0 then wide
                    else if left then (push_bit k wide OR drop_bit (bits - k) wide) AND full
                    else (drop_bit k wide OR push_bit (bits - k) wide) AND full);
             r = rot AND inst_mask_w w;
             cf = (drop_bit w rot AND 1 \<noteq> 0)
         in (r, rcx_overflow (set_flag c fCF cf) left r n w cf)))"

definition shift_width :: "cpu \<Rightarrow> shiftop \<Rightarrow> u64 \<Rightarrow> u32 \<Rightarrow> nat \<Rightarrow> u64 \<times> cpu" where
  "shift_width c op v n w =
     (let n = unat (n AND (if w = 64 then 0x3F else 0x1F)) in
      if n = 0 then (v, c)
      else
        (let v = v AND inst_mask_w w in
         case op of
           Shl \<Rightarrow> shift_shl c v n w
         | Shr \<Rightarrow> shift_shr c v n w
         | Sar \<Rightarrow> shift_sar c v n w
         | Rol \<Rightarrow> shift_rol c v n w
         | Ror \<Rightarrow> shift_ror c v n w
         | Rcl \<Rightarrow> shift_rcx c True v n w
         | Rcr \<Rightarrow> shift_rcx c False v n w))"

definition do_shift :: "cpu \<Rightarrow> shiftop \<Rightarrow> modrm \<Rightarrow> nat \<Rightarrow> u32 \<Rightarrow> cpu" where
  "do_shift c op m w n =
     (let (v, c) = read_rm_w c m w; (r, c) = shift_width c op v n w in write_rm_w c m w r)"

section \<open>Bit tests\<close>

definition apply_bit :: "u64 \<Rightarrow> nat \<Rightarrow> bitop \<Rightarrow> u64" where
  "apply_bit v b op =
     (case op of
        Bit_Test \<Rightarrow> v
      | Bit_Set \<Rightarrow> v OR push_bit b 1
      | Bit_Reset \<Rightarrow> v AND NOT (push_bit b 1)
      | Bit_Complement \<Rightarrow> v XOR push_bit b 1)"

definition mem_read_w :: "cpu \<Rightarrow> usize \<Rightarrow> nat \<Rightarrow> u64" where "mem_read_w c a w = load_w (c_mem c) a w"

definition mem_write_w :: "cpu \<Rightarrow> usize \<Rightarrow> nat \<Rightarrow> u64 \<Rightarrow> cpu" where
  "mem_write_w c a w v = c\<lparr>c_mem := store_w (c_mem c) a w v\<rparr>"

definition bit_op :: "cpu \<Rightarrow> modrm \<Rightarrow> bitoffset \<Rightarrow> bitop \<Rightarrow> cpu" where
  "bit_op c m off op =
     (let w = osize c; width = int w;
          offset = (case off of Off_Imm i \<Rightarrow> uint i | Off_Reg r \<Rightarrow> sint (sign_extend (reg_w c r w) w))
      in if is_reg m then
           (let b = nat (offset mod width);
                v = reg_w c (m_rm m) w;
                c = set_flag c fCF (drop_bit b v AND 1 \<noteq> 0)
            in if op \<noteq> Bit_Test then set_reg_w c (m_rm m) w (apply_bit v b op) else c)
         else
           (let bytes = width div 8; word = offset div width; b = nat (offset mod width);
                disp = of_int (word * bytes) :: usize;
                (base, c) = rm_addr c m (op \<noteq> Bit_Test);
                addr = base + disp;
                v = stack_load (c_mem c) addr w;
                c = set_flag c fCF (drop_bit b v AND 1 \<noteq> 0)
            in if op \<noteq> Bit_Test then c\<lparr>c_mem := stack_store (c_mem c) addr w (apply_bit v b op)\<rparr> else c))"

section \<open>Addresses and string elements\<close>

definition load_far_pointer :: "cpu \<Rightarrow> modrm \<Rightarrow> segreg \<Rightarrow> cpu" where
  "load_far_pointer c m s =
     (let (addr, c) = (if addrsize c then modrm_addr32_access c m False else modrm_addr_access c m False) in
      if opsize c then
        (let sel = read_u16 (c_mem c) (addr + 4)
         in load_seg (set_reg32_idx c (m_reg m) (read_u32 (c_mem c) addr)) s sel)
      else
        (let sel = read_u16 (c_mem c) (addr + 2)
         in load_seg (set_reg16_idx c (m_reg m) (read_u16 (c_mem c) addr)) s sel))"

definition lea_offset :: "modrm \<Rightarrow> cpu \<Rightarrow> u64" where
  "lea_offset m c = (if addrsize c then fst (modrm_ea32 c m) else ucast (modrm_offset c m))"

definition str_read :: "cpu \<Rightarrow> usize \<Rightarrow> segreg \<Rightarrow> u64 \<Rightarrow> nat \<Rightarrow> u64 \<times> cpu" where
  "str_read c phys s off w =
     (if w > 8 \<and> straddles phys (w div 8)
      then (let (v, c) = read_split c phys (linear_addr c s off) (w div 8) in (ucast v, c))
      else (mem_read_w c phys w, c))"

definition str_write :: "cpu \<Rightarrow> usize \<Rightarrow> segreg \<Rightarrow> u64 \<Rightarrow> nat \<Rightarrow> u64 \<Rightarrow> cpu" where
  "str_write c phys s off w v =
     (if w > 8 \<and> straddles phys (w div 8)
      then write_split c phys (linear_addr c s off) (w div 8) (ucast v)
      else mem_write_w c phys w v)"

definition string_step :: "cpu \<Rightarrow> nat \<Rightarrow> u32" where
  "string_step c esize = (if get_flag c fDF then - of_nat esize else of_nat esize)"

definition string_advance :: "u64 \<Rightarrow> u32 \<Rightarrow> nat \<Rightarrow> u64" where
  "string_advance v step a =
     (let n = v + scast step in if a = 64 then n else if a = 32 then n AND 0xFFFFFFFF else n AND 0xFFFF)"

definition string_si :: "cpu \<Rightarrow> nat \<Rightarrow> u64" where "string_si c a = reg_w c 6 a"
definition string_di :: "cpu \<Rightarrow> nat \<Rightarrow> u64" where "string_di c a = reg_w c 7 a"
definition string_set_si :: "cpu \<Rightarrow> nat \<Rightarrow> u64 \<Rightarrow> cpu" where "string_set_si c a v = set_reg_w_raw c 6 a v"
definition string_set_di :: "cpu \<Rightarrow> nat \<Rightarrow> u64 \<Rightarrow> cpu" where "string_set_di c a v = set_reg_w_raw c 7 a v"

definition string_count :: "cpu \<Rightarrow> nat \<Rightarrow> rep \<Rightarrow> u64" where
  "string_count c a r = (if r = Rep_None then 1 else reg_w c 1 a)"

definition string_set_count :: "cpu \<Rightarrow> nat \<Rightarrow> u64 \<Rightarrow> cpu" where "string_set_count c a v = set_reg_w_raw c 1 a v"

definition string_repeat :: "cpu \<Rightarrow> rep \<Rightarrow> u64 \<Rightarrow> bool" where
  "string_repeat c r remaining =
     (case r of Rep_None \<Rightarrow> False
      | Repe \<Rightarrow> (if remaining = 0 then False else get_flag c fZF)
      | Repne \<Rightarrow> (if remaining = 0 then False else \<not> get_flag c fZF))"

end
