(* ===== verification/Inst.thy ===== *)
theory Inst imports Alu begin

text \<open>
  The decoded instructions: \<open>enum Inst\<close> of src/src/instructions.rs with the VMX
  and SSE instructions of src/src/vmx.rs and src/src/sse.rs. The two large
  enumerations of the code are sums of the groups their comments name; the
  constructors keep the source's names, with a prefix where HOL or another
  enumeration has the name.
\<close>

datatype (plugins only: size) dir = RmReg | RegRm
datatype (plugins only: size) fpuop = Fpu_Add | Fpu_Sub | Fpu_Mul | Fpu_Div

section \<open>Moves and data\<close>

datatype (plugins only: size) mov_inst =
    MovRm8Reg modrm u8 | MovRm16Reg modrm u8 | MovRm32Reg modrm u8
  | MovRegRm8 modrm u8 | MovRegRm16 modrm u8 | MovRegRm32 modrm u8
  | MovRm8Imm modrm u8 | MovRm16Imm modrm u16 | MovRm32Imm modrm u32
  | MovReg8Imm u8 u8 | MovReg16Imm u8 u16 | MovReg32Imm u8 u32 | MovReg64Imm u8 u64

datatype (plugins only: size) moffs_inst =
    MovAccMem8 u16 | MovMem8Acc u16 | MovAccMem8Addr32 u32 | MovMem8AccAddr32 u32
  | MovAccMem16 u16 | MovMem16Acc u16 | MovAccMem16Addr32 u32 | MovMem16AccAddr32 u32
  | MovAccMem32 u64 | MovMem32Acc u64

datatype (plugins only: size) seg_inst =
    MovRmSeg modrm segreg | MovSegRm segreg modrm
  | Lds modrm | Les modrm | Lss modrm | Lfs modrm | Lgs modrm
  | PushSeg segreg | PopSeg segreg

datatype (plugins only: size) data_inst =
    Movzx8 modrm u8 | Movzx16 modrm u8 | Movsx8 modrm u8 | Movsx16 modrm u8 | Movsxd modrm u8
  | XchgAxReg u8 | XchgEaxReg u8 | XchgRmReg modrm u8 nat
  | Cmpxchg modrm u8 nat | Xadd modrm u8 nat | Cmpxchg8b modrm
  | Cmovcc cond modrm u8 bool | Setcc cond modrm | Bswap u8
  | Lea modrm u8 | Cbw | Cwd | Cwde | Cdq

section \<open>Arithmetic\<close>

datatype (plugins only: size) alu_inst =
    AluRm8Reg aluop modrm u8 dir | AluRm16Reg aluop modrm u8 dir | AluRm32Reg aluop modrm u8 dir
  | AluRm8Imm aluop modrm u8 | AluRm16Imm aluop modrm u16 bool | AluRm32Imm aluop modrm u32 bool
  | AluAccImm8 aluop u8 | AluAccImm16 aluop u16 | AluAccImm32 aluop u32
  | TestRm8Imm modrm u8 | TestRm16Imm modrm u16 | TestRm32Imm modrm u32
  | TestRm8Reg modrm u8 | TestRm16Reg modrm u8 | TestRm32Reg modrm u8
  | TestAccImm8 u8 | TestAccImm16 u16 | TestAccImm32 u32

datatype (plugins only: size) unary_inst =
    IncReg16 u8 | DecReg16 u8 | IncReg32 u8 | DecReg32 u8
  | IncRm8 modrm | DecRm8 modrm | IncRm16 modrm | IncRm32 modrm | DecRm16 modrm | DecRm32 modrm
  | NotRm8 modrm | NotRm16 modrm | NotRm32 modrm | NegRm8 modrm | NegRm16 modrm | NegRm32 modrm

datatype (plugins only: size) muldiv_inst =
    MulRm8 modrm | MulRm16 modrm | MulRm32 modrm | ImulRm8 modrm | ImulRm16 modrm | ImulRm32 modrm
  | DivRm8 modrm | DivRm16 modrm | DivRm32 modrm | IdivRm8 modrm | IdivRm16 modrm | IdivRm32 modrm
  | ImulRegRm16 modrm u8 | ImulRegRm32 modrm u8 | ImulRegRmImm16 modrm u8 u16 | ImulRegRmImm32 modrm u8 u32

datatype (plugins only: size) bits_inst =
    Shift shiftop modrm nat shiftcount | ShiftImm shiftop modrm nat u8
  | Shld modrm u8 shiftcount bool | Shrd modrm u8 shiftcount bool
  | Bsf modrm u8 bool | Bsr modrm u8 bool
  | Bt modrm bitoffset | Bts modrm bitoffset | Btr modrm bitoffset | Btc modrm bitoffset

section \<open>Stack and control flow\<close>

datatype (plugins only: size) stack_inst =
    PushReg16 u8 | PopReg16 u8 | PushReg32 u8 | PopReg32 u8 | PushImm16 u16 | PushImm32 u32
  | PopRm16 modrm | PopRm32 modrm | PushRm16 modrm | PushRm32 modrm
  | Pusha bool | Popa bool | Leave bool | Pushf | Popf

datatype (plugins only: size) flow_inst =
    JmpRel8 u8 | JmpRel16 u16 | JmpRel32 u32 | Jcc cond u8 | Jcc32 cond u32
  | CallRel16 u16 | CallRel32 u32 | Ret | Ret32 | RetImm u16 bool
  | Inst_Loop loopcond u8
  | JmpFar u16 u16 | CallFar u16 u16 | JmpFar32 u32 u16 | CallFar32 u32 u16 | Retf | Retf32
  | CallRm16 modrm | CallRm32 modrm | JmpRm16 modrm | JmpRm32 modrm
  | Inst_Int u8 | Int3 | Into | Iret | Iret32

datatype (plugins only: size) string_inst = Movs rep bool | Stos rep bool | Lods rep bool | Cmps rep bool | Scas rep bool

section \<open>System, ports, flags and the x87\<close>

datatype (plugins only: size) system_inst =
    Lgdt modrm | Lidt modrm | Sgdt modrm | Sidt modrm | Smsw modrm | Lmsw modrm
  | Xgetbv | Xsetbv | Clac | Stac | Invlpg modrm | MovCr u8 u8 | MovToCr u8 u8 | Clts
  | MovDr u8 u8 | MovToDr u8 u8 | Lldt modrm | Ltr modrm | Sldt modrm | Str modrm
  | Syscall | Sysret | Swapgs | Rdtscp | Cpuid | Rdtsc | Rdmsr | Wrmsr

datatype (plugins only: size) idle_inst = Nop | Hlt | NopHint | Invd | Wbinvd | Monitor | Mwait | Pause

datatype (plugins only: size) io_inst =
    InAlImm u8 | InAxImm u8 | InAlDx | InAxDx | OutImmAl u8 | OutImmAx u8 | OutDxAl | OutDxAx

datatype (plugins only: size) flag_inst = Clc | Stc | Cli | Sti | Cld | Std | Cmc

datatype (plugins only: size) fpu_inst =
    Fninit | Fstcw modrm | Fldcw modrm | FstswAx | Fstsw modrm | Fst modrm bool | Fstp modrm bool
  | Fld modrm bool | Fild modrm | Fistp modrm | Fop fpuop modrm

section \<open>VMX\<close>

datatype (plugins only: size) vmx_op = Vmxon | Vmxoff | Vmclear | Vmptrld | Vmptrst | Vmread | Vmwrite | Vmlaunch | Vmresume | Vmcall | Invept | Invvpid

record vmx_inst =
  vi_op :: vmx_op
  vi_m :: modrm
  vi_reg :: u8

section \<open>SSE\<close>

datatype (plugins only: size) pfx = Pfx_None | P66 | F3 | F2
datatype (plugins only: size) sat = Sat_Wrap | Sat_Signed | Sat_Unsigned
datatype (plugins only: size) shift_kind = Sll | Srl | Sra
datatype (plugins only: size) fp_op = Fp_Add | Fp_Sub | Fp_Mul | Fp_Div | Fp_Min | Fp_Max

datatype (plugins only: size) sse_mov =
    Mov128 bool bool | Movnt128 | MovScalar bool nat | MovHalf bool bool | Movhlps | Movlhps | MovGpr bool nat
  | MovqLoad | MovqStore | Movddup | Movshdup | Movsldup | Movmsk nat | Movnti | Maskmovdqu

datatype (plugins only: size) sse_fp =
    Arith fp_op | Sqrt | Rsqrt | Rcp | Sse_Cmp | Comis bool | Shuf | Unpck bool | Addsub | Hadd | Hsub
  | CvtSi2 nat | Cvt2Si bool nat | CvtSs2Sd | CvtSd2Ss | CvtPs2Pd | CvtPd2Ps | CvtDq2Ps | CvtPs2Dq bool
  | CvtDq2Pd | CvtPd2Dq bool

datatype (plugins only: size) sse_int =
    Sse_And | Sse_Andn | Sse_Or | Sse_Xor
  | Padd nat sat | Psub nat sat | Pmullw | Pmulhw | Pmulhuw | Pmuludq | Pmaddwd | Psadbw | Pavg nat
  | Pmax nat bool | Pmin nat bool | Pcmpeq nat | Pcmpgt nat | Packss nat | Packus | Punpckl nat | Punpckh nat
  | Pshufd | Pshufhw | Pshuflw | Pinsrw | Pextrw | Pshift shift_kind nat bool | Pshiftdq bool

datatype (plugins only: size) sse_state = Ldmxcsr | Stmxcsr | Fxsave | Fxrstor

datatype (plugins only: size) sse_op = Sse_Mov sse_mov | Sse_Fp sse_fp | Sse_Int sse_int | Sse_State sse_state

record sse_inst =
  si_op :: sse_op
  si_m :: modrm
  si_reg :: u8
  si_imm :: u8
  si_pfx :: pfx

section \<open>The instruction\<close>

datatype (plugins only: size) inst =
    I_Mov mov_inst | I_Moffs moffs_inst | I_Seg seg_inst | I_Data data_inst
  | I_Alu alu_inst | I_Unary unary_inst | I_Muldiv muldiv_inst | I_Bits bits_inst
  | I_Stack stack_inst | I_Flow flow_inst | I_String string_inst
  | I_System system_inst | I_Idle idle_inst | I_Io io_inst | I_Flag flag_inst | I_Fpu fpu_inst
  | I_Sse sse_inst | I_Vmx vmx_inst | Unknown u16

end
