(* ===== verification/Decode.thy ===== *)
theory Decode imports Inst begin

text \<open>
  The decoder (src/src/instructions.rs, with \<open>decode_sse\<close> and \<open>decode_0f_ae\<close>
  of src/src/sse.rs and \<open>decode_0f_c7\<close> of src/src/vmx.rs): the prefix loop, the
  one-byte and two-byte opcode tables and their groups. The prefix loop has no
  bound in the code; \<open>decode\<close> is None when it does not end.
\<close>

unbundle bit_operations_syntax

section \<open>Operand fetches\<close>

definition with_rm :: "cpu \<Rightarrow> (modrm \<Rightarrow> inst) \<Rightarrow> inst \<times> cpu" where
  "with_rm c f = (let (m, c) = fetch_modrm c in (f m, c))"
definition with_u8 :: "cpu \<Rightarrow> (u8 \<Rightarrow> inst) \<Rightarrow> inst \<times> cpu" where
  "with_u8 c f = (let (v, c) = fetch_u8 c in (f v, c))"
definition with_u16 :: "cpu \<Rightarrow> (u16 \<Rightarrow> inst) \<Rightarrow> inst \<times> cpu" where
  "with_u16 c f = (let (v, c) = fetch_u16 c in (f v, c))"
definition with_u32 :: "cpu \<Rightarrow> (u32 \<Rightarrow> inst) \<Rightarrow> inst \<times> cpu" where
  "with_u32 c f = (let (v, c) = fetch_u32 c in (f v, c))"
definition with_u64 :: "cpu \<Rightarrow> (u64 \<Rightarrow> inst) \<Rightarrow> inst \<times> cpu" where
  "with_u64 c f = (let (v, c) = fetch_u64 c in (f v, c))"
definition rm_then :: "cpu \<Rightarrow> (modrm \<Rightarrow> cpu \<Rightarrow> inst \<times> cpu) \<Rightarrow> inst \<times> cpu" where
  "rm_then c f = (let (m, c) = fetch_modrm c in f m c)"

text \<open>A word or doubleword immediate, by the operand size.\<close>

definition with_imm :: "cpu \<Rightarrow> (u32 \<Rightarrow> inst) \<Rightarrow> (u16 \<Rightarrow> inst) \<Rightarrow> inst \<times> cpu" where
  "with_imm c f32 f16 = (if opsize c then with_u32 c f32 else with_u16 c f16)"

definition rb :: "cpu \<Rightarrow> u8" where "rb c = push_bit 3 (bool_to (rex_b c))"

definition seg_from_index :: "u8 \<Rightarrow> segreg" where
  "seg_from_index i =
     (let i = i AND 7 in if i = 0 then Es else if i = 1 then Cs else if i = 2 then Ss else if i = 3 then Ds
      else if i = 4 then Fs else Gs)"

section \<open>Prefixes\<close>

definition decode_defaults :: "cpu \<Rightarrow> cpu" where
  "decode_defaults c =
     (let c = (if long64 c then c\<lparr>opsize := True, addrsize := True, addr64 := True\<rparr>
               else (let d32 = (pe c \<and> d_db (seg_desc c Cs))
                     in c\<lparr>opsize := d32, addrsize := d32, addr64 := False\<rparr>))
      in c\<lparr>seg_override := None, rex_present := False, rex_w := False, rex_r := False, rex_x := False,
           rex_b := False, sse_pfx := None\<rparr>)"

definition legacy_prefix :: "u8 \<Rightarrow> bool" where
  "legacy_prefix b \<longleftrightarrow> b \<in> {0xF0, 0xF3, 0xF2, 0x66, 0x67, 0x2E, 0x36, 0x3E, 0x26, 0x64, 0x65}"

definition eat :: "cpu \<Rightarrow> cpu" where "eat c = snd (fetch_u8 c)"

text \<open>One round of the loop after the peek: None when the byte is not a prefix.\<close>

definition prefix_byte :: "bool \<Rightarrow> u8 \<Rightarrow> cpu \<Rightarrow> rep \<Rightarrow> (cpu \<times> rep) option" where
  "prefix_byte long b c rep =
     (if long \<and> 0x40 \<le> b \<and> b \<le> 0x4F then
        (let (b, c) = fetch_u8 c in
         Some (c\<lparr>rex_present := True, rex_w := (b AND 8 \<noteq> 0), rex_r := (b AND 4 \<noteq> 0), rex_x := (b AND 2 \<noteq> 0),
                 rex_b := (b AND 1 \<noteq> 0)\<rparr>, rep))
      else
        (let c = (if legacy_prefix b
                  then c\<lparr>rex_present := False, rex_w := False, rex_r := False, rex_x := False, rex_b := False\<rparr>
                  else c)
         in if b = 0xF0 then Some (eat c, rep)
            else if b = 0xF3 then Some (eat (c\<lparr>sse_pfx := Some 0xF3\<rparr>), Repe)
            else if b = 0xF2 then Some (eat (c\<lparr>sse_pfx := Some 0xF2\<rparr>), Repne)
            else if b = 0x66 then
              Some (eat (c\<lparr>opsize := (if long then False else \<not> opsize c), sse_pfx := Some 0x66\<rparr>), rep)
            else if b = 0x67 then
              Some (eat (if long then c\<lparr>addr64 := False\<rparr> else c\<lparr>addrsize := \<not> addrsize c\<rparr>), rep)
            else if b = 0x2E then Some (eat (if \<not> long then c\<lparr>seg_override := Some Cs\<rparr> else c), rep)
            else if b = 0x36 then Some (eat (if \<not> long then c\<lparr>seg_override := Some Ss\<rparr> else c), rep)
            else if b = 0x3E then Some (eat (if \<not> long then c\<lparr>seg_override := Some Ds\<rparr> else c), rep)
            else if b = 0x26 then Some (eat (if \<not> long then c\<lparr>seg_override := Some Es\<rparr> else c), rep)
            else if b = 0x64 then Some (eat (c\<lparr>seg_override := Some Fs\<rparr>), rep)
            else if b = 0x65 then Some (eat (c\<lparr>seg_override := Some Gs\<rparr>), rep)
            else None))"

partial_function (option) decode_prefixes :: "bool \<Rightarrow> cpu \<Rightarrow> rep \<Rightarrow> (cpu \<times> rep) option" where
  "decode_prefixes long c rep =
     (let p = peek_u8 c; r = prefix_byte long (fst p) (snd p) rep in
      if r = None then Some (snd p, rep) else decode_prefixes long (fst (the r)) (snd (the r)))"

section \<open>VMX and SSE opcodes\<close>

definition decode_0f_c7 :: "cpu \<Rightarrow> modrm \<Rightarrow> inst option" where
  "decode_0f_c7 c m =
     (if is_reg m then None
      else
        (let r = m_reg m AND 7; p = sse_pfx c;
             op = (if r = 6 \<and> p = None then Some Vmptrld else if r = 6 \<and> p = Some 0x66 then Some Vmclear
                   else if r = 6 \<and> p = Some 0xF3 then Some Vmxon else if r = 7 \<and> p = None then Some Vmptrst
                   else None)
         in map_option (\<lambda>op. I_Vmx \<lparr>vi_op = op, vi_m = m, vi_reg = m_reg m\<rparr>) op))"

definition sse_pfx_of :: "cpu \<Rightarrow> pfx" where
  "sse_pfx_of c =
     (if sse_pfx c = Some 0x66 then P66 else if sse_pfx c = Some 0xF3 then F3
      else if sse_pfx c = Some 0xF2 then F2 else Pfx_None)"

definition by_pfx :: "pfx \<Rightarrow> 'a \<Rightarrow> 'a \<Rightarrow> 'a \<Rightarrow> 'a \<Rightarrow> 'a" where
  "by_pfx p a b x y = (case p of Pfx_None \<Rightarrow> a | P66 \<Rightarrow> b | F3 \<Rightarrow> x | F2 \<Rightarrow> y)"

definition sse_moves :: "u8 \<Rightarrow> pfx \<Rightarrow> modrm \<Rightarrow> nat \<Rightarrow> sse_op option" where
  "sse_moves op2 p m gbits =
     (if op2 = 0x10 \<or> op2 = 0x11 then
        (let store = (op2 = 0x11) in
         Some (Sse_Mov (by_pfx p (Mov128 store False) (Mov128 store False) (MovScalar store 32) (MovScalar store 64))))
      else if op2 = 0x12 then
        Some (Sse_Mov (if p = F2 then Movddup else if p = F3 then Movsldup else if is_reg m then Movhlps else MovHalf False False))
      else if op2 = 0x13 then Some (Sse_Mov (MovHalf True False))
      else if op2 = 0x14 then Some (Sse_Fp (Unpck False))
      else if op2 = 0x15 then Some (Sse_Fp (Unpck True))
      else if op2 = 0x16 then
        Some (Sse_Mov (if p = F3 then Movshdup else if is_reg m \<and> p = Pfx_None then Movlhps else MovHalf False True))
      else if op2 = 0x17 then Some (Sse_Mov (MovHalf True True))
      else if op2 = 0x28 then Some (Sse_Mov (Mov128 False True))
      else if op2 = 0x29 then Some (Sse_Mov (Mov128 True True))
      else if op2 = 0x2A then (if p = F3 \<or> p = F2 then Some (Sse_Fp (CvtSi2 gbits)) else None)
      else if op2 = 0x2B then Some (Sse_Mov Movnt128)
      else if op2 = 0x2C \<or> op2 = 0x2D then (if p = F3 \<or> p = F2 then Some (Sse_Fp (Cvt2Si (op2 = 0x2C) gbits)) else None)
      else if op2 = 0x2E then Some (Sse_Fp (Comis False))
      else if op2 = 0x2F then Some (Sse_Fp (Comis True))
      else None)"

definition sse_floats :: "u8 \<Rightarrow> pfx \<Rightarrow> sse_op option" where
  "sse_floats op2 p =
     (if op2 = 0x50 then Some (Sse_Mov (Movmsk (if p = P66 then 64 else 32)))
      else if op2 = 0x51 then Some (Sse_Fp Sqrt) else if op2 = 0x52 then Some (Sse_Fp Rsqrt)
      else if op2 = 0x53 then Some (Sse_Fp Rcp)
      else if op2 = 0x54 then Some (Sse_Int Sse_And) else if op2 = 0x55 then Some (Sse_Int Sse_Andn)
      else if op2 = 0x56 then Some (Sse_Int Sse_Or) else if op2 = 0x57 then Some (Sse_Int Sse_Xor)
      else if op2 = 0x58 then Some (Sse_Fp (Arith Fp_Add)) else if op2 = 0x59 then Some (Sse_Fp (Arith Fp_Mul))
      else if op2 = 0x5A then Some (Sse_Fp (by_pfx p CvtPs2Pd CvtPd2Ps CvtSs2Sd CvtSd2Ss))
      else if op2 = 0x5B then
        by_pfx p (Some (Sse_Fp CvtDq2Ps)) (Some (Sse_Fp (CvtPs2Dq False))) (Some (Sse_Fp (CvtPs2Dq True))) None
      else if op2 = 0x5C then Some (Sse_Fp (Arith Fp_Sub)) else if op2 = 0x5D then Some (Sse_Fp (Arith Fp_Min))
      else if op2 = 0x5E then Some (Sse_Fp (Arith Fp_Div)) else if op2 = 0x5F then Some (Sse_Fp (Arith Fp_Max))
      else None)"

definition sse_packed :: "u8 \<Rightarrow> pfx \<Rightarrow> nat \<Rightarrow> sse_op option" where
  "sse_packed op2 p gbits =
     (if (0x60 \<le> op2 \<and> op2 \<le> 0x6D \<or> op2 = 0x6F) \<and> p = Pfx_None \<and> op2 \<noteq> 0x6E then None
      else if op2 = 0x60 then Some (Sse_Int (Punpckl 8)) else if op2 = 0x61 then Some (Sse_Int (Punpckl 16))
      else if op2 = 0x62 then Some (Sse_Int (Punpckl 32)) else if op2 = 0x63 then Some (Sse_Int (Packss 16))
      else if op2 = 0x64 then Some (Sse_Int (Pcmpgt 8)) else if op2 = 0x65 then Some (Sse_Int (Pcmpgt 16))
      else if op2 = 0x66 then Some (Sse_Int (Pcmpgt 32)) else if op2 = 0x67 then Some (Sse_Int Packus)
      else if op2 = 0x68 then Some (Sse_Int (Punpckh 8)) else if op2 = 0x69 then Some (Sse_Int (Punpckh 16))
      else if op2 = 0x6A then Some (Sse_Int (Punpckh 32)) else if op2 = 0x6B then Some (Sse_Int (Packss 32))
      else if op2 = 0x6C then Some (Sse_Int (Punpckl 64)) else if op2 = 0x6D then Some (Sse_Int (Punpckh 64))
      else if op2 = 0x6E then (if p = P66 then Some (Sse_Mov (MovGpr False gbits)) else None)
      else if op2 = 0x6F then
        (if p = P66 then Some (Sse_Mov (Mov128 False True)) else if p = F3 then Some (Sse_Mov (Mov128 False False)) else None)
      else if op2 = 0x74 then Some (Sse_Int (Pcmpeq 8)) else if op2 = 0x75 then Some (Sse_Int (Pcmpeq 16))
      else if op2 = 0x76 then Some (Sse_Int (Pcmpeq 32))
      else if op2 = 0x7C then (if p = P66 \<or> p = F2 then Some (Sse_Fp Hadd) else None)
      else if op2 = 0x7D then (if p = P66 \<or> p = F2 then Some (Sse_Fp Hsub) else None)
      else if op2 = 0x7E then
        (if p = P66 then Some (Sse_Mov (MovGpr True gbits)) else if p = F3 then Some (Sse_Mov MovqLoad) else None)
      else if op2 = 0x7F then
        (if p = P66 then Some (Sse_Mov (Mov128 True True)) else if p = F3 then Some (Sse_Mov (Mov128 True False)) else None)
      else if op2 = 0xD0 then (if p = P66 \<or> p = F2 then Some (Sse_Fp Addsub) else None)
      else if op2 = 0xD6 then (if p = P66 then Some (Sse_Mov MovqStore) else None)
      else if op2 = 0xF0 then (if p = F2 then Some (Sse_Mov (Mov128 False False)) else None)
      else if op2 = 0xE6 then
        by_pfx p None (Some (Sse_Fp (CvtPd2Dq False))) (Some (Sse_Fp CvtDq2Pd)) (Some (Sse_Fp (CvtPd2Dq True)))
      else None)"

text \<open>The packed-integer row \<open>0F D1-FE\<close>, the 66 forms only.\<close>

definition sse_row_d1 :: "u8 \<Rightarrow> sse_op option" where
  "sse_row_d1 op2 =
     (if op2 = 0xD1 then Some (Sse_Int (Pshift Srl 16 False)) else if op2 = 0xD2 then Some (Sse_Int (Pshift Srl 32 False))
      else if op2 = 0xD3 then Some (Sse_Int (Pshift Srl 64 False)) else if op2 = 0xD4 then Some (Sse_Int (Padd 64 Sat_Wrap))
      else if op2 = 0xD5 then Some (Sse_Int Pmullw) else if op2 = 0xD7 then Some (Sse_Mov (Movmsk 8))
      else if op2 = 0xD8 then Some (Sse_Int (Psub 8 Sat_Unsigned)) else if op2 = 0xD9 then Some (Sse_Int (Psub 16 Sat_Unsigned))
      else if op2 = 0xDA then Some (Sse_Int (Pmin 8 False)) else if op2 = 0xDB then Some (Sse_Int Sse_And)
      else if op2 = 0xDC then Some (Sse_Int (Padd 8 Sat_Unsigned)) else if op2 = 0xDD then Some (Sse_Int (Padd 16 Sat_Unsigned))
      else if op2 = 0xDE then Some (Sse_Int (Pmax 8 False)) else if op2 = 0xDF then Some (Sse_Int Sse_Andn)
      else if op2 = 0xE0 then Some (Sse_Int (Pavg 8)) else if op2 = 0xE1 then Some (Sse_Int (Pshift Sra 16 False))
      else if op2 = 0xE2 then Some (Sse_Int (Pshift Sra 32 False)) else if op2 = 0xE3 then Some (Sse_Int (Pavg 16))
      else if op2 = 0xE4 then Some (Sse_Int Pmulhuw) else if op2 = 0xE5 then Some (Sse_Int Pmulhw)
      else if op2 = 0xE7 then Some (Sse_Mov Movnt128) else if op2 = 0xE8 then Some (Sse_Int (Psub 8 Sat_Signed))
      else if op2 = 0xE9 then Some (Sse_Int (Psub 16 Sat_Signed)) else if op2 = 0xEA then Some (Sse_Int (Pmin 16 True))
      else if op2 = 0xEB then Some (Sse_Int Sse_Or) else if op2 = 0xEC then Some (Sse_Int (Padd 8 Sat_Signed))
      else if op2 = 0xED then Some (Sse_Int (Padd 16 Sat_Signed)) else if op2 = 0xEE then Some (Sse_Int (Pmax 16 True))
      else if op2 = 0xEF then Some (Sse_Int Sse_Xor) else if op2 = 0xF1 then Some (Sse_Int (Pshift Sll 16 False))
      else if op2 = 0xF2 then Some (Sse_Int (Pshift Sll 32 False)) else if op2 = 0xF3 then Some (Sse_Int (Pshift Sll 64 False))
      else if op2 = 0xF4 then Some (Sse_Int Pmuludq) else if op2 = 0xF5 then Some (Sse_Int Pmaddwd)
      else if op2 = 0xF6 then Some (Sse_Int Psadbw) else if op2 = 0xF7 then Some (Sse_Mov Maskmovdqu)
      else if op2 = 0xF8 then Some (Sse_Int (Psub 8 Sat_Wrap)) else if op2 = 0xF9 then Some (Sse_Int (Psub 16 Sat_Wrap))
      else if op2 = 0xFA then Some (Sse_Int (Psub 32 Sat_Wrap)) else if op2 = 0xFB then Some (Sse_Int (Psub 64 Sat_Wrap))
      else if op2 = 0xFC then Some (Sse_Int (Padd 8 Sat_Wrap)) else if op2 = 0xFD then Some (Sse_Int (Padd 16 Sat_Wrap))
      else if op2 = 0xFE then Some (Sse_Int (Padd 32 Sat_Wrap))
      else None)"

text \<open>The shift groups \<open>0F 71-73\<close> by immediate.\<close>

definition sse_shift_group :: "u8 \<Rightarrow> u8 \<Rightarrow> sse_op option" where
  "sse_shift_group op2 r =
     (let bits = (if op2 = 0x71 then 16 else if op2 = 0x72 then 32 else 64) in
      if r = 2 then Some (Sse_Int (Pshift Srl bits True))
      else if (op2 = 0x71 \<or> op2 = 0x72) \<and> r = 4 then Some (Sse_Int (Pshift Sra bits True))
      else if r = 6 then Some (Sse_Int (Pshift Sll bits True))
      else if op2 = 0x73 \<and> r = 3 then Some (Sse_Int (Pshiftdq False))
      else if op2 = 0x73 \<and> r = 7 then Some (Sse_Int (Pshiftdq True))
      else None)"

text \<open>The opcodes with an immediate: the byte is fetched where the code fetches it.\<close>

definition sse_immediate :: "u8 \<Rightarrow> pfx \<Rightarrow> modrm \<Rightarrow> cpu \<Rightarrow> (sse_op option \<times> u8) \<times> cpu" where
  "sse_immediate op2 p m c =
     (if op2 = 0x70 then
        (let (imm, c) = fetch_u8 c in
         ((by_pfx p None (Some (Sse_Int Pshufd)) (Some (Sse_Int Pshufhw)) (Some (Sse_Int Pshuflw)), imm), c))
      else if op2 = 0x71 \<or> op2 = 0x72 \<or> op2 = 0x73 then
        (if p \<noteq> P66 then ((None, 0), c)
         else (let (imm, c) = fetch_u8 c in ((sse_shift_group op2 (m_reg m AND 7), imm), c)))
      else if op2 = 0xC2 then (let (imm, c) = fetch_u8 c in ((Some (Sse_Fp Sse_Cmp), imm), c))
      else if op2 = 0xC3 then ((if p = Pfx_None \<and> \<not> is_reg m then Some (Sse_Mov Movnti) else None, 0), c)
      else if op2 = 0xC4 then
        (if p \<noteq> P66 then ((None, 0), c) else (let (imm, c) = fetch_u8 c in ((Some (Sse_Int Pinsrw), imm), c)))
      else if op2 = 0xC5 then
        (if p \<noteq> P66 then ((None, 0), c) else (let (imm, c) = fetch_u8 c in ((Some (Sse_Int Pextrw), imm), c)))
      else if op2 = 0xC6 then (let (imm, c) = fetch_u8 c in ((Some (Sse_Fp Shuf), imm), c))
      else ((None, 0), c))"

definition decode_sse :: "cpu \<Rightarrow> u8 \<Rightarrow> inst option \<times> cpu" where
  "decode_sse c op2 =
     (let p = sse_pfx_of c; (m, c) = fetch_modrm c; gbits = (if rex_w c then 64 else 32);
          ((op, imm), c) =
            (if op2 \<in> {0x70, 0x71, 0x72, 0x73, 0xC2, 0xC3, 0xC4, 0xC5, 0xC6} then sse_immediate op2 p m c
             else ((if op2 \<le> 0x2F then sse_moves op2 p m gbits
                    else if op2 \<le> 0x5F then sse_floats op2 p
                    else if op2 \<le> 0x7F \<or> op2 = 0xD0 \<or> op2 = 0xD6 \<or> op2 = 0xF0 \<or> op2 = 0xE6 then sse_packed op2 p gbits
                    else if 0xD1 \<le> op2 \<and> op2 \<le> 0xFE then (if p \<noteq> P66 then None else sse_row_d1 op2)
                    else None, 0), c))
      in (case op of
            None \<Rightarrow> (None, c)
          | Some op \<Rightarrow>
              (let by_rm = (case op of Sse_Int (Pshift k n True) \<Rightarrow> True | Sse_Int (Pshiftdq l) \<Rightarrow> True | _ \<Rightarrow> False);
                   reg = (if by_rm then m_rm m else m_reg m);
                   m = (if by_rm then m\<lparr>mod_field := 3\<rparr> else m)
               in (Some (I_Sse \<lparr>si_op = op, si_m = m, si_reg = reg, si_imm = imm, si_pfx = p\<rparr>), c))))"

definition decode_0f_ae :: "modrm \<Rightarrow> inst option" where
  "decode_0f_ae m =
     (let r = m_reg m AND 7;
          op = (if r = 0 then Some Fxsave else if r = 1 then Some Fxrstor else if r = 2 then Some Ldmxcsr
                else if r = 3 then Some Stmxcsr else None)
      in map_option (\<lambda>op. I_Sse \<lparr>si_op = Sse_State op, si_m = m, si_reg = m_reg m, si_imm = 0, si_pfx = Pfx_None\<rparr>) op)"

end
