(* ===== verification/Decode_Op.thy ===== *)
theory Decode_Op imports Decode begin

text \<open>
  The opcode tables (src/src/instructions.rs): the one-byte map by the rows its
  comments name, the groups selected by the ModR/M reg field, the \<open>0F\<close> map and
  the x87 escape, and \<open>decode\<close> over the prefix loop.
\<close>

unbundle bit_operations_syntax

section \<open>The arithmetic rows\<close>

text \<open>One row of six opcodes; \<open>0x00-0x3D\<close> is eight of them with the segment pushes and pops between.\<close>

definition decode_alu_row :: "cpu \<Rightarrow> aluop \<Rightarrow> u8 \<Rightarrow> inst \<times> cpu" where
  "decode_alu_row c p k =
     (if k = 0 then with_rm c (\<lambda>m. I_Alu (AluRm8Reg p m (m_reg m) RmReg))
      else if k = 1 then with_rm c (\<lambda>m. I_Alu (if opsize c then AluRm32Reg p m (m_reg m) RmReg else AluRm16Reg p m (m_reg m) RmReg))
      else if k = 2 then with_rm c (\<lambda>m. I_Alu (AluRm8Reg p m (m_reg m) RegRm))
      else if k = 3 then with_rm c (\<lambda>m. I_Alu (if opsize c then AluRm32Reg p m (m_reg m) RegRm else AluRm16Reg p m (m_reg m) RegRm))
      else if k = 4 then with_u8 c (\<lambda>i. I_Alu (AluAccImm8 p i))
      else with_imm c (\<lambda>i. I_Alu (AluAccImm32 p i)) (\<lambda>i. I_Alu (AluAccImm16 p i)))"

definition decode_low :: "cpu \<Rightarrow> u8 \<Rightarrow> inst \<times> cpu" where
  "decode_low c b =
     (if b \<le> 0x05 then decode_alu_row c Add b
      else if b = 0x06 then (I_Seg (PushSeg Es), c)
      else if b = 0x07 then (I_Seg (PopSeg Es), c)
      else if b \<le> 0x0D then decode_alu_row c Or (b - 0x08)
      else if b = 0x0E then (I_Seg (PushSeg Cs), c)
      else if 0x10 \<le> b \<and> b \<le> 0x15 then decode_alu_row c Adc (b - 0x10)
      else if b = 0x16 then (I_Seg (PushSeg Ss), c)
      else if b = 0x17 then (I_Seg (PopSeg Ss), c)
      else if 0x18 \<le> b \<and> b \<le> 0x1D then decode_alu_row c Sbb (b - 0x18)
      else if b = 0x1E then (I_Seg (PushSeg Ds), c)
      else if b = 0x1F then (I_Seg (PopSeg Ds), c)
      else if 0x20 \<le> b \<and> b \<le> 0x25 then decode_alu_row c And (b - 0x20)
      else if 0x28 \<le> b \<and> b \<le> 0x2D then decode_alu_row c Sub (b - 0x28)
      else if 0x30 \<le> b \<and> b \<le> 0x35 then decode_alu_row c Xor (b - 0x30)
      else if 0x38 \<le> b \<and> b \<le> 0x3D then decode_alu_row c Cmp (b - 0x38)
      else (Unknown (ucast b), c))"

section \<open>Opcodes 40 to 8F\<close>

definition decode_mid :: "cpu \<Rightarrow> u8 \<Rightarrow> inst \<times> cpu" where
  "decode_mid c b =
     (let w32 = opsize c in
      if 0x40 \<le> b \<and> b \<le> 0x47 then (I_Unary (if w32 then IncReg32 (b - 0x40) else IncReg16 (b - 0x40)), c)
      else if 0x48 \<le> b \<and> b \<le> 0x4F then (I_Unary (if w32 then DecReg32 (b - 0x48) else DecReg16 (b - 0x48)), c)
      else if 0x50 \<le> b \<and> b \<le> 0x57
        then (let r = (b - 0x50) OR rb c in (I_Stack (if w32 then PushReg32 r else PushReg16 r), c))
      else if 0x58 \<le> b \<and> b \<le> 0x5F
        then (let r = (b - 0x58) OR rb c in (I_Stack (if w32 then PopReg32 r else PopReg16 r), c))
      else if b = 0x60 then (I_Stack (Pusha w32), c)
      else if b = 0x61 then (I_Stack (Popa w32), c)
      else if b = 0x63 then rm_then c (\<lambda>m c. (if long64 c then I_Data (Movsxd m (m_reg m)) else I_Idle Nop, c))
      else if b = 0x68 then with_imm c (\<lambda>i. I_Stack (PushImm32 i)) (\<lambda>i. I_Stack (PushImm16 i))
      else if b = 0x69 then
        rm_then c (\<lambda>m c. if w32 then with_u32 c (\<lambda>i. I_Muldiv (ImulRegRmImm32 m (m_reg m) i))
                         else with_u16 c (\<lambda>i. I_Muldiv (ImulRegRmImm16 m (m_reg m) i)))
      else if b = 0x6A then with_u8 c (\<lambda>i. I_Stack (if w32 then PushImm32 (scast i) else PushImm16 (scast i)))
      else if b = 0x6B then
        rm_then c (\<lambda>m c. with_u8 c (\<lambda>i. I_Muldiv (if w32 then ImulRegRmImm32 m (m_reg m) (scast i)
                                                   else ImulRegRmImm16 m (m_reg m) (scast i))))
      else if 0x70 \<le> b \<and> b \<le> 0x7F then with_u8 c (\<lambda>i. I_Flow (Jcc (cond_from_jcc (b - 0x70)) i))
      else if b = 0x80 then
        rm_then c (\<lambda>m c. with_u8 c (\<lambda>i. I_Alu (AluRm8Imm (aluop_from_index (m_reg m)) m i)))
      else if b = 0x81 then
        rm_then c (\<lambda>m c. if w32 then with_u32 c (\<lambda>i. I_Alu (AluRm32Imm (aluop_from_index (m_reg m)) m i False))
                         else with_u16 c (\<lambda>i. I_Alu (AluRm16Imm (aluop_from_index (m_reg m)) m i False)))
      else if b = 0x83 then
        rm_then c (\<lambda>m c. with_u8 c (\<lambda>i. I_Alu (if w32 then AluRm32Imm (aluop_from_index (m_reg m)) m (scast i) True
                                                else AluRm16Imm (aluop_from_index (m_reg m)) m (scast i) True)))
      else if b = 0x84 then with_rm c (\<lambda>m. I_Alu (TestRm8Reg m (m_reg m)))
      else if b = 0x85 then with_rm c (\<lambda>m. I_Alu (if w32 then TestRm32Reg m (m_reg m) else TestRm16Reg m (m_reg m)))
      else if b = 0x86 then with_rm c (\<lambda>m. I_Data (XchgRmReg m (m_reg m) 8))
      else if b = 0x87 then rm_then c (\<lambda>m c. (I_Data (XchgRmReg m (m_reg m) (osize c)), c))
      else if b = 0x88 then with_rm c (\<lambda>m. I_Mov (MovRm8Reg m (m_reg m)))
      else if b = 0x89 then with_rm c (\<lambda>m. I_Mov (if w32 then MovRm32Reg m (m_reg m) else MovRm16Reg m (m_reg m)))
      else if b = 0x8A then with_rm c (\<lambda>m. I_Mov (MovRegRm8 m (m_reg m)))
      else if b = 0x8B then with_rm c (\<lambda>m. I_Mov (if w32 then MovRegRm32 m (m_reg m) else MovRegRm16 m (m_reg m)))
      else if b = 0x8C then with_rm c (\<lambda>m. I_Seg (MovRmSeg m (seg_from_index (m_reg m))))
      else if b = 0x8D then with_rm c (\<lambda>m. I_Data (Lea m (m_reg m)))
      else if b = 0x8E then with_rm c (\<lambda>m. I_Seg (MovSegRm (seg_from_index (m_reg m)) m))
      else if b = 0x8F then
        with_rm c (\<lambda>m. if m_reg m AND 7 = 0 then I_Stack (if w32 then PopRm32 m else PopRm16 m) else Unknown 0x008F)
      else (Unknown (ucast b), c))"

section \<open>Opcodes 90 to BF\<close>

text \<open>The moffs forms: the width of the address follows the address size.\<close>

definition decode_moffs :: "cpu \<Rightarrow> u8 \<Rightarrow> inst \<times> cpu" where
  "decode_moffs c b =
     (let w32 = opsize c in
      if b = 0xA0 then (if addrsize c then with_u32 c (\<lambda>a. I_Moffs (MovAccMem8Addr32 a)) else with_u16 c (\<lambda>a. I_Moffs (MovAccMem8 a)))
      else if b = 0xA2 then
        (if addrsize c then with_u32 c (\<lambda>a. I_Moffs (MovMem8AccAddr32 a)) else with_u16 c (\<lambda>a. I_Moffs (MovMem8Acc a)))
      else if b = 0xA1 then
        (if addr64 c then with_u64 c (\<lambda>a. I_Moffs (MovAccMem32 a))
         else if addrsize c then with_u32 c (\<lambda>a. I_Moffs (if w32 then MovAccMem32 (ucast a) else MovAccMem16Addr32 a))
         else with_u16 c (\<lambda>a. I_Moffs (if w32 then MovAccMem32 (ucast a) else MovAccMem16 a)))
      else
        (if addr64 c then with_u64 c (\<lambda>a. I_Moffs (MovMem32Acc a))
         else if addrsize c then with_u32 c (\<lambda>a. I_Moffs (if w32 then MovMem32Acc (ucast a) else MovMem16AccAddr32 a))
         else with_u16 c (\<lambda>a. I_Moffs (if w32 then MovMem32Acc (ucast a) else MovMem16Acc a))))"

definition decode_strings :: "u8 \<Rightarrow> rep \<Rightarrow> inst" where
  "decode_strings b rep =
     (if b = 0xA4 then I_String (Movs rep False) else if b = 0xA5 then I_String (Movs rep True)
      else if b = 0xA6 then I_String (Cmps rep False) else if b = 0xA7 then I_String (Cmps rep True)
      else if b = 0xAA then I_String (Stos rep False) else if b = 0xAB then I_String (Stos rep True)
      else if b = 0xAC then I_String (Lods rep False) else if b = 0xAD then I_String (Lods rep True)
      else if b = 0xAE then I_String (Scas rep False) else I_String (Scas rep True))"

definition decode_9x :: "cpu \<Rightarrow> u8 \<Rightarrow> rep \<Rightarrow> inst \<times> cpu" where
  "decode_9x c b rep =
     (let w32 = opsize c in
      if b = 0x90 \<and> rex_b c then (I_Data (if w32 then XchgEaxReg 8 else XchgAxReg 8), c)
      else if b = 0x90 then (I_Idle (if rep = Repe then Pause else Nop), c)
      else if b \<le> 0x97 then (let r = (b - 0x90) OR rb c in (I_Data (if w32 then XchgEaxReg r else XchgAxReg r), c))
      else if b = 0x98 then (I_Data (if w32 then Cwde else Cbw), c)
      else if b = 0x99 then (I_Data (if w32 then Cdq else Cwd), c)
      else if b = 0x9A then
        (if w32 then (let (off, c) = fetch_u32 c; (s, c) = fetch_u16 c in (I_Flow (CallFar32 off s), c))
         else (let (off, c) = fetch_u16 c; (s, c) = fetch_u16 c in (I_Flow (CallFar off s), c)))
      else if b = 0x9B then (I_Idle Nop, c)
      else if b = 0x9C then (I_Stack Pushf, c)
      else if b = 0x9D then (I_Stack Popf, c)
      else (Unknown (ucast b), c))"

definition decode_mov_imm :: "cpu \<Rightarrow> u8 \<Rightarrow> inst \<times> cpu" where
  "decode_mov_imm c b =
     (if b \<le> 0xB7 then with_u8 c (\<lambda>i. I_Mov (MovReg8Imm ((b - 0xB0) OR rb c) i))
      else
        (let r = (b - 0xB8) OR rb c in
         if rex_w c then with_u64 c (\<lambda>i. I_Mov (MovReg64Imm r i))
         else with_imm c (\<lambda>i. I_Mov (MovReg32Imm r i)) (\<lambda>i. I_Mov (MovReg16Imm r i))))"

section \<open>Opcodes C0 to CF and the far and near transfers\<close>

definition decode_cx :: "cpu \<Rightarrow> u8 \<Rightarrow> inst \<times> cpu" where
  "decode_cx c b =
     (let w32 = opsize c in
      if b = 0xC0 then rm_then c (\<lambda>m c. with_u8 c (\<lambda>i. I_Bits (ShiftImm (shiftop_from_index (m_reg m)) m 8 i)))
      else if b = 0xC1 then
        rm_then c (\<lambda>m c. let (i, c) = fetch_u8 c in (I_Bits (ShiftImm (shiftop_from_index (m_reg m)) m (osize c) i), c))
      else if b = 0xC2 then with_u16 c (\<lambda>i. I_Flow (RetImm i w32))
      else if b = 0xC3 then (I_Flow (if w32 then Ret32 else Ret), c)
      else if b = 0xC4 then with_rm c (\<lambda>m. I_Seg (Les m))
      else if b = 0xC5 then with_rm c (\<lambda>m. I_Seg (Lds m))
      else if b = 0xC6 then rm_then c (\<lambda>m c. with_u8 c (\<lambda>i. I_Mov (MovRm8Imm m i)))
      else if b = 0xC7 then
        rm_then c (\<lambda>m c. if w32 then with_u32 c (\<lambda>i. I_Mov (MovRm32Imm m i)) else with_u16 c (\<lambda>i. I_Mov (MovRm16Imm m i)))
      else if b = 0xC9 then (I_Stack (Leave w32), c)
      else if b = 0xCB then (I_Flow (if w32 then Retf32 else Retf), c)
      else if b = 0xCC then (I_Flow Int3, c)
      else if b = 0xCD then with_u8 c (\<lambda>i. I_Flow (Inst_Int i))
      else if b = 0xCE then (I_Flow Into, c)
      else if b = 0xCF then (I_Flow (if w32 then Iret32 else Iret), c)
      else (Unknown (ucast b), c))"

section \<open>The x87 escape\<close>

definition fop_of :: "modrm \<Rightarrow> fpuop" where
  "fop_of m =
     (let r = m_reg m AND 7 in if r = 0 then Fpu_Add else if r = 1 then Fpu_Mul else if r = 4 then Fpu_Sub
      else if r = 6 then Fpu_Div else Fpu_Add)"

definition decode_d9 :: "modrm \<Rightarrow> fpu_inst" where
  "decode_d9 m =
     (let r = m_reg m AND 7 in
      if r = 0 then Fld m False else if r = 2 then Fst m False else if r = 3 then Fstp m False
      else if r = 5 then Fldcw m
      else if r = 7 then (if is_reg m \<and> m_rm m = 4 then FstswAx else Fstcw m)
      else Fstcw m)"

definition decode_dd :: "modrm \<Rightarrow> fpu_inst" where
  "decode_dd m =
     (let r = m_reg m AND 7 in
      if r = 0 then Fld m True else if r = 2 then Fst m True else if r = 3 then Fstp m True
      else if r = 7 then Fstsw m else Fst m True)"

definition decode_db :: "modrm \<Rightarrow> fpu_inst" where
  "decode_db m =
     (let r = m_reg m AND 7 in
      if r = 0 then Fild m else if r = 3 then Fistp m
      else if r = 4 then (if is_reg m \<and> m_rm m = 3 then Fninit else Fstcw m)
      else if r = 7 then (if is_reg m \<and> m_rm m = 0 then FstswAx else Fstcw m)
      else Fild m)"

definition decode_df :: "modrm \<Rightarrow> fpu_inst" where
  "decode_df m =
     (let r = m_reg m AND 7 in
      if r = 0 then Fild m else if r = 3 then Fistp m
      else if r = 4 then (if is_reg m \<and> m_rm m = 0 then FstswAx else Fstsw m)
      else Fild m)"

definition decode_fpu :: "cpu \<Rightarrow> u8 \<Rightarrow> inst \<times> cpu" where
  "decode_fpu c b =
     (if b = 0xD9 then with_rm c (\<lambda>m. I_Fpu (decode_d9 m))
      else if b = 0xDD then with_rm c (\<lambda>m. I_Fpu (decode_dd m))
      else if b = 0xDB then with_rm c (\<lambda>m. I_Fpu (decode_db m))
      else if b = 0xDF then with_rm c (\<lambda>m. I_Fpu (decode_df m))
      else with_rm c (\<lambda>m. I_Fpu (Fop (fop_of m) m)))"

section \<open>Groups 2 to 5 and the ports\<close>

definition decode_group3 :: "cpu \<Rightarrow> u8 \<Rightarrow> inst \<times> cpu" where
  "decode_group3 c b =
     (let w32 = opsize c in
      rm_then c (\<lambda>m c.
        let r = m_reg m AND 7 in
        if b = 0xF6 then
          (if r = 0 then with_u8 c (\<lambda>i. I_Alu (TestRm8Imm m i))
           else if r = 2 then (I_Unary (NotRm8 m), c) else if r = 3 then (I_Unary (NegRm8 m), c)
           else if r = 4 then (I_Muldiv (MulRm8 m), c) else if r = 5 then (I_Muldiv (ImulRm8 m), c)
           else if r = 6 then (I_Muldiv (DivRm8 m), c) else (I_Muldiv (IdivRm8 m), c))
        else
          (if r = 0 then (if w32 then with_u32 c (\<lambda>i. I_Alu (TestRm32Imm m i)) else with_u16 c (\<lambda>i. I_Alu (TestRm16Imm m i)))
           else if r = 2 then (I_Unary (if w32 then NotRm32 m else NotRm16 m), c)
           else if r = 3 then (I_Unary (if w32 then NegRm32 m else NegRm16 m), c)
           else if r = 4 then (I_Muldiv (if w32 then MulRm32 m else MulRm16 m), c)
           else if r = 5 then (I_Muldiv (if w32 then ImulRm32 m else ImulRm16 m), c)
           else if r = 6 then (I_Muldiv (if w32 then DivRm32 m else DivRm16 m), c)
           else (I_Muldiv (if w32 then IdivRm32 m else IdivRm16 m), c))))"

definition decode_group45 :: "cpu \<Rightarrow> u8 \<Rightarrow> inst \<times> cpu" where
  "decode_group45 c b =
     (let w32 = opsize c in
      with_rm c (\<lambda>m.
        let r = m_reg m AND 7 in
        if b = 0xFE then (if r = 0 then I_Unary (IncRm8 m) else if r = 1 then I_Unary (DecRm8 m) else Unknown 0x00FE)
        else
          (if r = 0 then I_Unary (if w32 then IncRm32 m else IncRm16 m)
           else if r = 1 then I_Unary (if w32 then DecRm32 m else DecRm16 m)
           else if r = 2 then I_Flow (if w32 then CallRm32 m else CallRm16 m)
           else if r = 4 then I_Flow (if w32 then JmpRm32 m else JmpRm16 m)
           else if r = 6 then I_Stack (if w32 then PushRm32 m else PushRm16 m)
           else Unknown 0x00FF)))"

definition decode_group2 :: "cpu \<Rightarrow> u8 \<Rightarrow> inst \<times> cpu" where
  "decode_group2 c b =
     rm_then c (\<lambda>m c.
       let p = shiftop_from_index (m_reg m) in
       (I_Bits (if b = 0xD0 then Shift p m 8 Count_One else if b = 0xD1 then Shift p m (osize c) Count_One
                else if b = 0xD2 then Shift p m 8 Count_Cl else Shift p m (osize c) Count_Cl), c))"

definition decode_ex :: "cpu \<Rightarrow> u8 \<Rightarrow> inst \<times> cpu" where
  "decode_ex c b =
     (let w32 = opsize c in
      if b = 0xE0 then with_u8 c (\<lambda>i. I_Flow (Inst_Loop Loop i))
      else if b = 0xE1 then with_u8 c (\<lambda>i. I_Flow (Inst_Loop Loopz i))
      else if b = 0xE2 then with_u8 c (\<lambda>i. I_Flow (Inst_Loop Loopnz i))
      else if b = 0xE3 then with_u8 c (\<lambda>i. I_Flow (Inst_Loop Jcxz i))
      else if b = 0xE4 then with_u8 c (\<lambda>i. I_Io (InAlImm i))
      else if b = 0xE5 then with_u8 c (\<lambda>i. I_Io (InAxImm i))
      else if b = 0xE6 then with_u8 c (\<lambda>i. I_Io (OutImmAl i))
      else if b = 0xE7 then with_u8 c (\<lambda>i. I_Io (OutImmAx i))
      else if b = 0xE8 then with_imm c (\<lambda>i. I_Flow (CallRel32 i)) (\<lambda>i. I_Flow (CallRel16 i))
      else if b = 0xE9 then with_imm c (\<lambda>i. I_Flow (JmpRel32 i)) (\<lambda>i. I_Flow (JmpRel16 i))
      else if b = 0xEA then
        (if w32 then (let (off, c) = fetch_u32 c; (s, c) = fetch_u16 c in (I_Flow (JmpFar32 off s), c))
         else (let (off, c) = fetch_u16 c; (s, c) = fetch_u16 c in (I_Flow (JmpFar off s), c)))
      else if b = 0xEB then with_u8 c (\<lambda>i. I_Flow (JmpRel8 i))
      else if b = 0xEC then (I_Io InAlDx, c) else if b = 0xED then (I_Io InAxDx, c)
      else if b = 0xEE then (I_Io OutDxAl, c) else if b = 0xEF then (I_Io OutDxAx, c)
      else (Unknown (ucast b), c))"

definition decode_fx :: "u8 \<Rightarrow> inst" where
  "decode_fx b =
     (if b = 0xF4 then I_Idle Hlt else if b = 0xF5 then I_Flag Cmc else if b = 0xF8 then I_Flag Clc
      else if b = 0xF9 then I_Flag Stc else if b = 0xFA then I_Flag Cli else if b = 0xFB then I_Flag Sti
      else if b = 0xFC then I_Flag Cld else if b = 0xFD then I_Flag Std else Unknown (ucast b))"

section \<open>The 0F map\<close>

definition vmx_inst_of :: "vmx_op \<Rightarrow> modrm \<Rightarrow> u8 \<Rightarrow> inst" where
  "vmx_inst_of p m r = I_Vmx \<lparr>vi_op = p, vi_m = m, vi_reg = r\<rparr>"

text \<open>The register forms of \<open>0F 01\<close>, by reg and raw rm.\<close>

definition decode_0f01_reg :: "modrm \<Rightarrow> inst" where
  "decode_0f01_reg m =
     (let r = m_reg m AND 7; k = rm_raw m in
      if r = 7 \<and> k = 0 then I_System Swapgs else if r = 7 \<and> k = 1 then I_System Rdtscp
      else if r = 0 \<and> k = 1 then vmx_inst_of Vmcall m 0 else if r = 0 \<and> k = 2 then vmx_inst_of Vmlaunch m 0
      else if r = 0 \<and> k = 3 then vmx_inst_of Vmresume m 0 else if r = 0 \<and> k = 4 then vmx_inst_of Vmxoff m 0
      else if r = 1 \<and> k = 0 then I_Idle Monitor else if r = 1 \<and> k = 1 then I_Idle Mwait
      else if r = 1 \<and> k = 2 then I_System Clac else if r = 1 \<and> k = 3 then I_System Stac
      else if r = 2 \<and> k = 0 then I_System Xgetbv else if r = 2 \<and> k = 1 then I_System Xsetbv
      else if r = 4 then I_System (Smsw m) else if r = 6 then I_System (Lmsw m)
      else Unknown 0x0F01)"

definition decode_0f01 :: "cpu \<Rightarrow> inst \<times> cpu" where
  "decode_0f01 c =
     with_rm c (\<lambda>m.
       if mod_field m = 3 then decode_0f01_reg m
       else
         (let r = m_reg m AND 7 in
          if r = 0 then I_System (Sgdt m) else if r = 1 then I_System (Sidt m) else if r = 2 then I_System (Lgdt m)
          else if r = 3 then I_System (Lidt m) else if r = 4 then I_System (Smsw m) else if r = 6 then I_System (Lmsw m)
          else if r = 7 then I_System (Invlpg m) else Unknown 0x0F01))"

definition decode_0f00 :: "modrm \<Rightarrow> inst" where
  "decode_0f00 m =
     (let r = m_reg m AND 7 in
      if r = 0 then I_System (Sldt m) else if r = 1 then I_System (Str m) else if r = 2 then I_System (Lldt m)
      else if r = 3 then I_System (Ltr m) else I_Idle Nop)"

definition decode_group8 :: "modrm \<Rightarrow> u8 \<Rightarrow> inst" where
  "decode_group8 m i =
     (let r = m_reg m AND 7 in
      if r = 4 then I_Bits (Bt m (Off_Imm i)) else if r = 5 then I_Bits (Bts m (Off_Imm i))
      else if r = 6 then I_Bits (Btr m (Off_Imm i)) else I_Bits (Btc m (Off_Imm i)))"

definition decode_0f_system :: "cpu \<Rightarrow> u8 \<Rightarrow> (inst \<times> cpu) option" where
  "decode_0f_system c b =
     (if b = 0x00 then Some (with_rm c decode_0f00)
      else if b = 0x01 then Some (decode_0f01 c)
      else if b = 0x05 then Some (I_System Syscall, c)
      else if b = 0x06 then Some (I_System Clts, c)
      else if b = 0x07 then Some (I_System Sysret, c)
      else if b = 0x08 then Some (I_Idle Invd, c)
      else if b = 0x09 then Some (I_Idle Wbinvd, c)
      else if b = 0x0B then Some (Unknown 0x0F0B, c)
      else if b = 0x0D \<or> b = 0x18 \<or> b = 0x1F then Some (with_rm c (\<lambda>m. I_Idle NopHint))
      else if 0x19 \<le> b \<and> b \<le> 0x1E then Some (with_rm c (\<lambda>m. I_Idle Nop))
      else if b = 0x20 then Some (rm_then c (\<lambda>m c. (I_System (MovCr (m_reg m) (rm_raw m OR rb c)), c)))
      else if b = 0x21 then Some (rm_then c (\<lambda>m c. (I_System (MovDr (m_reg m AND 7) (rm_raw m OR rb c)), c)))
      else if b = 0x22 then Some (rm_then c (\<lambda>m c. (I_System (MovToCr (m_reg m) (rm_raw m OR rb c)), c)))
      else if b = 0x23 then Some (rm_then c (\<lambda>m c. (I_System (MovToDr (m_reg m AND 7) (rm_raw m OR rb c)), c)))
      else if b = 0x30 then Some (I_System Wrmsr, c)
      else if b = 0x31 then Some (I_System Rdtsc, c)
      else if b = 0x32 then Some (I_System Rdmsr, c)
      else if b = 0x38 then
        Some (let (op3, c) = fetch_u8 c; (m, c) = fetch_modrm c in
          (if sse_pfx c = Some 0x66 \<and> op3 = 0x80 then vmx_inst_of Invept m (m_reg m)
           else if sse_pfx c = Some 0x66 \<and> op3 = 0x81 then vmx_inst_of Invvpid m (m_reg m)
           else Unknown 0x0F38, c))
      else if b = 0x78 then Some (with_rm c (\<lambda>m. vmx_inst_of Vmread m (m_reg m)))
      else if b = 0x79 then Some (with_rm c (\<lambda>m. vmx_inst_of Vmwrite m (m_reg m)))
      else if b = 0xA2 then Some (I_System Cpuid, c)
      else None)"

definition decode_0f_general :: "cpu \<Rightarrow> u8 \<Rightarrow> (inst \<times> cpu) option" where
  "decode_0f_general c b =
     (let w32 = opsize c in
      if 0x40 \<le> b \<and> b \<le> 0x4F then Some (with_rm c (\<lambda>m. I_Data (Cmovcc (cond_from_jcc (b AND 0xF)) m (m_reg m) w32)))
      else if 0x80 \<le> b \<and> b \<le> 0x8F then Some (with_u32 c (\<lambda>i. I_Flow (Jcc32 (cond_from_jcc (b - 0x80)) i)))
      else if 0x90 \<le> b \<and> b \<le> 0x9F then Some (with_rm c (\<lambda>m. I_Data (Setcc (cond_from_jcc (b AND 0xF)) m)))
      else if b = 0xA0 then Some (I_Seg (PushSeg Fs), c)
      else if b = 0xA1 then Some (I_Seg (PopSeg Fs), c)
      else if b = 0xA3 then Some (with_rm c (\<lambda>m. I_Bits (Bt m (Off_Reg (m_reg m)))))
      else if b = 0xA4 then Some (rm_then c (\<lambda>m c. with_u8 c (\<lambda>i. I_Bits (Shld m (m_reg m) (Count_Imm i) w32))))
      else if b = 0xA5 then Some (with_rm c (\<lambda>m. I_Bits (Shld m (m_reg m) Count_Cl w32)))
      else if b = 0xA8 then Some (I_Seg (PushSeg Gs), c)
      else if b = 0xA9 then Some (I_Seg (PopSeg Gs), c)
      else if b = 0xAB then Some (with_rm c (\<lambda>m. I_Bits (Bts m (Off_Reg (m_reg m)))))
      else if b = 0xAC then Some (rm_then c (\<lambda>m c. with_u8 c (\<lambda>i. I_Bits (Shrd m (m_reg m) (Count_Imm i) w32))))
      else if b = 0xAD then Some (with_rm c (\<lambda>m. I_Bits (Shrd m (m_reg m) Count_Cl w32)))
      else if b = 0xAE then
        Some (with_rm c (\<lambda>m.
          if mod_field m = 3 then I_Idle NopHint
          else if m_reg m AND 7 = 7 then I_Idle NopHint
          else (case decode_0f_ae m of Some i \<Rightarrow> i | None \<Rightarrow> Unknown 0x0FAE)))
      else if b = 0xAF then Some (with_rm c (\<lambda>m. I_Muldiv (if w32 then ImulRegRm32 m (m_reg m) else ImulRegRm16 m (m_reg m))))
      else if b = 0xB0 then Some (with_rm c (\<lambda>m. I_Data (Cmpxchg m (m_reg m) 8)))
      else if b = 0xB1 then Some (rm_then c (\<lambda>m c. (I_Data (Cmpxchg m (m_reg m) (osize c)), c)))
      else if b = 0xB2 then Some (with_rm c (\<lambda>m. I_Seg (Lss m)))
      else if b = 0xB3 then Some (with_rm c (\<lambda>m. I_Bits (Btr m (Off_Reg (m_reg m)))))
      else if b = 0xB4 then Some (with_rm c (\<lambda>m. I_Seg (Lfs m)))
      else if b = 0xB5 then Some (with_rm c (\<lambda>m. I_Seg (Lgs m)))
      else if b = 0xB6 then Some (with_rm c (\<lambda>m. I_Data (Movzx8 m (m_reg m))))
      else if b = 0xB7 then Some (with_rm c (\<lambda>m. I_Data (Movzx16 m (m_reg m))))
      else if b = 0xBA then Some (rm_then c (\<lambda>m c. with_u8 c (decode_group8 m)))
      else if b = 0xBB then Some (with_rm c (\<lambda>m. I_Bits (Btc m (Off_Reg (m_reg m)))))
      else if b = 0xBC then Some (with_rm c (\<lambda>m. I_Bits (Bsf m (m_reg m) w32)))
      else if b = 0xBD then Some (with_rm c (\<lambda>m. I_Bits (Bsr m (m_reg m) w32)))
      else if b = 0xBE then Some (with_rm c (\<lambda>m. I_Data (Movsx8 m (m_reg m))))
      else if b = 0xBF then Some (with_rm c (\<lambda>m. I_Data (Movsx16 m (m_reg m))))
      else if b = 0xC0 then Some (with_rm c (\<lambda>m. I_Data (Xadd m (m_reg m) 8)))
      else if b = 0xC1 then Some (rm_then c (\<lambda>m c. (I_Data (Xadd m (m_reg m) (osize c)), c)))
      else if b = 0xC7 then
        Some (rm_then c (\<lambda>m c.
          if m_reg m AND 7 = 1 then (I_Data (Cmpxchg8b m), c)
          else ((case decode_0f_c7 c m of Some i \<Rightarrow> i | None \<Rightarrow> Unknown 0x0FC7), c)))
      else if 0xC8 \<le> b \<and> b \<le> 0xCF then Some (I_Data (Bswap ((b - 0xC8) OR rb c)), c)
      else None)"

definition sse_opcode :: "u8 \<Rightarrow> bool" where
  "sse_opcode b \<longleftrightarrow>
     0x10 \<le> b \<and> b \<le> 0x17 \<or> 0x28 \<le> b \<and> b \<le> 0x2F \<or> 0x50 \<le> b \<and> b \<le> 0x76 \<or> 0x7C \<le> b \<and> b \<le> 0x7F \<or>
     0xC2 \<le> b \<and> b \<le> 0xC6 \<or> 0xD0 \<le> b \<and> b \<le> 0xFE"

definition decode_0f :: "cpu \<Rightarrow> inst \<times> cpu" where
  "decode_0f c =
     (let (b, c) = fetch_u8 c in
      case decode_0f_system c b of
        Some r \<Rightarrow> r
      | None \<Rightarrow>
          (case decode_0f_general c b of
             Some r \<Rightarrow> r
           | None \<Rightarrow>
               if sse_opcode b
               then (let (i, c) = decode_sse c b in
                     (case i of Some i \<Rightarrow> i | None \<Rightarrow> Unknown (0x0F00 OR ucast b), c))
               else (Unknown (0x0F00 OR ucast b), c)))"

section \<open>The whole decoder\<close>

definition decode_op :: "cpu \<Rightarrow> u8 \<Rightarrow> rep \<Rightarrow> inst \<times> cpu" where
  "decode_op c b rep =
     (if b = 0x0F then decode_0f c
      else if b \<le> 0x3F then decode_low c b
      else if b \<le> 0x8F then decode_mid c b
      else if b \<le> 0x9F then decode_9x c b rep
      else if b \<le> 0xA3 then decode_moffs c b
      else if b = 0xA8 then with_u8 c (\<lambda>i. I_Alu (TestAccImm8 i))
      else if b = 0xA9 then with_imm c (\<lambda>i. I_Alu (TestAccImm32 i)) (\<lambda>i. I_Alu (TestAccImm16 i))
      else if b \<le> 0xAF then (decode_strings b rep, c)
      else if b \<le> 0xBF then decode_mov_imm c b
      else if b \<le> 0xCF then decode_cx c b
      else if b \<le> 0xD3 then decode_group2 c b
      else if 0xD8 \<le> b \<and> b \<le> 0xDF then decode_fpu c b
      else if 0xE0 \<le> b \<and> b \<le> 0xEF then decode_ex c b
      else if b = 0xF6 \<or> b = 0xF7 then decode_group3 c b
      else if b = 0xFE \<or> b = 0xFF then decode_group45 c b
      else (decode_fx b, c))"

definition decode :: "cpu \<Rightarrow> (inst \<times> cpu) option" where
  "decode c =
     map_option (\<lambda>(c, rep).
       let c = (if rex_w c then c\<lparr>opsize := True\<rparr> else c); (b, c) = fetch_u8 c in decode_op c b rep)
       (decode_prefixes (long64 c) (decode_defaults c) Rep_None)"

end
