(* ===== verification/Exec_Core.thy ===== *)
theory Exec_Core imports Decode_Op begin

text \<open>
  The executor (src/src/instructions.rs): moves, data movement, the ALU
  instructions, the one-operand group, bits and shifts, and the stack. Every
  arm of \<open>execute\<close> is a branch; the order of register, flag and memory writes
  is the code's, since an instruction may fault between two of them.
\<close>

unbundle bit_operations_syntax

section \<open>Operands\<close>

definition read_rm8 :: "cpu \<Rightarrow> modrm \<Rightarrow> u8 \<times> cpu" where
  "read_rm8 c m = (let (v, c) = read_rm_w c m 8 in (ucast v, c))"
definition write_rm8 :: "cpu \<Rightarrow> modrm \<Rightarrow> u8 \<Rightarrow> cpu" where "write_rm8 c m v = write_rm_w c m 8 (ucast v)"
definition read_rm16 :: "cpu \<Rightarrow> modrm \<Rightarrow> u16 \<times> cpu" where
  "read_rm16 c m = (let (v, c) = read_rm_w c m 16 in (ucast v, c))"
definition write_rm16 :: "cpu \<Rightarrow> modrm \<Rightarrow> u16 \<Rightarrow> cpu" where "write_rm16 c m v = write_rm_w c m 16 (ucast v)"
definition read_rm32 :: "cpu \<Rightarrow> modrm \<Rightarrow> u32 \<times> cpu" where
  "read_rm32 c m = (let (v, c) = read_rm_w c m 32 in (ucast v, c))"
definition write_rm32 :: "cpu \<Rightarrow> modrm \<Rightarrow> u32 \<Rightarrow> cpu" where "write_rm32 c m v = write_rm_w c m 32 (ucast v)"

section \<open>MOV\<close>

definition exec_mov :: "cpu \<Rightarrow> mov_inst \<Rightarrow> cpu" where
  "exec_mov c i =
     (case i of
        MovRm8Reg m src \<Rightarrow> write_rm8 c m (reg8_idx c src)
      | MovRm16Reg m src \<Rightarrow> write_rm16 c m (reg16_idx c src)
      | MovRm32Reg m src \<Rightarrow> (let w = osize c in write_rm_w c m w (reg_w c src w))
      | MovRegRm8 m dst \<Rightarrow> (let (v, c) = read_rm8 c m in set_reg8_idx c dst v)
      | MovRegRm16 m dst \<Rightarrow> (let (v, c) = read_rm16 c m in set_reg16_idx c dst v)
      | MovRegRm32 m dst \<Rightarrow> (let w = osize c; (v, c) = read_rm_w c m w in set_reg_w c dst w v)
      | MovRm8Imm m imm \<Rightarrow> write_rm8 c m imm
      | MovRm16Imm m imm \<Rightarrow> write_rm16 c m imm
      | MovRm32Imm m imm \<Rightarrow> write_rm_w c m (osize c) (sext (ucast imm) 32)
      | MovReg8Imm dst imm \<Rightarrow> set_reg8_idx c dst imm
      | MovReg16Imm dst imm \<Rightarrow> set_reg16_idx c dst imm
      | MovReg32Imm dst imm \<Rightarrow> set_reg_w c dst 32 (ucast imm)
      | MovReg64Imm dst imm \<Rightarrow> set_reg_w c dst 64 imm)"

definition exec_moffs :: "cpu \<Rightarrow> moffs_inst \<Rightarrow> cpu" where
  "exec_moffs c i =
     (case i of
        MovAccMem8 a \<Rightarrow> (let (p, c) = cpu_translate c (operand_seg_for_exec c Ds) (ucast a) in set_reg8 c Al (read_u8 (c_mem c) p))
      | MovAccMem8Addr32 a \<Rightarrow> (let (p, c) = cpu_translate c (operand_seg_for_exec c Ds) (ucast a) in set_reg8 c Al (read_u8 (c_mem c) p))
      | MovMem8Acc a \<Rightarrow>
          (let (p, c) = translate_write c (operand_seg_for_exec c Ds) (ucast a) in c\<lparr>c_mem := write_u8 (c_mem c) p (reg8 c Al)\<rparr>)
      | MovMem8AccAddr32 a \<Rightarrow> (let (p, c) = translate_write c Ds (ucast a) in c\<lparr>c_mem := write_u8 (c_mem c) p (reg8 c Al)\<rparr>)
      | MovAccMem16 a \<Rightarrow> (let (p, c) = cpu_translate c (operand_seg_for_exec c Ds) (ucast a) in set_reg16_idx c 0 (read_u16 (c_mem c) p))
      | MovAccMem16Addr32 a \<Rightarrow> (let (p, c) = cpu_translate c (operand_seg_for_exec c Ds) (ucast a) in set_reg16_idx c 0 (read_u16 (c_mem c) p))
      | MovMem16Acc a \<Rightarrow>
          (let (p, c) = translate_write c (operand_seg_for_exec c Ds) (ucast a) in c\<lparr>c_mem := write_u16 (c_mem c) p (reg16_idx c 0)\<rparr>)
      | MovMem16AccAddr32 a \<Rightarrow> (let (p, c) = translate_write c Ds (ucast a) in c\<lparr>c_mem := write_u16 (c_mem c) p (reg16_idx c 0)\<rparr>)
      | MovAccMem32 a \<Rightarrow>
          (let w = osize c; (p, c) = cpu_translate c (operand_seg_for_exec c Ds) a in set_reg_w c 0 w (mem_read_w c p w))
      | MovMem32Acc a \<Rightarrow>
          (let w = osize c; (p, c) = translate_write c (operand_seg_for_exec c Ds) a in mem_write_w c p w (reg_w c 0 w)))"

definition exec_seg :: "cpu \<Rightarrow> seg_inst \<Rightarrow> cpu" where
  "exec_seg c i =
     (case i of
        MovRmSeg m s \<Rightarrow> write_rm16 c m (seg c s)
      | MovSegRm s m \<Rightarrow> (let (v, c) = read_rm16 c m in load_seg c s v)
      | Lds m \<Rightarrow> load_far_pointer c m Ds | Les m \<Rightarrow> load_far_pointer c m Es | Lss m \<Rightarrow> load_far_pointer c m Ss
      | Lfs m \<Rightarrow> load_far_pointer c m Fs | Lgs m \<Rightarrow> load_far_pointer c m Gs
      | PushSeg s \<Rightarrow> push_w c (stack_width c) (ucast (seg c s))
      | PopSeg s \<Rightarrow> (let (v, c) = pop_w c (stack_width c) in load_seg c s (ucast v)))"

section \<open>Data movement\<close>

definition swap_bytes32 :: "u32 \<Rightarrow> u32" where
  "swap_bytes32 v = push_bit 24 (v AND 0xFF) OR push_bit 8 (v AND 0xFF00) OR drop_bit 8 (v AND 0xFF0000) OR drop_bit 24 v"

definition swap_bytes64 :: "u64 \<Rightarrow> u64" where
  "swap_bytes64 v = push_bit 32 (ucast (swap_bytes32 (ucast v))) OR ucast (swap_bytes32 (ucast (drop_bit 32 v)))"

definition exec_xchg :: "cpu \<Rightarrow> modrm \<Rightarrow> u8 \<Rightarrow> nat \<Rightarrow> cpu" where
  "exec_xchg c m r width =
     (if width = 8 then (let (a, c) = read_rm8 c m; b = reg8_idx c r in set_reg8_idx (write_rm8 c m b) r a)
      else if width = 16 then (let (a, c) = read_rm16 c m; b = reg16_idx c r in set_reg16_idx (write_rm16 c m b) r a)
      else (let w = osize c; (a, c) = read_rm_w c m w; b = reg_w c r w in set_reg_w (write_rm_w c m w b) r w a))"

definition exec_cmpxchg :: "cpu \<Rightarrow> modrm \<Rightarrow> u8 \<Rightarrow> nat \<Rightarrow> cpu" where
  "exec_cmpxchg c m r width =
     (if width = 8 then
        (let (dest, c) = read_rm8 c m; acc = reg8 c Al; (_, c) = alu8 c Cmp acc dest
         in if acc = dest then write_rm8 c m (reg8_idx c r) else set_reg8 c Al dest)
      else if width = 16 then
        (let (dest, c) = read_rm16 c m; acc = reg16_idx c 0; (_, c) = alu16 c Cmp acc dest
         in if acc = dest then write_rm16 c m (reg16_idx c r) else set_reg16_idx c 0 dest)
      else
        (let w = osize c; (dest, c) = read_rm_w c m w; acc = reg_w c 0 w; (_, c) = alu_w c Cmp acc dest w
         in if acc = dest then write_rm_w c m w (reg_w c r w) else set_reg_w c 0 w dest))"

definition exec_xadd :: "cpu \<Rightarrow> modrm \<Rightarrow> u8 \<Rightarrow> nat \<Rightarrow> cpu" where
  "exec_xadd c m r width =
     (if width = 8 then
        (let (dest, c) = read_rm8 c m; src = reg8_idx c r; (total, c) = alu8 c Add dest src
         in if is_reg m then write_rm8 (set_reg8_idx c r dest) m total else set_reg8_idx (write_rm8 c m total) r dest)
      else if width = 16 then
        (let (dest, c) = read_rm16 c m; src = reg16_idx c r; (total, c) = alu16 c Add dest src
         in if is_reg m then write_rm16 (set_reg16_idx c r dest) m total else set_reg16_idx (write_rm16 c m total) r dest)
      else
        (let w = osize c; (dest, c) = read_rm_w c m w; src = reg_w c r w; (total, c) = alu_w c Add dest src w
         in if is_reg m then write_rm_w (set_reg_w c r w dest) m w total else set_reg_w (write_rm_w c m w total) r w dest))"

definition exec_cmpxchg8b :: "cpu \<Rightarrow> modrm \<Rightarrow> cpu" where
  "exec_cmpxchg8b c m =
     (let (a, c) = rm_addr c m True; lo = read_u32 (c_mem c) a; hi = read_u32 (c_mem c) (a + 4) in
      if lo = c_eax c \<and> hi = c_edx c then
        (let c = set_flag c fZF True; bl = c_ebx c; ch = c_ecx c
         in c\<lparr>c_mem := write_u32 (write_u32 (c_mem c) a bl) (a + 4) ch\<rparr>)
      else set_reg32_idx (set_reg32_idx (set_flag c fZF False) 0 lo) 2 hi)"

definition exec_data :: "cpu \<Rightarrow> data_inst \<Rightarrow> cpu" where
  "exec_data c i =
     (case i of
        Movzx8 m dst \<Rightarrow> (let w = osize c; (v, c) = read_rm8 c m in set_reg_w c dst w (ucast v))
      | Movzx16 m dst \<Rightarrow> (let w = osize c; (v, c) = read_rm16 c m in set_reg_w c dst w (ucast v))
      | Movsx8 m dst \<Rightarrow> (let w = osize c; (v, c) = read_rm8 c m in set_reg_w c dst w (sext (ucast v) 8))
      | Movsx16 m dst \<Rightarrow> (let w = osize c; (v, c) = read_rm16 c m in set_reg_w c dst w (sext (ucast v) 16))
      | Movsxd m dst \<Rightarrow> (let w = osize c; (v, c) = read_rm_w c m 32 in set_reg_w c dst w (sext v 32))
      | XchgAxReg r \<Rightarrow> (let a = reg16_idx c 0; b = reg16_idx c r in set_reg16_idx (set_reg16_idx c 0 b) r a)
      | XchgEaxReg r \<Rightarrow> (let w = osize c; a = reg_w c 0 w; b = reg_w c r w in set_reg_w (set_reg_w c 0 w b) r w a)
      | XchgRmReg m r width \<Rightarrow> exec_xchg c m r width
      | Cmpxchg m r width \<Rightarrow> exec_cmpxchg c m r width
      | Xadd m r width \<Rightarrow> exec_xadd c m r width
      | Cmpxchg8b m \<Rightarrow> exec_cmpxchg8b c m
      | Cmovcc q m dst w32 \<Rightarrow>
          (if cond_test c q then (let w = osize c; (v, c) = read_rm_w c m w in set_reg_w c dst w v) else c)
      | Setcc q m \<Rightarrow> write_rm8 c m (if cond_test c q then 1 else 0)
      | Bswap r \<Rightarrow>
          (let w = osize c; v = reg_w c r w
           in set_reg_w c r w (if w = 64 then swap_bytes64 v else ucast (swap_bytes32 (ucast v))))
      | Lea m dst \<Rightarrow> (let w = osize c in set_reg_w c dst w (lea_offset m c))
      | Cbw \<Rightarrow> set_reg16_idx c 0 (scast (reg8 c Al))
      | Cwd \<Rightarrow> set_reg16_idx c 2 (if sint (reg16_idx c 0) < 0 then 0xFFFF else 0)
      | Cwde \<Rightarrow> (let w = osize c in set_reg_w c 0 w (sext (reg_w c 0 (w div 2)) (w div 2)))
      | Cdq \<Rightarrow>
          (let w = osize c; v = reg_w c 0 w
           in set_reg_w c 2 w (if drop_bit (w - 1) v AND 1 \<noteq> 0 then 0xFFFFFFFFFFFFFFFF else 0)))"

section \<open>ALU and TEST\<close>

definition test8 :: "cpu \<Rightarrow> u8 \<Rightarrow> cpu" where "test8 c r = clear_co (set_logic_flags8 c r)"
definition test16 :: "cpu \<Rightarrow> u16 \<Rightarrow> cpu" where "test16 c r = clear_co (set_logic_flags16 c r)"
definition test_w :: "cpu \<Rightarrow> u64 \<Rightarrow> nat \<Rightarrow> cpu" where "test_w c r w = clear_co (set_logic_flags_width c r w)"

definition exec_alu :: "cpu \<Rightarrow> alu_inst \<Rightarrow> cpu" where
  "exec_alu c i =
     (case i of
        AluRm8Reg p m r d \<Rightarrow>
          (let regv = reg8_idx c r; (rmv, c) = read_rm8 c m;
               (res, c) = (case d of RmReg \<Rightarrow> alu8 c p rmv regv | RegRm \<Rightarrow> alu8 c p regv rmv)
           in if p = Cmp then c else if d = RmReg then write_rm8 c m res else set_reg8_idx c r res)
      | AluRm16Reg p m r d \<Rightarrow>
          (let regv = reg16_idx c r; (rmv, c) = read_rm16 c m;
               (res, c) = (case d of RmReg \<Rightarrow> alu16 c p rmv regv | RegRm \<Rightarrow> alu16 c p regv rmv)
           in if p = Cmp then c else if d = RmReg then write_rm16 c m res else set_reg16_idx c r res)
      | AluRm32Reg p m r d \<Rightarrow>
          (let w = osize c; regv = reg_w c r w; (rmv, c) = read_rm_w c m w;
               (res, c) = (case d of RmReg \<Rightarrow> alu_w c p rmv regv w | RegRm \<Rightarrow> alu_w c p regv rmv w)
           in if p = Cmp then c else if d = RmReg then write_rm_w c m w res else set_reg_w c r w res)
      | AluRm8Imm p m imm \<Rightarrow>
          (let (rmv, c) = read_rm8 c m; (res, c) = alu8 c p rmv imm in if p = Cmp then c else write_rm8 c m res)
      | AluRm16Imm p m imm b \<Rightarrow>
          (let (rmv, c) = read_rm16 c m; (res, c) = alu16 c p rmv imm in if p = Cmp then c else write_rm16 c m res)
      | AluRm32Imm p m imm b \<Rightarrow>
          (let w = osize c; (rmv, c) = read_rm_w c m w; (res, c) = alu_w c p rmv (sext (ucast imm) 32) w
           in if p = Cmp then c else write_rm_w c m w res)
      | AluAccImm8 p imm \<Rightarrow> (let (res, c) = alu8 c p (reg8 c Al) imm in if p = Cmp then c else set_reg8 c Al res)
      | AluAccImm16 p imm \<Rightarrow> (let (res, c) = alu16 c p (reg16_idx c 0) imm in if p = Cmp then c else set_reg16_idx c 0 res)
      | AluAccImm32 p imm \<Rightarrow>
          (let w = osize c; (res, c) = alu_w c p (reg_w c 0 w) (sext (ucast imm) 32) w
           in if p = Cmp then c else set_reg_w c 0 w res)
      | TestRm8Imm m imm \<Rightarrow> (let (v, c) = read_rm8 c m in test8 c (v AND imm))
      | TestRm16Imm m imm \<Rightarrow> (let (v, c) = read_rm16 c m in test16 c (v AND imm))
      | TestRm32Imm m imm \<Rightarrow> (let w = osize c; (v, c) = read_rm_w c m w in test_w c (v AND sext (ucast imm) 32) w)
      | TestRm8Reg m r \<Rightarrow> (let (v, c) = read_rm8 c m in test8 c (v AND reg8_idx c r))
      | TestRm16Reg m r \<Rightarrow> (let (v, c) = read_rm16 c m in test16 c (v AND reg16_idx c r))
      | TestRm32Reg m r \<Rightarrow> (let w = osize c; (a, c) = read_rm_w c m w in test_w c (a AND reg_w c r w) w)
      | TestAccImm8 imm \<Rightarrow> test8 c (reg8 c Al AND imm)
      | TestAccImm16 imm \<Rightarrow> test16 c (reg16_idx c 0 AND imm)
      | TestAccImm32 imm \<Rightarrow> (let w = osize c in test_w c (reg_w c 0 w AND sext (ucast imm) 32) w))"

section \<open>INC, DEC, NOT and NEG\<close>

text \<open>The flag part of the 16- and 32-bit increments and decrements: CF is saved and restored.\<close>

definition inc_flags16 :: "cpu \<Rightarrow> u16 \<Rightarrow> cpu" where
  "inc_flags16 c v = (let cf = get_flag c fCF in set_flag (set_add_carry (set_logic_flags16 c (v + 1)) v 1 (v + 1) False) fCF cf)"
definition dec_flags16 :: "cpu \<Rightarrow> u16 \<Rightarrow> cpu" where
  "dec_flags16 c v = (let cf = get_flag c fCF in set_flag (set_sub_borrow (set_logic_flags16 c (v - 1)) v 1 (v - 1) False) fCF cf)"
definition inc_flags32 :: "cpu \<Rightarrow> u32 \<Rightarrow> cpu" where
  "inc_flags32 c v = (let cf = get_flag c fCF in set_flag (set_add_carry32 (set_logic_flags32 c (v + 1)) v 1 (v + 1) False) fCF cf)"
definition dec_flags32 :: "cpu \<Rightarrow> u32 \<Rightarrow> cpu" where
  "dec_flags32 c v = (let cf = get_flag c fCF in set_flag (set_sub_borrow32 (set_logic_flags32 c (v - 1)) v 1 (v - 1) False) fCF cf)"

definition exec_unary :: "cpu \<Rightarrow> unary_inst \<Rightarrow> cpu" where
  "exec_unary c i =
     (case i of
        IncReg16 dst \<Rightarrow> (let v = reg16_idx c dst in inc_flags16 (set_reg16_idx c dst (v + 1)) v)
      | DecReg16 dst \<Rightarrow> (let v = reg16_idx c dst in dec_flags16 (set_reg16_idx c dst (v - 1)) v)
      | IncReg32 dst \<Rightarrow> (let v = reg32_idx c dst in inc_flags32 (set_reg32_idx c dst (v + 1)) v)
      | DecReg32 dst \<Rightarrow> (let v = reg32_idx c dst in dec_flags32 (set_reg32_idx c dst (v - 1)) v)
      | IncRm8 m \<Rightarrow>
          (let (v, c) = read_rm8 c m; r = v + 1; c = write_rm8 c m r; cf = get_flag c fCF;
               c = set_add_carry (set_logic_flags8 c r) (ucast v) 1 (ucast r) False;
               c = set_flag c fOF (v = 0x7F); c = set_flag c fAF (v AND 0x0F = 0x0F)
           in set_flag c fCF cf)
      | DecRm8 m \<Rightarrow>
          (let (v, c) = read_rm8 c m; r = v - 1; c = write_rm8 c m r; cf = get_flag c fCF;
               c = set_logic_flags8 c r;
               c = set_flag c fOF (v = 0x80); c = set_flag c fAF (v AND 0x0F = 0x00)
           in set_flag c fCF cf)
      | IncRm16 m \<Rightarrow> (let (v, c) = read_rm16 c m in inc_flags16 (write_rm16 c m (v + 1)) v)
      | DecRm16 m \<Rightarrow> (let (v, c) = read_rm16 c m in dec_flags16 (write_rm16 c m (v - 1)) v)
      | IncRm32 m \<Rightarrow>
          (let w = osize c; (v, c) = read_rm_w c m w; r = (v + 1) AND inst_mask_w w; c = write_rm_w c m w r;
               cf = get_flag c fCF; c = set_add_carry64 (set_logic_flags_width c r w) v 1 r False;
               c = set_flag c fOF (v = drop_bit 1 (inst_mask_w w))
           in set_flag c fCF cf)
      | DecRm32 m \<Rightarrow>
          (let w = osize c; (v, c) = read_rm_w c m w; r = (v - 1) AND inst_mask_w w; c = write_rm_w c m w r;
               cf = get_flag c fCF; c = set_sub_borrow64 (set_logic_flags_width c r w) v 1 r False;
               c = set_flag c fOF (v = push_bit (w - 1) 1)
           in set_flag c fCF cf)
      | NotRm8 m \<Rightarrow> (let (v, c) = read_rm8 c m in write_rm8 c m (NOT v))
      | NotRm16 m \<Rightarrow> (let (v, c) = read_rm16 c m in write_rm16 c m (NOT v))
      | NotRm32 m \<Rightarrow> (let w = osize c; (v, c) = read_rm_w c m w in write_rm_w c m w (NOT v))
      | NegRm8 m \<Rightarrow>
          (let (v, c) = read_rm8 c m; r = - v; c = set_logic_flags8 (write_rm8 c m r) r
           in set_flag (set_flag (set_flag c fCF (v \<noteq> 0)) fOF (v = 0x80)) fAF (v \<noteq> 0))
      | NegRm16 m \<Rightarrow>
          (let (v, c) = read_rm16 c m; r = - v; c = set_logic_flags16 (write_rm16 c m r) r
           in set_flag (set_flag (set_flag c fCF (v \<noteq> 0)) fOF (v = 0x8000)) fAF (v \<noteq> 0))
      | NegRm32 m \<Rightarrow>
          (let w = osize c; (v, c) = read_rm_w c m w; r = (- v) AND inst_mask_w w;
               c = set_logic_flags_width (write_rm_w c m w r) r w
           in set_flag (set_flag (set_flag c fCF (v \<noteq> 0)) fOF (v = push_bit (w - 1) 1)) fAF (v \<noteq> 0)))"

end
