(* ===== verification/Port_Io.thy ===== *)
theory Port_Io imports Cpu_Operands begin

text \<open>
  The I/O port map (src/src/cpu.rs): which device register a byte, word or
  doubleword access to a port reaches. The virtio window is tried first, since
  its base moves with the BAR the guest programs; words and doublewords that
  name no wide register are split into two halves, low half first.
\<close>

unbundle bit_operations_syntax

section \<open>Port dispatch\<close>

text \<open>The window is 64 ports from the BAR; \<open>base + 64\<close> is computed in 16 bits and wraps.\<close>

definition virtio_port :: "cpu \<Rightarrow> u16 \<Rightarrow> u16 option" where
  "virtio_port c port =
     (case virtio_io_base (c_pci c) of
        None \<Rightarrow> None
      | Some base \<Rightarrow> if port \<ge> base \<and> port < base + 64 then Some (port - base) else None)"

definition port_virtio_read :: "cpu \<Rightarrow> u16 \<Rightarrow> nat \<Rightarrow> u32 \<times> cpu" where
  "port_virtio_read c off n = (let (v, d) = virtio_read (c_virtio c) off n in (v, c\<lparr>c_virtio := d\<rparr>))"

definition port_virtio_write :: "cpu \<Rightarrow> u16 \<Rightarrow> u32 \<Rightarrow> cpu" where
  "port_virtio_write c off v =
     (let (d, m) = virtio_write (c_virtio c) off v (c_mem c) in c\<lparr>c_virtio := d, c_mem := m\<rparr>)"

definition port_in :: "cpu \<Rightarrow> u16 \<Rightarrow> u8 \<times> cpu" where
  "port_in c port =
     (case virtio_port c port of
        Some off \<Rightarrow> (let (v, c) = port_virtio_read c off 1 in (ucast v, c))
      | None \<Rightarrow>
          if 0xCFC \<le> port \<and> port \<le> 0xCFF then (ucast (pci_read_data (c_pci c) (unat (port - 0xCFC)) 1), c)
          else if port = 0x20 then (pic_read_command (c_pic c) 0x20, c)
          else if port = 0x21 then (pic_read_data (c_pic c) 0x21, c)
          else if port = 0xA0 then (pic_read_command (c_pic c) 0xA0, c)
          else if port = 0xA1 then (pic_read_data (c_pic c) 0xA1, c)
          else if port = 0x40 \<or> port = 0x41 \<or> port = 0x42
            then (let (v, d) = pit_read_data (c_pit c) (ucast (port - 0x40)) in (v, c\<lparr>c_pit := d\<rparr>))
          else if port = 0x60 then (let (v, d) = kbd_read_data (c_kbd c) in (v, c\<lparr>c_kbd := d\<rparr>))
          else if port = 0x64 then (kbd_read_status (c_kbd c), c)
          else if port = 0x08 then (dma_read_status (c_dma c), c)
          else if port = 0x71 then (let (v, d) = cmos_read_data (c_cmos c) in (v, c\<lparr>c_cmos := d\<rparr>))
          else if port = 0x1F1 then (ide_error (c_ide c), c)
          else if port = 0x1F7 \<or> port = 0x3F6 then (ide_read_status (c_ide c), c)
          else if port = 0x3D4 then (crtc_index (c_vga c), c)
          else if port = 0x3D5 then (read_crtc_data (c_vga c), c)
          else if port = 0x3DA
            then (let c = c\<lparr>vga_retrace := \<not> vga_retrace c\<rparr> in (if vga_retrace c then 0x09 else 0x00, c))
          else if port = 0x61 then (let (v, d) = read_port61 (c_pit c) in (v, c\<lparr>c_pit := d\<rparr>))
          else (0xFF, c))"

definition port_in16 :: "cpu \<Rightarrow> u16 \<Rightarrow> u16 \<times> cpu" where
  "port_in16 c port =
     (case virtio_port c port of
        Some off \<Rightarrow> (let (v, c) = port_virtio_read c off 2 in (ucast v, c))
      | None \<Rightarrow>
          if 0xCFC \<le> port \<and> port \<le> 0xCFF then (ucast (pci_read_data (c_pci c) (unat (port - 0xCFC)) 2), c)
          else if port = 0x1F0 then (let (v, d) = ide_read_data (c_ide c) in (v, c\<lparr>c_ide := d\<rparr>))
          else if port = 0x1F1 then (ucast (ide_error (c_ide c)), c)
          else if port = 0x1F7 then (ucast (ide_read_status (c_ide c)), c)
          else if port = 0x3F6 then (ucast (ide_read_status (c_ide c)), c)
          else
            (let (lo, c) = port_in c port; (hi, c) = port_in c (port + 1)
             in (ucast lo OR push_bit 8 (ucast hi), c)))"

definition port_in32 :: "cpu \<Rightarrow> u16 \<Rightarrow> u32 \<times> cpu" where
  "port_in32 c port =
     (case virtio_port c port of
        Some off \<Rightarrow> port_virtio_read c off 4
      | None \<Rightarrow>
          if port = 0xCF8 then (pci_address (c_pci c), c)
          else if 0xCFC \<le> port \<and> port \<le> 0xCFF then (pci_read_data (c_pci c) (unat (port - 0xCFC)) 4, c)
          else
            (let (lo, c) = port_in16 c port; (hi, c) = port_in16 c (port + 2)
             in (ucast lo OR push_bit 16 (ucast hi), c)))"

definition port_out :: "cpu \<Rightarrow> u16 \<Rightarrow> u8 \<Rightarrow> cpu" where
  "port_out c port v =
     (case virtio_port c port of
        Some off \<Rightarrow> port_virtio_write c off (ucast v)
      | None \<Rightarrow>
          if 0xCFC \<le> port \<and> port \<le> 0xCFF
            then c\<lparr>c_pci := pci_write_data (c_pci c) (unat (port - 0xCFC)) 1 (ucast v)\<rparr>
          else if port = 0x20 then c\<lparr>c_pic := pic_write_command (c_pic c) 0x20 v\<rparr>
          else if port = 0x21 then c\<lparr>c_pic := pic_write_data (c_pic c) 0x21 v\<rparr>
          else if port = 0xA0 then c\<lparr>c_pic := pic_write_command (c_pic c) 0xA0 v\<rparr>
          else if port = 0xA1 then c\<lparr>c_pic := pic_write_data (c_pic c) 0xA1 v\<rparr>
          else if port = 0x40 \<or> port = 0x41 \<or> port = 0x42 then c\<lparr>c_pit := pit_write_data (c_pit c) v\<rparr>
          else if port = 0x43 then c\<lparr>c_pit := pit_write_control (c_pit c) v\<rparr>
          else if port = 0x60 then c\<lparr>c_kbd := kbd_write_data (c_kbd c) v\<rparr>
          else if port = 0x64 then c\<lparr>c_kbd := kbd_write_command (c_kbd c) v\<rparr>
          else if port = 0x08 then c\<lparr>c_dma := dma_write_command (c_dma c) 0x08 v\<rparr>
          else if port = 0x0A then c\<lparr>c_dma := dma_write_command (c_dma c) 0x0A v\<rparr>
          else if 0x81 \<le> port \<and> port \<le> 0x8F then c\<lparr>c_dma := dma_write_page (c_dma c) (ucast port) v\<rparr>
          else if port = 0x61 then c\<lparr>c_pit := write_port61 (c_pit c) v\<rparr>
          else if 0x1F1 \<le> port \<and> port \<le> 0x1F6 then c\<lparr>c_ide := ide_write_reg (c_ide c) port v\<rparr>
          else if port = 0x1F7 then c\<lparr>c_ide := ide_write_command (c_ide c) v\<rparr>
          else if port = 0x3F6 then c
          else if port = 0x3D4 then c\<lparr>c_vga := write_crtc_index (c_vga c) v\<rparr>
          else if port = 0x3D5 then c\<lparr>c_vga := write_crtc_data (c_vga c) v\<rparr>
          else if port = 0x70 then c\<lparr>c_cmos := cmos_write_index (c_cmos c) v\<rparr>
          else if port = 0x71 then c\<lparr>c_cmos := cmos_write_data (c_cmos c) v\<rparr>
          else c)"

definition port_out16 :: "cpu \<Rightarrow> u16 \<Rightarrow> u16 \<Rightarrow> cpu" where
  "port_out16 c port v =
     (case virtio_port c port of
        Some off \<Rightarrow> port_virtio_write c off (ucast v)
      | None \<Rightarrow>
          if 0xCFC \<le> port \<and> port \<le> 0xCFF
            then c\<lparr>c_pci := pci_write_data (c_pci c) (unat (port - 0xCFC)) 2 (ucast v)\<rparr>
          else if port = 0x1F0 then c\<lparr>c_ide := ide_write_data (c_ide c) v\<rparr>
          else if 0x1F1 \<le> port \<and> port \<le> 0x1F6 then c\<lparr>c_ide := ide_write_reg (c_ide c) port (ucast v)\<rparr>
          else if port = 0x1F7 then c\<lparr>c_ide := ide_write_command (c_ide c) (ucast v)\<rparr>
          else if port = 0x3F6 then c
          else port_out (port_out c port (ucast v)) (port + 1) (ucast (drop_bit 8 v)))"

definition port_out32 :: "cpu \<Rightarrow> u16 \<Rightarrow> u32 \<Rightarrow> cpu" where
  "port_out32 c port v =
     (case virtio_port c port of
        Some off \<Rightarrow> port_virtio_write c off v
      | None \<Rightarrow>
          if port = 0xCF8 then c\<lparr>c_pci := (c_pci c)\<lparr>pci_address := v\<rparr>\<rparr>
          else if 0xCFC \<le> port \<and> port \<le> 0xCFF
            then c\<lparr>c_pci := pci_write_data (c_pci c) (unat (port - 0xCFC)) 4 v\<rparr>
          else port_out16 (port_out16 c port (ucast v)) (port + 2) (ucast (drop_bit 16 v)))"

end
