(* ===== verification/Vm_State.thy ===== *)
theory Vm_State imports Port_Io begin

text \<open>
  The processor state as the VMCS holds it (src/src/vmx.rs): the field
  encodings, the save of the guest state, the load of the guest and of the
  host state, and the VM exit.
\<close>

unbundle bit_operations_syntax

section \<open>Field encodings\<close>

definition fld_VPID :: u32 where [simp]: "fld_VPID = 0x0000"
definition fld_GUEST_ES_SEL :: u32 where [simp]: "fld_GUEST_ES_SEL = 0x0800"
definition fld_GUEST_CS_SEL :: u32 where [simp]: "fld_GUEST_CS_SEL = 0x0802"
definition fld_GUEST_SS_SEL :: u32 where [simp]: "fld_GUEST_SS_SEL = 0x0804"
definition fld_GUEST_DS_SEL :: u32 where [simp]: "fld_GUEST_DS_SEL = 0x0806"
definition fld_GUEST_FS_SEL :: u32 where [simp]: "fld_GUEST_FS_SEL = 0x0808"
definition fld_GUEST_GS_SEL :: u32 where [simp]: "fld_GUEST_GS_SEL = 0x080A"
definition fld_GUEST_LDTR_SEL :: u32 where [simp]: "fld_GUEST_LDTR_SEL = 0x080C"
definition fld_GUEST_TR_SEL :: u32 where [simp]: "fld_GUEST_TR_SEL = 0x080E"
definition fld_HOST_ES_SEL :: u32 where [simp]: "fld_HOST_ES_SEL = 0x0C00"
definition fld_HOST_CS_SEL :: u32 where [simp]: "fld_HOST_CS_SEL = 0x0C02"
definition fld_HOST_SS_SEL :: u32 where [simp]: "fld_HOST_SS_SEL = 0x0C04"
definition fld_HOST_DS_SEL :: u32 where [simp]: "fld_HOST_DS_SEL = 0x0C06"
definition fld_HOST_FS_SEL :: u32 where [simp]: "fld_HOST_FS_SEL = 0x0C08"
definition fld_HOST_GS_SEL :: u32 where [simp]: "fld_HOST_GS_SEL = 0x0C0A"
definition fld_HOST_TR_SEL :: u32 where [simp]: "fld_HOST_TR_SEL = 0x0C0C"
definition fld_IO_BITMAP_A :: u32 where [simp]: "fld_IO_BITMAP_A = 0x2000"
definition fld_IO_BITMAP_B :: u32 where [simp]: "fld_IO_BITMAP_B = 0x2002"
definition fld_MSR_BITMAP :: u32 where [simp]: "fld_MSR_BITMAP = 0x2004"
definition fld_EXIT_MSR_STORE_ADDR :: u32 where [simp]: "fld_EXIT_MSR_STORE_ADDR = 0x2006"
definition fld_EXIT_MSR_LOAD_ADDR :: u32 where [simp]: "fld_EXIT_MSR_LOAD_ADDR = 0x2008"
definition fld_ENTRY_MSR_LOAD_ADDR :: u32 where [simp]: "fld_ENTRY_MSR_LOAD_ADDR = 0x200A"
definition fld_TSC_OFFSET :: u32 where [simp]: "fld_TSC_OFFSET = 0x2010"
definition fld_GUEST_LINK_POINTER :: u32 where [simp]: "fld_GUEST_LINK_POINTER = 0x2800"
definition fld_GUEST_DEBUGCTL :: u32 where [simp]: "fld_GUEST_DEBUGCTL = 0x2802"
definition fld_GUEST_PAT :: u32 where [simp]: "fld_GUEST_PAT = 0x2804"
definition fld_GUEST_EFER :: u32 where [simp]: "fld_GUEST_EFER = 0x2806"
definition fld_HOST_PAT :: u32 where [simp]: "fld_HOST_PAT = 0x2C00"
definition fld_HOST_EFER :: u32 where [simp]: "fld_HOST_EFER = 0x2C02"
definition fld_PIN_CTLS :: u32 where [simp]: "fld_PIN_CTLS = 0x4000"
definition fld_CPU_CTLS :: u32 where [simp]: "fld_CPU_CTLS = 0x4002"
definition fld_EXCEPTION_BITMAP :: u32 where [simp]: "fld_EXCEPTION_BITMAP = 0x4004"
definition fld_PF_ERROR_MASK :: u32 where [simp]: "fld_PF_ERROR_MASK = 0x4006"
definition fld_PF_ERROR_MATCH :: u32 where [simp]: "fld_PF_ERROR_MATCH = 0x4008"
definition fld_CR3_TARGET_COUNT :: u32 where [simp]: "fld_CR3_TARGET_COUNT = 0x400A"
definition fld_EXIT_CTLS :: u32 where [simp]: "fld_EXIT_CTLS = 0x400C"
definition fld_EXIT_MSR_STORE_COUNT :: u32 where [simp]: "fld_EXIT_MSR_STORE_COUNT = 0x400E"
definition fld_EXIT_MSR_LOAD_COUNT :: u32 where [simp]: "fld_EXIT_MSR_LOAD_COUNT = 0x4010"
definition fld_ENTRY_CTLS :: u32 where [simp]: "fld_ENTRY_CTLS = 0x4012"
definition fld_ENTRY_MSR_LOAD_COUNT :: u32 where [simp]: "fld_ENTRY_MSR_LOAD_COUNT = 0x4014"
definition fld_ENTRY_INTR_INFO :: u32 where [simp]: "fld_ENTRY_INTR_INFO = 0x4016"
definition fld_ENTRY_EXCEPTION_ERROR :: u32 where [simp]: "fld_ENTRY_EXCEPTION_ERROR = 0x4018"
definition fld_ENTRY_INSTR_LEN :: u32 where [simp]: "fld_ENTRY_INSTR_LEN = 0x401A"
definition fld_CPU_CTLS2 :: u32 where [simp]: "fld_CPU_CTLS2 = 0x401E"
definition fld_INSTRUCTION_ERROR :: u32 where [simp]: "fld_INSTRUCTION_ERROR = 0x4400"
definition fld_EXIT_REASON :: u32 where [simp]: "fld_EXIT_REASON = 0x4402"
definition fld_EXIT_INTR_INFO :: u32 where [simp]: "fld_EXIT_INTR_INFO = 0x4404"
definition fld_EXIT_INTR_ERROR :: u32 where [simp]: "fld_EXIT_INTR_ERROR = 0x4406"
definition fld_IDT_VECTORING_INFO :: u32 where [simp]: "fld_IDT_VECTORING_INFO = 0x4408"
definition fld_IDT_VECTORING_ERROR :: u32 where [simp]: "fld_IDT_VECTORING_ERROR = 0x440A"
definition fld_EXIT_INSTR_LEN :: u32 where [simp]: "fld_EXIT_INSTR_LEN = 0x440C"
definition fld_EXIT_INSTR_INFO :: u32 where [simp]: "fld_EXIT_INSTR_INFO = 0x440E"
definition fld_GUEST_ES_LIMIT :: u32 where [simp]: "fld_GUEST_ES_LIMIT = 0x4800"
definition fld_GUEST_CS_LIMIT :: u32 where [simp]: "fld_GUEST_CS_LIMIT = 0x4802"
definition fld_GUEST_SS_LIMIT :: u32 where [simp]: "fld_GUEST_SS_LIMIT = 0x4804"
definition fld_GUEST_DS_LIMIT :: u32 where [simp]: "fld_GUEST_DS_LIMIT = 0x4806"
definition fld_GUEST_FS_LIMIT :: u32 where [simp]: "fld_GUEST_FS_LIMIT = 0x4808"
definition fld_GUEST_GS_LIMIT :: u32 where [simp]: "fld_GUEST_GS_LIMIT = 0x480A"
definition fld_GUEST_LDTR_LIMIT :: u32 where [simp]: "fld_GUEST_LDTR_LIMIT = 0x480C"
definition fld_GUEST_TR_LIMIT :: u32 where [simp]: "fld_GUEST_TR_LIMIT = 0x480E"
definition fld_GUEST_GDTR_LIMIT :: u32 where [simp]: "fld_GUEST_GDTR_LIMIT = 0x4810"
definition fld_GUEST_IDTR_LIMIT :: u32 where [simp]: "fld_GUEST_IDTR_LIMIT = 0x4812"
definition fld_GUEST_ES_AR :: u32 where [simp]: "fld_GUEST_ES_AR = 0x4814"
definition fld_GUEST_CS_AR :: u32 where [simp]: "fld_GUEST_CS_AR = 0x4816"
definition fld_GUEST_SS_AR :: u32 where [simp]: "fld_GUEST_SS_AR = 0x4818"
definition fld_GUEST_DS_AR :: u32 where [simp]: "fld_GUEST_DS_AR = 0x481A"
definition fld_GUEST_FS_AR :: u32 where [simp]: "fld_GUEST_FS_AR = 0x481C"
definition fld_GUEST_GS_AR :: u32 where [simp]: "fld_GUEST_GS_AR = 0x481E"
definition fld_GUEST_LDTR_AR :: u32 where [simp]: "fld_GUEST_LDTR_AR = 0x4820"
definition fld_GUEST_TR_AR :: u32 where [simp]: "fld_GUEST_TR_AR = 0x4822"
definition fld_GUEST_INTERRUPTIBILITY :: u32 where [simp]: "fld_GUEST_INTERRUPTIBILITY = 0x4824"
definition fld_GUEST_ACTIVITY :: u32 where [simp]: "fld_GUEST_ACTIVITY = 0x4826"
definition fld_GUEST_SYSENTER_CS :: u32 where [simp]: "fld_GUEST_SYSENTER_CS = 0x482A"
definition fld_HOST_SYSENTER_CS :: u32 where [simp]: "fld_HOST_SYSENTER_CS = 0x4C00"
definition fld_CR0_GUEST_HOST_MASK :: u32 where [simp]: "fld_CR0_GUEST_HOST_MASK = 0x6000"
definition fld_CR4_GUEST_HOST_MASK :: u32 where [simp]: "fld_CR4_GUEST_HOST_MASK = 0x6002"
definition fld_CR0_READ_SHADOW :: u32 where [simp]: "fld_CR0_READ_SHADOW = 0x6004"
definition fld_CR4_READ_SHADOW :: u32 where [simp]: "fld_CR4_READ_SHADOW = 0x6006"
definition fld_CR3_TARGET0 :: u32 where [simp]: "fld_CR3_TARGET0 = 0x6008"
definition fld_EXIT_QUALIFICATION :: u32 where [simp]: "fld_EXIT_QUALIFICATION = 0x6400"
definition fld_GUEST_LINEAR_ADDRESS :: u32 where [simp]: "fld_GUEST_LINEAR_ADDRESS = 0x640A"
definition fld_GUEST_CR0 :: u32 where [simp]: "fld_GUEST_CR0 = 0x6800"
definition fld_GUEST_CR3 :: u32 where [simp]: "fld_GUEST_CR3 = 0x6802"
definition fld_GUEST_CR4 :: u32 where [simp]: "fld_GUEST_CR4 = 0x6804"
definition fld_GUEST_ES_BASE :: u32 where [simp]: "fld_GUEST_ES_BASE = 0x6806"
definition fld_GUEST_CS_BASE :: u32 where [simp]: "fld_GUEST_CS_BASE = 0x6808"
definition fld_GUEST_SS_BASE :: u32 where [simp]: "fld_GUEST_SS_BASE = 0x680A"
definition fld_GUEST_DS_BASE :: u32 where [simp]: "fld_GUEST_DS_BASE = 0x680C"
definition fld_GUEST_FS_BASE :: u32 where [simp]: "fld_GUEST_FS_BASE = 0x680E"
definition fld_GUEST_GS_BASE :: u32 where [simp]: "fld_GUEST_GS_BASE = 0x6810"
definition fld_GUEST_LDTR_BASE :: u32 where [simp]: "fld_GUEST_LDTR_BASE = 0x6812"
definition fld_GUEST_TR_BASE :: u32 where [simp]: "fld_GUEST_TR_BASE = 0x6814"
definition fld_GUEST_GDTR_BASE :: u32 where [simp]: "fld_GUEST_GDTR_BASE = 0x6816"
definition fld_GUEST_IDTR_BASE :: u32 where [simp]: "fld_GUEST_IDTR_BASE = 0x6818"
definition fld_GUEST_DR7 :: u32 where [simp]: "fld_GUEST_DR7 = 0x681A"
definition fld_GUEST_RSP :: u32 where [simp]: "fld_GUEST_RSP = 0x681C"
definition fld_GUEST_RIP :: u32 where [simp]: "fld_GUEST_RIP = 0x681E"
definition fld_GUEST_RFLAGS :: u32 where [simp]: "fld_GUEST_RFLAGS = 0x6820"
definition fld_GUEST_PENDING_DBG :: u32 where [simp]: "fld_GUEST_PENDING_DBG = 0x6822"
definition fld_GUEST_SYSENTER_ESP :: u32 where [simp]: "fld_GUEST_SYSENTER_ESP = 0x6824"
definition fld_GUEST_SYSENTER_EIP :: u32 where [simp]: "fld_GUEST_SYSENTER_EIP = 0x6826"
definition fld_HOST_CR0 :: u32 where [simp]: "fld_HOST_CR0 = 0x6C00"
definition fld_HOST_CR3 :: u32 where [simp]: "fld_HOST_CR3 = 0x6C02"
definition fld_HOST_CR4 :: u32 where [simp]: "fld_HOST_CR4 = 0x6C04"
definition fld_HOST_FS_BASE :: u32 where [simp]: "fld_HOST_FS_BASE = 0x6C06"
definition fld_HOST_GS_BASE :: u32 where [simp]: "fld_HOST_GS_BASE = 0x6C08"
definition fld_HOST_TR_BASE :: u32 where [simp]: "fld_HOST_TR_BASE = 0x6C0A"
definition fld_HOST_GDTR_BASE :: u32 where [simp]: "fld_HOST_GDTR_BASE = 0x6C0C"
definition fld_HOST_IDTR_BASE :: u32 where [simp]: "fld_HOST_IDTR_BASE = 0x6C0E"
definition fld_HOST_SYSENTER_ESP :: u32 where [simp]: "fld_HOST_SYSENTER_ESP = 0x6C10"
definition fld_HOST_SYSENTER_EIP :: u32 where [simp]: "fld_HOST_SYSENTER_EIP = 0x6C12"
definition fld_HOST_RSP :: u32 where [simp]: "fld_HOST_RSP = 0x6C14"
definition fld_HOST_RIP :: u32 where [simp]: "fld_HOST_RIP = 0x6C16"

section \<open>Instruction errors\<close>

definition vmerr_VMCALL_IN_ROOT :: u32 where [simp]: "vmerr_VMCALL_IN_ROOT = 1"
definition vmerr_VMCLEAR_BAD_ADDR :: u32 where [simp]: "vmerr_VMCLEAR_BAD_ADDR = 2"
definition vmerr_VMCLEAR_VMXON_PTR :: u32 where [simp]: "vmerr_VMCLEAR_VMXON_PTR = 3"
definition vmerr_VMLAUNCH_NOT_CLEAR :: u32 where [simp]: "vmerr_VMLAUNCH_NOT_CLEAR = 4"
definition vmerr_VMRESUME_NOT_LAUNCHED :: u32 where [simp]: "vmerr_VMRESUME_NOT_LAUNCHED = 5"
definition vmerr_ENTRY_INVALID_CONTROLS :: u32 where [simp]: "vmerr_ENTRY_INVALID_CONTROLS = 7"
definition vmerr_ENTRY_INVALID_HOST_STATE :: u32 where [simp]: "vmerr_ENTRY_INVALID_HOST_STATE = 8"
definition vmerr_VMPTRLD_BAD_ADDR :: u32 where [simp]: "vmerr_VMPTRLD_BAD_ADDR = 9"
definition vmerr_VMPTRLD_VMXON_PTR :: u32 where [simp]: "vmerr_VMPTRLD_VMXON_PTR = 10"
definition vmerr_VMPTRLD_BAD_REVISION :: u32 where [simp]: "vmerr_VMPTRLD_BAD_REVISION = 11"
definition vmerr_VMREAD_WRITE_BAD_FIELD :: u32 where [simp]: "vmerr_VMREAD_WRITE_BAD_FIELD = 12"
definition vmerr_VMWRITE_READ_ONLY :: u32 where [simp]: "vmerr_VMWRITE_READ_ONLY = 13"
definition vmerr_VMXON_IN_ROOT :: u32 where [simp]: "vmerr_VMXON_IN_ROOT = 15"
definition vmerr_INVALID_OPERAND :: u32 where [simp]: "vmerr_INVALID_OPERAND = 28"

section \<open>Exit reasons\<close>

definition exit_EXCEPTION_NMI :: u32 where [simp]: "exit_EXCEPTION_NMI = 0"
definition exit_EXTERNAL_INTERRUPT :: u32 where [simp]: "exit_EXTERNAL_INTERRUPT = 1"
definition exit_TRIPLE_FAULT :: u32 where [simp]: "exit_TRIPLE_FAULT = 2"
definition exit_INTERRUPT_WINDOW :: u32 where [simp]: "exit_INTERRUPT_WINDOW = 7"
definition exit_CPUID :: u32 where [simp]: "exit_CPUID = 10"
definition exit_HLT :: u32 where [simp]: "exit_HLT = 12"
definition exit_INVD :: u32 where [simp]: "exit_INVD = 13"
definition exit_INVLPG :: u32 where [simp]: "exit_INVLPG = 14"
definition exit_RDPMC :: u32 where [simp]: "exit_RDPMC = 15"
definition exit_RDTSC :: u32 where [simp]: "exit_RDTSC = 16"
definition exit_VMCALL :: u32 where [simp]: "exit_VMCALL = 18"
definition exit_VMCLEAR :: u32 where [simp]: "exit_VMCLEAR = 19"
definition exit_VMLAUNCH :: u32 where [simp]: "exit_VMLAUNCH = 20"
definition exit_VMPTRLD :: u32 where [simp]: "exit_VMPTRLD = 21"
definition exit_VMPTRST :: u32 where [simp]: "exit_VMPTRST = 22"
definition exit_VMREAD :: u32 where [simp]: "exit_VMREAD = 23"
definition exit_VMRESUME :: u32 where [simp]: "exit_VMRESUME = 24"
definition exit_VMWRITE :: u32 where [simp]: "exit_VMWRITE = 25"
definition exit_VMXOFF :: u32 where [simp]: "exit_VMXOFF = 26"
definition exit_VMXON :: u32 where [simp]: "exit_VMXON = 27"
definition exit_CR_ACCESS :: u32 where [simp]: "exit_CR_ACCESS = 28"
definition exit_DR_ACCESS :: u32 where [simp]: "exit_DR_ACCESS = 29"
definition exit_IO_INSTRUCTION :: u32 where [simp]: "exit_IO_INSTRUCTION = 30"
definition exit_RDMSR :: u32 where [simp]: "exit_RDMSR = 31"
definition exit_WRMSR :: u32 where [simp]: "exit_WRMSR = 32"
definition exit_ENTRY_INVALID_GUEST_STATE :: u32 where [simp]: "exit_ENTRY_INVALID_GUEST_STATE = 33"
definition exit_MWAIT :: u32 where [simp]: "exit_MWAIT = 36"
definition exit_MONITOR :: u32 where [simp]: "exit_MONITOR = 39"
definition exit_PAUSE :: u32 where [simp]: "exit_PAUSE = 40"
definition exit_INVEPT :: u32 where [simp]: "exit_INVEPT = 50"
definition exit_RDTSCP :: u32 where [simp]: "exit_RDTSCP = 51"
definition exit_INVVPID :: u32 where [simp]: "exit_INVVPID = 53"
definition exit_WBINVD :: u32 where [simp]: "exit_WBINVD = 54"
definition exit_XSETBV :: u32 where [simp]: "exit_XSETBV = 55"

section \<open>Segments in VMCS form\<close>

definition ar_of :: "descriptor \<Rightarrow> bool \<Rightarrow> u32" where
  "ar_of d usable =
     (let ar = ucast (d_attr d);
          ar = (if d_l d then ar OR push_bit 13 1 else ar);
          ar = (if d_db d then ar OR push_bit 14 1 else ar);
          ar = (if d_g d then ar OR push_bit 15 1 else ar)
      in if \<not> usable then ar OR push_bit 16 1 else ar)"

definition desc_of :: "u64 \<Rightarrow> u32 \<Rightarrow> u32 \<Rightarrow> descriptor" where
  "desc_of base limit ar =
     \<lparr>d_base = ucast base, d_limit = limit, d_attr = ucast (ar AND 0xFF), d_g = (ar AND push_bit 15 1 \<noteq> 0),
      d_db = (ar AND push_bit 14 1 \<noteq> 0), d_l = (ar AND push_bit 13 1 \<noteq> 0)\<rparr>"

definition SEGS :: "(segreg \<times> u32 \<times> u32 \<times> u32 \<times> u32) list" where
  "SEGS =
    [(Es, fld_GUEST_ES_SEL, fld_GUEST_ES_BASE, fld_GUEST_ES_LIMIT, fld_GUEST_ES_AR),
     (Cs, fld_GUEST_CS_SEL, fld_GUEST_CS_BASE, fld_GUEST_CS_LIMIT, fld_GUEST_CS_AR),
     (Ss, fld_GUEST_SS_SEL, fld_GUEST_SS_BASE, fld_GUEST_SS_LIMIT, fld_GUEST_SS_AR),
     (Ds, fld_GUEST_DS_SEL, fld_GUEST_DS_BASE, fld_GUEST_DS_LIMIT, fld_GUEST_DS_AR),
     (Fs, fld_GUEST_FS_SEL, fld_GUEST_FS_BASE, fld_GUEST_FS_LIMIT, fld_GUEST_FS_AR),
     (Gs, fld_GUEST_GS_SEL, fld_GUEST_GS_BASE, fld_GUEST_GS_LIMIT, fld_GUEST_GS_AR)]"

section \<open>Saving the guest\<close>

definition vmcs_get :: "cpu \<Rightarrow> u32 \<Rightarrow> u64" where "vmcs_get c f = vmx_read (c_vmx c) f"

definition vmcs_put :: "cpu \<Rightarrow> u32 \<Rightarrow> u64 \<Rightarrow> cpu" where
  "vmcs_put c f v = c\<lparr>c_vmx := vmx_write (c_vmx c) f v\<rparr>"

definition vmx_writes :: "vmx \<Rightarrow> (u32 \<times> u64) list \<Rightarrow> vmx" where
  "vmx_writes x fs = fold (\<lambda>(f, v) x. vmx_write x f v) fs x"

text \<open>The writes of \<open>save_guest_state\<close> in order: the registers, then four fields for each segment.\<close>

definition guest_fields :: "cpu \<Rightarrow> (u32 \<times> u64) list" where
  "guest_fields c =
    [(fld_GUEST_CR0, ucast (cr0 c)), (fld_GUEST_CR3, cr3 c), (fld_GUEST_CR4, ucast (cr4 c)),
     (fld_GUEST_RIP, c_rip c), (fld_GUEST_RSP, regs c 4), (fld_GUEST_RFLAGS, ucast (c_flags c)),
     (fld_GUEST_DR7, dr c 7), (fld_GUEST_EFER, efer c),
     (fld_GUEST_SYSENTER_CS, ucast (sysenter_cs c)), (fld_GUEST_SYSENTER_ESP, ucast (sysenter_esp c)),
     (fld_GUEST_SYSENTER_EIP, ucast (sysenter_eip c)),
     (fld_GUEST_GDTR_BASE, gdt_base c), (fld_GUEST_GDTR_LIMIT, ucast (gdt_limit c)),
     (fld_GUEST_IDTR_BASE, idt_base c), (fld_GUEST_IDTR_LIMIT, ucast (idt_limit c)),
     (fld_GUEST_LDTR_SEL, ucast (ldt_selector c)), (fld_GUEST_LDTR_BASE, ldt_base c),
     (fld_GUEST_LDTR_LIMIT, ucast (ldt_limit c)),
     (fld_GUEST_LDTR_AR, if ldt_selector c AND NOT 3 = 0 then push_bit 16 1 else 0x82),
     (fld_GUEST_TR_SEL, ucast (tr_selector c)), (fld_GUEST_TR_BASE, tr_base c),
     (fld_GUEST_TR_LIMIT, ucast (tr_limit c)), (fld_GUEST_TR_AR, 0x8B),
     (fld_GUEST_ACTIVITY, if halted c then 1 else 0), (fld_GUEST_INTERRUPTIBILITY, 0)]"

definition seg_base_saved :: "cpu \<Rightarrow> segreg \<Rightarrow> u64" where
  "seg_base_saved c s =
     (if s = Fs \<and> long_mode c then fs_base c else if s = Gs \<and> long_mode c then gs_base c
      else ucast (d_base (seg_desc c s)))"

definition seg_usable :: "cpu \<Rightarrow> segreg \<Rightarrow> bool" where
  "seg_usable c s \<longleftrightarrow> s = Cs \<or> s = Ss \<or> seg c s AND NOT 3 \<noteq> 0 \<or> d_present (seg_desc c s)"

definition seg_fields :: "cpu \<Rightarrow> segreg \<times> u32 \<times> u32 \<times> u32 \<times> u32 \<Rightarrow> (u32 \<times> u64) list" where
  "seg_fields c x =
     (case x of (s, fsel, fbase, flimit, far) \<Rightarrow>
        [(fsel, ucast (seg c s)), (fbase, seg_base_saved c s), (flimit, ucast (d_limit (seg_desc c s))),
         (far, ucast (ar_of (seg_desc c s) (seg_usable c s)))])"

definition save_guest_state :: "cpu \<Rightarrow> cpu" where
  "save_guest_state c =
     c\<lparr>c_vmx := vmx_writes (c_vmx c) (guest_fields c @ concat (map (seg_fields c) SEGS))\<rparr>"

section \<open>Loading the guest\<close>

definition guest_efer :: "cpu \<Rightarrow> u64" where
  "guest_efer c =
     (let entry = ucast (vmcs_get c fld_ENTRY_CTLS) :: u32 in
      if entry AND ENTRY_LOAD_EFER \<noteq> 0 then vmcs_get c fld_GUEST_EFER
      else if entry AND ENTRY_IA32E_GUEST \<noteq> 0 then efer c OR efer_LME
      else efer c AND NOT (efer_LME OR efer_LMA))"

definition load_segment :: "segreg \<times> u32 \<times> u32 \<times> u32 \<times> u32 \<Rightarrow> cpu \<Rightarrow> cpu" where
  "load_segment x c =
     (case x of (s, fsel, fbase, flimit, far) \<Rightarrow>
        (let base = vmcs_get c fbase;
             d = desc_of base (ucast (vmcs_get c flimit)) (ucast (vmcs_get c far));
             c = set_seg c s (ucast (vmcs_get c fsel));
             c = c\<lparr>seg_desc := (seg_desc c)(s := d)\<rparr>
         in if s = Fs then c\<lparr>fs_base := base\<rparr> else if s = Gs then c\<lparr>gs_base := base\<rparr> else c))"

definition load_guest_control :: "cpu \<Rightarrow> cpu" where
  "load_guest_control c =
     (let c0 = vmcs_get c fld_GUEST_CR0 OR CR0_FIXED0; c4 = vmcs_get c fld_GUEST_CR4 OR CR4_FIXED0;
          c = c\<lparr>efer := guest_efer c AND NOT efer_LMA, cr4 := ucast c4, cr3 := vmcs_get c fld_GUEST_CR3\<rparr>
      in flush_tlb (write_cr0 c (ucast c0)))"

definition load_guest_registers :: "cpu \<Rightarrow> cpu" where
  "load_guest_registers c =
     c\<lparr>c_rip := vmcs_get c fld_GUEST_RIP, regs := (regs c)(4 := vmcs_get c fld_GUEST_RSP),
       c_flags := (ucast (vmcs_get c fld_GUEST_RFLAGS) AND fWRITABLE) OR fALWAYS_SET,
       dr := (dr c)(7 := vmcs_get c fld_GUEST_DR7),
       sysenter_cs := ucast (vmcs_get c fld_GUEST_SYSENTER_CS),
       sysenter_esp := ucast (vmcs_get c fld_GUEST_SYSENTER_ESP),
       sysenter_eip := ucast (vmcs_get c fld_GUEST_SYSENTER_EIP),
       gdt_base := vmcs_get c fld_GUEST_GDTR_BASE, gdt_limit := ucast (vmcs_get c fld_GUEST_GDTR_LIMIT),
       idt_base := vmcs_get c fld_GUEST_IDTR_BASE, idt_limit := ucast (vmcs_get c fld_GUEST_IDTR_LIMIT),
       ldt_selector := ucast (vmcs_get c fld_GUEST_LDTR_SEL), ldt_base := vmcs_get c fld_GUEST_LDTR_BASE,
       ldt_limit := ucast (vmcs_get c fld_GUEST_LDTR_LIMIT),
       tr_selector := ucast (vmcs_get c fld_GUEST_TR_SEL), tr_base := vmcs_get c fld_GUEST_TR_BASE,
       tr_limit := ucast (vmcs_get c fld_GUEST_TR_LIMIT)\<rparr>"

definition load_guest_state :: "cpu \<Rightarrow> cpu" where
  "load_guest_state c =
     (let c = fold load_segment SEGS (load_guest_registers (load_guest_control c));
          c = c\<lparr>halted := (vmcs_get c fld_GUEST_ACTIVITY = 1)\<rparr>
      in invalidate_phys_ip c)"

section \<open>Loading the host\<close>

definition exit_host_long :: "cpu \<Rightarrow> bool" where
  "exit_host_long c \<longleftrightarrow> (ucast (vmcs_get c fld_EXIT_CTLS) :: u32) AND EXIT_HOST_ADDR_SPACE_SIZE \<noteq> 0"

definition host_efer :: "cpu \<Rightarrow> u64" where
  "host_efer c =
     (if (ucast (vmcs_get c fld_EXIT_CTLS) :: u32) AND EXIT_LOAD_EFER \<noteq> 0 then vmcs_get c fld_HOST_EFER
      else if exit_host_long c then efer c OR efer_LME
      else efer c AND NOT (efer_LME OR efer_LMA))"

definition host_code :: "bool \<Rightarrow> descriptor" where
  "host_code long = \<lparr>d_base = 0, d_limit = 0xFFFFFFFF, d_attr = 0x9B, d_g = True, d_db = \<not> long, d_l = long\<rparr>"

definition host_data :: descriptor where
  "host_data = \<lparr>d_base = 0, d_limit = 0xFFFFFFFF, d_attr = 0x93, d_g = True, d_db = True, d_l = False\<rparr>"

definition host_segs :: "(segreg \<times> u32) list" where
  "host_segs = [(Cs, fld_HOST_CS_SEL), (Ss, fld_HOST_SS_SEL), (Ds, fld_HOST_DS_SEL),
     (Es, fld_HOST_ES_SEL), (Fs, fld_HOST_FS_SEL), (Gs, fld_HOST_GS_SEL)]"

definition load_host_segment :: "bool \<Rightarrow> segreg \<times> u32 \<Rightarrow> cpu \<Rightarrow> cpu" where
  "load_host_segment long x c =
     (case x of (s, fsel) \<Rightarrow>
        (let c = set_seg c s (ucast (vmcs_get c fsel))
         in c\<lparr>seg_desc := (seg_desc c)(s := if s = Cs then host_code long else host_data)\<rparr>))"

definition load_host_control :: "cpu \<Rightarrow> cpu" where
  "load_host_control c =
     (let c = c\<lparr>efer := host_efer c AND NOT efer_LMA, cr4 := ucast (vmcs_get c fld_HOST_CR4),
                cr3 := vmcs_get c fld_HOST_CR3\<rparr>
      in flush_tlb (write_cr0 c (ucast (vmcs_get c fld_HOST_CR0))))"

definition load_host_registers :: "cpu \<Rightarrow> cpu" where
  "load_host_registers c =
     c\<lparr>c_rip := vmcs_get c fld_HOST_RIP, regs := (regs c)(4 := vmcs_get c fld_HOST_RSP),
       c_flags := fALWAYS_SET, dr := (dr c)(7 := 0x400),
       sysenter_cs := ucast (vmcs_get c fld_HOST_SYSENTER_CS),
       sysenter_esp := ucast (vmcs_get c fld_HOST_SYSENTER_ESP),
       sysenter_eip := ucast (vmcs_get c fld_HOST_SYSENTER_EIP),
       gdt_base := vmcs_get c fld_HOST_GDTR_BASE, gdt_limit := 0xFFFF,
       idt_base := vmcs_get c fld_HOST_IDTR_BASE, idt_limit := 0xFFFF,
       ldt_selector := 0, ldt_base := 0, ldt_limit := 0,
       tr_selector := ucast (vmcs_get c fld_HOST_TR_SEL), tr_base := vmcs_get c fld_HOST_TR_BASE,
       tr_limit := 0x67\<rparr>"

definition load_host_state :: "cpu \<Rightarrow> cpu" where
  "load_host_state c =
     (let long = exit_host_long c;
          c = fold (load_host_segment long) host_segs (load_host_registers (load_host_control c));
          c = c\<lparr>fs_base := vmcs_get c fld_HOST_FS_BASE, gs_base := vmcs_get c fld_HOST_GS_BASE,
                halted := False, pending_exception := None\<rparr>
      in invalidate_phys_ip c)"

section \<open>The exit\<close>

definition exits_between :: "u32 \<Rightarrow> bool" where
  "exits_between reason \<longleftrightarrow>
     reason = exit_EXTERNAL_INTERRUPT \<or> reason = exit_INTERRUPT_WINDOW \<or> reason = exit_TRIPLE_FAULT"

text \<open>The exit information of \<open>vm_exit\<close>, written after the guest state is saved.\<close>

definition exit_fields :: "cpu \<Rightarrow> u32 \<Rightarrow> u64 \<Rightarrow> u64 \<Rightarrow> u32 \<Rightarrow> u32 \<Rightarrow> (u32 \<times> u64) list" where
  "exit_fields c reason qual len info err =
     [(fld_EXIT_REASON, ucast reason), (fld_EXIT_QUALIFICATION, qual), (fld_EXIT_INSTR_LEN, len),
      (fld_EXIT_INTR_INFO, ucast info), (fld_EXIT_INTR_ERROR, ucast err), (fld_IDT_VECTORING_INFO, 0)] @
     (if reason = exit_EXCEPTION_NMI \<and> info AND 0xFF = 0x0E then [(fld_GUEST_LINEAR_ADDRESS, cr2 c)] else [])"

definition vm_exit :: "cpu \<Rightarrow> u32 \<Rightarrow> u64 \<Rightarrow> u32 \<Rightarrow> u32 \<Rightarrow> cpu" where
  "vm_exit c reason qual info err =
     (let len = c_rip c - rip_start c;
          (guest_rip, len) = (if exits_between reason then (c_rip c, 0) else (rip_start c, len));
          saved_rip = c_rip c;
          c = (save_guest_state (c\<lparr>c_rip := guest_rip\<rparr>))\<lparr>c_rip := saved_rip\<rparr>;
          c = c\<lparr>c_vmx := vmx_writes (c_vmx c) (exit_fields c reason qual len info err)\<rparr>;
          c = (if (ucast (vmcs_get c fld_EXIT_CTLS) :: u32) AND EXIT_SAVE_EFER \<noteq> 0
               then vmcs_put c fld_GUEST_EFER (efer c) else c);
          c = c\<lparr>c_vmx := (c_vmx c)\<lparr>in_guest := False\<rparr>\<rparr>
      in load_host_state c)"

end
