(* ===== verification/Interrupts.thy ===== *)
theory Interrupts imports Vm_State begin

text \<open>
  Exceptions and interrupts: the frame builders of src/src/instructions.rs, the
  exception dispatch with its escalation to a double and a triple fault and the
  device poll of src/src/cpu.rs, and the VM exits they take in a guest
  (src/src/vmx.rs). The diagnostic counters and logs of the code are left out.
\<close>

unbundle bit_operations_syntax

section \<open>Stack words\<close>

definition push16 :: "cpu \<Rightarrow> u16 \<Rightarrow> cpu" where "push16 c v = push_w c 16 (ucast v)"
definition pop16 :: "cpu \<Rightarrow> u16 \<times> cpu" where "pop16 c = (let (v, c) = pop_w c 16 in (ucast v, c))"
definition push32 :: "cpu \<Rightarrow> u32 \<Rightarrow> cpu" where "push32 c v = push_w c 32 (ucast v)"
definition pop32 :: "cpu \<Rightarrow> u32 \<times> cpu" where "pop32 c = (let (v, c) = pop_w c 32 in (ucast v, c))"
definition push64 :: "cpu \<Rightarrow> u64 \<Rightarrow> cpu" where "push64 c v = push_w c 64 v"
definition pop64 :: "cpu \<Rightarrow> u64 \<times> cpu" where "pop64 c = pop_w c 64"

section \<open>Frames\<close>

text \<open>The real-mode interrupt through the vector table.\<close>

definition real_int :: "cpu \<Rightarrow> u8 \<Rightarrow> cpu" where
  "real_int c vector =
     (let old_ip = c_ip c; old_cs = c_cs c; flags = ucast (c_flags c) :: u16;
          c = push16 c flags;
          c = push16 c old_cs;
          c = push16 c old_ip;
          c = set_flag c fIF False;
          c = set_flag c fTF False;
          entry = ucast vector * 4 :: usize
      in c\<lparr>c_cs := read_u16 (c_mem c) (entry + 2), c_ip := read_u16 (c_mem c) entry\<rparr>)"

text \<open>How both protected-mode forms leave the flags: an interrupt gate clears IF.\<close>

definition gate_flags :: "cpu \<Rightarrow> bool \<Rightarrow> cpu" where
  "gate_flags c clears =
     (let c = (if clears then set_flag c fIF False else c) in set_flag (set_flag c fTF False) fRF False)"

definition push_error32 :: "cpu \<Rightarrow> u32 option \<Rightarrow> cpu" where
  "push_error32 c error_code = (case error_code of Some code \<Rightarrow> push32 c code | None \<Rightarrow> c)"

definition push_error64 :: "cpu \<Rightarrow> u32 option \<Rightarrow> cpu" where
  "push_error64 c error_code = (case error_code of Some code \<Rightarrow> push64 c (ucast code) | None \<Rightarrow> c)"

text \<open>The stack an entry through a long-mode gate lands on.\<close>

definition long_int_stack :: "cpu \<Rightarrow> u8 \<Rightarrow> bool \<Rightarrow> cpu" where
  "long_int_stack c ist switching =
     (if ist \<noteq> 0 then
        (let sp = tss_ist c ist;
             c = (if switching then c\<lparr>ring_switches := ring_switches c + 1\<rparr> else c)
         in set_rsp (load_seg c Ss 0) sp)
      else if switching then
        (let c = c\<lparr>ring_switches := ring_switches c + 1\<rparr>; sp = tss_rsp0 c in set_rsp (load_seg c Ss 0) sp)
      else c)"

definition long_int :: "cpu \<Rightarrow> u8 \<Rightarrow> u32 option \<Rightarrow> cpu" where
  "long_int c vector error_code =
     (let addr = linear_to_phys_ro c (idt_base c + ucast vector * 16);
          off_lo = ucast (read_u16 (c_mem c) addr) :: u64;
          selector = read_u16 (c_mem c) (addr + 2);
          ist = read_u8 (c_mem c) (addr + 4) AND 7;
          gate_type = read_u8 (c_mem c) (addr + 5) AND 0x0F;
          off_mid = ucast (read_u16 (c_mem c) (addr + 6)) :: u64;
          off_hi = ucast (read_u32 (c_mem c) (addr + 8)) :: u64;
          target = off_lo OR push_bit 16 off_mid OR push_bit 32 off_hi;
          switching = dpl (descriptor_for c selector) < cpl c;
          old_cs = c_cs c; old_rip = c_rip c; old_flags = ucast (c_flags c) :: u64;
          old_ss = c_ss c; old_rsp = c_rsp c;
          c = long_int_stack c ist switching;
          c = load_seg c Cs selector;
          c = set_rsp c (c_rsp c AND NOT 0xF);
          c = push64 c (ucast old_ss);
          c = push64 c old_rsp;
          c = push64 c old_flags;
          c = push64 c (ucast old_cs);
          c = push64 c old_rip;
          c = push_error64 c error_code;
          c = gate_flags c (gate_type = 0xE)
      in invalidate_phys_ip (c\<lparr>c_rip := target\<rparr>))"

definition protected_int_err :: "cpu \<Rightarrow> u8 \<Rightarrow> u32 option \<Rightarrow> cpu" where
  "protected_int_err c vector error_code =
     (if long_mode c then long_int c vector error_code
      else
        (let addr = linear_to_phys_ro c (idt_base c + ucast vector * 8);
             off_lo = ucast (read_u16 (c_mem c) addr) :: u32;
             off_hi = ucast (read_u16 (c_mem c) (addr + 6)) :: u32;
             target = off_lo OR push_bit 16 off_hi;
             selector = read_u16 (c_mem c) (addr + 2);
             gate_type = read_u8 (c_mem c) (addr + 5) AND 0x0F;
             switching = dpl (descriptor_for c selector) < cpl c;
             old_cs = c_cs c; old_eip = c_eip c; old_flags = c_flags c; old_ss = c_ss c; old_esp = c_esp c;
             c = (if switching
                  then (let c = c\<lparr>ring_switches := ring_switches c + 1\<rparr>; (ss0, esp0) = tss_stack0 c
                        in set_esp (load_seg c Ss ss0) esp0)
                  else c);
             c = load_seg c Cs selector;
             c = (if switching then push32 (push32 c (ucast old_ss)) old_esp else c);
             c = push32 c old_flags;
             c = push32 c (ucast old_cs);
             c = push32 c old_eip;
             c = push_error32 c error_code;
             c = gate_flags c (gate_type = 0x6 \<or> gate_type = 0xE);
             c = set_eip c target
         in invalidate_phys_ip c))"

definition protected_int :: "cpu \<Rightarrow> u8 \<Rightarrow> cpu" where
  "protected_int c vector = protected_int_err c vector None"

section \<open>Exits of a guest\<close>

definition pre_step :: "cpu \<Rightarrow> cpu" where
  "pre_step c =
     (let ctl = ucast (vmcs_get c fld_CPU_CTLS) :: u32 in
      if ctl AND CPU_INT_WINDOW_EXITING \<noteq> 0 \<and> get_flag c fIF \<and> pending_exception c = None
      then vm_exit c exit_INTERRUPT_WINDOW 0 0 0 else c)"

definition interrupt_exit :: "cpu \<Rightarrow> bool \<times> cpu" where
  "interrupt_exit c =
     (let pin = ucast (vmcs_get c fld_PIN_CTLS) :: u32 in
      if pin AND PIN_EXT_INT_EXITING = 0 then (False, c)
      else
        (let exit = ucast (vmcs_get c fld_EXIT_CTLS) :: u32;
             (info, c) = (if exit AND EXIT_ACK_INT_ON_EXIT \<noteq> 0
                          then (case acknowledge (c_pic c) of
                                  (Some v, p) \<Rightarrow> (push_bit 31 1 OR ucast v, c\<lparr>c_pic := p\<rparr>)
                                | (None, p) \<Rightarrow> (0, c\<lparr>c_pic := p\<rparr>))
                          else (0, c))
         in (True, vm_exit c exit_EXTERNAL_INTERRUPT 0 info 0)))"

text \<open>\<open>unwrap_or(0)\<close> of an error code.\<close>

definition code_or_0 :: "u32 option \<Rightarrow> u32" where
  "code_or_0 e = (case e of Some x \<Rightarrow> x | None \<Rightarrow> 0)"

definition exception_info :: "u8 \<Rightarrow> u32 option \<Rightarrow> u32" where
  "exception_info vector error_code =
     (let ty = (if vector = 3 \<or> vector = 4 then 6 else 3);
          info = push_bit 31 1 OR push_bit 8 ty OR ucast vector
      in if error_code \<noteq> None then info OR push_bit 11 1 else info)"

definition exception_exit :: "cpu \<Rightarrow> u8 \<Rightarrow> u32 option \<Rightarrow> bool \<times> cpu" where
  "exception_exit c vector error_code =
     (let bitmap = ucast (vmcs_get c fld_EXCEPTION_BITMAP) :: u32 in
      if bitmap AND push_bit (unat vector) 1 = 0 then (False, c)
      else if vector = 0x0E \<and>
          code_or_0 error_code AND ucast (vmcs_get c fld_PF_ERROR_MASK) \<noteq> ucast (vmcs_get c fld_PF_ERROR_MATCH)
        then (False, c)
      else
        (let qual = (if vector = 0x0E then cr2 c else 0);
             info = exception_info vector error_code;
             c = c\<lparr>c_rip := rip_start c\<rparr>
         in (True, vm_exit c exit_EXCEPTION_NMI qual info (code_or_0 error_code))))"

definition triple_fault_exit :: "cpu \<Rightarrow> cpu" where
  "triple_fault_exit c = vm_exit c exit_TRIPLE_FAULT 0 0 0"

section \<open>Exceptions\<close>

definition raise_triple_fault :: "cpu \<Rightarrow> cpu" where
  "raise_triple_fault c =
     (if in_guest (c_vmx c) then triple_fault_exit c else c\<lparr>triple_fault := True, halted := True\<rparr>)"

definition trap_vector :: "u8 \<Rightarrow> bool" where "trap_vector v \<longleftrightarrow> v = 0x03 \<or> v = 0x04"

definition contributory :: "u8 \<Rightarrow> bool" where
  "contributory v \<longleftrightarrow> v = 0x00 \<or> v = 0x0A \<or> v = 0x0B \<or> v = 0x0C \<or> v = 0x0D"

definition escalates :: "u8 \<Rightarrow> u8 \<Rightarrow> bool" where
  "escalates vector second \<longleftrightarrow>
     (vector = 0x0E \<and> (contributory second \<or> second = 0x0E)) \<or> (contributory vector \<and> contributory second)"

lemma escalates_not_8: "escalates 8 s = False"
  by (simp add: escalates_def contributory_def)

text \<open>Whether the table covers the vector: in protected mode by the IDT limit, in real mode always.\<close>

definition table_covers :: "cpu \<Rightarrow> u8 \<Rightarrow> bool" where
  "table_covers c vector =
     (if pe c then
        (let gate = (if long_mode c then 16 else 8) :: u32; entry = ucast vector * gate
         in \<not> (ucast (entry + gate - 1) :: u16) > idt_limit c)
      else \<not> (ucast vector * 4 + 3 :: usize) > 0x3FF)"

definition restart_fault :: "cpu \<Rightarrow> u8 \<Rightarrow> cpu" where
  "restart_fault c vector =
     (if \<not> trap_vector vector then c\<lparr>c_rip := rip_start c, c_ip := ip_start c\<rparr> else c)"

text \<open>
  \<open>dispatch_exception\<close> and \<open>dispatch_exception_raw\<close> call each other; they are
  one function of the flag \<open>raw\<close>. The nested call is for the double fault,
  which never escalates again, so the recursion ends.
\<close>

function dispatch_event :: "bool \<Rightarrow> cpu \<Rightarrow> u8 \<Rightarrow> u32 option \<Rightarrow> cpu" where
  "dispatch_event raw c vector error_code =
     (if \<not> raw then
        (if in_guest (c_vmx c) \<and> vector < 32 then
           (let c = (if \<not> trap_vector vector then c\<lparr>c_rip := rip_start c\<rparr> else c);
                r = exception_exit c vector error_code
            in if fst r then snd r else dispatch_event True (snd r) vector error_code)
         else dispatch_event True c vector error_code)
      else
        (let c = restart_fault c vector in
         if \<not> table_covers c vector then raise_triple_fault c
         else if pe c then
           (let c = protected_int_err c vector error_code in
            case pending_exception c of
              Some (second, _) \<Rightarrow>
                if vector = 0x08 then raise_triple_fault (c\<lparr>pending_exception := None\<rparr>)
                else if escalates vector second
                  then dispatch_event False (c\<lparr>pending_exception := None\<rparr>) 0x08 (Some 0)
                else invalidate_phys_ip c
            | None \<Rightarrow> invalidate_phys_ip c)
         else invalidate_phys_ip (real_int c vector)))"
  by auto

termination
  by (relation "measure (\<lambda>(raw, c, v, e). (if v = 8 then 0 else 2) + (if raw then 0 else 1))")
    (auto simp: escalates_not_8)

declare dispatch_event.simps [simp del]

definition dispatch_exception :: "cpu \<Rightarrow> u8 \<Rightarrow> u32 option \<Rightarrow> cpu" where
  "dispatch_exception c vector error_code = dispatch_event False c vector error_code"

definition dispatch_exception_raw :: "cpu \<Rightarrow> u8 \<Rightarrow> u32 option \<Rightarrow> cpu" where
  "dispatch_exception_raw c vector error_code = dispatch_event True c vector error_code"

lemma dispatch_exception_eq:
  "dispatch_exception c vector error_code =
     (if in_guest (c_vmx c) \<and> vector < 32 then
        (let c = (if \<not> trap_vector vector then c\<lparr>c_rip := rip_start c\<rparr> else c);
             r = exception_exit c vector error_code
         in if fst r then snd r else dispatch_exception_raw (snd r) vector error_code)
      else dispatch_exception_raw c vector error_code)"
  by (simp add: dispatch_exception_def dispatch_exception_raw_def dispatch_event.simps [of False] Let_def)

lemma dispatch_exception_raw_eq:
  "dispatch_exception_raw c vector error_code =
     (let c = restart_fault c vector in
      if \<not> table_covers c vector then raise_triple_fault c
      else if pe c then
        (let c = protected_int_err c vector error_code in
         case pending_exception c of
           Some (second, _) \<Rightarrow>
             if vector = 0x08 then raise_triple_fault (c\<lparr>pending_exception := None\<rparr>)
             else if escalates vector second
               then dispatch_exception (c\<lparr>pending_exception := None\<rparr>) 0x08 (Some 0)
             else invalidate_phys_ip c
         | None \<Rightarrow> invalidate_phys_ip c)
      else invalidate_phys_ip (real_int c vector))"
  by (simp add: dispatch_exception_def dispatch_exception_raw_def dispatch_event.simps [of True] Let_def
      split: option.splits)

section \<open>The devices and the external interrupt\<close>

text \<open>The wall clock advances one second for every \<open>PIT_HZ\<close> timer clocks.\<close>

definition PIT_HZ :: u64 where [simp]: "PIT_HZ = 1193182"
definition PIT_CLOCKS :: u64 where [simp]: "PIT_CLOCKS = 4"
definition IRQ_CHECK_INTERVAL :: u64 where [simp]: "IRQ_CHECK_INTERVAL = 64"
definition KEY_INTERVAL :: u64 where [simp]: "KEY_INTERVAL = 20000"

function tick_clock :: "u64 \<Rightarrow> cmos \<Rightarrow> u64 \<times> cmos" where
  "tick_clock sub m = (if sub \<ge> PIT_HZ then tick_clock (sub - PIT_HZ) (tick_second m) else (sub, m))"
  by auto

termination
  by (relation "measure (\<lambda>(sub, m). unat sub)") (auto simp: word_le_nat_alt unat_sub)

declare tick_clock.simps [simp del]

definition tick_devices :: "cpu \<Rightarrow> cpu" where
  "tick_devices c =
     (let c = c\<lparr>c_pit := pit_tick (c_pit c) PIT_CLOCKS\<rparr>;
          (sub, m) = tick_clock (pit_subsecond c + PIT_CLOCKS) (c_cmos c)
      in c\<lparr>pit_subsecond := sub, c_cmos := m\<rparr>)"

definition type_next_key :: "cpu \<Rightarrow> cpu" where
  "type_next_key c =
     (if key_script c \<noteq> [] \<and> driver_attached (c_kbd c) \<and> kbd_idle (c_kbd c) \<and>
         instructions_executed c \<ge> key_next c
      then c\<lparr>c_kbd := push_scancode (c_kbd c) (hd (key_script c)), key_script := tl (key_script c),
             key_next := instructions_executed c + KEY_INTERVAL\<rparr>
      else c)"

definition raise_device_irqs :: "cpu \<Rightarrow> cpu" where
  "raise_device_irqs c =
     (let c = (if irq1 (c_kbd c) then c\<lparr>c_kbd := (c_kbd c)\<lparr>irq1 := False\<rparr>, c_pic := raise_irq (c_pic c) 1\<rparr> else c);
          c = (if vb_irq (c_virtio c) then c\<lparr>c_pic := raise_irq (c_pic c) VIRTIO_IRQ\<rparr> else c)
      in if ide_busy (c_ide c) then c\<lparr>c_ide := (c_ide c)\<lparr>ide_busy := False\<rparr>, c_pic := raise_irq (c_pic c) 14\<rparr> else c)"

definition take_interrupt :: "cpu \<Rightarrow> bool \<times> cpu" where
  "take_interrupt c =
     (case acknowledge (c_pic c) of
        (Some vector, p) \<Rightarrow>
          (let c = c\<lparr>c_pic := p\<rparr>;
               c = (if pe c then protected_int c vector else real_int c vector)
           in (True, invalidate_phys_ip c))
      | (None, p) \<Rightarrow> (False, c\<lparr>c_pic := p\<rparr>))"

definition poll_devices :: "cpu \<Rightarrow> cpu" where
  "poll_devices c =
     (let c = tick_devices c;
          c = (if pit_irq0 (c_pit c)
               then c\<lparr>c_pit := (c_pit c)\<lparr>pit_irq0 := False\<rparr>, c_pic := raise_irq (c_pic c) 0\<rparr> else c)
      in raise_device_irqs (type_next_key c))"

definition deliver_hardware_interrupt :: "cpu \<Rightarrow> bool \<times> cpu" where
  "deliver_hardware_interrupt c =
     (if instructions_executed c mod IRQ_CHECK_INTERVAL \<noteq> 0 then (False, c)
      else
        (let c = poll_devices c in
         if \<not> get_flag c fIF then (False, c)
         else if in_guest (c_vmx c) \<and> has_pending (c_pic c) then
           (let (exited, c) = interrupt_exit c in if exited then (True, c) else take_interrupt c)
         else take_interrupt c))"

section \<open>Entering a guest\<close>

definition inject_event :: "cpu \<Rightarrow> u32 \<Rightarrow> cpu" where
  "inject_event c info =
     (let vector = ucast (info AND 0xFF) :: u8;
          ty = drop_bit 8 info AND 7;
          code = (if info AND push_bit 11 1 \<noteq> 0 then Some (ucast (vmcs_get c fld_ENTRY_EXCEPTION_ERROR)) else None);
          c = vmcs_put c fld_ENTRY_INTR_INFO 0;
          c = (if ty = 4 \<or> ty = 6 then c\<lparr>c_rip := c_rip c + vmcs_get c fld_ENTRY_INSTR_LEN\<rparr> else c);
          c = c\<lparr>rip_start := c_rip c, ip_start := ucast (c_rip c), halted := False\<rparr>
      in dispatch_exception_raw c vector code)"

definition vm_entry :: "cpu \<Rightarrow> cpu" where
  "vm_entry c =
     (let c = c\<lparr>c_vmx := (c_vmx c)\<lparr>host_long := exit_host_long c\<rparr>\<rparr>;
          c = load_guest_state c;
          c = c\<lparr>c_vmx := (set_launched (c_vmx c) True)\<lparr>in_guest := True\<rparr>\<rparr>;
          info = ucast (vmcs_get c fld_ENTRY_INTR_INFO) :: u32
      in if info AND push_bit 31 1 \<noteq> 0 then inject_event c info else c)"

end
