(* ===== verification/Exec_Stack.thy ===== *)
theory Exec_Stack imports Exec_Core Interrupts begin

text \<open>
  Shifts and bit tests, the stack instructions and the string instructions
  (src/src/instructions.rs). A string instruction commits its index and count
  registers after the loop, also when an element has faulted, so that it can be
  restarted at that element.
\<close>

unbundle bit_operations_syntax

section \<open>Shifts and bit scans\<close>

definition shift_amount :: "cpu \<Rightarrow> shiftcount \<Rightarrow> u8" where
  "shift_amount c n = (case n of Count_One \<Rightarrow> 1 | Count_Cl \<Rightarrow> reg8 c Cl | Count_Imm i \<Rightarrow> i)"

definition exec_shld :: "cpu \<Rightarrow> modrm \<Rightarrow> u8 \<Rightarrow> shiftcount \<Rightarrow> bool \<Rightarrow> cpu" where
  "exec_shld c m r count w32 =
     (let w = osize c; n = unat (shift_amount c count AND (if w = 64 then 0x3F else 0x1F)) in
      if n = 0 then c
      else if w = 64 then
        (let (d, c) = read_rm_w c m 64; src = reg_w c r 64; res = push_bit n d OR drop_bit (64 - n) src;
             cf = (drop_bit (64 - n) d AND 1 \<noteq> 0); c = write_rm_w c m 64 res
         in set_shift_flags64 c res cf (drop_bit 63 (d XOR res) AND 1 \<noteq> 0))
      else if w32 then
        (let (d, c) = read_rm32 c m; src = reg32_idx c r; res = push_bit n d OR drop_bit (32 - n) src;
             cf = (drop_bit (32 - n) d AND 1 \<noteq> 0); c = write_rm32 c m res
         in set_shift_flags32 c res cf (drop_bit 31 (d XOR res) AND 1 \<noteq> 0))
      else
        (let (d, c) = read_rm16 c m; src = reg16_idx c r;
             wide = push_bit 16 (ucast d) OR ucast src :: u32; res = ucast (drop_bit 16 (push_bit n wide)) :: u16;
             cf = (drop_bit (16 - min n 16) d AND 1 \<noteq> 0); c = write_rm16 c m res
         in set_shift_flags16 c res cf (drop_bit 15 (d XOR res) AND 1 \<noteq> 0)))"

definition exec_shrd :: "cpu \<Rightarrow> modrm \<Rightarrow> u8 \<Rightarrow> shiftcount \<Rightarrow> bool \<Rightarrow> cpu" where
  "exec_shrd c m r count w32 =
     (let w = osize c; n = unat (shift_amount c count AND (if w = 64 then 0x3F else 0x1F)) in
      if n = 0 then c
      else if w = 64 then
        (let (d, c) = read_rm_w c m 64; src = reg_w c r 64; res = drop_bit n d OR push_bit (64 - n) src;
             cf = (drop_bit (n - 1) d AND 1 \<noteq> 0); c = write_rm_w c m 64 res
         in set_shift_flags64 c res cf (drop_bit 63 (d XOR res) AND 1 \<noteq> 0))
      else if w32 then
        (let (d, c) = read_rm32 c m; src = reg32_idx c r; res = drop_bit n d OR push_bit (32 - n) src;
             cf = (drop_bit (n - 1) d AND 1 \<noteq> 0); c = write_rm32 c m res
         in set_shift_flags32 c res cf (drop_bit 31 (d XOR res) AND 1 \<noteq> 0))
      else
        (let (d, c) = read_rm16 c m; src = reg16_idx c r;
             wide = push_bit 16 (ucast src) OR ucast d :: u32; res = ucast (drop_bit n wide) :: u16;
             cf = (drop_bit (min (n - 1) 15) d AND 1 \<noteq> 0); c = write_rm16 c m res
         in set_shift_flags16 c res cf (drop_bit 15 (d XOR res) AND 1 \<noteq> 0)))"

text \<open>\<open>trailing_zeros\<close> and \<open>leading_zeros\<close> of a u64.\<close>

definition trailing_zeros :: "u64 \<Rightarrow> nat" where
  "trailing_zeros v = (case filter (bit v) [0..<64] of [] \<Rightarrow> 64 | i # _ \<Rightarrow> i)"

definition leading_zeros :: "u64 \<Rightarrow> nat" where
  "leading_zeros v = (case filter (bit v) (rev [0..<64]) of [] \<Rightarrow> 64 | i # _ \<Rightarrow> 63 - i)"

definition exec_bits :: "cpu \<Rightarrow> bits_inst \<Rightarrow> cpu" where
  "exec_bits c i =
     (case i of
        Shift p m width count \<Rightarrow> do_shift c p m width (ucast (shift_amount c count))
      | ShiftImm p m width imm \<Rightarrow> do_shift c p m width (ucast imm)
      | Shld m r count w32 \<Rightarrow> exec_shld c m r count w32
      | Shrd m r count w32 \<Rightarrow> exec_shrd c m r count w32
      | Bsf m dst w32 \<Rightarrow>
          (let w = osize c; (v, c) = read_rm_w c m w; c = set_flag c fZF (v = 0)
           in if v \<noteq> 0 then set_reg_w c dst w (of_nat (trailing_zeros v)) else c)
      | Bsr m dst w32 \<Rightarrow>
          (let w = osize c; (v, c) = read_rm_w c m w; c = set_flag c fZF (v = 0)
           in if v \<noteq> 0 then set_reg_w c dst w (of_nat (63 - leading_zeros v)) else c)
      | Bt m b \<Rightarrow> bit_op c m b Bit_Test
      | Bts m b \<Rightarrow> bit_op c m b Bit_Set
      | Btr m b \<Rightarrow> bit_op c m b Bit_Reset
      | Btc m b \<Rightarrow> bit_op c m b Bit_Complement)"

section \<open>Stack\<close>

text \<open>Only the writable bits of the flags move.\<close>

definition write_flags :: "u32 \<Rightarrow> u32 \<Rightarrow> u32" where
  "write_flags old new =
     (new AND fWRITABLE) OR fALWAYS_SET OR (old AND NOT fWRITABLE AND NOT fALWAYS_SET)"

definition exec_pusha :: "cpu \<Rightarrow> bool \<Rightarrow> cpu" where
  "exec_pusha c w32 =
     (if w32 then
        (let esp = c_esp c;
             c = push32 c (c_eax c); c = push32 c (c_ecx c); c = push32 c (c_edx c); c = push32 c (c_ebx c);
             c = push32 c esp; c = push32 c (reg32_idx c 5); c = push32 c (reg32_idx c 6)
         in push32 c (reg32_idx c 7))
      else
        (let sp = c_sp c;
             c = push16 c (c_ax c); c = push16 c (c_cx c); c = push16 c (c_dx c); c = push16 c (c_bx c);
             c = push16 c sp; c = push16 c (c_bp c); c = push16 c (c_si c)
         in push16 c (c_di c)))"

definition exec_popa :: "cpu \<Rightarrow> bool \<Rightarrow> cpu" where
  "exec_popa c w32 =
     (if w32 then
        (let (edi, c) = pop32 c; (esi, c) = pop32 c; (ebp, c) = pop32 c; (_, c) = pop32 c;
             (ebx, c) = pop32 c; (edx, c) = pop32 c; (ecx, c) = pop32 c; (eax, c) = pop32 c;
             c = set_reg32_idx c 7 edi; c = set_reg32_idx c 6 esi; c = set_reg32_idx c 5 ebp;
             c = set_reg32_idx c 3 ebx; c = set_reg32_idx c 2 edx; c = set_reg32_idx c 1 ecx
         in set_reg32_idx c 0 eax)
      else
        (let (di, c) = pop16 c; (si, c) = pop16 c; (bp, c) = pop16 c; (_, c) = pop16 c;
             (bx, c) = pop16 c; (dx, c) = pop16 c; (cx, c) = pop16 c; (ax, c) = pop16 c;
             c = set_reg16_idx c 7 di; c = set_reg16_idx c 6 si; c = set_reg16_idx c 5 bp;
             c = set_reg16_idx c 3 bx; c = set_reg16_idx c 2 dx; c = set_reg16_idx c 1 cx
         in set_reg16_idx c 0 ax))"

definition exec_leave :: "cpu \<Rightarrow> bool \<Rightarrow> cpu" where
  "exec_leave c w32 =
     (if long64 c then (let (v, c) = pop_w (set_rsp c (reg64 c 5)) 64 in set_reg64 c 5 v)
      else if w32 then (let (v, c) = pop32 (set_reg32_idx c 4 (reg32_idx c 5)) in set_reg32_idx c 5 v)
      else (let (v, c) = pop16 (set_reg16_idx c 4 (c_bp c)) in set_reg16_idx c 5 v))"

definition exec_pushf :: "cpu \<Rightarrow> cpu" where
  "exec_pushf c =
     (let w = stack_width c in
      if w \<ge> 32 then push_w c w (ucast (c_flags c AND NOT (fVM OR fRF)))
      else push_w c 16 (ucast (c_flags c)))"

definition exec_popf :: "cpu \<Rightarrow> cpu" where
  "exec_popf c =
     (let w = stack_width c in
      if w \<ge> 32 then (let (f, c) = pop_w c w in c\<lparr>c_flags := write_flags (c_flags c) (ucast f)\<rparr>)
      else (let (f, c) = pop_w c 16 in c\<lparr>c_flags := write_flags (c_flags c) ((c_flags c AND 0xFFFF0000) OR ucast f)\<rparr>))"

definition exec_stack :: "cpu \<Rightarrow> stack_inst \<Rightarrow> cpu" where
  "exec_stack c i =
     (case i of
        PushReg16 src \<Rightarrow> push_w c 16 (ucast (reg16_idx c src))
      | PopReg16 dst \<Rightarrow> (let (v, c) = pop_w c 16 in set_reg16_idx c dst (ucast v))
      | PushReg32 src \<Rightarrow> (let w = stack_width c in push_w c w (reg_w c src w))
      | PopReg32 dst \<Rightarrow> (let w = stack_width c; (v, c) = pop_w c w in set_reg_w c dst w v)
      | PushImm16 imm \<Rightarrow> push_w c 16 (ucast imm)
      | PushImm32 imm \<Rightarrow> push_w c (stack_width c) (sext (ucast imm) 32)
      | PopRm16 m \<Rightarrow> (let (v, c) = pop16 c in write_rm16 c m v)
      | PopRm32 m \<Rightarrow> (let w = stack_width c; (v, c) = pop_w c w in write_rm_w c m w v)
      | PushRm16 m \<Rightarrow> (let (v, c) = read_rm16 c m in push16 c v)
      | PushRm32 m \<Rightarrow> (let w = stack_width c; (v, c) = read_rm_w c m w in push_w c w v)
      | Pusha w32 \<Rightarrow> exec_pusha c w32
      | Popa w32 \<Rightarrow> exec_popa c w32
      | Leave w32 \<Rightarrow> exec_leave c w32
      | Pushf \<Rightarrow> exec_pushf c
      | Popf \<Rightarrow> exec_popf c)"

section \<open>String instructions\<close>

text \<open>
  The loops, with the count as the recursion argument: \<open>while cnt > 0\<close> takes it
  down by one a round. A loop returns the index registers and the count left.
\<close>

definition string_bits :: "cpu \<Rightarrow> bool \<Rightarrow> nat" where "string_bits c w = (if w then osize c else 8)"

fun movs_loop :: "nat \<Rightarrow> nat \<Rightarrow> u32 \<Rightarrow> nat \<Rightarrow> cpu \<Rightarrow> u64 \<Rightarrow> u64 \<Rightarrow> cpu \<times> u64 \<times> u64 \<times> nat" where
  "movs_loop bits a step 0 c si di = (c, si, di, 0)"
| "movs_loop bits a step (Suc n) c si di =
     (let s = operand_seg_for_exec c Ds; (src, c) = cpu_translate c s si; (dst, c) = translate_write c Es di in
      if pending_exception c \<noteq> None then (c, si, di, Suc n)
      else
        (let (v, c) = str_read c src s si bits; c = str_write c dst Es di bits v in
         if pending_exception c \<noteq> None then (c, si, di, Suc n)
         else movs_loop bits a step n c (string_advance si step a) (string_advance di step a)))"

fun stos_loop :: "nat \<Rightarrow> nat \<Rightarrow> u32 \<Rightarrow> nat \<Rightarrow> cpu \<Rightarrow> u64 \<Rightarrow> cpu \<times> u64 \<times> nat" where
  "stos_loop bits a step 0 c di = (c, di, 0)"
| "stos_loop bits a step (Suc n) c di =
     (let (dst, c) = translate_write c Es di in
      if pending_exception c \<noteq> None then (c, di, Suc n)
      else
        (let c = str_write c dst Es di bits (reg_w c 0 bits) in
         if pending_exception c \<noteq> None then (c, di, Suc n)
         else stos_loop bits a step n c (string_advance di step a)))"

fun lods_loop :: "nat \<Rightarrow> nat \<Rightarrow> u32 \<Rightarrow> nat \<Rightarrow> cpu \<Rightarrow> u64 \<Rightarrow> cpu \<times> u64 \<times> nat" where
  "lods_loop bits a step 0 c si = (c, si, 0)"
| "lods_loop bits a step (Suc n) c si =
     (let s = operand_seg_for_exec c Ds; (src, c) = cpu_translate c s si in
      if pending_exception c \<noteq> None then (c, si, Suc n)
      else
        (let (v, c) = str_read c src s si bits in
         if pending_exception c \<noteq> None then (c, si, Suc n)
         else lods_loop bits a step n (set_reg_w c 0 bits v) (string_advance si step a)))"

fun cmps_loop :: "nat \<Rightarrow> nat \<Rightarrow> u32 \<Rightarrow> rep \<Rightarrow> nat \<Rightarrow> cpu \<Rightarrow> u64 \<Rightarrow> u64 \<Rightarrow> cpu \<times> u64 \<times> u64 \<times> nat" where
  "cmps_loop bits a step r 0 c si di = (c, si, di, 0)"
| "cmps_loop bits a step r (Suc n) c si di =
     (let s = operand_seg_for_exec c Ds; (src, c) = cpu_translate c s si; (dst, c) = cpu_translate c Es di in
      if pending_exception c \<noteq> None then (c, si, di, Suc n)
      else
        (let (_, c) = alu_w c Cmp (mem_read_w c src bits) (mem_read_w c dst bits) bits;
             si = string_advance si step a; di = string_advance di step a
         in if \<not> string_repeat c r (of_nat n) then (c, si, di, n) else cmps_loop bits a step r n c si di))"

fun scas_loop :: "nat \<Rightarrow> nat \<Rightarrow> u32 \<Rightarrow> rep \<Rightarrow> nat \<Rightarrow> cpu \<Rightarrow> u64 \<Rightarrow> cpu \<times> u64 \<times> nat" where
  "scas_loop bits a step r 0 c di = (c, di, 0)"
| "scas_loop bits a step r (Suc n) c di =
     (let (dst, c) = cpu_translate c Es di in
      if pending_exception c \<noteq> None then (c, di, Suc n)
      else
        (let (_, c) = alu_w c Cmp (reg_w c 0 bits) (mem_read_w c dst bits) bits; di = string_advance di step a
         in if \<not> string_repeat c r (of_nat n) then (c, di, n) else scas_loop bits a step r n c di))"

text \<open>What follows each loop: the count register is written for the repeated forms.\<close>

definition string_commit_count :: "cpu \<Rightarrow> nat \<Rightarrow> rep \<Rightarrow> nat \<Rightarrow> cpu" where
  "string_commit_count c a r n = (if r \<noteq> Rep_None then string_set_count c a (of_nat n) else c)"

definition exec_string :: "cpu \<Rightarrow> string_inst \<Rightarrow> cpu" where
  "exec_string c i =
     (let a = asize c in
      case i of
        Movs r w \<Rightarrow>
          (let bits = string_bits c w;
               (c, si, di, n) = movs_loop bits a (string_step c (bits div 8)) (unat (string_count c a r)) c (string_si c a) (string_di c a)
           in string_commit_count (string_set_di (string_set_si c a si) a di) a r n)
      | Stos r w \<Rightarrow>
          (let bits = string_bits c w;
               (c, di, n) = stos_loop bits a (string_step c (bits div 8)) (unat (string_count c a r)) c (string_di c a)
           in string_commit_count (string_set_di c a di) a r n)
      | Lods r w \<Rightarrow>
          (let bits = string_bits c w;
               (c, si, n) = lods_loop bits a (string_step c (bits div 8)) (unat (string_count c a r)) c (string_si c a)
           in string_commit_count (string_set_si c a si) a r n)
      | Cmps r w \<Rightarrow>
          (let bits = string_bits c w;
               (c, si, di, n) = cmps_loop bits a (string_step c (bits div 8)) r (unat (string_count c a r)) c (string_si c a) (string_di c a)
           in string_commit_count (string_set_di (string_set_si c a si) a di) a r n)
      | Scas r w \<Rightarrow>
          (let bits = string_bits c w;
               (c, di, n) = scas_loop bits a (string_step c (bits div 8)) r (unat (string_count c a r)) c (string_di c a)
           in string_commit_count (string_set_di c a di) a r n))"

end
