(* ===== verification/Sse_Float.thy ===== *)
theory Sse_Float imports Softfloat Exec_Stack begin

text \<open>
  The floating-point half of the SSE unit (src/src/sse.rs): lanes of a 128-bit
  register, comparison, square root and rounding to an integer, and the
  conversion between the doubles of the x87 model and the 80-bit format of the
  FXSAVE image.
\<close>

unbundle bit_operations_syntax

section \<open>Lanes\<close>

definition lane_mask :: "nat \<Rightarrow> u64" where
  "lane_mask bits = (if bits = 64 then 0xFFFFFFFFFFFFFFFF else push_bit bits 1 - 1)"

definition lanes :: "u128 \<Rightarrow> nat \<Rightarrow> u64 list" where
  "lanes v bits = map (\<lambda>i. ucast (drop_bit (i * bits) v) AND lane_mask bits) [0..<128 div bits]"

definition join_lanes :: "u64 list \<Rightarrow> nat \<Rightarrow> u128" where
  "join_lanes l bits =
     fold (\<lambda>(i, v) acc. acc OR push_bit (i * bits) (ucast (v AND lane_mask bits))) (enumerate 0 l) 0"

text \<open>A sign-extended lane.\<close>

definition sx :: "u64 \<Rightarrow> nat \<Rightarrow> int" where "sx v bits = signed_take_bit (bits - 1) (uint v)"

definition f32s :: "u128 \<Rightarrow> u32 list" where "f32s v = map ucast (lanes v 32)"
definition f64s :: "u128 \<Rightarrow> u64 list" where "f64s v = lanes v 64"
definition from_f32s :: "u32 list \<Rightarrow> u128" where "from_f32s a = join_lanes (map ucast a) 32"
definition from_f64s :: "u64 list \<Rightarrow> u128" where "from_f64s a = join_lanes a 64"

text \<open>The low element replaced, the rest kept.\<close>

definition LO64 :: u128 where [simp]: "LO64 = 0xFFFFFFFFFFFFFFFF"
definition LO32 :: u128 where [simp]: "LO32 = 0xFFFFFFFF"

definition put_lo32 :: "u128 \<Rightarrow> u32 \<Rightarrow> u128" where "put_lo32 a v = (a AND NOT LO32) OR ucast v"
definition put_lo64 :: "u128 \<Rightarrow> u64 \<Rightarrow> u128" where "put_lo64 a v = (a AND NOT LO64) OR ucast v"

section \<open>Single precision and comparison\<close>

definition v32 :: "u32 \<Rightarrow> fval" where "v32 a = unpack fmt32 (unat a)"
definition v64 :: "u64 \<Rightarrow> fval" where "v64 a = unpack fmt64 (unat a)"

definition f32_add :: "u32 \<Rightarrow> u32 \<Rightarrow> u32" where "f32_add a b = of_nat (float_add fmt32 (v32 a) (v32 b))"
definition f32_sub :: "u32 \<Rightarrow> u32 \<Rightarrow> u32" where "f32_sub a b = of_nat (float_add fmt32 (v32 a) (float_neg (v32 b)))"
definition f32_mul :: "u32 \<Rightarrow> u32 \<Rightarrow> u32" where "f32_mul a b = of_nat (float_mul fmt32 (v32 a) (v32 b))"
definition f32_div :: "u32 \<Rightarrow> u32 \<Rightarrow> u32" where "f32_div a b = of_nat (float_div fmt32 (v32 a) (v32 b))"

definition float_cmp :: "(int \<Rightarrow> int \<Rightarrow> bool) \<Rightarrow> fval \<Rightarrow> fval \<Rightarrow> bool" where
  "float_cmp r a b =
     (case (a, b) of
        (Finite s m q, Finite s' m' q') \<Rightarrow> (let lo = min q q' in r (signed_at s m q lo) (signed_at s' m' q' lo))
      | (Infinite s, Finite _ _ _) \<Rightarrow> r (if s then - 1 else 1) 0
      | (Finite _ _ _, Infinite s) \<Rightarrow> r 0 (if s then - 1 else 1)
      | (Infinite s, Infinite s') \<Rightarrow> r (if s then - 1 else 1) (if s' then - 1 else 1)
      | _ \<Rightarrow> False)"

definition float_lt :: "fval \<Rightarrow> fval \<Rightarrow> bool" where "float_lt = float_cmp (<)"
definition float_le :: "fval \<Rightarrow> fval \<Rightarrow> bool" where "float_le = float_cmp (\<le>)"
definition float_eq :: "fval \<Rightarrow> fval \<Rightarrow> bool" where "float_eq = float_cmp (=)"

section \<open>Square root\<close>

text \<open>The integer square root, two bits of the argument at a time.\<close>

fun isqrt :: "nat \<Rightarrow> nat" where
  "isqrt n = (if n = 0 then 0 else (let r = 2 * isqrt (n div 4) in if (r + 1) * (r + 1) \<le> n then r + 1 else r))"

declare isqrt.simps [simp del]

lemma isqrt_bounds: "isqrt n * isqrt n \<le> n \<and> n < (isqrt n + 1) * (isqrt n + 1)"
proof (induction n rule: isqrt.induct)
  case (1 n)
  show ?case
  proof (cases "n = 0")
    case False
    define k where "k = isqrt (n div 4)"
    have ih: "k * k \<le> n div 4" "n div 4 < (k + 1) * (k + 1)" using 1 [OF False] by (simp_all add: k_def)
    have lo: "2 * k * (2 * k) \<le> n" using ih(1) by linarith
    have "n < 4 * ((k + 1) * (k + 1))" using ih(2) by linarith
    then have hi: "n < (2 * k + 1 + 1) * (2 * k + 1 + 1)" by (simp add: algebra_simps)
    show ?thesis using lo hi False by (subst (1 2 3 4) isqrt.simps) (simp add: Let_def flip: k_def)
  qed (simp add: isqrt.simps)
qed

text \<open>
  The mantissa is scaled to an even exponent with enough bits for the root to
  carry \<open>p + 4\<close> of them; the last bit records a remainder.
\<close>

definition float_sqrt :: "ffmt \<Rightarrow> fval \<Rightarrow> nat" where
  "float_sqrt f a =
     (case a of
        NaN \<Rightarrow> qnan f
      | Infinite s \<Rightarrow> if s then qnan f else infinity f False
      | Finite s m q \<Rightarrow>
          if m = 0 then sign_bit f s
          else if s then qnan f
          else
            (let k0 = 2 * (fst f + 4); k = (if even (q - int k0) then k0 else k0 + 1);
                 n = m * 2 ^ k; r = isqrt n
             in pack f False (2 * r + (if r * r = n then 0 else 1)) ((q - int k) div 2 - 1)))"

definition f32_sqrt :: "u32 \<Rightarrow> u32" where "f32_sqrt a = of_nat (float_sqrt fmt32 (v32 a))"
definition f64_sqrt :: "u64 \<Rightarrow> u64" where "f64_sqrt a = of_nat (float_sqrt fmt64 (v64 a))"

section \<open>To an integer\<close>

text \<open>The integer a finite value rounds to: nearest-even, down, up, toward zero.\<close>

definition round_int :: "u32 \<Rightarrow> bool \<Rightarrow> nat \<Rightarrow> int \<Rightarrow> int" where
  "round_int rc s m q =
     (let sg = (if s then - 1 else 1) in
      if q \<ge> 0 then sg * int (m * 2 ^ nat q)
      else
        (let k = nat (- q); v = sg * int m in
         if rc = 0 then sg * int (round_even m k)
         else if rc = 1 then v div 2 ^ k
         else if rc = 2 then - (- v div 2 ^ k)
         else sg * int (m div 2 ^ k)))"

definition to_int :: "u64 \<Rightarrow> u32 \<Rightarrow> bool \<Rightarrow> nat \<Rightarrow> u64" where
  "to_int v rc trunc bits =
     (case v64 v of
        Finite s m q \<Rightarrow>
          (let i = round_int (if trunc then 3 else rc) s m q in
           if bits = 64 then (if i < - (2 ^ 63) \<or> i \<ge> 2 ^ 63 then 0x8000000000000000 else of_int i)
           else if i < - (2 ^ 31) \<or> i \<ge> 2 ^ 31 then 0x80000000 else ucast (of_int i :: u32))
      | _ \<Rightarrow> if bits = 64 then 0x8000000000000000 else 0x80000000)"

section \<open>Saturation\<close>

definition sat_signed :: "int \<Rightarrow> nat \<Rightarrow> u64" where
  "sat_signed v bits =
     of_int (max (- (2 ^ (bits - 1))) (min (2 ^ (bits - 1) - 1) v)) AND (push_bit bits 1 - 1)"

definition sat_unsigned :: "int \<Rightarrow> nat \<Rightarrow> u64" where
  "sat_unsigned v bits = of_int (max 0 (min (2 ^ bits - 1) v))"

section \<open>The 80-bit format\<close>

definition f64_to_f80 :: "u64 \<Rightarrow> u64 \<times> u16" where
  "f64_to_f80 b =
     (let sign = ucast (drop_bit 63 b AND 1) :: u16; e = drop_bit 52 b AND 0x7FF; mant = b AND 0x000FFFFFFFFFFFFF in
      if e = 0 \<and> mant = 0 then (0, push_bit 15 sign)
      else if e = 0x7FF then (push_bit 11 mant OR 0x8000000000000000, push_bit 15 sign OR 0x7FFF)
      else if e = 0 then
        (let lz = leading_zeros mant in (push_bit lz mant, push_bit 15 sign OR (15372 - of_nat lz)))
      else (push_bit 11 mant OR 0x8000000000000000, push_bit 15 sign OR ucast (e - 1023 + 16383)))"

definition f80_to_f64 :: "u64 \<Rightarrow> u16 \<Rightarrow> u64" where
  "f80_to_f64 sig0 se =
     (let sign = ucast (drop_bit 15 se AND 1) :: u64; e0 = int (unat (se AND 0x7FFF)) in
      if e0 = 0 \<and> sig0 = 0 then push_bit 63 sign
      else if e0 = 0x7FFF then
        push_bit 63 sign OR push_bit 52 0x7FF OR drop_bit 11 (sig0 AND 0x7FFFFFFFFFFFFFFF)
      else
        (let lz = leading_zeros sig0; sig = push_bit (lz mod 64) sig0; e = e0 - int lz - 16383 + 1023 in
         if e \<ge> 0x7FF then push_bit 63 sign OR push_bit 52 0x7FF
         else if e \<le> 0 then
           (let shift = nat (12 - e) in push_bit 63 sign OR (if shift \<ge> 64 then 0 else drop_bit shift sig))
         else
           (let frac = sig AND 0x7FFFFFFFFFFFFFFF; m = drop_bit 11 frac; rem = frac AND 0x7FF;
                m = (if rem > 0x400 \<or> rem = 0x400 \<and> m AND 1 = 1 then m + 1 else m);
                (m, e) = (if drop_bit 52 m \<noteq> 0 then (0, e + 1) else (m, e))
            in push_bit 63 sign OR push_bit 52 (of_int e) OR m)))"

end
