(* ===== verification/Exec_System.thy ===== *)
theory Exec_System imports Exec_Stack Softfloat Interrupts begin

text \<open>
  The system instructions, port I/O, flag control and the x87 in the executor
  (src/src/instructions.rs): descriptor table registers, control and debug
  registers, the fast system calls, CPUID and the model-specific registers.
\<close>

unbundle bit_operations_syntax

section \<open>Descriptor tables, CR0 and XCR0\<close>

definition read_table_operand :: "cpu \<Rightarrow> modrm \<Rightarrow> (u16 \<times> u64) \<times> cpu" where
  "read_table_operand c m =
     (let (a, c) = rm_addr c m False; limit = read_u16 (c_mem c) a;
          base = (if long_mode c then read_u64 (c_mem c) (a + 2) else ucast (read_u32 (c_mem c) (a + 2)))
      in ((limit, base), c))"

definition store_table :: "cpu \<Rightarrow> modrm \<Rightarrow> u64 \<Rightarrow> u16 \<Rightarrow> cpu" where
  "store_table c m base limit =
     (let (a, c) = rm_addr c m True in
      if pending_exception c \<noteq> None then c
      else
        (let mm = write_u16 (c_mem c) a limit in
         c\<lparr>c_mem := (if long_mode c then write_u64 mm (a + 2) base else write_u32 mm (a + 2) (ucast base))\<rparr>))"

definition exec_smsw :: "cpu \<Rightarrow> modrm \<Rightarrow> cpu" where
  "exec_smsw c m =
     (if is_reg m then
        (let w = osize c; v = (if w = 16 then ucast (cr0 c) AND 0xFFFF else ucast (cr0 c)) in write_rm_w c m w v)
      else write_rm16 c m (ucast (cr0 c)))"

definition exec_lmsw :: "cpu \<Rightarrow> modrm \<Rightarrow> cpu" where
  "exec_lmsw c m =
     (if cpl c \<noteq> 0 then raise_gp c 0
      else
        (let (v16, c) = read_rm16 c m; v = ucast v16 :: u32 in
         if pending_exception c \<noteq> None then c
         else write_cr0 c ((cr0 c AND NOT 0xE) OR (v AND 0xE) OR (cr0 c AND 1) OR (v AND 1))))"

text \<open>A 64-bit result in EDX:EAX.\<close>

definition set_edx_eax :: "cpu \<Rightarrow> u64 \<Rightarrow> cpu" where
  "set_edx_eax c v = set_reg32_idx (set_reg32_idx c 0 (ucast v)) 2 (ucast (drop_bit 32 v))"

definition get_edx_eax :: "cpu \<Rightarrow> u64" where
  "get_edx_eax c = push_bit 32 (ucast (reg32_idx c 2)) OR ucast (reg32_idx c 0)"

definition exec_xgetbv :: "cpu \<Rightarrow> cpu" where
  "exec_xgetbv c =
     (if cr4 c AND CR4_OSXSAVE = 0 then raise_ud c
      else if reg32_idx c 1 \<noteq> 0 then raise_gp c 0
      else set_edx_eax c (xcr0 c))"

definition exec_xsetbv :: "cpu \<Rightarrow> cpu" where
  "exec_xsetbv c =
     (if cr4 c AND CR4_OSXSAVE = 0 then raise_ud c
      else if cpl c \<noteq> 0 \<or> reg32_idx c 1 \<noteq> 0 then raise_gp c 0
      else
        (let v = get_edx_eax c in
         if v AND 1 = 0 \<or> v AND NOT 0x3 \<noteq> 0 then raise_gp c 0 else c\<lparr>xcr0 := v\<rparr>))"

section \<open>Control and debug registers\<close>

definition cr_width :: "cpu \<Rightarrow> nat" where "cr_width c = (if long_mode c then 64 else 32)"

definition exec_mov_cr :: "cpu \<Rightarrow> u8 \<Rightarrow> u8 \<Rightarrow> cpu" where
  "exec_mov_cr c cr r =
     (let v = (if cr = 0 then ucast (cr0 c) else if cr = 2 then cr2 c else if cr = 3 then cr3 c
               else if cr = 4 then ucast (cr4 c) else cr8 c)
      in set_reg_w c r (cr_width c) v)"

definition exec_mov_to_cr :: "cpu \<Rightarrow> u8 \<Rightarrow> u8 \<Rightarrow> cpu" where
  "exec_mov_to_cr c cr r =
     (let v = reg_w c r (cr_width c) in
      if cr = 0 then write_cr0 c (ucast v)
      else if cr = 2 then c\<lparr>cr2 := v\<rparr>
      else if cr = 3 then flush_tlb (c\<lparr>cr3 := v\<rparr>)
      else if cr = 4 then flush_tlb (c\<lparr>cr4 := ucast v\<rparr>)
      else c\<lparr>cr8 := v AND 0xF\<rparr>)"

section \<open>System calls\<close>

definition exec_syscall :: "cpu \<Rightarrow> cpu" where
  "exec_syscall c =
     (if efer c AND efer_SCE = 0 then c\<lparr>pending_exception := Some (0x06, None)\<rparr>
      else
        (let c = set_reg64_raw c 1 (c_rip c);
             c = set_reg64_raw c 11 (ucast (c_flags c));
             sel = ucast (drop_bit 32 (star c) AND 0xFFFF) :: u16;
             c = c\<lparr>c_flags := c_flags c AND NOT (ucast (sfmask c))\<rparr>;
             c = c\<lparr>c_flags := c_flags c OR fALWAYS_SET\<rparr>;
             c = load_seg c Cs (sel AND 0xFFFC);
             c = load_seg c Ss ((sel AND 0xFFFC) + 8);
             c = c\<lparr>c_rip := lstar c\<rparr>;
             c = c\<lparr>ring_switches := ring_switches c + 1\<rparr>
         in invalidate_phys_ip c))"

definition exec_sysret :: "cpu \<Rightarrow> cpu" where
  "exec_sysret c =
     (let sel = ucast (drop_bit 48 (star c) AND 0xFFFF) :: u16;
          cs = (if rex_w c then (sel + 16) OR 3 else sel OR 3);
          ss = (sel + 8) OR 3;
          c = c\<lparr>c_rip := reg64 c 1\<rparr>;
          c = c\<lparr>c_flags := write_flags (c_flags c) (ucast (reg64 c 11))\<rparr>;
          c = load_seg c Cs cs;
          c = load_seg c Ss ss
      in invalidate_phys_ip c)"

section \<open>CPUID\<close>

definition set_eabcd :: "cpu \<Rightarrow> u32 \<Rightarrow> u32 \<Rightarrow> u32 \<Rightarrow> u32 \<Rightarrow> cpu" where
  "set_eabcd c a b cx d = set_reg32_idx (set_reg32_idx (set_reg32_idx (set_reg32_idx c 0 a) 3 b) 1 cx) 2 d"

definition exec_cpuid :: "cpu \<Rightarrow> cpu" where
  "exec_cpuid c =
     (let leaf = reg32_idx c 0 in
      if leaf = 0 then
        set_reg32_idx (set_reg32_idx (set_reg32_idx (set_reg32_idx c 0 1) 3 0x756E6547) 2 0x49656E69) 1 0x6C65746E
      else if leaf = 1 then set_eabcd c 0x00000600 0x00010800 0x00000021 0x0788A179
      else if leaf = 0x80000000 then set_eabcd c 0x80000008 0 0 0
      else if leaf = 0x80000001 then set_eabcd c 0 0 0x00000021 0x2490A97B
      else if leaf = 0x80000008 then set_eabcd c 0x00003034 0 0 0
      else set_eabcd c 0 0 0 0)"

section \<open>The group\<close>

definition exec_system :: "cpu \<Rightarrow> system_inst \<Rightarrow> cpu" where
  "exec_system c i =
     (case i of
        Lgdt m \<Rightarrow> (let ((limit, base), c) = read_table_operand c m in c\<lparr>gdt_base := base, gdt_limit := limit\<rparr>)
      | Lidt m \<Rightarrow> (let ((limit, base), c) = read_table_operand c m in c\<lparr>idt_base := base, idt_limit := limit\<rparr>)
      | Sgdt m \<Rightarrow> store_table c m (gdt_base c) (gdt_limit c)
      | Sidt m \<Rightarrow> store_table c m (idt_base c) (idt_limit c)
      | Smsw m \<Rightarrow> exec_smsw c m
      | Lmsw m \<Rightarrow> exec_lmsw c m
      | Xgetbv \<Rightarrow> exec_xgetbv c
      | Xsetbv \<Rightarrow> exec_xsetbv c
      | Clac \<Rightarrow> (if cpl c \<noteq> 0 then raise_ud c else c\<lparr>c_flags := c_flags c AND NOT fAC\<rparr>)
      | Stac \<Rightarrow> (if cpl c \<noteq> 0 then raise_ud c else c\<lparr>c_flags := c_flags c OR fAC\<rparr>)
      | Invlpg m \<Rightarrow> invlpg c (modrm_linear c m)
      | MovCr cr r \<Rightarrow> exec_mov_cr c cr r
      | MovToCr cr r \<Rightarrow> exec_mov_to_cr c cr r
      | Clts \<Rightarrow> c\<lparr>cr0 := cr0 c AND NOT 0x8\<rparr>
      | MovDr d r \<Rightarrow> set_reg_w c r (cr_width c) (dr c (unat d))
      | MovToDr d r \<Rightarrow> c\<lparr>dr := (dr c)(unat d := reg_w c r (cr_width c))\<rparr>
      | Lldt m \<Rightarrow> (let (s, c) = read_rm16 c m in load_ldt c s)
      | Ltr m \<Rightarrow> (let (s, c) = read_rm16 c m in load_tr c s)
      | Sldt m \<Rightarrow> write_rm16 c m (ldt_selector c)
      | Str m \<Rightarrow> write_rm16 c m (tr_selector c)
      | Syscall \<Rightarrow> exec_syscall c
      | Sysret \<Rightarrow> exec_sysret c
      | Swapgs \<Rightarrow>
          (if \<not> long64 c then c\<lparr>pending_exception := Some (0x06, None)\<rparr>
           else c\<lparr>gs_base := kernel_gs_base c, kernel_gs_base := gs_base c\<rparr>)
      | Rdtscp \<Rightarrow> set_reg32_idx (set_edx_eax c (rdtsc c)) 1 0
      | Cpuid \<Rightarrow> exec_cpuid c
      | Rdtsc \<Rightarrow> set_edx_eax c (rdtsc c)
      | Rdmsr \<Rightarrow> set_edx_eax c (read_msr c (reg32_idx c 1))
      | Wrmsr \<Rightarrow> write_msr c (reg32_idx c 1) (get_edx_eax c))"

definition exec_idle :: "cpu \<Rightarrow> idle_inst \<Rightarrow> cpu" where
  "exec_idle c i = (if i = Mwait \<or> i = Hlt then c\<lparr>halted := True\<rparr> else c)"

section \<open>Ports and flags\<close>

definition in_acc :: "cpu \<Rightarrow> u16 \<Rightarrow> cpu" where
  "in_acc c port =
     (if osize c \<ge> 32 then (let (v, c) = port_in32 c port in set_reg32_idx c 0 v)
      else (let (v, c) = port_in16 c port in set_reg16_idx c 0 v))"

definition out_acc :: "cpu \<Rightarrow> u16 \<Rightarrow> cpu" where
  "out_acc c port =
     (if osize c \<ge> 32 then port_out32 c port (c_eax c) else port_out16 c port (reg16_idx c 0))"

definition exec_io :: "cpu \<Rightarrow> io_inst \<Rightarrow> cpu" where
  "exec_io c i =
     (case i of
        InAlImm p \<Rightarrow> (let (v, c) = port_in c (ucast p) in set_reg8 c Al v)
      | InAxImm p \<Rightarrow> in_acc c (ucast p)
      | InAlDx \<Rightarrow> (let (v, c) = port_in c (c_dx c) in set_reg8 c Al v)
      | InAxDx \<Rightarrow> in_acc c (c_dx c)
      | OutImmAl p \<Rightarrow> port_out c (ucast p) (reg8 c Al)
      | OutImmAx p \<Rightarrow> out_acc c (ucast p)
      | OutDxAl \<Rightarrow> port_out c (c_dx c) (reg8 c Al)
      | OutDxAx \<Rightarrow> out_acc c (c_dx c))"

definition exec_flag :: "cpu \<Rightarrow> flag_inst \<Rightarrow> cpu" where
  "exec_flag c i =
     (case i of
        Clc \<Rightarrow> set_flag c fCF False | Stc \<Rightarrow> set_flag c fCF True
      | Cli \<Rightarrow> set_flag c fIF False | Sti \<Rightarrow> set_flag c fIF True
      | Cld \<Rightarrow> set_flag c fDF False | Std \<Rightarrow> set_flag c fDF True
      | Cmc \<Rightarrow> set_flag c fCF (\<not> get_flag c fCF))"

section \<open>x87\<close>

definition fpu_addr :: "cpu \<Rightarrow> modrm \<Rightarrow> bool \<Rightarrow> usize \<times> cpu" where
  "fpu_addr c m w = (if addrsize c then modrm_addr32_access c m w else modrm_addr_access c m w)"

definition fpu_store :: "cpu \<Rightarrow> modrm \<Rightarrow> bool \<Rightarrow> cpu" where
  "fpu_store c m w64 =
     (let v = st_i (c_fpu c) 0 in
      if is_reg m then c\<lparr>c_fpu := set_st_i (c_fpu c) (unat (m_rm m)) v\<rparr>
      else
        (let (a, c) = fpu_addr c m True in
         c\<lparr>c_mem := (if w64 then write_u64 (c_mem c) a v else write_u32 (c_mem c) a (f32_of_f64 v))\<rparr>))"

definition fpu_operand :: "cpu \<Rightarrow> modrm \<Rightarrow> bool \<Rightarrow> u64 \<times> cpu" where
  "fpu_operand c m w64 =
     (if is_reg m then (st_i (c_fpu c) (unat (m_rm m)), c)
      else
        (let (a, c) = fpu_addr c m False in
         (if w64 then read_u64 (c_mem c) a else f64_of_f32 (read_u32 (c_mem c) a), c)))"

definition fpu_arith :: "fpuop \<Rightarrow> u64 \<Rightarrow> u64 \<Rightarrow> u64" where
  "fpu_arith p a b =
     (case p of Fpu_Add \<Rightarrow> f64_add a b | Fpu_Sub \<Rightarrow> f64_sub a b | Fpu_Mul \<Rightarrow> f64_mul a b
      | Fpu_Div \<Rightarrow> if \<not> f64_is_zero b then f64_div a b else a)"

definition exec_fpu :: "cpu \<Rightarrow> fpu_inst \<Rightarrow> cpu" where
  "exec_fpu c i =
     (case i of
        Fninit \<Rightarrow> c\<lparr>c_fpu := finit (c_fpu c)\<rparr>
      | Fstcw m \<Rightarrow>
          (if is_reg m then c
           else (let (a, c) = fpu_addr c m True in c\<lparr>c_mem := write_u16 (c_mem c) a (fpu_control (c_fpu c))\<rparr>))
      | Fldcw m \<Rightarrow>
          (let (a, c) = fpu_addr c m False in c\<lparr>c_fpu := (c_fpu c)\<lparr>fpu_control := read_u16 (c_mem c) a\<rparr>\<rparr>)
      | FstswAx \<Rightarrow> set_reg16_idx c 0 (fstsw (c_fpu c))
      | Fstsw m \<Rightarrow> (let (a, c) = fpu_addr c m True in c\<lparr>c_mem := write_u16 (c_mem c) a (fstsw (c_fpu c))\<rparr>)
      | Fst m w64 \<Rightarrow> fpu_store c m w64
      | Fstp m w64 \<Rightarrow> (let c = fpu_store c m w64 in c\<lparr>c_fpu := fpu_pop (c_fpu c)\<rparr>)
      | Fld m w64 \<Rightarrow> (let (v, c) = fpu_operand c m w64 in c\<lparr>c_fpu := fpu_push (c_fpu c) v\<rparr>)
      | Fild m \<Rightarrow>
          (let (a, c') = fpu_addr c m False;
               v = f64_of_i32 (if addrsize c then sint (read_u32 (c_mem c') a) else sint (read_u16 (c_mem c') a))
           in c'\<lparr>c_fpu := fpu_push (c_fpu c') v\<rparr>)
      | Fistp m \<Rightarrow>
          (let v = f64_to_i32 (st_i (c_fpu c) 0); (a, c') = fpu_addr c m False;
               mm = (if addrsize c then write_u32 (c_mem c') a v else write_u16 (c_mem c') a (ucast v))
           in c'\<lparr>c_mem := mm, c_fpu := fpu_pop (c_fpu c')\<rparr>)
      | Fop p m \<Rightarrow>
          (let (rhs, c) = fpu_operand c m True; st0 = st_i (c_fpu c) 0
           in c\<lparr>c_fpu := set_st_i (c_fpu c) 0 (fpu_arith p st0 rhs)\<rparr>))"

end
