(* ===== verification/Sse_Exec.thy ===== *)
theory Sse_Exec imports Sse_Float Exec_System begin

text \<open>
  Execution of the SSE and SSE2 instructions (src/src/sse.rs): the gate on CR0
  and CR4, operands with alignment checks and page splits, moves, packed
  integers, floating point, conversions, and the 512-byte state image.
\<close>

unbundle bit_operations_syntax

section \<open>Operands\<close>

definition MXCSR_MASK :: u32 where [simp]: "MXCSR_MASK = 0xFFFF"

definition set_xmm :: "cpu \<Rightarrow> u8 \<Rightarrow> u128 \<Rightarrow> cpu" where
  "set_xmm c i v =
     (if pending_exception c \<noteq> None then c else c\<lparr>xmm := (xmm c)(unat (i AND 15) := v)\<rparr>)"

definition get_xmm :: "cpu \<Rightarrow> u8 \<Rightarrow> u128" where "get_xmm c i = xmm c (unat i)"

definition sse_src :: "cpu \<Rightarrow> modrm \<Rightarrow> nat \<Rightarrow> bool \<Rightarrow> u128 \<times> cpu" where
  "sse_src c m bytes aligned =
     (if is_reg m then (get_xmm c (m_rm m), c)
      else
        (let (a, c) = rm_addr c m False in
         if pending_exception c \<noteq> None then (0, c)
         else if aligned \<and> a AND 15 \<noteq> 0 then (0, raise_gp c 0)
         else if straddles a bytes then read_split c a (modrm_linear c m) bytes
         else (if bytes = 16 then read_u128 (c_mem c) a
               else if bytes = 8 then ucast (read_u64 (c_mem c) a) else ucast (read_u32 (c_mem c) a), c)))"

definition sse_store :: "cpu \<Rightarrow> modrm \<Rightarrow> nat \<Rightarrow> u128 \<Rightarrow> bool \<Rightarrow> cpu" where
  "sse_store c m bytes v aligned =
     (if is_reg m then
        (let old = get_xmm c (m_rm m) in
         set_xmm c (m_rm m)
           (if bytes = 16 then v
            else if bytes = 8 then (old AND NOT LO64) OR (v AND LO64) else (old AND NOT LO32) OR (v AND LO32)))
      else
        (let (a, c) = rm_addr c m True in
         if pending_exception c \<noteq> None then c
         else if aligned \<and> a AND 15 \<noteq> 0 then raise_gp c 0
         else if straddles a bytes then write_split c a (modrm_linear c m) bytes v
         else c\<lparr>c_mem := (if bytes = 16 then write_u128 (c_mem c) a v
                            else if bytes = 8 then write_u64 (c_mem c) a (ucast v)
                            else write_u32 (c_mem c) a (ucast v))\<rparr>))"

definition sse_gate :: "cpu \<Rightarrow> bool \<times> cpu" where
  "sse_gate c =
     (if cr0 c AND 0x4 \<noteq> 0 \<or> cr4 c AND CR4_OSFXSR = 0 then (False, raise_ud c)
      else if cr0 c AND 0x8 \<noteq> 0 then
        (False, if pending_exception c = None then c\<lparr>pending_exception := Some (0x07, None)\<rparr> else c)
      else (True, c))"

text \<open>A general-register or memory operand of 32 or 64 bits; \<open>None\<close> when the address faults.\<close>

definition gpr_operand :: "cpu \<Rightarrow> modrm \<Rightarrow> nat \<Rightarrow> u64 option \<times> cpu" where
  "gpr_operand c m bits =
     (if is_reg m then (Some (reg_w c (m_rm m) bits), c)
      else
        (let (a, c) = rm_addr c m False in
         if pending_exception c \<noteq> None then (None, c)
         else (Some (if bits = 64 then read_u64 (c_mem c) a else ucast (read_u32 (c_mem c) a)), c)))"

section \<open>Moves\<close>

fun mask_moves :: "cpu \<Rightarrow> segreg \<Rightarrow> u64 \<Rightarrow> u128 \<Rightarrow> u128 \<Rightarrow> nat list \<Rightarrow> cpu" where
  "mask_moves c s base msk v [] = c"
| "mask_moves c s base msk v (i # is) =
     (if drop_bit (i * 8 + 7) msk AND 1 = 1 then
        (let (a, c) = translate_write c s (base + of_nat i) in
         if pending_exception c \<noteq> None then c
         else mask_moves (c\<lparr>c_mem := write_u8 (c_mem c) a (ucast (drop_bit (i * 8) v))\<rparr>) s base msk v is)
      else mask_moves c s base msk v is)"

definition exec_mov_gpr :: "cpu \<Rightarrow> modrm \<Rightarrow> u8 \<Rightarrow> bool \<Rightarrow> nat \<Rightarrow> cpu" where
  "exec_mov_gpr c m d store bits =
     (if store then
        (let v = ucast (get_xmm c d) :: u64; v = (if bits = 32 then v AND 0xFFFFFFFF else v) in
         if is_reg m then set_reg_w c (m_rm m) bits v
         else
           (let (a, c) = rm_addr c m True in
            if pending_exception c \<noteq> None then c
            else c\<lparr>c_mem := (if bits = 64 then write_u64 (c_mem c) a v else write_u32 (c_mem c) a (ucast v))\<rparr>))
      else
        (case gpr_operand c m bits of (None, c) \<Rightarrow> c | (Some v, c) \<Rightarrow> set_xmm c d (ucast v)))"

definition exec_sse_mov :: "cpu \<Rightarrow> sse_inst \<Rightarrow> sse_mov \<Rightarrow> cpu" where
  "exec_sse_mov c s p =
     (let m = si_m s; d = si_reg s in
      case p of
        Mov128 store aligned \<Rightarrow>
          (if store then sse_store c m 16 (get_xmm c d) aligned
           else (let (v, c) = sse_src c m 16 aligned in set_xmm c d v))
      | Movnt128 \<Rightarrow> (if is_reg m then raise_ud c else sse_store c m 16 (get_xmm c d) True)
      | MovScalar store bits \<Rightarrow>
          (if store then sse_store c m (bits div 8) (get_xmm c d) False
           else if is_reg m then
             (let lo = (if bits = 64 then LO64 else LO32)
              in set_xmm c d ((get_xmm c d AND NOT lo) OR (get_xmm c (m_rm m) AND lo)))
           else (let (v, c) = sse_src c m (bits div 8) False in set_xmm c d v))
      | MovHalf store high \<Rightarrow>
          (if is_reg m then raise_ud c
           else if store then
             sse_store c m 8 (if high then drop_bit 64 (get_xmm c d) else get_xmm c d AND LO64) False
           else
             (let (v, c) = sse_src c m 8 False; old = get_xmm c d
              in set_xmm c d (if high then (old AND LO64) OR push_bit 64 v else (old AND NOT LO64) OR v)))
      | Movhlps \<Rightarrow> set_xmm c d ((get_xmm c d AND NOT LO64) OR drop_bit 64 (get_xmm c (m_rm m)))
      | Movlhps \<Rightarrow> set_xmm c d ((get_xmm c d AND LO64) OR push_bit 64 (get_xmm c (m_rm m) AND LO64))
      | MovGpr store bits \<Rightarrow> exec_mov_gpr c m d store bits
      | MovqLoad \<Rightarrow> (let (v, c) = sse_src c m 8 False in set_xmm c d (v AND LO64))
      | MovqStore \<Rightarrow>
          (let v = get_xmm c d AND LO64 in if is_reg m then set_xmm c (m_rm m) v else sse_store c m 8 v False)
      | Movddup \<Rightarrow> (let (v, c) = sse_src c m 8 False; v = v AND LO64 in set_xmm c d (v OR push_bit 64 v))
      | Movshdup \<Rightarrow>
          (let (b, c) = sse_src c m 16 False; v = f32s b in set_xmm c d (from_f32s [v ! 1, v ! 1, v ! 3, v ! 3]))
      | Movsldup \<Rightarrow>
          (let (b, c) = sse_src c m 16 False; v = f32s b in set_xmm c d (from_f32s [v ! 0, v ! 0, v ! 2, v ! 2]))
      | Movmsk bits \<Rightarrow>
          set_reg_w c d 32
            (fold (\<lambda>(i, lane) r. if drop_bit (bits - 1) lane AND 1 = 1 then r OR push_bit i 1 else r)
              (enumerate 0 (lanes (get_xmm c (m_rm m)) bits)) 0)
      | Movnti \<Rightarrow>
          (let w = osize c; w = (if w = 16 then 32 else w) in write_rm_w c m w (reg_w c d w))
      | Maskmovdqu \<Rightarrow>
          mask_moves c (operand_seg_for_exec c Ds) (reg_w c 7 (if addrsize c then 64 else 16))
            (get_xmm c (m_rm m)) (get_xmm c d) [0..<16])"

section \<open>Floating point\<close>

definition fp32 :: "fp_op \<Rightarrow> u32 \<Rightarrow> u32 \<Rightarrow> u32" where
  "fp32 p a b =
     (case p of Fp_Add \<Rightarrow> f32_add a b | Fp_Sub \<Rightarrow> f32_sub a b | Fp_Mul \<Rightarrow> f32_mul a b | Fp_Div \<Rightarrow> f32_div a b
      | Fp_Min \<Rightarrow> if float_lt (v32 a) (v32 b) then a else b
      | Fp_Max \<Rightarrow> if float_lt (v32 b) (v32 a) then a else b)"

definition fp64 :: "fp_op \<Rightarrow> u64 \<Rightarrow> u64 \<Rightarrow> u64" where
  "fp64 p a b =
     (case p of Fp_Add \<Rightarrow> f64_add a b | Fp_Sub \<Rightarrow> f64_sub a b | Fp_Mul \<Rightarrow> f64_mul a b | Fp_Div \<Rightarrow> f64_div a b
      | Fp_Min \<Rightarrow> if float_lt (v64 a) (v64 b) then a else b
      | Fp_Max \<Rightarrow> if float_lt (v64 b) (v64 a) then a else b)"

text \<open>
  The shape shared by the prefixed operations: packed singles, packed doubles,
  or one element with the rest of the destination kept.
\<close>

definition by_format ::
  "cpu \<Rightarrow> sse_inst \<Rightarrow> (u32 \<Rightarrow> u32 \<Rightarrow> u32) \<Rightarrow> (u64 \<Rightarrow> u64 \<Rightarrow> u64) \<Rightarrow> u128 \<times> cpu" where
  "by_format c s f g =
     (let m = si_m s; a = get_xmm c (si_reg s) in
      case si_pfx s of
        Pfx_None \<Rightarrow> (let (b, c) = sse_src c m 16 True in (from_f32s (map2 f (f32s a) (f32s b)), c))
      | P66 \<Rightarrow> (let (b, c) = sse_src c m 16 True in (from_f64s (map2 g (f64s a) (f64s b)), c))
      | F3 \<Rightarrow> (let (b, c) = sse_src c m 4 False in (put_lo32 a (f (ucast a) (ucast b)), c))
      | F2 \<Rightarrow> (let (b, c) = sse_src c m 8 False in (put_lo64 a (g (ucast a) (ucast b)), c)))"

definition exec_by_format :: "cpu \<Rightarrow> sse_inst \<Rightarrow> (u32 \<Rightarrow> u32 \<Rightarrow> u32) \<Rightarrow> (u64 \<Rightarrow> u64 \<Rightarrow> u64) \<Rightarrow> cpu" where
  "exec_by_format c s f g = (let (r, c) = by_format c s f g in set_xmm c (si_reg s) r)"

definition f32_one :: u32 where [simp]: "f32_one = 0x3F800000"

definition root32 :: "sse_fp \<Rightarrow> u32 \<Rightarrow> u32" where
  "root32 p x = (case p of Sqrt \<Rightarrow> f32_sqrt x | Rsqrt \<Rightarrow> f32_div f32_one (f32_sqrt x) | _ \<Rightarrow> f32_div f32_one x)"

definition exec_root :: "cpu \<Rightarrow> sse_inst \<Rightarrow> sse_fp \<Rightarrow> cpu" where
  "exec_root c s p =
     (if (si_pfx s = P66 \<or> si_pfx s = F2) \<and> p \<noteq> Sqrt then raise_ud c
      else exec_by_format c s (\<lambda>_ b. root32 p b) (\<lambda>_ b. f64_sqrt b))"

definition cmp_pred :: "u8 \<Rightarrow> u64 \<Rightarrow> u64 \<Rightarrow> bool" where
  "cmp_pred pred a b =
     (let x = v64 a; y = v64 b; nan = x = NaN \<or> y = NaN in
      if pred = 0 then float_eq x y else if pred = 1 then float_lt x y else if pred = 2 then float_le x y
      else if pred = 3 then nan else if pred = 4 then \<not> float_eq x y else if pred = 5 then \<not> float_lt x y
      else if pred = 6 then \<not> float_le x y else \<not> nan)"

definition exec_sse_cmp :: "cpu \<Rightarrow> sse_inst \<Rightarrow> cpu" where
  "exec_sse_cmp c s =
     (let pred = si_imm s AND 7 in
      exec_by_format c s
        (\<lambda>a b. if cmp_pred pred (f64_of_f32 a) (f64_of_f32 b) then 0xFFFFFFFF else 0)
        (\<lambda>a b. if cmp_pred pred a b then 0xFFFFFFFFFFFFFFFF else 0))"

definition exec_comis :: "cpu \<Rightarrow> sse_inst \<Rightarrow> cpu" where
  "exec_comis c s =
     (let m = si_m s; d = si_reg s;
          (a, b, c) = (if si_pfx s = P66
                       then (let (b, c) = sse_src c m 8 False in (ucast (get_xmm c d), ucast b, c))
                       else (let (b, c) = sse_src c m 4 False
                             in (f64_of_f32 (ucast (get_xmm c d)), f64_of_f32 (ucast b), c)));
          x = v64 a; y = v64 b
      in if pending_exception c \<noteq> None then c
         else
           (let (zf, pf, cf) = (if x = NaN \<or> y = NaN then (True, True, True)
                                else if float_lt y x then (False, False, False)
                                else if float_lt x y then (False, False, True) else (True, False, False));
                c = set_flag c fZF zf; c = set_flag c fPF pf; c = set_flag c fCF cf; c = set_flag c fOF False;
                c = set_flag c fSF False
            in set_flag c fAF False))"

text \<open>Two 16-byte operands combined as lists of singles or of doubles.\<close>

definition exec_packed :: "cpu \<Rightarrow> sse_inst \<Rightarrow> (u32 list \<Rightarrow> u32 list \<Rightarrow> u32 list) \<Rightarrow> (u64 list \<Rightarrow> u64 list \<Rightarrow> u64 list) \<Rightarrow> cpu" where
  "exec_packed c s f g =
     (let (b, c) = sse_src c (si_m s) 16 True; a = get_xmm c (si_reg s)
      in set_xmm c (si_reg s)
           (if si_pfx s = P66 then from_f64s (g (f64s a) (f64s b)) else from_f32s (f (f32s a) (f32s b))))"

definition imm_field :: "u8 \<Rightarrow> nat \<Rightarrow> u8 \<Rightarrow> nat" where "imm_field imm k msk = unat (drop_bit k imm AND msk)"

definition exec_cvt_si2 :: "cpu \<Rightarrow> sse_inst \<Rightarrow> nat \<Rightarrow> cpu" where
  "exec_cvt_si2 c s bits =
     (case gpr_operand c (si_m s) bits of
        (None, c) \<Rightarrow> c
      | (Some v, c) \<Rightarrow>
          let i = (if bits = 64 then sint v else sint (ucast v :: u32)); a = get_xmm c (si_reg s)
          in set_xmm c (si_reg s)
               (if si_pfx s = F3 then put_lo32 a (of_nat (float_of_int fmt32 i)) else put_lo64 a (of_nat (float_of_int fmt64 i))))"

definition i32_of_lane :: "u64 \<Rightarrow> int" where "i32_of_lane x = sint (ucast x :: u32)"

definition exec_convert :: "cpu \<Rightarrow> sse_inst \<Rightarrow> sse_fp \<Rightarrow> cpu" where
  "exec_convert c s p =
     (let m = si_m s; d = si_reg s; rc = drop_bit 13 (mxcsr c) AND 3 in
      case p of
        CvtSi2 bits \<Rightarrow> exec_cvt_si2 c s bits
      | Cvt2Si trunc bits \<Rightarrow>
          (let (v, c) = (if si_pfx s = F3 then (let (b, c) = sse_src c m 4 False in (f64_of_f32 (ucast b), c))
                         else (let (b, c) = sse_src c m 8 False in (ucast b, c)))
           in if pending_exception c \<noteq> None then c else set_reg_w c d bits (to_int v rc trunc bits))
      | CvtSs2Sd \<Rightarrow> (let (b, c) = sse_src c m 4 False in set_xmm c d (put_lo64 (get_xmm c d) (f64_of_f32 (ucast b))))
      | CvtSd2Ss \<Rightarrow> (let (b, c) = sse_src c m 8 False in set_xmm c d (put_lo32 (get_xmm c d) (f32_of_f64 (ucast b))))
      | CvtPs2Pd \<Rightarrow>
          (let (b, c) = sse_src c m 8 False; v = f32s b in set_xmm c d (from_f64s [f64_of_f32 (v ! 0), f64_of_f32 (v ! 1)]))
      | CvtPd2Ps \<Rightarrow>
          (let (b, c) = sse_src c m 16 True; v = f64s b
           in set_xmm c d (from_f32s [f32_of_f64 (v ! 0), f32_of_f64 (v ! 1), 0, 0]))
      | CvtDq2Ps \<Rightarrow>
          (let (b, c) = sse_src c m 16 True
           in set_xmm c d (from_f32s (map (\<lambda>x. of_nat (float_of_int fmt32 (i32_of_lane x))) (lanes b 32))))
      | CvtPs2Dq trunc \<Rightarrow>
          (let (b, c) = sse_src c m 16 True
           in set_xmm c d (join_lanes (map (\<lambda>x. to_int (f64_of_f32 x) rc trunc 32) (f32s b)) 32))
      | CvtDq2Pd \<Rightarrow>
          (let (b, c) = sse_src c m 8 False; v = lanes b 32
           in set_xmm c d (from_f64s [f64_of_i32 (i32_of_lane (v ! 0)), f64_of_i32 (i32_of_lane (v ! 1))]))
      | CvtPd2Dq trunc \<Rightarrow>
          (let (b, c) = sse_src c m 16 True; v = f64s b
           in set_xmm c d (join_lanes [to_int (v ! 0) rc trunc 32, to_int (v ! 1) rc trunc 32, 0, 0] 32))
      | _ \<Rightarrow> c)"

definition exec_sse_fp :: "cpu \<Rightarrow> sse_inst \<Rightarrow> sse_fp \<Rightarrow> cpu" where
  "exec_sse_fp c s p =
     (let imm = si_imm s in
      case p of
        Arith q \<Rightarrow> exec_by_format c s (fp32 q) (fp64 q)
      | Sqrt \<Rightarrow> exec_root c s p | Rsqrt \<Rightarrow> exec_root c s p | Rcp \<Rightarrow> exec_root c s p
      | Sse_Cmp \<Rightarrow> exec_sse_cmp c s
      | Comis signal \<Rightarrow> exec_comis c s
      | Shuf \<Rightarrow>
          exec_packed c s
            (\<lambda>x y. [x ! imm_field imm 0 3, x ! imm_field imm 2 3, y ! imm_field imm 4 3, y ! imm_field imm 6 3])
            (\<lambda>x y. [x ! imm_field imm 0 1, y ! imm_field imm 1 1])
      | Unpck high \<Rightarrow>
          exec_packed c s
            (\<lambda>x y. if high then [x ! 2, y ! 2, x ! 3, y ! 3] else [x ! 0, y ! 0, x ! 1, y ! 1])
            (\<lambda>x y. if high then [x ! 1, y ! 1] else [x ! 0, y ! 0])
      | Addsub \<Rightarrow>
          exec_packed c s
            (\<lambda>x y. [f32_sub (x ! 0) (y ! 0), f32_add (x ! 1) (y ! 1), f32_sub (x ! 2) (y ! 2), f32_add (x ! 3) (y ! 3)])
            (\<lambda>x y. [f64_sub (x ! 0) (y ! 0), f64_add (x ! 1) (y ! 1)])
      | Hadd \<Rightarrow>
          exec_packed c s
            (\<lambda>x y. [f32_add (x ! 0) (x ! 1), f32_add (x ! 2) (x ! 3), f32_add (y ! 0) (y ! 1), f32_add (y ! 2) (y ! 3)])
            (\<lambda>x y. [f64_add (x ! 0) (x ! 1), f64_add (y ! 0) (y ! 1)])
      | Hsub \<Rightarrow>
          exec_packed c s
            (\<lambda>x y. [f32_sub (x ! 0) (x ! 1), f32_sub (x ! 2) (x ! 3), f32_sub (y ! 0) (y ! 1), f32_sub (y ! 2) (y ! 3)])
            (\<lambda>x y. [f64_sub (x ! 0) (x ! 1), f64_sub (y ! 0) (y ! 1)])
      | _ \<Rightarrow> exec_convert c s p)"

end
