(* ===== verification/Sse_Int.thy ===== *)
theory Sse_Int imports Sse_Exec begin

text \<open>
  Packed integer instructions, the 512-byte FXSAVE image, and the dispatcher of
  the SSE unit (src/src/sse.rs).
\<close>

unbundle bit_operations_syntax

section \<open>Packed integers\<close>

text \<open>A lane-wise operation on the destination and a 16-byte operand.\<close>

definition exec_lanes :: "cpu \<Rightarrow> sse_inst \<Rightarrow> nat \<Rightarrow> nat \<Rightarrow> (u64 list \<Rightarrow> u64 list \<Rightarrow> u64 list) \<Rightarrow> cpu" where
  "exec_lanes c s bits out f =
     (let (b, c) = sse_src c (si_m s) 16 True
      in set_xmm c (si_reg s) (join_lanes (f (lanes (get_xmm c (si_reg s)) bits) (lanes b bits)) out))"

definition padd_lane :: "bool \<Rightarrow> sat \<Rightarrow> nat \<Rightarrow> u64 \<Rightarrow> u64 \<Rightarrow> u64" where
  "padd_lane sub sa bits x y =
     (case sa of
        Sat_Wrap \<Rightarrow> if sub then x - y else x + y
      | Sat_Signed \<Rightarrow> sat_signed (if sub then sx x bits - sx y bits else sx x bits + sx y bits) bits
      | Sat_Unsigned \<Rightarrow> sat_unsigned (if sub then uint x - uint y else uint x + uint y) bits)"

definition pmaddwd_pair :: "u64 list \<Rightarrow> u64 list \<Rightarrow> nat \<Rightarrow> u64" where
  "pmaddwd_pair a b i =
     of_int (sx (a ! (2 * i)) 16 * sx (b ! (2 * i)) 16 + sx (a ! (2 * i + 1)) 16 * sx (b ! (2 * i + 1)) 16)"

definition psad_half :: "u64 list \<Rightarrow> u64 list \<Rightarrow> nat \<Rightarrow> u64" where
  "psad_half a b lo = of_int (sum_list (map (\<lambda>i. \<bar>uint (a ! i) - uint (b ! i)\<bar>) [lo..<lo + 8]))"

definition pick_lane :: "bool \<Rightarrow> nat \<Rightarrow> bool \<Rightarrow> u64 \<Rightarrow> u64 \<Rightarrow> u64" where
  "pick_lane mx bits sg x y =
     (let take_x = (if sg then (sx x bits > sx y bits) = mx else (x > y) = mx) in if x = y \<or> take_x then x else y)"

definition unpack_lanes :: "bool \<Rightarrow> u64 list \<Rightarrow> u64 list \<Rightarrow> u64 list" where
  "unpack_lanes high a b =
     (let n = length a div 2; off = (if high then n else 0)
      in concat (map (\<lambda>i. [a ! (off + i), b ! (off + i)]) [0..<n]))"

definition shuffle_words :: "nat \<Rightarrow> u8 \<Rightarrow> u64 list \<Rightarrow> u64 list" where
  "shuffle_words base imm b =
     fold (\<lambda>i r. r[base + i := b ! (base + imm_field imm (2 * i) 3)]) [0..<4] b"

definition shift_lane :: "shift_kind \<Rightarrow> nat \<Rightarrow> u64 \<Rightarrow> u64 \<Rightarrow> u64" where
  "shift_lane k bits n x =
     (case k of
        Sll \<Rightarrow> if n \<ge> of_nat bits then 0 else push_bit (unat n) x
      | Srl \<Rightarrow> if n \<ge> of_nat bits then 0 else drop_bit (unat n) x
      | Sra \<Rightarrow> of_int (sx x bits div 2 ^ unat (min n (of_nat bits - 1))))"

definition exec_pshift :: "cpu \<Rightarrow> sse_inst \<Rightarrow> shift_kind \<Rightarrow> nat \<Rightarrow> bool \<Rightarrow> cpu" where
  "exec_pshift c s k bits imm =
     (let (n, c) = (if imm then (ucast (si_imm s), c)
                    else (let (b, c) = sse_src c (si_m s) 16 True in (ucast b :: u64, c)))
      in if pending_exception c \<noteq> None then c
         else set_xmm c (si_reg s) (join_lanes (map (shift_lane k bits n) (lanes (get_xmm c (si_reg s)) bits)) bits))"

definition exec_pinsrw :: "cpu \<Rightarrow> sse_inst \<Rightarrow> cpu" where
  "exec_pinsrw c s =
     (let m = si_m s; d = si_reg s;
          (v, c) = (if is_reg m then (ucast (reg_w c (m_rm m) 32) :: u16, c) else read_rm16 c m)
      in if pending_exception c \<noteq> None then c
         else set_xmm c d (join_lanes ((lanes (get_xmm c d) 16)[unat (si_imm s AND 7) := ucast v]) 16))"

definition exec_bitwise :: "cpu \<Rightarrow> sse_inst \<Rightarrow> (u128 \<Rightarrow> u128 \<Rightarrow> u128) \<Rightarrow> cpu" where
  "exec_bitwise c s f =
     (let (b, c) = sse_src c (si_m s) 16 True in set_xmm c (si_reg s) (f (get_xmm c (si_reg s)) b))"

definition exec_sse_int :: "cpu \<Rightarrow> sse_inst \<Rightarrow> sse_int \<Rightarrow> cpu" where
  "exec_sse_int c s p =
     (let imm = si_imm s in
      case p of
        Sse_And \<Rightarrow> exec_bitwise c s (AND)
      | Sse_Andn \<Rightarrow> exec_bitwise c s (\<lambda>a b. NOT a AND b)
      | Sse_Or \<Rightarrow> exec_bitwise c s (OR)
      | Sse_Xor \<Rightarrow> exec_bitwise c s (XOR)
      | Padd bits sa \<Rightarrow> exec_lanes c s bits bits (map2 (padd_lane False sa bits))
      | Psub bits sa \<Rightarrow> exec_lanes c s bits bits (map2 (padd_lane True sa bits))
      | Pmullw \<Rightarrow> exec_lanes c s 16 16 (map2 (\<lambda>x y. of_int (sx x 16 * sx y 16)))
      | Pmulhw \<Rightarrow> exec_lanes c s 16 16 (map2 (\<lambda>x y. of_int (sx x 16 * sx y 16 div 2 ^ 16)))
      | Pmulhuw \<Rightarrow> exec_lanes c s 16 16 (map2 (\<lambda>x y. drop_bit 16 (x * y)))
      | Pmuludq \<Rightarrow> exec_lanes c s 32 64 (\<lambda>a b. [a ! 0 * b ! 0, a ! 2 * b ! 2])
      | Pmaddwd \<Rightarrow> exec_lanes c s 16 32 (\<lambda>a b. map (pmaddwd_pair a b) [0..<4])
      | Psadbw \<Rightarrow> exec_lanes c s 8 64 (\<lambda>a b. [psad_half a b 0, psad_half a b 8])
      | Pavg bits \<Rightarrow> exec_lanes c s bits bits (map2 (\<lambda>x y. drop_bit 1 (x + y + 1)))
      | Pmax bits sg \<Rightarrow> exec_lanes c s bits bits (map2 (pick_lane True bits sg))
      | Pmin bits sg \<Rightarrow> exec_lanes c s bits bits (map2 (pick_lane False bits sg))
      | Pcmpeq bits \<Rightarrow> exec_lanes c s bits bits (map2 (\<lambda>x y. if x = y then lane_mask bits else 0))
      | Pcmpgt bits \<Rightarrow> exec_lanes c s bits bits (map2 (\<lambda>x y. if sx x bits > sx y bits then lane_mask bits else 0))
      | Packss bits \<Rightarrow> exec_lanes c s bits (bits div 2) (\<lambda>a b. map (\<lambda>x. sat_signed (sx x bits) (bits div 2)) (a @ b))
      | Packus \<Rightarrow> exec_lanes c s 16 8 (\<lambda>a b. map (\<lambda>x. sat_unsigned (sx x 16) 8) (a @ b))
      | Punpckl bits \<Rightarrow> exec_lanes c s bits bits (unpack_lanes False)
      | Punpckh bits \<Rightarrow> exec_lanes c s bits bits (unpack_lanes True)
      | Pshufd \<Rightarrow> exec_lanes c s 32 32 (\<lambda>a b. map (\<lambda>i. b ! imm_field imm (2 * i) 3) [0..<4])
      | Pshufhw \<Rightarrow> exec_lanes c s 16 16 (\<lambda>a b. shuffle_words 4 imm b)
      | Pshuflw \<Rightarrow> exec_lanes c s 16 16 (\<lambda>a b. shuffle_words 0 imm b)
      | Pinsrw \<Rightarrow> exec_pinsrw c s
      | Pextrw \<Rightarrow> set_reg_w c (si_reg s) 32 (lanes (get_xmm c (m_rm (si_m s))) 16 ! unat (imm AND 7))
      | Pshift k bits by_imm \<Rightarrow> exec_pshift c s k bits by_imm
      | Pshiftdq left \<Rightarrow>
          (let n = min (unat imm) 16 * 8; a = get_xmm c (si_reg s)
           in set_xmm c (si_reg s) (if n \<ge> 128 then 0 else if left then push_bit n a else drop_bit n a)))"

section \<open>The FXSAVE image\<close>

text \<open>\<open>n\<close> little-endian bytes of a value, and the value the bytes from \<open>o\<close> on stand for.\<close>

definition le_bytes :: "nat \<Rightarrow> u128 \<Rightarrow> u8 list" where
  "le_bytes n v = map (\<lambda>i. ucast (drop_bit (8 * i) v)) [0..<n]"

definition le_at :: "u8 list \<Rightarrow> nat \<Rightarrow> nat \<Rightarrow> u128" where
  "le_at b k n = fold (\<lambda>i acc. acc OR push_bit (8 * i) (ucast (b ! (k + i)))) [0..<n] 0"

definition abridged_tag :: "u16 \<Rightarrow> u8" where
  "abridged_tag tag = fold (\<lambda>i t. if drop_bit i tag AND 1 = 0 then t OR push_bit i 1 else t) [0..<8] 0"

definition full_tag :: "u8 \<Rightarrow> u16" where
  "full_tag t = fold (\<lambda>i tag. if drop_bit i t AND 1 = 0 then tag OR push_bit i 1 else tag) [0..<8] 0xFF00"

definition image_regs :: "cpu \<Rightarrow> nat" where "image_regs c = (if long_mode c then 16 else 8)"

definition fxsave_image :: "cpu \<Rightarrow> u8 list" where
  "fxsave_image c =
     (let f = c_fpu c; sw = (fpu_status f AND NOT 0x3800) OR push_bit 11 (of_nat (fpu_top f) AND 7);
          slot80 = (\<lambda>i. case f64_to_f80 (st_i f i) of (sig, se) \<Rightarrow>
                          le_bytes 8 (ucast sig) @ le_bytes 2 (ucast se) @ replicate 6 0);
          n = image_regs c
      in le_bytes 2 (ucast (fpu_control f)) @ le_bytes 2 (ucast sw) @ [abridged_tag (fpu_tag f)] @ replicate 19 0
         @ le_bytes 4 (ucast (mxcsr c)) @ le_bytes 4 (ucast MXCSR_MASK)
         @ concat (map slot80 [0..<8]) @ concat (map (\<lambda>i. le_bytes 16 (xmm c i)) [0..<n])
         @ replicate (512 - (160 + n * 16)) 0)"

definition fxrstor_image :: "cpu \<Rightarrow> u8 list \<Rightarrow> cpu" where
  "fxrstor_image c b =
     (let sw = ucast (le_at b 2 2) :: u16; t = unat (drop_bit 11 sw AND 7);
          c = c\<lparr>c_fpu := (c_fpu c)\<lparr>fpu_control := ucast (le_at b 0 2), fpu_status := sw, fpu_top := t,
                                     fpu_tag := full_tag (b ! 4)\<rparr>\<rparr>;
          mx = ucast (le_at b 24 4) :: u32
      in if mx AND NOT MXCSR_MASK \<noteq> 0 then raise_gp c 0
         else
           (let c = c\<lparr>mxcsr := mx\<rparr>;
                st = fold (\<lambda>i st. st[(t + i) mod 8 := f80_to_f64 (ucast (le_at b (32 + i * 16) 8)) (ucast (le_at b (32 + i * 16 + 8) 2))])
                       [0..<8] (fpu_st (c_fpu c));
                c = c\<lparr>c_fpu := (c_fpu c)\<lparr>fpu_st := st\<rparr>\<rparr>
            in c\<lparr>xmm := fold (\<lambda>i x. x(i := le_at b (160 + i * 16) 16)) [0..<image_regs c] (xmm c)\<rparr>))"

text \<open>The length of the part of \<open>n\<close> bytes that lies on the page of \<open>lin\<close>.\<close>

definition page_run :: "u64 \<Rightarrow> nat \<Rightarrow> nat" where
  "page_run lin n = min (unat (0x1000 - (lin AND 0xFFF))) n"

lemma page_run_pos: "0 < n \<Longrightarrow> 0 < page_run lin n"
proof -
  assume n: "0 < n"
  have "lin AND 0xFFF \<le> 0xFFF" by (rule word_and_le1)
  then have "(0x1000 :: u64) - (lin AND 0xFFF) \<noteq> 0" by (auto simp: right_minus_eq)
  then show ?thesis using n by (simp add: page_run_def unat_gt_0)
qed

text \<open>
  The bytes of a segment offset, a page at a time. A fault ends the transfer: the
  bytes of the pages before it have been read or written.
\<close>

function read_linear :: "cpu \<Rightarrow> segreg \<Rightarrow> u64 \<Rightarrow> nat \<Rightarrow> u8 list \<times> cpu" where
  "read_linear c s off n =
     (if n = 0 then ([], c)
      else
        (let lin = linear_addr c s off; r = apply_paging_access c lin False; run = page_run lin n in
         if pending_exception (snd r) \<noteq> None then ([], snd r)
         else
           (let rest = read_linear (snd r) s (off + of_nat run) (n - run)
            in (map (\<lambda>k. read_u8 (c_mem (snd r)) (fst r + of_nat k)) [0..<run] @ fst rest, snd rest))))"
  by auto

termination
  by (relation "measure (\<lambda>(c, s, off, n). n)") (auto simp: page_run_pos)

declare read_linear.simps [simp del]

fun store_bytes :: "memory \<Rightarrow> usize \<Rightarrow> u8 list \<Rightarrow> memory" where
  "store_bytes m a [] = m"
| "store_bytes m a (b # bs) = store_bytes (write_u8 m a b) (a + 1) bs"

function write_linear :: "cpu \<Rightarrow> segreg \<Rightarrow> u64 \<Rightarrow> u8 list \<Rightarrow> cpu" where
  "write_linear c s off b =
     (if b = [] then c
      else
        (let lin = linear_addr c s off; r = apply_paging_access c lin True; run = page_run lin (length b) in
         if pending_exception (snd r) \<noteq> None then snd r
         else
           write_linear ((snd r)\<lparr>c_mem := store_bytes (c_mem (snd r)) (fst r) (take run b)\<rparr>) s
             (off + of_nat run) (drop run b)))"
  by auto

termination
  by (relation "measure (\<lambda>(c, s, off, b). length b)") (auto simp: page_run_pos)

declare write_linear.simps [simp del]

section \<open>State instructions and the dispatcher\<close>

definition sse_operand :: "cpu \<Rightarrow> modrm \<Rightarrow> segreg \<times> u64" where
  "sse_operand c m =
     (let (ea, s) = (if addrsize c then modrm_ea32 c m else (ucast (modrm_offset c m), Ds))
      in (operand_seg_for_exec c s, ea))"

definition exec_sse_state :: "cpu \<Rightarrow> sse_inst \<Rightarrow> sse_state \<Rightarrow> cpu" where
  "exec_sse_state c s p =
     (let m = si_m s in
      if is_reg m then raise_ud c
      else
        (case p of
           Ldmxcsr \<Rightarrow>
             (let (v, c) = read_rm32 c m in
              if pending_exception c \<noteq> None then c
              else if v AND NOT MXCSR_MASK \<noteq> 0 then raise_gp c 0 else c\<lparr>mxcsr := v\<rparr>)
         | Stmxcsr \<Rightarrow> write_rm_w c m 32 (ucast (mxcsr c))
         | Fxsave \<Rightarrow>
             (let (sr, off) = sse_operand c m in
              if linear_addr c sr off AND 15 \<noteq> 0 then raise_gp c 0 else write_linear c sr off (fxsave_image c))
         | Fxrstor \<Rightarrow>
             (let (sr, off) = sse_operand c m in
              if linear_addr c sr off AND 15 \<noteq> 0 then raise_gp c 0
              else
                (let (b, c) = read_linear c sr off 512
                 in if pending_exception c \<noteq> None then c else fxrstor_image c b))))"

definition execute_sse :: "cpu \<Rightarrow> sse_inst \<Rightarrow> cpu" where
  "execute_sse c s =
     (case si_op s of
        Sse_State p \<Rightarrow> exec_sse_state c s p
      | _ \<Rightarrow>
          (let (open, c) = sse_gate c in
           if \<not> open then c
           else (case si_op s of Sse_Mov p \<Rightarrow> exec_sse_mov c s p | Sse_Fp p \<Rightarrow> exec_sse_fp c s p
                 | Sse_Int p \<Rightarrow> exec_sse_int c s p | Sse_State p \<Rightarrow> c)))"

end
