(* ===== verification/Exec_Muldiv.thy ===== *)
theory Exec_Muldiv imports Exec_Core begin

text \<open>
  Multiplication and division (src/src/instructions.rs). Rust panics when a
  signed division overflows, which the 8-, 16- and 64-bit IDIV arms do not
  exclude: the result is None there.
\<close>

unbundle bit_operations_syntax

definition raise_de :: "cpu \<Rightarrow> cpu" where "raise_de c = c\<lparr>pending_exception := Some (0x00, None)\<rparr>"

definition set_cf_of :: "cpu \<Rightarrow> bool \<Rightarrow> cpu" where "set_cf_of c k = set_flag (set_flag c fCF k) fOF k"

section \<open>MUL and IMUL\<close>

definition exec_mul :: "cpu \<Rightarrow> muldiv_inst \<Rightarrow> cpu" where
  "exec_mul c i =
     (case i of
        MulRm8 m \<Rightarrow>
          (let (v, c) = read_rm8 c m; r = ucast (reg8 c Al) * ucast v :: u16
           in set_cf_of (set_reg16_idx c 0 r) ((ucast (drop_bit 8 r) :: u8) \<noteq> 0))
      | MulRm16 m \<Rightarrow>
          (let (v, c) = read_rm16 c m; r = ucast (reg16_idx c 0) * ucast v :: u32
           in set_cf_of (set_reg16_idx (set_reg16_idx c 0 (ucast r)) 2 (ucast (drop_bit 16 r))) (drop_bit 16 r \<noteq> 0))
      | MulRm32 m \<Rightarrow>
          (let w = osize c; (v, c) = read_rm_w c m w; r = ucast (reg_w c 0 w) * ucast v :: u128
           in set_cf_of (set_reg_w (set_reg_w c 0 w (ucast r)) 2 w (ucast (drop_bit w r))) (drop_bit w r \<noteq> 0))
      | ImulRm8 m \<Rightarrow>
          (let (v, c) = read_rm8 c m; r = scast (reg8 c Al) * scast v :: u16
           in set_cf_of (set_reg16_idx c 0 r) ((ucast (signed_drop_bit 8 r) :: u8) \<noteq> ucast r))
      | ImulRm16 m \<Rightarrow>
          (let (v, c) = read_rm16 c m; r = scast (reg16_idx c 0) * scast v :: u32
           in set_cf_of (set_reg16_idx (set_reg16_idx c 0 (ucast r)) 2 (ucast (signed_drop_bit 16 r)))
                ((ucast (signed_drop_bit 16 r) :: u16) \<noteq> ucast r))
      | ImulRm32 m \<Rightarrow>
          (let w = osize c; (v, c) = read_rm_w c m w;
               r = scast (sign_extend (reg_w c 0 w) w) * scast (sign_extend v w) :: u128
           in set_cf_of (set_reg_w (set_reg_w c 0 w (ucast r)) 2 w (ucast (signed_drop_bit w r)))
                (r \<noteq> scast (sign_extend (ucast r) w)))
      | ImulRegRm16 m dst \<Rightarrow>
          (let (a, c) = read_rm16 c m in imul_store16 c dst (scast a * scast (reg16_idx c dst)))
      | ImulRegRm32 m dst \<Rightarrow>
          (let w = osize c; (v, c) = read_rm_w c m w; a = sign_extend v w; b = sign_extend (reg_w c dst w) w
           in if w = 64 then imul_store64 c dst (scast a * scast b) else imul_store32 c dst (a * b))
      | ImulRegRmImm16 m dst imm \<Rightarrow>
          (let (a, c) = read_rm16 c m in imul_store16 c dst (scast a * scast imm))
      | ImulRegRmImm32 m dst imm \<Rightarrow>
          (let w = osize c; (v, c) = read_rm_w c m w; a = sign_extend v w
           in if w = 64 then imul_store64 c dst (scast a * scast imm) else imul_store32 c dst (a * scast imm))
      | _ \<Rightarrow> c)"

section \<open>DIV\<close>

definition exec_div8 :: "cpu \<Rightarrow> modrm \<Rightarrow> cpu" where
  "exec_div8 c m =
     (let (v, c) = read_rm8 c m in
      if v = 0 then raise_de c
      else
        (let a = reg16_idx c 0; q = a div ucast v; r = a mod ucast v
         in set_reg8 (set_reg8 c Al (ucast q)) Ah (ucast r)))"

definition exec_div16 :: "cpu \<Rightarrow> modrm \<Rightarrow> cpu" where
  "exec_div16 c m =
     (let (v, c) = read_rm16 c m in
      if v = 0 then raise_de c
      else
        (let a = push_bit 16 (ucast (reg16_idx c 2)) OR ucast (reg16_idx c 0) :: u32; q = a div ucast v; r = a mod ucast v
         in set_reg16_idx (set_reg16_idx c 0 (ucast q)) 2 (ucast r)))"

definition exec_div_w :: "cpu \<Rightarrow> modrm \<Rightarrow> cpu" where
  "exec_div_w c m =
     (let w = osize c; (v, c) = read_rm_w c m w; v = ucast v :: u128 in
      if v = 0 then raise_de c
      else
        (let a = push_bit w (ucast (reg_w c 2 w)) OR ucast (reg_w c 0 w); q = a div v; r = a mod v
         in if q > ucast (inst_mask_w w) then raise_de c
            else set_reg_w (set_reg_w c 0 w (ucast q)) 2 w (ucast r)))"

section \<open>IDIV\<close>

text \<open>Rust's signed division of \<open>n\<close>-bit integers: truncated, None for the one overflow.\<close>

definition sdivmod :: "nat \<Rightarrow> int \<Rightarrow> int \<Rightarrow> (int \<times> int) option" where
  "sdivmod n a v = (if a = - (2 ^ (n - 1)) \<and> v = - 1 then None else Some (tdiv a v, a - v * tdiv a v))"

definition exec_idiv8 :: "cpu \<Rightarrow> modrm \<Rightarrow> cpu option" where
  "exec_idiv8 c m =
     (let (v, c) = read_rm8 c m in
      if v = 0 then Some (raise_de c)
      else
        map_option (\<lambda>(q, r). set_reg8 (set_reg8 c Al (of_int q)) Ah (of_int r))
          (sdivmod 16 (sint (reg16_idx c 0)) (sint v)))"

definition exec_idiv16 :: "cpu \<Rightarrow> modrm \<Rightarrow> cpu option" where
  "exec_idiv16 c m =
     (let (v, c) = read_rm16 c m in
      if v = 0 then Some (raise_de c)
      else
        map_option (\<lambda>(q, r). set_reg16_idx (set_reg16_idx c 0 (of_int q)) 2 (of_int r))
          (sdivmod 32 (sint (push_bit 16 (ucast (reg16_idx c 2)) OR ucast (reg16_idx c 0) :: u32)) (sint v)))"

definition exec_idiv_w :: "cpu \<Rightarrow> modrm \<Rightarrow> cpu option" where
  "exec_idiv_w c m =
     (let w = osize c; (v, c) = read_rm_w c m w; v = sint (sign_extend v w) in
      if v = 0 then Some (raise_de c)
      else
        (let raw = push_bit w (ucast (reg_w c 2 w)) OR ucast (reg_w c 0 w) :: u128;
             a = (if w = 64 then sint raw
                  else (let bits = 2 * w in sint (signed_drop_bit (128 - bits) (push_bit (128 - bits) raw))))
         in map_option (\<lambda>(q, r).
              if q \<noteq> sint (sign_extend (of_int q) w) then raise_de c
              else set_reg_w (set_reg_w c 0 w (of_int q)) 2 w (of_int r))
            (sdivmod 128 a v)))"

definition exec_muldiv :: "cpu \<Rightarrow> muldiv_inst \<Rightarrow> cpu option" where
  "exec_muldiv c i =
     (case i of
        DivRm8 m \<Rightarrow> Some (exec_div8 c m)
      | DivRm16 m \<Rightarrow> Some (exec_div16 c m)
      | DivRm32 m \<Rightarrow> Some (exec_div_w c m)
      | IdivRm8 m \<Rightarrow> exec_idiv8 c m
      | IdivRm16 m \<Rightarrow> exec_idiv16 c m
      | IdivRm32 m \<Rightarrow> exec_idiv_w c m
      | _ \<Rightarrow> Some (exec_mul c i))"

end
