(* ===== verification/Bios.thy ===== *)
theory Bios imports Interrupts begin

text \<open>
  The BIOS services (src/src/bios.rs): video, memory map, keyboard and disk,
  called natively by the \<open>INT\<close> instruction. The struct \<open>Bios\<close> is its key queue
  (the field \<open>c_bios\<close>). A service that would index the disk image out of bounds
  panics in the code; that is the value \<open>None\<close> here.
\<close>

unbundle bit_operations_syntax

definition SCREEN_COLS :: nat where [simp]: "SCREEN_COLS = 80"
definition SCREEN_ROWS :: nat where [simp]: "SCREEN_ROWS = 25"

definition bios_push_key :: "(u8 \<times> u8) list \<Rightarrow> u8 \<Rightarrow> u8 \<Rightarrow> (u8 \<times> u8) list" where
  "bios_push_key keys ascii scancode = keys @ [(ascii, scancode)]"

section \<open>INT 0x10: video\<close>

definition bios_put_char_at :: "memory \<Rightarrow> nat \<Rightarrow> nat \<Rightarrow> u8 \<Rightarrow> memory" where
  "bios_put_char_at m row col ch =
     (if row < SCREEN_ROWS \<and> col < SCREEN_COLS
      then m\<lparr>vga_text := (vga_text m)(of_nat (row * SCREEN_COLS + col) := push_bit 8 0x07 OR ucast ch)\<rparr>
      else m)"

text \<open>The visible 2000 cells move up a line; \<open>copy_within\<close> runs over the whole aperture.\<close>

definition bios_scroll :: "memory \<Rightarrow> memory" where
  "bios_scroll m =
     m\<lparr>vga_text := (\<lambda>i. if unat i < SCREEN_COLS * (SCREEN_ROWS - 1) then vga_text m (i + of_nat SCREEN_COLS)
                       else if unat i < SCREEN_COLS * SCREEN_ROWS then 0x0720
                       else if unat i < 0x4000 - SCREEN_COLS then vga_text m (i + of_nat SCREEN_COLS)
                       else vga_text m i)\<rparr>"

definition bios_put_char :: "cpu \<Rightarrow> u8 \<Rightarrow> cpu" where
  "bios_put_char c ch =
     (let row = unat (cursor_row (c_vga c)); col = unat (cursor_col (c_vga c));
          c = c\<lparr>c_mem := bios_put_char_at (c_mem c) row col ch\<rparr>;
          c = c\<lparr>c_vga := (c_vga c)\<lparr>cursor_col := cursor_col (c_vga c) + 1\<rparr>\<rparr>
      in if unat (cursor_col (c_vga c)) \<ge> SCREEN_COLS then
           (let c = c\<lparr>c_vga := (c_vga c)\<lparr>cursor_col := 0, cursor_row := cursor_row (c_vga c) + 1\<rparr>\<rparr>
            in if unat (cursor_row (c_vga c)) \<ge> SCREEN_ROWS
               then c\<lparr>c_mem := bios_scroll (c_mem c), c_vga := (c_vga c)\<lparr>cursor_row := of_nat (SCREEN_ROWS - 1)\<rparr>\<rparr>
               else c)
         else c)"

fun bios_write_string :: "nat \<Rightarrow> nat \<Rightarrow> nat \<Rightarrow> usize \<Rightarrow> memory \<Rightarrow> memory" where
  "bios_write_string 0 row col a m = m"
| "bios_write_string (Suc n) row col a m =
     bios_write_string n row (col + 1) (a + 1) (bios_put_char_at m row col (read_u8 m a))"

definition bios_video :: "cpu \<Rightarrow> cpu" where
  "bios_video c =
     (let ah = reg8 c Ah in
      if ah = 0x00 then c\<lparr>c_vga := snd (set_mode (c_vga c) (reg8 c Al))\<rparr>
      else if ah = 0x02 then c\<lparr>c_vga := (c_vga c)\<lparr>cursor_row := reg8 c Dh, cursor_col := reg8 c Dl\<rparr>\<rparr>
      else if ah = 0x03 then
        (let c = set_reg8 c Dh (cursor_row (c_vga c)) in set_reg8 c Dl (cursor_col (c_vga c)))
      else if ah = 0x0E then bios_put_char c (reg8 c Al)
      else if ah = 0x13 then
        c\<lparr>c_mem := bios_write_string (unat (c_cx c)) (unat (reg8 c Dh)) (unat (reg8 c Dl))
                     (mem_phys (c_es c) (c_bp c)) (c_mem c)\<rparr>
      else c)"

section \<open>INT 0x15: the memory map\<close>

definition bios_e820 :: "cpu \<Rightarrow> cpu" where
  "bios_e820 c =
     (if c_eax c \<noteq> 0x0000E820 \<or> c_edx c \<noteq> 0x534D4150 then set_flag c fCF True
      else
        (let entries = e820 (c_mem c); cont = unat (c_ebx c) in
         if cont \<ge> length entries then set_flag c fCF True
         else
           (case entries ! cont of (base, len, typ) \<Rightarrow>
              let buf = mem_phys (c_es c) (c_di c);
                  m = write_u32 (write_u64 (write_u64 (c_mem c) buf base) (buf + 8) len) (buf + 16) typ;
                  c = c\<lparr>c_mem := m\<rparr>;
                  c = set_ebx c (if cont + 1 < length entries then of_nat (cont + 1) else 0);
                  c = set_ecx (set_eax c 0x0000E820) 20
              in set_flag c fCF False)))"

definition bios_e801 :: "cpu \<Rightarrow> cpu" where
  "bios_e801 c =
     (let ext_kb = 15 * 1024 :: u16;
          c = set_cx (set_ax c ext_kb) ext_kb;
          low_ram = min (ram_size (c_mem c)) MMIO_HOLE_START;
          above = (if low_ram > 0x1000000 then low_ram - 0x1000000 else 0);
          units = ucast (min (above div 0x10000) 0xFFFF) :: u16
      in set_dx (set_bx c units) units)"

definition bios_mem88 :: "cpu \<Rightarrow> cpu" where
  "bios_mem88 c =
     (let ram = ram_size (c_mem c); ext_kb = (if ram > 0x100000 then ram - 0x100000 else 0) div 1024
      in set_ax c (ucast (min ext_kb 0xFFFF)))"

definition bios_memory_map :: "cpu \<Rightarrow> cpu" where
  "bios_memory_map c =
     (let ah = reg8 c Ah in
      if ah = 0xE8 then (if reg8 c Al = 0x20 then bios_e820 c else bios_e801 c)
      else if ah = 0x88 then bios_mem88 c
      else set_flag c fCF True)"

section \<open>INT 0x16: keyboard\<close>

definition bios_keyboard :: "cpu \<Rightarrow> cpu" where
  "bios_keyboard c =
     (let ah = reg8 c Ah in
      if ah = 0x00 then
        (case c_bios c of
           (ascii, scancode) # ks \<Rightarrow> set_reg8 (set_reg8 (c\<lparr>c_bios := ks\<rparr>) Al ascii) Ah scancode
         | [] \<Rightarrow> set_reg8 (set_reg8 c Al 0) Ah 0)
      else if ah = 0x01 then set_flag c fZF (c_bios c = [])
      else c)"

section \<open>INT 0x13: disk\<close>

text \<open>Bytes move one at a time between the image, from index \<open>i\<close>, and memory, from \<open>a\<close>.\<close>

fun disk_to_mem :: "nat \<Rightarrow> u8 list \<Rightarrow> u64 \<Rightarrow> usize \<Rightarrow> memory \<Rightarrow> memory option" where
  "disk_to_mem 0 d i a m = Some m"
| "disk_to_mem (Suc n) d i a m =
     (if unat i < length d then disk_to_mem n d (i + 1) (a + 1) (write_u8 m a (d ! unat i)) else None)"

fun mem_to_disk :: "nat \<Rightarrow> memory \<Rightarrow> usize \<Rightarrow> u64 \<Rightarrow> u8 list \<Rightarrow> u8 list option" where
  "mem_to_disk 0 m a i d = Some d"
| "mem_to_disk (Suc n) m a i d =
     (if unat i < length d then mem_to_disk n m (a + 1) (i + 1) (d[unat i := read_u8 m a]) else None)"

definition bios_lba :: "cpu \<Rightarrow> u64" where
  "bios_lba c =
     ((ucast (reg8 c Ch) * 2 + ucast (reg8 c Dh)) * 18 + (ucast (reg8 c Cl) - 1)) * 512"

definition bios_disk :: "cpu \<Rightarrow> cpu option" where
  "bios_disk c =
     (let ah = reg8 c Ah; bytes = unat (reg8 c Al) * 512; lba = bios_lba c;
          buf = mem_phys (c_es c) (c_bx c); disk = ide_disk (c_ide c);
          fits = ide_present (c_ide c) \<and> lba + of_nat bytes \<le> of_nat (length disk)
      in if ah = 0x00 then Some (set_flag c fCF False)
         else if ah = 0x02 then
           (if fits then
              map_option (\<lambda>m. set_flag (c\<lparr>c_mem := m\<rparr>) fCF False) (disk_to_mem bytes disk lba buf (c_mem c))
            else Some (set_flag c fCF True))
         else if ah = 0x03 then
           (if fits then
              map_option (\<lambda>d. set_flag (c\<lparr>c_ide := (c_ide c)\<lparr>ide_disk := d\<rparr>\<rparr>) fCF False)
                (mem_to_disk bytes (c_mem c) buf lba disk)
            else Some (set_flag c fCF True))
         else Some c)"

section \<open>The dispatcher\<close>

definition bios_handle :: "cpu \<Rightarrow> u8 \<Rightarrow> (bool \<times> cpu) option" where
  "bios_handle c vector =
     (if vector = 0x10 then Some (True, bios_video c)
      else if vector = 0x15 then Some (True, bios_memory_map c)
      else if vector = 0x16 then Some (True, bios_keyboard c)
      else if vector = 0x13 then map_option (Pair True) (bios_disk c)
      else Some (False, c))"

end
