(* ===== verification/Exec_Flow.thy ===== *)
theory Exec_Flow imports Exec_Stack Bios begin

text \<open>
  Control flow in the executor (src/src/instructions.rs): relative and indirect
  branches, near and far calls and returns, the loop instructions, software
  interrupts and the returns from them.
\<close>

unbundle bit_operations_syntax

section \<open>Near branches\<close>

definition exec_call_rel32 :: "cpu \<Rightarrow> u32 \<Rightarrow> cpu" where
  "exec_call_rel32 c rel =
     (let w = stack_width c; nxt = (if long64 c then c_rip c else ucast (c_eip c)); c = push_w c w nxt
      in if pending_exception c \<noteq> None then c else branch_rel c (scast rel))"

definition set_target :: "cpu \<Rightarrow> u64 \<Rightarrow> cpu" where
  "set_target c t = (if long64 c then c\<lparr>c_rip := t\<rparr> else set_eip c (ucast t))"

definition exec_call_rm32 :: "cpu \<Rightarrow> modrm \<Rightarrow> cpu" where
  "exec_call_rm32 c m =
     (let w = stack_width c; (t, c) = read_rm_w c m w;
          nxt = (if long64 c then c_rip c else ucast (c_eip c)); c = push_w c w nxt
      in if pending_exception c \<noteq> None then c else invalidate_phys_ip (set_target c t))"

definition exec_ret_imm :: "cpu \<Rightarrow> u16 \<Rightarrow> bool \<Rightarrow> cpu" where
  "exec_ret_imm c imm w32 =
     (if long64 c then (let (t, c) = pop_w c 64; c = set_rsp c (c_rsp c + ucast imm) in c\<lparr>c_rip := t\<rparr>)
      else if w32 then (let (t, c) = pop32 c in set_eip (set_esp c (c_esp c + ucast imm)) t)
      else (let (t, c) = pop16 c; c = set_sp c (c_sp c + imm) in c\<lparr>c_ip := t\<rparr>))"

definition exec_near :: "cpu \<Rightarrow> flow_inst \<Rightarrow> cpu" where
  "exec_near c i =
     (case i of
        JmpRel8 rel \<Rightarrow> branch_rel c (scast rel)
      | JmpRel16 rel \<Rightarrow> c\<lparr>c_ip := c_ip c + rel\<rparr>
      | JmpRel32 rel \<Rightarrow> branch_rel c (scast rel)
      | Jcc q rel \<Rightarrow> (if cond_test c q then branch_rel c (scast rel) else c)
      | Jcc32 q rel \<Rightarrow> (if cond_test c q then branch_rel c (scast rel) else c)
      | CallRel16 rel \<Rightarrow> (let c = push16 c (c_ip c) in c\<lparr>c_ip := c_ip c + rel\<rparr>)
      | CallRel32 rel \<Rightarrow> exec_call_rel32 c rel
      | Ret \<Rightarrow> (let (t, c) = pop16 c in c\<lparr>c_ip := t\<rparr>)
      | Ret32 \<Rightarrow> (let (t, c) = pop_w c (stack_width c) in set_target c t)
      | RetImm imm w32 \<Rightarrow> exec_ret_imm c imm w32
      | CallRm16 m \<Rightarrow> (let (t, c) = read_rm16 c m; c = push16 c (c_ip c) in c\<lparr>c_ip := t\<rparr>)
      | CallRm32 m \<Rightarrow> exec_call_rm32 c m
      | JmpRm16 m \<Rightarrow> (let (t, c) = read_rm16 c m in c\<lparr>c_ip := t\<rparr>)
      | JmpRm32 m \<Rightarrow> (let (t, c) = read_rm_w c m (stack_width c) in invalidate_phys_ip (set_target c t))
      | _ \<Rightarrow> c)"

section \<open>LOOP and JCXZ\<close>

text \<open>Whether the branch is taken, from the count after the decrement and ZF.\<close>

definition loop_take :: "loopcond \<Rightarrow> bool \<Rightarrow> bool \<Rightarrow> bool" where
  "loop_take q zero zf =
     (case q of Jcxz \<Rightarrow> zero | Loop \<Rightarrow> \<not> zero | Loopz \<Rightarrow> \<not> zero \<and> zf | Loopnz \<Rightarrow> \<not> zero \<and> \<not> zf)"

definition exec_loop :: "cpu \<Rightarrow> loopcond \<Rightarrow> u8 \<Rightarrow> cpu" where
  "exec_loop c q rel =
     (if addr64 c then
        (let c = (if q = Jcxz then c else set_reg64_raw c 1 (reg64 c 1 - 1))
         in if loop_take q (reg64 c 1 = 0) (get_flag c fZF) then branch_rel c (scast rel) else c)
      else if opsize c then
        (let c = (if q = Jcxz then c else set_ecx c (c_ecx c - 1))
         in if loop_take q (c_ecx c = 0) (get_flag c fZF) then set_eip c (c_eip c + scast rel) else c)
      else
        (let c = (if q = Jcxz then c else set_cx c (c_cx c - 1))
         in if loop_take q (c_cx c = 0) (get_flag c fZF) then c\<lparr>c_ip := c_ip c + scast rel\<rparr> else c))"

section \<open>Far branches\<close>

definition exec_retf32 :: "cpu \<Rightarrow> cpu" where
  "exec_retf32 c =
     (if long_mode c then
        (let (rip, c) = pop_w c 64; (cs, c) = pop_w c 64; c = load_seg c Cs (ucast cs)
         in invalidate_phys_ip (c\<lparr>c_rip := rip\<rparr>))
      else
        (let (t, c) = pop32 c; (cs, c) = pop32 c
         in invalidate_phys_ip (set_eip (load_seg c Cs (ucast cs)) t)))"

definition exec_far :: "cpu \<Rightarrow> flow_inst \<Rightarrow> cpu" where
  "exec_far c i =
     (case i of
        JmpFar off s \<Rightarrow> (let c = load_seg c Cs s in invalidate_phys_ip (c\<lparr>c_ip := off\<rparr>))
      | CallFar off s \<Rightarrow>
          (let ip = c_ip c; c = push16 c (c_cs c); c = push16 c ip; c = load_seg c Cs s
           in invalidate_phys_ip (c\<lparr>c_ip := off\<rparr>))
      | JmpFar32 off s \<Rightarrow> invalidate_phys_ip (set_eip (load_seg c Cs s) off)
      | CallFar32 off s \<Rightarrow>
          (let ip = c_eip c; c = push32 c (ucast (c_cs c)); c = push32 c ip
           in invalidate_phys_ip (set_eip (load_seg c Cs s) off))
      | Retf \<Rightarrow> (let (ip, c) = pop16 c; c = c\<lparr>c_ip := ip\<rparr>; (cs, c) = pop16 c in load_seg c Cs cs)
      | Retf32 \<Rightarrow> exec_retf32 c
      | _ \<Rightarrow> c)"

section \<open>Software interrupts and their returns\<close>

definition exec_int :: "cpu \<Rightarrow> u8 \<Rightarrow> cpu option" where
  "exec_int c vector =
     map_option (\<lambda>(handled, c). if handled then c else if pe c then protected_int c vector else real_int c vector)
       (bios_handle c vector)"

definition exec_iret :: "cpu \<Rightarrow> cpu" where
  "exec_iret c =
     (let (ip, c) = pop16 c; c = c\<lparr>c_ip := ip\<rparr>; (cs, c) = pop16 c; c = c\<lparr>c_cs := cs\<rparr>; (f, c) = pop16 c
      in c\<lparr>c_flags := write_flags (c_flags c) ((c_flags c AND 0xFFFF0000) OR ucast f)\<rparr>)"

definition exec_iretq :: "cpu \<Rightarrow> cpu" where
  "exec_iretq c =
     (let (rip, c) = pop_w c 64; (cs, c) = pop_w c 64; (f, c) = pop_w c 64; (rsp, c) = pop_w c 64;
          (ss, c) = pop_w c 64;
          c = load_seg c Cs (ucast cs);
          c = load_seg c Ss (ucast ss);
          c = set_rsp c rsp;
          c = c\<lparr>c_rip := rip\<rparr>;
          c = c\<lparr>c_flags := write_flags (c_flags c) (ucast f)\<rparr>
      in invalidate_phys_ip c)"

definition exec_iretd :: "cpu \<Rightarrow> cpu" where
  "exec_iretd c =
     (let (eip, c) = pop32 c; (cs, c) = pop32 c; (f, c) = pop32 c;
          c = (if (ucast (cs AND 3) :: u8) > cpl c
               then (let (esp, c) = pop32 c; (ss, c) = pop32 c in set_esp (load_seg c Ss (ucast ss)) esp)
               else c);
          c = set_eip c eip;
          c = load_seg c Cs (ucast cs);
          c = c\<lparr>c_flags := write_flags (c_flags c) f\<rparr>
      in invalidate_phys_ip c)"

definition exec_flow :: "cpu \<Rightarrow> flow_inst \<Rightarrow> cpu option" where
  "exec_flow c i =
     (case i of
        Inst_Loop q rel \<Rightarrow> Some (exec_loop c q rel)
      | Inst_Int v \<Rightarrow> exec_int c v
      | Int3 \<Rightarrow> Some (c\<lparr>pending_exception := Some (0x03, None)\<rparr>)
      | Into \<Rightarrow> Some (if get_flag c fOF then c\<lparr>pending_exception := Some (0x04, None)\<rparr> else c)
      | Iret \<Rightarrow> Some (exec_iret c)
      | Iret32 \<Rightarrow> Some (if long_mode c then exec_iretq c else exec_iretd c)
      | JmpFar off s \<Rightarrow> Some (exec_far c i)
      | CallFar off s \<Rightarrow> Some (exec_far c i)
      | JmpFar32 off s \<Rightarrow> Some (exec_far c i)
      | CallFar32 off s \<Rightarrow> Some (exec_far c i)
      | Retf \<Rightarrow> Some (exec_far c i)
      | Retf32 \<Rightarrow> Some (exec_far c i)
      | _ \<Rightarrow> Some (exec_near c i))"

end
