(* ===== verification/Vm_Ops.thy ===== *)
theory Vm_Ops imports Exec_System begin

text \<open>
  The VMX instructions in root operation and the interception of guest
  instructions (src/src/vmx.rs): VMXON to INVVPID with the VMsucceed, VMfail and
  exception outcomes, the checks of a VM entry, and which guest instruction
  exits for which control.
\<close>

unbundle bit_operations_syntax

section \<open>Outcomes\<close>

definition vm_succeed :: "cpu \<Rightarrow> cpu" where
  "vm_succeed c = c\<lparr>c_flags := c_flags c AND NOT (fCF OR fPF OR fAF OR fZF OR fSF OR fOF)\<rparr>"

definition vm_fail_invalid :: "cpu \<Rightarrow> cpu" where
  "vm_fail_invalid c = (let c = vm_succeed c in c\<lparr>c_flags := c_flags c OR fCF\<rparr>)"

definition vm_fail_valid :: "cpu \<Rightarrow> u32 \<Rightarrow> cpu" where
  "vm_fail_valid c err =
     (let c = vm_succeed c; c = c\<lparr>c_flags := c_flags c OR fZF\<rparr> in vmcs_put c fld_INSTRUCTION_ERROR (ucast err))"

section \<open>Regions\<close>

definition bad_region_ptr :: "u64 \<Rightarrow> bool" where
  "bad_region_ptr p \<longleftrightarrow> p AND 0xFFF \<noteq> 0 \<or> drop_bit 52 p \<noteq> 0"

definition read_ptr_operand :: "cpu \<Rightarrow> modrm \<Rightarrow> u64 option \<times> cpu" where
  "read_ptr_operand c m =
     (if is_reg m then (None, raise_ud c)
      else
        (let (a, c) = rm_addr c m False in
         if pending_exception c \<noteq> None then (None, c) else (Some (read_u64 (c_mem c) a), c)))"

text \<open>The slots from address \<open>a\<close> on, written and read.\<close>

fun store_slots :: "memory \<Rightarrow> usize \<Rightarrow> u64 list \<Rightarrow> memory" where
  "store_slots m a [] = m"
| "store_slots m a (v # vs) = store_slots (write_u64 m a v) (a + 8) vs"

fun load_slots :: "memory \<Rightarrow> usize \<Rightarrow> nat \<Rightarrow> u64 list" where
  "load_slots m a 0 = []"
| "load_slots m a (Suc n) = read_u64 m a # load_slots m (a + 8) n"

definition flush_vmcs :: "cpu \<Rightarrow> cpu" where
  "flush_vmcs c =
     (case vmx_current (c_vmx c) of
        Some p \<Rightarrow> c\<lparr>c_mem := store_slots (c_mem c) (p + 8) (vmcs (c_vmx c))\<rparr>
      | None \<Rightarrow> c)"

definition load_vmcs :: "cpu \<Rightarrow> u64 \<Rightarrow> cpu" where
  "load_vmcs c p =
     c\<lparr>c_vmx := (c_vmx c)\<lparr>vmcs := load_slots (c_mem c) (p + 8) SLOTS, vmx_current := Some p\<rparr>\<rparr>"

section \<open>The checks of a VM entry\<close>

definition check_controls :: "cpu \<Rightarrow> u32 option" where
  "check_controls c =
     (let pin = ucast (vmcs_get c fld_PIN_CTLS) :: u32;
          cpu_ctl = ucast (vmcs_get c fld_CPU_CTLS) :: u32;
          exit = ucast (vmcs_get c fld_EXIT_CTLS) :: u32;
          entry = ucast (vmcs_get c fld_ENTRY_CTLS) :: u32;
          host_cr0 = vmcs_get c fld_HOST_CR0;
          host_cr4 = vmcs_get c fld_HOST_CR4;
          host_is_long = exit AND EXIT_HOST_ADDR_SPACE_SIZE \<noteq> 0
      in if pin AND NOT PIN_ALLOWED1 \<noteq> 0 \<or> cpu_ctl AND NOT CPU_ALLOWED1 \<noteq> 0 \<or>
            exit AND NOT EXIT_ALLOWED1 \<noteq> 0 \<or> entry AND NOT ENTRY_ALLOWED1 \<noteq> 0
         then Some vmerr_ENTRY_INVALID_CONTROLS
         else if cpu_ctl AND CPU_SECONDARY_CONTROLS \<noteq> 0 \<and>
            ucast (vmcs_get c fld_CPU_CTLS2) AND NOT CPU2_ALLOWED1 \<noteq> (0 :: u32)
         then Some vmerr_ENTRY_INVALID_CONTROLS
         else if host_cr0 AND CR0_FIXED0 \<noteq> CR0_FIXED0 \<or> host_cr4 AND CR4_FIXED0 \<noteq> CR4_FIXED0
         then Some vmerr_ENTRY_INVALID_HOST_STATE
         else if \<not> host_is_long \<and> drop_bit 32 (vmcs_get c fld_HOST_RIP) \<noteq> 0
         then Some vmerr_ENTRY_INVALID_HOST_STATE
         else None)"

section \<open>The instructions\<close>

definition exec_vmxon :: "cpu \<Rightarrow> modrm \<Rightarrow> cpu" where
  "exec_vmxon c m =
     (if cr4 c AND CR4_VMXE = 0 then raise_ud c
      else if vmx_on (c_vmx c) then vm_fail_valid c vmerr_VMXON_IN_ROOT
      else if feature_control (c_vmx c) AND FEAT_LOCKED = 0 \<or> feature_control (c_vmx c) AND FEAT_VMX_OUTSIDE_SMX = 0
        then raise_gp c 0
      else if ucast (cr0 c) AND CR0_FIXED0 \<noteq> CR0_FIXED0 then raise_gp c 0
      else
        (case read_ptr_operand c m of
           (None, c) \<Rightarrow> c
         | (Some p, c) \<Rightarrow>
             if bad_region_ptr p then vm_fail_invalid c
             else if read_u32 (c_mem c) p \<noteq> VMCS_REVISION then vm_fail_invalid c
             else vm_succeed (c\<lparr>c_vmx := (c_vmx c)\<lparr>vmx_on := True, vmxon_ptr := p, vmx_current := None\<rparr>\<rparr>)))"

definition exec_vmxoff :: "cpu \<Rightarrow> cpu" where
  "exec_vmxoff c =
     (let c = flush_vmcs c in vm_succeed (c\<lparr>c_vmx := (c_vmx c)\<lparr>vmx_on := False, vmx_current := None\<rparr>\<rparr>))"

definition exec_vmclear :: "cpu \<Rightarrow> modrm \<Rightarrow> cpu" where
  "exec_vmclear c m =
     (case read_ptr_operand c m of
        (None, c) \<Rightarrow> c
      | (Some p, c) \<Rightarrow>
          if bad_region_ptr p then vm_fail_valid c vmerr_VMCLEAR_BAD_ADDR
          else if p = vmxon_ptr (c_vmx c) then vm_fail_valid c vmerr_VMCLEAR_VMXON_PTR
          else if vmx_current (c_vmx c) = Some p then
            (let c = c\<lparr>c_vmx := set_launched (c_vmx c) False\<rparr>; c = flush_vmcs c
             in vm_succeed (c\<lparr>c_vmx := (c_vmx c)\<lparr>vmx_current := None\<rparr>\<rparr>))
          else vm_succeed (c\<lparr>c_mem := write_u64 (c_mem c) (p + 8 + of_nat LAUNCH_SLOT * 8) 0\<rparr>))"

definition exec_vmptrld :: "cpu \<Rightarrow> modrm \<Rightarrow> cpu" where
  "exec_vmptrld c m =
     (case read_ptr_operand c m of
        (None, c) \<Rightarrow> c
      | (Some p, c) \<Rightarrow>
          if bad_region_ptr p then vm_fail_valid c vmerr_VMPTRLD_BAD_ADDR
          else if p = vmxon_ptr (c_vmx c) then vm_fail_valid c vmerr_VMPTRLD_VMXON_PTR
          else if read_u32 (c_mem c) p \<noteq> VMCS_REVISION then vm_fail_valid c vmerr_VMPTRLD_BAD_REVISION
          else vm_succeed (if vmx_current (c_vmx c) \<noteq> Some p then load_vmcs (flush_vmcs c) p else c))"

definition exec_vmptrst :: "cpu \<Rightarrow> modrm \<Rightarrow> cpu" where
  "exec_vmptrst c m =
     (if is_reg m then raise_ud c
      else
        (let (a, c) = rm_addr c m True in
         if pending_exception c \<noteq> None then c
         else
           (let p = (case vmx_current (c_vmx c) of Some p \<Rightarrow> p | None \<Rightarrow> 0xFFFFFFFFFFFFFFFF)
            in vm_succeed (c\<lparr>c_mem := write_u64 (c_mem c) a p\<rparr>))))"

definition vm_width :: "cpu \<Rightarrow> nat" where "vm_width c = (if long64 c then 64 else 32)"

definition exec_vmread :: "cpu \<Rightarrow> modrm \<Rightarrow> u8 \<Rightarrow> cpu" where
  "exec_vmread c m r =
     (if vmx_current (c_vmx c) = None then vm_fail_invalid c
      else
        (let enc = ucast (reg_w c r 64) :: u32 in
         if vmcs_slot enc = None then vm_fail_valid c vmerr_VMREAD_WRITE_BAD_FIELD
         else
           (let c = write_rm_w c m (vm_width c) (vmcs_get c enc)
            in if pending_exception c \<noteq> None then c else vm_succeed c)))"

definition exec_vmwrite :: "cpu \<Rightarrow> modrm \<Rightarrow> u8 \<Rightarrow> cpu" where
  "exec_vmwrite c m r =
     (if vmx_current (c_vmx c) = None then vm_fail_invalid c
      else
        (let enc = ucast (reg_w c r 64) :: u32 in
         if vmcs_slot enc = None then vm_fail_valid c vmerr_VMREAD_WRITE_BAD_FIELD
         else if is_read_only enc then vm_fail_valid c vmerr_VMWRITE_READ_ONLY
         else
           (let (v, c) = read_rm_w c m (vm_width c)
            in if pending_exception c \<noteq> None then c else vm_succeed (vmcs_put c enc v))))"

definition exec_vmlaunch :: "cpu \<Rightarrow> vmx_op \<Rightarrow> cpu" where
  "exec_vmlaunch c p =
     (if vmx_current (c_vmx c) = None then vm_fail_invalid c
      else if p = Vmlaunch \<and> launched (c_vmx c) then vm_fail_valid c vmerr_VMLAUNCH_NOT_CLEAR
      else if p = Vmresume \<and> \<not> launched (c_vmx c) then vm_fail_valid c vmerr_VMRESUME_NOT_LAUNCHED
      else (case check_controls c of Some e \<Rightarrow> vm_fail_valid c e | None \<Rightarrow> vm_entry c))"

definition exec_invvpid :: "cpu \<Rightarrow> vmx_op \<Rightarrow> modrm \<Rightarrow> u8 \<Rightarrow> cpu" where
  "exec_invvpid c p m r =
     (if is_reg m then raise_ud c
      else if p = Invept \<or> reg_w c r 64 > 3 then vm_fail_valid c vmerr_INVALID_OPERAND
      else vm_succeed (flush_tlb c))"

definition execute_vmx :: "cpu \<Rightarrow> vmx_inst \<Rightarrow> cpu" where
  "execute_vmx c v =
     (let p = vi_op v in
      if p \<noteq> Vmxon \<and> \<not> vmx_on (c_vmx c) then raise_ud c
      else if cpl c \<noteq> 0 then raise_gp c 0
      else
        (case p of
           Vmxon \<Rightarrow> exec_vmxon c (vi_m v)
         | Vmxoff \<Rightarrow> exec_vmxoff c
         | Vmclear \<Rightarrow> exec_vmclear c (vi_m v)
         | Vmptrld \<Rightarrow> exec_vmptrld c (vi_m v)
         | Vmptrst \<Rightarrow> exec_vmptrst c (vi_m v)
         | Vmread \<Rightarrow> exec_vmread c (vi_m v) (vi_reg v)
         | Vmwrite \<Rightarrow> exec_vmwrite c (vi_m v) (vi_reg v)
         | Vmlaunch \<Rightarrow> exec_vmlaunch c p
         | Vmresume \<Rightarrow> exec_vmlaunch c p
         | Vmcall \<Rightarrow> vm_fail_valid c vmerr_VMCALL_IN_ROOT
         | Invept \<Rightarrow> exec_invvpid c p (vi_m v) (vi_reg v)
         | Invvpid \<Rightarrow> exec_invvpid c p (vi_m v) (vi_reg v)))"

end
