(* ===== verification/Vm_Intercept.thy ===== *)
theory Vm_Intercept imports Vm_Ops begin

text \<open>
  Which guest instructions exit (\<open>intercept\<close> of src/src/vmx.rs): the
  unconditional exits, the ones under a control bit, the shadowed control
  registers and the I/O and MSR bitmaps. A result \<open>True\<close> says the instruction
  was handled here and must not be executed.
\<close>

unbundle bit_operations_syntax

definition cr_qual :: "u8 \<Rightarrow> u32 \<Rightarrow> u8 \<Rightarrow> u32 \<Rightarrow> u64" where
  "cr_qual cr ty r lmsw = ucast cr OR push_bit 4 (ucast ty) OR push_bit 8 (ucast r) OR push_bit 16 (ucast lmsw)"

definition vmx_exit_reason :: "vmx_op \<Rightarrow> u32" where
  "vmx_exit_reason p =
     (case p of Vmcall \<Rightarrow> exit_VMCALL | Vmclear \<Rightarrow> exit_VMCLEAR | Vmlaunch \<Rightarrow> exit_VMLAUNCH
      | Vmptrld \<Rightarrow> exit_VMPTRLD | Vmptrst \<Rightarrow> exit_VMPTRST | Vmread \<Rightarrow> exit_VMREAD | Vmresume \<Rightarrow> exit_VMRESUME
      | Vmwrite \<Rightarrow> exit_VMWRITE | Vmxoff \<Rightarrow> exit_VMXOFF | Vmxon \<Rightarrow> exit_VMXON | Invept \<Rightarrow> exit_INVEPT
      | Invvpid \<Rightarrow> exit_INVVPID)"

text \<open>The closure \<open>exit\<close> of the code.\<close>

definition exit_with :: "cpu \<Rightarrow> u32 \<Rightarrow> u64 \<Rightarrow> bool \<times> cpu" where
  "exit_with c r q = (True, vm_exit c r q 0 0)"

definition exit_if :: "bool \<Rightarrow> cpu \<Rightarrow> u32 \<Rightarrow> u64 \<Rightarrow> bool \<times> cpu" where
  "exit_if b c r q = (if b then exit_with c r q else (False, c))"

section \<open>Control registers\<close>

text \<open>The current value, the mask and the shadow of CR0 or CR4.\<close>

definition cr_shadowed :: "cpu \<Rightarrow> u8 \<Rightarrow> u64 \<times> u64 \<times> u64" where
  "cr_shadowed c cr =
     (if cr = 0 then (ucast (cr0 c), vmcs_get c fld_CR0_GUEST_HOST_MASK, vmcs_get c fld_CR0_READ_SHADOW)
      else (ucast (cr4 c), vmcs_get c fld_CR4_GUEST_HOST_MASK, vmcs_get c fld_CR4_READ_SHADOW))"

definition cr3_is_target :: "cpu \<Rightarrow> u64 \<Rightarrow> bool" where
  "cr3_is_target c v \<longleftrightarrow>
     (\<exists>i \<in> set [0..<min (unat (vmcs_get c fld_CR3_TARGET_COUNT)) 4]. vmcs_get c (fld_CR3_TARGET0 + 2 * of_nat i) = v)"

definition cr_write_intercept :: "cpu \<Rightarrow> u8 \<Rightarrow> u8 \<Rightarrow> u32 \<Rightarrow> bool \<times> cpu" where
  "cr_write_intercept c cr r ctl =
     (let v = reg_w c r (cr_width c) in
      if cr = 3 then exit_if (ctl AND CPU_CR3_LOAD_EXITING \<noteq> 0 \<and> \<not> cr3_is_target c v) c exit_CR_ACCESS (cr_qual 3 0 r 0)
      else if cr = 8 then exit_if (ctl AND CPU_CR8_LOAD_EXITING \<noteq> 0) c exit_CR_ACCESS (cr_qual 8 0 r 0)
      else if cr = 0 \<or> cr = 4 then
        (case cr_shadowed c cr of (cur, msk, shadow) \<Rightarrow>
           if (v XOR shadow) AND msk \<noteq> 0 then exit_with c exit_CR_ACCESS (cr_qual cr 0 r 0)
           else
             (let new = (v AND NOT msk) OR (cur AND msk)
              in (True, if cr = 0 then write_cr0 c (ucast new) else flush_tlb (c\<lparr>cr4 := ucast new\<rparr>))))
      else (False, c))"

definition cr_read_intercept :: "cpu \<Rightarrow> u8 \<Rightarrow> u8 \<Rightarrow> u32 \<Rightarrow> bool \<times> cpu" where
  "cr_read_intercept c cr r ctl =
     (if cr = 3 \<and> ctl AND CPU_CR3_STORE_EXITING \<noteq> 0 then exit_with c exit_CR_ACCESS (cr_qual 3 1 r 0)
      else if cr = 8 \<and> ctl AND CPU_CR8_STORE_EXITING \<noteq> 0 then exit_with c exit_CR_ACCESS (cr_qual 8 1 r 0)
      else if cr = 0 \<or> cr = 4 then
        (case cr_shadowed c cr of (val, msk, shadow) \<Rightarrow>
           (True, set_reg_w c r (cr_width c) ((val AND NOT msk) OR (shadow AND msk))))
      else (False, c))"

definition clts_intercept :: "cpu \<Rightarrow> bool \<times> cpu" where
  "clts_intercept c =
     exit_if (vmcs_get c fld_CR0_GUEST_HOST_MASK AND 0x8 \<noteq> 0 \<and> vmcs_get c fld_CR0_READ_SHADOW AND 0x8 \<noteq> 0) c
       exit_CR_ACCESS (cr_qual 0 2 0 0)"

definition lmsw_intercept :: "cpu \<Rightarrow> modrm \<Rightarrow> bool \<times> cpu" where
  "lmsw_intercept c m =
     (let msk = vmcs_get c fld_CR0_GUEST_HOST_MASK; shadow = vmcs_get c fld_CR0_READ_SHADOW;
          (v16, c) = read_rm16 c m; v = ucast v16 :: u64
      in if pending_exception c \<noteq> None then (True, c)
         else
           (let new = (v AND 0xF) OR (ucast (cr0 c) AND 1); touched = (new XOR shadow) AND msk AND 0xF
            in exit_if (touched \<noteq> 0) c exit_CR_ACCESS
                 (cr_qual 0 3 0 (if is_reg m then 0 else 1) OR push_bit 16 (v AND 0xFFFF))))"

section \<open>Ports and MSRs\<close>

definition io_exits :: "cpu \<Rightarrow> u16 \<Rightarrow> u32 \<Rightarrow> bool" where
  "io_exits c port ctl =
     (if ctl AND CPU_UNCOND_IO_EXITING \<noteq> 0 then True
      else if ctl AND CPU_USE_IO_BITMAPS \<noteq> 0 then
        (let (bm, p) = (if port < 0x8000 then (vmcs_get c fld_IO_BITMAP_A, port)
                        else (vmcs_get c fld_IO_BITMAP_B, port - 0x8000));
             byte = read_u8 (c_mem c) (bm + ucast (p div 8))
         in drop_bit (unat (p mod 8)) byte AND 1 = 1)
      else False)"

definition io_intercept :: "cpu \<Rightarrow> u16 \<Rightarrow> u64 \<Rightarrow> bool \<Rightarrow> bool \<Rightarrow> u32 \<Rightarrow> bool \<times> cpu" where
  "io_intercept c port sz input imm ctl =
     exit_if (io_exits c port ctl) c exit_IO_INSTRUCTION
       ((sz - 1) OR push_bit 3 (bool_to input) OR push_bit 6 (bool_to imm) OR push_bit 16 (ucast port))"

definition msr_bitmap_hit :: "cpu \<Rightarrow> u32 \<Rightarrow> bool \<Rightarrow> bool" where
  "msr_bitmap_hit c idx w =
     (let bm = vmcs_get c fld_MSR_BITMAP in
      if idx < 0x2000 \<or> 0xC0000000 \<le> idx \<and> idx < 0xC0002000 then
        (let (base, off) = (if idx < 0x2000 then (0, idx) else (1024, idx - 0xC0000000));
             base = base + (if w then 2048 else 0);
             byte = read_u8 (c_mem c) (bm + base + ucast (off div 8))
         in drop_bit (unat (off mod 8)) byte AND 1 = 1)
      else True)"

definition msr_intercept :: "cpu \<Rightarrow> bool \<Rightarrow> u32 \<Rightarrow> bool \<times> cpu" where
  "msr_intercept c w ctl =
     exit_if (if ctl AND CPU_USE_MSR_BITMAPS \<noteq> 0 then msr_bitmap_hit c (ucast (regs c 1)) w else True) c
       (if w then exit_WRMSR else exit_RDMSR) 0"

section \<open>The dispatcher\<close>

definition system_intercept :: "cpu \<Rightarrow> system_inst \<Rightarrow> u32 \<Rightarrow> u32 \<Rightarrow> bool \<times> cpu" where
  "system_intercept c i ctl ctl2 =
     (case i of
        Cpuid \<Rightarrow> exit_with c exit_CPUID 0
      | Xsetbv \<Rightarrow> exit_with c exit_XSETBV 0
      | Invlpg m \<Rightarrow> exit_if (ctl AND CPU_INVLPG_EXITING \<noteq> 0) c exit_INVLPG (modrm_linear c m)
      | Rdtsc \<Rightarrow> exit_if (ctl AND CPU_RDTSC_EXITING \<noteq> 0) c exit_RDTSC 0
      | Rdtscp \<Rightarrow>
          (if ctl AND CPU_RDTSC_EXITING \<noteq> 0 then exit_with c exit_RDTSCP 0
           else if ctl2 AND CPU2_RDTSCP = 0 then (True, raise_ud c) else (False, c))
      | Rdmsr \<Rightarrow> msr_intercept c False ctl
      | Wrmsr \<Rightarrow> msr_intercept c True ctl
      | MovToCr cr r \<Rightarrow> cr_write_intercept c cr r ctl
      | MovCr cr r \<Rightarrow> cr_read_intercept c cr r ctl
      | Clts \<Rightarrow> clts_intercept c
      | Lmsw m \<Rightarrow> lmsw_intercept c m
      | MovDr d r \<Rightarrow>
          exit_if (ctl AND CPU_MOV_DR_EXITING \<noteq> 0) c exit_DR_ACCESS (ucast d OR push_bit 4 1 OR push_bit 8 (ucast r))
      | MovToDr d r \<Rightarrow>
          exit_if (ctl AND CPU_MOV_DR_EXITING \<noteq> 0) c exit_DR_ACCESS (ucast d OR push_bit 8 (ucast r))
      | _ \<Rightarrow> (False, c))"

definition idle_intercept :: "cpu \<Rightarrow> idle_inst \<Rightarrow> u32 \<Rightarrow> u32 \<Rightarrow> bool \<times> cpu" where
  "idle_intercept c i ctl ctl2 =
     (case i of
        Hlt \<Rightarrow> exit_if (ctl AND CPU_HLT_EXITING \<noteq> 0) c exit_HLT 0
      | Invd \<Rightarrow> exit_with c exit_INVD 0
      | Wbinvd \<Rightarrow> exit_if (ctl2 AND CPU2_WBINVD_EXITING \<noteq> 0) c exit_WBINVD 0
      | Mwait \<Rightarrow> exit_if (ctl AND CPU_MWAIT_EXITING \<noteq> 0) c exit_MWAIT 0
      | Monitor \<Rightarrow> exit_if (ctl AND CPU_MONITOR_EXITING \<noteq> 0) c exit_MONITOR 0
      | Pause \<Rightarrow> exit_if (ctl AND CPU_PAUSE_EXITING \<noteq> 0) c exit_PAUSE 0
      | _ \<Rightarrow> (False, c))"

definition port_intercept :: "cpu \<Rightarrow> io_inst \<Rightarrow> u32 \<Rightarrow> bool \<times> cpu" where
  "port_intercept c i ctl =
     (let wide = (if osize c = 16 then 2 else 4); dx = ucast (regs c 2) in
      case i of
        InAlImm p \<Rightarrow> io_intercept c (ucast p) 1 True True ctl
      | InAxImm p \<Rightarrow> io_intercept c (ucast p) wide True True ctl
      | OutImmAl p \<Rightarrow> io_intercept c (ucast p) 1 False True ctl
      | OutImmAx p \<Rightarrow> io_intercept c (ucast p) wide False True ctl
      | InAlDx \<Rightarrow> io_intercept c dx 1 True False ctl
      | InAxDx \<Rightarrow> io_intercept c dx wide True False ctl
      | OutDxAl \<Rightarrow> io_intercept c dx 1 False False ctl
      | OutDxAx \<Rightarrow> io_intercept c dx wide False False ctl)"

definition intercept :: "cpu \<Rightarrow> inst \<Rightarrow> bool \<times> cpu" where
  "intercept c i =
     (let ctl = ucast (vmcs_get c fld_CPU_CTLS) :: u32;
          ctl2 = (if ctl AND CPU_SECONDARY_CONTROLS \<noteq> 0 then ucast (vmcs_get c fld_CPU_CTLS2) else 0) :: u32
      in case i of
           I_Vmx v \<Rightarrow> exit_with c (vmx_exit_reason (vi_op v)) 0
         | I_System s \<Rightarrow> system_intercept c s ctl ctl2
         | I_Idle d \<Rightarrow> idle_intercept c d ctl ctl2
         | I_Io p \<Rightarrow> port_intercept c p ctl
         | _ \<Rightarrow> (False, c))"

end
