(* ===== verification/Machine.thy ===== *)
theory Machine imports Sse_Int Exec_Muldiv Exec_Flow Vm_Intercept begin

text \<open>
  The whole processor: \<open>execute\<close> of src/src/instructions.rs over every group of
  instructions, and \<open>step\<close> and \<open>run\<close> of src/src/cpu.rs. The value \<open>None\<close> is an
  execution the emulator does not survive: an endless prefix stream in the
  decoder, a division whose overflow panics, or a disk service past the image.
\<close>

unbundle bit_operations_syntax

definition execute :: "cpu \<Rightarrow> inst \<Rightarrow> cpu option" where
  "execute c i =
     (case i of
        I_Mov p \<Rightarrow> Some (exec_mov c p)
      | I_Moffs p \<Rightarrow> Some (exec_moffs c p)
      | I_Seg p \<Rightarrow> Some (exec_seg c p)
      | I_Data p \<Rightarrow> Some (exec_data c p)
      | I_Alu p \<Rightarrow> Some (exec_alu c p)
      | I_Unary p \<Rightarrow> Some (exec_unary c p)
      | I_Muldiv p \<Rightarrow> exec_muldiv c p
      | I_Bits p \<Rightarrow> Some (exec_bits c p)
      | I_Stack p \<Rightarrow> Some (exec_stack c p)
      | I_Flow p \<Rightarrow> exec_flow c p
      | I_String p \<Rightarrow> Some (exec_string c p)
      | I_System p \<Rightarrow> Some (exec_system c p)
      | I_Idle p \<Rightarrow> Some (exec_idle c p)
      | I_Io p \<Rightarrow> Some (exec_io c p)
      | I_Flag p \<Rightarrow> Some (exec_flag c p)
      | I_Fpu p \<Rightarrow> Some (exec_fpu c p)
      | I_Sse s \<Rightarrow> Some (execute_sse c s)
      | I_Vmx v \<Rightarrow> Some (execute_vmx c v)
      | Unknown opcode \<Rightarrow> Some (c\<lparr>pending_exception := Some (0x06, None)\<rparr>))"

section \<open>One instruction\<close>

text \<open>What precedes the decoder: the pending exception or an interrupt, then the start of the instruction.\<close>

definition step_events :: "cpu \<Rightarrow> cpu" where
  "step_events c =
     (let c = (if in_guest (c_vmx c) then pre_step c else c) in
      case pending_exception c of
        Some (vector, code) \<Rightarrow> dispatch_exception (c\<lparr>pending_exception := None\<rparr>) vector code
      | None \<Rightarrow> snd (deliver_hardware_interrupt c))"

definition step_begin :: "cpu \<Rightarrow> cpu" where
  "step_begin c =
     (let c = invalidate_phys_ip c;
          c = c\<lparr>rip_start := c_rip c, ip_start := c_ip c\<rparr>;
          c = c\<lparr>rip_mask := (if long64 c then 0xFFFFFFFFFFFFFFFF else 0xFFFFFFFF)\<rparr>;
          c = (if watch_store (c_mem c) \<noteq> None
               then c\<lparr>c_mem := (c_mem c)\<lparr>cur_eip := (if pe c then c_rip c else ucast (c_ip c))\<rparr>\<rparr> else c)
      in if cpl c = 3 then c\<lparr>user_instructions := user_instructions c + 1\<rparr> else c)"

text \<open>A fault while fetching suppresses the instruction; in a guest it may exit instead.\<close>

definition step_execute :: "cpu \<Rightarrow> inst \<Rightarrow> cpu option" where
  "step_execute c i =
     (if pending_exception c \<noteq> None then Some c
      else if in_guest (c_vmx c) then
        (let (handled, c) = intercept c i in if handled then Some c else execute c i)
      else execute c i)"

definition step_end :: "cpu \<Rightarrow> cpu" where
  "step_end c = c\<lparr>instructions_executed := instructions_executed c + 1, tsc := tsc c + 1\<rparr>"

definition step :: "cpu \<Rightarrow> (inst \<times> cpu) option" where
  "step c =
     (case decode (step_begin (step_events c)) of
        None \<Rightarrow> None
      | Some (i, c) \<Rightarrow> map_option (\<lambda>c. (i, step_end c)) (step_execute c i))"

section \<open>The run loop\<close>

definition type_keys :: "cpu \<Rightarrow> u8 list \<Rightarrow> u64 \<Rightarrow> cpu" where
  "type_keys c keys start = c\<lparr>key_script := key_script c @ scancodes_for keys, key_next := start\<rparr>"

text \<open>A halt nothing can end, and a turn of the idle loop.\<close>

definition stopped :: "cpu \<Rightarrow> bool" where
  "stopped c \<longleftrightarrow> halted c \<and> (triple_fault c \<or> \<not> get_flag c fIF)"

definition idle_turn :: "cpu \<Rightarrow> cpu" where
  "idle_turn c =
     (let c = step_end c; (woken, c) = deliver_hardware_interrupt c in if woken then c\<lparr>halted := False\<rparr> else c)"

definition turn :: "cpu \<Rightarrow> cpu option" where
  "turn c = (if halted c then Some (idle_turn c) else map_option snd (step c))"

fun run :: "nat \<Rightarrow> cpu \<Rightarrow> (nat \<times> cpu) option" where
  "run 0 c = Some (0, c)"
| "run (Suc k) c =
     (if stopped c then Some (0, c)
      else case turn c of None \<Rightarrow> None | Some c \<Rightarrow> map_option (apfst Suc) (run k c))"

end
