(* ===== verification/Boot.thy ===== *)
theory Boot imports Machine begin

text \<open>
  The loaders (src/src/boot.rs): the bzImage setup header, the ELF loaders for
  32 and 64 bits, the boot structures, and the entry into protected and long
  mode. A loader returns the machine with its error or its result; \<open>None\<close> is a
  panic of the code, an index past the end of the file.
\<close>

unbundle bit_operations_syntax

section \<open>Addresses\<close>

definition BOOT_PARAMS_ADDR :: usize where [simp]: "BOOT_PARAMS_ADDR = 0x90000"
definition GDT_ADDR :: usize where [simp]: "GDT_ADDR = 0x1000"
definition CMDLINE_ADDR :: usize where [simp]: "CMDLINE_ADDR = 0x20000"
definition KERNEL_CS :: u16 where [simp]: "KERNEL_CS = 0x08"
definition KERNEL_DS :: u16 where [simp]: "KERNEL_DS = 0x10"
definition GDT64_ADDR :: usize where [simp]: "GDT64_ADDR = 0x1800"
definition PML4_ADDR :: usize where [simp]: "PML4_ADDR = 0x2000"
definition PDPT_ADDR :: usize where [simp]: "PDPT_ADDR = 0x3000"
definition PD_ADDR :: usize where [simp]: "PD_ADDR = 0x4000"
definition KERNEL_CS64 :: u16 where [simp]: "KERNEL_CS64 = 0x08"
definition KERNEL_DS64 :: u16 where [simp]: "KERNEL_DS64 = 0x10"
definition IDENTITY_MAP_BYTES :: u64 where [simp]: "IDENTITY_MAP_BYTES = 0x100000000"

text \<open>Offsets of the setup header in the file, and of the fields of \<open>boot_params\<close>.\<close>

definition SETUP_SECTS :: nat where [simp]: "SETUP_SECTS = 0x1F1"
definition BP_HDR :: usize where [simp]: "BP_HDR = 0x1F1"

text \<open>The field of \<open>boot_params.hdr\<close> for an offset of the setup header.\<close>

definition hdr_field :: "usize \<Rightarrow> usize" where "hdr_field off = BOOT_PARAMS_ADDR + BP_HDR + (off - 0x1F1)"

section \<open>The setup header of a bzImage\<close>

record kernel_info =
  setup_sects :: nat
  syssize :: u32
  code32_start :: u32
  loadflags :: u8
  relocatable :: bool
  kernel_alignment :: u32
  pref_address :: u64
  init_size :: u32
  kernel_offset :: nat
  kernel_len :: nat

datatype boot_error =
  Image_too_small | Bad_boot_flag u16 | Bad_magic | Kernel_too_small nat nat nat
  | Not_elf | Not_elf64 | No_program_headers | Table_past_end | Segment_past_end

definition le16 :: "u8 list \<Rightarrow> nat \<Rightarrow> u16" where "le16 b off = join16 (b ! off) (b ! (off + 1))"
definition le32 :: "u8 list \<Rightarrow> nat \<Rightarrow> u32" where
  "le32 b off = join32 (b ! off) (b ! (off + 1)) (b ! (off + 2)) (b ! (off + 3))"
definition le64 :: "u8 list \<Rightarrow> nat \<Rightarrow> u64" where
  "le64 b off = ucast (le32 b off) OR push_bit 32 (ucast (le32 b (off + 4)))"

definition parse_bzimage :: "u8 list \<Rightarrow> boot_error + kernel_info" where
  "parse_bzimage im =
     (if length im < 0x260 then Inl Image_too_small
      else if le16 im 0x1FE \<noteq> 0xAA55 then Inl (Bad_boot_flag (le16 im 0x1FE))
      else if le32 im 0x202 \<noteq> 0x53726448 then Inl Bad_magic
      else
        (let sects = unat (im ! SETUP_SECTS); units = le32 im 0x1F4;
             offset = (sects + 1) * 512; len = unat units * 16
         in if length im < offset + len then Inl (Kernel_too_small len offset (length im))
            else Inr \<lparr>setup_sects = sects, syssize = units, code32_start = le32 im 0x214, loadflags = im ! 0x211,
              relocatable = (im ! 0x232 \<noteq> 0), kernel_alignment = le32 im 0x22E, pref_address = le64 im 0x250,
              init_size = le32 im 0x258, kernel_offset = offset, kernel_len = len\<rparr>))"

section \<open>The boot structures\<close>

definition write_gdt :: "memory \<Rightarrow> memory" where
  "write_gdt m =
     (let m = write_u64 m GDT_ADDR 0; m = write_u64 m (GDT_ADDR + 8) 0x00CF9A000000FFFF
      in write_u64 m (GDT_ADDR + 16) 0x00CF92000000FFFF)"

definition write_screen_info :: "memory \<Rightarrow> memory" where
  "write_screen_info m =
     (let bp = BOOT_PARAMS_ADDR;
          m = write_u8 m (bp + 0x00) 0;
          m = write_u8 m (bp + 0x01) 0;
          m = write_u16 m (bp + 0x04) 0;
          m = write_u8 m (bp + 0x06) 0x03;
          m = write_u8 m (bp + 0x07) (of_nat SCREEN_COLS);
          m = write_u16 m (bp + 0x0A) 3;
          m = write_u8 m (bp + 0x0E) (of_nat SCREEN_ROWS);
          m = write_u8 m (bp + 0x0F) 0x22
      in write_u16 m (bp + 0x10) 16)"

fun write_e820_entries :: "memory \<Rightarrow> usize \<Rightarrow> (u64 \<times> u64 \<times> u32) list \<Rightarrow> memory" where
  "write_e820_entries m e [] = m"
| "write_e820_entries m e ((base, len, typ) # es) =
     write_e820_entries (write_u32 (write_u64 (write_u64 m e base) (e + 8) len) (e + 16) typ) (e + 20) es"

definition write_e820 :: "memory \<Rightarrow> memory" where
  "write_e820 m =
     (let entries = e820 m;
          m = write_e820_entries m (BOOT_PARAMS_ADDR + 0x2D0) entries;
          m = write_u8 m (BOOT_PARAMS_ADDR + 0x1E8) (of_nat (length entries));
          low = min (ram_size m) MMIO_HOLE_START;
          ext_kb = (if low > 0x100000 then low - 0x100000 else 0) div 1024
      in write_u32 m (BOOT_PARAMS_ADDR + 0x1E0) (ucast ext_kb))"

definition write_cmdline :: "memory \<Rightarrow> u8 list \<Rightarrow> memory" where
  "write_cmdline m cl =
     (let n = min (length cl) 1023; m = mem_load m CMDLINE_ADDR (take n cl)
      in write_u8 m (CMDLINE_ADDR + of_nat n) 0)"

text \<open>The initial ramdisk, as high in low memory as it goes.\<close>

definition write_initrd :: "memory \<Rightarrow> u8 list \<Rightarrow> memory" where
  "write_initrd m rd =
     (let hi = min (ram_size m) MMIO_HOLE_START;
          addr = ucast ((hi - of_nat (length rd)) AND NOT 0xFFF) :: u32;
          m = mem_load m (ucast addr) rd;
          m = write_u32 m (hdr_field 0x218) addr
      in write_u32 m (hdr_field 0x21C) (of_nat (length rd)))"

section \<open>Long mode\<close>

definition write_gdt64 :: "memory \<Rightarrow> memory" where
  "write_gdt64 m =
     (let m = write_u64 m GDT64_ADDR 0; m = write_u64 m (GDT64_ADDR + 8) 0x00AF9A000000FFFF
      in write_u64 m (GDT64_ADDR + 16) 0x00CF92000000FFFF)"

text \<open>A table of 512 entries, or of the first n: \<open>f i\<close> at index \<open>i\<close>.\<close>

fun write_table :: "memory \<Rightarrow> usize \<Rightarrow> (nat \<Rightarrow> u64) \<Rightarrow> nat \<Rightarrow> memory" where
  "write_table m a f 0 = m"
| "write_table m a f (Suc n) = write_u64 (write_table m a f n) (a + of_nat (n * 8)) (f n)"

definition identity_gibs :: nat where [simp]: "identity_gibs = 4"

definition present_rw :: u64 where [simp]: "present_rw = pte_P OR pte_RW"

fun write_directories :: "memory \<Rightarrow> nat \<Rightarrow> memory" where
  "write_directories m 0 = m"
| "write_directories m (Suc g) =
     write_table (write_directories m g) (PD_ADDR + of_nat g * 0x1000)
       (\<lambda>i. (of_nat g * 0x40000000 + of_nat i * 0x200000) OR present_rw OR pte_PS) 512"

definition build_identity_map :: "memory \<Rightarrow> memory" where
  "build_identity_map m =
     (let m = write_table m PML4_ADDR (\<lambda>_. 0) 512;
          m = write_u64 m PML4_ADDR (PDPT_ADDR OR present_rw);
          m = write_table m PDPT_ADDR
                (\<lambda>i. if i < identity_gibs then (PD_ADDR + of_nat i * 0x1000) OR present_rw else 0) 512
      in write_directories m identity_gibs)"

text \<open>The data segments of both modes.\<close>

definition load_flat_segments :: "cpu \<Rightarrow> u16 \<Rightarrow> u16 \<Rightarrow> cpu" where
  "load_flat_segments c cs ds =
     (let c = load_seg c Cs cs; c = load_seg c Ds ds; c = load_seg c Es ds; c = load_seg c Ss ds;
          c = load_seg c Fs ds
      in load_seg c Gs ds)"

definition enter_long_mode :: "cpu \<Rightarrow> u64 \<Rightarrow> u64 \<Rightarrow> cpu" where
  "enter_long_mode c entry stack =
     (let c = c\<lparr>c_mem := build_identity_map (write_gdt64 (c_mem c))\<rparr>;
          c = c\<lparr>gdt_base := GDT64_ADDR, gdt_limit := 23\<rparr>;
          c = c\<lparr>cr4 := cr4 c OR CR4_PAE, cr3 := PML4_ADDR\<rparr>;
          c = c\<lparr>efer := efer c OR (efer_LME OR efer_NXE OR efer_SCE)\<rparr>;
          c = c\<lparr>pe := True, cr0 := cr0 c OR (CR0_PE OR CR0_PG OR CR0_WP)\<rparr>;
          c = flush_tlb (update_long_mode c);
          c = load_flat_segments c KERNEL_CS64 KERNEL_DS64;
          c = set_rsp c stack;
          c = set_flag (c\<lparr>c_rip := entry\<rparr>) fIF False
      in invalidate_phys_ip (c\<lparr>halted := False\<rparr>))"

section \<open>ELF images\<close>

text \<open>The byte loops of a segment: \<open>n\<close> bytes of the file from index \<open>src\<close>, and \<open>n\<close> zero bytes.\<close>

fun copy_in :: "memory \<Rightarrow> u8 list \<Rightarrow> usize \<Rightarrow> usize \<Rightarrow> nat \<Rightarrow> memory option" where
  "copy_in m f dst src 0 = Some m"
| "copy_in m f dst src (Suc n) =
     (if unat src < length f then copy_in (write_u8 m dst (f ! unat src)) f (dst + 1) (src + 1) n else None)"

fun zero_fill :: "memory \<Rightarrow> usize \<Rightarrow> nat \<Rightarrow> memory" where
  "zero_fill m dst 0 = m"
| "zero_fill m dst (Suc n) = zero_fill (write_u8 m dst 0) (dst + 1) n"

definition load_segment :: "memory \<Rightarrow> u8 list \<Rightarrow> usize \<Rightarrow> usize \<Rightarrow> usize \<Rightarrow> usize \<Rightarrow> memory option" where
  "load_segment m f offset paddr filesz memsz =
     map_option (\<lambda>m. zero_fill m (paddr + filesz) (unat memsz - unat filesz)) (copy_in m f paddr offset (unat filesz))"

text \<open>The program headers of a 64-bit file: the memory, and the end of the highest segment or an error.\<close>

fun load_segments64 :: "memory \<Rightarrow> u8 list \<Rightarrow> usize \<Rightarrow> usize \<Rightarrow> nat \<Rightarrow> u64 \<Rightarrow> (memory \<times> (boot_error + u64)) option" where
  "load_segments64 m f off esz 0 hi = Some (m, Inr hi)"
| "load_segments64 m f off esz (Suc n) hi =
     (if off + 56 > of_nat (length f) then Some (m, Inl Table_past_end)
      else if length f < unat off + 56 then None
      else
        (let h = unat off; p_type = le32 f h; p_offset = le64 f (h + 8); p_paddr = le64 f (h + 24);
             p_filesz = le64 f (h + 32); p_memsz = le64 f (h + 40)
         in if p_type \<noteq> 1 then load_segments64 m f (off + esz) esz n hi
            else if p_offset + p_filesz > of_nat (length f) then Some (m, Inl Segment_past_end)
            else
              (case load_segment m f p_offset p_paddr p_filesz p_memsz of
                 None \<Rightarrow> None
               | Some m \<Rightarrow> load_segments64 m f (off + esz) esz n (max hi (p_paddr + p_memsz)))))"

text \<open>\<open>b"\x7fELF"\<close>.\<close>

definition elf_magic :: "u8 list" where "elf_magic = [0x7F, 0x45, 0x4C, 0x46]"

definition boot_structures :: "memory \<Rightarrow> u8 list \<Rightarrow> memory" where
  "boot_structures m cl =
     (let m = write_cmdline (write_e820 (write_screen_info m)) cl;
          m = write_u32 m (hdr_field 0x228) (ucast CMDLINE_ADDR)
      in write_u8 m (hdr_field 0x210) 0xFF)"

definition load_elf64_kernel ::
  "cpu \<Rightarrow> u8 list \<Rightarrow> u8 list \<Rightarrow> u8 list option \<Rightarrow> (cpu \<times> (boot_error + u64)) option" where
  "load_elf64_kernel c f cmdline initrd =
     (if length f < 64 \<or> take 4 f \<noteq> elf_magic then Some (c, Inl Not_elf)
      else if f ! 4 \<noteq> 2 then Some (c, Inl Not_elf64)
      else
        (let e_entry = le64 f 24; e_phoff = le64 f 32; e_phentsize = le16 f 54; e_phnum = le16 f 56
         in if e_phnum = 0 \<or> e_phentsize < 56 then Some (c, Inl No_program_headers)
            else
              (case load_segments64 (c_mem c) f e_phoff (ucast e_phentsize) (unat e_phnum) 0 of
                 None \<Rightarrow> None
               | Some (m, Inl e) \<Rightarrow> Some (c\<lparr>c_mem := m\<rparr>, Inl e)
               | Some (m, Inr hi) \<Rightarrow>
                   (let m = boot_structures m cmdline;
                        m = (case initrd of Some rd \<Rightarrow> write_initrd m rd | None \<Rightarrow> m);
                        stack = min ((max hi 0x100000 + 0x100000) AND NOT 0xFFF) (IDENTITY_MAP_BYTES - 0x1000);
                        c = enter_long_mode (c\<lparr>c_mem := m\<rparr>) e_entry stack
                    in Some (set_reg64_raw c 6 BOOT_PARAMS_ADDR, Inr e_entry)))))"

definition load_flat64 :: "cpu \<Rightarrow> u8 list \<Rightarrow> u64 \<Rightarrow> cpu" where
  "load_flat64 c code addr =
     (let c = c\<lparr>c_mem := mem_load (c_mem c) addr code\<rparr>;
          stack = min ((addr + of_nat (length code) + 0x10000) AND NOT 0xFFF) (IDENTITY_MAP_BYTES - 0x1000)
      in enter_long_mode c addr stack)"

fun load_segments32 :: "memory \<Rightarrow> u8 list \<Rightarrow> usize \<Rightarrow> usize \<Rightarrow> nat \<Rightarrow> memory option" where
  "load_segments32 m f off esz 0 = Some m"
| "load_segments32 m f off esz (Suc n) =
     (if length f < unat off + 24 then None
      else
        (let h = unat off; p_type = le32 f h; p_offset = ucast (le32 f (h + 4)); p_paddr = ucast (le32 f (h + 12));
             p_filesz = ucast (le32 f (h + 16)); p_memsz = ucast (le32 f (h + 20))
         in if p_type \<noteq> 1 then load_segments32 m f (off + esz) esz n
            else
              (case load_segment m f p_offset p_paddr p_filesz p_memsz of
                 None \<Rightarrow> None
               | Some m \<Rightarrow> load_segments32 m f (off + esz) esz n)))"

section \<open>Protected mode\<close>

definition set_esi :: "cpu \<Rightarrow> u32 \<Rightarrow> cpu" where "set_esi c v = c\<lparr>regs := (regs c)(6 := ucast v)\<rparr>"

text \<open>What every 32-bit loader does once memory is ready.\<close>

definition enter_flat_mode :: "cpu \<Rightarrow> cpu" where
  "enter_flat_mode c =
     (let c = c\<lparr>c_mem := write_gdt (c_mem c)\<rparr>;
          c = c\<lparr>gdt_base := GDT_ADDR, gdt_limit := 24, pe := True, cr0 := cr0 c OR 1\<rparr>;
          c = load_flat_segments c KERNEL_CS KERNEL_DS;
          c = set_esp c 0x8FFF0;
          c = set_esi c (ucast BOOT_PARAMS_ADDR)
      in set_flag c fIF False)"

definition setup_protected_mode_inner :: "cpu \<Rightarrow> u8 list \<Rightarrow> cpu" where
  "setup_protected_mode_inner c cmdline = enter_flat_mode (c\<lparr>c_mem := boot_structures (c_mem c) cmdline\<rparr>)"

definition setup_protected_mode_with_initrd :: "cpu \<Rightarrow> u8 list \<Rightarrow> u8 list option \<Rightarrow> cpu" where
  "setup_protected_mode_with_initrd c cmdline initrd =
     (let c = (case initrd of Some rd \<Rightarrow> c\<lparr>c_mem := write_initrd (c_mem c) rd\<rparr> | None \<Rightarrow> c)
      in setup_protected_mode_inner c cmdline)"

definition load_elf_kernel_with_initrd ::
  "cpu \<Rightarrow> u8 list \<Rightarrow> u8 list \<Rightarrow> u8 list option \<Rightarrow> (cpu \<times> (boot_error + u32)) option" where
  "load_elf_kernel_with_initrd c f cmdline initrd =
     (if length f < 52 \<or> take 4 f \<noteq> elf_magic then Some (c, Inl Not_elf)
      else
        (let e_entry = le32 f 24; e_phoff = le32 f 28; e_phentsize = le16 f 42; e_phnum = le16 f 44
         in if e_phnum = 0 \<or> e_phentsize < 32 then Some (c, Inl No_program_headers)
            else
              (case load_segments32 (c_mem c) f (ucast e_phoff) (ucast e_phentsize) (unat e_phnum) of
                 None \<Rightarrow> None
               | Some m \<Rightarrow>
                   (let c = setup_protected_mode_with_initrd (c\<lparr>c_mem := m\<rparr>) cmdline initrd
                    in Some ((set_eip c e_entry)\<lparr>halted := False\<rparr>, Inr e_entry)))))"

definition load_elf_kernel :: "cpu \<Rightarrow> u8 list \<Rightarrow> u8 list \<Rightarrow> (cpu \<times> (boot_error + u32)) option" where
  "load_elf_kernel c f cmdline = load_elf_kernel_with_initrd c f cmdline None"

section \<open>bzImage kernels\<close>

text \<open>The copy of the setup header, from file offset 0x1F1, and its patched fields.\<close>

definition write_setup_header :: "memory \<Rightarrow> u8 list \<Rightarrow> u32 \<Rightarrow> memory" where
  "write_setup_header m im start =
     (let m = mem_load m (BOOT_PARAMS_ADDR + BP_HDR) (take 0xEC (drop SETUP_SECTS im));
          m = write_u8 m (hdr_field 0x210) 0xFF;
          m = write_u8 m (hdr_field 0x211) (read_u8 m (hdr_field 0x211) OR 0x01);
          m = write_u32 m (hdr_field 0x214) start
      in write_u32 m (hdr_field 0x228) (ucast CMDLINE_ADDR))"

definition load_kernel :: "cpu \<Rightarrow> u8 list \<Rightarrow> u8 list \<Rightarrow> (cpu \<times> (boot_error + kernel_info)) option" where
  "load_kernel c im cmdline =
     (case parse_bzimage im of
        Inl e \<Rightarrow> Some (c, Inl e)
      | Inr info \<Rightarrow>
          if length im < SETUP_SECTS + 0xEC then None
          else
            (let m = mem_load (c_mem c) (ucast (code32_start info))
                       (take (kernel_len info) (drop (kernel_offset info) im));
                 m = write_setup_header m im (code32_start info);
                 m = write_e820 (write_cmdline m cmdline);
                 c = set_eip (enter_flat_mode (c\<lparr>c_mem := m\<rparr>)) (code32_start info)
             in Some (c\<lparr>halted := False\<rparr>, Inr info)))"

end
