(* ===== verification/System_Laws.thy ===== *)
theory System_Laws imports Exec_Laws begin

text \<open>
  Control transfers that come in pairs: SYSRET undoes SYSCALL, and IRET undoes
  the delivery of an interrupt in real mode.
\<close>

unbundle bit_operations_syntax

section \<open>System calls\<close>

lemma descriptor_cong:
  "c_mem d = c_mem c \<Longrightarrow> gdt_base d = gdt_base c \<Longrightarrow> ldt_base d = ldt_base c \<Longrightarrow> cr0 d = cr0 c \<Longrightarrow> cr3 d = cr3 c \<Longrightarrow>
   cr4 d = cr4 c \<Longrightarrow> efer d = efer c \<Longrightarrow> descriptor_for d s = descriptor_for c s"
  by (simp add: descriptor_for_def Let_def linear_to_phys_ro_def cpu_walk_def cpu_paging_mode_def cpu_nxe_def long_mode_def)

lemma descriptor_frame:
  "descriptor_for (c\<lparr>regs := r\<rparr>) s = descriptor_for c s" "descriptor_for (c\<lparr>c_rip := p\<rparr>) s = descriptor_for c s"
  "descriptor_for (c\<lparr>c_flags := f\<rparr>) s = descriptor_for c s" "descriptor_for (c\<lparr>c_cs := a\<rparr>) s = descriptor_for c s"
  "descriptor_for (c\<lparr>c_ss := a\<rparr>) s = descriptor_for c s" "descriptor_for (c\<lparr>seg_desc := e\<rparr>) s = descriptor_for c s"
  "descriptor_for (c\<lparr>phys_ip_valid := v\<rparr>) s = descriptor_for c s"
  "descriptor_for (c\<lparr>ring_switches := n\<rparr>) s = descriptor_for c s"
  by (rule descriptor_cong; simp)+

lemma load_seg_eq:
  "load_seg c Cs s = c\<lparr>c_cs := s, seg_desc := (if pe c then (seg_desc c)(Cs := descriptor_for c s) else seg_desc c),
     phys_ip_valid := False\<rparr>"
  "load_seg c Ss s = c\<lparr>c_ss := s, seg_desc := (if pe c then (seg_desc c)(Ss := descriptor_for c s) else seg_desc c)\<rparr>"
  by (simp_all add: load_seg_def set_seg_def Let_def invalidate_phys_ip_def)

lemma flags_restored:
  assumes "f AND NOT fWRITABLE = fALWAYS_SET"
  shows "write_flags (f AND NOT m OR fALWAYS_SET) f = f"
proof (rule bit_word_eqI)
  fix n assume "n < LENGTH(32)"
  have "bit (f AND NOT fWRITABLE) n = bit fALWAYS_SET n" by (simp only: assms)
  then show "bit (write_flags (f AND NOT m OR fALWAYS_SET) f) n = bit f n"
    using \<open>n < LENGTH(32)\<close>
    by (auto simp: write_flags_def bit_simps simp del: fWRITABLE_def fALWAYS_SET_def)
qed

lemma sysret_syscall:
  assumes "efer c AND efer_SCE \<noteq> 0" "c_flags c AND NOT fWRITABLE = fALWAYS_SET"
  defines "user \<equiv> (ucast (drop_bit 48 (star c)) :: u16)"
  defines "cs \<equiv> (if rex_w c then user + 16 else user) OR 3" and "ss \<equiv> (user + 8) OR 3"
  shows "exec_sysret (exec_syscall c) =
    c\<lparr>regs := (regs c)(1 := c_rip c, 11 := ucast (c_flags c)), c_cs := cs, c_ss := ss,
      seg_desc := (if pe c then (seg_desc c)(Cs := descriptor_for c cs, Ss := descriptor_for c ss) else seg_desc c),
      phys_ip_valid := False, ring_switches := ring_switches c + 1\<rparr>"
proof -
  have [simp]: "ucast (drop_bit 48 (star c) AND 0xFFFF) = user"
    unfolding user_def by (rule bit_word_eqI) (simp add: bit_simps view_masks)
  define k where "k = (drop_bit 32 (star c) AND 0xFFFF)"
  define kcs kss where "kcs = (ucast k AND 0xFFFC :: u16)" and "kss = kcs + 8"
  define g where "g = c_flags c AND NOT (ucast (sfmask c)) OR fALWAYS_SET"
  define D where "D = (if pe c then (seg_desc c)(Cs := descriptor_for c kcs, Ss := descriptor_for c kss) else seg_desc c)"
  have call: "exec_syscall c = c\<lparr>regs := (regs c)(1 := c_rip c, 11 := ucast (c_flags c)), c_flags := g,
      c_cs := kcs, c_ss := kss, seg_desc := D, c_rip := lstar c, phys_ip_valid := False,
      ring_switches := ring_switches c + 1\<rparr>" (is "_ = ?k")
    using assms(1) unfolding exec_syscall_def
    by (simp add: Let_def load_seg_eq set_reg64_raw_def ridx_def descriptor_frame invalidate_phys_ip_def
        D_def kcs_def kss_def k_def [symmetric] g_def del: fALWAYS_SET_def)
  have w: "write_flags g (c_flags c) = c_flags c"
    unfolding g_def by (rule flags_restored [OF assms(2)])
  have u: "ucast (ucast (c_flags c) :: u64) = c_flags c"
    by (rule bit_word_eqI) (simp add: bit_simps)
  show ?thesis
    unfolding call
    by (rule cpu.equality) (simp_all add: exec_sysret_def Let_def load_seg_eq reg64_def ridx_def
        invalidate_phys_ip_def cs_def ss_def descriptor_frame D_def u w)
qed

text \<open>C7: A SYSRET undoes a SYSCALL: with system calls enabled and the reserved flag bits as the
  architecture has them, the pair returns to the instruction after the call with the flags it had,
  every register but RCX and R11, the memory, the modes and the pending exception as before, and CS
  and SS at the user selectors of STAR with privilege level 3 and, in protected mode, their descriptors.\<close>

theorem sysret_undoes_syscall:
  assumes "efer c AND efer_SCE \<noteq> 0" "c_flags c AND NOT fWRITABLE = fALWAYS_SET"
  shows "let user = ucast (drop_bit 48 (star c)) :: u16;
        cs = (if rex_w c then user + 16 else user) OR 3; ss = (user + 8) OR 3
      in exec_sysret (exec_syscall c) =
        c\<lparr>regs := (regs c)(1 := c_rip c, 11 := ucast (c_flags c)), c_cs := cs, c_ss := ss,
          seg_desc := (if pe c then (seg_desc c)(Cs := descriptor_for c cs, Ss := descriptor_for c ss) else seg_desc c),
          phys_ip_valid := False, ring_switches := ring_switches c + 1\<rparr>"
  unfolding Let_def by (rule sysret_syscall [OF assms])

theorem sysret_undoes_syscall_witness:
  "c_rip (exec_sysret (exec_syscall (small_machine\<lparr>efer := 1, c_rip := 0x7C00, lstar := 0x1000, star := 0x23\<rparr>))) = 0x7C00"
  using sysret_undoes_syscall [of "small_machine\<lparr>efer := 1, c_rip := 0x7C00, lstar := 0x1000, star := 0x23\<rparr>"]
  by (simp add: small_machine_def cpu_with_ram_def)

section \<open>Interrupts in real mode\<close>

lemma reg_put16_low: "ucast (reg_put16 r v) = (ucast v :: u16)"
  by (rule bit_word_eqI) (auto simp: reg_put16_def bit_simps view_masks dest: bit_imp_le_length)

lemma reg_put16_twice: "reg_put16 (reg_put16 r v) w = reg_put16 r w" "reg_put16 r (ucast (ucast r :: u16)) = r"
  by (rule bit_word_eqI, auto simp: reg_put16_def bit_simps view_masks dest: bit_imp_le_length)+

text \<open>Offsets of one segment name distinct addresses, and even ones even addresses.\<close>

lemma mem_phys_unat: "unat (mem_phys s a) = (16 * unat s + unat a) mod 2 ^ 20"
proof -
  define n where "n = 16 * unat s + unat a"
  have "unat s < 2 ^ 16" "unat a < 2 ^ 16"
    using unsigned_less [where 'b = 16 and 'a = nat, of s] unsigned_less [where 'b = 16 and 'a = nat, of a] by simp_all
  then have n: "unat (of_nat n :: u32) = n" unfolding unat_of_nat by (intro mod_less) (simp add: n_def)
  have w: "ucast x = (of_nat (unat x) :: u32)" for x :: u16 by simp
  have e: "push_bit 4 (ucast s) + ucast a = (of_nat n :: u32)"
    unfolding w n_def by (simp add: push_bit_eq_mult del: of_nat_unat)
  have "unat (ucast (of_nat n :: u32) AND mask 20 :: u64) = n mod 2 ^ 20"
    unfolding take_bit_eq_mask [symmetric] unsigned_take_bit_eq
    using unat_ucast_up [of "of_nat n :: u32", where 'b = 64] n by (simp add: take_bit_eq_mod)
  moreover have "mask 20 = (0xFFFFF :: u64)" by (simp add: mask_eq_exp_minus_1)
  ultimately show ?thesis unfolding mem_phys_def e n_def by simp
qed

lemma offset_le:
  fixes a b k :: nat
  assumes "(k + a) mod 1048576 = (k + b) mod 1048576" "b \<le> a" "a < 65536"
  shows "a = b"
proof (rule ccontr)
  assume "a \<noteq> b"
  then have "0 < a - b" using assms(2) by simp
  have "1048576 dvd (k + a) - (k + b)" using assms(1,2) by (metis add_le_cancel_left mod_eq_dvd_iff_nat)
  then have "1048576 dvd a - b" by simp
  then have "1048576 \<le> a - b" using \<open>0 < a - b\<close> by (rule dvd_imp_le)
  then show False using assms(3) by simp
qed

lemma mem_phys_inj: "mem_phys s a = mem_phys s b \<longleftrightarrow> a = b"
proof
  assume "mem_phys s a = mem_phys s b"
  then have m: "(16 * unat s + unat a) mod 1048576 = (16 * unat s + unat b) mod 1048576"
    using mem_phys_unat [of s a] mem_phys_unat [of s b] by simp
  have "unat a < 65536" "unat b < 65536"
    using unsigned_less [where 'b = 16 and 'a = nat, of a] unsigned_less [where 'b = 16 and 'a = nat, of b] by simp_all
  then have "unat a = unat b"
    using offset_le [OF m] offset_le [OF m [symmetric]] by (metis nat_le_linear)
  then show "a = b" by (rule unsigned_word_eqI)
qed simp

lemma mem_phys_even: "2 dvd unat (mem_phys s a) \<longleftrightarrow> 2 dvd unat a"
proof -
  have "2 dvd (16 * x + y) mod 2 ^ 20 \<longleftrightarrow> 2 dvd y" for x y :: nat
    by (subst dvd_mod_iff) simp_all
  then show ?thesis by (simp only: mem_phys_unat)
qed

lemma wide16: "ucast (ucast (x :: u16) :: u64) = x"
  by (rule bit_word_eqI) (simp add: bit_simps)

lemma real_push:
  "\<not> pe c \<Longrightarrow> push16 c v = c\<lparr>regs := (regs c)(4 := reg_put16 (regs c 4) (ucast (c_sp c - 2))),
     c_mem := write_u16 (c_mem c) (mem_phys (c_ss c) (c_sp c - 2)) v\<rparr>"
  by (simp add: push16_def push_w_def Let_def stack_store_def set_sp_def set_reg_w_raw_def ridx_def c_sp_def reg_put16_low wide16)

lemma real_pop:
  "\<not> pe c \<Longrightarrow> pop16 c = (read_u16 (c_mem c) (mem_phys (c_ss c) (c_sp c)),
     c\<lparr>regs := (regs c)(4 := reg_put16 (regs c 4) (ucast (c_sp c + 2)))\<rparr>)"
  by (simp add: pop16_def pop_w_def Let_def stack_load_def set_sp_def set_reg_w_raw_def ridx_def c_sp_def wide16)

text \<open>Three words stored at distinct even addresses are read back.\<close>

lemma three_words:
  fixes m :: memory and x y z :: usize and a b d :: u16
  assumes "mem_wf m" "2 dvd unat x" "2 dvd unat y" "2 dvd unat z" "x \<noteq> y" "x \<noteq> z" "y \<noteq> z"
    "backed m x" "backed m y" "backed m z"
  defines "k \<equiv> write_u16 (write_u16 (write_u16 m x a) y b) z d"
  shows "read_u16 k x = a" "read_u16 k y = b" "read_u16 k z = d"
    "2 dvd unat t \<Longrightarrow> t \<notin> {x, y, z} \<Longrightarrow> read_u16 k t = read_u16 m t"
  using assms by (simp_all add: store16.rd_wr store16.inv_wr store16.present_wr)

lemma low_word_flags:
  assumes "f AND NOT fWRITABLE = fALWAYS_SET" "g = f AND NOT 0x300"
  shows "write_flags g ((g AND 0xFFFF0000) OR ucast (ucast f :: u16)) = f"
proof -
  have m: "ucast (ucast f :: u16) = f AND mask 16"
    by (rule bit_word_eqI) (auto simp: bit_simps)
  have n: "NOT (mask 16) = (0xFFFF0000 :: u32)" by (simp add: mask_eq_exp_minus_1)
  have h: "g AND 0xFFFF0000 = f AND NOT (mask 16)"
    unfolding assms(2) n and.assoc by simp
  have w: "(g AND 0xFFFF0000) OR ucast (ucast f :: u16) = f"
    unfolding m h by (rule bit_word_eqI) (auto simp: bit_simps)
  have "write_flags g f = f"
  proof (rule bit_word_eqI)
    fix n assume n: "n < LENGTH(32)"
    have "bit (f AND NOT fWRITABLE) n = bit fALWAYS_SET n" by (simp only: assms)
    then show "bit (write_flags g f) n = bit f n"
      using n by (auto simp: write_flags_def assms(2) bit_simps simp del: fWRITABLE_def fALWAYS_SET_def)
  qed
  then show ?thesis unfolding w .
qed

lemma even_minus: "2 dvd unat a \<Longrightarrow> 2 dvd unat b \<Longrightarrow> 2 dvd unat (a - b)" for a b :: u16
proof -
  have "even (unat x) \<longleftrightarrow> even x" for x :: u16
    using even_of_nat [of "unat x", where 'a = "u16"] by simp
  then show "2 dvd unat a \<Longrightarrow> 2 dvd unat b \<Longrightarrow> 2 dvd unat (a - b)" by (simp only: even_diff even_add)
qed

lemma real_int_state:
  assumes "\<not> pe c"
  shows "real_int c v = (let k = write_u16 (write_u16 (write_u16 (c_mem c) (mem_phys (c_ss c) (c_sp c - 2)) (ucast (c_flags c)))
        (mem_phys (c_ss c) (c_sp c - 4)) (c_cs c)) (mem_phys (c_ss c) (c_sp c - 6)) (c_ip c)
     in c\<lparr>regs := (regs c)(4 := reg_put16 (regs c 4) (ucast (c_sp c - 6))), c_mem := k,
       c_flags := c_flags c AND NOT 0x300, c_cs := read_u16 k (ucast v * 4 + 2), c_ip := read_u16 k (ucast v * 4)\<rparr>)"
  using assms
  by (simp add: real_int_def Let_def real_push set_flag_def c_sp_def reg_put16_low reg_put16_twice wide16 and.assoc)

lemma real_iret_state:
  assumes "\<not> pe c"
  shows "exec_iret c = c\<lparr>c_ip := read_u16 (c_mem c) (mem_phys (c_ss c) (c_sp c)),
      c_cs := read_u16 (c_mem c) (mem_phys (c_ss c) (c_sp c + 2)),
      regs := (regs c)(4 := reg_put16 (regs c 4) (ucast (c_sp c + 6))),
      c_flags := write_flags (c_flags c) ((c_flags c AND 0xFFFF0000) OR ucast (read_u16 (c_mem c) (mem_phys (c_ss c) (c_sp c + 4))))\<rparr>"
  using assms
  by (simp add: exec_iret_def Let_def real_pop c_sp_def reg_put16_low reg_put16_twice wide16 add.commute)

text \<open>C6: IRET undoes an interrupt: in real mode, with an even stack pointer whose next three words are
  backed and the reserved flag bits as the architecture has them, delivering an interrupt and
  returning from it gives back the whole machine, flags, stack pointer and code address included,
  but for those three words below the stack.\<close>

theorem iret_undoes_interrupt:
  assumes "\<not> pe c" "mem_wf (c_mem c)" "2 dvd unat (c_sp c)" "c_flags c AND NOT fWRITABLE = fALWAYS_SET"
    "backed (c_mem c) (mem_phys (c_ss c) (c_sp c - 2))" "backed (c_mem c) (mem_phys (c_ss c) (c_sp c - 4))"
    "backed (c_mem c) (mem_phys (c_ss c) (c_sp c - 6))"
  shows "exec_iret (real_int c v) = c\<lparr>c_mem := c_mem (real_int c v)\<rparr> \<and>
    (2 dvd unat t \<and> t \<notin> {mem_phys (c_ss c) (c_sp c - 2), mem_phys (c_ss c) (c_sp c - 4), mem_phys (c_ss c) (c_sp c - 6)} \<longrightarrow>
      read_u16 (c_mem (real_int c v)) t = read_u16 (c_mem c) t)"
proof -
  define x y z where "x = mem_phys (c_ss c) (c_sp c - 2)" and "y = mem_phys (c_ss c) (c_sp c - 4)"
    and "z = mem_phys (c_ss c) (c_sp c - 6)"
  define k where "k = write_u16 (write_u16 (write_u16 (c_mem c) x (ucast (c_flags c))) y (c_cs c)) z (c_ip c)"
  have d: "x \<noteq> y" "x \<noteq> z" "y \<noteq> z" by (simp_all add: x_def y_def z_def mem_phys_inj)
  have e: "2 dvd unat x" "2 dvd unat y" "2 dvd unat z"
    using assms(3) by (simp_all add: x_def y_def z_def mem_phys_even even_minus)
  have b: "backed (c_mem c) x" "backed (c_mem c) y" "backed (c_mem c) z"
    using assms(5-7) by (simp_all add: x_def y_def z_def)
  note w = three_words [OF assms(2) e d b, where a = "ucast (c_flags c)" and b = "c_cs c" and d = "c_ip c",
    folded k_def]
  define g where "g = c_flags c AND NOT 0x300"
  have int: "real_int c v = c\<lparr>regs := (regs c)(4 := reg_put16 (regs c 4) (ucast (c_sp c - 6))), c_mem := k,
      c_flags := g, c_cs := read_u16 k (ucast v * 4 + 2), c_ip := read_u16 k (ucast v * 4)\<rparr>" (is "_ = ?d")
    unfolding real_int_state [OF assms(1)] Let_def k_def x_def y_def z_def g_def ..
  have sp: "c_sp ?d = c_sp c - 6" by (simp add: c_sp_def reg_put16_low wide16)
  have f: "write_flags g ((g AND 0xFFFF0000) OR ucast (ucast (c_flags c) :: u16)) = c_flags c"
    by (rule low_word_flags [OF assms(4) g_def])
  have o: "c_sp c - 6 + 2 = c_sp c - 4" "c_sp c - 6 + 4 = c_sp c - 2" "c_sp c - 6 + 6 = c_sp c" by simp_all
  have "exec_iret ?d = c\<lparr>c_mem := k\<rparr>"
    using assms(1) w f
    by (intro cpu.equality)
      (simp_all add: real_iret_state sp o x_def y_def z_def reg_put16_twice, simp add: c_sp_def reg_put16_twice fun_eq_iff)
  moreover have "2 dvd unat t \<Longrightarrow> t \<notin> {x, y, z} \<Longrightarrow> read_u16 k t = read_u16 (c_mem c) t" by (rule w(4))
  ultimately show ?thesis by (auto simp: int x_def y_def z_def)
qed

theorem iret_undoes_interrupt_witness:
  "c_ip (exec_iret (real_int (small_machine\<lparr>regs := (\<lambda>_. 0x800), c_ip := 0x7C00\<rparr>) 8)) = 0x7C00"
proof -
  let ?c = "small_machine\<lparr>regs := (\<lambda>_. 0x800), c_ip := 0x7C00\<rparr>"
  have f: "\<not> pe ?c" "c_sp ?c = 0x800" "c_ss ?c = 0" "c_flags ?c = 2" "mem_wf (c_mem ?c)"
    using small_machine_wf by (simp_all add: small_machine_def cpu_with_ram_def c_sp_def)
  have "backed (c_mem ?c) 0x7FE" "backed (c_mem ?c) 0x7FC" "backed (c_mem ?c) 0x7FA"
    by (simp_all add: small_machine_def cpu_with_ram_def backed_def with_size_def Let_def slot_def)
  with iret_undoes_interrupt [OF f(1,5), of 8] show ?thesis by (simp add: f mem_phys_def)
qed

end
