(* ===== verification/Failure_Laws.thy ===== *)
theory Failure_Laws imports System_Laws begin

text \<open>
  What the emulator does not survive. The model's \<open>None\<close> is a decoder that never
  returns or a Rust panic; the lemmas find the operands of each, and the
  property says that there are no others.
\<close>

unbundle bit_operations_syntax

section \<open>Prefixes\<close>

text \<open>The machine after n prefixes of an instruction, while there are as many.\<close>

fun prefixes :: "nat \<Rightarrow> bool \<Rightarrow> cpu \<Rightarrow> rep \<Rightarrow> (cpu \<times> rep) option" where
  "prefixes 0 long c r = Some (c, r)"
| "prefixes (Suc n) long c r =
     (case prefix_byte long (fst (peek_u8 c)) (snd (peek_u8 c)) r of
        None \<Rightarrow> None | Some (c, r) \<Rightarrow> prefixes n long c r)"

lemma endless_prefixes: "decode_prefixes long c r = None \<longleftrightarrow> (\<forall>n. prefixes n long c r \<noteq> None)"
proof
  show "\<forall>n. prefixes n long c r \<noteq> None" if "decode_prefixes long c r = None"
  proof
    show "prefixes n long c r \<noteq> None" for n
      using that
    proof (induction n arbitrary: c r)
      case (Suc n)
      then show ?case
        by (subst (asm) (2) decode_prefixes.simps) (auto simp: Let_def split: option.splits if_splits)
    qed simp
  qed
  have "\<exists>n. prefixes n long c r = None" if "decode_prefixes long c r = Some x" for x
  proof (rule decode_prefixes.raw_induct [where P = "\<lambda>long c r x. \<exists>n. prefixes n long c r = None", OF _ that])
    fix f :: "bool \<Rightarrow> cpu \<Rightarrow> rep \<Rightarrow> (cpu \<times> rep) option" and long c r y
    assume ind: "\<And>long c r y. f long c r = Some y \<Longrightarrow> \<exists>n. prefixes n long c r = None"
      and y: "(let p = peek_u8 c; s = prefix_byte long (fst p) (snd p) r in
        if s = None then Some (snd p, r) else f long (fst (the s)) (snd (the s))) = Some y"
    show "\<exists>n. prefixes n long c r = None"
    proof (cases "prefix_byte long (fst (peek_u8 c)) (snd (peek_u8 c)) r")
      case None
      then have "prefixes (Suc 0) long c r = None" by simp
      then show ?thesis ..
    next
      case (Some z)
      then obtain n where "prefixes n long (fst z) (snd z) = None"
        using ind [of long "fst z" "snd z" y] y by (auto simp: Let_def)
      then have "prefixes (Suc n) long c r = None" using Some by (simp add: case_prod_beta)
      then show ?thesis ..
    qed
  qed
  then show "\<forall>n. prefixes n long c r \<noteq> None \<Longrightarrow> decode_prefixes long c r = None"
    by (metis option.exhaust)
qed

definition prefixes_never_end :: "cpu \<Rightarrow> bool" where
  "prefixes_never_end c \<longleftrightarrow> (\<forall>n. prefixes n (long64 c) (decode_defaults c) Rep_None \<noteq> None)"

lemma decode_endless: "decode c = None \<longleftrightarrow> prefixes_never_end c"
  unfolding prefixes_never_end_def endless_prefixes [symmetric] by (simp add: decode_def)

text \<open>The signed divisions whose overflow panics: the most negative dividend by minus one.\<close>

definition idiv_overflows :: "cpu \<Rightarrow> inst \<Rightarrow> bool" where
  "idiv_overflows c i =
     (case i of
        I_Muldiv (IdivRm8 m) \<Rightarrow>
          (let (v, d) = read_rm8 c m in v = - 1 \<and> reg16_idx d 0 = 0x8000)
      | I_Muldiv (IdivRm16 m) \<Rightarrow>
          (let (v, d) = read_rm16 c m in v = - 1 \<and> reg16_idx d 2 = 0x8000 \<and> reg16_idx d 0 = 0)
      | I_Muldiv (IdivRm32 m) \<Rightarrow>
          (let (v, d) = read_rm_w c m 64
           in osize c = 64 \<and> v = - 1 \<and> reg64 d 2 = 0x8000000000000000 \<and> reg64 d 0 = 0)
      | _ \<Rightarrow> False)"

text \<open>The disk services that index the image before its start: sector 0 of the first track.\<close>

definition disk_underflows :: "cpu \<Rightarrow> inst \<Rightarrow> bool" where
  "disk_underflows c i \<longleftrightarrow>
     i = I_Flow (Inst_Int 0x13) \<and> reg8 c Ah \<in> {2, 3} \<and> ide_present (c_ide c) \<and>
     reg8 c Ch = 0 \<and> reg8 c Dh = 0 \<and> reg8 c Cl = 0 \<and> 0 < reg8 c Al \<and>
     512 * (unat (reg8 c Al) - 1) \<le> length (ide_disk (c_ide c)) \<and> length (ide_disk (c_ide c)) < 2 ^ 64"

lemma sint_minus_one: "sint v = - 1 \<longleftrightarrow> v = - 1" for v :: "'a::len word"
  using signed_word_eqI [of v "- 1"] by auto

lemma idiv8_panics: "exec_idiv8 c m = None \<longleftrightarrow> idiv_overflows c (I_Muldiv (IdivRm8 m))"
proof -
  have "sint (x :: u16) = - 32768 \<longleftrightarrow> x = 0x8000" for x
    using signed_word_eqI [of x "0x8000"] by auto
  then show ?thesis
    by (auto simp: exec_idiv8_def idiv_overflows_def sdivmod_def Let_def case_prod_beta sint_minus_one)
qed

lemma join_halves:
  "push_bit 16 (ucast h) OR ucast l = (0x80000000 :: u32) \<longleftrightarrow> (h :: u16) = 0x8000 \<and> (l :: u16) = 0"
  "push_bit 64 (ucast a) OR ucast b = (0x80000000000000000000000000000000 :: u128) \<longleftrightarrow>
     (a :: u64) = 0x8000000000000000 \<and> (b :: u64) = 0"
proof -
  have l: "ucast (push_bit 16 (ucast h) OR ucast l :: u32) = l" "ucast (drop_bit 16 (push_bit 16 (ucast h) OR ucast l :: u32)) = h"
    by (rule bit_word_eqI; auto simp: bit_simps dest: bit_imp_le_length)+
  then show "push_bit 16 (ucast h) OR ucast l = (0x80000000 :: u32) \<longleftrightarrow> h = 0x8000 \<and> l = 0" by auto
  have b: "ucast (push_bit 64 (ucast a) OR ucast b :: u128) = b" "ucast (drop_bit 64 (push_bit 64 (ucast a) OR ucast b :: u128)) = a"
    by (rule bit_word_eqI; auto simp: bit_simps dest: bit_imp_le_length)+
  then show "push_bit 64 (ucast a) OR ucast b = (0x80000000000000000000000000000000 :: u128) \<longleftrightarrow>
     a = 0x8000000000000000 \<and> b = 0" by auto
qed

lemma most_negative:
  "sint x = - 2147483648 \<longleftrightarrow> x = (0x80000000 :: u32)"
  "sint y = - 170141183460469231731687303715884105728 \<longleftrightarrow> y = (0x80000000000000000000000000000000 :: u128)"
  using signed_word_eqI [of x "0x80000000"] signed_word_eqI [of y "0x80000000000000000000000000000000"] by auto

lemma idiv16_panics: "exec_idiv16 c m = None \<longleftrightarrow> idiv_overflows c (I_Muldiv (IdivRm16 m))"
  by (auto simp: exec_idiv16_def idiv_overflows_def sdivmod_def Let_def case_prod_beta sint_minus_one most_negative join_halves)

lemma sign_shifted: "0 < k \<Longrightarrow> sint (signed_drop_bit k (x :: u128)) \<noteq> - 170141183460469231731687303715884105728"
proof -
  assume "0 < k"
  then obtain j where k: "k = Suc j" by (cases k) auto
  have "- (2 ^ 127) \<le> sint x" using sint_greater_eq [of x] by simp
  then have "- (2 ^ 126) \<le> sint x div 2" by simp
  then have "- (2 ^ 126) \<le> sint x div 2 div 2 ^ j"
  proof (cases "sint x div 2 < 0")
    case True
    then show ?thesis using \<open>- (2 ^ 126) \<le> sint x div 2\<close> div_by_1 [of "sint x div 2"]
      by (smt (verit) zdiv_mono2_neg zero_less_power one_le_power)
  next
    case False
    then have "0 \<le> sint x div 2 div 2 ^ j" by (simp add: pos_imp_zdiv_nonneg_iff)
    then show ?thesis by simp
  qed
  then show ?thesis by (simp add: sint_signed_drop_bit_eq drop_bit_eq_div k zdiv_zmult2_eq)
qed

lemma idiv_w_panics: "exec_idiv_w c m = None \<longleftrightarrow> idiv_overflows c (I_Muldiv (IdivRm32 m))"
proof (cases "osize c = 64")
  case True
  then show ?thesis
    by (auto simp: exec_idiv_w_def idiv_overflows_def sdivmod_def Let_def case_prod_beta sign_extend_def sint_minus_one
        most_negative join_halves reg_w_def reg64_def)
next
  case False
  then have "0 < 128 - 2 * osize c" using osize_cases [of c] by auto
  note n = sign_shifted [OF this]
  have "exec_idiv_w c m \<noteq> None"
    using False n by (simp add: exec_idiv_w_def sdivmod_def Let_def case_prod_beta)
  then show ?thesis using False by (simp add: idiv_overflows_def case_prod_beta)
qed

lemma disk_to_mem_panics: "disk_to_mem n d i a m = None \<longleftrightarrow> (\<exists>j<n. length d \<le> unat (i + of_nat j))"
proof (induction n arbitrary: i a m)
  case (Suc n)
  then show ?case unfolding less_Suc_eq_0_disj by (auto simp: add.assoc)
qed simp

lemma mem_to_disk_panics: "mem_to_disk n m a i d = None \<longleftrightarrow> (\<exists>j<n. length d \<le> unat (i + of_nat j))"
proof (induction n arbitrary: i a d)
  case (Suc n)
  then show ?case unfolding less_Suc_eq_0_disj by (auto simp: add.assoc)
qed simp

lemma bios_lba_unat:
  assumes "\<not> (reg8 c Ch = 0 \<and> reg8 c Dh = 0 \<and> reg8 c Cl = 0)"
  shows "unat (bios_lba c) < 2 ^ 32"
proof -
  define h d l where "h = unat (reg8 c Ch)" and "d = unat (reg8 c Dh)" and "l = unat (reg8 c Cl)"
  define t where "t = (h * 2 + d) * 18 + l"
  have b: "h < 256" "d < 256" "l < 256"
    using unsigned_less [where 'b = 8] by (simp_all add: h_def d_def l_def)
  have t: "1 \<le> t" "t < 2 ^ 22"
    using assms b unfolding t_def h_def d_def l_def by (auto simp: unat_gt_0 Suc_le_eq)
  have "ucast x = (of_nat (unat x) :: u64)" for x :: u8 by simp
  then have "bios_lba c = ((of_nat h * 2 + of_nat d) * 18 + of_nat l - 1) * 512"
    by (simp add: bios_lba_def h_def d_def l_def)
  also have "\<dots> = of_nat ((t - 1) * 512)" using t(1) by (simp add: t_def of_nat_diff)
  finally have "bios_lba c = of_nat ((t - 1) * 512)" .
  moreover have "unat (of_nat ((t - 1) * 512) :: u64) = (t - 1) * 512"
    unfolding unat_of_nat using t by (intro mod_less) simp
  ultimately show ?thesis using t by simp
qed

text \<open>A transfer that fits leaves the image only when its start is below the image.\<close>

lemma no_wrap_in_range:
  assumes "unat (i :: u64) < 2 ^ 32" "n < 2 ^ 32" "i + of_nat n \<le> of_nat l" "j < n"
  shows "\<not> l \<le> unat (i + of_nat j)"
proof -
  have n: "unat (of_nat n :: u64) = n" "unat (of_nat j :: u64) = j"
    using assms(2,4) by (simp_all add: unat_of_nat)
  have "unat i + n \<le> unat (of_nat l :: u64)"
    using assms(1-3) n unat_add_nowrap [of i "of_nat n"] by (simp add: word_le_nat_alt)
  also have "\<dots> \<le> l" by (simp add: unat_of_nat)
  finally show ?thesis using assms n unat_add_nowrap [of i "of_nat j"] by simp
qed

lemma before_image:
  assumes "0 < n" "n < 256"
  shows "- 512 + of_nat (n * 512) \<le> (of_nat l :: u64) \<and> (\<exists>j<n * 512. l \<le> unat (- 512 + of_nat j :: u64)) \<longleftrightarrow>
    512 * (n - 1) \<le> l \<and> l < 2 ^ 64"
proof -
  obtain k where k: "n = Suc k" using assms by (cases n) auto
  have e: "- 512 + of_nat (n * 512) = (of_nat (512 * k) :: u64)" unfolding k by simp
  have u: "unat (of_nat (512 * k) :: u64) = 512 * k"
    unfolding unat_of_nat using assms k by (intro mod_less) simp
  have "\<exists>j<n * 512. l \<le> unat (- 512 + of_nat j :: u64)" if "l < 2 ^ 64"
    by (rule exI [of _ 511]) (use that assms in \<open>simp add: unsigned_minus_1_eq_mask mask_eq_exp_minus_1\<close>)
  moreover have "l < 2 ^ 64" if "l \<le> unat (x :: u64)" for x
    using that unsigned_less [where 'b = 64 and 'a = nat, of x] by simp
  moreover have "of_nat (512 * k) \<le> (of_nat l :: u64) \<longleftrightarrow> 512 * k \<le> l" if "l < 2 ^ 64"
    unfolding word_le_nat_alt u using that by (simp add: unat_of_nat)
  ultimately show ?thesis unfolding e by (auto simp: k)
qed

lemma disk_panics: "bios_disk c = None \<longleftrightarrow> disk_underflows c (I_Flow (Inst_Int 0x13))"
proof -
  define n where "n = unat (reg8 c Al)"
  define l where "l = length (ide_disk (c_ide c))"
  have n: "n < 256" "0 < reg8 c Al \<longleftrightarrow> 0 < n"
    using unsigned_less [where 'b = 8, of "reg8 c Al"] by (auto simp: n_def word_less_nat_alt)
  have "(bios_lba c + of_nat (n * 512) \<le> of_nat l \<and> (\<exists>j<n * 512. l \<le> unat (bios_lba c + of_nat j))) \<longleftrightarrow>
    reg8 c Ch = 0 \<and> reg8 c Dh = 0 \<and> reg8 c Cl = 0 \<and> 0 < n \<and> 512 * (n - 1) \<le> l \<and> l < 2 ^ 64"
  proof (cases "reg8 c Ch = 0 \<and> reg8 c Dh = 0 \<and> reg8 c Cl = 0")
    case True
    then have "bios_lba c = - 512" by (simp add: bios_lba_def)
    then show ?thesis using True before_image [of n l] n by (cases "n = 0") auto
  next
    case False
    then show ?thesis using no_wrap_in_range [OF bios_lba_unat [OF False], of "n * 512" l] n by auto
  qed
  then show ?thesis
    unfolding bios_disk_def disk_underflows_def Let_def n_def [symmetric] l_def [symmetric]
    by (auto simp: disk_to_mem_panics mem_to_disk_panics n l_def [symmetric])
qed

lemma execute_panics: "execute c i = None \<longleftrightarrow> idiv_overflows c i \<or> disk_underflows c i"
proof -
  have "exec_muldiv c p = None \<longleftrightarrow> idiv_overflows c (I_Muldiv p)" for p
    by (cases p) (simp_all add: exec_muldiv_def idiv8_panics idiv16_panics idiv_w_panics, simp_all add: idiv_overflows_def)
  moreover have "exec_flow c p = None \<longleftrightarrow> disk_underflows c (I_Flow p)" for p
    using disk_panics
    by (cases p) (auto simp: exec_flow_def exec_int_def bios_handle_def disk_underflows_def)
  moreover have "\<not> disk_underflows c (I_Muldiv p)" "\<not> idiv_overflows c (I_Flow q)" for p q
    by (simp_all add: disk_underflows_def idiv_overflows_def)
  ultimately show ?thesis
    by (cases i) (simp_all add: execute_def disk_underflows_def idiv_overflows_def)
qed

definition panics :: "cpu \<Rightarrow> inst \<Rightarrow> bool" where "panics c i \<longleftrightarrow> idiv_overflows c i \<or> disk_underflows c i"


end
