(* ===== verification/Control.thy ===== *)
theory Control imports Machine begin

text \<open>
  What instructions may not disturb: the control state of the processor (mode
  and control registers, the shape of memory, of the VMCS and of the x87 stack,
  the VMX operation) and of the devices behind the ports. The theory gives the
  observation \<open>ctl\<close>, rules that carry a predicate of the state through the
  sequencing constructs of the model, and the frame law of every operation that
  leaves the control state alone. The operations that change it are treated in
  \<open>Control_Safety\<close>.
\<close>

unbundle bit_operations_syntax

section \<open>A predicate through a sequence of state changes\<close>

text \<open>
  The rules follow the shape of a definition: a \<open>let\<close>, a pair, a branch or an
  option. A state bound on the way keeps the predicate, whatever else is bound.
\<close>

locale state_pred =
  fixes Q :: "'s \<Rightarrow> bool"
begin

lemma let_state: "Q a \<Longrightarrow> (\<And>x. Q x \<Longrightarrow> P (f x)) \<Longrightarrow> P (Let a f)"
  by (simp add: Let_def)

lemma pair_state: "Q (snd a) \<Longrightarrow> (\<And>x y. Q y \<Longrightarrow> P (f x y)) \<Longrightarrow> P (case_prod f a)"
  by (simp add: case_prod_beta)

lemma state_pair: "Q (fst a) \<Longrightarrow> (\<And>x y. Q x \<Longrightarrow> P (f x y)) \<Longrightarrow> P (case_prod f a)"
  by (simp add: case_prod_beta)

lemma let_pair: "Q (snd a) \<Longrightarrow> (\<And>x y. Q y \<Longrightarrow> P (f x y)) \<Longrightarrow> P (Let a (case_prod f))"
  by (simp add: case_prod_beta)

lemma let_state_pair: "Q (fst a) \<Longrightarrow> (\<And>x y. Q x \<Longrightarrow> P (f x y)) \<Longrightarrow> P (Let a (case_prod f))"
  by (simp add: case_prod_beta)

end

lemma let_value: "(\<And>x. P (f x)) \<Longrightarrow> P (Let a f)"
  by (simp add: Let_def)

lemma pair_value: "(\<And>x y. P (f x y)) \<Longrightarrow> P (case_prod f a)"
  by (simp add: case_prod_beta)

lemma branch: "P x \<Longrightarrow> P y \<Longrightarrow> P (if b then x else y)"
  by simp

lemma option_value: "P x \<Longrightarrow> (\<And>a. P (f a)) \<Longrightarrow> P (case_option x f a)"
  by (cases a) simp_all

lemma option_state:
  "pred_option Q x \<Longrightarrow> P y \<Longrightarrow> (\<And>a. Q a \<Longrightarrow> P (f a)) \<Longrightarrow> P (case_option y f x)"
  by (cases x) simp_all

lemma option_map_value: "(\<And>a. P (f a)) \<Longrightarrow> pred_option P (map_option f x)"
  by (cases x) simp_all

lemma option_map_state:
  "pred_option Q x \<Longrightarrow> (\<And>a. Q a \<Longrightarrow> P (f a)) \<Longrightarrow> pred_option P (map_option f x)"
  by (cases x) simp_all

section \<open>The control state\<close>

record ctl =
  k_pe :: bool
  k_cr0 :: u32
  k_efer :: u64
  k_cr8 :: u64
  k_xcr0 :: u64
  k_mxcsr :: u32
  k_fixed :: bool
  k_mem :: "usize \<times> usize"
  k_vmx :: "bool \<times> u64 option \<times> bool \<times> nat"
  k_fpu :: "nat \<times> nat"
  k_kbd :: kbd
  k_ide :: "bool \<times> u8"
  k_pci :: pci

text \<open>The layout of memory, the VMX operation with the size of the VMCS, the x87 stack, the state of the disk controller.\<close>

definition layout :: "memory \<Rightarrow> usize \<times> usize" where "layout m = (low_size m, ram_size m)"
definition vmx_ctl :: "vmx \<Rightarrow> bool \<times> u64 option \<times> bool \<times> nat" where
  "vmx_ctl x = (vmx_on x, vmx_current x, in_guest x, length (vmcs x))"
definition fpu_ctl :: "fpu \<Rightarrow> nat \<times> nat" where "fpu_ctl f = (fpu_top f, length (fpu_st f))"
definition ide_ctl :: "ide \<Rightarrow> bool \<times> u8" where "ide_ctl i = (ide_busy i, ide_status i)"


text \<open>Bit 1 of the flags always reads as one.\<close>

definition fixed_flag :: "u32 \<Rightarrow> bool" where "fixed_flag f \<longleftrightarrow> bit f 1"

lemma fixed_flag_ops:
  "fixed_flag (f OR g) \<longleftrightarrow> fixed_flag f \<or> fixed_flag g" "fixed_flag (f AND g) \<longleftrightarrow> fixed_flag f \<and> fixed_flag g"
  "fixed_flag (NOT f) \<longleftrightarrow> \<not> fixed_flag f"
  by (simp_all add: fixed_flag_def bit_simps)

lemma fixed_flag_masks [simp]:
  "\<not> fixed_flag 1" "\<not> fixed_flag 4" "\<not> fixed_flag 0x10" "\<not> fixed_flag 0x40" "\<not> fixed_flag 0x80"
  "\<not> fixed_flag 0x100" "\<not> fixed_flag 0x200" "\<not> fixed_flag 0x400" "\<not> fixed_flag 0x800"
  "\<not> fixed_flag 0x10000" "\<not> fixed_flag 0x20000" "\<not> fixed_flag 0x40000" "\<not> fixed_flag 0x3F7FD5" "fixed_flag 2"
  by (simp_all add: fixed_flag_def)

definition ctl :: "cpu \<Rightarrow> ctl" where
  "ctl c = \<lparr>k_pe = pe c, k_cr0 = cr0 c, k_efer = efer c, k_cr8 = cr8 c, k_xcr0 = xcr0 c, k_mxcsr = mxcsr c,
     k_fixed = fixed_flag (c_flags c), k_mem = layout (c_mem c), k_vmx = vmx_ctl (c_vmx c),
     k_fpu = fpu_ctl (c_fpu c), k_kbd = c_kbd c, k_ide = ide_ctl (c_ide c), k_pci = c_pci c\<rparr>"

named_theorems ctl_frame \<open>operations that leave the control state alone\<close>

lemma ctl_fields:
  "k_pe (ctl c) = pe c" "k_cr0 (ctl c) = cr0 c" "k_efer (ctl c) = efer c" "k_cr8 (ctl c) = cr8 c"
  "k_xcr0 (ctl c) = xcr0 c" "k_mxcsr (ctl c) = mxcsr c" "k_fixed (ctl c) = fixed_flag (c_flags c)"
  "k_mem (ctl c) = layout (c_mem c)" "k_vmx (ctl c) = vmx_ctl (c_vmx c)" "k_fpu (ctl c) = fpu_ctl (c_fpu c)"
  "k_kbd (ctl c) = c_kbd c" "k_ide (ctl c) = ide_ctl (c_ide c)" "k_pci (ctl c) = c_pci c"
  by (simp_all add: ctl_def)

text \<open>Fields that are not part of it.\<close>

lemma ctl_other [ctl_frame]:
  "ctl (c\<lparr>regs := x0\<rparr>) = ctl c" "ctl (c\<lparr>c_es := x1\<rparr>) = ctl c"
  "ctl (c\<lparr>c_cs := x2\<rparr>) = ctl c" "ctl (c\<lparr>c_ss := x3\<rparr>) = ctl c"
  "ctl (c\<lparr>c_ds := x4\<rparr>) = ctl c" "ctl (c\<lparr>c_fs := x5\<rparr>) = ctl c"
  "ctl (c\<lparr>c_gs := x6\<rparr>) = ctl c" "ctl (c\<lparr>c_ip := x7\<rparr>) = ctl c"
  "ctl (c\<lparr>c_rip := x8\<rparr>) = ctl c" "ctl (c\<lparr>instructions_executed := x9\<rparr>) = ctl c"
  "ctl (c\<lparr>tsc := x10\<rparr>) = ctl c" "ctl (c\<lparr>halted := x11\<rparr>) = ctl c"
  "ctl (c\<lparr>triple_fault := x12\<rparr>) = ctl c" "ctl (c\<lparr>opsize := x13\<rparr>) = ctl c"
  "ctl (c\<lparr>addrsize := x14\<rparr>) = ctl c" "ctl (c\<lparr>addr64 := x15\<rparr>) = ctl c"
  "ctl (c\<lparr>seg_override := x16\<rparr>) = ctl c" "ctl (c\<lparr>rex_present := x17\<rparr>) = ctl c"
  "ctl (c\<lparr>rex_w := x18\<rparr>) = ctl c" "ctl (c\<lparr>rex_r := x19\<rparr>) = ctl c"
  "ctl (c\<lparr>rex_x := x20\<rparr>) = ctl c" "ctl (c\<lparr>rex_b := x21\<rparr>) = ctl c"
  "ctl (c\<lparr>sse_pfx := x22\<rparr>) = ctl c" "ctl (c\<lparr>gdt_base := x23\<rparr>) = ctl c"
  "ctl (c\<lparr>gdt_limit := x24\<rparr>) = ctl c" "ctl (c\<lparr>idt_base := x25\<rparr>) = ctl c"
  "ctl (c\<lparr>idt_limit := x26\<rparr>) = ctl c" "ctl (c\<lparr>tr_selector := x27\<rparr>) = ctl c"
  "ctl (c\<lparr>tr_base := x28\<rparr>) = ctl c" "ctl (c\<lparr>tr_limit := x29\<rparr>) = ctl c"
  "ctl (c\<lparr>ldt_selector := x30\<rparr>) = ctl c" "ctl (c\<lparr>ldt_base := x31\<rparr>) = ctl c"
  "ctl (c\<lparr>ldt_limit := x32\<rparr>) = ctl c" "ctl (c\<lparr>seg_desc := x33\<rparr>) = ctl c"
  "ctl (c\<lparr>cr2 := x34\<rparr>) = ctl c" "ctl (c\<lparr>cr3 := x35\<rparr>) = ctl c"
  "ctl (c\<lparr>cr4 := x36\<rparr>) = ctl c" "ctl (c\<lparr>star := x37\<rparr>) = ctl c"
  "ctl (c\<lparr>lstar := x38\<rparr>) = ctl c" "ctl (c\<lparr>cstar := x39\<rparr>) = ctl c"
  "ctl (c\<lparr>sfmask := x40\<rparr>) = ctl c" "ctl (c\<lparr>fs_base := x41\<rparr>) = ctl c"
  "ctl (c\<lparr>gs_base := x42\<rparr>) = ctl c" "ctl (c\<lparr>kernel_gs_base := x43\<rparr>) = ctl c"
  "ctl (c\<lparr>sysenter_cs := x44\<rparr>) = ctl c" "ctl (c\<lparr>sysenter_esp := x45\<rparr>) = ctl c"
  "ctl (c\<lparr>sysenter_eip := x46\<rparr>) = ctl c" "ctl (c\<lparr>dr := x47\<rparr>) = ctl c"
  "ctl (c\<lparr>tlb := x48\<rparr>) = ctl c" "ctl (c\<lparr>c_pit := x49\<rparr>) = ctl c"
  "ctl (c\<lparr>c_pic := x50\<rparr>) = ctl c" "ctl (c\<lparr>pending_exception := x51\<rparr>) = ctl c"
  "ctl (c\<lparr>c_vga := x52\<rparr>) = ctl c" "ctl (c\<lparr>c_bios := x53\<rparr>) = ctl c"
  "ctl (c\<lparr>key_script := x54\<rparr>) = ctl c" "ctl (c\<lparr>key_next := x55\<rparr>) = ctl c"
  "ctl (c\<lparr>c_dma := x56\<rparr>) = ctl c" "ctl (c\<lparr>c_cmos := x57\<rparr>) = ctl c"
  "ctl (c\<lparr>c_virtio := x58\<rparr>) = ctl c" "ctl (c\<lparr>xmm := x59\<rparr>) = ctl c"
  "ctl (c\<lparr>phys_ip_cache := x60\<rparr>) = ctl c" "ctl (c\<lparr>phys_ip_linear := x61\<rparr>) = ctl c"
  "ctl (c\<lparr>rip_mask := x62\<rparr>) = ctl c" "ctl (c\<lparr>phys_ip_valid := x63\<rparr>) = ctl c"
  "ctl (c\<lparr>rip_start := x64\<rparr>) = ctl c" "ctl (c\<lparr>ip_start := x65\<rparr>) = ctl c"
  "ctl (c\<lparr>user_instructions := x66\<rparr>) = ctl c" "ctl (c\<lparr>ring_switches := x67\<rparr>) = ctl c"
  "ctl (c\<lparr>pit_subsecond := x68\<rparr>) = ctl c" "ctl (c\<lparr>vga_retrace := x69\<rparr>) = ctl c"
  "ctl (c\<lparr>no_tlb := x70\<rparr>) = ctl c"
  by (simp_all add: ctl_def)

text \<open>Fields of which a part is observed.\<close>

lemma ctl_upd_mem [ctl_frame]: "layout m = layout (c_mem c) \<Longrightarrow> ctl (c\<lparr>c_mem := m\<rparr>) = ctl c"
  by (simp add: ctl_def)

lemma ctl_upd_flags [ctl_frame]: "fixed_flag f = fixed_flag (c_flags c) \<Longrightarrow> ctl (c\<lparr>c_flags := f\<rparr>) = ctl c"
  by (simp add: ctl_def)

lemma ctl_upd_vmx [ctl_frame]: "vmx_ctl x = vmx_ctl (c_vmx c) \<Longrightarrow> ctl (c\<lparr>c_vmx := x\<rparr>) = ctl c"
  by (simp add: ctl_def)

lemma ctl_upd_ide [ctl_frame]: "ide_ctl i = ide_ctl (c_ide c) \<Longrightarrow> ctl (c\<lparr>c_ide := i\<rparr>) = ctl c"
  by (simp add: ctl_def)

lemma ctl_set_flag [ctl_frame]: "\<not> fixed_flag f \<Longrightarrow> ctl (set_flag c f b) = ctl c"
  by (simp add: set_flag_def ctl_def fixed_flag_ops)

lemma fixed_flag_ctl: "fixed_flag (c_flags c) = k_fixed (ctl c)"
  by (simp add: ctl_def)

interpretation keeps: state_pred "\<lambda>c. ctl c = k" for k .

lemmas ctl_seq = keeps.let_state keeps.let_pair keeps.let_state_pair
lemmas ctl_case = keeps.pair_state keeps.state_pair

lemmas to_cpu =
  ctl_seq [where k = k and P = "\<lambda>c. ctl c = k" for k] let_value [where P = "\<lambda>c. ctl c = k" for k]
  ctl_case [where k = k and P = "\<lambda>c. ctl c = k" for k] pair_value [where P = "\<lambda>c. ctl c = k" for k]
  branch [where P = "\<lambda>c. ctl c = k" for k] option_value [where P = "\<lambda>c. ctl c = k" for k]

lemmas to_snd =
  ctl_seq [where k = k and P = "\<lambda>r. ctl (snd r) = k" for k] let_value [where P = "\<lambda>r. ctl (snd r) = k" for k]
  ctl_case [where k = k and P = "\<lambda>r. ctl (snd r) = k" for k] pair_value [where P = "\<lambda>r. ctl (snd r) = k" for k]
  branch [where P = "\<lambda>r. ctl (snd r) = k" for k] option_value [where P = "\<lambda>r. ctl (snd r) = k" for k]

lemmas to_fst =
  ctl_seq [where k = k and P = "\<lambda>r. ctl (fst r) = k" for k] let_value [where P = "\<lambda>r. ctl (fst r) = k" for k]
  ctl_case [where k = k and P = "\<lambda>r. ctl (fst r) = k" for k] pair_value [where P = "\<lambda>r. ctl (fst r) = k" for k]
  branch [where P = "\<lambda>r. ctl (fst r) = k" for k] option_value [where P = "\<lambda>r. ctl (fst r) = k" for k]

lemmas to_option =
  ctl_seq [where k = k and P = "pred_option (\<lambda>r. ctl r = k)" for k]
  let_value [where P = "pred_option (\<lambda>r. ctl r = k)" for k]
  ctl_case [where k = k and P = "pred_option (\<lambda>r. ctl r = k)" for k]
  pair_value [where P = "pred_option (\<lambda>r. ctl r = k)" for k]
  branch [where P = "pred_option (\<lambda>r. ctl r = k)" for k]
  option_value [where P = "pred_option (\<lambda>r. ctl r = k)" for k]

lemmas to_option_snd =
  ctl_seq [where k = k and P = "pred_option (\<lambda>r. ctl (snd r) = k)" for k]
  let_value [where P = "pred_option (\<lambda>r. ctl (snd r) = k)" for k]
  ctl_case [where k = k and P = "pred_option (\<lambda>r. ctl (snd r) = k)" for k]
  pair_value [where P = "pred_option (\<lambda>r. ctl (snd r) = k)" for k]
  branch [where P = "pred_option (\<lambda>r. ctl (snd r) = k)" for k]
  option_value [where P = "pred_option (\<lambda>r. ctl (snd r) = k)" for k]

lemmas to_option_fst =
  ctl_seq [where k = k and P = "pred_option (\<lambda>r. ctl (fst r) = k)" for k]
  let_value [where P = "pred_option (\<lambda>r. ctl (fst r) = k)" for k]
  ctl_case [where k = k and P = "pred_option (\<lambda>r. ctl (fst r) = k)" for k]
  pair_value [where P = "pred_option (\<lambda>r. ctl (fst r) = k)" for k]
  branch [where P = "pred_option (\<lambda>r. ctl (fst r) = k)" for k]
  option_value [where P = "pred_option (\<lambda>r. ctl (fst r) = k)" for k]



section \<open>Memory\<close>

lemma layout_puts [simp]:
  "layout (put_data m i b) = layout m" "layout (put_cell m i c) = layout m" "layout (noted m a v n) = layout m"
  "layout (m\<lparr>vga_text := t\<rparr>) = layout m" "layout (m\<lparr>cur_eip := e\<rparr>) = layout m"
  "layout (m\<lparr>mem_data := d\<rparr>) = layout m"
  by (simp_all add: layout_def put_data_def put_cell_def)

lemma layout_le [simp]: "layout (put_data_le m i bs) = layout m"
  by (induction bs arbitrary: m i) simp_all

lemma layout_write_u8 [ctl_frame]: "layout (write_u8 m a v) = layout m"
  by (simp add: layout_def)

lemma layout_write_bytes [ctl_frame]: "layout (write_bytes m a bs) = layout m"
  by (simp add: layout_def)

interpretation shape: state_pred "\<lambda>m. layout m = k" for k .

lemmas to_memory =
  shape.let_state [where k = k and P = "\<lambda>m. layout m = k" for k]
  let_value [where P = "\<lambda>m. layout m = k" for k] branch [where P = "\<lambda>m. layout m = k" for k]
  option_value [where P = "\<lambda>m. layout m = k" for k]

lemma layout_write_u16 [ctl_frame]: "layout (write_u16 m a w) = layout m"
  unfolding write_u16_def by (intro to_memory; simp add: ctl_frame)

lemma layout_write_u32 [ctl_frame]: "layout (write_u32 m a x) = layout m"
  unfolding write_u32_def by (intro to_memory; simp add: ctl_frame)

lemma layout_write_u64 [ctl_frame]: "layout (write_u64 m a y) = layout m"
  unfolding write_u64_def by (intro to_memory; simp add: ctl_frame)

lemma layout_write_u128 [ctl_frame]: "layout (write_u128 m a z) = layout m"
  unfolding write_u128_def by (intro to_memory; simp add: ctl_frame)

lemma layout_widths [ctl_frame]: "layout (store_w m a n y) = layout m" "layout (stack_store m a n y) = layout m"
  by (simp_all add: store_w_def stack_store_def ctl_frame)

lemma layout_fold: "(\<And>x m. layout (f x m) = layout m) \<Longrightarrow> layout (fold f xs m) = layout m"
  by (induction xs arbitrary: m) simp_all

lemma layout_accessed [ctl_frame]: "layout (mem_set_accessed m p b) = layout m"
  unfolding mem_set_accessed_def Let_def by (rule layout_fold) (simp add: ctl_frame)

lemma layout_split [ctl_frame]: "layout (write_split_bytes m a a' i n z) = layout m"
  by (induction n arbitrary: m i) (simp_all add: ctl_frame)

lemma layout_store_bytes [ctl_frame]: "layout (store_bytes m a bs) = layout m"
  by (induction bs arbitrary: m a) (simp_all add: ctl_frame)

section \<open>Registers\<close>

lemma ctl_set_reg64_raw [ctl_frame]: "ctl (set_reg64_raw c x1 x2) = ctl c"
  unfolding set_reg64_raw_def by ((intro to_cpu)?; simp add: ctl_frame)

lemma ctl_set_reg64 [ctl_frame]: "ctl (set_reg64 c x1 x2) = ctl c"
  unfolding set_reg64_def by ((intro to_cpu)?; simp add: ctl_frame)

lemma ctl_set_reg_w_raw [ctl_frame]: "ctl (set_reg_w_raw c x1 x2 x3) = ctl c"
  unfolding set_reg_w_raw_def by ((intro to_cpu)?; simp add: ctl_frame)

lemma ctl_set_reg_w [ctl_frame]: "ctl (set_reg_w c x1 x2 x3) = ctl c"
  unfolding set_reg_w_def by ((intro to_cpu)?; simp add: ctl_frame)

lemma ctl_set_reg16_idx [ctl_frame]: "ctl (set_reg16_idx c x1 x2) = ctl c"
  unfolding set_reg16_idx_def by ((intro to_cpu)?; simp add: ctl_frame)

lemma ctl_set_reg32_idx [ctl_frame]: "ctl (set_reg32_idx c x1 x2) = ctl c"
  unfolding set_reg32_idx_def by ((intro to_cpu)?; simp add: ctl_frame)

lemma ctl_set_ax [ctl_frame]: "ctl (set_ax c x1) = ctl c"
  unfolding set_ax_def by ((intro to_cpu)?; simp add: ctl_frame)

lemma ctl_set_cx [ctl_frame]: "ctl (set_cx c x1) = ctl c"
  unfolding set_cx_def by ((intro to_cpu)?; simp add: ctl_frame)

lemma ctl_set_dx [ctl_frame]: "ctl (set_dx c x1) = ctl c"
  unfolding set_dx_def by ((intro to_cpu)?; simp add: ctl_frame)

lemma ctl_set_bx [ctl_frame]: "ctl (set_bx c x1) = ctl c"
  unfolding set_bx_def by ((intro to_cpu)?; simp add: ctl_frame)

lemma ctl_set_sp [ctl_frame]: "ctl (set_sp c x1) = ctl c"
  unfolding set_sp_def by ((intro to_cpu)?; simp add: ctl_frame)

lemma ctl_set_bp [ctl_frame]: "ctl (set_bp c x1) = ctl c"
  unfolding set_bp_def by ((intro to_cpu)?; simp add: ctl_frame)

lemma ctl_set_si [ctl_frame]: "ctl (set_si c x1) = ctl c"
  unfolding set_si_def by ((intro to_cpu)?; simp add: ctl_frame)

lemma ctl_set_di [ctl_frame]: "ctl (set_di c x1) = ctl c"
  unfolding set_di_def by ((intro to_cpu)?; simp add: ctl_frame)

lemma ctl_set_eax [ctl_frame]: "ctl (set_eax c x1) = ctl c"
  unfolding set_eax_def by ((intro to_cpu)?; simp add: ctl_frame)

lemma ctl_set_ecx [ctl_frame]: "ctl (set_ecx c x1) = ctl c"
  unfolding set_ecx_def by ((intro to_cpu)?; simp add: ctl_frame)

lemma ctl_set_edx [ctl_frame]: "ctl (set_edx c x1) = ctl c"
  unfolding set_edx_def by ((intro to_cpu)?; simp add: ctl_frame)

lemma ctl_set_ebx [ctl_frame]: "ctl (set_ebx c x1) = ctl c"
  unfolding set_ebx_def by ((intro to_cpu)?; simp add: ctl_frame)

lemma ctl_set_esp [ctl_frame]: "ctl (set_esp c x1) = ctl c"
  unfolding set_esp_def by ((intro to_cpu)?; simp add: ctl_frame)

lemma ctl_set_rsp [ctl_frame]: "ctl (set_rsp c x1) = ctl c"
  unfolding set_rsp_def by ((intro to_cpu)?; simp add: ctl_frame)

lemma ctl_set_eip [ctl_frame]: "ctl (set_eip c x1) = ctl c"
  unfolding set_eip_def by ((intro to_cpu)?; simp add: ctl_frame)

lemma ctl_set_reg8_idx [ctl_frame]: "ctl (set_reg8_idx c x1 x2) = ctl c"
  unfolding set_reg8_idx_def by ((intro to_cpu)?; simp add: ctl_frame)

lemma ctl_set_reg8 [ctl_frame]: "ctl (set_reg8 c x1 x2) = ctl c"
  unfolding set_reg8_def by ((intro to_cpu)?; simp add: ctl_frame)

lemma ctl_set_seg [ctl_frame]: "ctl (set_seg c x1 x2) = ctl c"
  by (cases x1; simp only: set_seg_def segreg.case; ((intro to_cpu)?); simp add: ctl_frame)

lemma ctl_invalidate_phys_ip [ctl_frame]: "ctl (invalidate_phys_ip c) = ctl c"
  unfolding invalidate_phys_ip_def by ((intro to_cpu)?; simp add: ctl_frame)

section \<open>Translation\<close>

lemma ctl_raise_gp [ctl_frame]: "ctl (raise_gp c x1) = ctl c"
  unfolding raise_gp_def by ((intro to_cpu)?; simp add: ctl_frame)

lemma ctl_raise_ud [ctl_frame]: "ctl (raise_ud c) = ctl c"
  unfolding raise_ud_def by ((intro to_cpu)?; simp add: ctl_frame)

lemma ctl_raise_page_fault [ctl_frame]: "ctl (raise_page_fault c x1 x2 x3 x4 x5) = ctl c"
  unfolding raise_page_fault_def by ((intro to_cpu)?; simp add: ctl_frame)

lemma ctl_flush_tlb [ctl_frame]: "ctl (flush_tlb c) = ctl c"
  unfolding flush_tlb_def by ((intro to_cpu)?; simp add: ctl_frame)

lemma ctl_invlpg [ctl_frame]: "ctl (invlpg c x1) = ctl c"
  unfolding invlpg_def by ((intro to_cpu)?; simp add: ctl_frame)

lemma ctl_set_accessed_bits [ctl_frame]: "ctl (set_accessed_bits c x1 x2) = ctl c"
  by (simp add: set_accessed_bits_def ctl_frame)

lemma ctl_mark_accessed [ctl_frame]: "ctl (mark_accessed c x1 x2) = ctl c"
  by (simp add: mark_accessed_def ctl_frame split: option.split)

lemma ctl_apply_paging_inner [ctl_frame]: "ctl (snd (apply_paging_inner c x1 x2 x3)) = ctl c"
  unfolding apply_paging_inner_def by ((intro to_snd)?; simp add: ctl_frame)

lemma ctl_apply_paging_access [ctl_frame]: "ctl (snd (apply_paging_access c x1 x2)) = ctl c"
  unfolding apply_paging_access_def by ((intro to_snd)?; simp add: ctl_frame)

lemma ctl_apply_paging [ctl_frame]: "ctl (snd (apply_paging c x1)) = ctl c"
  unfolding apply_paging_def by ((intro to_snd)?; simp add: ctl_frame)

lemma ctl_apply_paging_fetch [ctl_frame]: "ctl (snd (apply_paging_fetch c x1)) = ctl c"
  unfolding apply_paging_fetch_def by ((intro to_snd)?; simp add: ctl_frame)

lemma ctl_translate_access [ctl_frame]: "ctl (snd (translate_access c x1 x2 x3)) = ctl c"
  unfolding translate_access_def by ((intro to_snd)?; simp add: ctl_frame)

lemma ctl_cpu_translate [ctl_frame]: "ctl (snd (cpu_translate c x1 x2)) = ctl c"
  unfolding cpu_translate_def by ((intro to_snd)?; simp add: ctl_frame)

lemma ctl_translate_write [ctl_frame]: "ctl (snd (translate_write c x1 x2)) = ctl c"
  unfolding translate_write_def by ((intro to_snd)?; simp add: ctl_frame)

lemma ctl_phys_ip [ctl_frame]: "ctl (snd (phys_ip c)) = ctl c"
  unfolding phys_ip_def by ((intro to_snd)?; simp add: ctl_frame)

lemma ctl_read_split [ctl_frame]: "ctl (snd (read_split c x1 x2 x3)) = ctl c"
  unfolding read_split_def by ((intro to_snd)?; simp add: ctl_frame)

lemma ctl_write_split [ctl_frame]: "ctl (write_split c x1 x2 x3 x4) = ctl c"
  unfolding write_split_def by ((intro to_cpu)?; simp add: ctl_frame)

lemma ctl_load_seg [ctl_frame]: "ctl (load_seg c x1 x2) = ctl c"
  unfolding load_seg_def by ((intro to_cpu)?; simp add: ctl_frame)

lemma ctl_load_tr [ctl_frame]: "ctl (load_tr c x1) = ctl c"
  unfolding load_tr_def by ((intro to_cpu)?; simp add: ctl_frame)

lemma ctl_load_ldt [ctl_frame]: "ctl (load_ldt c x1) = ctl c"
  unfolding load_ldt_def by ((intro to_cpu)?; simp add: ctl_frame)

section \<open>Fetching\<close>

lemma ctl_ensure_phys_ip [ctl_frame]: "ctl (ensure_phys_ip c) = ctl c"
  unfolding ensure_phys_ip_def by ((intro to_cpu)?; simp add: ctl_frame)

lemma ctl_advance_ip [ctl_frame]: "ctl (advance_ip c x1) = ctl c"
  unfolding advance_ip_def by ((intro to_cpu)?; simp add: ctl_frame)

lemma ctl_peek_u8 [ctl_frame]: "ctl (snd (peek_u8 c)) = ctl c"
  unfolding peek_u8_def by ((intro to_snd)?; simp add: ctl_frame)

lemma ctl_fetch_u8 [ctl_frame]: "ctl (snd (fetch_u8 c)) = ctl c"
  unfolding fetch_u8_def by ((intro to_snd)?; simp add: ctl_frame)

lemma ctl_fetch_u16 [ctl_frame]: "ctl (snd (fetch_u16 c)) = ctl c"
  unfolding fetch_u16_def by ((intro to_snd)?; simp add: ctl_frame)

lemma ctl_fetch_u32 [ctl_frame]: "ctl (snd (fetch_u32 c)) = ctl c"
  unfolding fetch_u32_def by ((intro to_snd)?; simp add: ctl_frame)

lemma ctl_fetch_u64 [ctl_frame]: "ctl (snd (fetch_u64 c)) = ctl c"
  unfolding fetch_u64_def by ((intro to_snd)?; simp add: ctl_frame)

lemma ctl_fetch_disp32 [ctl_frame]: "ctl (snd (fetch_disp32 x0 c)) = ctl c"
  unfolding fetch_disp32_def by ((intro to_snd)?; simp add: ctl_frame)

lemma ctl_fetch_disp16 [ctl_frame]: "ctl (snd (fetch_disp16 x0 c)) = ctl c"
  unfolding fetch_disp16_def by ((intro to_snd)?; simp add: ctl_frame)

lemma ctl_fetch_modrm [ctl_frame]: "ctl (snd (fetch_modrm c)) = ctl c"
  unfolding fetch_modrm_def by ((intro to_snd)?; simp add: ctl_frame)

lemma ctl_fetch_bytes [ctl_frame]: "ctl (snd (fetch_bytes x0 c)) = ctl c"
  by (induction x0 arbitrary: c) (simp_all add: ctl_frame Let_def case_prod_beta)

section \<open>Operands and the stack\<close>

lemma ctl_modrm_addr_access [ctl_frame]: "ctl (snd (modrm_addr_access c x1 x2)) = ctl c"
  unfolding modrm_addr_access_def by ((intro to_snd)?; simp add: ctl_frame)

lemma ctl_modrm_addr32_access [ctl_frame]: "ctl (snd (modrm_addr32_access c x1 x2)) = ctl c"
  unfolding modrm_addr32_access_def by ((intro to_snd)?; simp add: ctl_frame)

lemma ctl_rm_addr [ctl_frame]: "ctl (snd (rm_addr c x1 x2)) = ctl c"
  unfolding rm_addr_def by ((intro to_snd)?; simp add: ctl_frame)

lemma ctl_read_rm_w [ctl_frame]: "ctl (snd (read_rm_w c x1 x2)) = ctl c"
  unfolding read_rm_w_def by ((intro to_snd)?; simp add: ctl_frame)

lemma ctl_write_rm_w [ctl_frame]: "ctl (write_rm_w c x1 x2 x3) = ctl c"
  unfolding write_rm_w_def by ((intro to_cpu)?; simp add: ctl_frame)

lemma ctl_push_w [ctl_frame]: "ctl (push_w c x1 x2) = ctl c"
  unfolding push_w_def by ((intro to_cpu)?; simp add: ctl_frame)

lemma ctl_pop_w [ctl_frame]: "ctl (snd (pop_w c x1)) = ctl c"
  unfolding pop_w_def by ((intro to_snd)?; simp add: ctl_frame)

section \<open>Arithmetic\<close>

lemma ctl_set_logic_flags8 [ctl_frame]: "ctl (set_logic_flags8 c x1) = ctl c"
  unfolding set_logic_flags8_def by ((intro to_cpu)?; simp add: ctl_frame)

lemma ctl_set_logic_flags16 [ctl_frame]: "ctl (set_logic_flags16 c x1) = ctl c"
  unfolding set_logic_flags16_def by ((intro to_cpu)?; simp add: ctl_frame)

lemma ctl_set_logic_flags32 [ctl_frame]: "ctl (set_logic_flags32 c x1) = ctl c"
  unfolding set_logic_flags32_def by ((intro to_cpu)?; simp add: ctl_frame)

lemma ctl_set_logic_flags64 [ctl_frame]: "ctl (set_logic_flags64 c x1) = ctl c"
  unfolding set_logic_flags64_def by ((intro to_cpu)?; simp add: ctl_frame)

lemma ctl_set_logic_flags_width [ctl_frame]: "ctl (set_logic_flags_width c x1 x2) = ctl c"
  unfolding set_logic_flags_width_def by ((intro to_cpu)?; simp add: ctl_frame)

lemma ctl_set_add_carry [ctl_frame]: "ctl (set_add_carry c x1 x2 x3 x4) = ctl c"
  unfolding set_add_carry_def by ((intro to_cpu)?; simp add: ctl_frame)

lemma ctl_set_add_carry32 [ctl_frame]: "ctl (set_add_carry32 c x1 x2 x3 x4) = ctl c"
  unfolding set_add_carry32_def by ((intro to_cpu)?; simp add: ctl_frame)

lemma ctl_set_add_carry64 [ctl_frame]: "ctl (set_add_carry64 c x1 x2 x3 x4) = ctl c"
  unfolding set_add_carry64_def by ((intro to_cpu)?; simp add: ctl_frame)

lemma ctl_set_sub_borrow [ctl_frame]: "ctl (set_sub_borrow c x1 x2 x3 x4) = ctl c"
  unfolding set_sub_borrow_def by ((intro to_cpu)?; simp add: ctl_frame)

lemma ctl_set_sub_borrow32 [ctl_frame]: "ctl (set_sub_borrow32 c x1 x2 x3 x4) = ctl c"
  unfolding set_sub_borrow32_def by ((intro to_cpu)?; simp add: ctl_frame)

lemma ctl_set_sub_borrow64 [ctl_frame]: "ctl (set_sub_borrow64 c x1 x2 x3 x4) = ctl c"
  unfolding set_sub_borrow64_def by ((intro to_cpu)?; simp add: ctl_frame)

lemma ctl_clear_co [ctl_frame]: "ctl (clear_co c) = ctl c"
  unfolding clear_co_def by ((intro to_cpu)?; simp add: ctl_frame)

lemma ctl_alu8 [ctl_frame]: "ctl (snd (alu8 c x1 x2 x3)) = ctl c"
  unfolding alu8_def Let_def by (cases x1) (simp_all add: ctl_frame case_prod_beta)

lemma ctl_alu16 [ctl_frame]: "ctl (snd (alu16 c x1 x2 x3)) = ctl c"
  unfolding alu16_def Let_def by (cases x1) (simp_all add: ctl_frame case_prod_beta)

lemma ctl_alu32 [ctl_frame]: "ctl (snd (alu32 c x1 x2 x3)) = ctl c"
  unfolding alu32_def Let_def by (cases x1) (simp_all add: ctl_frame case_prod_beta)

lemma ctl_alu64 [ctl_frame]: "ctl (snd (alu64 c x1 x2 x3)) = ctl c"
  unfolding alu64_def Let_def by (cases x1) (simp_all add: ctl_frame case_prod_beta)

lemma ctl_alu_w [ctl_frame]: "ctl (snd (alu_w c x1 x2 x3 x4)) = ctl c"
  unfolding alu_w_def by ((intro to_snd)?; simp add: ctl_frame)

lemma ctl_branch_rel [ctl_frame]: "ctl (branch_rel c x1) = ctl c"
  unfolding branch_rel_def by ((intro to_cpu)?; simp add: ctl_frame)

lemma ctl_imul_store16 [ctl_frame]: "ctl (imul_store16 c x1 x2) = ctl c"
  unfolding imul_store16_def by ((intro to_cpu)?; simp add: ctl_frame)

lemma ctl_imul_store32 [ctl_frame]: "ctl (imul_store32 c x1 x2) = ctl c"
  unfolding imul_store32_def by ((intro to_cpu)?; simp add: ctl_frame)

lemma ctl_imul_store64 [ctl_frame]: "ctl (imul_store64 c x1 x2) = ctl c"
  unfolding imul_store64_def by ((intro to_cpu)?; simp add: ctl_frame)

lemma ctl_set_shift_flags16 [ctl_frame]: "ctl (set_shift_flags16 c x1 x2 x3) = ctl c"
  unfolding set_shift_flags16_def by ((intro to_cpu)?; simp add: ctl_frame)

lemma ctl_set_shift_flags32 [ctl_frame]: "ctl (set_shift_flags32 c x1 x2 x3) = ctl c"
  unfolding set_shift_flags32_def by ((intro to_cpu)?; simp add: ctl_frame)

lemma ctl_set_shift_flags64 [ctl_frame]: "ctl (set_shift_flags64 c x1 x2 x3) = ctl c"
  unfolding set_shift_flags64_def by ((intro to_cpu)?; simp add: ctl_frame)

lemma ctl_shift_shl [ctl_frame]: "ctl (snd (shift_shl c x1 x2 x3)) = ctl c"
  unfolding shift_shl_def by ((intro to_snd)?; simp add: ctl_frame)

lemma ctl_shift_shr [ctl_frame]: "ctl (snd (shift_shr c x1 x2 x3)) = ctl c"
  unfolding shift_shr_def by ((intro to_snd)?; simp add: ctl_frame)

lemma ctl_shift_sar [ctl_frame]: "ctl (snd (shift_sar c x1 x2 x3)) = ctl c"
  unfolding shift_sar_def by ((intro to_snd)?; simp add: ctl_frame)

lemma ctl_shift_rol [ctl_frame]: "ctl (snd (shift_rol c x1 x2 x3)) = ctl c"
  unfolding shift_rol_def by ((intro to_snd)?; simp add: ctl_frame)

lemma ctl_shift_ror [ctl_frame]: "ctl (snd (shift_ror c x1 x2 x3)) = ctl c"
  unfolding shift_ror_def by ((intro to_snd)?; simp add: ctl_frame)

lemma ctl_rcx_overflow [ctl_frame]: "ctl (rcx_overflow c x1 x2 x3 x4 x5) = ctl c"
  unfolding rcx_overflow_def by ((intro to_cpu)?; simp add: ctl_frame)

lemma ctl_shift_rcx [ctl_frame]: "ctl (snd (shift_rcx c x1 x2 x3 x4)) = ctl c"
  unfolding shift_rcx_def by ((intro to_snd)?; simp add: ctl_frame)

lemma ctl_shift_width [ctl_frame]: "ctl (snd (shift_width c x1 x2 x3 x4)) = ctl c"
  unfolding shift_width_def Let_def by (cases x1) (simp_all add: ctl_frame)

lemma ctl_do_shift [ctl_frame]: "ctl (do_shift c x1 x2 x3 x4) = ctl c"
  unfolding do_shift_def by ((intro to_cpu)?; simp add: ctl_frame)

lemma ctl_mem_write_w [ctl_frame]: "ctl (mem_write_w c x1 x2 x3) = ctl c"
  unfolding mem_write_w_def by ((intro to_cpu)?; simp add: ctl_frame)

lemma ctl_bit_op [ctl_frame]: "ctl (bit_op c x1 x2 x3) = ctl c"
  by (cases x2; simp only: bit_op_def bitoffset.case; ((intro to_cpu)?); simp add: ctl_frame)

lemma ctl_load_far_pointer [ctl_frame]: "ctl (load_far_pointer c x1 x2) = ctl c"
  unfolding load_far_pointer_def by ((intro to_cpu)?; simp add: ctl_frame)

lemma ctl_str_read [ctl_frame]: "ctl (snd (str_read c x1 x2 x3 x4)) = ctl c"
  unfolding str_read_def by ((intro to_snd)?; simp add: ctl_frame)

lemma ctl_str_write [ctl_frame]: "ctl (str_write c x1 x2 x3 x4 x5) = ctl c"
  unfolding str_write_def by ((intro to_cpu)?; simp add: ctl_frame)

lemma ctl_string_set_si [ctl_frame]: "ctl (string_set_si c x1 x2) = ctl c"
  unfolding string_set_si_def by ((intro to_cpu)?; simp add: ctl_frame)

lemma ctl_string_set_di [ctl_frame]: "ctl (string_set_di c x1 x2) = ctl c"
  unfolding string_set_di_def by ((intro to_cpu)?; simp add: ctl_frame)

lemma ctl_string_set_count [ctl_frame]: "ctl (string_set_count c x1 x2) = ctl c"
  unfolding string_set_count_def by ((intro to_cpu)?; simp add: ctl_frame)


end
