(* ===== verification/Control_Exec.thy ===== *)
theory Control_Exec imports Control begin

text \<open>
  The frame laws of the decoder and of the instructions that leave the control
  state alone: data movement, arithmetic, the stack, control flow, the BIOS
  services, the SSE unit, and the interrupt frames.
\<close>

unbundle bit_operations_syntax

section \<open>Interrupt frames\<close>

lemma ctl_push16 [ctl_frame]: "ctl (push16 c x1) = ctl c"
  unfolding push16_def by ((intro to_cpu)?; simp add: ctl_frame)

lemma ctl_pop16 [ctl_frame]: "ctl (snd (pop16 c)) = ctl c"
  unfolding pop16_def by ((intro to_snd)?; simp add: ctl_frame)

lemma ctl_push32 [ctl_frame]: "ctl (push32 c x1) = ctl c"
  unfolding push32_def by ((intro to_cpu)?; simp add: ctl_frame)

lemma ctl_pop32 [ctl_frame]: "ctl (snd (pop32 c)) = ctl c"
  unfolding pop32_def by ((intro to_snd)?; simp add: ctl_frame)

lemma ctl_push64 [ctl_frame]: "ctl (push64 c x1) = ctl c"
  unfolding push64_def by ((intro to_cpu)?; simp add: ctl_frame)

lemma ctl_pop64 [ctl_frame]: "ctl (snd (pop64 c)) = ctl c"
  unfolding pop64_def by ((intro to_snd)?; simp add: ctl_frame)

lemma ctl_real_int [ctl_frame]: "ctl (real_int c x1) = ctl c"
  unfolding real_int_def by ((intro to_cpu)?; simp add: ctl_frame)

lemma ctl_gate_flags [ctl_frame]: "ctl (gate_flags c x1) = ctl c"
  unfolding gate_flags_def by ((intro to_cpu)?; simp add: ctl_frame)

lemma ctl_push_error32 [ctl_frame]: "ctl (push_error32 c x1) = ctl c"
  unfolding push_error32_def by ((intro to_cpu)?; simp add: ctl_frame)

lemma ctl_push_error64 [ctl_frame]: "ctl (push_error64 c x1) = ctl c"
  unfolding push_error64_def by ((intro to_cpu)?; simp add: ctl_frame)

lemma ctl_long_int_stack [ctl_frame]: "ctl (long_int_stack c x1 x2) = ctl c"
  unfolding long_int_stack_def by ((intro to_cpu)?; simp add: ctl_frame)

lemma ctl_long_int [ctl_frame]: "ctl (long_int c x1 x2) = ctl c"
  unfolding long_int_def by ((intro to_cpu)?; simp add: ctl_frame)

lemma ctl_protected_int_err [ctl_frame]: "ctl (protected_int_err c x1 x2) = ctl c"
  unfolding protected_int_err_def by ((intro to_cpu)?; simp add: ctl_frame)

lemma ctl_protected_int [ctl_frame]: "ctl (protected_int c x1) = ctl c"
  unfolding protected_int_def by ((intro to_cpu)?; simp add: ctl_frame)

lemma ctl_restart_fault [ctl_frame]: "ctl (restart_fault c x1) = ctl c"
  unfolding restart_fault_def by ((intro to_cpu)?; simp add: ctl_frame)

lemma ctl_tick_devices [ctl_frame]: "ctl (tick_devices c) = ctl c"
  unfolding tick_devices_def by ((intro to_cpu)?; simp add: ctl_frame)

lemma ctl_take_interrupt [ctl_frame]: "ctl (snd (take_interrupt c)) = ctl c"
  unfolding take_interrupt_def by ((intro to_snd)?; simp add: ctl_frame)

section \<open>Decoding\<close>

lemma ctl_with_rm [ctl_frame]: "ctl (snd (with_rm c x1)) = ctl c"
  unfolding with_rm_def by ((intro to_snd)?; simp add: ctl_frame)

lemma ctl_with_u8 [ctl_frame]: "ctl (snd (with_u8 c x1)) = ctl c"
  unfolding with_u8_def by ((intro to_snd)?; simp add: ctl_frame)

lemma ctl_with_u16 [ctl_frame]: "ctl (snd (with_u16 c x1)) = ctl c"
  unfolding with_u16_def by ((intro to_snd)?; simp add: ctl_frame)

lemma ctl_with_u32 [ctl_frame]: "ctl (snd (with_u32 c x1)) = ctl c"
  unfolding with_u32_def by ((intro to_snd)?; simp add: ctl_frame)

lemma ctl_with_u64 [ctl_frame]: "ctl (snd (with_u64 c x1)) = ctl c"
  unfolding with_u64_def by ((intro to_snd)?; simp add: ctl_frame)

lemma ctl_rm_then:
  "(\<And>m c'. ctl c' = k \<Longrightarrow> ctl (snd (f m c')) = k) \<Longrightarrow> ctl c = k \<Longrightarrow> ctl (snd (rm_then c f)) = k"
  unfolding rm_then_def by (intro to_snd; simp add: ctl_frame)

lemma ctl_with_imm [ctl_frame]: "ctl (snd (with_imm c x1 x2)) = ctl c"
  unfolding with_imm_def by ((intro to_snd)?; simp add: ctl_frame)

lemma ctl_decode_defaults [ctl_frame]: "ctl (decode_defaults c) = ctl c"
  unfolding decode_defaults_def by ((intro to_cpu)?; simp add: ctl_frame)

lemma ctl_eat [ctl_frame]: "ctl (eat c) = ctl c"
  unfolding eat_def by ((intro to_cpu)?; simp add: ctl_frame)

lemma ctl_prefix_byte [ctl_frame]: "pred_option (\<lambda>r. ctl (fst r) = ctl c) (prefix_byte x0 x1 c x3)"
  unfolding prefix_byte_def by ((intro to_option_fst)?; simp add: ctl_frame)

lemma ctl_decode_prefixes [ctl_frame]: "pred_option (\<lambda>r. ctl (fst r) = ctl c) (decode_prefixes x0 c x2)"
  proof (cases "decode_prefixes x0 c x2")
  case (Some r)
  have "ctl (fst r) = ctl c"
  proof (rule decode_prefixes.raw_induct [where P = "\<lambda>long c rep r. ctl (fst r) = ctl c", OF _ Some])
    fix f :: "bool \<Rightarrow> cpu \<Rightarrow> rep \<Rightarrow> (cpu \<times> rep) option" and long c rep r
    assume ih: "\<And>l c rep r. f l c rep = Some r \<Longrightarrow> ctl (fst r) = ctl c"
      and body: "(let p = peek_u8 c; r = prefix_byte long (fst p) (snd p) rep
        in if r = None then Some (snd p, rep) else f long (fst (the r)) (snd (the r))) = Some r"
    show "ctl (fst r) = ctl c"
    proof (cases "prefix_byte long (fst (peek_u8 c)) (snd (peek_u8 c)) rep")
      case None
      then show ?thesis using body by (auto simp: Let_def ctl_frame)
    next
      case (Some q)
      then have "ctl (fst q) = ctl c"
        using ctl_prefix_byte [of "snd (peek_u8 c)" long "fst (peek_u8 c)" rep] by (simp add: ctl_frame)
      then show ?thesis using ih body Some by (simp add: Let_def)
    qed
  qed
  then show ?thesis by (simp add: Some)
qed simp

lemma ctl_sse_immediate [ctl_frame]: "ctl (snd (sse_immediate x0 x1 x2 c)) = ctl c"
  unfolding sse_immediate_def by ((intro to_snd)?; simp add: ctl_frame)

lemma ctl_decode_sse [ctl_frame]: "ctl (snd (decode_sse c x1)) = ctl c"
  unfolding decode_sse_def by (intro to_snd) (simp_all add: ctl_frame case_prod_beta Let_def split: option.split)

section \<open>Opcodes\<close>

lemma ctl_decode_alu_row [ctl_frame]: "ctl (snd (decode_alu_row c x1 x2)) = ctl c"
  unfolding decode_alu_row_def by ((intro to_snd)?; simp add: ctl_frame)

lemma ctl_decode_low [ctl_frame]: "ctl (snd (decode_low c x1)) = ctl c"
  unfolding decode_low_def by ((intro to_snd ctl_rm_then)?; simp add: ctl_frame)

lemma ctl_decode_mid [ctl_frame]: "ctl (snd (decode_mid c x1)) = ctl c"
  unfolding decode_mid_def by ((intro to_snd ctl_rm_then)?; simp add: ctl_frame)

lemma ctl_decode_moffs [ctl_frame]: "ctl (snd (decode_moffs c x1)) = ctl c"
  unfolding decode_moffs_def by ((intro to_snd)?; simp add: ctl_frame)

lemma ctl_decode_9x [ctl_frame]: "ctl (snd (decode_9x c x1 x2)) = ctl c"
  unfolding decode_9x_def by ((intro to_snd)?; simp add: ctl_frame)

lemma ctl_decode_mov_imm [ctl_frame]: "ctl (snd (decode_mov_imm c x1)) = ctl c"
  unfolding decode_mov_imm_def by ((intro to_snd)?; simp add: ctl_frame)

lemma ctl_decode_cx [ctl_frame]: "ctl (snd (decode_cx c x1)) = ctl c"
  unfolding decode_cx_def Let_def by ((intro to_snd ctl_rm_then)?; simp add: ctl_frame case_prod_beta)

lemma ctl_decode_fpu [ctl_frame]: "ctl (snd (decode_fpu c x1)) = ctl c"
  unfolding decode_fpu_def by ((intro to_snd)?; simp add: ctl_frame)

lemma ctl_decode_group3 [ctl_frame]: "ctl (snd (decode_group3 c x1)) = ctl c"
  unfolding decode_group3_def by ((intro to_snd ctl_rm_then)?; simp add: ctl_frame)

lemma ctl_decode_group45 [ctl_frame]: "ctl (snd (decode_group45 c x1)) = ctl c"
  unfolding decode_group45_def by ((intro to_snd ctl_rm_then)?; simp add: ctl_frame)

lemma ctl_decode_group2 [ctl_frame]: "ctl (snd (decode_group2 c x1)) = ctl c"
  unfolding decode_group2_def by ((intro to_snd ctl_rm_then)?; simp add: ctl_frame)

lemma ctl_decode_ex [ctl_frame]: "ctl (snd (decode_ex c x1)) = ctl c"
  unfolding decode_ex_def by ((intro to_snd)?; simp add: ctl_frame)

lemma ctl_decode_0f01 [ctl_frame]: "ctl (snd (decode_0f01 c)) = ctl c"
  unfolding decode_0f01_def by ((intro to_snd)?; simp add: ctl_frame)

lemma ctl_decode_0f_system [ctl_frame]: "pred_option (\<lambda>r. ctl (snd r) = ctl c) (decode_0f_system c x1)"
  unfolding decode_0f_system_def by (intro to_option_snd; simp; (intro to_snd ctl_rm_then)?; simp add: ctl_frame)

lemma ctl_decode_0f_general [ctl_frame]: "pred_option (\<lambda>r. ctl (snd r) = ctl c) (decode_0f_general c x1)"
  unfolding decode_0f_general_def by (intro to_option_snd; simp; (intro to_snd ctl_rm_then)?; simp add: ctl_frame)

lemma ctl_decode_0f [ctl_frame]: "ctl (snd (decode_0f c)) = ctl c"
  unfolding decode_0f_def
  by (intro to_snd(1-3) option_state [OF ctl_decode_0f_system, where P = "\<lambda>r. ctl (snd r) = k" for k]
      option_state [OF ctl_decode_0f_general, where P = "\<lambda>r. ctl (snd r) = k" for k];
    simp add: ctl_frame case_prod_beta)

lemma ctl_decode_op [ctl_frame]: "ctl (snd (decode_op c x1 x2)) = ctl c"
  unfolding decode_op_def by ((intro to_snd)?; simp add: ctl_frame)

lemma ctl_decode [ctl_frame]: "pred_option (\<lambda>r. ctl (snd r) = ctl c) (decode c)"
  unfolding decode_def
  by (rule option_map_state [OF ctl_decode_prefixes]; clarify; intro to_snd; simp add: ctl_frame)

section \<open>Data and arithmetic\<close>

lemma ctl_read_rm8 [ctl_frame]: "ctl (snd (read_rm8 c x1)) = ctl c"
  unfolding read_rm8_def by ((intro to_snd)?; simp add: ctl_frame)

lemma ctl_write_rm8 [ctl_frame]: "ctl (write_rm8 c x1 x2) = ctl c"
  unfolding write_rm8_def by ((intro to_cpu)?; simp add: ctl_frame)

lemma ctl_read_rm16 [ctl_frame]: "ctl (snd (read_rm16 c x1)) = ctl c"
  unfolding read_rm16_def by ((intro to_snd)?; simp add: ctl_frame)

lemma ctl_write_rm16 [ctl_frame]: "ctl (write_rm16 c x1 x2) = ctl c"
  unfolding write_rm16_def by ((intro to_cpu)?; simp add: ctl_frame)

lemma ctl_read_rm32 [ctl_frame]: "ctl (snd (read_rm32 c x1)) = ctl c"
  unfolding read_rm32_def by ((intro to_snd)?; simp add: ctl_frame)

lemma ctl_write_rm32 [ctl_frame]: "ctl (write_rm32 c x1 x2) = ctl c"
  unfolding write_rm32_def by ((intro to_cpu)?; simp add: ctl_frame)

lemma ctl_exec_mov [ctl_frame]: "ctl (exec_mov c x1) = ctl c"
  by (cases x1; simp only: exec_mov_def mov_inst.case; ((intro to_cpu)?); simp add: ctl_frame)

lemma ctl_exec_moffs [ctl_frame]: "ctl (exec_moffs c x1) = ctl c"
  by (cases x1; simp only: exec_moffs_def moffs_inst.case; ((intro to_cpu)?); simp add: ctl_frame)

lemma ctl_exec_seg [ctl_frame]: "ctl (exec_seg c x1) = ctl c"
  by (cases x1; simp only: exec_seg_def seg_inst.case; ((intro to_cpu)?); simp add: ctl_frame)

lemma ctl_exec_xchg [ctl_frame]: "ctl (exec_xchg c x1 x2 x3) = ctl c"
  unfolding exec_xchg_def by ((intro to_cpu)?; simp add: ctl_frame)

lemma ctl_exec_cmpxchg [ctl_frame]: "ctl (exec_cmpxchg c x1 x2 x3) = ctl c"
  unfolding exec_cmpxchg_def by ((intro to_cpu)?; simp add: ctl_frame)

lemma ctl_exec_xadd [ctl_frame]: "ctl (exec_xadd c x1 x2 x3) = ctl c"
  unfolding exec_xadd_def by (intro to_cpu; simp add: ctl_frame)

lemma ctl_exec_cmpxchg8b [ctl_frame]: "ctl (exec_cmpxchg8b c x1) = ctl c"
  unfolding exec_cmpxchg8b_def by ((intro to_cpu)?; simp add: ctl_frame)

lemma ctl_exec_data [ctl_frame]: "ctl (exec_data c x1) = ctl c"
  by (cases x1; simp only: exec_data_def data_inst.case; ((intro to_cpu)?); simp add: ctl_frame)

lemma ctl_test8 [ctl_frame]: "ctl (test8 c x1) = ctl c"
  unfolding test8_def by ((intro to_cpu)?; simp add: ctl_frame)

lemma ctl_test16 [ctl_frame]: "ctl (test16 c x1) = ctl c"
  unfolding test16_def by ((intro to_cpu)?; simp add: ctl_frame)

lemma ctl_test_w [ctl_frame]: "ctl (test_w c x1 x2) = ctl c"
  unfolding test_w_def by ((intro to_cpu)?; simp add: ctl_frame)

lemma ctl_exec_alu [ctl_frame]: "ctl (exec_alu c x1) = ctl c"
  by (cases x1; simp only: exec_alu_def alu_inst.case; (intro to_cpu)?; simp add: ctl_frame split: dir.split)

lemma ctl_inc_flags16 [ctl_frame]: "ctl (inc_flags16 c x1) = ctl c"
  unfolding inc_flags16_def by ((intro to_cpu)?; simp add: ctl_frame)

lemma ctl_dec_flags16 [ctl_frame]: "ctl (dec_flags16 c x1) = ctl c"
  unfolding dec_flags16_def by ((intro to_cpu)?; simp add: ctl_frame)

lemma ctl_inc_flags32 [ctl_frame]: "ctl (inc_flags32 c x1) = ctl c"
  unfolding inc_flags32_def by ((intro to_cpu)?; simp add: ctl_frame)

lemma ctl_dec_flags32 [ctl_frame]: "ctl (dec_flags32 c x1) = ctl c"
  unfolding dec_flags32_def by ((intro to_cpu)?; simp add: ctl_frame)

lemma ctl_exec_unary [ctl_frame]: "ctl (exec_unary c x1) = ctl c"
  by (cases x1; simp only: exec_unary_def unary_inst.case; ((intro to_cpu)?); simp add: ctl_frame)

section \<open>Multiplication and division\<close>

lemma ctl_raise_de [ctl_frame]: "ctl (raise_de c) = ctl c"
  unfolding raise_de_def by ((intro to_cpu)?; simp add: ctl_frame)

lemma ctl_set_cf_of [ctl_frame]: "ctl (set_cf_of c x1) = ctl c"
  unfolding set_cf_of_def by ((intro to_cpu)?; simp add: ctl_frame)

lemma ctl_exec_mul [ctl_frame]: "ctl (exec_mul c x1) = ctl c"
  by (cases x1; simp only: exec_mul_def muldiv_inst.case; ((intro to_cpu)?); simp add: ctl_frame)

lemma ctl_exec_div8 [ctl_frame]: "ctl (exec_div8 c x1) = ctl c"
  unfolding exec_div8_def by ((intro to_cpu)?; simp add: ctl_frame)

lemma ctl_exec_div16 [ctl_frame]: "ctl (exec_div16 c x1) = ctl c"
  unfolding exec_div16_def by ((intro to_cpu)?; simp add: ctl_frame)

lemma ctl_exec_div_w [ctl_frame]: "ctl (exec_div_w c x1) = ctl c"
  unfolding exec_div_w_def by ((intro to_cpu)?; simp add: ctl_frame)

lemma ctl_exec_idiv8 [ctl_frame]: "pred_option (\<lambda>r. ctl r = ctl c) (exec_idiv8 c x1)"
  unfolding exec_idiv8_def by (intro to_option option_map_value; simp add: ctl_frame case_prod_beta)

lemma ctl_exec_idiv16 [ctl_frame]: "pred_option (\<lambda>r. ctl r = ctl c) (exec_idiv16 c x1)"
  unfolding exec_idiv16_def by (intro to_option option_map_value; simp add: ctl_frame case_prod_beta)

lemma ctl_exec_idiv_w [ctl_frame]: "pred_option (\<lambda>r. ctl r = ctl c) (exec_idiv_w c x1)"
  unfolding exec_idiv_w_def by (intro to_option option_map_value; simp add: ctl_frame case_prod_beta)

lemma ctl_exec_muldiv [ctl_frame]: "pred_option (\<lambda>r. ctl r = ctl c) (exec_muldiv c x1)"
  by (cases x1; simp only: exec_muldiv_def muldiv_inst.case; ((intro to_option)?); simp add: ctl_frame)

section \<open>Bits, stack and strings\<close>

lemma ctl_exec_shld [ctl_frame]: "ctl (exec_shld c x1 x2 x3 x4) = ctl c"
  unfolding exec_shld_def by ((intro to_cpu)?; simp add: ctl_frame)

lemma ctl_exec_shrd [ctl_frame]: "ctl (exec_shrd c x1 x2 x3 x4) = ctl c"
  unfolding exec_shrd_def by ((intro to_cpu)?; simp add: ctl_frame)

lemma ctl_exec_bits [ctl_frame]: "ctl (exec_bits c x1) = ctl c"
  by (cases x1; simp only: exec_bits_def bits_inst.case; ((intro to_cpu)?); simp add: ctl_frame)

lemma ctl_exec_pusha [ctl_frame]: "ctl (exec_pusha c x1) = ctl c"
  unfolding exec_pusha_def by ((intro to_cpu)?; simp add: ctl_frame)

lemma ctl_exec_popa [ctl_frame]: "ctl (exec_popa c x1) = ctl c"
  unfolding exec_popa_def by ((intro to_cpu)?; simp add: ctl_frame)

lemma ctl_exec_leave [ctl_frame]: "ctl (exec_leave c x1) = ctl c"
  unfolding exec_leave_def by ((intro to_cpu)?; simp add: ctl_frame)

lemma ctl_exec_pushf [ctl_frame]: "ctl (exec_pushf c) = ctl c"
  unfolding exec_pushf_def by ((intro to_cpu)?; simp add: ctl_frame)

lemma fixed_write_flags [simp]: "fixed_flag (write_flags old new)"
  by (simp add: write_flags_def fixed_flag_ops)

lemma ctl_exec_popf [ctl_frame]: "k_fixed (ctl c) \<Longrightarrow> ctl (exec_popf c) = ctl c"
  unfolding exec_popf_def by (intro to_cpu; simp add: ctl_frame fixed_flag_ctl)

lemma ctl_exec_stack [ctl_frame]: "k_fixed (ctl c) \<Longrightarrow> ctl (exec_stack c i) = ctl c"
  by (cases i; simp only: exec_stack_def stack_inst.case; (intro to_cpu)?; simp add: ctl_frame)

lemma ctl_movs_loop [ctl_frame]: "ctl (fst (movs_loop x0 x1 x2 x3 c x5 x6)) = ctl c"
  by (induction x3 arbitrary: c x5 x6) (simp_all add: Let_def case_prod_beta ctl_frame)

lemma ctl_stos_loop [ctl_frame]: "ctl (fst (stos_loop x0 x1 x2 x3 c x5)) = ctl c"
  by (induction x3 arbitrary: c x5) (simp_all add: Let_def case_prod_beta ctl_frame)

lemma ctl_lods_loop [ctl_frame]: "ctl (fst (lods_loop x0 x1 x2 x3 c x5)) = ctl c"
  by (induction x3 arbitrary: c x5) (simp_all add: Let_def case_prod_beta ctl_frame)

lemma ctl_cmps_loop [ctl_frame]: "ctl (fst (cmps_loop x0 x1 x2 x3 x4 c x6 x7)) = ctl c"
  by (induction x4 arbitrary: c x6 x7) (simp_all add: Let_def case_prod_beta ctl_frame)

lemma ctl_scas_loop [ctl_frame]: "ctl (fst (scas_loop x0 x1 x2 x3 x4 c x6)) = ctl c"
  by (induction x4 arbitrary: c x6) (simp_all add: Let_def case_prod_beta ctl_frame)

lemma ctl_string_commit_count [ctl_frame]: "ctl (string_commit_count c x1 x2 x3) = ctl c"
  unfolding string_commit_count_def by ((intro to_cpu)?; simp add: ctl_frame)

lemma ctl_exec_string [ctl_frame]: "ctl (exec_string c x1) = ctl c"
  by (cases x1; simp only: exec_string_def string_inst.case; intro to_cpu; simp add: ctl_frame)

section \<open>BIOS services\<close>

lemma layout_bios [ctl_frame]:
  "layout (bios_put_char_at m row col ch) = layout m" "layout (bios_scroll m) = layout m"
  by (simp_all add: bios_put_char_at_def bios_scroll_def)

lemma layout_bios_string [ctl_frame]: "layout (bios_write_string n row col a m) = layout m"
  by (induction n arbitrary: col a m) (simp_all add: ctl_frame)

lemma layout_disk_to_mem: "pred_option (\<lambda>m'. layout m' = layout m) (disk_to_mem n d i a m)"
proof (induction n arbitrary: i a m)
  case (Suc n)
  then show ?case using Suc [of "write_u8 m a (d ! unat i)" "i + 1" "a + 1"] by (simp add: ctl_frame)
qed simp

lemma ctl_bios_put_char [ctl_frame]: "ctl (bios_put_char c x1) = ctl c"
  unfolding bios_put_char_def by ((intro to_cpu)?; simp add: ctl_frame)

lemma ctl_bios_video [ctl_frame]: "ctl (bios_video c) = ctl c"
  unfolding bios_video_def by ((intro to_cpu)?; simp add: ctl_frame)

lemma ctl_bios_e820 [ctl_frame]: "ctl (bios_e820 c) = ctl c"
  unfolding bios_e820_def Let_def by (simp add: ctl_frame case_prod_beta)

lemma ctl_bios_e801 [ctl_frame]: "ctl (bios_e801 c) = ctl c"
  unfolding bios_e801_def by ((intro to_cpu)?; simp add: ctl_frame)

lemma ctl_bios_mem88 [ctl_frame]: "ctl (bios_mem88 c) = ctl c"
  unfolding bios_mem88_def by ((intro to_cpu)?; simp add: ctl_frame)

lemma ctl_bios_memory_map [ctl_frame]: "ctl (bios_memory_map c) = ctl c"
  unfolding bios_memory_map_def by ((intro to_cpu)?; simp add: ctl_frame)

lemma ctl_bios_keyboard [ctl_frame]: "ctl (bios_keyboard c) = ctl c"
  unfolding bios_keyboard_def Let_def by (simp add: ctl_frame case_prod_beta split: list.split)

lemma ctl_bios_disk [ctl_frame]: "pred_option (\<lambda>r. ctl r = ctl c) (bios_disk c)"
  unfolding bios_disk_def
  by (intro to_option option_map_state [OF layout_disk_to_mem] option_map_value; simp add: ctl_frame ide_ctl_def)

lemma ctl_bios_handle [ctl_frame]: "pred_option (\<lambda>r. ctl (snd r) = ctl c) (bios_handle c x1)"
  unfolding bios_handle_def
  by (intro to_option_snd; simp add: option.pred_map comp_def ctl_frame)

section \<open>Control flow\<close>

lemma ctl_exec_call_rel32 [ctl_frame]: "ctl (exec_call_rel32 c x1) = ctl c"
  unfolding exec_call_rel32_def by ((intro to_cpu)?; simp add: ctl_frame)

lemma ctl_set_target [ctl_frame]: "ctl (set_target c x1) = ctl c"
  unfolding set_target_def by ((intro to_cpu)?; simp add: ctl_frame)

lemma ctl_exec_call_rm32 [ctl_frame]: "ctl (exec_call_rm32 c x1) = ctl c"
  unfolding exec_call_rm32_def by ((intro to_cpu)?; simp add: ctl_frame)

lemma ctl_exec_ret_imm [ctl_frame]: "ctl (exec_ret_imm c x1 x2) = ctl c"
  unfolding exec_ret_imm_def by ((intro to_cpu)?; simp add: ctl_frame)

lemma ctl_exec_near [ctl_frame]: "ctl (exec_near c x1) = ctl c"
  by (cases x1; simp only: exec_near_def flow_inst.case; (intro to_cpu)?; simp add: ctl_frame)

lemma ctl_exec_loop [ctl_frame]: "ctl (exec_loop c x1 x2) = ctl c"
  unfolding exec_loop_def by ((intro to_cpu)?; simp add: ctl_frame)

lemma ctl_exec_retf32 [ctl_frame]: "ctl (exec_retf32 c) = ctl c"
  unfolding exec_retf32_def by ((intro to_cpu)?; simp add: ctl_frame)

lemma ctl_exec_far [ctl_frame]: "ctl (exec_far c x1) = ctl c"
  by (cases x1; simp only: exec_far_def flow_inst.case; ((intro to_cpu)?); simp add: ctl_frame)

lemma ctl_exec_int [ctl_frame]: "pred_option (\<lambda>r. ctl r = ctl c) (exec_int c x1)"
  unfolding exec_int_def
  by (rule option_map_state [OF ctl_bios_handle]) (clarsimp simp: ctl_frame)

lemma ctl_exec_iret [ctl_frame]: "k_fixed (ctl c) \<Longrightarrow> ctl (exec_iret c) = ctl c"
  unfolding exec_iret_def by (intro to_cpu; simp add: ctl_frame fixed_flag_ctl)

lemma ctl_exec_iretq [ctl_frame]: "k_fixed (ctl c) \<Longrightarrow> ctl (exec_iretq c) = ctl c"
  unfolding exec_iretq_def by (intro to_cpu; simp add: ctl_frame fixed_flag_ctl)

lemma ctl_exec_iretd [ctl_frame]: "k_fixed (ctl c) \<Longrightarrow> ctl (exec_iretd c) = ctl c"
  unfolding exec_iretd_def by (intro to_cpu; simp add: ctl_frame fixed_flag_ctl)

lemma ctl_exec_flow [ctl_frame]: "k_fixed (ctl c) \<Longrightarrow> pred_option (\<lambda>r. ctl r = ctl c) (exec_flow c i)"
  by (cases i; simp only: exec_flow_def flow_inst.case; simp add: ctl_frame)

section \<open>The VMCS\<close>

lemma vmx_ctl_write [ctl_frame]: "vmx_ctl (vmx_write x f v) = vmx_ctl x"
  by (simp add: vmx_ctl_def vmx_write_def Let_def split: option.split)

lemma vmx_ctl_writes [ctl_frame]: "vmx_ctl (vmx_writes x fs) = vmx_ctl x"
  unfolding vmx_writes_def by (induction fs arbitrary: x) (simp_all add: ctl_frame case_prod_beta)

lemma ctl_vmcs_put [ctl_frame]: "ctl (vmcs_put c x1 x2) = ctl c"
  unfolding vmcs_put_def by ((intro to_cpu)?; simp add: ctl_frame)

lemma ctl_save_guest_state [ctl_frame]: "ctl (save_guest_state c) = ctl c"
  unfolding save_guest_state_def by ((intro to_cpu)?; simp add: ctl_frame)

lemma ctl_load_segment [ctl_frame]: "ctl (load_segment x0 c) = ctl c"
  unfolding load_segment_def by ((intro to_cpu)?; simp add: ctl_frame)

lemma ctl_load_host_segment [ctl_frame]: "ctl (load_host_segment x0 x1 c) = ctl c"
  unfolding load_host_segment_def by ((intro to_cpu)?; simp add: ctl_frame)

section \<open>System instructions\<close>

lemma ctl_read_table_operand [ctl_frame]: "ctl (snd (read_table_operand c x1)) = ctl c"
  unfolding read_table_operand_def by ((intro to_snd)?; simp add: ctl_frame)

lemma ctl_store_table [ctl_frame]: "ctl (store_table c x1 x2 x3) = ctl c"
  unfolding store_table_def Let_def by (intro to_cpu; simp add: ctl_frame)

lemma ctl_exec_smsw [ctl_frame]: "ctl (exec_smsw c x1) = ctl c"
  unfolding exec_smsw_def by ((intro to_cpu)?; simp add: ctl_frame)

lemma ctl_set_edx_eax [ctl_frame]: "ctl (set_edx_eax c x1) = ctl c"
  unfolding set_edx_eax_def by ((intro to_cpu)?; simp add: ctl_frame)

lemma ctl_exec_xgetbv [ctl_frame]: "ctl (exec_xgetbv c) = ctl c"
  unfolding exec_xgetbv_def by ((intro to_cpu)?; simp add: ctl_frame)

lemma ctl_exec_mov_cr [ctl_frame]: "ctl (exec_mov_cr c x1 x2) = ctl c"
  unfolding exec_mov_cr_def by ((intro to_cpu)?; simp add: ctl_frame)

lemma ctl_exec_syscall [ctl_frame]: "k_fixed (ctl c) \<Longrightarrow> ctl (exec_syscall c) = ctl c"
  by (simp add: exec_syscall_def Let_def ctl_frame fixed_flag_ctl fixed_flag_ops)

lemma ctl_exec_sysret [ctl_frame]: "k_fixed (ctl c) \<Longrightarrow> ctl (exec_sysret c) = ctl c"
  unfolding exec_sysret_def by (intro to_cpu; simp add: ctl_frame fixed_flag_ctl)

lemma ctl_set_eabcd [ctl_frame]: "ctl (set_eabcd c x1 x2 x3 x4) = ctl c"
  unfolding set_eabcd_def by ((intro to_cpu)?; simp add: ctl_frame)

lemma ctl_exec_cpuid [ctl_frame]: "ctl (exec_cpuid c) = ctl c"
  unfolding exec_cpuid_def by ((intro to_cpu)?; simp add: ctl_frame)

lemma ctl_exec_idle [ctl_frame]: "ctl (exec_idle c x1) = ctl c"
  unfolding exec_idle_def by ((intro to_cpu)?; simp add: ctl_frame)

lemma ctl_exec_flag [ctl_frame]: "ctl (exec_flag c x1) = ctl c"
  by (cases x1; simp only: exec_flag_def flag_inst.case; ((intro to_cpu)?); simp add: ctl_frame)

lemma ctl_fpu_addr [ctl_frame]: "ctl (snd (fpu_addr c x1 x2)) = ctl c"
  unfolding fpu_addr_def by ((intro to_snd)?; simp add: ctl_frame)

lemma ctl_fpu_operand [ctl_frame]: "ctl (snd (fpu_operand c x1 x2)) = ctl c"
  unfolding fpu_operand_def by ((intro to_snd)?; simp add: ctl_frame)

section \<open>SSE\<close>

lemma ctl_set_xmm [ctl_frame]: "ctl (set_xmm c x1 x2) = ctl c"
  unfolding set_xmm_def by ((intro to_cpu)?; simp add: ctl_frame)

lemma ctl_sse_src [ctl_frame]: "ctl (snd (sse_src c x1 x2 x3)) = ctl c"
  unfolding sse_src_def by ((intro to_snd)?; simp add: ctl_frame)

lemma ctl_sse_store [ctl_frame]: "ctl (sse_store c x1 x2 x3 x4) = ctl c"
  unfolding sse_store_def by ((intro to_cpu)?; simp add: ctl_frame)

lemma ctl_sse_gate [ctl_frame]: "ctl (snd (sse_gate c)) = ctl c"
  unfolding sse_gate_def by ((intro to_snd)?; simp add: ctl_frame)

lemma ctl_gpr_operand [ctl_frame]: "ctl (snd (gpr_operand c x1 x2)) = ctl c"
  unfolding gpr_operand_def by ((intro to_snd)?; simp add: ctl_frame)

lemma ctl_mask_moves [ctl_frame]: "ctl (mask_moves c x1 x2 x3 x4 x5) = ctl c"
  by (induction x5 arbitrary: c) (simp_all add: Let_def case_prod_beta ctl_frame)

lemma ctl_exec_mov_gpr [ctl_frame]: "ctl (exec_mov_gpr c x1 x2 x3 x4) = ctl c"
  unfolding exec_mov_gpr_def by ((intro to_cpu)?; simp add: ctl_frame)

lemma ctl_exec_sse_mov [ctl_frame]: "ctl (exec_sse_mov c x1 x2) = ctl c"
  by (cases x2; simp only: exec_sse_mov_def sse_mov.case; ((intro to_cpu)?); simp add: ctl_frame)

lemma ctl_by_format [ctl_frame]: "ctl (snd (by_format c x1 x2 x3)) = ctl c"
  unfolding by_format_def Let_def by (cases "si_pfx x1") (simp_all add: ctl_frame case_prod_beta)

lemma ctl_exec_by_format [ctl_frame]: "ctl (exec_by_format c x1 x2 x3) = ctl c"
  unfolding exec_by_format_def by ((intro to_cpu)?; simp add: ctl_frame)

lemma ctl_exec_root [ctl_frame]: "ctl (exec_root c x1 x2) = ctl c"
  unfolding exec_root_def by ((intro to_cpu)?; simp add: ctl_frame)

lemma ctl_exec_sse_cmp [ctl_frame]: "ctl (exec_sse_cmp c x1) = ctl c"
  unfolding exec_sse_cmp_def by ((intro to_cpu)?; simp add: ctl_frame)

lemma ctl_exec_comis [ctl_frame]: "ctl (exec_comis c x1) = ctl c"
  unfolding exec_comis_def Let_def by (simp add: ctl_frame case_prod_beta)

lemma ctl_exec_packed [ctl_frame]: "ctl (exec_packed c x1 x2 x3) = ctl c"
  unfolding exec_packed_def by ((intro to_cpu)?; simp add: ctl_frame)

lemma ctl_exec_cvt_si2 [ctl_frame]: "ctl (exec_cvt_si2 c x1 x2) = ctl c"
  unfolding exec_cvt_si2_def by ((intro to_cpu)?; simp add: ctl_frame)

lemma ctl_exec_convert [ctl_frame]: "ctl (exec_convert c x1 x2) = ctl c"
  by (cases x2; simp only: exec_convert_def sse_fp.case; (intro to_cpu to_snd)?; simp add: ctl_frame)

lemma ctl_exec_sse_fp [ctl_frame]: "ctl (exec_sse_fp c x1 x2) = ctl c"
  by (cases x2; simp only: exec_sse_fp_def sse_fp.case; ((intro to_cpu)?); simp add: ctl_frame)

section \<open>SSE integers\<close>

lemma ctl_exec_lanes [ctl_frame]: "ctl (exec_lanes c x1 x2 x3 x4) = ctl c"
  unfolding exec_lanes_def by ((intro to_cpu)?; simp add: ctl_frame)

lemma ctl_exec_pshift [ctl_frame]: "ctl (exec_pshift c x1 x2 x3 x4) = ctl c"
  unfolding exec_pshift_def Let_def by (simp add: ctl_frame case_prod_beta)

lemma ctl_exec_pinsrw [ctl_frame]: "ctl (exec_pinsrw c x1) = ctl c"
  unfolding exec_pinsrw_def by ((intro to_cpu)?; simp add: ctl_frame)

lemma ctl_exec_bitwise [ctl_frame]: "ctl (exec_bitwise c x1 x2) = ctl c"
  unfolding exec_bitwise_def by ((intro to_cpu)?; simp add: ctl_frame)

lemma ctl_exec_sse_int [ctl_frame]: "ctl (exec_sse_int c x1 x2) = ctl c"
  by (cases x2; simp only: exec_sse_int_def sse_int.case; ((intro to_cpu)?); simp add: ctl_frame)

lemma ctl_read_linear [ctl_frame]: "ctl (snd (read_linear c x1 x2 x3)) = ctl c"
  proof (induction c x1 x2 x3 rule: read_linear.induct)
  case (1 c s off n)
  then show ?case by (subst read_linear.simps) (simp add: Let_def ctl_frame)
qed

lemma ctl_write_linear [ctl_frame]: "ctl (write_linear c x1 x2 x3) = ctl c"
  proof (induction c x1 x2 x3 rule: write_linear.induct)
  case (1 c s off b)
  then show ?case by (subst write_linear.simps) (simp add: Let_def ctl_frame)
qed


end
