(* ===== verification/Control_Safety.thy ===== *)
theory Control_Safety imports Control_Exec begin

text \<open>
  What a step of the processor may do to the control state. An abstract machine,
  \<open>ctl_step\<close>, lists the changes the code intends: writes of the control
  registers, VMX transitions, x87 stack motion and the steps of the devices
  behind the ports. Every instruction, exception and interrupt of the model is a
  sequence of them, so an invariant of the abstract machine is one of the
  processor.
\<close>

unbundle bit_operations_syntax

section \<open>The abstract machine\<close>

text \<open>EFER.LMA follows CR0.PG and EFER.LME.\<close>

definition synced_efer :: "u32 \<Rightarrow> u64 \<Rightarrow> u64" where
  "synced_efer v e = (if v AND CR0_PG \<noteq> 0 \<and> e AND efer_LME \<noteq> 0 then e OR efer_LMA else e AND NOT efer_LMA)"

definition set_cr0 :: "u32 \<Rightarrow> u64 \<Rightarrow> ctl \<Rightarrow> ctl" where
  "set_cr0 v e k = k\<lparr>k_pe := (v AND CR0_PE \<noteq> 0), k_cr0 := v, k_efer := synced_efer v e\<rparr>"

inductive ctl_step :: "ctl \<Rightarrow> ctl \<Rightarrow> bool" where
  mov_cr0: "ctl_step k (set_cr0 v (k_efer k) k)"
| clear_ts: "ctl_step k (k\<lparr>k_cr0 := k_cr0 k AND NOT 0x8\<rparr>)"
| write_efer: "ctl_step k (k\<lparr>k_efer := synced_efer (k_cr0 k) e\<rparr>)"
| mov_cr8: "ctl_step k (k\<lparr>k_cr8 := t AND 0xF\<rparr>)"
| set_xcr0: "x AND 1 \<noteq> 0 \<Longrightarrow> x AND NOT 0x3 = 0 \<Longrightarrow> ctl_step k (k\<lparr>k_xcr0 := x\<rparr>)"
| load_mxcsr: "m AND NOT MXCSR_MASK = 0 \<Longrightarrow> ctl_step k (k\<lparr>k_mxcsr := m\<rparr>)"
| vmx_enter: "k_vmx k = (False, cur, g, n) \<Longrightarrow> ctl_step k (k\<lparr>k_vmx := (True, None, g, n)\<rparr>)"
| vmx_leave: "k_vmx k = (on, cur, False, n) \<Longrightarrow> ctl_step k (k\<lparr>k_vmx := (False, None, False, n)\<rparr>)"
| vmcs_clear: "k_vmx k = (on, cur, False, n) \<Longrightarrow> ctl_step k (k\<lparr>k_vmx := (on, None, False, n)\<rparr>)"
| vmcs_load: "k_vmx k = (on, cur, False, n) \<Longrightarrow> ctl_step k (k\<lparr>k_vmx := (on, Some p, False, SLOTS)\<rparr>)"
| guest_entry: "k_vmx k = (True, Some p, False, n) \<Longrightarrow>
    ctl_step k (set_cr0 v e (k\<lparr>k_vmx := (True, Some p, True, n)\<rparr>))"
| guest_exit: "k_vmx k = (on, cur, True, n) \<Longrightarrow>
    ctl_step k (set_cr0 v e (k\<lparr>k_vmx := (on, cur, False, n)\<rparr>))"
| x87: "t < 8 \<Longrightarrow> n = snd (k_fpu k) \<or> n = 8 \<Longrightarrow> ctl_step k (k\<lparr>k_fpu := (t, n)\<rparr>)"
| keyboard: "kbd_step (k_kbd k) d \<Longrightarrow> ctl_step k (k\<lparr>k_kbd := d\<rparr>)"
| disk: "k_ide k = ide_ctl i \<Longrightarrow> ide_step i j \<Longrightarrow> ctl_step k (k\<lparr>k_ide := ide_ctl j\<rparr>)"
| disk_irq: "ctl_step k (k\<lparr>k_ide := (False, snd (k_ide k))\<rparr>)"
| pci_bus: "pci_step (k_pci k) p \<Longrightarrow> ctl_step k (k\<lparr>k_pci := p\<rparr>)"

text \<open>A processor state the abstract machine reaches from \<open>k\<close>; bit 1 of the flags is kept set.\<close>

definition leads :: "ctl \<Rightarrow> cpu \<Rightarrow> bool" where
  "leads k c \<longleftrightarrow> ctl_step\<^sup>*\<^sup>* k (ctl c) \<and> k_fixed (ctl c)"

lemma leads_frame: "leads k c \<Longrightarrow> ctl c' = ctl c \<Longrightarrow> leads k c'"
  by (simp add: leads_def)

lemma leads_step: "leads k c \<Longrightarrow> ctl_step (ctl c) (ctl c') \<Longrightarrow> k_fixed (ctl c') = k_fixed (ctl c) \<Longrightarrow> leads k c'"
  by (auto simp: leads_def)

interpretation lead: state_pred "leads k" for k .

lemmas lead_seq = lead.let_state lead.let_pair let_value lead.pair_state pair_value branch option_value

lemmas lead_cpu =
  lead.let_state [where k = k and P = "leads k" for k] lead.let_pair [where k = k and P = "leads k" for k]
  let_value [where P = "leads k" for k]
  lead.pair_state [where k = k and P = "leads k" for k] pair_value [where P = "leads k" for k]
  branch [where P = "leads k" for k] option_value [where P = "leads k" for k]

lemmas lead_snd =
  lead.let_state [where k = k and P = "\<lambda>r. leads k (snd r)" for k] lead.let_pair [where k = k and P = "\<lambda>r. leads k (snd r)" for k]
  let_value [where P = "\<lambda>r. leads k (snd r)" for k]
  lead.pair_state [where k = k and P = "\<lambda>r. leads k (snd r)" for k] pair_value [where P = "\<lambda>r. leads k (snd r)" for k]
  branch [where P = "\<lambda>r. leads k (snd r)" for k] option_value [where P = "\<lambda>r. leads k (snd r)" for k]

section \<open>Control registers\<close>

lemma efer_masks: "bit (0x400 :: u64) n \<longleftrightarrow> n = 10" "bit (0x100 :: u64) n \<longleftrightarrow> n = 8"
proof -
  have "(0x400 :: u64) = 2 ^ 10" "(0x100 :: u64) = 2 ^ 8" by simp_all
  then show "bit (0x400 :: u64) n \<longleftrightarrow> n = 10" "bit (0x100 :: u64) n \<longleftrightarrow> n = 8"
    by (auto simp only: bit_exp_iff) simp_all
qed

lemma lma_bit: "e AND efer_LMA \<noteq> 0 \<longleftrightarrow> bit e 10" "e AND efer_LMA = 0 \<longleftrightarrow> \<not> bit e 10" for e :: u64
  using and_pow2_nonzero [of 10 e] by auto

lemma lma_set: "bit e 10 \<Longrightarrow> e OR efer_LMA = e" "\<not> bit e 10 \<Longrightarrow> e AND NOT efer_LMA = e" for e :: u64
  subgoal by (rule bit_word_eqI) (simp only: efer_LMA_def bit_or_iff efer_masks, blast)
  subgoal by (rule bit_word_eqI) (simp only: efer_LMA_def bit_and_iff bit_not_iff efer_masks, auto)
  done

lemma ctl_efer: "ctl (c\<lparr>efer := e\<rparr>) = (ctl c)\<lparr>k_efer := e\<rparr>"
  by (simp add: ctl_def)

lemma ctl_same_efer: "ctl c = (ctl c)\<lparr>k_efer := efer c\<rparr>"
  by (simp add: ctl_def)

lemma ctl_update_long_mode:
  "ctl (update_long_mode c) = (ctl c)\<lparr>k_efer := synced_efer (cr0 c) (efer c)\<rparr>"
proof (cases "bit (efer c) 10 = (cr0 c AND CR0_PG \<noteq> 0 \<and> efer c AND efer_LME \<noteq> 0)")
  case True
  then have "synced_efer (cr0 c) (efer c) = efer c"
    unfolding synced_efer_def using lma_set [of "efer c"] by auto
  moreover have "update_long_mode c = c"
    using True unfolding update_long_mode_def Let_def lma_bit by simp
  ultimately show ?thesis using ctl_same_efer by simp
next
  case False
  then show ?thesis
    unfolding update_long_mode_def Let_def lma_bit synced_efer_def
    by (auto simp: ctl_frame ctl_efer)
qed

lemma ctl_cr0_pe: "ctl (c\<lparr>cr0 := v, pe := b\<rparr>) = (ctl c)\<lparr>k_cr0 := v, k_pe := b\<rparr>"
  by (simp add: ctl_def)

lemma ctl_write_cr0: "ctl (write_cr0 c v) = set_cr0 v (efer c) (ctl c)"
proof -
  have r: "cr0 (flush_tlb c) = cr0 c" "efer (flush_tlb c) = efer c" for c
    by (simp_all add: flush_tlb_def invalidate_phys_ip_def)
  show ?thesis
    by (simp add: write_cr0_def Let_def ctl_update_long_mode ctl_frame ctl_cr0_pe r set_cr0_def)
qed

lemma efer_resync: "synced_efer v ((x AND NOT efer_LMA) OR (e AND efer_LMA)) = synced_efer v x"
proof -
  have a: "((x AND NOT efer_LMA) OR (e AND efer_LMA)) AND efer_LME = x AND efer_LME"
    by (rule bit_word_eqI) (simp only: efer_LMA_def efer_LME_def bit_or_iff bit_and_iff bit_not_iff efer_masks, auto)
  have b: "((x AND NOT efer_LMA) OR (e AND efer_LMA)) OR efer_LMA = x OR efer_LMA"
    by (rule bit_word_eqI) (simp only: efer_LMA_def efer_LME_def bit_or_iff bit_and_iff bit_not_iff efer_masks, auto)
  have c: "((x AND NOT efer_LMA) OR (e AND efer_LMA)) AND NOT efer_LMA = x AND NOT efer_LMA"
    by (rule bit_word_eqI) (simp only: efer_LMA_def efer_LME_def bit_or_iff bit_and_iff bit_not_iff efer_masks, auto)
  show ?thesis unfolding synced_efer_def a b c ..
qed

lemma ctl_upd:
  "ctl (c\<lparr>cr0 := w\<rparr>) = (ctl c)\<lparr>k_cr0 := w\<rparr>" "ctl (c\<lparr>cr8 := v\<rparr>) = (ctl c)\<lparr>k_cr8 := v\<rparr>"
  "ctl (c\<lparr>xcr0 := v\<rparr>) = (ctl c)\<lparr>k_xcr0 := v\<rparr>" "ctl (c\<lparr>mxcsr := w\<rparr>) = (ctl c)\<lparr>k_mxcsr := w\<rparr>"
  "ctl (c\<lparr>c_vmx := x\<rparr>) = (ctl c)\<lparr>k_vmx := vmx_ctl x\<rparr>" "ctl (c\<lparr>c_fpu := f\<rparr>) = (ctl c)\<lparr>k_fpu := fpu_ctl f\<rparr>"
  "ctl (c\<lparr>c_kbd := d\<rparr>) = (ctl c)\<lparr>k_kbd := d\<rparr>" "ctl (c\<lparr>c_ide := i\<rparr>) = (ctl c)\<lparr>k_ide := ide_ctl i\<rparr>"
  "ctl (c\<lparr>c_pci := p\<rparr>) = (ctl c)\<lparr>k_pci := p\<rparr>"
  by (simp_all add: ctl_def)

lemma leads_write_cr0: "leads k c \<Longrightarrow> leads k (write_cr0 c v)"
  by (erule leads_step)
    (use ctl_step.mov_cr0 [of "ctl c" v] in \<open>simp_all add: ctl_write_cr0 ctl_fields set_cr0_def\<close>)

lemma leads_write_msr:
  assumes "leads k c"
  shows "leads k (write_msr c i v)"
proof (cases "i = cpu_msr_EFER")
  case True
  have "ctl (write_msr c i v) = (ctl c)\<lparr>k_efer := synced_efer (cr0 c) v\<rparr>"
    using efer_resync [of "cr0 c" v "efer c"]
    by (simp add: True write_msr_def ctl_update_long_mode ctl_efer)
  with assms show ?thesis
    using ctl_step.write_efer [of "ctl c" v] by (elim leads_step) (simp_all add: ctl_fields)
next
  case False
  have v: "vmx_ctl (x\<lparr>feature_control := v\<rparr>) = vmx_ctl x" for x v by (simp add: vmx_ctl_def)
  have "ctl (write_msr c i v) = ctl c"
    unfolding write_msr_def if_not_P [OF False]
    by (intro branch [where P = "\<lambda>d. ctl d = ctl c"]; simp add: ctl_frame v)
  with assms show ?thesis by (rule leads_frame)
qed

lemma leads_clts: "leads k c \<Longrightarrow> leads k (c\<lparr>cr0 := cr0 c AND NOT 0x8\<rparr>)"
  by (erule leads_step) (use ctl_step.clear_ts [of "ctl c"] in \<open>simp_all add: ctl_upd ctl_fields\<close>)

lemma leads_lmsw: "leads k c \<Longrightarrow> leads k (exec_lmsw c m)"
  unfolding exec_lmsw_def
  by (intro lead_cpu leads_write_cr0; (erule leads_frame)?; simp add: ctl_frame)

lemma leads_xsetbv:
  assumes "leads k c"
  shows "leads k (exec_xsetbv c)"
proof -
  have "x AND 1 \<noteq> 0 \<Longrightarrow> x AND NOT 0x3 = 0 \<Longrightarrow> leads k (c\<lparr>xcr0 := x\<rparr>)" for x
    using assms ctl_step.set_xcr0 [of x "ctl c"] by (elim leads_step) (simp_all add: ctl_upd)
  then show ?thesis
    unfolding exec_xsetbv_def Let_def using assms
    by (auto intro: leads_frame simp: ctl_frame)
qed

lemma leads_mov_to_cr:
  assumes "leads k c"
  shows "leads k (exec_mov_to_cr c cr r)"
proof -
  have "leads k (c\<lparr>cr8 := v AND 0xF\<rparr>)" for v
    using assms ctl_step.mov_cr8 [of "ctl c" v] by (elim leads_step) (simp_all add: ctl_upd)
  then show ?thesis
    unfolding exec_mov_to_cr_def Let_def using assms
    by (auto intro: leads_frame leads_write_cr0 simp: ctl_frame)
qed

section \<open>VMX\<close>

lemma fixed_flag_arith [simp]: "fixed_flag (- 2262)" "fixed_flag (- 262145)"
  by (simp_all add: fixed_flag_def)

lemma ctl_vm_outcomes [ctl_frame]:
  "ctl (vm_succeed c) = ctl c" "ctl (vm_fail_invalid c) = ctl c" "ctl (vm_fail_valid c e) = ctl c"
  by (simp_all add: vm_succeed_def vm_fail_invalid_def vm_fail_valid_def Let_def ctl_frame fixed_flag_ops)

lemma ctl_read_ptr_operand [ctl_frame]: "ctl (snd (read_ptr_operand c m)) = ctl c"
  unfolding read_ptr_operand_def by (intro to_snd; simp add: ctl_frame)

lemma layout_store_slots [ctl_frame]: "layout (store_slots m a vs) = layout m"
  by (induction vs arbitrary: m a) (simp_all add: ctl_frame)

lemma length_load_slots [simp]: "length (load_slots m a n) = n"
  by (induction n arbitrary: a) simp_all

lemma ctl_flush_vmcs [ctl_frame]: "ctl (flush_vmcs c) = ctl c"
  by (simp add: flush_vmcs_def ctl_frame split: option.split)

lemma ctl_exec_vmptrst [ctl_frame]: "ctl (exec_vmptrst c m) = ctl c"
  unfolding exec_vmptrst_def by (intro to_cpu; simp add: ctl_frame)

lemma ctl_exec_vmread [ctl_frame]: "ctl (exec_vmread c m r) = ctl c"
  unfolding exec_vmread_def by (intro to_cpu; simp add: ctl_frame)

lemma ctl_exec_vmwrite [ctl_frame]: "ctl (exec_vmwrite c m r) = ctl c"
  unfolding exec_vmwrite_def by (intro to_cpu; simp add: ctl_frame)

lemma ctl_exec_invvpid [ctl_frame]: "ctl (exec_invvpid c p m r) = ctl c"
  unfolding exec_invvpid_def by (simp add: ctl_frame)

lemma vmx_ctl_launched [ctl_frame]: "vmx_ctl (set_launched x b) = vmx_ctl x"
  by (simp add: vmx_ctl_def set_launched_def)

text \<open>Loading a world: CR0 and EFER from the VMCS, everything else outside the control state.\<close>

lemma ctl_efer_cr: "ctl (c\<lparr>efer := e, cr4 := x, cr3 := y\<rparr>) = (ctl c)\<lparr>k_efer := e\<rparr>"
  by (simp add: ctl_def)

lemma set_cr0_efer: "set_cr0 v e (k\<lparr>k_efer := x\<rparr>) = set_cr0 v e k"
  by (simp add: set_cr0_def)

lemma ctl_load_guest_control: "\<exists>v e. ctl (load_guest_control c) = set_cr0 v e (ctl c)"
  unfolding load_guest_control_def Let_def
  by (simp only: ctl_flush_tlb ctl_write_cr0 ctl_efer_cr set_cr0_efer) blast

lemma ctl_load_host_control: "\<exists>v e. ctl (load_host_control c) = set_cr0 v e (ctl c)"
  unfolding load_host_control_def Let_def
  by (simp only: ctl_flush_tlb ctl_write_cr0 ctl_efer_cr set_cr0_efer) blast

lemma ctl_load_registers [ctl_frame]:
  "k_fixed (ctl c) \<Longrightarrow> ctl (load_guest_registers c) = ctl c"
  "k_fixed (ctl c) \<Longrightarrow> ctl (load_host_registers c) = ctl c"
  by (simp_all add: load_guest_registers_def load_host_registers_def ctl_def fixed_flag_ops)

lemma ctl_fold: "(\<And>x c. ctl (f x c) = ctl c) \<Longrightarrow> ctl (fold f xs c) = ctl c"
  by (induction xs arbitrary: c) simp_all

lemma ctl_load_segments [ctl_frame]:
  "ctl (fold load_segment xs c) = ctl c" "ctl (fold (load_host_segment b) ys c) = ctl c"
  by (rule ctl_fold, simp add: ctl_frame)+

lemma k_fixed_set_cr0 [simp]: "k_fixed (set_cr0 v e k) = k_fixed k"
  by (simp add: set_cr0_def)

lemma ctl_load_guest_state:
  assumes "k_fixed (ctl c)"
  shows "\<exists>v e. ctl (load_guest_state c) = set_cr0 v e (ctl c)"
proof -
  obtain v e where "ctl (load_guest_control c) = set_cr0 v e (ctl c)"
    using ctl_load_guest_control by blast
  then show ?thesis using assms by (auto simp: load_guest_state_def Let_def ctl_frame)
qed

lemma ctl_load_host_state:
  assumes "k_fixed (ctl c)"
  shows "\<exists>v e. ctl (load_host_state c) = set_cr0 v e (ctl c)"
proof -
  obtain v e where "ctl (load_host_control c) = set_cr0 v e (ctl c)"
    using ctl_load_host_control by blast
  then show ?thesis using assms by (auto simp: load_host_state_def Let_def ctl_frame)
qed

text \<open>A VM exit is one step of the abstract machine.\<close>

lemma leads_vm_exit:
  assumes "leads k c" "in_guest (c_vmx c)"
  shows "leads k (vm_exit c r q i err)"
proof -
  obtain on cur n where x: "vmx_ctl (c_vmx c) = (on, cur, True, n)"
    using assms(2) by (simp add: vmx_ctl_def)
  have out: "vmx_ctl (y\<lparr>in_guest := False\<rparr>) = (on, cur, False, n)" if "vmx_ctl y = (on, cur, True, n)" for y
    using that by (simp add: vmx_ctl_def)
  have fixed: "k_fixed (ctl c)" using assms(1) by (simp add: leads_def)
  define d where "d = (let len = c_rip c - rip_start c;
          (guest_rip, len) = (if exits_between r then (c_rip c, 0) else (rip_start c, len));
          saved_rip = c_rip c;
          c = (save_guest_state (c\<lparr>c_rip := guest_rip\<rparr>))\<lparr>c_rip := saved_rip\<rparr>;
          c = c\<lparr>c_vmx := vmx_writes (c_vmx c) (exit_fields c r q len i err)\<rparr>
      in if (ucast (vmcs_get c fld_EXIT_CTLS) :: u32) AND EXIT_SAVE_EFER \<noteq> 0
         then vmcs_put c fld_GUEST_EFER (efer c) else c)"
  have d: "ctl d = ctl c"
    unfolding d_def by (intro to_cpu; simp add: ctl_frame)
  have e: "vm_exit c r q i err = load_host_state (d\<lparr>c_vmx := (c_vmx d)\<lparr>in_guest := False\<rparr>\<rparr>)"
    unfolding d_def vm_exit_def Let_def by (simp add: case_prod_beta)
  have "vmx_ctl (c_vmx d) = (on, cur, True, n)"
    using arg_cong [OF d, of k_vmx] x by (simp add: ctl_fields)
  then have g: "ctl (d\<lparr>c_vmx := (c_vmx d)\<lparr>in_guest := False\<rparr>\<rparr>) = (ctl c)\<lparr>k_vmx := (on, cur, False, n)\<rparr>"
    by (simp add: ctl_upd out d)
  obtain v ef where "ctl (vm_exit c r q i err) = set_cr0 v ef ((ctl c)\<lparr>k_vmx := (on, cur, False, n)\<rparr>)"
    using ctl_load_host_state [of "d\<lparr>c_vmx := (c_vmx d)\<lparr>in_guest := False\<rparr>\<rparr>"] fixed unfolding e g by auto
  then show ?thesis
    using assms(1) ctl_step.guest_exit [of "ctl c" on cur n v ef] x
    by (elim leads_step) (simp_all add: ctl_fields)
qed

lemma ctl_load_vmcs: "ctl (load_vmcs c p) = (ctl c)\<lparr>k_vmx := (vmx_on (c_vmx c), Some p, in_guest (c_vmx c), SLOTS)\<rparr>"
  by (simp add: load_vmcs_def ctl_upd vmx_ctl_def)

text \<open>In root operation the instructions move between the VMX states of the abstract machine.\<close>

lemma vmx_root:
  assumes "leads k c" "\<not> in_guest (c_vmx c)" "ctl c' = ctl c"
  shows "leads k (c'\<lparr>c_vmx := (c_vmx c')\<lparr>vmx_current := None\<rparr>\<rparr>)"
    "leads k (c'\<lparr>c_vmx := (c_vmx c')\<lparr>vmx_on := False, vmx_current := None\<rparr>\<rparr>)"
    "leads k (load_vmcs c' p)"
    "\<not> vmx_on (c_vmx c) \<Longrightarrow> leads k (c'\<lparr>c_vmx := (c_vmx c')\<lparr>vmx_on := True, vmxon_ptr := q, vmx_current := None\<rparr>\<rparr>)"
proof -
  obtain on cur n where x: "vmx_ctl (c_vmx c) = (on, cur, False, n)"
    using assms(2) by (simp add: vmx_ctl_def)
  then have y: "vmx_ctl (c_vmx c') = (on, cur, False, n)"
    using arg_cong [OF assms(3), of k_vmx] by (simp add: ctl_fields)
  have k: "leads k c'" using assms(1,3) by (rule leads_frame)
  show "leads k (c'\<lparr>c_vmx := (c_vmx c')\<lparr>vmx_current := None\<rparr>\<rparr>)"
    using k y ctl_step.vmcs_clear [of "ctl c'" on cur n] by (elim leads_step) (auto simp: ctl_upd ctl_fields vmx_ctl_def)
  show "leads k (c'\<lparr>c_vmx := (c_vmx c')\<lparr>vmx_on := False, vmx_current := None\<rparr>\<rparr>)"
    using k y ctl_step.vmx_leave [of "ctl c'" on cur n] by (elim leads_step) (auto simp: ctl_upd ctl_fields vmx_ctl_def)
  show "leads k (load_vmcs c' p)"
    using k y ctl_step.vmcs_load [of "ctl c'" on cur n p] by (elim leads_step) (auto simp: ctl_load_vmcs ctl_fields vmx_ctl_def)
  show "leads k (c'\<lparr>c_vmx := (c_vmx c')\<lparr>vmx_on := True, vmxon_ptr := q, vmx_current := None\<rparr>\<rparr>)"
    if "\<not> vmx_on (c_vmx c)"
    using k x y that ctl_step.vmx_enter [of "ctl c'" cur False n]
    by (elim leads_step) (auto simp: ctl_upd ctl_fields vmx_ctl_def)
qed

section \<open>Exceptions and interrupts\<close>

lemma in_guest_ctl: "in_guest (c_vmx c) \<longleftrightarrow> fst (snd (snd (k_vmx (ctl c))))"
  by (simp add: ctl_fields vmx_ctl_def)

lemma leads_triple_fault: "leads k c \<Longrightarrow> leads k (raise_triple_fault c)"
  unfolding raise_triple_fault_def triple_fault_exit_def
  by (auto intro: leads_vm_exit leads_frame simp: ctl_frame)

lemma leads_exception_exit:
  assumes "leads k c" "in_guest (c_vmx c)"
  shows "leads k (snd (exception_exit c v e))"
proof -
  have "leads k (c\<lparr>c_rip := r\<rparr>)" for r using assms(1) by (rule leads_frame) (simp add: ctl_frame)
  then show ?thesis
    using assms by (simp add: exception_exit_def Let_def leads_vm_exit)
qed

lemma leads_dispatch: "leads k c \<Longrightarrow> leads k (dispatch_event raw c v e)"
proof (induction raw c v e rule: dispatch_event.induct)
  case (1 raw c v e)
  show ?case
  proof (cases raw)
    case False
    define c' where "c' = (if \<not> trap_vector v then c\<lparr>c_rip := rip_start c\<rparr> else c)"
    have c': "leads k c'" "in_guest (c_vmx c') = in_guest (c_vmx c)"
      using "1.prems" by (auto simp: c'_def intro: leads_frame ctl_frame)
    show ?thesis
    proof (cases "in_guest (c_vmx c) \<and> v < 32")
      case True
      then have "leads k (snd (exception_exit c' v e))" using c' leads_exception_exit by blast
      then show ?thesis
        using "1.IH"(1) [OF _ True] False True
        by (simp add: dispatch_event.simps [of False] c'_def [symmetric] Let_def)
    next
      case out: False
      then show ?thesis
        using "1.IH"(2) [OF _ out] False "1.prems" by (auto simp: dispatch_event.simps [of False])
    qed
  next
    case True
    define c1 where "c1 = restart_fault c v"
    have c1: "leads k c1"
      using "1.prems" unfolding c1_def restart_fault_def by (rule leads_frame) (simp add: ctl_frame)
    define c2 where "c2 = protected_int_err c1 v e"
    have c2: "leads k c2" using c1 unfolding c2_def by (rule leads_frame) (simp add: ctl_frame)
    have c3: "leads k (c2\<lparr>pending_exception := None\<rparr>)" using c2 by (rule leads_frame) (simp add: ctl_frame)
    have real: "leads k (invalidate_phys_ip (real_int c1 v))"
      using c1 by (rule leads_frame) (simp add: ctl_frame)
    have inv: "leads k (invalidate_phys_ip c2)" using c2 by (rule leads_frame) (simp add: ctl_frame)
    show ?thesis
      using "1.IH"(3) [of c1] True c1 c2 c3 real inv leads_triple_fault
      unfolding c1_def [symmetric]
      by (auto simp: dispatch_event.simps [of True] Let_def c1_def [symmetric] c2_def [symmetric]
          split: option.split)
  qed
qed

lemma leads_dispatch_exception: "leads k c \<Longrightarrow> leads k (dispatch_exception c v e)"
  by (simp add: dispatch_exception_def leads_dispatch)

lemma leads_dispatch_raw: "leads k c \<Longrightarrow> leads k (dispatch_exception_raw c v e)"
  by (simp add: dispatch_exception_raw_def leads_dispatch)

lemma leads_pre_step: "leads k c \<Longrightarrow> in_guest (c_vmx c) \<Longrightarrow> leads k (pre_step c)"
  by (simp add: pre_step_def Let_def leads_vm_exit)

lemma leads_interrupt_exit:
  assumes "leads k c" "in_guest (c_vmx c)"
  shows "leads k (snd (interrupt_exit c))"
proof -
  have "leads k (c\<lparr>c_pic := p\<rparr>)" for p using assms(1) by (rule leads_frame) (simp add: ctl_frame)
  then show ?thesis
    using assms by (simp add: interrupt_exit_def Let_def leads_vm_exit case_prod_beta split: option.split prod.split)
qed

lemma leads_keyboard: "leads k c \<Longrightarrow> kbd_step (c_kbd c) d \<Longrightarrow> leads k (c\<lparr>c_kbd := d\<rparr>)"
  by (erule leads_step) (use ctl_step.keyboard [of "ctl c" d] in \<open>simp_all add: ctl_upd ctl_fields\<close>)

lemma leads_disk: "leads k c \<Longrightarrow> ide_step (c_ide c) i \<Longrightarrow> leads k (c\<lparr>c_ide := i\<rparr>)"
  by (erule leads_step) (use ctl_step.disk [of "ctl c" "c_ide c" i] in \<open>simp_all add: ctl_upd ctl_fields\<close>)

lemma leads_pci: "leads k c \<Longrightarrow> pci_step (c_pci c) p \<Longrightarrow> leads k (c\<lparr>c_pci := p\<rparr>)"
  by (erule leads_step) (use ctl_step.pci_bus [of "ctl c" p] in \<open>simp_all add: ctl_upd ctl_fields\<close>)

lemma leads_disk_irq: "leads k c \<Longrightarrow> leads k (c\<lparr>c_ide := (c_ide c)\<lparr>ide_busy := False\<rparr>\<rparr>)"
  by (erule leads_step) (use ctl_step.disk_irq [of "ctl c"] in \<open>simp_all add: ctl_upd ctl_fields ide_ctl_def\<close>)

lemma leads_pic: "leads k c \<Longrightarrow> leads k (c\<lparr>c_pic := p\<rparr>)"
  by (erule leads_frame) (simp add: ctl_frame)

lemma leads_type_next_key: "leads k c \<Longrightarrow> leads k (type_next_key c)"
proof -
  assume a: "leads k c"
  have "leads k (c\<lparr>c_kbd := push_scancode (c_kbd c) s, key_script := x, key_next := y\<rparr>)" for s x y
    using leads_keyboard [OF a kbd_step.key [of "c_kbd c" s]] by (rule leads_frame) (simp add: ctl_frame)
  with a show ?thesis by (simp add: type_next_key_def)
qed

lemma leads_device_irqs: "leads k c \<Longrightarrow> leads k (raise_device_irqs c)"
proof -
  have k: "leads k c \<Longrightarrow> leads k (c\<lparr>c_kbd := (c_kbd c)\<lparr>irq1 := False\<rparr>, c_pic := p\<rparr>)" for c p
    using leads_pic [OF leads_keyboard [OF _ kbd_step.edge]] .
  have i: "leads k c \<Longrightarrow> leads k (c\<lparr>c_ide := (c_ide c)\<lparr>ide_busy := False\<rparr>, c_pic := p\<rparr>)" for c p
    using leads_pic [OF leads_disk_irq] .
  show "leads k c \<Longrightarrow> ?thesis"
    unfolding raise_device_irqs_def by (intro lead_cpu k i leads_pic)
qed

lemma leads_poll: "leads k c \<Longrightarrow> leads k (poll_devices c)"
  unfolding poll_devices_def
  by (intro lead_cpu leads_device_irqs leads_type_next_key; (erule leads_frame)?; simp add: ctl_frame)

lemma leads_deliver:
  assumes "leads k c"
  shows "leads k (snd (deliver_hardware_interrupt c))"
proof -
  define d where "d = poll_devices c"
  have d: "leads k d" using assms unfolding d_def by (rule leads_poll)
  have t: "leads k c \<Longrightarrow> leads k (snd (take_interrupt c))" for c
    by (erule leads_frame) (simp add: ctl_frame)
  have "leads k (snd (let (exited, c) = interrupt_exit d in if exited then (True, c) else take_interrupt c))"
    if "in_guest (c_vmx d)"
    using leads_interrupt_exit [OF d that] t by (simp add: case_prod_beta)
  then show ?thesis
    using assms d t unfolding deliver_hardware_interrupt_def Let_def d_def [symmetric] by auto
qed

lemma leads_inject: "leads k c \<Longrightarrow> leads k (inject_event c info)"
  unfolding inject_event_def
  by (intro lead_cpu leads_dispatch_raw; (erule leads_frame)?; simp add: ctl_frame)

lemma leads_vm_entry:
  assumes "leads k c" "vmx_ctl (c_vmx c) = (True, Some p, False, n)"
  shows "leads k (vm_entry c)"
proof -
  define c1 where "c1 = c\<lparr>c_vmx := (c_vmx c)\<lparr>host_long := exit_host_long c\<rparr>\<rparr>"
  define c2 where "c2 = load_guest_state c1"
  define c3 where "c3 = c2\<lparr>c_vmx := (set_launched (c_vmx c2) True)\<lparr>in_guest := True\<rparr>\<rparr>"
  have c1: "ctl c1 = ctl c" unfolding c1_def by (rule ctl_upd_vmx) (simp add: vmx_ctl_def)
  obtain v e where c2: "ctl c2 = set_cr0 v e (ctl c)"
    using ctl_load_guest_state [of c1] assms(1) unfolding c2_def c1 leads_def by blast
  have "vmx_ctl (c_vmx c2) = (True, Some p, False, n)"
    using arg_cong [OF c2, of k_vmx] assms(2) by (simp add: ctl_fields set_cr0_def)
  then have "ctl c3 = set_cr0 v e ((ctl c)\<lparr>k_vmx := (True, Some p, True, n)\<rparr>)"
    unfolding c3_def ctl_upd c2 by (simp add: vmx_ctl_def set_launched_def set_cr0_def)
  then have "leads k c3"
    using assms ctl_step.guest_entry [of "ctl c" p n v e] by (elim leads_step) (simp_all add: ctl_fields)
  then show ?thesis
    using leads_inject unfolding vm_entry_def Let_def c1_def [symmetric] c2_def [symmetric] c3_def [symmetric] by simp
qed

section \<open>The VMX instructions\<close>

lemma leads_execute_vmx:
  assumes "leads k c" "\<not> in_guest (c_vmx c)"
  shows "leads k (execute_vmx c v)"
proof -
  note root = vmx_root [OF assms]
  have f: "ctl c' = ctl c \<Longrightarrow> leads k c'" for c' using assms(1) by (rule leads_frame)
  have s: "leads k c \<Longrightarrow> leads k (vm_succeed c)" for c by (erule leads_frame) (simp add: ctl_frame)
  have on: "leads k (exec_vmxon c m)" for m
    using root(4) f s by (auto simp: exec_vmxon_def ctl_frame split: prod.split option.split
      dest!: arg_cong [where f = "\<lambda>r. ctl (snd r)"])
  have off: "leads k (exec_vmxoff c)"
    unfolding exec_vmxoff_def Let_def by (intro s root(2)) (simp add: ctl_frame)
  have clear: "leads k (exec_vmclear c m)" for m
    using root(1) f s by (auto simp: exec_vmclear_def Let_def ctl_frame split: prod.split option.split
      dest!: arg_cong [where f = "\<lambda>r. ctl (snd r)"])
  have load: "leads k (exec_vmptrld c m)" for m
    using root(3) f s by (auto simp: exec_vmptrld_def Let_def ctl_frame split: prod.split option.split
      dest!: arg_cong [where f = "\<lambda>r. ctl (snd r)"])
  have launch: "leads k (exec_vmlaunch c p)" if "vmx_on (c_vmx c)" for p
    using leads_vm_entry [OF assms(1)] assms(2) that f
    by (auto simp: exec_vmlaunch_def vmx_ctl_def ctl_frame split: option.split)
  show ?thesis
    using on off clear load launch f
    by (cases "vi_op v") (auto simp: execute_vmx_def Let_def ctl_frame)
qed

section \<open>Ports\<close>

lemma layout_in_bytes: "layout (fst (in_bytes d m a off n)) = layout m"
  by (induction n arbitrary: m a off) (simp_all add: ctl_frame)

lemma layout_in_data: "layout (fst (in_data d m off w ds)) = layout m"
proof (induction d m off w ds rule: in_data.induct)
  case (2 d m off w a len fl ds)
  then show ?case
    using layout_in_bytes [of d m a off "unat len"] by (auto simp: Let_def case_prod_beta prod_eq_iff)
qed simp

lemma layout_zero_bytes: "layout (zero_bytes m a n) = layout m"
  by (induction n arbitrary: m a) (simp_all add: ctl_frame)

lemma layout_id_data: "layout (fst (id_data m w ds)) = layout m"
  by (induction m w ds rule: id_data.induct) (simp_all add: layout_zero_bytes)

lemma layout_request: "layout (snd (snd (virtio_request b m d h))) = layout m"
  by (simp add: virtio_request_def Let_def case_prod_beta ctl_frame layout_in_data layout_id_data)

lemma layout_notify_one: "layout (snd (notify_one d a u bm)) = layout (snd bm)"
  by (simp add: notify_one_def Let_def case_prod_beta ctl_frame layout_request)

lemma layout_notify_loop: "layout (snd (notify_loop d a u i bm)) = layout (snd bm)"
proof (induction d a u i bm rule: notify_loop.induct)
  case (1 d a u i bm)
  then show ?case by (subst notify_loop.simps) (simp add: layout_notify_one)
qed

lemma layout_virtio_write: "layout (snd (virtio_write b off v m)) = layout m"
  by (simp add: virtio_write_def notify_def Let_def case_prod_beta layout_notify_loop)

lemma ctl_port_virtio [ctl_frame]:
  "ctl (snd (port_virtio_read c off n)) = ctl c" "ctl (port_virtio_write c off v) = ctl c"
  by (simp_all add: port_virtio_read_def port_virtio_write_def Let_def case_prod_beta ctl_frame layout_virtio_write)

lemma leads_port_in:
  assumes a: "leads k c"
  shows "leads k (snd (port_in c p))"
proof (cases "virtio_port c p")
  case None
  have f: "ctl (snd r) = ctl c \<Longrightarrow> leads k (snd r)" for r :: "u8 \<times> cpu" using a by (rule leads_frame)
  have kbd: "leads k (snd (let (v, d) = kbd_read_data (c_kbd c) in (v, c\<lparr>c_kbd := d\<rparr>)))"
    using leads_keyboard [OF a kbd_step.rd] by (simp add: case_prod_beta)
  show ?thesis
    unfolding port_in_def None option.case
    by (intro branch [where P = "\<lambda>r. leads k (snd r)"] kbd; rule f; simp add: case_prod_beta ctl_frame Let_def)
next
  case (Some off)
  show ?thesis
    using a by (rule leads_frame) (simp add: port_in_def Some case_prod_beta ctl_frame)
qed

lemma leads_port_in16:
  assumes a: "leads k c"
  shows "leads k (snd (port_in16 c p))"
proof (cases "virtio_port c p")
  case None
  have ide: "leads k (snd (let (v, d) = ide_read_data (c_ide c) in (v, c\<lparr>c_ide := d\<rparr>)))"
    using leads_disk [OF a ide_step.rd] by (simp add: case_prod_beta)
  show ?thesis
    unfolding port_in16_def None option.case
    by (intro branch [where P = "\<lambda>r. leads k (snd r)"] ide;
        simp add: case_prod_beta a leads_port_in del: One_nat_def)
next
  case (Some off)
  show ?thesis
    using a by (rule leads_frame) (simp add: port_in16_def Some case_prod_beta ctl_frame)
qed

lemma leads_port_in32: "leads k c \<Longrightarrow> leads k (snd (port_in32 c p))"
  unfolding port_in32_def Let_def
  by (auto simp: case_prod_beta ctl_frame leads_port_in16 intro: leads_frame split: option.split)

lemma leads_port_out: "leads k c \<Longrightarrow> leads k (port_out c p v)"
proof -
  assume a: "leads k c"
  then have f: "ctl c' = ctl c \<Longrightarrow> leads k c'" for c' by (rule leads_frame)
  note dev = leads_keyboard [OF a kbd_step.data] leads_keyboard [OF a kbd_step.cmd]
    leads_disk [OF a ide_step.reg] leads_disk [OF a ide_step.cmd] leads_pci [OF a pci_step.data]
  show ?thesis
  proof (cases "virtio_port c p")
    case None
    show ?thesis
      unfolding port_out_def None option.case
      by (intro branch [where P = "leads k"] dev; rule f; simp add: ctl_frame)
  next
    case (Some off)
    then show ?thesis by (simp add: port_out_def f ctl_frame)
  qed
qed

lemma leads_port_out16: "leads k c \<Longrightarrow> leads k (port_out16 c p v)"
proof -
  assume a: "leads k c"
  then have f: "ctl c' = ctl c \<Longrightarrow> leads k c'" for c' by (rule leads_frame)
  note dev = leads_disk [OF a ide_step.wr] leads_disk [OF a ide_step.reg] leads_disk [OF a ide_step.cmd]
    leads_pci [OF a pci_step.data] a
  show ?thesis
  proof (cases "virtio_port c p")
    case None
    show ?thesis
      unfolding port_out16_def None option.case
      by (intro branch [where P = "leads k"] dev leads_port_out)
  next
    case (Some off)
    then show ?thesis by (simp add: port_out16_def f ctl_frame)
  qed
qed

lemma leads_port_out32: "leads k c \<Longrightarrow> leads k (port_out32 c p v)"
proof -
  assume a: "leads k c"
  then have f: "ctl c' = ctl c \<Longrightarrow> leads k c'" for c' by (rule leads_frame)
  show ?thesis
  proof (cases "virtio_port c p")
    case None
    show ?thesis
      unfolding port_out32_def None option.case
      by (intro branch [where P = "leads k"] leads_port_out16 leads_pci [OF a] pci_step.latch pci_step.data a)
  next
    case (Some off)
    then show ?thesis by (simp add: port_out32_def f ctl_frame)
  qed
qed

lemma leads_exec_io: "leads k c \<Longrightarrow> leads k (exec_io c i)"
proof -
  assume a: "leads k c"
  have reg: "leads k d \<Longrightarrow> leads k (set_reg8 d r b)" "leads k d \<Longrightarrow> leads k (set_reg32_idx d n x)"
    "leads k d \<Longrightarrow> leads k (set_reg16_idx d n w)" for d r b n x w
    by (erule leads_frame, simp add: ctl_frame)+
  have acc: "leads k (in_acc c p)" "leads k (out_acc c p)" for p
    using a by (simp_all add: in_acc_def out_acc_def case_prod_beta reg leads_port_in16 leads_port_in32
        leads_port_out16 leads_port_out32)
  show ?thesis
    using a by (cases i) (simp_all add: exec_io_def case_prod_beta reg acc leads_port_in leads_port_out)
qed

section \<open>x87 and SSE state\<close>

lemma leads_fpu:
  "leads k c \<Longrightarrow> fpu_top f < 8 \<Longrightarrow> length (fpu_st f) = length (fpu_st (c_fpu c)) \<or> length (fpu_st f) = 8 \<Longrightarrow>
   leads k (c\<lparr>c_fpu := f\<rparr>)"
  by (erule leads_step)
    (use ctl_step.x87 [of "fpu_top f" "length (fpu_st f)" "ctl c"] in
      \<open>auto simp: ctl_upd ctl_fields fpu_ctl_def\<close>)

lemma leads_fpu_same: "leads k c \<Longrightarrow> fpu_ctl f = fpu_ctl (c_fpu c) \<Longrightarrow> leads k (c\<lparr>c_fpu := f\<rparr>)"
  by (erule leads_frame) (simp add: ctl_def)

lemma leads_fpu_ops:
  assumes "leads k c"
  shows "leads k (c\<lparr>c_fpu := finit (c_fpu c)\<rparr>)" "leads k (c\<lparr>c_fpu := fpu_pop (c_fpu c)\<rparr>)"
    "leads k (c\<lparr>c_fpu := fpu_push (c_fpu c) v\<rparr>)" "leads k (c\<lparr>c_fpu := set_st_i (c_fpu c) i v\<rparr>)"
    "leads k (c\<lparr>c_fpu := (c_fpu c)\<lparr>fpu_control := w\<rparr>\<rparr>)"
proof -
  show "leads k (c\<lparr>c_fpu := finit (c_fpu c)\<rparr>)" "leads k (c\<lparr>c_fpu := fpu_pop (c_fpu c)\<rparr>)"
    "leads k (c\<lparr>c_fpu := fpu_push (c_fpu c) v\<rparr>)"
    using assms by (rule leads_fpu, simp_all add: finit_def fpu_pop_def fpu_push_def Let_def)+
  show "leads k (c\<lparr>c_fpu := set_st_i (c_fpu c) i v\<rparr>)" "leads k (c\<lparr>c_fpu := (c_fpu c)\<lparr>fpu_control := w\<rparr>\<rparr>)"
    using assms by (rule leads_fpu_same, simp_all add: set_st_i_def fpu_ctl_def Let_def)+
qed

lemma leads_mem: "leads k c \<Longrightarrow> layout m = layout (c_mem c) \<Longrightarrow> leads k (c\<lparr>c_mem := m\<rparr>)"
  by (erule leads_frame) (simp add: ctl_frame)

lemma ctl_fpu_access [ctl_frame]: "ctl (snd (fpu_operand c m w)) = ctl c"
  unfolding fpu_operand_def by (intro to_snd; simp add: ctl_frame)

lemma leads_fpu_store: "leads k c \<Longrightarrow> leads k (fpu_store c m w)"
  unfolding fpu_store_def Let_def
  by (intro lead_cpu leads_fpu_ops leads_mem; (erule leads_frame)?; simp add: ctl_frame)

lemma leads_exec_fpu:
  assumes "leads k c"
  shows "leads k (exec_fpu c i)"
proof -
  have addr: "leads k (snd (fpu_addr c m b))" "leads k (snd (fpu_operand c m b))" for m b
    using assms by (rule leads_frame, simp add: ctl_frame)+
  have store: "leads k (c'\<lparr>c_mem := write_u16 (c_mem c') a v\<rparr>)" if "leads k c'" for c' a v
    using that by (rule leads_mem) (simp add: ctl_frame)
  have fistp: "leads k (c'\<lparr>c_mem := m, c_fpu := fpu_pop (c_fpu c')\<rparr>)"
    if "leads k c'" "layout m = layout (c_mem c')" for c' m
    using leads_fpu_ops(2) [OF leads_mem [OF that]] by simp
  have reg: "leads k (set_reg16_idx c n v)" for n v using assms by (rule leads_frame) (simp add: ctl_frame)
  show ?thesis
    using assms addr
    by (cases i) (simp_all add: exec_fpu_def Let_def case_prod_beta leads_fpu_ops leads_fpu_store store fistp reg ctl_frame)
qed

lemma leads_fxrstor_image: "leads k c \<Longrightarrow> leads k (fxrstor_image c b)"
proof -
  assume a: "leads k c"
  have top: "unat (x AND 7 :: u16) < 8" for x
    using and_mask_lt [of 3 x] by (simp add: mask_eq_exp_minus_1 word_less_nat_alt)
  have len: "length (fold (\<lambda>i st. st[g i := h i]) is st) = length st" for g h "is" and st :: "u64 list"
    by (induction "is" arbitrary: st) simp_all
  have mx: "leads k c \<Longrightarrow> m AND NOT MXCSR_MASK = 0 \<Longrightarrow> leads k (c\<lparr>mxcsr := m\<rparr>)" for c m
    by (erule leads_step) (use ctl_step.load_mxcsr [of m "ctl c"] in \<open>simp_all add: ctl_upd\<close>)
  have f: "leads k c \<Longrightarrow> fpu_top f < 8 \<Longrightarrow> length (fpu_st f) = length (fpu_st (c_fpu c)) \<Longrightarrow>
      leads k (c\<lparr>c_fpu := f\<rparr>)" for c f by (rule leads_fpu) simp_all
  define c1 where "c1 = c\<lparr>c_fpu := (c_fpu c)\<lparr>fpu_control := ucast (le_at b 0 2), fpu_status := ucast (le_at b 2 2),
      fpu_top := unat (drop_bit 11 (ucast (le_at b 2 2)) AND 7 :: u16), fpu_tag := full_tag (b ! 4)\<rparr>\<rparr>"
  have c1: "leads k c1" unfolding c1_def using a by (rule f) (simp_all add: top)
  define m where "m = (ucast (le_at b 24 4) :: u32)"
  show ?thesis
  proof (cases "m AND NOT MXCSR_MASK = 0")
    case False
    then have "fxrstor_image c b = raise_gp c1 0"
      by (simp add: fxrstor_image_def Let_def c1_def m_def)
    then show ?thesis using leads_frame [OF c1, of "raise_gp c1 0"] by (simp add: ctl_frame)
  next
    case True
    define st where "st = fold (\<lambda>i st. st[(fpu_top (c_fpu c1) + i) mod 8 :=
        f80_to_f64 (ucast (le_at b (32 + i * 16) 8)) (ucast (le_at b (32 + i * 16 + 8) 2))]) [0..<8] (fpu_st (c_fpu c1))"
    have "leads k (c1\<lparr>mxcsr := m\<rparr>)" using c1 True by (rule mx)
    then have "leads k (c1\<lparr>mxcsr := m, c_fpu := (c_fpu c1)\<lparr>fpu_st := st\<rparr>\<rparr>)"
      using f [of "c1\<lparr>mxcsr := m\<rparr>" "(c_fpu c1)\<lparr>fpu_st := st\<rparr>"] top
      by (simp add: st_def len c1_def)
    then have "leads k (c1\<lparr>mxcsr := m, c_fpu := (c_fpu c1)\<lparr>fpu_st := st\<rparr>, xmm := x\<rparr>)" for x
      by (rule leads_frame) (simp add: ctl_frame)
    moreover have "\<exists>x. fxrstor_image c b = c1\<lparr>mxcsr := m, c_fpu := (c_fpu c1)\<lparr>fpu_st := st\<rparr>, xmm := x\<rparr>"
      using True by (simp add: fxrstor_image_def Let_def c1_def m_def st_def) (rule exI, rule refl)
    ultimately show ?thesis by auto
  qed
qed

lemma leads_ldmxcsr: "leads k c \<Longrightarrow> m AND NOT MXCSR_MASK = 0 \<Longrightarrow> leads k (c\<lparr>mxcsr := m\<rparr>)"
  by (erule leads_step) (use ctl_step.load_mxcsr [of m "ctl c"] in \<open>simp_all add: ctl_upd\<close>)

lemma leads_sse_state:
  assumes "leads k c"
  shows "leads k (exec_sse_state c s p)"
proof -
  have f: "ctl c' = ctl c \<Longrightarrow> leads k c'" for c' using assms by (rule leads_frame)
  show ?thesis
  proof (cases p)
    case Ldmxcsr
    have "leads k (snd (read_rm32 c (si_m s)))" by (rule f) (simp add: ctl_frame)
    from this leads_ldmxcsr [OF this] show ?thesis
      by (auto simp: Ldmxcsr exec_sse_state_def Let_def case_prod_beta ctl_frame f intro: leads_frame)
  next
    case Fxrstor
    then show ?thesis
      by (auto simp: exec_sse_state_def Let_def case_prod_beta ctl_frame f intro: leads_fxrstor_image)
  qed (auto simp: exec_sse_state_def Let_def case_prod_beta ctl_frame f)
qed

lemma leads_execute_sse: "leads k c \<Longrightarrow> leads k (execute_sse c s)"
proof (cases "si_op s")
  case (Sse_State p)
  then show "leads k c \<Longrightarrow> ?thesis" by (simp add: execute_sse_def leads_sse_state)
qed (erule leads_frame, simp add: execute_sse_def Let_def case_prod_beta ctl_frame)+

section \<open>Instructions\<close>

lemma leads_exec_system: "leads k c \<Longrightarrow> leads k (exec_system c i)"
proof -
  assume a: "leads k c"
  then have f: "ctl c' = ctl c \<Longrightarrow> leads k c'" for c' by (rule leads_frame)
  have fixed: "k_fixed (ctl c)" using a by (simp add: leads_def)
  note special = leads_lmsw [OF a] leads_xsetbv [OF a] leads_mov_to_cr [OF a] leads_clts [OF a] leads_write_msr [OF a]
  show ?thesis
    by (cases i; simp only: exec_system_def system_inst.case; intro special f;
        simp add: ctl_frame case_prod_beta Let_def fixed fixed_flag_ops fixed_flag_ctl)
qed

lemma leads_option: "leads k c \<Longrightarrow> pred_option (\<lambda>r. ctl r = ctl c) x \<Longrightarrow> pred_option (leads k) x"
  by (erule option.pred_mono_strong) (rule leads_frame)

lemma leads_execute:
  assumes "leads k c" "\<And>v. i = I_Vmx v \<Longrightarrow> \<not> in_guest (c_vmx c)"
  shows "pred_option (leads k) (execute c i)"
proof -
  have f: "ctl c' = ctl c \<Longrightarrow> leads k c'" for c' using assms(1) by (rule leads_frame)
  have fixed: "k_fixed (ctl c)" using assms(1) by (simp add: leads_def)
  have partial: "pred_option (leads k) (exec_muldiv c m)" "pred_option (leads k) (exec_flow c b)" for m b
    by (rule leads_option [OF assms(1)], simp add: ctl_frame fixed)+
  show ?thesis
    by (cases i) (use assms in \<open>auto simp: execute_def f fixed partial ctl_frame leads_exec_system leads_exec_io
        leads_exec_fpu leads_execute_sse leads_execute_vmx\<close>)
qed

section \<open>Intercepts\<close>

lemma leads_exit_if: "leads k c \<Longrightarrow> in_guest (c_vmx c) \<Longrightarrow> leads k (snd (exit_if b c r q))"
  by (simp add: exit_if_def exit_with_def leads_vm_exit)

lemma leads_exit_with: "leads k c \<Longrightarrow> in_guest (c_vmx c) \<Longrightarrow> leads k (snd (exit_with c r q))"
  by (simp add: exit_with_def leads_vm_exit)

lemma leads_intercept:
  assumes "leads k c" "in_guest (c_vmx c)"
  shows "leads k (snd (intercept c i))"
proof -
  have f: "ctl c' = ctl c \<Longrightarrow> leads k c'" for c' using assms(1) by (rule leads_frame)
  note out = leads_exit_if [OF assms] leads_exit_with [OF assms] leads_write_cr0 [OF assms(1)] assms(1)
  have wr: "leads k (snd (cr_write_intercept c cr r x))" for cr r x
    by (auto simp: cr_write_intercept_def Let_def out f ctl_frame split: prod.split)
  have rd: "leads k (snd (cr_read_intercept c cr r x))" for cr r x
    by (auto simp: cr_read_intercept_def Let_def out f ctl_frame split: prod.split)
  have lmsw: "leads k (snd (lmsw_intercept c m))" for m
  proof -
    have d: "ctl (snd (read_rm16 c m)) = ctl c" by (simp add: ctl_frame)
    then have "in_guest (c_vmx (snd (read_rm16 c m)))" using assms(2) by (simp add: in_guest_ctl)
    with f [OF d] show ?thesis
      by (simp add: lmsw_intercept_def Let_def case_prod_beta leads_exit_if)
  qed
  have sys: "leads k (snd (system_intercept c s a b))" for s a b
    by (cases s) (simp_all add: system_intercept_def out wr rd lmsw clts_intercept_def msr_intercept_def f ctl_frame)
  have idle: "leads k (snd (idle_intercept c d a b))" for d a b
    by (cases d) (simp_all add: idle_intercept_def out)
  have io: "leads k (snd (port_intercept c p a))" for p a
    by (cases p) (simp_all add: port_intercept_def io_intercept_def Let_def out)
  show ?thesis
    by (cases i) (simp_all add: intercept_def Let_def out sys idle io)
qed

lemma intercept_vmx: "i = I_Vmx v \<Longrightarrow> fst (intercept c i)"
  by (simp add: intercept_def Let_def exit_with_def)

section \<open>The step\<close>

lemma leads_step_events: "leads k c \<Longrightarrow> leads k (step_events c)"
proof -
  assume a: "leads k c"
  define d where "d = (if in_guest (c_vmx c) then pre_step c else c)"
  have d: "leads k d" using a by (simp add: d_def leads_pre_step)
  have "leads k (d\<lparr>pending_exception := None\<rparr>)" using d by (rule leads_frame) (simp add: ctl_frame)
  with d show ?thesis
    by (auto simp: step_events_def Let_def d_def [symmetric] leads_dispatch_exception leads_deliver
        split: option.split)
qed

lemma ctl_step_begin [ctl_frame]: "ctl (step_begin c) = ctl c"
  unfolding step_begin_def by (intro to_cpu; simp add: ctl_frame)

lemma ctl_step_end [ctl_frame]: "ctl (step_end c) = ctl c"
  by (simp add: step_end_def ctl_frame)

lemma leads_step_execute:
  assumes "leads k c"
  shows "pred_option (leads k) (step_execute c i)"
proof (cases "pending_exception c \<noteq> None \<or> \<not> in_guest (c_vmx c)")
  case True
  then show ?thesis using assms leads_execute [OF assms, of i] by (auto simp: step_execute_def)
next
  case False
  have g: "leads k (snd (intercept c i))" using assms False by (intro leads_intercept) auto
  have "pred_option (leads k) (execute (snd (intercept c i)) i)" if "\<not> fst (intercept c i)"
    using g that intercept_vmx by (intro leads_execute) auto
  with g False show ?thesis by (auto simp: step_execute_def case_prod_beta)
qed

text \<open>One instruction is a run of the abstract machine, and so is a turn of the idle loop.\<close>

lemma leads_machine_step:
  assumes "leads k c" "step c = Some (i, c')"
  shows "leads k c'"
proof -
  define d where "d = step_begin (step_events c)"
  have d: "leads k d" unfolding d_def
    using leads_step_events [OF assms(1)] by (rule leads_frame) (simp add: ctl_frame)
  obtain j e where e: "decode d = Some (j, e)" and s: "map_option (\<lambda>c. (j, step_end c)) (step_execute e j) = Some (i, c')"
    using assms(2) by (auto simp: step_def d_def [symmetric] split: option.splits)
  have "ctl e = ctl d" using ctl_decode [of d] e by simp
  with d have "leads k e" by (rule leads_frame)
  then have "pred_option (leads k) (step_execute e j)" by (rule leads_step_execute)
  then obtain c2 where "leads k c2" "c' = step_end c2" using s by auto
  then show ?thesis by (auto intro: leads_frame simp: ctl_frame)
qed

lemma leads_idle_turn: "leads k c \<Longrightarrow> leads k (idle_turn c)"
proof -
  assume "leads k c"
  then have "leads k (step_end c)" by (rule leads_frame) (simp add: ctl_frame)
  then have d: "leads k (snd (deliver_hardware_interrupt (step_end c)))" by (rule leads_deliver)
  then have "leads k (snd (deliver_hardware_interrupt (step_end c))\<lparr>halted := False\<rparr>)"
    by (rule leads_frame) (simp add: ctl_frame)
  with d show ?thesis by (simp add: idle_turn_def Let_def case_prod_beta)
qed

lemma leads_turn: "leads k c \<Longrightarrow> turn c = Some c' \<Longrightarrow> leads k c'"
  by (auto simp: turn_def leads_idle_turn split: if_splits dest: leads_machine_step)

lemma leads_run: "leads k c \<Longrightarrow> run n c = Some (m, c') \<Longrightarrow> leads k c'"
proof (induction n arbitrary: c m)
  case (Suc n)
  then show ?case
    by (auto split: if_splits option.splits dest: leads_turn)
qed simp

end
