(* ===== verification/Memory_Theorems.thy ===== *)
theory Memory_Theorems imports Memory_Laws begin

text \<open>
  The properties of the physical memory: slots index the backing store
  injectively and completely, aligned wide accesses are byte-at-a-time ones,
  reads return what was written, and the E820 map describes exactly the RAM.
  The last section evaluates the accesses for which the fast paths differ from
  byte-at-a-time ones.
\<close>

unbundle bit_operations_syntax

section \<open>The layout\<close>

text \<open>C15: On a well-formed memory the mapping from physical addresses to indices of the
  backing vector is in bounds (so every unchecked access of a single byte is safe), no two
  addresses share an index (no aliasing into low memory), and every byte of the vector is
  reachable at some physical address.\<close>

theorem slot_bijection:
  assumes "mem_wf m"
  shows "(\<forall>a i. slot m a = Some i \<longrightarrow> unat i < unat (ram_size m))
    \<and> (\<forall>a b i. slot m a = Some i \<and> slot m b = Some i \<longrightarrow> a = b)
    \<and> (\<forall>i. unat i < unat (ram_size m) \<longrightarrow> (\<exists>a. slot m a = Some i))"
proof (intro conjI allI impI)
  fix i :: usize assume i: "unat i < unat (ram_size m)"
  note b = mem_wf_bounds(1,2,4) [OF assms]
  show "\<exists>a. slot m a = Some i"
  proof (cases "unat i < unat (low_size m)")
    case True
    then show ?thesis using slot_nat(1) [OF assms, of i] by auto
  next
    case False
    define a where "a = i - low_size m + HIGH_RAM_BASE"
    have "unat (i - low_size m) = unat i - unat (low_size m)"
      using False by (simp add: unat_sub word_le_nat_alt)
    then have a: "unat a = unat i - unat (low_size m) + 2 ^ 32"
      unfolding a_def using i b by (subst unat_add_nowrap) simp_all
    then have "slot m a = Some (a - HIGH_RAM_BASE + low_size m)"
      using slot_nat(1) [OF assms, of a] False i b by auto
    then show ?thesis by (auto simp: a_def)
  qed
qed (use slot_bounded [OF assms] slot_injective [OF assms] in blast)+

theorem slot_bijection_witness:
  "slot (with_size 0x400000 None) 0x12345 = Some 0x12345 \<and> unat (0x12345 :: usize) < 0x400000"
proof -
  have "mem_wf (with_size 0x400000 None)" by (rule with_size_wf) simp
  moreover have "ram_size (with_size 0x400000 None) = 0x400000"
    by (simp add: with_size_def Let_def)
  moreover have "slot (with_size 0x400000 None) 0x12345 = Some 0x12345"
    by (simp add: with_size_def Let_def slot_def)
  ultimately show ?thesis using slot_bijection [of "with_size 0x400000 None"] by fastforce
qed

definition e820_covers :: "u32 \<Rightarrow> (u64 \<times> u64 \<times> u32) list \<Rightarrow> u64 \<Rightarrow> bool" where
  "e820_covers ty es x \<longleftrightarrow> (\<exists>(b, l, t) \<in> set es. t = ty \<and> b \<le> x \<and> x - b < l)"

fun e820_sorted :: "(u64 \<times> u64 \<times> u32) list \<Rightarrow> bool" where
  "e820_sorted ((b, l, t) # (b', l', t') # es) \<longleftrightarrow>
     b < b + l \<and> b + l \<le> b' \<and> e820_sorted ((b', l', t') # es)"
| "e820_sorted [(b, l, t)] \<longleftrightarrow> b < b + l"
| "e820_sorted [] \<longleftrightarrow> True"

lemma word_interval_nat:
  "b \<le> x \<and> x - b < (l :: u64) \<longleftrightarrow> unat b \<le> unat x \<and> unat x < unat b + unat l"
  by (cases "b \<le> x") (auto simp: word_le_nat_alt word_less_nat_alt unat_sub)

lemma e820_low_entry:
  assumes "mem_wf m"
  shows "(0x100000 < low_size m \<and> 0x100000 \<le> x \<and> x - 0x100000 < low_size m - 0x100000) \<longleftrightarrow>
    (0x100000 \<le> unat x \<and> unat x < unat (low_size m))"
proof -
  have "unat (low_size m - 0x100000) = unat (low_size m) - 0x100000"
    using mem_wf_bounds(3) [OF assms] by (subst unat_sub) (simp_all add: word_le_nat_alt)
  then show ?thesis
    using mem_wf_bounds(3) [OF assms] word_interval_nat [of "0x100000" x "low_size m - 0x100000"]
    by (auto simp: word_less_nat_alt)
qed

lemma e820_high_entry:
  assumes "mem_wf m"
  shows "(0xC0000000 < ram_size m \<and> 0x100000000 \<le> x \<and> x - 0x100000000 < ram_size m - 0xC0000000) \<longleftrightarrow>
    (0x100000000 \<le> unat x \<and> unat x - 0x100000000 + unat (low_size m) < unat (ram_size m))"
proof (cases "0xC0000000 < ram_size m")
  case True
  then have "unat (ram_size m - 0xC0000000) = unat (ram_size m) - 0xC0000000"
    by (simp add: unat_sub word_less_nat_alt word_le_nat_alt)
  moreover have "unat (low_size m) = 0xC0000000" "0xC0000000 < unat (ram_size m)"
    using True mem_wf_low [OF assms] by (simp_all add: word_less_nat_alt)
  ultimately show ?thesis
    using True word_interval_nat [of "0x100000000" x "ram_size m - 0xC0000000"] by auto
next
  case False
  then have "unat (low_size m) = unat (ram_size m)"
    using mem_wf_low [OF assms] by (simp add: word_less_nat_alt)
  then show ?thesis using False by simp
qed

lemma e820_covers_simps:
  "e820_covers ty [] x = False"
  "e820_covers ty ((b, l, t) # es) x \<longleftrightarrow> t = ty \<and> b \<le> x \<and> x - b < l \<or> e820_covers ty es x"
  "e820_covers ty (es @ fs) x \<longleftrightarrow> e820_covers ty es x \<or> e820_covers ty fs x"
  "e820_covers ty (if c then es else []) x \<longleftrightarrow> c \<and> e820_covers ty es x"
  by (auto simp: e820_covers_def)

lemma e820_covers_usable:
  assumes wf: "mem_wf m"
  shows "e820_covers 1 (e820 m) x \<longleftrightarrow> unat x < 0x9FC00 \<or>
      0x100000 \<le> unat x \<and> unat x < unat (low_size m) \<or>
      0x100000000 \<le> unat x \<and> unat x - 0x100000000 + unat (low_size m) < unat (ram_size m)"
proof -
  have low: "min (ram_size m) MMIO_HOLE_START = low_size m" using wf by (simp add: mem_wf_def)
  have "(2 :: u32) \<noteq> 1" by simp
  then have "e820_covers 1 (e820 m) x \<longleftrightarrow> x < 0x9FC00 \<or>
      (0x100000 < low_size m \<and> 0x100000 \<le> x \<and> x - 0x100000 < low_size m - 0x100000) \<or>
      (0xC0000000 < ram_size m \<and> 0x100000000 \<le> x \<and> x - 0x100000000 < ram_size m - 0xC0000000)"
    unfolding e820_def e820_map_def low Let_def e820_covers_simps
    by (simp only: simp_thms MMIO_HOLE_START_def HIGH_RAM_BASE_def word_zero_le diff_zero)
  moreover have "x < 0x9FC00 \<longleftrightarrow> unat x < 0x9FC00" by (simp add: word_less_nat_alt)
  ultimately show ?thesis using e820_low_entry [OF wf] e820_high_entry [OF wf] by simp
qed

text \<open>C18: The E820 map handed to the guest describes the machine's own layout: every address
  it calls usable RAM (type 1) has RAM behind it, every RAM address from 1 MiB up is called
  usable, and the entries are non-empty, ascending and disjoint.\<close>

theorem e820_describes_ram:
  assumes wf: "mem_wf m"
  shows "(\<forall>x. e820_covers 1 (e820 m) x \<longrightarrow> slot m x \<noteq> None)
    \<and> (\<forall>x. slot m x \<noteq> None \<and> 0x100000 \<le> x \<longrightarrow> e820_covers 1 (e820 m) x)
    \<and> (\<forall>x. x < 0x9FC00 \<longrightarrow> e820_covers 1 (e820 m) x)
    \<and> e820_sorted (e820 m)"
proof -
  have low: "min (ram_size m) MMIO_HOLE_START = low_size m" using wf by (simp add: mem_wf_def)
  note cov = e820_covers_usable [OF wf]
  have sl: "slot m x \<noteq> None \<longleftrightarrow> unat x < unat (low_size m) \<or>
      0x100000000 \<le> unat x \<and> unat x - 0x100000000 + unat (low_size m) < unat (ram_size m)" for x
    unfolding slot_nat(1) [OF wf, of x] by auto
  note b = mem_wf_bounds [OF wf]
  have "e820_sorted (e820 m)"
  proof -
    have e: "0x100000 + (low_size m - 0x100000) = low_size m" by simp
    have "0xC0000000 < ram_size m \<Longrightarrow> (0x100000000 :: u64) < 0x100000000 + (ram_size m - 0xC0000000)"
    proof -
      assume a: "0xC0000000 < ram_size m"
      then have "unat (0x100000000 + (ram_size m - 0xC0000000)) = 0x100000000 + (unat (ram_size m) - 0xC0000000)"
        using b(4) by (subst unat_add_nowrap) (simp_all add: unat_sub word_less_nat_alt word_le_nat_alt)
      then show ?thesis using a by (simp add: word_less_nat_alt)
    qed
    moreover have "low_size m \<le> 0xC0000000" "\<not> 0x100000 < low_size m \<Longrightarrow> \<not> 0xC0000000 < ram_size m"
      using b(2,3) mem_wf_low [OF wf] by (auto simp: word_le_nat_alt word_less_nat_alt)
    ultimately show ?thesis
      unfolding e820_def e820_map_def low Let_def by (simp add: e)
  qed
  moreover have "\<forall>x. e820_covers 1 (e820 m) x \<longrightarrow> slot m x \<noteq> None"
    "\<forall>x. slot m x \<noteq> None \<and> 0x100000 \<le> x \<longrightarrow> e820_covers 1 (e820 m) x"
    "\<forall>x. x < 0x9FC00 \<longrightarrow> e820_covers 1 (e820 m) x"
    unfolding cov sl word_le_nat_alt word_less_nat_alt using b(3) by auto
  ultimately show ?thesis by blast
qed

theorem e820_describes_ram_witness:
  "e820_covers 1 (e820 (with_size 0x400000 None)) 0x3FFFFF \<and>
   slot (with_size 0x400000 None) 0x3FFFFF \<noteq> None"
proof -
  have "mem_wf (with_size 0x400000 None)" by (rule with_size_wf) simp
  moreover have "slot (with_size 0x400000 None) 0x3FFFFF \<noteq> None"
    by (simp add: with_size_def Let_def slot_def)
  ultimately show ?thesis using e820_describes_ram [of "with_size 0x400000 None"] by simp
qed

section \<open>Accesses\<close>

text \<open>C16: Every naturally aligned 16-, 32- and 64-bit access takes its fast path only where that
  path agrees with byte-at-a-time accesses: the value read is the little-endian join of the
  bytes read one by one, and the store leaves the same memory as storing the bytes one by one.\<close>

theorem aligned_access_bytewise:
  assumes wf: "mem_wf m"
  shows "(2 dvd unat a \<longrightarrow> read_u16 m a = join16 (read_u8 m a) (read_u8 m (a + 1)) \<and>
      same_store (write_u16 m a v16) (write_bytes m a (le_bytes 2 v16)))
    \<and> (4 dvd unat a \<longrightarrow> read_u32 m a =
        join32 (read_u8 m a) (read_u8 m (a + 1)) (read_u8 m (a + 2)) (read_u8 m (a + 3)) \<and>
      same_store (write_u32 m a v32) (write_bytes m a (le_bytes 4 v32)))
    \<and> (8 dvd unat a \<longrightarrow> read_u64 m a = join64
        (join32 (read_u8 m a) (read_u8 m (a + 1)) (read_u8 m (a + 2)) (read_u8 m (a + 3)))
        (join32 (read_u8 m (a + 4)) (read_u8 m (a + 5)) (read_u8 m (a + 6)) (read_u8 m (a + 7))) \<and>
      same_store (write_u64 m a v64) (write_bytes m a (le_bytes 8 v64)))"
  using read_u16_same [OF wf] read_u32_same [OF wf] read_u64_same [OF wf]
    write_u16_same [OF wf] write_u32_same [OF wf] write_u64_same [OF wf]
  by blast

theorem aligned_access_bytewise_witness:
  "read_u16 (with_size 0x400000 None) 0xB8000 = join16 0x20 0x07"
proof -
  have "mem_wf (with_size 0x400000 None)" by (rule with_size_wf) simp
  then have "read_u16 (with_size 0x400000 None) 0xB8000 =
      join16 (read_u8 (with_size 0x400000 None) 0xB8000) (read_u8 (with_size 0x400000 None) (0xB8000 + 1))"
    using aligned_access_bytewise [of "with_size 0x400000 None" "0xB8000"] by simp
  then show ?thesis
    by (simp add: with_size_def Let_def read_u8_def in_vga_text_def cell_byte_def)
qed

text \<open>C17: A read after a write at aligned addresses of the same width returns the written value
  when it names the written word and something answers there, and otherwise what it returned
  before; a write never disturbs another word.\<close>

theorem aligned_read_after_write:
  assumes wf: "mem_wf m"
  shows "read_u8 (write_u8 m a v8) b = (if b = a \<and> backed m a then v8 else read_u8 m b)
    \<and> (2 dvd unat a \<and> 2 dvd unat b \<longrightarrow>
        read_u16 (write_u16 m a v16) b = (if b = a \<and> backed m a then v16 else read_u16 m b))
    \<and> (4 dvd unat a \<and> 4 dvd unat b \<longrightarrow>
        read_u32 (write_u32 m a v32) b = (if b = a \<and> backed m a then v32 else read_u32 m b))
    \<and> (8 dvd unat a \<and> 8 dvd unat b \<longrightarrow>
        read_u64 (write_u64 m a v64) b = (if b = a \<and> backed m a then v64 else read_u64 m b))"
  using store8.rd_wr [OF wf] store16.rd_wr [OF wf] store32.rd_wr [OF wf] store64.rd_wr [OF wf]
  by simp

theorem aligned_read_after_write_witness:
  "read_u64 (write_u64 (with_size 0x400000 None) 0x2000 0x1122334455667788) 0x2000 = 0x1122334455667788"
proof -
  have "mem_wf (with_size 0x400000 None)" by (rule with_size_wf) simp
  moreover have "backed (with_size 0x400000 None) 0x2000"
    by (simp add: with_size_def Let_def backed_def slot_def)
  ultimately show ?thesis
    using aligned_read_after_write [of "with_size 0x400000 None"] by simp
qed

section \<open>Where the fast paths are not byte-at-a-time accesses\<close>

text \<open>
  The fast paths compare the last index with \<open>ram_size\<close>, not with the end of
  the region \<open>a\<close> lies in. On a machine with more than 3 GiB, a read that starts
  at the last byte below the MMIO hole takes its second byte from the RAM that
  lives at 4 GiB, where a byte read of that address answers the open bus.
\<close>

definition big_machine :: "u8 \<Rightarrow> memory" where
  "big_machine v = (with_size 0x100000000 None)\<lparr>mem_data := (\<lambda>_. 0)(0xC0000000 := v)\<rparr>"

lemma read_u16_hole_boundary:
  "mem_wf (big_machine 0x5A)"
  "read_u8 (big_machine 0x5A) 0xC0000000 = 0xFF"
  "read_u16 (big_machine 0x5A) 0xBFFFFFFF = 0x5A00"
proof -
  have w: "ram_size (with_size 0x100000000 None) = 0x100000000"
    "low_size (with_size 0x100000000 None) = 0xC0000000"
    by (simp_all add: with_size_def Let_def)
  show "mem_wf (big_machine 0x5A)" by (simp add: big_machine_def mem_wf_def w)
  show "read_u8 (big_machine 0x5A) 0xC0000000 = 0xFF"
    by (simp add: big_machine_def read_u8_def in_vga_text_def slot_def w)
  show "read_u16 (big_machine 0x5A) 0xBFFFFFFF = 0x5A00"
    by (simp add: big_machine_def read_u16_def slot_def w join16_def)
qed

text \<open>
  A 16-bit access at an odd address of the VGA window reads and replaces the
  whole even cell: a word stored at \<open>0xB8001\<close> lands at \<open>0xB8000\<close>.
\<close>

lemma vga_odd_word:
  "read_u8 (write_u16 (with_size 0x400000 None) 0xB8001 0x4142) 0xB8000 = 0x42"
  by (simp add: write_u16_def noted_def with_size_def Let_def put_cell_def read_u8_def
      in_vga_text_def cell_byte_def)

text \<open>The 128-bit accesses have no VGA check: they reach the RAM under the window.\<close>

lemma vga_bypassed_by_u128:
  "read_u8 (write_u128 (with_size 0x400000 None) 0xB8000 0x4142) 0xB8000 = 0x20"
proof -
  have "vga_text (put_data_le m a bs) = vga_text m" for m a bs
    by (induction bs arbitrary: m a) simp_all
  then show ?thesis
    by (simp add: write_u128_def noted_def with_size_def Let_def slot_def read_u8_def
        in_vga_text_def cell_byte_def)
qed

end
