(* ===== verification/Control_Theorems.thy ===== *)
theory Control_Theorems imports Control_Safety Memory_Theorems begin

text \<open>
  The invariants of the whole processor. An invariant of the abstract machine of
  \<open>Control_Safety\<close> holds along every run; the locale says what has to be shown
  for it, and each part of the well-formedness of a machine is an interpretation.
\<close>

unbundle bit_operations_syntax

section \<open>Invariants of the abstract machine\<close>

locale ctl_invariant =
  fixes I :: "ctl \<Rightarrow> bool"
  assumes kept: "ctl_step k k' \<Longrightarrow> I k \<Longrightarrow> I k'"
begin

lemma steps: "ctl_step\<^sup>*\<^sup>* k k' \<Longrightarrow> I k \<Longrightarrow> I k'"
  by (induction rule: rtranclp_induct) (auto intro: kept)

lemma along_run: "I (ctl c) \<Longrightarrow> k_fixed (ctl c) \<Longrightarrow> run n c = Some (m, c') \<Longrightarrow> I (ctl c')"
  using leads_run [of "ctl c" c n m c'] steps [of "ctl c" "ctl c'"] by (simp add: leads_def)

end

inductive_cases ctl_stepE: "ctl_step k k'"

lemma set_cr0_fields [simp]:
  "k_pe (set_cr0 v e k) = (v AND CR0_PE \<noteq> 0)" "k_cr0 (set_cr0 v e k) = v"
  "k_efer (set_cr0 v e k) = synced_efer v e" "k_cr8 (set_cr0 v e k) = k_cr8 k"
  "k_xcr0 (set_cr0 v e k) = k_xcr0 k" "k_mxcsr (set_cr0 v e k) = k_mxcsr k"
  "k_mem (set_cr0 v e k) = k_mem k" "k_vmx (set_cr0 v e k) = k_vmx k" "k_fpu (set_cr0 v e k) = k_fpu k"
  "k_kbd (set_cr0 v e k) = k_kbd k" "k_ide (set_cr0 v e k) = k_ide k" "k_pci (set_cr0 v e k) = k_pci k"
  by (simp_all add: set_cr0_def)

text \<open>The mode bits agree: the cached protection flag with CR0.PE, EFER.LMA with CR0.PG and EFER.LME.\<close>

definition mode_ok :: "bool \<Rightarrow> u32 \<Rightarrow> u64 \<Rightarrow> bool" where
  "mode_ok p v e \<longleftrightarrow> (p \<longleftrightarrow> v AND CR0_PE \<noteq> 0) \<and>
     (e AND efer_LMA \<noteq> 0 \<longleftrightarrow> v AND CR0_PG \<noteq> 0 \<and> e AND efer_LME \<noteq> 0)"

lemma synced_mode: "mode_ok (v AND CR0_PE \<noteq> 0) v (synced_efer v e)"
proof -
  have me: "e AND efer_LME \<noteq> 0 \<longleftrightarrow> bit e 8" for e :: u64
    using and_pow2_nonzero [of 8 e] by simp
  have b: "bit (e OR efer_LMA) 10" "\<not> bit (e AND NOT efer_LMA) 10" "bit (e OR efer_LMA) 8 = bit e 8"
    "bit (e AND NOT efer_LMA) 8 = bit e 8" for e :: u64
    by (simp_all only: efer_LMA_def bit_or_iff bit_and_iff bit_not_iff efer_masks) auto
  show ?thesis unfolding mode_ok_def synced_efer_def lma_bit me using b by auto
qed

lemma clear_ts_masks: "(v AND NOT 0x8) AND CR0_PE = v AND CR0_PE" "(v AND NOT 0x8) AND CR0_PG = v AND CR0_PG"
  for v :: u32
  by (simp_all add: and.assoc)

interpretation modes: ctl_invariant "\<lambda>k. mode_ok (k_pe k) (k_cr0 k) (k_efer k)"
proof
  fix k k'
  assume "ctl_step k k'" "mode_ok (k_pe k) (k_cr0 k) (k_efer k)"
  then show "mode_ok (k_pe k') (k_cr0 k') (k_efer k')"
  proof cases
    case clear_ts
    then show ?thesis
      using \<open>mode_ok (k_pe k) (k_cr0 k) (k_efer k)\<close> clear_ts_masks [of "k_cr0 k"] by (simp add: mode_ok_def)
  next
    case (write_efer e)
    then show ?thesis
      using \<open>mode_ok (k_pe k) (k_cr0 k) (k_efer k)\<close> synced_mode [of "k_cr0 k" e] by (simp add: mode_ok_def)
  qed (use synced_mode in simp_all)
qed

text \<open>Reserved bits of CR8, XCR0 and MXCSR.\<close>

definition registers_ok :: "u64 \<Rightarrow> u64 \<Rightarrow> u32 \<Rightarrow> bool" where
  "registers_ok t x m \<longleftrightarrow> t AND NOT 0xF = 0 \<and> x AND 1 \<noteq> 0 \<and> x AND NOT 0x3 = 0 \<and> m AND NOT MXCSR_MASK = 0"

interpretation registers: ctl_invariant "\<lambda>k. registers_ok (k_cr8 k) (k_xcr0 k) (k_mxcsr k)"
  by unfold_locales (auto simp: registers_ok_def and.assoc elim!: ctl_stepE)

text \<open>A guest runs only with VMX on and a current VMCS, whose store has its full size.\<close>

definition vmx_ok :: "bool \<times> u64 option \<times> bool \<times> nat \<Rightarrow> bool" where
  "vmx_ok x \<longleftrightarrow> (case x of (on, cur, g, n) \<Rightarrow> n = SLOTS \<and> (g \<longrightarrow> on \<and> cur \<noteq> None))"

interpretation vmx: ctl_invariant "\<lambda>k. vmx_ok (k_vmx k)"
  by unfold_locales (auto simp: vmx_ok_def elim!: ctl_stepE)

interpretation x87: ctl_invariant "\<lambda>k. fst (k_fpu k) < 8 \<and> snd (k_fpu k) = 8"
  by unfold_locales (auto elim!: ctl_stepE)

interpretation memory_map: ctl_invariant "\<lambda>k. k_mem k = s" for s
  by unfold_locales (auto elim!: ctl_stepE)

interpretation keyboard: ctl_invariant "\<lambda>k. kbd_inv (k_kbd k)"
  by unfold_locales (auto dest: kbd_step_inv elim!: ctl_stepE)

interpretation disk: ctl_invariant "\<lambda>k. k_ide k = (False, 0x40)"
proof
  fix k k'
  assume s: "ctl_step k k'" and i: "k_ide k = (False, 0x40)"
  show "k_ide k' = (False, 0x40)"
    using s
  proof cases
    case (disk i j)
    then show ?thesis
      using ide_step_idle [of i j] i by (simp add: ide_idle_def ide_ctl_def)
  qed (use i in simp_all)
qed

interpretation bus: ctl_invariant "\<lambda>k. same_identity p (k_pci k)" for p
  by unfold_locales (auto dest: pci_step_identity elim!: ctl_stepE)

section \<open>Well-formed machines\<close>

definition machine_ok :: "cpu \<Rightarrow> bool" where
  "machine_ok c \<longleftrightarrow>
     mode_ok (pe c) (cr0 c) (efer c) \<and> registers_ok (cr8 c) (xcr0 c) (mxcsr c) \<and> bit (c_flags c) 1 \<and>
     mem_wf (c_mem c) \<and> vmx_wf (c_vmx c) \<and> (in_guest (c_vmx c) \<longrightarrow> vmx_on (c_vmx c) \<and> vmx_current (c_vmx c) \<noteq> None) \<and>
     fpu_wf (c_fpu c) \<and> kbd_inv (c_kbd c) \<and> ide_idle (c_ide c) \<and> same_identity pci_new (c_pci c)"

lemma machine_ok_fixed: "machine_ok c \<Longrightarrow> k_fixed (ctl c)"
  by (simp add: machine_ok_def ctl_fields fixed_flag_def)

lemma new_machine_ok:
  assumes "unat ram \<le> 2 ^ 62"
  shows "machine_ok (cpu_with_ram ram w fixed host notlb)"
  using assms with_size_wf [of ram w]
  by (simp add: machine_ok_def cpu_with_ram_def mode_ok_def registers_ok_def vmx_wf_def vmx_new_def fpu_wf_def
      fpu_new_def kbd_inv_def kbd_new_def ide_idle_def ide_new_def same_identity_refl)


text \<open>A halted machine that waits for an interrupt, for examples.\<close>

definition waiting_machine :: cpu where
  "waiting_machine = small_machine\<lparr>halted := True, c_flags := 0x202\<rparr>"

lemma waiting_ok: "machine_ok waiting_machine"
proof -
  have "machine_ok small_machine" unfolding small_machine_def by (rule new_machine_ok) simp
  then show ?thesis by (simp add: waiting_machine_def machine_ok_def)
qed

lemma waiting_run: "run 1 waiting_machine = Some (1, step_end waiting_machine)"
proof -
  have c: "instructions_executed (step_end waiting_machine) = 1" "halted waiting_machine"
    "\<not> stopped waiting_machine"
    by (simp_all add: waiting_machine_def small_machine_def cpu_with_ram_def step_end_def stopped_def get_flag_def)
  have "(1 :: u64) mod IRQ_CHECK_INTERVAL \<noteq> 0" by simp
  then have "idle_turn waiting_machine = step_end waiting_machine"
    using c(1) unfolding idle_turn_def Let_def deliver_hardware_interrupt_def by simp
  then show ?thesis using c by (simp add: turn_def)
qed

section \<open>The processor keeps its invariants\<close>

text \<open>C1: A machine stays well formed however long it runs and whatever code, interrupts and exceptions
  it meets: the cached protection flag equals CR0.PE, long mode is active exactly when paging and
  EFER.LME are both on, the reserved bits of CR8, XCR0, MXCSR and the flags keep their values, the
  memory layout, the VMCS store and the x87 stack keep their shape, a guest runs only with VMX on and a
  current VMCS, the keyboard asserts IRQ1 only for a keyboard byte with its interrupt enabled, the disk
  controller is idle and the identity of the PCI functions is the one of a new machine.\<close>

theorem run_keeps_machine_ok:
  assumes ok: "machine_ok c" and run: "run n c = Some (m, c')"
  shows "machine_ok c'"
proof -
  note f = machine_ok_fixed [OF ok]
  note keep = modes.along_run [OF _ f run] registers.along_run [OF _ f run] vmx.along_run [OF _ f run]
    x87.along_run [OF _ f run] keyboard.along_run [OF _ f run] disk.along_run [OF _ f run]
    bus.along_run [OF _ f run] memory_map.along_run [OF _ f run]
  have fixed: "bit (c_flags c') 1"
    using leads_run [of "ctl c" c n m c'] f run by (simp add: leads_def ctl_fields fixed_flag_def)
  have "layout (c_mem c') = layout (c_mem c)" using keep(8) by (simp add: ctl_fields)
  then have "mem_wf (c_mem c')" using ok by (simp add: machine_ok_def mem_wf_def layout_def)
  moreover have "vmx_ok (k_vmx (ctl c))" using ok by (auto simp: machine_ok_def vmx_ok_def ctl_fields vmx_ctl_def vmx_wf_def)
  then have "vmx_ok (k_vmx (ctl c'))" by (rule keep(3))
  moreover have "mode_ok (pe c') (cr0 c') (efer c')" "registers_ok (cr8 c') (xcr0 c') (mxcsr c')"
    using keep(1,2) ok by (simp_all add: machine_ok_def ctl_fields)
  moreover have "fpu_wf (c_fpu c')" "kbd_inv (c_kbd c')" "same_identity pci_new (c_pci c')"
    using keep(4,5) keep(7) [of pci_new] ok by (simp_all add: machine_ok_def ctl_fields fpu_wf_def fpu_ctl_def)
  moreover have "ide_idle (c_ide c')"
    using keep(6) ok by (simp add: machine_ok_def ctl_fields ide_ctl_def ide_idle_def)
  ultimately show ?thesis
    using fixed by (auto simp: machine_ok_def vmx_ok_def ctl_fields vmx_ctl_def vmx_wf_def)
qed

theorem run_keeps_machine_ok_witness: "machine_ok (step_end waiting_machine)"
  using run_keeps_machine_ok [OF waiting_ok waiting_run] .

text \<open>C2: The control state is an abstract machine: whatever one instruction does, together with the
  exception or interrupt delivered before it, changes the control state only by the listed steps, such
  as a write of CR0 that also moves the long-mode bit, a VM entry from root operation with a current
  VMCS, a VM exit from a guest, or a step of a device behind the ports.\<close>

theorem step_refines_control:
  assumes "machine_ok c" "step c = Some (i, c')"
  shows "ctl_step\<^sup>*\<^sup>* (ctl c) (ctl c')"
  using leads_machine_step [of "ctl c" c i c'] machine_ok_fixed [OF assms(1)] assms(2) by (simp add: leads_def)

text \<open>A machine whose memory is full of HLT instructions, one instruction after its start.\<close>

definition hlt_machine :: cpu where
  "hlt_machine = small_machine\<lparr>instructions_executed := 1, c_mem := (c_mem small_machine)\<lparr>mem_data := (\<lambda>_. 0xF4)\<rparr>\<rparr>"

lemma hlt_step: "\<exists>c'. step hlt_machine = Some (I_Idle Hlt, c') \<and> halted c'"
proof -
  have ev: "step_events hlt_machine = hlt_machine"
    by (simp add: step_events_def hlt_machine_def small_machine_def cpu_with_ram_def vmx_new_def deliver_hardware_interrupt_def)
  define b where "b = decode_defaults (step_begin hlt_machine)"
  have b: "\<not> pe b" "\<not> long64 b" "\<not> long_mode b" "cr0 b = 0" "\<not> phys_ip_valid b" "c_ip b = 0" "c_cs b = 0"
    "c_mem b = (c_mem small_machine)\<lparr>mem_data := (\<lambda>_. 0xF4)\<rparr>" "\<not> rex_w b" "pending_exception b = None"
    "\<not> in_guest (c_vmx b)" "\<not> long64 (step_begin hlt_machine)"
    by (simp_all add: b_def decode_defaults_def Let_def step_begin_def hlt_machine_def small_machine_def cpu_with_ram_def
        invalidate_phys_ip_def long64_def long_mode_def cpl_def with_size_def vmx_new_def)
  have byte: "read_u8_raw (c_mem b) a = 0xF4" if "a = 0 \<or> a = 1" for a
    using that unfolding b(8)
    by (auto simp: read_u8_raw_def slot_def small_machine_def cpu_with_ram_def with_size_def)
  define e where "e = ensure_phys_ip b"
  have e: "phys_ip_valid e" "phys_ip_cache e = 0" "c_mem e = c_mem b" "\<not> rex_w e" "pending_exception e = None"
    "\<not> in_guest (c_vmx e)" "\<not> pe e"
    using b by (simp_all add: e_def ensure_phys_ip_def ip_linear_def apply_paging_fetch_def apply_paging_inner_def Let_def long_mode_def)
  have peek: "peek_u8 b = (0xF4, e)"
    using e byte [of 0] by (simp add: peek_u8_def e_def [symmetric] Let_def)
  have none: "prefix_byte False 0xF4 e Rep_None = None"
    by (simp add: prefix_byte_def legacy_prefix_def Let_def)
  have pre: "decode_prefixes False b Rep_None = Some (e, Rep_None)"
    by (subst decode_prefixes.simps) (simp add: peek none)
  obtain f where f: "fetch_u8 e = (0xF4, f)" "pending_exception f = None" "\<not> in_guest (c_vmx f)"
    using e byte [of 0] by (simp add: fetch_u8_def ensure_phys_ip_def Let_def advance_ip_def)
  have dec: "decode (step_begin hlt_machine) = Some (I_Idle Hlt, f)"
    using e f pre b(12) by (simp add: decode_def b_def [symmetric] decode_op_def decode_fx_def)
  show ?thesis
    unfolding step_def ev dec
    using f by (simp add: step_execute_def execute_def exec_idle_def step_end_def)
qed

lemma hlt_ok: "machine_ok hlt_machine"
proof -
  have "machine_ok small_machine" unfolding small_machine_def by (rule new_machine_ok) simp
  then show ?thesis by (simp add: hlt_machine_def machine_ok_def mem_wf_def)
qed

theorem step_refines_control_witness: "\<exists>i c'. step hlt_machine = Some (i, c') \<and> ctl_step\<^sup>*\<^sup>* (ctl hlt_machine) (ctl c')"
  using step_refines_control [OF hlt_ok] hlt_step by blast



text \<open>C4: The disk never interrupts: its busy flag, which the interrupt poll turns into IRQ14, is set and
  cleared within the port write that starts a command, so after any run the poll leaves the controllers
  as the keyboard and the virtio device alone make them.\<close>

theorem run_never_raises_irq14:
  assumes "machine_ok c" "run n c = Some (m, c')"
  shows "raise_device_irqs c' =
     (let p = (if irq1 (c_kbd c') then raise_irq (c_pic c') 1 else c_pic c');
          p = (if vb_irq (c_virtio c') then raise_irq p VIRTIO_IRQ else p)
      in c'\<lparr>c_kbd := (c_kbd c')\<lparr>irq1 := False\<rparr>, c_pic := p\<rparr>)"
proof -
  have "k_ide (ctl c) = (False, 0x40)"
    using assms(1) by (simp add: machine_ok_def ide_idle_def ctl_fields ide_ctl_def)
  then have "\<not> ide_busy (c_ide c')"
    using disk.along_run [OF _ machine_ok_fixed [OF assms(1)] assms(2)] by (simp add: ctl_fields ide_ctl_def)
  then show ?thesis by (simp add: raise_device_irqs_def Let_def)
qed

theorem run_never_raises_irq14_witness:
  "c_pic (raise_device_irqs (step_end waiting_machine)) = pic_new"
  using run_never_raises_irq14 [OF waiting_ok waiting_run]
  by (simp add: waiting_machine_def small_machine_def cpu_with_ram_def step_end_def kbd_new_def virtio_new_def)

end
