(* ===== verification/Boot_Laws.thy ===== *)
theory Boot_Laws imports Boot Failure_Laws Control_Theorems begin

text \<open>
  The loaders are correct: the page tables they build map the low 4 GiB to
  themselves, a segment of a file ends up where its header says, the 64-bit
  entry turns long mode on, and every loader leaves a well-formed machine.
\<close>

unbundle bit_operations_syntax

section \<open>Tables\<close>

text \<open>Addresses of a page that lies in low memory.\<close>

lemma low_backed: "mem_wf m \<Longrightarrow> unat a < 2 ^ 20 \<Longrightarrow> backed m a"
  using mem_wf_low [of m] by (auto simp: backed_def slot_def mem_wf_def word_less_nat_alt)

lemma entry_unat: "unat (a :: usize) + 4096 \<le> 2 ^ 20 \<Longrightarrow> i < 512 \<Longrightarrow> unat (a + of_nat (i * 8)) = unat a + i * 8"
proof -
  assume a: "unat a + 4096 \<le> 2 ^ 20" and i: "i < 512"
  have "unat (of_nat (i * 8) :: usize) = i * 8" unfolding unat_of_nat using i by (intro mod_less) simp
  then show ?thesis using a i by (subst unat_add_nowrap) simp_all
qed

lemma write_table_wf:
  "mem_wf m \<Longrightarrow> 8 dvd unat a \<Longrightarrow> unat a + 4096 \<le> 2 ^ 20 \<Longrightarrow> n \<le> 512 \<Longrightarrow> mem_wf (write_table m a f n)"
proof (induction n)
  case (Suc n)
  then have "8 dvd unat (a + of_nat (n * 8))" by (subst entry_unat) simp_all
  then show ?case unfolding write_table.simps by (rule store64.inv_wr [rotated]) (use Suc in simp)
qed simp

lemma write_table_read:
  assumes "mem_wf m" "8 dvd unat a" "unat a + 4096 \<le> 2 ^ 20" "n \<le> 512" "8 dvd unat b"
  shows "read_u64 (write_table m a f n) b =
    (if unat a \<le> unat b \<and> unat b < unat a + 8 * n then f ((unat b - unat a) div 8) else read_u64 m b)"
  using assms(4)
proof (induction n)
  case (Suc n)
  let ?t = "write_table m a f n" and ?e = "a + of_nat (n * 8)"
  have wf: "mem_wf ?t" using assms Suc by (simp add: write_table_wf)
  have e: "unat ?e = unat a + n * 8" using assms Suc by (intro entry_unat) simp_all
  have al: "8 dvd unat ?e" unfolding e using assms by simp
  have "read_u64 (write_table m a f (Suc n)) b = (if b = ?e then f n else read_u64 ?t b)"
    unfolding write_table.simps store64.rd_wr [OF wf al assms(5)]
    using low_backed [OF wf, of ?e] e assms Suc by simp
  moreover have "b = ?e \<longleftrightarrow> unat b = unat a + n * 8" unfolding e [symmetric] by (simp add: word_unat_eq_iff)
  moreover have "unat a \<le> unat b \<and> unat b < unat a + 8 * Suc n \<and> unat b \<noteq> unat a + n * 8 \<longleftrightarrow>
      unat a \<le> unat b \<and> unat b < unat a + 8 * n"
  proof -
    obtain k j where "unat a = 8 * k" "unat b = 8 * j" using assms(2,5) by (auto elim!: dvdE)
    then show ?thesis by (simp only:) presburger
  qed
  ultimately show ?case using Suc by auto
qed auto

section \<open>The identity map\<close>

lemma directory_unat: "g < 4 \<Longrightarrow> unat (PD_ADDR + of_nat g * 0x1000) = 0x4000 + 0x1000 * g"
proof -
  assume g: "g < 4"
  have e: "of_nat g * 0x1000 = (of_nat (0x1000 * g) :: usize)" by simp
  have "unat (of_nat (0x1000 * g) :: usize) = 0x1000 * g" unfolding unat_of_nat using g by (intro mod_less) simp
  then show ?thesis unfolding e using g by (subst unat_add_nowrap) simp_all
qed

lemma directories_wf: "mem_wf m \<Longrightarrow> g \<le> 4 \<Longrightarrow> mem_wf (write_directories m g)"
proof (induction g)
  case (Suc g)
  have "unat (PD_ADDR + of_nat g * 0x1000) = 0x4000 + 0x1000 * g" using Suc by (intro directory_unat) simp
  then show ?case unfolding write_directories.simps
    using Suc by (intro write_table_wf) simp_all
qed simp

lemma index_split: "0x4000 + 0x1000 * g \<le> x \<Longrightarrow> x div 8 - 0x800 = g * 512 + (x - (0x4000 + 0x1000 * g)) div 8" for x g :: nat
proof -
  assume "0x4000 + 0x1000 * g \<le> x"
  then obtain y where y: "x = 8 * (0x800 + 0x200 * g) + y" by (auto dest: le_Suc_ex)
  then have "x div 8 = 0x800 + 0x200 * g + y div 8" by simp
  then show ?thesis using y by simp
qed

lemma entry_split:
  assumes "0x4000 + 0x1000 * g \<le> x"
  shows "(of_nat g * 0x40000000 + of_nat ((x - (0x4000 + 0x1000 * g)) div 8) * 0x200000 :: u64) = of_nat (x div 8 - 0x800) * 0x200000"
  unfolding index_split [OF assms] by (simp add: algebra_simps)

lemma directory_step:
  assumes "mem_wf m" "g < 4" "8 dvd unat b"
  shows "read_u64 (write_directories m (Suc g)) b =
      (if 0x4000 + 0x1000 * g \<le> unat b \<and> unat b < 0x5000 + 0x1000 * g then (of_nat (unat b div 8 - 0x800) * 0x200000) OR 0x83
       else read_u64 (write_directories m g) b)"
proof -
  have a: "unat (PD_ADDR + of_nat g * 0x1000) = 0x4000 + 0x1000 * g" by (rule directory_unat [OF assms(2)])
  have wf: "mem_wf (write_directories m g)" using assms by (intro directories_wf) simp_all
  have al: "8 dvd unat (PD_ADDR + of_nat g * 0x1000)" unfolding a by (simp add: dvd_add)
  have le: "unat (PD_ADDR + of_nat g * 0x1000) + 4096 \<le> 2 ^ 20" unfolding a using assms(2) by simp
  note r = write_table_read [OF wf al le le_refl assms(3)]
  show ?thesis
  proof (cases "0x4000 + 0x1000 * g \<le> unat b \<and> unat b < 0x5000 + 0x1000 * g")
    case True
    then have v: "(of_nat g * 0x40000000 + of_nat ((unat b - (0x4000 + 0x1000 * g)) div 8) * 0x200000 :: u64) =
      of_nat (unat b div 8 - 0x800) * 0x200000" by (intro entry_split) simp
    have c: "0x4000 + 0x1000 * g \<le> unat b \<and> unat b < 0x4000 + 0x1000 * g + 8 * 512" using True by linarith
    have k: "present_rw OR pte_PS = 0x83" by simp
    show ?thesis unfolding write_directories.simps r a if_P [OF c] if_P [OF True] v or.assoc k ..
  next
    case False
    then have c: "\<not> (0x4000 + 0x1000 * g \<le> unat b \<and> unat b < 0x4000 + 0x1000 * g + 8 * 512)" by linarith
    show ?thesis unfolding write_directories.simps r a if_not_P [OF c] if_not_P [OF False] ..
  qed
qed

lemma directories_read:
  assumes "mem_wf m" "g \<le> 4" "8 dvd unat b"
  shows "read_u64 (write_directories m g) b =
    (if 0x4000 \<le> unat b \<and> unat b < 0x4000 + 0x1000 * g
     then (of_nat (unat b div 8 - 0x800) * 0x200000) OR 0x83 else read_u64 m b)"
  using assms(2)
proof (induction g)
  case (Suc g)
  have g: "g < 4" "g \<le> 4" using Suc.prems by simp_all
  show ?case
    unfolding directory_step [OF assms(1) g(1) assms(3)] Suc.IH [OF g(2)] by (auto simp del: of_nat_diff)
qed auto

lemma identity_map_wf: "mem_wf m \<Longrightarrow> mem_wf (build_identity_map m)"
  unfolding build_identity_map_def Let_def
  by (intro directories_wf write_table_wf store64.inv_wr) simp_all

lemma identity_map_read:
  assumes "mem_wf m"
  shows "read_u64 (build_identity_map m) 0x2000 = 0x3003"
    "i < 4 \<Longrightarrow> read_u64 (build_identity_map m) (0x3000 + of_nat (i * 8)) = (0x4000 + of_nat i * 0x1000) OR 3"
    "8 dvd unat b \<Longrightarrow> 0x4000 \<le> unat b \<Longrightarrow> unat b < 0x8000 \<Longrightarrow>
      read_u64 (build_identity_map m) b = (of_nat (unat b div 8 - 0x800) * 0x200000) OR 0x83"
proof -
  define t1 where "t1 = write_table m PML4_ADDR (\<lambda>_. 0) 512"
  define t2 where "t2 = write_u64 t1 PML4_ADDR (PDPT_ADDR OR present_rw)"
  define t3 where "t3 = write_table t2 PDPT_ADDR
    (\<lambda>i. if i < identity_gibs then (PD_ADDR + of_nat i * 0x1000) OR present_rw else 0) 512"
  have w: "mem_wf t1" "mem_wf t2" "mem_wf t3"
    using assms unfolding t1_def t2_def t3_def by (intro write_table_wf store64.inv_wr; simp)+
  have b: "build_identity_map m = write_directories t3 4"
    by (simp add: build_identity_map_def Let_def t1_def t2_def t3_def)
  note d = directories_read [OF w(3) order.refl, folded b]
  have r3: "read_u64 t3 b = (if 0x3000 \<le> unat b \<and> unat b < 0x4000
      then (let i = (unat b - 0x3000) div 8 in if i < 4 then (PD_ADDR + of_nat i * 0x1000) OR 3 else 0) else read_u64 t2 b)"
    if "8 dvd unat b" for b
    unfolding t3_def by (subst write_table_read [OF w(2)]) (simp_all add: that Let_def)
  have r2: "read_u64 t2 0x2000 = 0x3003"
    using low_backed [OF w(1), of "0x2000"] unfolding t2_def by (subst store64.rd_wr [OF w(1)]) simp_all
  have "read_u64 t3 0x2000 = 0x3003" by (subst r3) (simp_all add: r2)
  then show "read_u64 (build_identity_map m) 0x2000 = 0x3003"
    by (subst d) simp_all
  show "read_u64 (build_identity_map m) (0x3000 + of_nat (i * 8)) = (0x4000 + of_nat i * 0x1000) OR 3" if "i < 4"
  proof -
    have u: "unat (0x3000 + of_nat (i * 8) :: usize) = 0x3000 + 8 * i"
      using entry_unat [of "0x3000" i] that by simp
    have al: "8 dvd unat (0x3000 + of_nat (i * 8) :: usize)" unfolding u by (simp add: dvd_add)
    have "read_u64 t3 (0x3000 + of_nat (i * 8)) = (0x4000 + of_nat i * 0x1000) OR 3"
      unfolding r3 [OF al] u using that by (simp add: Let_def)
    then show ?thesis unfolding d [OF al] u using that by simp
  qed
  show "8 dvd unat b \<Longrightarrow> 0x4000 \<le> unat b \<Longrightarrow> unat b < 0x8000 \<Longrightarrow>
      read_u64 (build_identity_map m) b = (of_nat (unat b div 8 - 0x800) * 0x200000) OR 0x83"
    by (subst d; simp)
qed

lemma low_index:
  fixes l :: u64
  assumes "unat l < 2 ^ 32"
  shows "drop_bit 39 l AND 0x1FF = 0" "drop_bit 30 l AND 0x1FF = drop_bit 30 l" "unat (drop_bit 30 l) < 4"
    "8 * unat (drop_bit 21 l AND 0x1FF) + 0x1000 * unat (drop_bit 30 l) = 8 * unat (drop_bit 21 l)"
    "unat (drop_bit 21 l) < 0x800"
proof -
  have m: "(0x1FF :: u64) = mask 9" by (simp add: mask_eq_exp_minus_1)
  have d: "unat (drop_bit k l) = unat l div 2 ^ k" for k
    by (simp only: unat_drop_bit_eq) (simp only: drop_bit_eq_div)
  have b: "bit l n \<Longrightarrow> n < 32" for n by (rule bit_below_pow [OF assms])
  show "drop_bit 39 l AND 0x1FF = 0" "drop_bit 30 l AND 0x1FF = drop_bit 30 l"
    unfolding m by (rule bit_word_eqI, auto simp: bit_simps dest: b)+
  show "unat (drop_bit 30 l) < 4" "unat (drop_bit 21 l) < 0x800" unfolding d using assms by (simp_all add: less_mult_imp_div_less)
  have "unat (drop_bit 21 l AND 0x1FF) = unat l div 2 ^ 21 mod 512"
    unfolding m take_bit_eq_mask [symmetric] unsigned_take_bit_eq d by (simp add: take_bit_eq_mod)
  moreover have "unat l div 2 ^ 30 = unat l div 2 ^ 21 div 512" by (simp add: div_mult2_eq [symmetric])
  ultimately show "8 * unat (drop_bit 21 l AND 0x1FF) + 0x1000 * unat (drop_bit 30 l) = 8 * unat (drop_bit 21 l)"
    unfolding d using mult_div_mod_eq [of 512 "unat l div 2 ^ 21"] by linarith
qed

text \<open>The entries of the walk: the pointer to a directory, and the page.\<close>

lemma pdpte_bits:
  fixes i :: u64
  assumes "unat i < 4"
  defines "e \<equiv> (0x4000 + i * 0x1000) OR 3"
  shows "e AND 0x80 = 0" "e AND ADDR_MASK_64 = 0x4000 + i * 0x1000" "e AND 1 = 1" "e AND 2 = 2" "e AND 4 = 0"
    "e AND 0x8000000000000000 = 0"
proof -
  from assms(1) consider "unat i = 0" | "unat i = 1" | "unat i = 2" | "unat i = 3" by linarith
  then have "i = 0 \<or> i = 1 \<or> i = 2 \<or> i = 3" by cases (simp_all add: word_unat_eq_iff)
  then show "e AND 0x80 = 0" "e AND ADDR_MASK_64 = 0x4000 + i * 0x1000" "e AND 1 = 1" "e AND 2 = 2" "e AND 4 = 0"
    "e AND 0x8000000000000000 = 0"
    unfolding e_def by auto
qed

lemma page_bits:
  fixes l :: u64
  assumes "unat l < 2 ^ 32"
  defines "e \<equiv> (of_nat (unat (drop_bit 21 l)) * 0x200000) OR 0x83"
  shows "e AND 0x80 = 0x80" "(e AND ADDR_MASK_64 AND NOT 0x1FFFFF) OR (l AND 0x1FFFFF) = l" "e AND 1 = 1"
    "e AND 2 = 2" "e AND 4 = 0" "e AND 0x8000000000000000 = 0"
proof -
  have low: "l AND 0xFFFFFFFF = l"
    unfolding view_masks by (rule below_mask) (rule bit_below_pow [OF assms(1)])
  have "push_bit 21 (drop_bit 21 l) = l AND NOT (mask 21)" by (rule bit_word_eqI) (auto simp: bit_simps)
  also have "\<dots> = (l AND 0xFFFFFFFF) AND NOT (mask 21)" unfolding low ..
  also have "\<dots> = l AND 0xFFE00000" by (simp add: and.assoc mask_eq_exp_minus_1)
  finally have e: "e = (l AND 0xFFE00000) OR 0x83" unfolding e_def by (simp add: push_bit_eq_mult)
  show "e AND 0x80 = 0x80" "e AND 1 = 1" "e AND 2 = 2" "e AND 4 = 0" "e AND 0x8000000000000000 = 0"
    unfolding e bit.conj_disj_distrib2 and.assoc by simp_all
  have "e AND ADDR_MASK_64 AND NOT 0x1FFFFF = l AND 0xFFE00000"
    unfolding e bit.conj_disj_distrib2 and.assoc by simp
  moreover have "l AND 0xFFE00000 OR l AND 0x1FFFFF = l"
    using low unfolding bit.conj_disj_distrib [symmetric] by simp
  ultimately show "(e AND ADDR_MASK_64 AND NOT 0x1FFFFF) OR (l AND 0x1FFFFF) = l" by simp
qed

text \<open>C11: The page tables the 64-bit loaders build are an identity map: on any well-formed machine, in long
  mode under those tables, every address below 4 GiB translates to itself, writable, executable and
  for the supervisor only.\<close>

theorem identity_map_is_identity:
  assumes "mem_wf m" "unat l < 2 ^ 32"
  shows "\<exists>p. translate_mode (build_identity_map m) PML4_ADDR l Long nxe = Some p \<and> pm_phys p = l \<and>
    pm_writable p \<and> pm_exec p \<and> \<not> pm_user p"
proof -
  let ?T = "build_identity_map m"
  define i j where "i = drop_bit 30 l" and "j = drop_bit 21 l AND 0x1FF"
  define e p where "e = (0x4000 + i * 0x1000) OR 3" and "p = (of_nat (unat (drop_bit 21 l)) * 0x200000 :: u64) OR 0x83"
  note ix = low_index [OF assms(2), folded i_def j_def]
  note E = pdpte_bits [OF ix(3), folded e_def] and P = page_bits [OF assms(2), folded p_def]
  have "0x3000 + i * 8 = 0x3000 + of_nat (unat i * 8)" by simp
  then have rd_e: "read_u64 ?T (0x3000 + i * 8) = e"
    using identity_map_read(2) [OF assms(1) ix(3)] by (simp add: e_def)
  have j: "unat j < 512" unfolding j_def using and_mask_lt [of 9 "drop_bit 21 l"]
    by (simp add: mask_eq_exp_minus_1 word_less_nat_alt)
  have u: "unat (0x4000 + i * 0x1000 + j * 8) = 0x4000 + 8 * unat (drop_bit 21 l)"
  proof -
    have "0x4000 + i * 0x1000 + j * 8 = of_nat (0x4000 + unat i * 0x1000 + unat j * 8)" by simp
    moreover have "unat (of_nat (0x4000 + unat i * 0x1000 + unat j * 8) :: u64) = 0x4000 + unat i * 0x1000 + unat j * 8"
      unfolding unat_of_nat using ix(3) j by (intro mod_less) simp
    ultimately show ?thesis using ix(4) by simp
  qed
  have rd_p: "read_u64 ?T (0x4000 + i * 0x1000 + j * 8) = p"
    using identity_map_read(3) [OF assms(1), of "0x4000 + i * 0x1000 + j * 8"] ix(5)
    unfolding u p_def by (simp add: dvd_add)
  have "walk_long (read_u64 ?T) PML4_ADDR l nxe = Some \<lparr>pm_phys = l, pm_writable = True, pm_user = False, pm_exec = True,
      pm_walk = [0x2000, 0x3000 + i * 8, 0x4000 + i * 0x1000 + j * 8, 0], walk_len = 3, entry_bytes = 8\<rparr>"
    unfolding walk_long_def Let_def i_def [symmetric] j_def [symmetric] ix(1,2)
    by (simp add: identity_map_read(1) [OF assms(1)] rd_e rd_p E(1,3-) P(1,3-) E(2) [unfolded ADDR_MASK_64_def]
        P(2) [simplified and.assoc, simplified] and.assoc bit.conj_disj_distrib2)
  then show ?thesis by (simp add: translate_mode_def translate_long_def)
qed

theorem identity_map_is_identity_witness:
  "map_option pm_phys (translate_mode (build_identity_map (with_size 0x400000 None)) PML4_ADDR 0x100000 Long False) =
    Some 0x100000"
proof -
  have "mem_wf (with_size 0x400000 None)" by (rule with_size_wf) simp
  from identity_map_is_identity [OF this, of "0x100000" False] show ?thesis by auto
qed

section \<open>The entry into long mode\<close>

lemma identity_map_outside:
  assumes "mem_wf m" "8 dvd unat b" "unat b < 0x2000"
  shows "read_u64 (build_identity_map m) b = read_u64 m b"
proof -
  define t1 where "t1 = write_table m PML4_ADDR (\<lambda>_. 0) 512"
  define t2 where "t2 = write_u64 t1 PML4_ADDR (PDPT_ADDR OR present_rw)"
  define t3 where "t3 = write_table t2 PDPT_ADDR
    (\<lambda>i. if i < identity_gibs then (PD_ADDR + of_nat i * 0x1000) OR present_rw else 0) 512"
  have w: "mem_wf t1" "mem_wf t2" "mem_wf t3"
    using assms unfolding t1_def t2_def t3_def by (intro write_table_wf store64.inv_wr; simp)+
  have b: "build_identity_map m = write_directories t3 4"
    by (simp add: build_identity_map_def Let_def t1_def t2_def t3_def)
  have "read_u64 t3 b = read_u64 t2 b"
    unfolding t3_def by (subst write_table_read [OF w(2)]) (use assms in simp_all)
  moreover have "read_u64 t2 b = read_u64 t1 b"
    unfolding t2_def by (subst store64.rd_wr [OF w(1)]) (use assms in auto)
  moreover have "read_u64 t1 b = read_u64 m b"
    unfolding t1_def by (subst write_table_read [OF assms(1)]) (use assms in simp_all)
  ultimately show ?thesis
    unfolding b using directories_read [OF w(3) order.refl assms(2)] assms(3) by simp
qed

lemma write_gdt64_read:
  assumes "mem_wf m"
  shows "mem_wf (write_gdt64 m)" "read_u64 (write_gdt64 m) 0x1808 = 0x00AF9A000000FFFF"
    "read_u64 (write_gdt64 m) 0x1810 = 0x00CF92000000FFFF"
proof -
  define m1 where "m1 = write_u64 m 0x1800 0"
  define m2 where "m2 = write_u64 m1 0x1808 0x00AF9A000000FFFF"
  have w: "mem_wf m1" "mem_wf m2" unfolding m1_def m2_def using assms by (intro store64.inv_wr; simp)+
  have g: "write_gdt64 m = write_u64 m2 0x1810 0x00CF92000000FFFF" by (simp add: write_gdt64_def m2_def m1_def)
  have b: "backed m1 0x1808" "backed m2 0x1810" using low_backed [OF w(1)] low_backed [OF w(2)] by simp_all
  have r: "read_u64 m2 0x1808 = 0x00AF9A000000FFFF"
    unfolding m2_def by (subst store64.rd_wr [OF w(1)]) (use b in simp_all)
  show "mem_wf (write_gdt64 m)" unfolding g using w(2) by (intro store64.inv_wr) simp_all
  show "read_u64 (write_gdt64 m) 0x1808 = 0x00AF9A000000FFFF" "read_u64 (write_gdt64 m) 0x1810 = 0x00CF92000000FFFF"
    unfolding g by (subst store64.rd_wr [OF w(2)]; use b r in simp)+
qed

lemma load_seg_fields:
  "pe c \<Longrightarrow> load_seg c s v = (set_seg c s v)\<lparr>seg_desc := (seg_desc c)(s := descriptor_for c v),
     phys_ip_valid := (phys_ip_valid c \<and> s \<noteq> Cs)\<rparr>"
  by (cases s) (simp_all add: load_seg_def set_seg_def Let_def invalidate_phys_ip_def)

lemma descriptor_segments:
  "descriptor_for (c\<lparr>c_ds := a\<rparr>) s = descriptor_for c s" "descriptor_for (c\<lparr>c_es := a\<rparr>) s = descriptor_for c s"
  "descriptor_for (c\<lparr>c_fs := a\<rparr>) s = descriptor_for c s" "descriptor_for (c\<lparr>c_gs := a\<rparr>) s = descriptor_for c s"
  by (rule descriptor_cong; simp)+

lemma load_flat_segments_eq:
  assumes "pe c"
  shows "load_flat_segments c cs ds = c\<lparr>c_cs := cs, c_ds := ds, c_es := ds, c_ss := ds, c_fs := ds, c_gs := ds,
    seg_desc := (\<lambda>s. descriptor_for c (if s = Cs then cs else ds)), phys_ip_valid := False\<rparr>"
proof -
  have t: "(seg_desc c)(Cs := descriptor_for c cs, Ds := descriptor_for c ds, Es := descriptor_for c ds,
      Ss := descriptor_for c ds, Fs := descriptor_for c ds, Gs := descriptor_for c ds) =
    (\<lambda>s. descriptor_for c (if s = Cs then cs else ds))"
    by (rule ext, case_tac s) simp_all
  show ?thesis
    using assms
    by (intro cpu.equality)
      (simp_all add: load_flat_segments_def Let_def load_seg_fields set_seg_def descriptor_frame descriptor_segments t)
qed

text \<open>The machine before its segments are loaded.\<close>

definition paged :: "cpu \<Rightarrow> cpu" where
  "paged c = c\<lparr>c_mem := build_identity_map (write_gdt64 (c_mem c)), gdt_base := 0x1800, gdt_limit := 23, pe := True,
     cr0 := cr0 c OR 0x80010001, cr3 := 0x2000, cr4 := cr4 c OR 0x20, efer := efer c OR 0xD01,
     tlb := (\<lambda>i. tlb c i\<lparr>tlb_valid := False\<rparr>), phys_ip_valid := False\<rparr>"

lemma lma_on:
  fixes e :: u64 and v :: u32
  shows "(v OR 0x80010001) AND 0x80000000 \<noteq> 0" "(e OR 0x901) AND 0x100 \<noteq> 0" "(e OR 0xD01) AND 0x400 \<noteq> 0"
    "(e OR 0xD01) AND 0x100 \<noteq> 0" "(v OR 0x80010001) AND 0x1 \<noteq> 0" "(e OR 0x901) OR 0x400 = e OR 0xD01"
    "(e OR 0xD01) AND 0x800 \<noteq> 0"
proof -
  have n: "(x OR m) AND k \<noteq> 0" if "bit m n" "bit k n" for x m k :: "'b::len word" and n
  proof
    assume "(x OR m) AND k = 0"
    then have "bit ((x OR m) AND k) n = bit (0 :: 'b word) n" by (rule arg_cong)
    then show False using that by (simp add: bit_and_iff bit_or_iff)
  qed
  show "(v OR 0x80010001) AND 0x80000000 \<noteq> 0" by (rule n [of _ 31]) simp_all
  show "(v OR 0x80010001) AND 0x1 \<noteq> 0" by (rule n [of _ 0]) simp_all
  show "(e OR 0x901) AND 0x100 \<noteq> 0" "(e OR 0xD01) AND 0x100 \<noteq> 0" by (rule n [of _ 8]; simp)+
  show "(e OR 0xD01) AND 0x400 \<noteq> 0" by (rule n [of _ 10]) simp_all
  show "(e OR 0xD01) AND 0x800 \<noteq> 0" by (rule n [of _ 11]) simp_all
  show "(e OR 0x901) OR 0x400 = e OR 0xD01" by (simp add: or.assoc)
qed

lemma lma_kept: "(e OR 0x901) AND 0x400 \<noteq> 0 \<Longrightarrow> e OR 0x901 = e OR (0xD01 :: u64)"
proof -
  assume a: "(e OR 0x901) AND 0x400 \<noteq> 0"
  have "bit (e OR 0x901) 10" using a and_pow2_nonzero [of 10 "e OR 0x901"] by simp
  then have "(e OR 0x901) OR 0x400 = e OR 0x901" using lma_set(1) by simp
  then show ?thesis by (simp add: lma_on(6))
qed

lemma enter_long_mode_paged:
  "enter_long_mode c entry stack =
     (let d = load_flat_segments (paged c) 8 16
      in d\<lparr>regs := (regs c)(4 := stack), c_rip := entry, c_flags := c_flags c AND NOT 0x200, halted := False\<rparr>)"
proof -
  let ?c0 = "c\<lparr>c_mem := build_identity_map (write_gdt64 (c_mem c)), gdt_base := GDT64_ADDR, gdt_limit := 23,
    cr4 := cr4 c OR CR4_PAE, cr3 := PML4_ADDR, efer := efer c OR 0x901, pe := True, cr0 := cr0 c OR 0x80010001\<rparr>"
  have u: "flush_tlb (update_long_mode ?c0) = paged c"
    using lma_on(1) [of "cr0 c"] lma_on(2,6) [of "efer c"] lma_kept [of "efer c"]
    by (simp add: update_long_mode_def Let_def flush_tlb_def invalidate_phys_ip_def paged_def)
  have p: "pe (paged c)" by (simp add: paged_def)
  have f: "c_flags (paged c) = c_flags c" "regs (paged c) = regs c" by (simp_all add: paged_def)
  have "enter_long_mode c entry stack = invalidate_phys_ip ((set_flag ((set_rsp (load_flat_segments
      (flush_tlb (update_long_mode ?c0)) KERNEL_CS64 KERNEL_DS64) stack)\<lparr>c_rip := entry\<rparr>) fIF False)\<lparr>halted := False\<rparr>)"
    by (simp add: enter_long_mode_def Let_def)
  then show ?thesis
    unfolding u load_flat_segments_eq [OF p] KERNEL_CS64_def KERNEL_DS64_def Let_def
    by (intro cpu.equality) (simp_all add: set_rsp_def set_flag_def invalidate_phys_ip_def f)
qed

lemma paged_descriptor:
  assumes "mem_wf (c_mem c)"
  shows "descriptor_for (paged c) 8 = descriptor_parse 0x00AF9A000000FFFF"
    "descriptor_for (paged c) 16 = descriptor_parse 0x00CF92000000FFFF"
proof -
  have wf: "mem_wf (write_gdt64 (c_mem c))" by (rule write_gdt64_read(1) [OF assms])
  have m: "cpu_paging_mode (paged c) = Long" "cr0 (paged c) AND CR0_PG \<noteq> 0"
    using lma_on by (simp_all add: cpu_paging_mode_def paged_def long_mode_def)
  have p: "linear_to_phys_ro (paged c) l = l" if "unat l < 2 ^ 32" for l
    using identity_map_is_identity [OF wf that, of "cpu_nxe (paged c)"] m
    by (auto simp: linear_to_phys_ro_def cpu_walk_def paged_def)
  note r = identity_map_outside [OF wf, of "0x1808"] identity_map_outside [OF wf, of "0x1810"]
  show "descriptor_for (paged c) 8 = descriptor_parse 0x00AF9A000000FFFF"
    "descriptor_for (paged c) 16 = descriptor_parse 0x00CF92000000FFFF"
    using p [of "0x1808"] p [of "0x1810"] r write_gdt64_read(2,3) [OF assms]
    by (simp_all add: descriptor_for_def Let_def read_descriptor_def) (simp_all add: paged_def)
qed

lemma long_mode_state:
  fixes c :: cpu and entry stack :: u64
  assumes "machine_ok c"
  defines "d \<equiv> enter_long_mode c entry stack"
  shows "d = (paged c)\<lparr>c_cs := 8, c_ds := 16, c_es := 16, c_ss := 16, c_fs := 16, c_gs := 16,
      seg_desc := (\<lambda>s. descriptor_for (paged c) (if s = Cs then 8 else 16)), phys_ip_valid := False,
      regs := (regs c)(4 := stack), c_rip := entry, c_flags := c_flags c AND NOT 0x200, halted := False\<rparr>"
    and "machine_ok d"
proof -
  have wf: "mem_wf (c_mem c)" using assms(1) by (simp add: machine_ok_def)
  have p: "pe (paged c)" by (simp add: paged_def)
  show d: "d = (paged c)\<lparr>c_cs := 8, c_ds := 16, c_es := 16, c_ss := 16, c_fs := 16, c_gs := 16,
      seg_desc := (\<lambda>s. descriptor_for (paged c) (if s = Cs then 8 else 16)), phys_ip_valid := False,
      regs := (regs c)(4 := stack), c_rip := entry, c_flags := c_flags c AND NOT 0x200, halted := False\<rparr>"
    unfolding d_def enter_long_mode_paged load_flat_segments_eq [OF p] Let_def ..
  show "machine_ok d"
    using assms(1) lma_on identity_map_wf [OF write_gdt64_read(1) [OF wf]]
    by (simp add: machine_ok_def mode_ok_def d paged_def bit_simps)
qed

text \<open>C12: The entry into 64-bit code hands the machine over as firmware does: from any well-formed machine
  it leaves a well-formed one in 64-bit mode at privilege level 0, at the entry point with the given
  stack and interrupts off, whose page tables map every address below 4 GiB to itself and whose
  translation cache is empty.\<close>

theorem long_mode_entry:
  assumes "machine_ok c"
  shows "let d = enter_long_mode c entry stack
    in machine_ok d \<and> long64 d \<and> cpl d = 0 \<and> c_rip d = entry \<and> c_rsp d = stack \<and> \<not> get_flag d fIF \<and> \<not> halted d \<and>
      (\<forall>i. \<not> tlb_valid (tlb d i)) \<and> (unat l < 2 ^ 32 \<longrightarrow> linear_to_phys_ro d l = l)"
proof -
  define d where "d = enter_long_mode c entry stack"
  have wf: "mem_wf (c_mem c)" using assms by (simp add: machine_ok_def)
  note gdt = write_gdt64_read(1) [OF wf]
  note d = long_mode_state(1) [OF assms, of entry stack, folded d_def]
  have modes: "cr0 d AND CR0_PG \<noteq> 0" "long_mode d" "cpu_paging_mode d = Long" "cr3 d = PML4_ADDR"
    "c_mem d = build_identity_map (write_gdt64 (c_mem c))"
    using lma_on by (simp_all add: d paged_def long_mode_def cpu_paging_mode_def)
  have ok: "machine_ok d" unfolding d_def by (rule long_mode_state(2) [OF assms])
  have "linear_to_phys_ro d l = l" if "unat l < 2 ^ 32"
    using identity_map_is_identity [OF gdt that, of "cpu_nxe d"] modes
    by (auto simp: linear_to_phys_ro_def cpu_walk_def)
  moreover have "d_l (seg_desc d Cs)"
    using paged_descriptor(1) [OF wf] by (simp add: d descriptor_parse_def)
  moreover have "\<not> get_flag d fIF" by (simp add: d get_flag_def and.assoc)
  ultimately show ?thesis
    using ok modes(2) unfolding d_def [symmetric] Let_def
    by (simp add: long64_def d cpl_def paged_def c_rsp_def)
qed

theorem long_mode_entry_witness:
  "long64 (enter_long_mode small_machine 0x100000 0x200000) \<and> machine_ok (enter_long_mode small_machine 0x100000 0x200000)"
proof -
  have "machine_ok small_machine" unfolding small_machine_def by (rule new_machine_ok) simp
  from long_mode_entry [OF this, of "0x100000" "0x200000" 0] show ?thesis by (simp add: Let_def)
qed

section \<open>The loaders\<close>

lemma layout_load [ctl_frame]: "layout (mem_load m a bs) = layout m"
  by (simp add: mem_load_def ctl_frame)

lemma layout_entries [ctl_frame]: "layout (write_e820_entries m e es) = layout m"
  by (induction m e es rule: write_e820_entries.induct) (simp_all add: ctl_frame)

lemma layout_zero [ctl_frame]: "layout (zero_fill m a n) = layout m"
  by (induction n arbitrary: m a) (simp_all add: ctl_frame)

lemma layout_structures [ctl_frame]:
  "layout (write_gdt m) = layout m" "layout (write_screen_info m) = layout m" "layout (write_e820 m) = layout m"
  "layout (write_cmdline m cl) = layout m" "layout (write_initrd m cl) = layout m"
  "layout (write_setup_header m f x) = layout m"
  by (simp_all add: write_gdt_def write_screen_info_def write_e820_def write_cmdline_def write_initrd_def
      write_setup_header_def Let_def ctl_frame del: layout_def)

lemma layout_boot_structures [ctl_frame]: "layout (boot_structures m cl) = layout m"
  by (simp add: boot_structures_def Let_def ctl_frame)

lemma layout_copy_in: "copy_in m f dst src n = Some m' \<Longrightarrow> layout m' = layout m"
  by (induction m f dst src n rule: copy_in.induct) (auto simp: ctl_frame split: if_splits)

lemma layout_segment: "load_segment m f p a s t = Some m' \<Longrightarrow> layout m' = layout m"
  by (auto simp: load_segment_def ctl_frame dest: layout_copy_in)

lemma layout_segments64: "load_segments64 m f off esz n hi = Some (m', r) \<Longrightarrow> layout m' = layout m"
  by (induction m f off esz n hi rule: load_segments64.induct)
    (auto simp: Let_def dest: layout_segment split: if_splits option.splits)

lemma layout_segments32: "load_segments32 m f off esz n = Some m' \<Longrightarrow> layout m' = layout m"
  by (induction m f off esz n rule: load_segments32.induct)
    (auto simp: Let_def dest: layout_segment split: if_splits option.splits)

text \<open>A machine stays well formed when its memory keeps its layout.\<close>

lemma machine_ok_mem: "machine_ok c \<Longrightarrow> layout m = layout (c_mem c) \<Longrightarrow> machine_ok (c\<lparr>c_mem := m\<rparr>)"
  by (simp add: machine_ok_def mem_wf_def layout_def)

lemma machine_ok_frame:
  "machine_ok (c\<lparr>regs := r\<rparr>) = machine_ok c" "machine_ok (c\<lparr>c_rip := p\<rparr>) = machine_ok c"
  "machine_ok (c\<lparr>halted := h\<rparr>) = machine_ok c"
  by (simp_all add: machine_ok_def)

lemma flat_mode_ok: "machine_ok c \<Longrightarrow> machine_ok (enter_flat_mode c)"
proof -
  assume ok: "machine_ok c"
  define k where "k = c\<lparr>c_mem := write_gdt (c_mem c), gdt_base := GDT_ADDR, gdt_limit := 24, pe := True, cr0 := cr0 c OR 1\<rparr>"
  have p: "pe k" by (simp add: k_def)
  have m: "(v OR 1) AND 1 \<noteq> 0" "(v OR 1) AND 0x80000000 = v AND 0x80000000" for v :: u32
    by (simp_all add: bit.conj_disj_distrib2 or_eq_0_iff)
  have "machine_ok k"
    using machine_ok_mem [OF ok layout_structures(1)] m by (simp add: k_def machine_ok_def mode_ok_def)
  moreover have "enter_flat_mode c = set_flag (set_esi (set_esp (load_flat_segments k KERNEL_CS KERNEL_DS) 0x8FFF0)
      (ucast BOOT_PARAMS_ADDR)) fIF False"
    by (simp add: enter_flat_mode_def Let_def k_def)
  ultimately show ?thesis
    unfolding load_flat_segments_eq [OF p]
    by (simp add: machine_ok_def set_flag_def set_esi_def set_esp_def bit_simps)
qed




section \<open>Segments\<close>

lemma unat_Suc: "unat (a :: usize) + 1 < 2 ^ 64 \<Longrightarrow> unat (a + 1) = unat a + 1"
  by (subst unat_add_nowrap) simp_all

lemma copied:
  assumes "mem_wf m" "unat src + n \<le> length f" "unat src + n < 2 ^ 64" "unat dst + n < 2 ^ 64"
  shows "\<exists>m'. copy_in m f dst src n = Some m' \<and> mem_wf m' \<and> backed m' = backed m \<and>
    (\<forall>x. read_u8 m' x = (if unat dst \<le> unat x \<and> unat x < unat dst + n \<and> backed m x
      then f ! (unat src + (unat x - unat dst)) else read_u8 m x))"
  using assms
proof (induction n arbitrary: m dst src)
  case (Suc n)
  let ?m = "write_u8 m dst (f ! unat src)"
  have u: "unat (dst + 1) = unat dst + 1" "unat (src + 1) = unat src + 1" using Suc.prems by (intro unat_Suc; simp)+
  obtain m' where m': "copy_in ?m f (dst + 1) (src + 1) n = Some m'" "mem_wf m'" "backed m' = backed ?m"
    "\<And>x. read_u8 m' x = (if unat dst + 1 \<le> unat x \<and> unat x < unat dst + 1 + n \<and> backed ?m x
      then f ! (unat src + 1 + (unat x - (unat dst + 1))) else read_u8 ?m x)"
    using Suc.IH [of ?m "src + 1" "dst + 1"] Suc.prems store8.inv_wr [OF Suc.prems(1)] unfolding u by auto
  have b: "backed ?m = backed m" by (rule store8.present_wr [OF Suc.prems(1)]) simp
  have "read_u8 m' x = (if unat dst \<le> unat x \<and> unat x < unat dst + Suc n \<and> backed m x
      then f ! (unat src + (unat x - unat dst)) else read_u8 m x)" for x
  proof (cases "x = dst")
    case False
    then have "unat x \<noteq> unat dst" by (simp add: word_unat_eq_iff)
    moreover have "unat src + 1 + (unat x - (unat dst + 1)) = unat src + (unat x - unat dst)" if "unat dst + 1 \<le> unat x"
      using that by linarith
    ultimately show ?thesis
      using m'(4) [of x] store8.rd_wr [OF Suc.prems(1), where a = dst and b = x and v = "f ! unat src"] b False by auto
  qed (use m'(4) [of dst] store8.rd_wr [OF Suc.prems(1), where a = dst and b = dst and v = "f ! unat src"] in simp)
  moreover have "unat src < length f" using Suc.prems(2) by simp
  ultimately show ?case using m'(1-3) b by auto
qed auto

lemma zeroed:
  assumes "mem_wf m" "unat dst + n < 2 ^ 64"
  shows "read_u8 (zero_fill m dst n) x = (if unat dst \<le> unat x \<and> unat x < unat dst + n \<and> backed m x then 0 else read_u8 m x)"
  using assms
proof (induction n arbitrary: m dst)
  case (Suc n)
  have u: "unat (dst + 1) = unat dst + 1" using Suc.prems by (intro unat_Suc) simp
  have b: "backed (write_u8 m dst 0) = backed m" by (rule store8.present_wr [OF Suc.prems(1)]) simp
  have "read_u8 (zero_fill (write_u8 m dst 0) (dst + 1) n) x =
      (if unat dst + 1 \<le> unat x \<and> unat x < unat dst + 1 + n \<and> backed m x then 0 else read_u8 (write_u8 m dst 0) x)"
    using Suc.IH [of "write_u8 m dst 0" "dst + 1"] Suc.prems store8.inv_wr [OF Suc.prems(1)] unfolding u b by simp
  then show ?case
  proof (cases "x = dst")
    case False
    then have "unat x \<noteq> unat dst" by (simp add: word_unat_eq_iff)
    with \<open>read_u8 (zero_fill (write_u8 m dst 0) (dst + 1) n) x = _\<close> show ?thesis
      using store8.rd_wr [OF Suc.prems(1), where a = dst and b = x and v = 0] False by auto
  qed (use store8.rd_wr [OF Suc.prems(1), where a = dst and b = dst and v = 0] in simp)
qed auto

text \<open>C14: A segment of an ELF file is loaded where its header says: when its bytes lie in the file and its
  range does not wrap, the load succeeds, every backed address of the range holds the byte of the
  file at the same distance, zeros follow up to the memory size, and every other address keeps its byte.\<close>

theorem segment_contents:
  assumes "mem_wf m" "unat offset + unat filesz \<le> length f" "length f < 2 ^ 64"
    "unat paddr + unat filesz < 2 ^ 64" "unat paddr + unat memsz < 2 ^ 64"
  shows "\<exists>m'. load_segment m f offset paddr filesz memsz = Some m' \<and>
    (\<forall>x. read_u8 m' x =
      (if \<not> backed m x \<or> unat x < unat paddr \<or> max (unat paddr + unat filesz) (unat paddr + unat memsz) \<le> unat x then read_u8 m x
       else if unat x < unat paddr + unat filesz then f ! (unat offset + (unat x - unat paddr)) else 0))"
proof -
  have "unat offset + unat filesz < 2 ^ 64" using assms(2,3) by simp
  then obtain k where k: "copy_in m f paddr offset (unat filesz) = Some k" "mem_wf k" "backed k = backed m"
    "\<And>x. read_u8 k x = (if unat paddr \<le> unat x \<and> unat x < unat paddr + unat filesz \<and> backed m x
      then f ! (unat offset + (unat x - unat paddr)) else read_u8 m x)"
    using copied [OF assms(1,2) _ assms(4)] by auto
  have z: "unat (paddr + filesz) = unat paddr + unat filesz" by (rule unat_add_nowrap) (use assms(4) in simp)
  have n: "unat (paddr + filesz) + (unat memsz - unat filesz) < 2 ^ 64" unfolding z using assms(4,5) by simp
  have "load_segment m f offset paddr filesz memsz = Some (zero_fill k (paddr + filesz) (unat memsz - unat filesz))"
    by (simp add: load_segment_def k(1))
  then show ?thesis
    using zeroed [OF k(2) n] unfolding z by (auto simp: k(3,4) max_def)
qed

theorem segment_contents_witness:
  "map_option (\<lambda>m. (read_u8 m 0x2001, read_u8 m 0x2002)) (load_segment (with_size 0x400000 None) [1, 2, 3] 1 0x2000 2 4) =
    Some (3, 0)"
proof -
  have wf: "mem_wf (with_size 0x400000 None)" by (rule with_size_wf) simp
  have b: "backed (with_size 0x400000 None) 0x2001" "backed (with_size 0x400000 None) 0x2002"
    by (simp_all add: backed_def slot_def with_size_def Let_def)
  from segment_contents [OF wf, of 1 2 "[1, 2, 3]" "0x2000" 4] show ?thesis by (auto simp: b nth_Cons')
qed

end
