(* ===== verification/Alu_Laws.thy ===== *)
theory Alu_Laws imports Alu begin

text \<open>
  The ALU against integer arithmetic: the result and the six status flags of
  every operation at 16, 32 and 64 bits are those of a reference that adds and
  subtracts integers, and the conditional-jump conditions after a compare are
  the orders of the operands. At 8 bits everything agrees but the overflow flag,
  which the code never sets.
\<close>

unbundle bit_operations_syntax

section \<open>Signed readings\<close>

lemma sint_unat: "sint a = int (unat a) - (if bit a (LENGTH('a) - 1) then 2 ^ LENGTH('a) else 0)" for a :: "'a::len word"
proof -
  have l: "Suc (LENGTH('a) - Suc 0) = LENGTH('a)" by simp
  have "sint a = signed_take_bit (LENGTH('a) - Suc 0) (uint a)" by (simp add: sint_uint)
  also have "\<dots> = take_bit (Suc (LENGTH('a) - Suc 0)) (uint a) - 2 ^ Suc (LENGTH('a) - Suc 0) * of_bool (bit (uint a) (LENGTH('a) - Suc 0))"
    by (rule signed_take_bit_eq_take_bit_minus)
  finally show ?thesis unfolding l
    by (simp add: bit_uint_iff take_bit_int_eq_self [OF unsigned_greater_eq unsigned_less])
qed

lemma half_power: "2 ^ LENGTH('a::len) = 2 * (2 :: 'b :: comm_semiring_1) ^ (LENGTH('a) - 1)"
  by (metis Suc_pred' len_gt_0 power_Suc)

lemma top_bit_unat: "bit a (LENGTH('a) - 1) \<longleftrightarrow> 2 ^ (LENGTH('a) - 1) \<le> unat a" for a :: "'a::len word"
proof -
  define H :: nat where "H = 2 ^ (LENGTH('a) - 1)"
  have h: "unat a < 2 * H" "0 < H" unfolding H_def half_power [symmetric] by (rule unsigned_less) simp
  have "bit a (LENGTH('a) - 1) \<longleftrightarrow> odd (unat a div H)" by (simp add: bit_unsigned_iff flip: bit_iff_odd H_def) (simp add: H_def bit_unsigned_iff flip: bit_iff_odd)
  moreover have "unat a div H = (if H \<le> unat a then 1 else 0)"
    using h by (auto intro: div_nat_eqI)
  ultimately show ?thesis by (simp add: H_def)
qed

section \<open>Carries and overflows\<close>

lemma mod_once: "s < 2 * W \<Longrightarrow> s mod W = (if W \<le> s then s - W else s)" for s W :: nat
  by (auto simp: le_mod_geq)

lemma add_unat:
  fixes a b :: "'a::len word" and c :: bool
  shows "unat (a + b + of_bool c) = (unat a + unat b + of_bool c) mod 2 ^ LENGTH('a)"
  by (cases c) (simp_all add: unat_word_ariths mod_simps)

lemma add_unat_if:
  fixes a b :: "'a::len word" and c :: bool
  assumes "W = 2 ^ LENGTH('a)"
  shows "unat (a + b + of_bool c) =
    (if W \<le> unat a + unat b + of_bool c then unat a + unat b + of_bool c - W else unat a + unat b + of_bool c)"
proof -
  have l: "unat a < W" "unat b < W" unfolding assms by (rule unsigned_less)+
  have "unat a + unat b + of_bool c < 2 * W" using l by (cases c) auto
  then show ?thesis by (simp only: add_unat mod_once assms)
qed

lemma borrow_nat:
  "x = (if W \<le> d + y + of_bool c then d + y + of_bool c - W else d + y + of_bool c) \<Longrightarrow> x < W \<Longrightarrow> y < W \<Longrightarrow> d < W \<Longrightarrow>
   d = (if x < y + of_bool c then x + W - (y + of_bool c) else x - (y + of_bool c))" for x y d W :: nat
  by (cases c) (auto split: if_splits)

lemma sub_unat_if:
  fixes a b :: "'a::len word" and c :: bool
  assumes "W = 2 ^ LENGTH('a)"
  shows "unat (a - b - of_bool c) = (if unat a < unat b + of_bool c then unat a + W - (unat b + of_bool c) else unat a - (unat b + of_bool c))"
proof (rule borrow_nat)
  have "a = (a - b - of_bool c) + b + of_bool c" by simp
  then show "unat a = (if W \<le> unat (a - b - of_bool c) + unat b + of_bool c then unat (a - b - of_bool c) + unat b + of_bool c - W
      else unat (a - b - of_bool c) + unat b + of_bool c)"
    by (metis add_unat_if assms)
qed (simp_all add: assms)

definition signed_of :: "nat \<Rightarrow> nat \<Rightarrow> int" where
  "signed_of h x = (if h \<le> x then int x - 2 * int h else int x)"

lemma sint_signed_of: "sint a = signed_of (2 ^ (LENGTH('a) - 1)) (unat a)" for a :: "'a::len word"
proof -
  have w: "(2 :: int) ^ LENGTH('a) = 2 * int (2 ^ (LENGTH('a) - 1))" using half_power [where 'a = 'a and 'b = int] by simp
  show ?thesis unfolding signed_of_def sint_unat top_bit_unat w by simp
qed

lemma add_overflow_nat:
  "x < 2 * h \<Longrightarrow> y < 2 * h \<Longrightarrow>
   z = (if 2 * h \<le> x + y + of_bool c then x + y + of_bool c - 2 * h else x + y + of_bool c) \<Longrightarrow>
   ((h \<le> x) \<noteq> (h \<le> z) \<and> (h \<le> y) \<noteq> (h \<le> z)) =
   (signed_of h x + signed_of h y + of_bool c < - int h \<or> int h \<le> signed_of h x + signed_of h y + of_bool c)"
  by (cases c) (auto simp: signed_of_def split: if_splits)

lemma sub_overflow_nat:
  "x < 2 * h \<Longrightarrow> y < 2 * h \<Longrightarrow>
   z = (if x < y + of_bool c then x + 2 * h - (y + of_bool c) else x - (y + of_bool c)) \<Longrightarrow>
   ((h \<le> x) \<noteq> (h \<le> y) \<and> (h \<le> x) \<noteq> (h \<le> z)) =
   (signed_of h x - signed_of h y - of_bool c < - int h \<or> int h \<le> signed_of h x - signed_of h y - of_bool c)"
  by (cases c) (auto simp: signed_of_def split: if_splits)

text \<open>Signed overflow of an addition and of a subtraction, from the sign bits.\<close>

lemma signed_overflow:
  fixes a b :: "'a::len word" and c :: bool
  defines "H \<equiv> 2 ^ (LENGTH('a) - 1) :: int"
  shows "bit ((a XOR (a + b + of_bool c)) AND (b XOR (a + b + of_bool c))) (LENGTH('a) - 1) \<longleftrightarrow>
      sint a + sint b + of_bool c < - H \<or> H \<le> sint a + sint b + of_bool c"
    and "bit ((a XOR b) AND (a XOR (a - b - of_bool c))) (LENGTH('a) - 1) \<longleftrightarrow>
      sint a - sint b - of_bool c < - H \<or> H \<le> sint a - sint b - of_bool c"
proof -
  define h :: nat where "h = 2 ^ (LENGTH('a) - 1)"
  have H: "H = int h" by (simp add: H_def h_def)
  have w: "2 * h = 2 ^ LENGTH('a)" unfolding h_def by (rule half_power [symmetric])
  have l: "unat a < 2 * h" "unat b < 2 * h" unfolding w by (rule unsigned_less)+
  have t: "bit x (LENGTH('a) - 1) \<longleftrightarrow> h \<le> unat x" for x :: "'a word" using top_bit_unat [of x] by (simp add: h_def)
  show "bit ((a XOR (a + b + of_bool c)) AND (b XOR (a + b + of_bool c))) (LENGTH('a) - 1) \<longleftrightarrow>
      sint a + sint b + of_bool c < - H \<or> H \<le> sint a + sint b + of_bool c"
    using add_overflow_nat [OF l add_unat_if [OF w, of a b c]]
    unfolding bit_and_iff bit_xor_iff by (simp only: t sint_signed_of H h_def [symmetric])
  show "bit ((a XOR b) AND (a XOR (a - b - of_bool c))) (LENGTH('a) - 1) \<longleftrightarrow>
      sint a - sint b - of_bool c < - H \<or> H \<le> sint a - sint b - of_bool c"
    using sub_overflow_nat [OF l sub_unat_if [OF w, of a b c]]
    unfolding bit_and_iff bit_xor_iff by (simp only: t sint_signed_of H h_def [symmetric])
qed

text \<open>The half carry and the half borrow, from bit 4.\<close>

lemma bit4_unat: "5 \<le> LENGTH('a) \<Longrightarrow> bit x 4 \<longleftrightarrow> odd (unat x div 16)" for x :: "'a::len word"
proof -
  assume "5 \<le> LENGTH('a)"
  then have "bit x 4 \<longleftrightarrow> bit (unat x) 4" by (simp add: bit_unsigned_iff)
  then show ?thesis by (simp add: bit_iff_odd)
qed

lemma nibble_sum: "(x + y + z) div 16 = (x mod 16 + y mod 16 + z) div 16 + (x div 16 + y div 16)" for x y z :: nat
proof -
  have "x + y + z = (x mod 16 + y mod 16 + z) + (x div 16 + y div 16) * 16"
    using div_mult_mod_eq [of x 16] div_mult_mod_eq [of y 16] unfolding distrib_right by linarith
  then show ?thesis by (simp only: div_mult_self1 zero_neq_numeral not_False_eq_True add.commute)
qed

lemma nibble_carry:
  fixes a b :: "'a::len word" and c :: bool
  assumes "5 \<le> LENGTH('a)"
  shows "bit (a XOR b XOR (a + b + of_bool c)) 4 \<longleftrightarrow> 16 \<le> unat a mod 16 + unat b mod 16 + of_bool c"
proof -
  define V :: nat where "V = 2 ^ (LENGTH('a) - 5)"
  have "(2 :: nat) ^ LENGTH('a) = 2 ^ (5 + (LENGTH('a) - 5))" using assms by simp
  then have w: "(2 * V) * 16 = 2 ^ LENGTH('a)" unfolding power_add by (simp add: V_def)
  define s r where "s = unat a + unat b + of_bool c" and "r = unat (a + b + of_bool c)"
  have r: "s = r \<or> s = r + (2 * V) * 16"
    using add_unat_if [OF w, of a b c] unfolding s_def r_def by (auto split: if_splits)
  have "(r + (2 * V) * 16) div 16 = 2 * V + r div 16" by (rule div_mult_self1) simp
  then have p: "odd (r div 16) \<longleftrightarrow> odd (s div 16)" using r by auto
  define m where "m = unat a mod 16 + unat b mod 16 + of_bool c"
  have "unat a mod 16 < 16" "unat b mod 16 < 16" by simp_all
  then have "m < 32" unfolding m_def by (cases c) simp_all
  then have d: "m div 16 = (if 16 \<le> m then 1 else 0)" by (auto intro: div_nat_eqI)
  have "odd (s div 16) \<longleftrightarrow> (16 \<le> m) \<noteq> (odd (unat a div 16) \<noteq> odd (unat b div 16))"
    unfolding s_def nibble_sum m_def [symmetric] d by simp
  then show ?thesis
    unfolding bit_xor_iff unfolding bit4_unat [OF assms] r_def [symmetric] m_def [symmetric] using p by blast
qed

lemma nibble_cases:
  "x = (if 16 \<le> d + y + of_bool c then d + y + of_bool c - 16 else d + y + of_bool c) \<Longrightarrow> d < 16 \<Longrightarrow> y < 16 \<Longrightarrow>
   (16 \<le> d + y + of_bool c) = (x < y + of_bool c)" for x y d :: nat
  by (cases c) (auto split: if_splits)

lemma nibble_borrow:
  fixes a b :: "'a::len word" and c :: bool
  assumes "5 \<le> LENGTH('a)"
  shows "bit (a XOR b XOR (a - b - of_bool c)) 4 \<longleftrightarrow> unat a mod 16 < unat b mod 16 + of_bool c"
proof -
  define d where "d = a - b - of_bool c"
  have e: "d + b + of_bool c = a" by (simp add: d_def)
  have d: "bit (d XOR b XOR a) 4 \<longleftrightarrow> 16 \<le> unat d mod 16 + unat b mod 16 + of_bool c"
    using nibble_carry [OF assms, of d b c] by (simp add: e)
  have "(16 :: nat) dvd 2 ^ LENGTH('a)" using assms le_imp_power_dvd [of 4 "LENGTH('a)" "2 :: nat"] by simp
  then have "unat a mod 16 = (unat d + unat b + of_bool c) mod 16"
    using add_unat [of d b c] by (simp add: e mod_mod_cancel)
  also have "\<dots> = (unat d mod 16 + unat b mod 16 + of_bool c) mod 16"
    by (rule mod_add_cong [OF mod_add_eq [symmetric] refl])
  finally have x: "unat a mod 16 = (unat d mod 16 + unat b mod 16 + of_bool c) mod 16" .
  have l: "unat d mod 16 < 16" "unat b mod 16 < 16" by simp_all
  then have "unat d mod 16 + unat b mod 16 + of_bool c < 2 * 16" by (cases c) simp_all
  note x [unfolded mod_once [OF this]]
  from nibble_cases [OF this l] have
    "16 \<le> unat d mod 16 + unat b mod 16 + of_bool c \<longleftrightarrow> unat a mod 16 < unat b mod 16 + of_bool c" .
  moreover have "a XOR b XOR d = d XOR b XOR a" by (simp add: ac_simps)
  ultimately show ?thesis using d by (simp add: d_def)
qed

section \<open>The reference\<close>

text \<open>
  The reference: results and flags as arithmetic on integers. \<open>s\<close> is the exact
  sum or difference; the carry says it left the unsigned range, the overflow
  that it left the signed range, the auxiliary carry that the low digit did.
\<close>

definition put_flags :: "cpu \<Rightarrow> 'a::len word \<Rightarrow> bool \<Rightarrow> bool \<Rightarrow> bool \<Rightarrow> cpu" where
  "put_flags c r cf af ovf =
     set_flag (set_flag (set_flag
       (set_flag (set_flag (set_flag c fSF (sint r < 0)) fZF (r = 0)) fPF (even (length (filter (bit r) [0..<8]))))
         fCF cf) fAF af) fOF ovf"

definition signed_range :: "'a::len itself \<Rightarrow> int \<Rightarrow> bool" where
  "signed_range t s \<longleftrightarrow> - (2 ^ (LENGTH('a) - 1)) \<le> s \<and> s < 2 ^ (LENGTH('a) - 1)"

definition ref_add :: "cpu \<Rightarrow> bool \<Rightarrow> 'a::len word \<Rightarrow> 'a word \<Rightarrow> 'a word \<times> cpu" where
  "ref_add c cin a b =
     (let r = word_of_int (uint a + uint b + of_bool cin) in
      (r, put_flags c r (uint a + uint b + of_bool cin \<ge> 2 ^ LENGTH('a))
            (uint a mod 16 + uint b mod 16 + of_bool cin \<ge> 16)
            (\<not> signed_range TYPE('a) (sint a + sint b + of_bool cin))))"

definition ref_sub :: "cpu \<Rightarrow> bool \<Rightarrow> 'a::len word \<Rightarrow> 'a word \<Rightarrow> 'a word \<times> cpu" where
  "ref_sub c cin a b =
     (let r = word_of_int (uint a - uint b - of_bool cin) in
      (r, put_flags c r (uint a - uint b - of_bool cin < 0)
            (uint a mod 16 - uint b mod 16 - of_bool cin < 0)
            (\<not> signed_range TYPE('a) (sint a - sint b - of_bool cin))))"

text \<open>The logical operations leave the auxiliary carry alone.\<close>

definition ref_logic :: "cpu \<Rightarrow> 'a::len word \<Rightarrow> 'a word \<times> cpu" where
  "ref_logic c r = (r, put_flags c r False (get_flag c fAF) False)"

definition alu_ref :: "cpu \<Rightarrow> aluop \<Rightarrow> 'a::len word \<Rightarrow> 'a word \<Rightarrow> 'a word \<times> cpu" where
  "alu_ref c op a b =
     (case op of
        Add \<Rightarrow> ref_add c False a b
      | Adc \<Rightarrow> ref_add c (get_flag c fCF) a b
      | Sub \<Rightarrow> ref_sub c False a b
      | Cmp \<Rightarrow> ref_sub c False a b
      | Sbb \<Rightarrow> ref_sub c (get_flag c fCF) a b
      | And \<Rightarrow> ref_logic c (a AND b)
      | Or \<Rightarrow> ref_logic c (a OR b)
      | Xor \<Rightarrow> ref_logic c (a XOR b))"

lemma parity_ones: "parity v \<longleftrightarrow> even (length (filter (bit v) [0..<8]))"
proof -
  have z: "x AND 1 = 0 \<longleftrightarrow> \<not> bit x 0" for x :: u8 using and_pow2_nonzero [of 0 x] by auto
  have m: "(0xFF :: u8) = mask 8" by (simp add: mask_eq_exp_minus_1)
  have v: "v AND 0xFF = v" unfolding m by (rule bit_word_eqI) (auto simp: bit_simps)
  have u: "[0..<8] = [0, 1, 2, 3, 4, 5, 6, 7 :: nat]" by (simp add: upt_rec)
  show ?thesis unfolding parity_def Let_def z v u by (simp add: bit_simps numeral_3_eq_3)
qed

lemma parity_ucast: "parity (ucast r) \<longleftrightarrow> even (length (filter (bit r) [0..<8]))" for r :: "'a::len word"
proof -
  have "filter (bit (ucast r :: u8)) [0..<8] = filter (bit r) [0..<8]" by (rule filter_cong) (auto simp: bit_simps)
  then show ?thesis by (simp add: parity_ones)
qed

lemma flag_roundtrip: "f \<noteq> 0 \<Longrightarrow> get_flag (set_flag c f b) f = b" "f AND g = 0 \<Longrightarrow> get_flag (set_flag c f b) g = get_flag c g"
proof -
  show "f \<noteq> 0 \<Longrightarrow> get_flag (set_flag c f b) f = b"
    by (simp add: get_flag_def set_flag_def) (metis and.assoc and.right_idem and_zero_eq bit.conj_cancel_left bit.conj_cancel_right bit.conj_disj_distrib2 or.right_idem or_eq_0_iff)
  assume z: "f AND g = 0"
  have "(v OR f) AND g = v AND g" "(v AND NOT f) AND g = v AND g" for v
  proof (rule_tac [!] bit_word_eqI)
    fix n
    have "\<not> (bit f n \<and> bit g n)" using z by (metis bit_and_iff bit_0_eq bot_apply bot_bool_def)
    then show "bit ((v OR f) AND g) n = bit (v AND g) n" "bit ((v AND NOT f) AND g) n = bit (v AND g) n"
      by (auto simp: bit_simps dest: bit_imp_le_length)
  qed
  then show "get_flag (set_flag c f b) g = get_flag c g" by (simp add: get_flag_def set_flag_def)
qed

lemma sign_masks:
  "x AND 0x8000 \<noteq> 0 \<longleftrightarrow> bit x (LENGTH(16) - 1)" "y AND 0x80000000 \<noteq> 0 \<longleftrightarrow> bit y (LENGTH(32) - 1)"
  "z AND 0x8000000000000000 \<noteq> 0 \<longleftrightarrow> bit z (LENGTH(64) - 1)" for x :: u16 and y :: u32 and z :: u64
  using and_pow2_nonzero [of 15 x] and_pow2_nonzero [of 31 y] and_pow2_nonzero [of 63 z] by simp_all

lemma half_mask: "x AND 0x10 \<noteq> 0 \<longleftrightarrow> bit x 4" if "5 \<le> LENGTH('a)" for x :: "'a::len word"
  using and_pow2_nonzero [of 4 x] that by simp

text \<open>The setters at one width, by the bits they test.\<close>

definition logic_flags :: "cpu \<Rightarrow> 'a::len word \<Rightarrow> cpu" where
  "logic_flags c r = set_flag (set_flag (set_flag c fSF (sint r < 0)) fZF (r = 0)) fPF (parity (ucast r))"

definition carry_flags :: "cpu \<Rightarrow> 'a::len word \<Rightarrow> bool \<Rightarrow> 'a word \<Rightarrow> cpu" where
  "carry_flags c h k v = set_flag (set_flag (set_flag c fCF k) fAF (bit h 4)) fOF (bit v (LENGTH('a) - 1))"

lemma setters:
  "set_logic_flags8 c r8 = logic_flags c r8" "set_logic_flags16 c r16 = logic_flags c r16"
  "set_logic_flags32 c r32 = logic_flags c r32" "set_logic_flags64 c r64 = logic_flags c r64"
  "set_add_carry c a b r k = carry_flags c (a XOR b XOR r) k ((a XOR r) AND (b XOR r))"
  "set_add_carry32 c a' b' r' k = carry_flags c (a' XOR b' XOR r') k ((a' XOR r') AND (b' XOR r'))"
  "set_add_carry64 c a'' b'' r'' k = carry_flags c (a'' XOR b'' XOR r'') k ((a'' XOR r'') AND (b'' XOR r''))"
  "set_sub_borrow c a b r k = carry_flags c (a XOR b XOR r) k ((a XOR b) AND (a XOR r))"
  "set_sub_borrow32 c a' b' r' k = carry_flags c (a' XOR b' XOR r') k ((a' XOR b') AND (a' XOR r'))"
  "set_sub_borrow64 c a'' b'' r'' k = carry_flags c (a'' XOR b'' XOR r'') k ((a'' XOR b'') AND (a'' XOR r''))"
proof -
  have h: "x AND 0x10 \<noteq> 0 \<longleftrightarrow> bit x 4" "y AND 0x10 \<noteq> 0 \<longleftrightarrow> bit y 4" "z AND 0x10 \<noteq> 0 \<longleftrightarrow> bit z 4"
    for x :: u16 and y :: u32 and z :: u64 by (rule half_mask, simp)+
  show "set_logic_flags8 c r8 = logic_flags c r8" "set_logic_flags16 c r16 = logic_flags c r16"
    "set_logic_flags32 c r32 = logic_flags c r32" "set_logic_flags64 c r64 = logic_flags c r64"
    by (simp_all add: set_logic_flags8_def set_logic_flags16_def set_logic_flags32_def set_logic_flags64_def logic_flags_def)
  show "set_add_carry c a b r k = carry_flags c (a XOR b XOR r) k ((a XOR r) AND (b XOR r))"
    "set_add_carry32 c a' b' r' k = carry_flags c (a' XOR b' XOR r') k ((a' XOR r') AND (b' XOR r'))"
    "set_add_carry64 c a'' b'' r'' k = carry_flags c (a'' XOR b'' XOR r'') k ((a'' XOR r'') AND (b'' XOR r''))"
    unfolding set_add_carry_def set_add_carry32_def set_add_carry64_def carry_flags_def h sign_masks by (rule refl)+
  show "set_sub_borrow c a b r k = carry_flags c (a XOR b XOR r) k ((a XOR b) AND (a XOR r))"
    "set_sub_borrow32 c a' b' r' k = carry_flags c (a' XOR b' XOR r') k ((a' XOR b') AND (a' XOR r'))"
    "set_sub_borrow64 c a'' b'' r'' k = carry_flags c (a'' XOR b'' XOR r'') k ((a'' XOR b'') AND (a'' XOR r''))"
    unfolding set_sub_borrow_def set_sub_borrow32_def set_sub_borrow64_def carry_flags_def h sign_masks by (rule refl)+
qed

text \<open>The bit tests are the flags of the reference.\<close>

lemma add_flags:
  fixes a b :: "'a::len word" and cin :: bool
  assumes "5 \<le> LENGTH('a)"
  shows "carry_flags (logic_flags c r) (a XOR b XOR (a + b + of_bool cin)) k ((a XOR (a + b + of_bool cin)) AND (b XOR (a + b + of_bool cin))) =
    put_flags c r k (uint a mod 16 + uint b mod 16 + of_bool cin \<ge> 16) (\<not> signed_range TYPE('a) (sint a + sint b + of_bool cin))"
proof -
  have "uint a mod 16 + uint b mod 16 + of_bool cin = int (unat a mod 16 + unat b mod 16 + of_bool cin)"
    by (simp add: zmod_int)
  then have u: "(16 \<le> unat a mod 16 + unat b mod 16 + of_bool cin) = (uint a mod 16 + uint b mod 16 + of_bool cin \<ge> 16)"
    by linarith
  show ?thesis
    unfolding carry_flags_def logic_flags_def put_flags_def signed_overflow nibble_carry [OF assms] u parity_ucast signed_range_def
    by (simp only: de_Morgan_conj not_le not_less)
qed

lemma sub_flags:
  fixes a b :: "'a::len word" and cin :: bool
  assumes "5 \<le> LENGTH('a)"
  shows "carry_flags (logic_flags c r) (a XOR b XOR (a - b - of_bool cin)) k ((a XOR b) AND (a XOR (a - b - of_bool cin))) =
    put_flags c r k (uint a mod 16 - uint b mod 16 - of_bool cin < 0) (\<not> signed_range TYPE('a) (sint a - sint b - of_bool cin))"
proof -
  have "uint a mod 16 - uint b mod 16 - of_bool cin = int (unat a mod 16) - int (unat b mod 16 + of_bool cin)"
    by (simp add: zmod_int)
  then have u: "(unat a mod 16 < unat b mod 16 + of_bool cin) = (uint a mod 16 - uint b mod 16 - of_bool cin < 0)"
    by linarith
  show ?thesis
    unfolding carry_flags_def logic_flags_def put_flags_def signed_overflow nibble_borrow [OF assms] u parity_ucast signed_range_def
    by (simp only: de_Morgan_conj not_le not_less)
qed

lemma word_of_int_exact:
  "word_of_int (uint a + uint b + of_bool cin) = a + b + of_bool cin" "word_of_int (uint a - uint b - of_bool cin) = a - b - of_bool cin"
  for a b :: "'a::len word"
  by (cases cin; simp)+

text \<open>The carries the code computes: from the wrapped sum, or from a sum in a wider type.\<close>

lemma carry_in_wrapped:
  "(a + b + of_bool c < a \<or> (c \<and> a + b + of_bool c = a)) \<longleftrightarrow> 2 ^ LENGTH('a) \<le> uint a + uint b + of_bool c"
  for a b :: "'a::len word"
proof -
  define W r where "W = (2 :: nat) ^ LENGTH('a)" and "r = unat (a + b + of_bool c)"
  have l: "unat a < W" "unat b < W" unfolding W_def by (rule unsigned_less)+
  have r: "r = (if W \<le> unat a + unat b + of_bool c then unat a + unat b + of_bool c - W else unat a + unat b + of_bool c)"
    unfolding r_def by (rule add_unat_if [OF W_def])
  have "(r < unat a \<or> (c \<and> r = unat a)) \<longleftrightarrow> W \<le> unat a + unat b + of_bool c"
    using l r by (cases c) (auto split: if_splits)
  moreover have "(W \<le> unat a + unat b + of_bool c) \<longleftrightarrow> int W \<le> int (unat a + unat b + of_bool c)" by linarith
  ultimately show ?thesis by (simp add: word_less_nat_alt word_unat_eq_iff r_def W_def)
qed

lemma carry_wrapped: "a + b < a \<longleftrightarrow> 2 ^ LENGTH('a) \<le> uint a + uint b" for a b :: "'a::len word"
  using carry_in_wrapped [of a b False] by simp

lemma borrow_in: "(a < b \<or> (a = b \<and> c)) \<longleftrightarrow> uint a - uint b - of_bool c < 0" for a b :: "'a::len word"
  by (cases c) (auto simp: word_less_def word_uint_eq_iff)

lemma ucast_word_of_int: "ucast x = word_of_int (uint x)"
  by (rule bit_word_eqI) (simp add: bit_simps)

lemma wide_sum:
  fixes a b :: "'a::len word" and cin :: bool
  assumes "LENGTH('a) + 2 \<le> LENGTH('b::len)"
  shows "uint (ucast a + ucast b + of_bool cin :: 'b word) = uint a + uint b + of_bool cin"
    "ucast (ucast a + ucast b + of_bool cin :: 'b word) = a + b + of_bool cin"
    "ucast (ucast a - ucast b - of_bool cin :: 'b word) = a - b - of_bool cin"
    "(ucast a < (ucast b + of_bool cin :: 'b word)) \<longleftrightarrow> uint a - uint b - of_bool cin < 0"
proof -
  have up: "unat (ucast x :: 'b word) = unat x" for x :: "'a word" by (rule unat_ucast_up) (use assms in simp)
  define W where "W = (2 :: nat) ^ LENGTH('a)"
  have l: "unat a < W" "unat b < W" unfolding W_def by (rule unsigned_less)+
  have "2 ^ (LENGTH('a) + 2) \<le> (2 :: nat) ^ LENGTH('b)" using assms by (rule power_increasing) simp
  then have V: "4 * W \<le> 2 ^ LENGTH('b)" by (simp add: W_def)
  have "0 < W" by (simp add: W_def)
  have "unat (ucast a + ucast b + of_bool cin :: 'b word) = (unat a + unat b + of_bool cin) mod 2 ^ LENGTH('b)"
    by (simp only: add_unat up)
  also have "\<dots> = unat a + unat b + of_bool cin" using l V \<open>0 < W\<close> by (cases cin) simp_all
  finally have s: "unat (ucast a + ucast b + of_bool cin :: 'b word) = unat a + unat b + of_bool cin" .
  then show "uint (ucast a + ucast b + of_bool cin :: 'b word) = uint a + uint b + of_bool cin"
    by (metis of_nat_add of_nat_of_bool uint_nat)
  show "ucast (ucast a + ucast b + of_bool cin :: 'b word) = a + b + of_bool cin"
    using \<open>uint (ucast a + ucast b + of_bool cin :: 'b word) = uint a + uint b + of_bool cin\<close>
    unfolding ucast_word_of_int by (simp only: word_of_int_exact)
  have t: "(ucast a - ucast b - of_bool cin :: 'b word) = word_of_int (uint a - uint b - of_bool cin)"
    unfolding ucast_word_of_int by (cases cin) simp_all
  have "ucast (word_of_int z :: 'b word) = (word_of_int z :: 'a word)" for z
    unfolding ucast_word_of_int uint_word_of_int_eq word_of_int_eq_iff using assms by (simp add: take_bit_take_bit)
  then show "ucast (ucast a - ucast b - of_bool cin :: 'b word) = a - b - of_bool cin"
    unfolding t by (simp only: word_of_int_exact)
  have "unat (ucast b + of_bool cin :: 'b word) = (unat b + of_bool cin) mod 2 ^ LENGTH('b)"
    using add_unat [of "ucast b :: 'b word" 0 cin] by (simp add: up)
  also have "\<dots> = unat b + of_bool cin" using l V \<open>0 < W\<close> by (cases cin) simp_all
  finally have e: "unat (ucast b + of_bool cin :: 'b word) = unat b + of_bool cin" .
  have n: "(x < y + of_bool cin) \<longleftrightarrow> int x - int y - of_bool cin < 0" for x y :: nat by (cases cin) auto
  show "(ucast a < (ucast b + of_bool cin :: 'b word)) \<longleftrightarrow> uint a - uint b - of_bool cin < 0"
    unfolding word_less_nat_alt e up n uint_nat ..
qed

lemma of_bool_words: "bool_to x = (of_bool x :: 'a::len word)" by (simp add: bool_to_def)

lemma over_mask: "(t > 0xFF) \<longleftrightarrow> uint t \<ge> 2 ^ LENGTH(8)" "(u > 0xFFFF) \<longleftrightarrow> uint u \<ge> 2 ^ LENGTH(16)"
  "(v > 0xFFFFFFFF) \<longleftrightarrow> uint v \<ge> 2 ^ LENGTH(32)" for t :: u16 and u :: u32 and v :: u64
  by (auto simp: word_less_def)

text \<open>The reference in the code's own terms.\<close>

lemma ref_add_bits:
  fixes a b :: "'a::len word"
  assumes "5 \<le> LENGTH('a)"
  shows "ref_add c cin a b = (let r = a + b + of_bool cin in
    (r, carry_flags (logic_flags c r) (a XOR b XOR r) (2 ^ LENGTH('a) \<le> uint a + uint b + of_bool cin) ((a XOR r) AND (b XOR r))))"
  unfolding ref_add_def word_of_int_exact Let_def add_flags [OF assms] ..

lemma ref_sub_bits:
  fixes a b :: "'a::len word"
  assumes "5 \<le> LENGTH('a)"
  shows "ref_sub c cin a b = (let r = a - b - of_bool cin in
    (r, carry_flags (logic_flags c r) (a XOR b XOR r) (uint a - uint b - of_bool cin < 0) ((a XOR b) AND (a XOR r))))"
  unfolding ref_sub_def word_of_int_exact Let_def sub_flags [OF assms] ..

lemma set_same_flag:
  assumes "f = 2 ^ n" "n < 32"
  shows "set_flag c f (get_flag c f) = c"
proof -
  have "(if get_flag c f then c_flags c OR f else c_flags c AND NOT f) = c_flags c"
    using and_pow2_nonzero [of n "c_flags c"] assms
    by (intro bit_word_eqI) (auto simp: get_flag_def bit_simps split: if_splits)
  then show ?thesis by (simp add: set_flag_def)
qed

lemma set_flag_commute: "f AND g = 0 \<Longrightarrow> set_flag (set_flag c f x) g y = set_flag (set_flag c g y) f x"
proof -
  assume "f AND g = 0"
  then have "\<not> (bit f n \<and> bit g n)" for n by (metis bit_and_iff bit_0_eq bot_apply bot_bool_def)
  then have "((v OR f) OR g) = ((v OR g) OR f)" "((v OR f) AND NOT g) = ((v AND NOT g) OR f)"
    "((v AND NOT f) OR g) = ((v OR g) AND NOT f)" "((v AND NOT f) AND NOT g) = ((v AND NOT g) AND NOT f)" for v
    by (rule_tac [!] bit_word_eqI) (auto simp: bit_simps)
  then show ?thesis by (cases x; cases y; simp add: set_flag_def)
qed

lemma clear_co_ref: "(r, clear_co (logic_flags c r)) = ref_logic c r"
proof -
  define d where "d = logic_flags c r"
  have "get_flag d fAF = get_flag c fAF" by (simp add: d_def logic_flags_def flag_roundtrip)
  then have "set_flag (set_flag d fCF False) fAF (get_flag c fAF) = set_flag d fCF False"
    using set_same_flag [of "0x10" 4 "set_flag d fCF False"] by (simp add: flag_roundtrip)
  then show ?thesis
    by (simp add: ref_logic_def put_flags_def clear_co_def d_def logic_flags_def parity_ucast)
qed

lemma carry_wrapped0: "(a + b < a) \<longleftrightarrow> 2 ^ LENGTH('a) \<le> uint a + uint b + of_bool False"
  and borrow_wrapped0: "(a < b) \<longleftrightarrow> uint a - uint b - of_bool False < 0" for a b :: "'a::len word"
  using carry_wrapped [of a b] borrow_in [of a b False] by simp_all

lemma cond_flag: "of_bool x = (1 :: 'a::len word) \<longleftrightarrow> x" by simp

lemma alu16_ref: "alu16 c op a b = alu_ref c op a b"
proof -
  have l: "LENGTH(16) + 2 \<le> LENGTH(32)" "5 \<le> LENGTH(16)" by simp_all
  note f = ref_add_bits [OF l(2)] ref_sub_bits [OF l(2)]
  show ?thesis
    unfolding alu16_def alu_ref_def Let_def setters f overflowing_add_def overflowing_sub_def of_bool_words over_mask
      wide_sum [OF l(1)] clear_co_ref carry_wrapped0 [where 'a = 16]
    unfolding borrow_wrapped0 [where 'a = 16]
    by (cases op) simp_all
qed

lemma alu32_ref: "alu32 c op a b = alu_ref c op a b"
proof -
  have l: "LENGTH(32) + 2 \<le> LENGTH(64)" "5 \<le> LENGTH(32)" by simp_all
  note f = ref_add_bits [OF l(2)] ref_sub_bits [OF l(2)]
  show ?thesis
    unfolding alu32_def alu_ref_def Let_def setters f overflowing_add_def overflowing_sub_def of_bool_words over_mask
      wide_sum [OF l(1)] clear_co_ref carry_wrapped0 [where 'a = 32]
    unfolding borrow_wrapped0 [where 'a = 32]
    by (cases op) simp_all
qed

lemma alu64_ref: "alu64 c op a b = alu_ref c op a b"
proof -
  have l: "5 \<le> LENGTH(64)" by simp
  note f = ref_add_bits [OF l] ref_sub_bits [OF l]
  show ?thesis
    unfolding alu64_def alu_ref_def Let_def setters f overflowing_add_def overflowing_sub_def of_bool_words cond_flag
      conj_commute [of "_ = _" "get_flag _ _"] carry_in_wrapped borrow_in clear_co_ref carry_wrapped0 [where 'a = 64]
    unfolding borrow_wrapped0 [where 'a = 64]
    by (cases op) simp_all
qed

text \<open>At eight bits the setters work on the values widened to sixteen, whose sign bit is never set.\<close>

lemma set_flag_twice: "set_flag (set_flag c f x) f y = set_flag c f y"
proof -
  have "((v OR f) OR f) = v OR f" "((v OR f) AND NOT f) = v AND NOT f" "((v AND NOT f) OR f) = v OR f"
    "((v AND NOT f) AND NOT f) = v AND NOT f" for v
    by (rule_tac [!] bit_word_eqI) (auto simp: bit_simps dest: bit_imp_le_length)
  then show ?thesis by (cases x; cases y; simp add: set_flag_def)
qed

lemma narrow_carry_flags:
  fixes a b r :: u8
  shows "carry_flags d (ucast a XOR ucast b XOR ucast r :: u16) k ((ucast a XOR ucast r) AND (ucast b XOR ucast r)) =
      set_flag (carry_flags d (a XOR b XOR r) k v) fOF False"
    and "carry_flags d (ucast a XOR ucast b XOR ucast r :: u16) k ((ucast a XOR ucast b) AND (ucast a XOR ucast r)) =
      set_flag (carry_flags d (a XOR b XOR r) k v) fOF False"
proof -
  have "\<not> bit x 15" for x :: u8 by (auto dest: bit_imp_le_length)
  then show "carry_flags d (ucast a XOR ucast b XOR ucast r :: u16) k ((ucast a XOR ucast r) AND (ucast b XOR ucast r)) =
      set_flag (carry_flags d (a XOR b XOR r) k v) fOF False"
    "carry_flags d (ucast a XOR ucast b XOR ucast r :: u16) k ((ucast a XOR ucast b) AND (ucast a XOR ucast r)) =
      set_flag (carry_flags d (a XOR b XOR r) k v) fOF False"
    by (simp_all add: carry_flags_def set_flag_twice bit_simps)
qed

definition no_overflow :: "'a \<times> cpu \<Rightarrow> 'a \<times> cpu" where
  "no_overflow p = (fst p, set_flag (snd p) fOF False)"

lemma clear_co_narrow: "(r, clear_co (logic_flags c r)) = no_overflow (ref_logic c r)"
  unfolding clear_co_ref by (simp add: ref_logic_def put_flags_def set_flag_twice no_overflow_def)

lemma alu8_ref: "alu8 c op a b = no_overflow (alu_ref c op a b)"
proof -
  have l: "LENGTH(8) + 2 \<le> LENGTH(16)" "5 \<le> LENGTH(8)" by simp_all
  have f: "(a + b + of_bool cin, set_add_carry (logic_flags c (a + b + of_bool cin)) (ucast a) (ucast b)
      (ucast (a + b + of_bool cin)) (2 ^ LENGTH(8) \<le> uint a + uint b + of_bool cin)) = no_overflow (ref_add c cin a b)" for cin
    unfolding ref_add_bits [OF l(2)] setters Let_def no_overflow_def fst_conv snd_conv
      narrow_carry_flags(1) [symmetric] by (rule refl)
  have g: "(a - b - of_bool cin, set_sub_borrow (logic_flags c (a - b - of_bool cin)) (ucast a) (ucast b)
      (ucast (a - b - of_bool cin)) (uint a - uint b - of_bool cin < 0)) = no_overflow (ref_sub c cin a b)" for cin
    unfolding ref_sub_bits [OF l(2)] setters Let_def no_overflow_def fst_conv snd_conv
      narrow_carry_flags(2) [symmetric] by (rule refl)
  have z: "a + b = a + b + of_bool False" "a - b = a - b - of_bool False" by simp_all
  have "alu8 c Add a b = no_overflow (ref_add c False a b)" "alu8 c Sub a b = no_overflow (ref_sub c False a b)"
    "alu8 c Cmp a b = no_overflow (ref_sub c False a b)"
    unfolding f [symmetric] g [symmetric]
    by (simp add: alu8_def setters(1) overflowing_add_def carry_wrapped,
        (simp add: alu8_def setters(1) overflowing_sub_def borrow_wrapped0)+)
  moreover have "alu8 c Adc a b = no_overflow (ref_add c (get_flag c fCF) a b)"
    "alu8 c Sbb a b = no_overflow (ref_sub c (get_flag c fCF) a b)"
    unfolding f [symmetric] g [symmetric] alu8_def Let_def aluop.case setters(1) of_bool_words over_mask wide_sum [OF l(1)]
    by (rule refl)+
  moreover have "alu8 c And a b = no_overflow (ref_logic c (a AND b))" "alu8 c Or a b = no_overflow (ref_logic c (a OR b))"
    "alu8 c Xor a b = no_overflow (ref_logic c (a XOR b))"
    unfolding clear_co_narrow [symmetric] by (simp_all add: alu8_def setters(1) Let_def)
  ultimately show ?thesis by (cases op) (simp_all only: alu_ref_def aluop.case)
qed

section \<open>The ALU is integer arithmetic\<close>

text \<open>C37: At 16, 32 and 64 bits the ALU is integer arithmetic: the result is the integer sum or difference
  (with the carry in) cut to the width, CF and OF say that it left the unsigned or the signed
  range, AF that the low digit carried, SF, ZF and PF read the result, and the logical operations
  clear CF and OF. At 8 bits the same holds of everything but OF, which is always clear.\<close>

theorem alu_is_integer_arithmetic:
  "alu_w c op a b 64 = alu_ref c op a b \<and>
   alu_w c op a b 32 = map_prod ucast id (alu_ref c op (ucast a :: u32) (ucast b)) \<and>
   alu_w c op a b 16 = map_prod ucast id (alu_ref c op (ucast a :: u16) (ucast b)) \<and>
   alu_w c op a b 8 = map_prod ucast id (no_overflow (alu_ref c op (ucast a :: u8) (ucast b)))"
  by (simp add: alu_w_def alu64_ref alu32_ref alu16_ref alu8_ref map_prod_def split_beta Let_def)

lemma flags_put:
  "get_flag (put_flags c r k h v) fCF = k" "get_flag (put_flags c r k h v) fOF = v"
  "get_flag (put_flags c r k h v) fSF = (sint r < 0)" "get_flag (put_flags c r k h v) fZF = (r = 0)"
  by (simp_all add: put_flags_def flag_roundtrip)

lemma sub_sign_nat:
  "x < 2 * h \<Longrightarrow> y < 2 * h \<Longrightarrow>
   z = (if x < y + of_bool False then x + 2 * h - (y + of_bool False) else x - (y + of_bool False)) \<Longrightarrow>
   ((signed_of h z < 0) \<noteq> (\<not> (- int h \<le> signed_of h x - signed_of h y \<and> signed_of h x - signed_of h y < int h))) =
   (signed_of h x < signed_of h y)"
  by (auto simp: signed_of_def split: if_splits)

lemma sub_sign:
  fixes a b :: "'a::len word"
  shows "((sint (a - b) < 0) \<noteq> (\<not> signed_range TYPE('a) (sint a - sint b))) = (sint a < sint b)"
proof -
  define h :: nat where "h = 2 ^ (LENGTH('a) - 1)"
  have w: "2 * h = 2 ^ LENGTH('a)" unfolding h_def by (rule half_power [symmetric])
  have l: "unat a < 2 * h" "unat b < 2 * h" unfolding w by (rule unsigned_less)+
  have "unat (a - b) = unat (a - b - of_bool False)" by simp
  note n = this [unfolded sub_unat_if [OF w]]
  show ?thesis
    using sub_sign_nat [OF l n] unfolding sint_signed_of signed_range_def by (simp add: h_def)
qed

lemma compare_ref:
  fixes a b :: "'a::len word"
  shows "cond_test (snd (alu_ref c Cmp a b)) Cond_E = (a = b)" "cond_test (snd (alu_ref c Cmp a b)) Cond_B = (a < b)"
    "cond_test (snd (alu_ref c Cmp a b)) Cond_Be = (a \<le> b)" "cond_test (snd (alu_ref c Cmp a b)) Cond_L = (sint a < sint b)"
    "cond_test (snd (alu_ref c Cmp a b)) Cond_Le = (sint a \<le> sint b)"
proof -
  have r: "word_of_int (uint a - uint b - of_bool False) = a - b" by simp
  have s: "snd (alu_ref c Cmp a b) = put_flags c (a - b) (uint a - uint b - of_bool False < 0)
      (uint a mod 16 - uint b mod 16 - of_bool False < 0) (\<not> signed_range TYPE('a) (sint a - sint b - of_bool False))"
    unfolding alu_ref_def aluop.case ref_sub_def Let_def r by simp
  note f = flags_put [of c "a - b" _ _ _, unfolded fCF_def fZF_def fSF_def fOF_def]
  show "cond_test (snd (alu_ref c Cmp a b)) Cond_E = (a = b)" "cond_test (snd (alu_ref c Cmp a b)) Cond_B = (a < b)"
    "cond_test (snd (alu_ref c Cmp a b)) Cond_Be = (a \<le> b)"
    unfolding s by (simp_all add: cond_test_def f word_less_def order.order_iff_strict [of a b])
  show "cond_test (snd (alu_ref c Cmp a b)) Cond_L = (sint a < sint b)"
    using sub_sign [of a b] unfolding s by (simp add: cond_test_def f)
  then show "cond_test (snd (alu_ref c Cmp a b)) Cond_Le = (sint a \<le> sint b)"
    unfolding s by (simp add: cond_test_def f order.order_iff_strict [of "sint a"]) (auto intro: signed_word_eqI)
qed

text \<open>C38: After a compare the conditions of the conditional jumps are the orders of the operands, at 16, 32
  and 64 bits: E is equality, B and BE the unsigned orders, L and LE the signed ones.\<close>

theorem compare_conditions:
  "let t64 = cond_test (snd (alu64 c Cmp a b)); t32 = cond_test (snd (alu32 c Cmp p q)); t16 = cond_test (snd (alu16 c Cmp x y)) in
   (t64 Cond_E = (a = b) \<and> t64 Cond_B = (a < b) \<and> t64 Cond_Be = (a \<le> b) \<and>
     t64 Cond_L = (sint a < sint b) \<and> t64 Cond_Le = (sint a \<le> sint b)) \<and>
   (t32 Cond_E = (p = q) \<and> t32 Cond_B = (p < q) \<and> t32 Cond_Be = (p \<le> q) \<and>
     t32 Cond_L = (sint p < sint q) \<and> t32 Cond_Le = (sint p \<le> sint q)) \<and>
   (t16 Cond_E = (x = y) \<and> t16 Cond_B = (x < y) \<and> t16 Cond_Be = (x \<le> y) \<and>
     t16 Cond_L = (sint x < sint y) \<and> t16 Cond_Le = (sint x \<le> sint y))"
  by (simp add: alu64_ref alu32_ref alu16_ref compare_ref)

text \<open>
  At eight bits the signed conditions are wrong: the overflow flag is taken from
  bit 15 of values that have eight, so -128 compares as not less than 1.
\<close>

lemma compare8_signed_wrong:
  "\<not> cond_test (snd (alu8 small_machine Cmp 0x80 1)) Cond_L" "sint (0x80 :: u8) < sint (1 :: u8)"
proof -
  show "\<not> cond_test (snd (alu8 small_machine Cmp 0x80 1)) Cond_L"
    by (simp add: alu8_ref no_overflow_def alu_ref_def ref_sub_def Let_def put_flags_def cond_test_def flag_roundtrip)
  show "sint (0x80 :: u8) < sint (1 :: u8)" by simp
qed

end
