(* ===== verification/Shift_Laws.thy ===== *)
theory Shift_Laws imports Alu_Laws begin

text \<open>
  Shifts and rotates bit by bit: every result bit and the new carry, at every
  width and count. The rotates through carry are rotations of the operand with
  the carry on top, computed in one word at 8, 16 and 32 bits and by a loop at
  64 bits.
\<close>

unbundle bit_operations_syntax

section \<open>Masks and extensions\<close>

lemma inst_mask: "w \<le> 64 \<Longrightarrow> inst_mask_w w = mask w"
  by (cases "w = 64") (simp_all add: inst_mask_w_def mask_eq_exp_minus_1)

lemma bit_cut: "w \<le> 64 \<Longrightarrow> bit (v AND inst_mask_w w) i \<longleftrightarrow> i < w \<and> bit v i"
  by (simp add: inst_mask bit_simps) (auto dest: bit_imp_le_length)

lemma low_bit: "x AND 1 \<noteq> 0 \<longleftrightarrow> bit x 0" for x :: u64
  using and_pow2_nonzero [of 0 x] by simp

lemma top_bit: "n < 64 \<Longrightarrow> x AND 2 ^ n \<noteq> 0 \<longleftrightarrow> bit x n" for x :: u64
  using and_pow2_nonzero [of n x] by simp

lemma bit_sign_extend:
  "w \<in> {8, 16, 32, 64} \<Longrightarrow> bit (sign_extend v w) i \<longleftrightarrow> i < 64 \<and> bit v (min i (w - 1))"
  by (auto simp: sign_extend_def bit_simps min_def dest: bit_imp_le_length)

section \<open>Rotations in one word\<close>

lemma mod_sub: "j < s \<Longrightarrow> k < s \<Longrightarrow> (j + s - k) mod s = (if k \<le> j then j - k else j + s - k)" for j k s :: nat
  by (auto simp: mod_if)

lemma mod_add_lt: "j < s \<Longrightarrow> k < s \<Longrightarrow> (j + k) mod s = (if j + k < s then j + k else j + k - s)" for j k s :: nat
  by (auto simp: mod_if)

lemma bit_rotate_left:
  assumes "\<And>i. bit x i \<Longrightarrow> i < s" "0 < k" "k < s" "s \<le> 64"
  shows "bit ((push_bit k x OR drop_bit (s - k) x) AND mask s) i \<longleftrightarrow> i < s \<and> bit (x :: u64) ((i + s - k) mod s)"
proof (cases "i < s")
  case True
  have "k \<le> i \<Longrightarrow> \<not> bit x (i + s - k)" using assms(1) [of "i + s - k"] by auto
  then show ?thesis using assms True
    by (auto simp: mod_sub bit_simps ac_simps)
next
  case False
  then show ?thesis by (simp add: bit_simps)
qed

lemma bit_rotate_right:
  assumes "\<And>i. bit x i \<Longrightarrow> i < s" "0 < k" "k < s" "s \<le> 64"
  shows "bit ((drop_bit k x OR push_bit (s - k) x) AND mask s) i \<longleftrightarrow> i < s \<and> bit (x :: u64) ((i + k) mod s)"
proof (cases "i < s")
  case True
  then show ?thesis using assms assms(1) [of "i + k"]
    by (auto simp: mod_add_lt bit_simps ac_simps)
next
  case False
  then show ?thesis by (simp add: bit_simps)
qed

section \<open>The 65-bit rotation\<close>

text \<open>An operand of \<open>w\<close> bits with the carry on top.\<close>

definition with_carry :: "nat \<Rightarrow> u64 \<Rightarrow> bool \<Rightarrow> nat \<Rightarrow> bool" where
  "with_carry w v c j = (if j = w then c else bit v j)"

lemma rcl64_bits: "j < 65 \<Longrightarrow> with_carry 64 (fst (rcl64 k v c)) (snd (rcl64 k v c)) j = with_carry 64 v c ((j + 64 * k) mod 65)"
proof (induction k arbitrary: v c)
  case (Suc k)
  have step: "with_carry 64 (push_bit 1 v OR bool_to c) (drop_bit 63 v \<noteq> 0) i = with_carry 64 v c ((i + 64) mod 65)" if "i < 65" for i
  proof -
    have "drop_bit 63 v \<noteq> 0 \<longleftrightarrow> bit v 63"
    proof -
      have "drop_bit 63 v = drop_bit 63 v AND 1" by (rule bit_word_eqI) (auto simp: bit_simps dest: bit_imp_le_length)
      then show ?thesis using low_bit [of "drop_bit 63 v"] by (simp add: bit_simps)
    qed
    moreover have "bit (v * 2) i \<longleftrightarrow> 0 < i \<and> i < 64 \<and> bit v (i - 1)"
      using bit_push_bit_iff [of 1 v i] by (auto simp: possible_bit_word)
    moreover have "(i + 64) mod 65 = (if i = 0 then 64 else i - 1)" using that by (auto simp: mod_if)
    ultimately show ?thesis using that by (auto simp: with_carry_def bit_simps)
  qed
  show ?case using Suc step [of "(j + 64 * k) mod 65"] by (simp add: mod_simps ac_simps)
qed (simp add: with_carry_def)

lemma rcr64_bits: "j < 65 \<Longrightarrow> with_carry 64 (fst (rcr64 k v c)) (snd (rcr64 k v c)) j = with_carry 64 v c ((j + k) mod 65)"
proof (induction k arbitrary: v c)
  case (Suc k)
  have step: "with_carry 64 (drop_bit 1 v OR push_bit 63 (bool_to c)) (v AND 1 \<noteq> 0) i = with_carry 64 v c ((i + 1) mod 65)" if "i < 65" for i
  proof -
    have "(i + 1) mod 65 = (if i = 64 then 0 else i + 1)" using that by (auto simp: mod_if)
    then show ?thesis using that by (auto simp: with_carry_def bit_simps low_bit dest: bit_imp_le_length)
  qed
  show ?case using Suc step [of "(j + k) mod 65"] by (simp add: mod_simps ac_simps)
qed (simp add: with_carry_def)

lemma rcl64_turn: "k < 65 \<Longrightarrow> 0 < k \<Longrightarrow> (j + 64 * k) mod 65 = (j + 65 - k) mod (65 :: nat)"
proof -
  assume "k < 65" "0 < k"
  then obtain d where "k = Suc d" by (cases k) auto
  then have "j + 64 * k = (j + 65 - k) + 65 * d" using \<open>k < 65\<close> by simp
  then show ?thesis by simp
qed

section \<open>Every shift, bit by bit\<close>

lemma carry_kept: "get_flag (set_logic_flags_width c r w) 1 = get_flag c 1"
  by (simp add: set_logic_flags_width_def set_logic_flags8_def set_logic_flags16_def set_logic_flags32_def
      set_logic_flags64_def flag_roundtrip)

lemma carry_set: "get_flag (set_flag c 1 b) 1 = b" "get_flag (set_flag c 0x800 b) 1 = get_flag c 1"
  by (simp_all add: flag_roundtrip)

lemma rcx_carry: "get_flag (rcx_overflow c left r n w cf) 1 = get_flag c 1"
  by (simp add: rcx_overflow_def Let_def carry_set)

lemma shl_bits:
  assumes "0 < n" "n < 64" "w \<le> 64" "0 < w" "\<And>i. bit v i \<Longrightarrow> i < w"
  shows "bit (fst (shift_shl c v n w)) i \<longleftrightarrow> i < w \<and> n \<le> i \<and> bit v (i - n)"
    and "get_flag (snd (shift_shl c v n w)) fCF \<longleftrightarrow> n \<le> w \<and> bit v (w - n)"
  using assms
  by (auto simp: shift_shl_def Let_def inst_mask bit_simps low_bit carry_set carry_kept min_absorb1)

lemma shr_bits:
  assumes "0 < n" "n < 64" "w \<le> 64" "0 < w" "\<And>i. bit v i \<Longrightarrow> i < w"
  shows "bit (fst (shift_shr c v n w)) i \<longleftrightarrow> bit v (i + n)"
    and "get_flag (snd (shift_shr c v n w)) fCF \<longleftrightarrow> n \<le> w \<and> bit v (n - 1)"
proof -
  have "\<not> bit v (i + n)" if "w \<le> n" for i using assms(5) [of "i + n"] that by auto
  then show "bit (fst (shift_shr c v n w)) i \<longleftrightarrow> bit v (i + n)"
    using assms(1-4) by (auto simp: shift_shr_def Let_def bit_simps ac_simps)
  show "get_flag (snd (shift_shr c v n w)) fCF \<longleftrightarrow> n \<le> w \<and> bit v (n - 1)"
    using assms(1-4) by (auto simp: shift_shr_def Let_def bit_simps low_bit carry_set carry_kept)
qed

lemma sar_bits:
  assumes "0 < n" "n < 64" "w \<in> {8, 16, 32, 64}"
  shows "bit (fst (shift_sar c v n w)) i \<longleftrightarrow> i < w \<and> bit v (min (i + n) (w - 1))"
    and "get_flag (snd (shift_sar c v n w)) fCF \<longleftrightarrow> bit v (min (n - 1) (w - 1))"
proof -
  have w: "w \<le> 64" "0 < w" using assms(3) by auto
  have sd: "bit (signed_drop_bit m (sign_extend v w)) j \<longleftrightarrow> bit v (min (j + m) (w - 1))" if "m < w" "j < w" for m j
  proof -
    have "bit (signed_drop_bit m (sign_extend v w)) j \<longleftrightarrow> bit (sign_extend v w) (if 64 - m \<le> j then 63 else m + j)"
      using that w by (simp add: bit_signed_drop_bit_iff)
    moreover have "min 63 (w - 1) = w - 1" using w by simp
    moreover have "min (j + m) (w - 1) = w - 1" if "64 - m \<le> j" using that w by simp
    moreover have "j + m < 64" if "\<not> 64 - m \<le> j" using that by simp
    ultimately show ?thesis using that w
      by (cases "64 - m \<le> j") (simp_all add: bit_sign_extend [OF assms(3)] add.commute)
  qed
  show "bit (fst (shift_sar c v n w)) i \<longleftrightarrow> i < w \<and> bit v (min (i + n) (w - 1))"
  proof (cases "i < w")
    case True
    have "min (i + min n (w - 1)) (w - 1) = min (i + n) (w - 1)" by auto
    then show ?thesis using sd [of "min n (w - 1)" i] True w by (simp add: shift_sar_def Let_def bit_cut)
  qed (use w in \<open>simp add: shift_sar_def Let_def bit_cut\<close>)
  show "get_flag (snd (shift_sar c v n w)) fCF \<longleftrightarrow> bit v (min (n - 1) (w - 1))"
    using sd [of "min (n - 1) (w - 1)" 0] w by (simp add: shift_sar_def Let_def low_bit carry_set carry_kept)
qed

lemma rol_bits:
  assumes "w \<le> 64" "0 < w" "\<And>i. bit v i \<Longrightarrow> i < w"
  shows "bit (fst (shift_rol c v n w)) i \<longleftrightarrow> i < w \<and> bit v ((i + w - n mod w) mod w)"
    and "get_flag (snd (shift_rol c v n w)) fCF \<longleftrightarrow> bit v ((w - n mod w) mod w)"
proof -
  show r: "bit (fst (shift_rol c v n w)) i \<longleftrightarrow> i < w \<and> bit v ((i + w - n mod w) mod w)" for i
    using assms(3) [of i] bit_rotate_left [of v w "n mod w" i] assms
    by (auto simp: shift_rol_def Let_def inst_mask)
  have "get_flag (snd (shift_rol c v n w)) fCF = bit (fst (shift_rol c v n w)) 0"
    by (simp add: shift_rol_def Let_def low_bit carry_set)
  then show "get_flag (snd (shift_rol c v n w)) fCF \<longleftrightarrow> bit v ((w - n mod w) mod w)"
    using r [of 0] assms(2) by simp
qed

lemma ror_bits:
  assumes "w \<le> 64" "0 < w" "\<And>i. bit v i \<Longrightarrow> i < w"
  shows "bit (fst (shift_ror c v n w)) i \<longleftrightarrow> i < w \<and> bit v ((i + n mod w) mod w)"
    and "get_flag (snd (shift_ror c v n w)) fCF \<longleftrightarrow> bit v ((w - 1 + n mod w) mod w)"
proof -
  show r: "bit (fst (shift_ror c v n w)) i \<longleftrightarrow> i < w \<and> bit v ((i + n mod w) mod w)" for i
    using assms(3) [of i] bit_rotate_right [of v w "n mod w" i] assms
    by (auto simp: shift_ror_def Let_def inst_mask)
  have "get_flag (snd (shift_ror c v n w)) fCF = bit (fst (shift_ror c v n w)) (w - 1)"
    using assms by (simp add: shift_ror_def Let_def top_bit carry_set)
  then show "get_flag (snd (shift_ror c v n w)) fCF \<longleftrightarrow> bit v ((w - 1 + n mod w) mod w)"
    using r [of "w - 1"] assms(2) by simp
qed

lemma bit_with_carry_word:
  assumes "w < 64" "\<And>i. bit v i \<Longrightarrow> i < w"
  shows "bit (v OR push_bit w (bool_to c)) j \<longleftrightarrow> j \<le> w \<and> with_carry w v c j"
  using assms(1) assms(2) [of j] by (auto simp: with_carry_def bit_simps)

lemma mod_back: "j < s \<Longrightarrow> k < s \<Longrightarrow> (j + s - k) mod s < s" for j k s :: nat
  by simp

text \<open>Rotates through carry in one word, left and right.\<close>

lemma narrow_rcl:
  fixes v :: u64 and c :: bool and w k :: nat
  assumes "w < 63" "\<And>i. bit v i \<Longrightarrow> i < w" "k < w + 1"
  defines "x \<equiv> v OR push_bit w (bool_to c)"
  shows "bit (if k = 0 then x else (push_bit k x OR drop_bit (w + 1 - k) x) AND mask (w + 1)) i \<longleftrightarrow>
    i < w + 1 \<and> with_carry w v c ((i + (w + 1) - k) mod (w + 1))"
proof -
  have x: "bit x j \<longleftrightarrow> j \<le> w \<and> with_carry w v c j" for j
    unfolding x_def by (rule bit_with_carry_word) (use assms in auto)
  have l: "bit x j \<Longrightarrow> j < w + 1" for j using x [of j] by simp
  have "(i + (w + 1) - k) mod (w + 1) \<le> w" by (metis Suc_eq_plus1 less_Suc_eq_le mod_less_divisor zero_less_Suc)
  moreover have "(i + (w + 1)) mod (w + 1) = i" if "i < w + 1" using that by (simp only: mod_add_self2 mod_less)
  ultimately show ?thesis
    using x [of i] x [of "(i + (w + 1) - k) mod (w + 1)"] bit_rotate_left [of x "w + 1" k i] l assms(1,3)
    by (cases "k = 0"; cases "i < w + 1") auto
qed

lemma narrow_rcr:
  fixes v :: u64 and c :: bool and w k :: nat
  assumes "w < 63" "\<And>i. bit v i \<Longrightarrow> i < w" "k < w + 1"
  defines "x \<equiv> v OR push_bit w (bool_to c)"
  shows "bit (if k = 0 then x else (drop_bit k x OR push_bit (w + 1 - k) x) AND mask (w + 1)) i \<longleftrightarrow>
    i < w + 1 \<and> with_carry w v c ((i + k) mod (w + 1))"
proof -
  have x: "bit x j \<longleftrightarrow> j \<le> w \<and> with_carry w v c j" for j
    unfolding x_def by (rule bit_with_carry_word) (use assms in auto)
  have l: "bit x j \<Longrightarrow> j < w + 1" for j using x [of j] by simp
  have "(i + k) mod (w + 1) \<le> w" by (metis Suc_eq_plus1 less_Suc_eq_le mod_less_divisor zero_less_Suc)
  then show ?thesis
    using x [of i] x [of "(i + k) mod (w + 1)"] bit_rotate_right [of x "w + 1" k i] l assms(1,3) by auto
qed

lemma rcx_narrow:
  assumes "w < 63" "\<And>i. bit v i \<Longrightarrow> i < w"
  shows "bit (fst (shift_rcx c left v n w)) i \<longleftrightarrow> i < w \<and> with_carry w v (get_flag c fCF)
      ((if left then i + (w + 1) - n mod (w + 1) else i + n mod (w + 1)) mod (w + 1))"
    and "get_flag (snd (shift_rcx c left v n w)) fCF \<longleftrightarrow> with_carry w v (get_flag c fCF)
      ((if left then w + (w + 1) - n mod (w + 1) else w + n mod (w + 1)) mod (w + 1))"
proof -
  define k where "k = n mod (w + 1)"
  define x where "x = v OR push_bit w (bool_to (get_flag c fCF))"
  define L R where "L = (if k = 0 then x else (push_bit k x OR drop_bit (w + 1 - k) x) AND mask (w + 1))"
    and "R = (if k = 0 then x else (drop_bit k x OR push_bit (w + 1 - k) x) AND mask (w + 1))"
  have k: "k < w + 1" by (simp add: k_def)
  have w: "w \<le> 64" using assms(1) by simp
  have m: "push_bit (w + 1) 1 - 1 = (mask (w + 1) :: u64)" by (simp only: mask_eq_exp_minus_1 push_bit_eq_mult mult_1)
  have L: "bit L i \<longleftrightarrow> i < w + 1 \<and> with_carry w v (get_flag c fCF) ((i + (w + 1) - k) mod (w + 1))" for i
    unfolding L_def x_def by (rule narrow_rcl [OF assms(1) assms(2) k])
  have R: "bit R i \<longleftrightarrow> i < w + 1 \<and> with_carry w v (get_flag c fCF) ((i + k) mod (w + 1))" for i
    unfolding R_def x_def by (rule narrow_rcr [OF assms(1) assms(2) k])
  have u: "shift_rcx c left v n w = (let rot = (if left then L else R); r = rot AND inst_mask_w w; cf = (drop_bit w rot AND 1 \<noteq> 0)
      in (r, rcx_overflow (set_flag c fCF cf) left r n w cf))"
  proof -
    have n: "(w = 64) = False" using assms(1) by simp
    show ?thesis unfolding shift_rcx_def Let_def m L_def R_def x_def k_def n by (cases left) (simp_all only: if_True if_False)
  qed
  have f: "bit (fst (shift_rcx c left v n w)) i \<longleftrightarrow> i < w \<and> bit (if left then L else R) i"
    unfolding u Let_def fst_conv by (rule bit_cut [OF w])
  have g: "get_flag (snd (shift_rcx c left v n w)) fCF \<longleftrightarrow> bit (if left then L else R) w"
    unfolding u Let_def snd_conv low_bit by (simp add: rcx_carry carry_set bit_drop_bit_eq)
  show "bit (fst (shift_rcx c left v n w)) i \<longleftrightarrow> i < w \<and> with_carry w v (get_flag c fCF)
      ((if left then i + (w + 1) - n mod (w + 1) else i + n mod (w + 1)) mod (w + 1))"
    unfolding f k_def [symmetric] by (cases left; cases "i < w") (simp_all only: L R if_True if_False, simp_all)
  show "get_flag (snd (shift_rcx c left v n w)) fCF \<longleftrightarrow> with_carry w v (get_flag c fCF)
      ((if left then w + (w + 1) - n mod (w + 1) else w + n mod (w + 1)) mod (w + 1))"
    unfolding g k_def [symmetric] by (cases left) (simp_all only: L R if_True if_False, simp_all)
qed

text \<open>The loop at 64 bits.\<close>

lemma rcx_wide:
  shows "bit (fst (shift_rcx c left v n 64)) i \<longleftrightarrow> i < 64 \<and> with_carry 64 v (get_flag c fCF)
      ((if left then i + 65 - n mod 65 else i + n mod 65) mod 65)"
    and "get_flag (snd (shift_rcx c left v n 64)) fCF \<longleftrightarrow> with_carry 64 v (get_flag c fCF)
      ((if left then 64 + 65 - n mod 65 else 64 + n mod 65) mod 65)"
proof -
  define k where "k = n mod 65"
  have k: "k < 65" by (simp add: k_def)
  have t: "(j + 64 * k) mod 65 = (j + 65 - k) mod 65" for j
    using rcl64_turn [OF k, of j] by (cases "k = 0") simp_all
  have bb: "(bool_to b :: u64) \<noteq> 0 \<longleftrightarrow> b" for b by (simp add: bool_to_def)
  define R where "R = rcl_rcr64 v (bool_to (get_flag c fCF)) k left"
  have u: "fst (shift_rcx c left v n 64) = fst R" "get_flag (snd (shift_rcx c left v n 64)) fCF = snd R"
    by (simp_all add: shift_rcx_def Let_def split_beta R_def k_def rcx_carry carry_set)
  have r: "with_carry 64 (fst R) (snd R) j = with_carry 64 v (get_flag c fCF) ((if left then j + 65 - k else j + k) mod 65)" if "j < 65" for j
    using rcl64_bits [OF that, of k v "get_flag c fCF"] rcr64_bits [OF that, of k v "get_flag c fCF"]
    by (simp add: R_def rcl_rcr64_def t bb)
  show "bit (fst (shift_rcx c left v n 64)) i \<longleftrightarrow> i < 64 \<and> with_carry 64 v (get_flag c fCF)
      ((if left then i + 65 - n mod 65 else i + n mod 65) mod 65)"
    using r [of i] unfolding u k_def [symmetric] by (cases "i < 64") (auto simp: with_carry_def dest: bit_imp_le_length)
  show "get_flag (snd (shift_rcx c left v n 64)) fCF \<longleftrightarrow> with_carry 64 v (get_flag c fCF)
      ((if left then 64 + 65 - n mod 65 else 64 + n mod 65) mod 65)"
    using r [of 64] unfolding u k_def [symmetric] by (simp add: with_carry_def)
qed

lemma rcx_bits:
  assumes "w \<in> {8, 16, 32, 64}" "\<And>i. bit v i \<Longrightarrow> i < w"
  shows "bit (fst (shift_rcx c left v n w)) i \<longleftrightarrow> i < w \<and> with_carry w v (get_flag c fCF)
      ((if left then i + (w + 1) - n mod (w + 1) else i + n mod (w + 1)) mod (w + 1))"
    and "get_flag (snd (shift_rcx c left v n w)) fCF \<longleftrightarrow> with_carry w v (get_flag c fCF)
      ((if left then w + (w + 1) - n mod (w + 1) else w + n mod (w + 1)) mod (w + 1))"
proof -
  have d: "w = 64 \<or> w < 63" using assms(1) by auto
  then show "bit (fst (shift_rcx c left v n w)) i \<longleftrightarrow> i < w \<and> with_carry w v (get_flag c fCF)
      ((if left then i + (w + 1) - n mod (w + 1) else i + n mod (w + 1)) mod (w + 1))"
    by (elim disjE) (simp add: rcx_wide [unfolded fCF_def], rule rcx_narrow(1), use assms(2) in auto)
  from d
  show "get_flag (snd (shift_rcx c left v n w)) fCF \<longleftrightarrow> with_carry w v (get_flag c fCF)
      ((if left then w + (w + 1) - n mod (w + 1) else w + n mod (w + 1)) mod (w + 1))"
    by (elim disjE) (simp add: rcx_wide [unfolded fCF_def], rule rcx_narrow(2), use assms(2) in auto)
qed


text \<open>Rotation through the carry: bit \<open>j\<close> of the \<open>w + 1\<close>-bit value read back through a rotation by \<open>n\<close>.\<close>

definition through_carry :: "bool \<Rightarrow> nat \<Rightarrow> nat \<Rightarrow> nat \<Rightarrow> nat" where
  "through_carry left w n j = ((if left then j + (w + 1) - n mod (w + 1) else j + n mod (w + 1)) mod (w + 1))"

text \<open>What each operation promises of a result bit and of the carry.\<close>

definition shifted_bit :: "shiftop \<Rightarrow> nat \<Rightarrow> nat \<Rightarrow> u64 \<Rightarrow> bool \<Rightarrow> nat \<Rightarrow> bool" where
  "shifted_bit op w n v carry i =
     (case op of
        Shl \<Rightarrow> n \<le> i \<and> bit v (i - n)
      | Shr \<Rightarrow> i + n < w \<and> bit v (i + n)
      | Sar \<Rightarrow> bit v (min (i + n) (w - 1))
      | Rol \<Rightarrow> bit v ((i + w - n mod w) mod w)
      | Ror \<Rightarrow> bit v ((i + n mod w) mod w)
      | Rcl \<Rightarrow> with_carry w v carry (through_carry True w n i)
      | Rcr \<Rightarrow> with_carry w v carry (through_carry False w n i))"

definition shifted_carry :: "shiftop \<Rightarrow> nat \<Rightarrow> nat \<Rightarrow> u64 \<Rightarrow> bool \<Rightarrow> bool" where
  "shifted_carry op w n v carry =
     (case op of
        Shl \<Rightarrow> n \<le> w \<and> bit v (w - n)
      | Shr \<Rightarrow> n \<le> w \<and> bit v (n - 1)
      | Sar \<Rightarrow> bit v (min (n - 1) (w - 1))
      | Rol \<Rightarrow> bit v ((w - n mod w) mod w)
      | Ror \<Rightarrow> bit v ((w - 1 + n mod w) mod w)
      | Rcl \<Rightarrow> with_carry w v carry (through_carry True w n w)
      | Rcr \<Rightarrow> with_carry w v carry (through_carry False w n w))"

lemma shift_count_small: "unat (n AND (if w = 64 then 0x3F else 0x1F)) < 64" for n :: u32
proof -
  have "n AND (if w = 64 then 0x3F else 0x1F) \<le> 0x3F"
    using word_and_le1 [of n "0x3F"] word_and_le1 [of n "0x1F"] by (auto intro: order_trans)
  then show ?thesis by (simp add: word_le_nat_alt)
qed

text \<open>C39: a shift or rotate by a non-zero masked count, at 8, 16, 32 or 64 bits, moves every bit
  where the operation says: logical shifts fill with zeros, the arithmetic shift with the sign, rotates
  turn the operand, rotates through carry turn it with the carry on top, and the carry flag is the bit
  that left last.\<close>

theorem shift_width_bits:
  assumes "w \<in> {8, 16, 32, 64}" and "n = unat (k AND (if w = 64 then 0x3F else 0x1F))" and "0 < n"
  shows "(\<forall>i. bit (fst (shift_width c op v k w)) i =
        (i < w \<and> shifted_bit op w n (v AND inst_mask_w w) (get_flag c fCF) i)) \<and>
      get_flag (snd (shift_width c op v k w)) fCF = shifted_carry op w n (v AND inst_mask_w w) (get_flag c fCF)"
proof -
  define x where "x = v AND inst_mask_w w"
  have w: "w \<le> 64" "0 < w" using assms(1) by auto
  have n: "n < 64" unfolding assms(2) by (rule shift_count_small)
  have x: "bit x i \<Longrightarrow> i < w" for i by (simp add: x_def bit_cut [OF w(1)])
  have u: "shift_width c op v k w = (case op of Shl \<Rightarrow> shift_shl c x n w | Shr \<Rightarrow> shift_shr c x n w
      | Sar \<Rightarrow> shift_sar c x n w | Rol \<Rightarrow> shift_rol c x n w | Ror \<Rightarrow> shift_ror c x n w
      | Rcl \<Rightarrow> shift_rcx c True x n w | Rcr \<Rightarrow> shift_rcx c False x n w)"
    using assms(3) by (simp only: shift_width_def Let_def assms(2) [symmetric] x_def if_not_P neq0_conv)
  note bits = shl_bits [OF assms(3) n w x] shr_bits [OF assms(3) n w x] sar_bits [OF assms(3) n assms(1)]
    rol_bits [OF w x] ror_bits [OF w x] rcx_bits [OF assms(1) x]
  have shr: "bit x (i + n) \<longleftrightarrow> i < w \<and> i + n < w \<and> bit x (i + n)" for i using x [of "i + n"] by auto
  have "bit (fst (shift_width c op v k w)) i \<longleftrightarrow> i < w \<and> shifted_bit op w n x (get_flag c fCF) i" for i
  proof (cases "op = Shr")
    case True
    then show ?thesis unfolding u by (simp only: shiftop.case shifted_bit_def bits) (rule shr)
  next
    case False
    then show ?thesis unfolding u
      by (cases op) (simp_all only: shiftop.case shifted_bit_def through_carry_def bits if_True if_False not_True_eq_False simp_thms)
  qed
  moreover have "get_flag (snd (shift_width c op v k w)) fCF \<longleftrightarrow> shifted_carry op w n x (get_flag c fCF)"
    unfolding u
    by (cases op) (simp_all only: shiftop.case shifted_carry_def through_carry_def bits if_True if_False)
  ultimately show ?thesis by (simp only: x_def) simp
qed

theorem shift_width_bits_witness:
  "get_flag (snd (shift_width (small_machine) Rcl 0x80 1 8)) fCF \<and> bit (fst (shift_width (small_machine) Shl 0x81 1 8)) 1"
  using shift_width_bits [of 8 1 1 "small_machine" Rcl "0x80"] shift_width_bits [of 8 1 1 "small_machine" Shl "0x81"]
  by (simp add: shifted_bit_def shifted_carry_def through_carry_def with_carry_def inst_mask_w_def)

end
