(* ===== verification/Spec2Isabelle.thy ===== *)
theory Spec2Isabelle
  imports Boot_Laws Failure_Laws Control_Theorems Memory_Theorems Pic Pit Kbd Cmos Dma Ide Vga Pci Fpu Virtio Protected Vmcs Mmu_Laws Shift_Laws Machine
begin

text \<open>
  A verified model of cuddles, an x86 PC emulator written in Rust. All source
  paths below are under src/src/.

  \<^bold>\<open>The program.\<close> One struct \<open>Cpu\<close> (cpu.rs) owns the whole machine: the
  registers, the physical memory (memory.rs), the interrupt controllers
  (pic.rs), the timer (pit.rs), the keyboard controller (kbd.rs), the clock
  (cmos.rs), the DMA controller (dma.rs), the ATA disk (ide.rs), the display
  (vga.rs), the PCI bus (pci.rs), the virtio block device (virtio.rs), the x87
  (fpu.rs) and the VMX state (vmx.rs). \<open>run\<close> repeats \<open>step\<close>; a step delivers the
  pending exception or polls the devices for an interrupt, decodes one
  instruction (\<open>decode_inst\<close> of instructions.rs, with sse.rs and vmx.rs for
  their opcodes) and executes it. A guest under VMX may leave for its
  hypervisor before the instruction, during it or at an exception. The
  instruction reaches memory through the page tables (paging.rs) and a TLB,
  the devices through the port dispatch, and the BIOS services (bios.rs)
  through software interrupts. The loaders (boot.rs) prepare the machine.

  \<^bold>\<open>The model.\<close> A struct is a \<open>record\<close> with the fields of the code, an enum a
  \<open>datatype\<close>, an integer a word of its width; a method that mutates its struct
  is a function that returns the new record, paired with the result if it has
  one. Fixed-size arrays indexed by masked numbers are functions. Every early
  return, fault and refusal is a branch. A fault of an instruction is data, as
  in the code: the field \<open>pending_exception\<close>, which later writes of the same
  instruction test. The value \<open>None\<close> of an \<open>option\<close> result is an execution the
  process does not survive: a decoder that never returns or a Rust panic.
  Arithmetic wraps, as in a release build, except where the code asks for
  something else; a division that overflows panics in every build and is
  \<open>None\<close>.

  \<^bold>\<open>The theories,\<close> from the bottom up:

  \<^item> Prelude: words, bytes, joins, maps and rules shared by all theories.
  \<^item> Memory_Model (memory.rs): RAM with its hole below 4 GiB, the VGA window,
    the accesses at 8 to 128 bits and their fast paths, the E820 map.
    Memory_Laws: well-formed memories, byte-level meaning of every width and
    the interface \<open>word_store\<close> (a read after a write) with its interpretations.
    Memory_Fields: disjoint fields. Memory_Theorems: the properties.
  \<^item> Pic, Pit, Kbd, Cmos, Ide, Vga, Pci, Fpu, Virtio, Dma (the file of the same
    name): each device with its state, its register accesses, its invariant
    and its properties.
  \<^item> Paging (paging.rs): the three walks and the radix walk they refine.
    Protected (protected.rs): segment descriptors. Vmcs (vmx.rs): the field
    encodings, capability registers and the field store.
  \<^item> Cpu_State, Cpu_Regs (cpu.rs): the machine record, the register file at
    every width, flags and modes. Mmu: the TLB, translation, control and
    model-specific registers, segment loads. Mmu_Laws: the TLB is transparent.
  \<^item> Cpu_Fetch, Cpu_Operands (cpu.rs, modrm.rs): the fetch cache, ModR/M,
    effective addresses, operands that straddle pages, the stack.
  \<^item> Alu (instructions.rs): arithmetic, flags, conditions, shifts. Alu_Laws,
    Shift_Laws: their integer and bit meaning.
  \<^item> Inst, Decode, Decode_Op: the type of instructions (the one enum of the code
    in groups, one datatype per group) and the decoder; the prefix loop is a
    \<open>partial_function\<close> because it has no bound in the code.
  \<^item> Exec_Core, Exec_Muldiv, Exec_Stack, Exec_Flow, Exec_System: the arms of
    \<open>execute\<close>, in the same groups.
  \<^item> Port_Io (cpu.rs): IN and OUT. Interrupts: frames, exception dispatch with
    double and triple faults, the device poll. Bios (bios.rs).
  \<^item> Vm_State, Vm_Ops, Vm_Intercept (vmx.rs): VM entry and exit, the VMX
    instructions, the intercepts.
  \<^item> Softfloat: IEEE 754 arithmetic on bit patterns, which stands for the host's
    \<open>f32\<close> and \<open>f64\<close>. Sse_Float, Sse_Exec, Sse_Int (sse.rs).
  \<^item> Machine: \<open>execute\<close>, \<open>step\<close>, \<open>run\<close> over everything above.
  \<^item> Boot (boot.rs): the loaders. Boot_Laws: their properties.

  \<^bold>\<open>What is shown of the whole machine.\<close> Control defines the control state of a
  machine (modes, privileged registers, the layout of memory, the states of
  the devices that carry invariants) and the lemmas that an operation leaves
  it alone, collected in \<open>ctl_frame\<close>; Control_Exec extends them through decoder
  and executor. Control_Safety states an abstract machine on control states,
  the inductive relation \<open>ctl_step\<close>, and proves that every step, turn and run of
  the detailed machine is a path of it. Control_Theorems collects invariants
  of the abstract machine in the locale \<open>ctl_invariant\<close>; its interpretations,
  one for each part of a well-formed machine, give what holds after any run:
  the machine stays well formed (\<open>machine_ok\<close>), the memory map never changes,
  the disk never interrupts.

  Exec_Laws, System_Laws and Failure_Laws state what single instructions mean:
  division, repeated moves, pairs of control transfers (SYSCALL and SYSRET, an
  interrupt and its IRET), and the exact list of executions that end in
  \<open>None\<close>. Boot_Laws shows that the 64-bit entry leaves a well-formed machine in
  long mode under an identity map, and that loading puts segments in place.

  \<^bold>\<open>Termination and bounds.\<close> Loops with a bound are structural recursions or
  functions with a measure: the byte loops count their bytes, the virtio queue
  its wrapped index distance, a descriptor chain its remaining length, the
  escalation of exceptions its depth, the string instructions their count
  register. The prefix loop is the only loop without one; \<open>Failure_Laws\<close> says
  exactly when it does not return. \<open>run\<close> takes the limit of instructions the
  code takes. Sizes of memories are at most 2^62 bytes in \<open>new_machine_ok\<close>, far
  above what a host can give.

  \<^bold>\<open>Interfaces.\<close> \<open>state_pred\<close> (Control) is a predicate kept through the shapes the
  code is composed of, interpreted for the control state, the layout of memory
  and the paths of the abstract machine; \<open>word_store\<close> (Memory_Laws) is a store
  of aligned words, interpreted for the accesses of 8 to 64 bits and for the
  FXSAVE image; \<open>ctl_invariant\<close> (Control_Theorems) is an invariant of the
  abstract machine.

  \<^bold>\<open>Not modelled.\<close> The command line and the terminal (main.rs) and the module list
  (lib.rs) are host input and output around the machine. Of the struct \<open>Cpu\<close> only the debugging
  instrumentation is left out: the trace file and its triggers, hit counters,
  watch logs, the syscall log and the breakpoint variables of the environment,
  which no guest-visible state depends on. Environment variables that do change
  behaviour (a fixed clock, the store watch, the TLB switch) are arguments of
  the initial state; the switch that turns page-splitting off is not set. The
  payload of a NaN produced by the host is taken to be the default quiet NaN.

  \<^bold>\<open>Where the code departs from the machine it models\<close> is recorded as it is, in the
  definitions, and several departures are lemmas, for instance that a division
  reports a divide error for an operand that page-faults
  (\<open>division_loses_operand_fault\<close>), that flags move before a fault
  (\<open>faulting_operand_moves_flags\<close>), that byte comparisons never set the overflow
  flag (\<open>compare8_signed_wrong\<close>), and that the wide memory paths differ from
  byte accesses at the edge of the hole (\<open>read_u16_hole_boundary\<close>).
\<close>

end
